(* ===== verification/Prelude.thy ===== *)
theory Prelude
  imports Main "HOL-Library.AList" "HOL-Library.Char_ord" "HOL-Library.List_Lexorder"
begin

text \<open>
  What every other theory shares: JSON values as Python holds them after
  \<^verbatim>\<open>json.loads\<close>, Python dictionaries as association lists in insertion order,
  exceptions as values, and the collections of simplification rules the component
  proofs use.

  A Python \<^verbatim>\<open>str\<close> is modelled by its UTF-8 encoding, a list of 8-bit characters. Equality,
  concatenation and prefix tests agree with Python's, and so does the order (UTF-8
  keeps the order of code points). A Python \<^verbatim>\<open>int\<close> is an \<open>int\<close>. A Python
  \<^verbatim>\<open>float\<close> is kept as its \<^verbatim>\<open>repr\<close> text: the code only ever asks for its type, its
  truth value and its text.
\<close>

section \<open>Rule collections\<close>

named_theorems state_simps \<open>unfolding rules of the state-changing operations\<close>
named_theorems inv_intros \<open>introduction rules: an operation keeps an invariant\<close>
named_theorems dict_simps \<open>look-up and update of Python dictionaries\<close>

section \<open>JSON values and dictionaries\<close>

datatype json =
    JNull
  | JBool bool
  | JInt int
  | JFloat string
  | JStr string
  | JArr "json list"
  | JObj "(string \<times> json) list"

type_synonym dict = "(string \<times> json) list"

text \<open>Python's truth value of a JSON value.\<close>

fun truthy :: "json \<Rightarrow> bool" where
  "truthy JNull = False"
| "truthy (JBool b) = b"
| "truthy (JInt n) = (n \<noteq> 0)"
| "truthy (JFloat r) = (r \<noteq> ''0.0'' \<and> r \<noteq> ''-0.0'')"
| "truthy (JStr s) = (s \<noteq> [])"
| "truthy (JArr xs) = (xs \<noteq> [])"
| "truthy (JObj d) = (d \<noteq> [])"

text \<open>
  \<^verbatim>\<open>d.get(k)\<close> (\<^verbatim>\<open>None\<close> and a stored null are not told apart, as in the code),
  \<^verbatim>\<open>d.get(k, v)\<close>, \<^verbatim>\<open>d[k] = v\<close> (in place, else at the end) and \<^verbatim>\<open>d.pop(k, None)\<close>.
\<close>

definition dget :: "dict \<Rightarrow> string \<Rightarrow> json" where
  "dget d k = (case map_of d k of None \<Rightarrow> JNull | Some v \<Rightarrow> v)"

definition dget_or :: "dict \<Rightarrow> string \<Rightarrow> json \<Rightarrow> json" where
  "dget_or d k v = (case map_of d k of None \<Rightarrow> v | Some x \<Rightarrow> x)"

definition dhas :: "dict \<Rightarrow> string \<Rightarrow> bool" where
  "dhas d k \<longleftrightarrow> k \<in> fst ` set d"

abbreviation dset :: "dict \<Rightarrow> string \<Rightarrow> json \<Rightarrow> dict" where
  "dset d k v \<equiv> AList.update k v d"

abbreviation dpop :: "dict \<Rightarrow> string \<Rightarrow> dict" where
  "dpop d k \<equiv> AList.delete k d"

text \<open>\<^verbatim>\<open>d.update(e)\<close>: the entries of \<open>e\<close> in their order.\<close>

fun dupdate :: "dict \<Rightarrow> dict \<Rightarrow> dict" where
  "dupdate d [] = d"
| "dupdate d ((k, v) # e) = dupdate (dset d k v) e"

definition as_dict :: "json \<Rightarrow> dict option" where
  "as_dict v = (case v of JObj d \<Rightarrow> Some d | _ \<Rightarrow> None)"

definition as_list :: "json \<Rightarrow> json list option" where
  "as_list v = (case v of JArr xs \<Rightarrow> Some xs | _ \<Rightarrow> None)"

definition as_str :: "json \<Rightarrow> string option" where
  "as_str v = (case v of JStr s \<Rightarrow> Some s | _ \<Rightarrow> None)"

text \<open>\<^verbatim>\<open>type(v) is int\<close>: a \<^verbatim>\<open>bool\<close> does not count.\<close>

definition as_int :: "json \<Rightarrow> int option" where
  "as_int v = (case v of JInt n \<Rightarrow> Some n | _ \<Rightarrow> None)"

definition is_dict :: "json \<Rightarrow> bool" where
  "is_dict v \<longleftrightarrow> as_dict v \<noteq> None"

definition is_str :: "json \<Rightarrow> bool" where
  "is_str v \<longleftrightarrow> as_str v \<noteq> None"

definition positive_int :: "json \<Rightarrow> bool" where
  "positive_int v \<longleftrightarrow> (case v of JInt n \<Rightarrow> 0 < n | _ \<Rightarrow> False)"

text \<open>Lists and dictionaries cannot be keys or members of a set.\<close>

definition hashable :: "json \<Rightarrow> bool" where
  "hashable v \<longleftrightarrow> (case v of JArr _ \<Rightarrow> False | JObj _ \<Rightarrow> False | _ \<Rightarrow> True)"

text \<open>\<^verbatim>\<open>v if isinstance(v, dict) else {}\<close>\<close>

definition dict_or_empty :: "json \<Rightarrow> dict" where
  "dict_or_empty v = (case v of JObj d \<Rightarrow> d | _ \<Rightarrow> [])"

lemma dget_Nil [dict_simps, simp]: "dget [] k = JNull"
  by (simp add: dget_def)

lemma dget_Cons [dict_simps, simp]: "dget ((k', v) # d) k = (if k = k' then v else dget d k)"
  by (simp add: dget_def)

lemma dget_or_Nil [dict_simps, simp]: "dget_or [] k v = v"
  by (simp add: dget_or_def)

lemma dget_or_Cons [dict_simps, simp]:
  "dget_or ((k', x) # d) k v = (if k = k' then x else dget_or d k v)"
  by (simp add: dget_or_def)

lemma dhas_Nil [dict_simps, simp]: "\<not> dhas [] k"
  by (simp add: dhas_def)

lemma dhas_Cons [dict_simps, simp]: "dhas ((k', v) # d) k \<longleftrightarrow> k = k' \<or> dhas d k"
  by (auto simp: dhas_def)

lemma dget_dset [dict_simps, simp]: "dget (dset d k v) k' = (if k' = k then v else dget d k')"
  by (simp add: dget_def update_conv')

lemma dget_or_dset [dict_simps, simp]:
  "dget_or (dset d k v) k' w = (if k' = k then v else dget_or d k' w)"
  by (simp add: dget_or_def update_conv')

lemma dhas_map_of: "dhas d k \<longleftrightarrow> map_of d k \<noteq> None"
  by (simp add: dhas_def map_of_eq_None_iff)

lemma dhas_dset [dict_simps, simp]: "dhas (dset d k v) k' \<longleftrightarrow> k' = k \<or> dhas d k'"
  by (simp add: dhas_map_of update_conv')

lemma dget_dpop [dict_simps, simp]: "dget (dpop d k) k' = (if k' = k then JNull else dget d k')"
  by (simp add: dget_def delete_conv')

lemma dhas_dpop [dict_simps, simp]: "dhas (dpop d k) k' \<longleftrightarrow> k' \<noteq> k \<and> dhas d k'"
  by (simp add: dhas_map_of delete_conv')

lemma not_dhas_dget: "\<not> dhas d k \<Longrightarrow> dget d k = JNull"
  by (simp add: dhas_map_of dget_def)

lemma as_dict_simps [simp]:
  "as_dict JNull = None" "as_dict (JBool b) = None" "as_dict (JInt n) = None"
  "as_dict (JFloat r) = None" "as_dict (JStr s) = None" "as_dict (JArr xs) = None"
  "as_dict (JObj d) = Some d"
  by (simp_all add: as_dict_def)

lemma as_list_simps [simp]:
  "as_list JNull = None" "as_list (JBool b) = None" "as_list (JInt n) = None"
  "as_list (JFloat r) = None" "as_list (JStr s) = None" "as_list (JArr xs) = Some xs"
  "as_list (JObj d) = None"
  by (simp_all add: as_list_def)

lemma as_str_simps [simp]:
  "as_str JNull = None" "as_str (JBool b) = None" "as_str (JInt n) = None"
  "as_str (JFloat r) = None" "as_str (JStr s) = Some s" "as_str (JArr xs) = None"
  "as_str (JObj d) = None"
  by (simp_all add: as_str_def)

lemma as_int_simps [simp]:
  "as_int JNull = None" "as_int (JBool b) = None" "as_int (JInt n) = Some n"
  "as_int (JFloat r) = None" "as_int (JStr s) = None" "as_int (JArr xs) = None"
  "as_int (JObj d) = None"
  by (simp_all add: as_int_def)

lemma as_str_Some_iff [simp]: "as_str v = Some s \<longleftrightarrow> v = JStr s"
  by (cases v) auto

lemma as_int_Some_iff [simp]: "as_int v = Some n \<longleftrightarrow> v = JInt n"
  by (cases v) auto

lemma as_dict_Some_iff [simp]: "as_dict v = Some d \<longleftrightarrow> v = JObj d"
  by (cases v) auto

lemma as_list_Some_iff [simp]: "as_list v = Some xs \<longleftrightarrow> v = JArr xs"
  by (cases v) auto

lemma positive_int_simps [simp]:
  "\<not> positive_int JNull" "\<not> positive_int (JBool b)" "positive_int (JInt n) \<longleftrightarrow> 0 < n"
  "\<not> positive_int (JFloat r)" "\<not> positive_int (JStr s)" "\<not> positive_int (JArr xs)"
  "\<not> positive_int (JObj d)"
  by (simp_all add: positive_int_def)

lemma dict_or_empty_simps [simp]:
  "dict_or_empty JNull = []" "dict_or_empty (JBool b) = []" "dict_or_empty (JInt n) = []"
  "dict_or_empty (JFloat r) = []" "dict_or_empty (JStr s) = []" "dict_or_empty (JArr xs) = []"
  "dict_or_empty (JObj d) = d"
  by (simp_all add: dict_or_empty_def)

lemma update_fresh: "map_of xs k = None \<Longrightarrow> AList.update k v xs = xs @ [(k, v)]"
  by (induction xs) (auto split: if_splits)

lemma find_append: "find P (xs @ ys) = (case find P xs of None \<Rightarrow> find P ys | Some x \<Rightarrow> Some x)"
  by (induction xs) auto

section \<open>Exceptions as values\<close>

text \<open>
  \<^verbatim>\<open>AsterunError\<close> carries its code and its details; the prose of message and next action
  is left out. The other constructors are the built-in exceptions the code can raise.
\<close>

datatype exn =
    AsterunError string dict
  | ValueError
  | TypeError
  | KeyError
  | IntegrityError
  | RuntimeError
  | IndexError
  | CapsuleTooLarge int

type_synonym 'a res = "exn + 'a"

abbreviation raise :: "string \<Rightarrow> 'a res" where
  "raise code \<equiv> Inl (AsterunError code [])"

definition bind_res :: "'a res \<Rightarrow> ('a \<Rightarrow> 'b res) \<Rightarrow> 'b res" where
  "bind_res r f = (case r of Inl e \<Rightarrow> Inl e | Inr x \<Rightarrow> f x)"

lemma bind_res_simps [simp]:
  "bind_res (Inl e) f = Inl e" "bind_res (Inr x) f = f x"
  by (simp_all add: bind_res_def)

lemma bind_res_Inr_iff: "bind_res r f = Inr y \<longleftrightarrow> (\<exists>x. r = Inr x \<and> f x = Inr y)"
  by (cases r) auto

lemma bind_res_InrE:
  assumes "bind_res r f = Inr y"
  obtains x where "r = Inr x" "f x = Inr y"
  using assms by (cases r) auto

definition ok_res :: "'a res \<Rightarrow> bool" where
  "ok_res r \<longleftrightarrow> (case r of Inl _ \<Rightarrow> False | Inr _ \<Rightarrow> True)"

text \<open>A list comprehension whose body may raise stops at the first exception.\<close>

fun map_res :: "('a \<Rightarrow> 'b res) \<Rightarrow> 'a list \<Rightarrow> 'b list res" where
  "map_res f [] = Inr []"
| "map_res f (x # xs) = bind_res (f x) (\<lambda>y. bind_res (map_res f xs) (\<lambda>ys. Inr (y # ys)))"

lemma map_res_Inr: "(\<And>x. x \<in> set xs \<Longrightarrow> f (g x) = Inr x) \<Longrightarrow> map_res f (map g xs) = Inr xs"
  by (induction xs) auto

section \<open>White space\<close>

text \<open>
  \<^verbatim>\<open>str.lstrip()\<close> on the UTF-8 encoding: the ASCII white space Python knows and the
  multi-byte encodings of the Unicode white space.
\<close>

definition ascii_space :: "char \<Rightarrow> bool" where
  "ascii_space c \<longleftrightarrow> of_char c \<in> set ([9, 10, 11, 12, 13, 28, 29, 30, 31, 32] :: nat list)"

definition space2 :: "char \<Rightarrow> char \<Rightarrow> bool" where
  "space2 a b \<longleftrightarrow> of_char a = (0xC2 :: nat) \<and> of_char b \<in> set ([0x85, 0xA0] :: nat list)"

definition space3 :: "char \<Rightarrow> char \<Rightarrow> char \<Rightarrow> bool" where
  "space3 a b c \<longleftrightarrow>
     (of_char a, of_char b, of_char c) \<in> set ([(0xE1, 0x9A, 0x80), (0xE2, 0x81, 0x9F),
        (0xE3, 0x80, 0x80), (0xE2, 0x80, 0xA8), (0xE2, 0x80, 0xA9), (0xE2, 0x80, 0xAF)]
        :: (nat \<times> nat \<times> nat) list)
   \<or> of_char a = (0xE2 :: nat) \<and> of_char b = (0x80 :: nat)
     \<and> of_char c \<in> set ([0x80, 0x81, 0x82, 0x83, 0x84, 0x85, 0x86, 0x87, 0x88, 0x89, 0x8A] :: nat list)"

fun lstrip :: "string \<Rightarrow> string" where
  "lstrip [] = []"
| "lstrip [a] = (if ascii_space a then [] else [a])"
| "lstrip [a, b] = (if ascii_space a then lstrip [b] else if space2 a b then [] else [a, b])"
| "lstrip (a # b # c # s) =
     (if ascii_space a then lstrip (b # c # s)
      else if space2 a b then lstrip (c # s)
      else if space3 a b c then lstrip s
      else a # b # c # s)"

text \<open>\<^verbatim>\<open>not s.strip()\<close>\<close>

definition is_blank :: "string \<Rightarrow> bool" where
  "is_blank s \<longleftrightarrow> lstrip s = []"

lemma not_blank_nonempty: "\<not> is_blank s \<Longrightarrow> s \<noteq> []"
  by (auto simp: is_blank_def)

text \<open>A printable ASCII first character is enough for a string not to be blank.\<close>

lemma not_blank_Cons: "\<not> ascii_space c \<Longrightarrow> of_char c < (0x80 :: nat) \<Longrightarrow> \<not> is_blank (c # s)"
  by (cases "(c # s)" rule: lstrip.cases) (auto simp: is_blank_def space2_def space3_def)

end
