(* ===== verification/Scheduler_Queue.thy ===== *)
theory Scheduler_Queue
  imports Prelude
begin

text \<open>
  The bounded queue and the per-backend concurrency of \<^verbatim>\<open>src/asterun/scheduler.py\<close>: the
  state is the \<^verbatim>\<open>Scheduler\<close> dataclass, one definition per method. \<^verbatim>\<open>inflight\<close> and
  \<^verbatim>\<open>workspaces\<close> are Python dictionaries (association lists), \<^verbatim>\<open>inflight_runs\<close> a set of
  run ids. The lemmas show that, when every run is always started and finished under
  its own backend, the counters are exactly the numbers of runs in flight, that starts
  admitted by \<^verbatim>\<open>can_start\<close> respect every limit and the one-run-per-workspace rule, and
  that the queue is served first in, first out among the items that can start.
\<close>

section \<open>State and operations\<close>

record sched_config =
  max_queue :: int
  per_backend_concurrency :: int
  max_runs_per_task :: int
  max_concurrency :: "int option"
  local_check_concurrency :: int

record queue_item =
  qi_backend :: string
  qi_task_id :: string
  qi_run_id :: string
  qi_workspace :: "string option"

record scheduler =
  sc_config :: sched_config
  inflight :: "(string \<times> int) list"
  inflight_runs :: "string set"
  queue :: "queue_item list"
  workspaces :: "(string \<times> string) list"

definition new_scheduler :: "sched_config \<Rightarrow> scheduler" where
  "new_scheduler c = \<lparr>sc_config = c, inflight = [], inflight_runs = {}, queue = [], workspaces = []\<rparr>"

definition inflight_for :: "scheduler \<Rightarrow> string \<Rightarrow> int" where
  "inflight_for s b = (case map_of (inflight s) b of None \<Rightarrow> 0 | Some n \<Rightarrow> n)"

definition inflight_total :: "scheduler \<Rightarrow> int" where
  "inflight_total s = sum_list (map snd (inflight s))"

definition can_start :: "scheduler \<Rightarrow> string \<Rightarrow> string option \<Rightarrow> bool" where
  "can_start s b w \<longleftrightarrow>
     (case max_concurrency (sc_config s) of None \<Rightarrow> True | Some m \<Rightarrow> inflight_total s < m)
     \<and> inflight_for s b < per_backend_concurrency (sc_config s)
     \<and> (case w of None \<Rightarrow> True | Some p \<Rightarrow> p \<notin> snd ` set (workspaces s))"

definition can_enqueue :: "scheduler \<Rightarrow> bool" where
  "can_enqueue s \<longleftrightarrow> int (length (queue s)) < max_queue (sc_config s)"

datatype admission = AdmitStart | AdmitQueue

definition admit :: "scheduler \<Rightarrow> string \<Rightarrow> string option \<Rightarrow> admission res" where
  "admit s b w =
     (if can_start s b w then Inr AdmitStart
      else if can_enqueue s then Inr AdmitQueue
      else Inl (AsterunError ''RATE_LIMITED''
        [(''max_queue'', JInt (max_queue (sc_config s))),
         (''queued'', JInt (int (length (queue s)))),
         (''inflight'', JInt (inflight_for s b)),
         (''backend'', JStr b)]))"

definition start :: "scheduler \<Rightarrow> string \<Rightarrow> string option \<Rightarrow> string option \<Rightarrow> scheduler" where
  "start s b r w =
     (case r of
        Some i \<Rightarrow>
          if i \<in> inflight_runs s then
            (case w of
               Some p \<Rightarrow> if i \<notin> fst ` set (workspaces s)
                         then s\<lparr>workspaces := AList.update i p (workspaces s)\<rparr> else s
             | None \<Rightarrow> s)
          else
            let s1 = s\<lparr>inflight := AList.update b (inflight_for s b + 1) (inflight s),
                       inflight_runs := insert i (inflight_runs s)\<rparr>
            in (case w of
                  Some p \<Rightarrow> s1\<lparr>workspaces := AList.update i p (workspaces s1)\<rparr>
                | None \<Rightarrow> s1)
      | None \<Rightarrow> s\<lparr>inflight := AList.update b (inflight_for s b + 1) (inflight s)\<rparr>)"

definition enqueue :: "scheduler \<Rightarrow> string \<Rightarrow> string \<Rightarrow> string \<Rightarrow> string option \<Rightarrow> scheduler" where
  "enqueue s b t r w =
     s\<lparr>queue := queue s @ [\<lparr>qi_backend = b, qi_task_id = t, qi_run_id = r, qi_workspace = w\<rparr>]\<rparr>"

definition remove :: "scheduler \<Rightarrow> string \<Rightarrow> scheduler" where
  "remove s r = s\<lparr>queue := filter (\<lambda>item. qi_run_id item \<noteq> r) (queue s)\<rparr>"

definition lower_inflight :: "scheduler \<Rightarrow> string \<Rightarrow> scheduler" where
  "lower_inflight s b =
     (if inflight_for s b \<le> 1 then s\<lparr>inflight := AList.delete b (inflight s)\<rparr>
      else s\<lparr>inflight := AList.update b (inflight_for s b - 1) (inflight s)\<rparr>)"

definition finish :: "scheduler \<Rightarrow> string \<Rightarrow> string option \<Rightarrow> scheduler" where
  "finish s b r =
     (case r of
        Some i \<Rightarrow>
          if i \<notin> inflight_runs s then s
          else lower_inflight (s\<lparr>inflight_runs := inflight_runs s - {i},
                                 workspaces := AList.delete i (workspaces s)\<rparr>) b
      | None \<Rightarrow> lower_inflight s b)"

fun take_ready :: "scheduler \<Rightarrow> queue_item list \<Rightarrow> (queue_item \<times> queue_item list) option" where
  "take_ready s [] = None"
| "take_ready s (item # items) =
     (if can_start s (qi_backend item) (qi_workspace item) then Some (item, items)
      else map_option (\<lambda>(x, rest). (x, item # rest)) (take_ready s items))"

definition dequeue_ready :: "scheduler \<Rightarrow> queue_item option \<times> scheduler" where
  "dequeue_ready s =
     (case take_ready s (queue s) of
        None \<Rightarrow> (None, s)
      | Some (item, rest) \<Rightarrow> (Some item, s\<lparr>queue := rest\<rparr>))"

definition snapshot :: "scheduler \<Rightarrow> dict" where
  "snapshot s =
     [(''max_queue'', JInt (max_queue (sc_config s))),
      (''per_backend_concurrency'', JInt (per_backend_concurrency (sc_config s))),
      (''max_concurrency'', case max_concurrency (sc_config s) of None \<Rightarrow> JNull | Some m \<Rightarrow> JInt m),
      (''local_check_concurrency'', JInt (local_check_concurrency (sc_config s))),
      (''queued'', JInt (int (length (queue s)))),
      (''inflight'', JObj (map (\<lambda>(b, n). (b, JInt n)) (inflight s))),
      (''queue'', JArr (map (\<lambda>item. JObj [(''backend'', JStr (qi_backend item)),
          (''task_id'', JStr (qi_task_id item)), (''run_id'', JStr (qi_run_id item))]) (queue s))),
      (''notes'', JObj [(''tuning_defaults_are_not_measured_slo'', JBool True)])]"

section \<open>Counting runs\<close>

text \<open>
  A run belongs to one backend for life (\<^verbatim>\<open>Run.backend\<close>); \<open>own\<close> is that assignment. The
  scheduler agrees with it when each counter is the number of the backend's runs in
  flight.
\<close>

definition runs_of :: "(string \<Rightarrow> string) \<Rightarrow> scheduler \<Rightarrow> string \<Rightarrow> string set" where
  "runs_of own s b = {r \<in> inflight_runs s. own r = b}"

definition sched_wf :: "(string \<Rightarrow> string) \<Rightarrow> scheduler \<Rightarrow> bool" where
  "sched_wf own s \<longleftrightarrow>
     finite (inflight_runs s)
     \<and> distinct (map fst (inflight s))
     \<and> (\<forall>b. inflight_for s b = int (card (runs_of own s b)))
     \<and> distinct (map fst (workspaces s))
     \<and> fst ` set (workspaces s) \<subseteq> inflight_runs s"

lemma sched_wfI [intro?]:
  "finite (inflight_runs s) \<Longrightarrow> distinct (map fst (inflight s)) \<Longrightarrow>
   (\<And>b. inflight_for s b = int (card (runs_of own s b))) \<Longrightarrow>
   distinct (map fst (workspaces s)) \<Longrightarrow> fst ` set (workspaces s) \<subseteq> inflight_runs s \<Longrightarrow>
   sched_wf own s"
  by (simp add: sched_wf_def)

lemma sum_list_map_of:
  "distinct (map fst xs) \<Longrightarrow>
   sum_list (map snd xs) = (\<Sum>k \<in> fst ` set xs. the (map_of xs k) :: int)"
proof (induction xs)
  case Nil
  then show ?case by simp
next
  case (Cons p xs)
  obtain k v where p: "p = (k, v)" by (cases p)
  with Cons.prems have new: "k \<notin> fst ` set xs" by auto
  then have "(\<Sum>j\<in>fst ` set xs. the (map_of (p # xs) j)) = (\<Sum>j\<in>fst ` set xs. the (map_of xs j))"
    by (intro sum.cong) (auto simp: p)
  with Cons new show ?case by (simp add: p)
qed

text \<open>The sum of the counters is the number of runs in flight.\<close>

lemma inflight_total_card:
  assumes "sched_wf own s"
  shows "inflight_total s = int (card (inflight_runs s))"
proof -
  let ?K = "fst ` set (inflight s)"
  have fin: "finite (inflight_runs s)" and dist: "distinct (map fst (inflight s))"
    and cnt: "\<And>b. inflight_for s b = int (card (runs_of own s b))"
    using assms by (auto simp: sched_wf_def)
  have "runs_of own s b = {}" if "b \<notin> ?K" for b
  proof -
    have "map_of (inflight s) b = None"
      using that by (simp add: map_of_eq_None_iff)
    then have "inflight_for s b = 0" by (simp add: inflight_for_def)
    with cnt[of b] fin show ?thesis by (simp add: runs_of_def)
  qed
  then have split: "inflight_runs s = (\<Union>b\<in>?K. runs_of own s b)"
    by (fastforce simp: runs_of_def)
  have "inflight_total s = (\<Sum>k\<in>?K. the (map_of (inflight s) k))"
    using dist by (simp add: inflight_total_def sum_list_map_of)
  also have "\<dots> = (\<Sum>k\<in>?K. inflight_for s k)"
    by (rule sum.cong) (auto simp: inflight_for_def dest: map_of_eq_None_iff [THEN iffD1] split: option.splits)
  also have "\<dots> = (\<Sum>k\<in>?K. int (card (runs_of own s k)))"
    by (simp add: cnt)
  also have "\<dots> = int (card (\<Union>b\<in>?K. runs_of own s b))"
    using fin by (subst card_UN_disjoint) (auto simp: runs_of_def)
  finally show ?thesis using split by simp
qed


section \<open>Every operation keeps the agreement\<close>

lemma inflight_for_update [simp]:
  "inflight_for (s\<lparr>inflight := AList.update b n (inflight t)\<rparr>) b' =
     (if b' = b then n else inflight_for (s\<lparr>inflight := inflight t\<rparr>) b')"
  by (simp add: inflight_for_def update_conv')

lemma inflight_for_delete [simp]:
  "inflight_for (s\<lparr>inflight := AList.delete b (inflight t)\<rparr>) b' =
     (if b' = b then 0 else inflight_for (s\<lparr>inflight := inflight t\<rparr>) b')"
  by (simp add: inflight_for_def delete_conv')

lemma inflight_for_cong: "inflight s = inflight t \<Longrightarrow> inflight_for s b = inflight_for t b"
  by (simp add: inflight_for_def)

lemma runs_of_insert:
  "r \<notin> inflight_runs s \<Longrightarrow> finite (inflight_runs s) \<Longrightarrow>
   inflight_runs t = insert r (inflight_runs s) \<Longrightarrow>
   card (runs_of own t b) = card (runs_of own s b) + (if own r = b then 1 else 0)"
proof -
  assume new: "r \<notin> inflight_runs s" and fin: "finite (inflight_runs s)"
    and t: "inflight_runs t = insert r (inflight_runs s)"
  have "runs_of own t b = (if own r = b then insert r (runs_of own s b) else runs_of own s b)"
    using t by (auto simp: runs_of_def)
  then show ?thesis using new fin by (auto simp: runs_of_def)
qed

lemma runs_of_remove:
  "r \<in> inflight_runs s \<Longrightarrow> finite (inflight_runs s) \<Longrightarrow>
   inflight_runs t = inflight_runs s - {r} \<Longrightarrow>
   int (card (runs_of own t b)) = int (card (runs_of own s b)) - (if own r = b then 1 else 0)"
proof -
  assume old: "r \<in> inflight_runs s" and fin: "finite (inflight_runs s)"
    and t: "inflight_runs t = inflight_runs s - {r}"
  have "runs_of own t b = (if own r = b then runs_of own s b - {r} else runs_of own s b)"
    using t by (auto simp: runs_of_def)
  moreover have "own r = b \<Longrightarrow> r \<in> runs_of own s b \<and> finite (runs_of own s b)"
    using old fin by (auto simp: runs_of_def)
  moreover have "own r = b \<Longrightarrow> 0 < card (runs_of own s b)"
    using calculation by (auto simp: card_gt_0_iff)
  ultimately show ?thesis
    by (auto simp: card_Diff_singleton)
qed

lemma start_fields [simp]:
  "sc_config (start s b r w) = sc_config s"
  "queue (start s b r w) = queue s"
  "inflight_runs (start s b (Some i) w) = insert i (inflight_runs s)"
  by (auto simp: start_def Let_def split: option.splits)

lemma finish_fields [simp]:
  "sc_config (finish s b r) = sc_config s"
  "queue (finish s b r) = queue s"
  "inflight_runs (finish s b (Some i)) = inflight_runs s - {i}"
  by (auto simp: finish_def lower_inflight_def split: option.splits)

lemma start_inflight:
  "i \<notin> inflight_runs s \<Longrightarrow>
   inflight (start s b (Some i) w) = AList.update b (inflight_for s b + 1) (inflight s)"
  by (simp add: start_def Let_def split: option.splits)

lemma start_again_inflight:
  "i \<in> inflight_runs s \<Longrightarrow> inflight (start s b (Some i) w) = inflight s"
  by (simp add: start_def split: option.splits)

lemma start_workspaces:
  "workspaces (start s b (Some i) w) =
     (case w of Some p \<Rightarrow> if i \<in> inflight_runs s \<and> i \<in> fst ` set (workspaces s) then workspaces s
                         else AList.update i p (workspaces s)
              | None \<Rightarrow> workspaces s)"
  by (simp add: start_def Let_def split: option.splits)

lemma fst_set_update: "fst ` set (AList.update k v xs) = insert k (fst ` set xs)"
  by (simp add: dom_update [symmetric] dom_map_of_conv_image_fst [symmetric] update_conv')

lemma fst_set_delete: "fst ` set (AList.delete k xs) = fst ` set xs - {k}"
  by (simp add: dom_map_of_conv_image_fst [symmetric] delete_conv')

lemma start_wf [inv_intros]:
  assumes wf: "sched_wf own s" and b: "own i = b"
  shows "sched_wf own (start s b (Some i) w)"
proof
  let ?t = "start s b (Some i) w"
  note wf' = wf [unfolded sched_wf_def]
  show "finite (inflight_runs ?t)" using wf' by simp
  show "distinct (map fst (inflight ?t))"
    using wf' by (cases "i \<in> inflight_runs s")
      (simp_all add: start_inflight start_again_inflight distinct_update)
  show "inflight_for ?t b' = int (card (runs_of own ?t b'))" for b'
  proof (cases "i \<in> inflight_runs s")
    case True
    then have "runs_of own ?t b' = runs_of own s b'" by (auto simp: runs_of_def)
    with wf' True show ?thesis by (simp add: inflight_for_def start_again_inflight)
  next
    case False
    then have "card (runs_of own ?t b') = card (runs_of own s b') + (if own i = b' then 1 else 0)"
      using wf' by (intro runs_of_insert) simp_all
    with wf' False b show ?thesis
      by (auto simp: inflight_for_def start_inflight update_conv')
  qed
  show "distinct (map fst (workspaces ?t))"
    using wf' by (auto simp: start_workspaces distinct_update split: option.splits)
  show "fst ` set (workspaces ?t) \<subseteq> inflight_runs ?t"
    using wf' by (auto simp: start_workspaces fst_set_update split: option.splits if_splits)
qed

lemma finish_inflight:
  "i \<in> inflight_runs s \<Longrightarrow>
   inflight (finish s b (Some i)) =
     (if inflight_for s b \<le> 1 then AList.delete b (inflight s)
      else AList.update b (inflight_for s b - 1) (inflight s))"
  by (simp add: finish_def lower_inflight_def inflight_for_def)

lemma finish_workspaces:
  "workspaces (finish s b (Some i)) =
     (if i \<in> inflight_runs s then AList.delete i (workspaces s) else workspaces s)"
  by (simp add: finish_def lower_inflight_def)

lemma finish_idle: "i \<notin> inflight_runs s \<Longrightarrow> finish s b (Some i) = s"
  by (simp add: finish_def)

lemma finish_wf [inv_intros]:
  assumes wf: "sched_wf own s" and b: "own i = b"
  shows "sched_wf own (finish s b (Some i))"
proof (cases "i \<in> inflight_runs s")
  case False
  with wf show ?thesis by (simp add: finish_idle)
next
  case True
  let ?t = "finish s b (Some i)"
  note wf' = wf [unfolded sched_wf_def]
  have cnt: "int (card (runs_of own ?t b')) = int (card (runs_of own s b')) - (if own i = b' then 1 else 0)" for b'
    using wf' True by (intro runs_of_remove) simp_all
  show ?thesis
  proof
    show "finite (inflight_runs ?t)" using wf' by simp
    show "distinct (map fst (inflight ?t))"
      using wf' True by (simp add: finish_inflight distinct_update distinct_delete)
    show "inflight_for ?t b' = int (card (runs_of own ?t b'))" for b'
    proof -
      have "inflight_for s b = int (card (runs_of own s b))" using wf' by simp
      moreover have "i \<in> runs_of own s b" and "finite (runs_of own s b)"
        using True b wf' by (auto simp: runs_of_def)
      then have "0 < card (runs_of own s b)" by (auto simp: card_gt_0_iff)
      ultimately show ?thesis
        using wf' True b cnt [of b']
        by (auto simp: inflight_for_def finish_inflight update_conv' delete_conv')
    qed
    show "distinct (map fst (workspaces ?t))"
      using wf' True by (simp add: finish_workspaces distinct_delete)
    show "fst ` set (workspaces ?t) \<subseteq> inflight_runs ?t"
      using wf' True by (auto simp: finish_workspaces fst_set_delete)
  qed
qed

lemma enqueue_wf [inv_intros]: "sched_wf own s \<Longrightarrow> sched_wf own (enqueue s b t r w)"
  by (simp add: sched_wf_def enqueue_def inflight_for_def runs_of_def)

lemma remove_wf [inv_intros]: "sched_wf own s \<Longrightarrow> sched_wf own (remove s r)"
  by (simp add: sched_wf_def remove_def inflight_for_def runs_of_def)

lemma new_scheduler_wf: "sched_wf own (new_scheduler c)"
  by (simp add: sched_wf_def new_scheduler_def inflight_for_def runs_of_def)


section \<open>The scheduler as the application drives it\<close>

text \<open>
  \<^verbatim>\<open>Application\<close> starts a run after \<^verbatim>\<open>admit\<close> answered \<^verbatim>\<open>start\<close> or \<^verbatim>\<open>_drain_queue\<close> saw
  \<^verbatim>\<open>can_start\<close>, queues a run after \<^verbatim>\<open>can_enqueue\<close>, takes it out of the queue, and
  finishes it: these are the steps. The start that projects a persisted slot after a
  restart is not guarded and is left out here.
\<close>

inductive sched_step :: "(string \<Rightarrow> string) \<Rightarrow> scheduler \<Rightarrow> scheduler \<Rightarrow> bool"
  for own :: "string \<Rightarrow> string" where
  step_start: "can_start s (own r) w \<Longrightarrow> sched_step own s (start s (own r) (Some r) w)"
| step_finish: "sched_step own s (finish s (own r) (Some r))"
| step_enqueue: "can_enqueue s \<Longrightarrow> sched_step own s (enqueue s (own r) t r w)"
| step_remove: "sched_step own s (remove s r)"

inductive sched_reach :: "(string \<Rightarrow> string) \<Rightarrow> sched_config \<Rightarrow> scheduler \<Rightarrow> bool"
  for own :: "string \<Rightarrow> string" and c :: sched_config where
  reach_new: "sched_reach own c (new_scheduler c)"
| reach_step: "sched_reach own c s \<Longrightarrow> sched_step own s t \<Longrightarrow> sched_reach own c t"

text \<open>Configuration loading refuses limits below these.\<close>

definition sched_config_ok :: "sched_config \<Rightarrow> bool" where
  "sched_config_ok c \<longleftrightarrow> 0 \<le> max_queue c \<and> 1 \<le> per_backend_concurrency c
     \<and> (case max_concurrency c of None \<Rightarrow> True | Some m \<Rightarrow> 1 \<le> m)"

definition sched_within :: "scheduler \<Rightarrow> bool" where
  "sched_within s \<longleftrightarrow>
     (case max_concurrency (sc_config s) of None \<Rightarrow> True | Some m \<Rightarrow> inflight_total s \<le> m)
     \<and> (\<forall>b. inflight_for s b \<le> per_backend_concurrency (sc_config s))
     \<and> int (length (queue s)) \<le> max_queue (sc_config s)
     \<and> distinct (map snd (workspaces s))"

lemma distinct_values_update:
  "distinct (map fst xs) \<Longrightarrow> distinct (map snd xs) \<Longrightarrow> p \<notin> snd ` set xs \<Longrightarrow>
   distinct (map snd (AList.update k p xs))"
proof (induction xs)
  case Nil
  then show ?case by simp
next
  case (Cons x xs)
  have "snd ` set (AList.update k p xs) \<subseteq> insert p (snd ` set xs)"
    by (induction xs) auto
  with Cons show ?case by auto
qed

lemma distinct_values_delete: "distinct (map snd xs) \<Longrightarrow> distinct (map snd (AList.delete k xs))"
  by (simp add: AList.delete_eq distinct_map_filter)

lemma start_total_le:
  assumes wf: "sched_wf own s"
  shows "inflight_total (start s (own r) (Some r) w) \<le> inflight_total s + 1"
    and "inflight_total (finish s (own r) (Some r)) \<le> inflight_total s"
proof -
  have fin: "finite (inflight_runs s)" using wf by (simp add: sched_wf_def)
  have "card (insert r (inflight_runs s)) \<le> card (inflight_runs s) + 1"
    using fin by (cases "r \<in> inflight_runs s") (auto simp: insert_absorb)
  moreover have "card (inflight_runs s - {r}) \<le> card (inflight_runs s)"
    using fin by (intro card_mono) auto
  ultimately show "inflight_total (start s (own r) (Some r) w) \<le> inflight_total s + 1"
    and "inflight_total (finish s (own r) (Some r)) \<le> inflight_total s"
    using inflight_total_card [OF wf] inflight_total_card [OF start_wf [OF wf refl]]
      inflight_total_card [OF finish_wf [OF wf refl]] by simp_all
qed

lemma start_for_le: "inflight_for (start s b (Some r) w) b' \<le> (if b' = b then inflight_for s b + 1 else inflight_for s b')"
  by (cases "r \<in> inflight_runs s")
    (auto simp: inflight_for_def start_inflight start_again_inflight update_conv')

lemma finish_for_le:
  assumes "sched_wf own s"
  shows "inflight_for (finish s (own r) (Some r)) b' \<le> inflight_for s b'"
proof -
  have "finite (runs_of own s b')" using assms by (simp add: sched_wf_def runs_of_def)
  then have "card (runs_of own (finish s (own r) (Some r)) b') \<le> card (runs_of own s b')"
    by (rule card_mono) (auto simp: runs_of_def)
  then show ?thesis using assms finish_wf [OF assms refl, of r] by (simp add: sched_wf_def)
qed

lemma start_within [inv_intros]:
  assumes wf: "sched_wf own s" and ok: "sched_within s" and can: "can_start s (own r) w"
  shows "sched_within (start s (own r) (Some r) w)"
proof -
  have "inflight_for (start s (own r) (Some r) w) b \<le> per_backend_concurrency (sc_config s)" for b
    using start_for_le [of s "own r" r w b] ok can
    by (auto simp: sched_within_def can_start_def split: if_splits)
      (meson order_trans)+
  moreover have "distinct (map snd (workspaces (start s (own r) (Some r) w)))"
    using wf ok can
    by (auto simp: start_workspaces sched_within_def sched_wf_def can_start_def
        intro!: distinct_values_update split: option.splits)
  moreover have "inflight_total (start s (own r) (Some r) w) \<le> m"
    if "max_concurrency (sc_config s) = Some m" for m
    using start_total_le(1) [OF wf, of r w] can that by (simp add: can_start_def)
  ultimately show ?thesis
    using ok by (auto simp: sched_within_def split: option.splits)
qed

lemma finish_within [inv_intros]:
  assumes wf: "sched_wf own s" and ok: "sched_within s"
  shows "sched_within (finish s (own r) (Some r))"
proof -
  have "distinct (map snd (workspaces (finish s (own r) (Some r))))"
    using ok by (simp add: finish_workspaces sched_within_def distinct_values_delete)
  then show ?thesis
    using ok start_total_le(2) [OF wf, of r] finish_for_le [OF wf, of r]
    by (auto simp: sched_within_def split: option.splits intro: order_trans)
qed

lemma queue_update_frame [simp]:
  "inflight_total (s\<lparr>queue := q\<rparr>) = inflight_total s"
  "inflight_for (s\<lparr>queue := q\<rparr>) b = inflight_for s b"
  by (simp_all add: inflight_for_def inflight_total_def)

lemma enqueue_within [inv_intros]:
  "sched_within s \<Longrightarrow> can_enqueue s \<Longrightarrow> sched_within (enqueue s b t r w)"
  by (simp add: sched_within_def enqueue_def can_enqueue_def split: option.splits)

lemma remove_within [inv_intros]:
  assumes "sched_within s"
  shows "sched_within (remove s r)"
proof -
  have "int (length (filter (\<lambda>item. qi_run_id item \<noteq> r) (queue s))) \<le> int (length (queue s))"
    by simp
  then have "int (length (filter (\<lambda>item. qi_run_id item \<noteq> r) (queue s))) \<le> max_queue (sc_config s)"
    if "int (length (queue s)) \<le> max_queue (sc_config s)" using that by linarith
  with assms show ?thesis
    by (simp add: sched_within_def remove_def split: option.splits)
qed

lemma sched_reach_inv:
  "sched_reach own c s \<Longrightarrow> sched_config_ok c \<Longrightarrow>
   sched_wf own s \<and> sched_within s \<and> sc_config s = c"
proof (induction rule: sched_reach.induct)
  case reach_new
  then show ?case
    using new_scheduler_wf [of own c]
    by (auto simp: sched_within_def sched_config_ok_def new_scheduler_def inflight_for_def
        inflight_total_def split: option.splits)
next
  case (reach_step s t)
  then have s: "sched_wf own s" "sched_within s" "sc_config s = c" by simp_all
  have "sc_config t = sc_config s"
    using reach_step.hyps(2) by cases (simp_all add: enqueue_def remove_def)
  with reach_step.hyps(2) s show ?case
    by cases (auto intro: inv_intros)
qed

text \<open>
  C9. Whatever sequence of admitted starts, queueings, removals and finishes the
  application performs, the number of runs in flight is what the counters say, no limit
  of the configuration is exceeded, and no workspace is held by two runs.
\<close>

theorem scheduler_limits:
  assumes "sched_reach own c s" and "sched_config_ok c"
  shows "inflight_total s = int (card (inflight_runs s))
    \<and> (case max_concurrency c of None \<Rightarrow> True | Some m \<Rightarrow> int (card (inflight_runs s)) \<le> m)
    \<and> (\<forall>b. int (card {r \<in> inflight_runs s. own r = b}) \<le> per_backend_concurrency c)
    \<and> int (length (queue s)) \<le> max_queue c
    \<and> (\<forall>r r' p. (r, p) \<in> set (workspaces s) \<longrightarrow> (r', p) \<in> set (workspaces s) \<longrightarrow> r = r')"
proof -
  have wf: "sched_wf own s" and within: "sched_within s" and c: "sc_config s = c"
    using sched_reach_inv [OF assms] by auto
  have total: "inflight_total s = int (card (inflight_runs s))"
    by (rule inflight_total_card [OF wf])
  have "int (card {r \<in> inflight_runs s. own r = b}) \<le> per_backend_concurrency c" for b
    using within wf c by (simp add: sched_within_def sched_wf_def runs_of_def)
  moreover have "r = r'" if "(r, p) \<in> set (workspaces s)" "(r', p) \<in> set (workspaces s)" for r r' p
  proof -
    have "inj_on snd (set (workspaces s))"
      using within by (simp add: sched_within_def distinct_map)
    from inj_onD [OF this, of "(r, p)" "(r', p)"] that show ?thesis by simp
  qed
  ultimately show ?thesis
    using total within c by (auto simp: sched_within_def split: option.splits)
qed

definition example_config :: sched_config where
  "example_config = \<lparr>max_queue = 2, per_backend_concurrency = 1, max_runs_per_task = 4,
     max_concurrency = Some 3, local_check_concurrency = 2\<rparr>"

lemma example_reach:
  "sched_reach (\<lambda>_. ''codex'') example_config
     (start (new_scheduler example_config) ''codex'' (Some ''r1'') (Some ''/w''))"
  by (rule reach_step [OF reach_new step_start [of _ "\<lambda>_. ''codex''", simplified]])
    (simp add: can_start_def new_scheduler_def example_config_def inflight_for_def inflight_total_def)

theorem scheduler_limits_witness:
  "inflight_total (start (new_scheduler example_config) ''codex'' (Some ''r1'') (Some ''/w'')) = 1
   \<and> sched_config_ok example_config"
proof -
  have ok: "sched_config_ok example_config" by (simp add: sched_config_ok_def example_config_def)
  show ?thesis
    using scheduler_limits [OF example_reach ok] ok
    by (simp add: new_scheduler_def)
qed

section \<open>The queue is served in order\<close>

lemma take_ready_Some:
  "take_ready s items = Some (item, rest) \<Longrightarrow>
   \<exists>pre post. items = pre @ item # post \<and> rest = pre @ post
     \<and> can_start s (qi_backend item) (qi_workspace item)
     \<and> (\<forall>x \<in> set pre. \<not> can_start s (qi_backend x) (qi_workspace x))"
proof (induction items arbitrary: rest)
  case Nil
  then show ?case by simp
next
  case (Cons x items)
  show ?case
  proof (cases "can_start s (qi_backend x) (qi_workspace x)")
    case True
    with Cons.prems show ?thesis by (intro exI [of _ "[]"] exI [of _ items]) auto
  next
    case False
    with Cons.prems obtain rest' where "take_ready s items = Some (item, rest')" and "rest = x # rest'"
      by auto
    with Cons.IH obtain pre post where "items = pre @ item # post" "rest' = pre @ post"
      "can_start s (qi_backend item) (qi_workspace item)"
      "\<forall>x \<in> set pre. \<not> can_start s (qi_backend x) (qi_workspace x)"
      by blast
    with False \<open>rest = x # rest'\<close> show ?thesis
      by (intro exI [of _ "x # pre"] exI [of _ post]) auto
  qed
qed

lemma take_ready_None:
  "take_ready s items = None \<longleftrightarrow> (\<forall>x \<in> set items. \<not> can_start s (qi_backend x) (qi_workspace x))"
  by (induction items) auto

text \<open>
  C26. \<^verbatim>\<open>dequeue_ready\<close> hands out the oldest queued run that can start, takes only that one
  out of the queue, and answers \<^verbatim>\<open>None\<close> exactly when no queued run can start.
\<close>

theorem dequeue_ready_fifo:
  "case dequeue_ready s of
     (Some item, t) \<Rightarrow> \<exists>pre post. queue s = pre @ item # post \<and> t = s\<lparr>queue := pre @ post\<rparr>
        \<and> can_start s (qi_backend item) (qi_workspace item)
        \<and> list_all (\<lambda>x. \<not> can_start s (qi_backend x) (qi_workspace x)) pre
   | (None, t) \<Rightarrow> t = s \<and> list_all (\<lambda>x. \<not> can_start s (qi_backend x) (qi_workspace x)) (queue s)"
proof (cases "take_ready s (queue s)")
  case None
  then have "\<forall>x \<in> set (queue s). \<not> can_start s (qi_backend x) (qi_workspace x)"
    by (simp add: take_ready_None)
  with None show ?thesis by (simp add: dequeue_ready_def list_all_iff)
next
  case (Some p)
  obtain item rest where p: "p = (item, rest)" by (cases p)
  with Some have "take_ready s (queue s) = Some (item, rest)" by simp
  from take_ready_Some [OF this] obtain pre post where
    "queue s = pre @ item # post" "rest = pre @ post"
    "can_start s (qi_backend item) (qi_workspace item)"
    "\<forall>x \<in> set pre. \<not> can_start s (qi_backend x) (qi_workspace x)"
    by blast
  then have "\<exists>pre post. queue s = pre @ item # post \<and> s\<lparr>queue := rest\<rparr> = s\<lparr>queue := pre @ post\<rparr>
      \<and> can_start s (qi_backend item) (qi_workspace item)
      \<and> list_all (\<lambda>x. \<not> can_start s (qi_backend x) (qi_workspace x)) pre"
    by (intro exI [of _ pre] exI [of _ post]) (simp add: list_all_iff)
  then show ?thesis by (simp add: dequeue_ready_def Some p)
qed

section \<open>Slots by run id\<close>

text \<open>
  The run lifecycle only needs this much of the scheduler: a set of runs that hold a
  slot, with a grab and a drop that change nothing but that run's membership.
\<close>

locale slot_pool =
  fixes grab :: "'s \<Rightarrow> 'r \<Rightarrow> 's"
    and drop :: "'s \<Rightarrow> 'r \<Rightarrow> 's"
    and holders :: "'s \<Rightarrow> 'r set"
    and good :: "'s \<Rightarrow> bool"
  assumes holders_grab: "holders (grab s r) = insert r (holders s)"
    and holders_drop: "holders (drop s r) = holders s - {r}"
    and good_grab: "good s \<Longrightarrow> good (grab s r)"
    and good_drop: "good s \<Longrightarrow> good (drop s r)"
begin

definition project :: "('r \<Rightarrow> bool) \<Rightarrow> 'r \<Rightarrow> 's \<Rightarrow> 's" where
  "project held r s = (if held r then grab s r else drop s r)"

lemma project_holders:
  "holders (project held r s) = (if held r then insert r (holders s) else holders s - {r})"
  by (simp add: project_def holders_grab holders_drop)

lemma project_all_holders:
  "holders (fold (project held) rs s) = {r \<in> set rs. held r} \<union> (holders s - set rs)"
  by (induction rs arbitrary: s) (auto simp: project_holders)

lemma project_all_good: "good s \<Longrightarrow> good (fold (project held) rs s)"
  by (induction rs arbitrary: s) (auto simp: project_def good_grab good_drop)

end

interpretation slots: slot_pool
  "\<lambda>s r. start s (own r) (Some r) (ws r)" "\<lambda>s r. finish s (own r) (Some r)"
  inflight_runs "sched_wf own"
  for own :: "string \<Rightarrow> string" and ws :: "string \<Rightarrow> string option"
  by unfold_locales (auto intro: inv_intros)

end
