(* ===== verification/Ids_Errors.thy ===== *)
theory Ids_Errors
  imports Prelude
begin

text \<open>
  The typed identifiers of \<^verbatim>\<open>src/asterun/ids.py\<close>, the public error codes and the error
  object of \<^verbatim>\<open>src/asterun/errors.py\<close>, and the Python built-ins \<^verbatim>\<open>str\<close>, \<^verbatim>\<open>int\<close>, \<^verbatim>\<open>list\<close>
  and \<^verbatim>\<open>dict\<close> as the code applies them to JSON values. Each identifier class is a type of
  its own, so the \<^verbatim>\<open>require_type\<close> checks hold by typing; what remains of them is the
  refusal of a blank value.
\<close>

section \<open>Built-in conversions\<close>

text \<open>
  On a value that already has the target type the built-ins return it. What they do on a
  value of another type (\<^verbatim>\<open>int("12")\<close>, \<^verbatim>\<open>str([1])\<close>) is a parameter.
\<close>

record pylib =
  lib_str :: "json \<Rightarrow> string"
  lib_int :: "json \<Rightarrow> int res"
  lib_list :: "json \<Rightarrow> json list res"
  lib_dict :: "json \<Rightarrow> dict res"

definition py_str :: "pylib \<Rightarrow> json \<Rightarrow> string" where
  "py_str L v = (case v of JStr s \<Rightarrow> s | _ \<Rightarrow> lib_str L v)"

definition py_int :: "pylib \<Rightarrow> json \<Rightarrow> int res" where
  "py_int L v = (case v of JInt n \<Rightarrow> Inr n | JBool b \<Rightarrow> Inr (if b then 1 else 0) | _ \<Rightarrow> lib_int L v)"

definition py_list :: "pylib \<Rightarrow> json \<Rightarrow> json list res" where
  "py_list L v = (case v of JArr xs \<Rightarrow> Inr xs | _ \<Rightarrow> lib_list L v)"

definition py_dict :: "pylib \<Rightarrow> json \<Rightarrow> dict res" where
  "py_dict L v = (case v of JObj d \<Rightarrow> Inr d | _ \<Rightarrow> lib_dict L v)"

lemma py_simps [simp]:
  "py_str L (JStr s) = s" "py_int L (JInt n) = Inr n" "py_list L (JArr xs) = Inr xs"
  "py_dict L (JObj d) = Inr d" "py_int L (JBool b) = Inr (if b then 1 else 0)"
  by (simp_all add: py_str_def py_int_def py_list_def py_dict_def)

text \<open>\<^verbatim>\<open>data[k]\<close> and \<^verbatim>\<open>v or w\<close>\<close>

definition getitem :: "dict \<Rightarrow> string \<Rightarrow> json res" where
  "getitem d k = (case map_of d k of None \<Rightarrow> Inl KeyError | Some v \<Rightarrow> Inr v)"

definition por :: "json \<Rightarrow> json \<Rightarrow> json" where
  "por v w = (if truthy v then v else w)"

lemma getitem_Nil [simp]: "getitem [] k = Inl KeyError"
  by (simp add: getitem_def)

lemma getitem_Cons [simp]: "getitem ((k', v) # d) k = (if k = k' then Inr v else getitem d k)"
  by (simp add: getitem_def)

lemma getitem_dget: "dhas d k \<Longrightarrow> getitem d k = Inr (dget d k)"
  by (auto simp: getitem_def dget_def dhas_map_of)

lemma por_simps [simp]:
  "por JNull w = w" "por (JStr (c # s)) w = JStr (c # s)" "por (JBool True) w = JBool True"
  by (simp_all add: por_def)

text \<open>One concrete library, for evaluating: it answers other types with a \<^verbatim>\<open>TypeError\<close>.\<close>

definition plain_lib :: pylib where
  "plain_lib = \<lparr>lib_str = (\<lambda>_. []), lib_int = (\<lambda>_. Inl TypeError), lib_list = (\<lambda>_. Inl TypeError),
     lib_dict = (\<lambda>_. Inl TypeError)\<rparr>"

section \<open>Identifiers\<close>

datatype account_ref = AccountRef (account_val: string)
datatype backend_id = BackendId (backend_val: string)
datatype model_id = ModelId (model_val: string)
datatype billing_pool_ref = BillingPoolRef (pool_val: string)
datatype runtime_ref = RuntimeRef (runtime_val: string)
datatype task_id = TaskId (task_val: string)
datatype run_id = RunId (run_val: string)
datatype conversation_id = ConversationId (conv_val: string)
datatype backend_session_id = BackendSessionId (bsession_val: string)
datatype approval_id = ApprovalId (approval_val: string)
datatype operation_id = OperationId (operation_val: string)

lemma task_val_inject [simp]: "task_val a = task_val b \<longleftrightarrow> a = b"
  by (cases a; cases b) simp

lemma run_val_inject [simp]: "run_val a = run_val b \<longleftrightarrow> a = b"
  by (cases a; cases b) simp

lemma operation_val_inject [simp]: "operation_val a = operation_val b \<longleftrightarrow> a = b"
  by (cases a; cases b) simp

text \<open>\<^verbatim>\<open>TypedId.__post_init__\<close>: the value is a string that is not blank.\<close>

definition typed_id :: "(string \<Rightarrow> 'a) \<Rightarrow> json \<Rightarrow> 'a res" where
  "typed_id mk v = (case v of JStr s \<Rightarrow> if is_blank s then Inl TypeError else Inr (mk s)
                            | _ \<Rightarrow> Inl TypeError)"

text \<open>\<^verbatim>\<open>None if not data.get(k) else TypedId(data[k])\<close>\<close>

definition opt_typed_id :: "(string \<Rightarrow> 'a) \<Rightarrow> json \<Rightarrow> 'a option res" where
  "opt_typed_id mk v = (if truthy v then bind_res (typed_id mk v) (\<lambda>x. Inr (Some x)) else Inr None)"

text \<open>\<^verbatim>\<open>None if x is None else x.value\<close>\<close>

definition opt_val :: "('a \<Rightarrow> string) \<Rightarrow> 'a option \<Rightarrow> json" where
  "opt_val val x = (case x of None \<Rightarrow> JNull | Some i \<Rightarrow> JStr (val i))"

lemma typed_id_JStr [simp]: "\<not> is_blank s \<Longrightarrow> typed_id mk (JStr s) = Inr (mk s)"
  by (simp add: typed_id_def)

lemma typed_id_Inr: "typed_id mk v = Inr x \<Longrightarrow> \<exists>s. v = JStr s \<and> \<not> is_blank s \<and> x = mk s"
  by (auto simp: typed_id_def split: json.splits if_splits)

definition opt_ok :: "('a \<Rightarrow> string) \<Rightarrow> 'a option \<Rightarrow> bool" where
  "opt_ok val x \<longleftrightarrow> (case x of None \<Rightarrow> True | Some i \<Rightarrow> \<not> is_blank (val i))"

lemma opt_typed_id_opt_val:
  "opt_ok val x \<Longrightarrow> (\<And>i. mk (val i) = i) \<Longrightarrow> opt_typed_id mk (opt_val val x) = Inr x"
  by (auto simp: opt_ok_def opt_typed_id_def opt_val_def dest: not_blank_nonempty split: option.splits)

lemma opt_typed_ids [simp]:
  "opt_ok account_val a \<Longrightarrow> opt_typed_id AccountRef (opt_val account_val a) = Inr a"
  "opt_ok model_val m \<Longrightarrow> opt_typed_id ModelId (opt_val model_val m) = Inr m"
  "opt_ok pool_val p \<Longrightarrow> opt_typed_id BillingPoolRef (opt_val pool_val p) = Inr p"
  "opt_ok runtime_val u \<Longrightarrow> opt_typed_id RuntimeRef (opt_val runtime_val u) = Inr u"
  "opt_ok task_val t \<Longrightarrow> opt_typed_id TaskId (opt_val task_val t) = Inr t"
  "opt_ok run_val r \<Longrightarrow> opt_typed_id RunId (opt_val run_val r) = Inr r"
  "opt_ok conv_val c \<Longrightarrow> opt_typed_id ConversationId (opt_val conv_val c) = Inr c"
  "opt_ok bsession_val b \<Longrightarrow> opt_typed_id BackendSessionId (opt_val bsession_val b) = Inr b"
  by (rule opt_typed_id_opt_val; simp)+

section \<open>Error codes\<close>

definition PUBLIC_ERROR_CODES :: "string list" where
  "PUBLIC_ERROR_CODES =
    [''CONFIG_REQUIRED'', ''AUTH_REQUIRED'', ''SCOPE_DENIED'', ''CAPABILITY_UNSUPPORTED'',
     ''REVISION_CONFLICT'', ''RATE_LIMITED'', ''BACKEND_UNAVAILABLE'', ''REMOTE_STATE_UNKNOWN'',
     ''UNKNOWN_FIELD'', ''UNKNOWN_PROJECT'', ''PATH_OUT_OF_SCOPE'', ''PATH_INVALID'',
     ''INVALID_CONFIG'', ''INVALID_REQUEST'', ''NOT_FOUND'', ''RUN_ALREADY_TERMINAL'',
     ''IDEMPOTENCY_CONFLICT'', ''INSTANCE_LOCKED'', ''INTENT_PERSIST_FAILED'',
     ''BINDING_MISMATCH'', ''BUDGET_EXHAUSTED'']"

text \<open>The whole error object, for its wire form.\<close>

record asterun_error =
  ae_code :: string
  ae_message :: string
  ae_retryable :: bool
  ae_next_action :: string
  ae_details :: dict
  ae_evidence_ref :: "string option"

definition asterun_error_to_dict :: "asterun_error \<Rightarrow> dict" where
  "asterun_error_to_dict e =
    [(''code'', JStr (ae_code e)), (''message'', JStr (ae_message e)),
     (''retryable'', JBool (ae_retryable e)), (''next_action'', JStr (ae_next_action e)),
     (''details'', JObj (ae_details e)),
     (''evidence_ref'', case ae_evidence_ref e of None \<Rightarrow> JNull | Some r \<Rightarrow> JStr r)]"

end
