(* ===== verification/Contracts.thy ===== *)
theory Contracts
  imports Ids_Errors
begin

text \<open>
  The contract types of \<^verbatim>\<open>src/asterun/contracts.py\<close>: its string enumerations with their
  parsers, its dataclasses as records, and \<^verbatim>\<open>to_dict\<close> / \<^verbatim>\<open>from_dict\<close> of each. The state
  database keeps a task, a run, a session and an approval as the dictionary \<^verbatim>\<open>to_dict\<close>
  makes, so the round trips at the end are what makes a stored object come back.
  A field the code fills from \<^verbatim>\<open>data.get\<close> without a conversion is a JSON value here.
\<close>

section \<open>Enumerations\<close>

text \<open>
  \<^verbatim>\<open>StrEnum(value)\<close>: the member whose text the value is, else \<^verbatim>\<open>ValueError\<close>.
\<close>

definition parse_enum :: "('e \<Rightarrow> string) \<Rightarrow> 'e list \<Rightarrow> json \<Rightarrow> 'e res" where
  "parse_enum str members v =
     (case v of JStr s \<Rightarrow> (case find (\<lambda>m. str m = s) members of None \<Rightarrow> Inl ValueError | Some m \<Rightarrow> Inr m)
              | _ \<Rightarrow> Inl ValueError)"

datatype run_status =
    Rs_QUEUED | Rs_DISPATCHING | Rs_RUNNING | Rs_SUCCEEDED
  | Rs_FAILED | Rs_CANCELLED | Rs_WAITING_INPUT | Rs_WAITING_AUTH
  | Rs_PENDING_RECONCILE | Rs_PAUSED

fun str_run_status :: "run_status \<Rightarrow> string" where
  "str_run_status Rs_QUEUED = ''queued''"
| "str_run_status Rs_DISPATCHING = ''dispatching''"
| "str_run_status Rs_RUNNING = ''running''"
| "str_run_status Rs_SUCCEEDED = ''succeeded''"
| "str_run_status Rs_FAILED = ''failed''"
| "str_run_status Rs_CANCELLED = ''cancelled''"
| "str_run_status Rs_WAITING_INPUT = ''waiting_input''"
| "str_run_status Rs_WAITING_AUTH = ''waiting_auth''"
| "str_run_status Rs_PENDING_RECONCILE = ''pending_reconcile''"
| "str_run_status Rs_PAUSED = ''paused''"

definition run_status_members :: "run_status list" where
  "run_status_members =
    [Rs_QUEUED, Rs_DISPATCHING, Rs_RUNNING, Rs_SUCCEEDED,
     Rs_FAILED, Rs_CANCELLED, Rs_WAITING_INPUT, Rs_WAITING_AUTH,
     Rs_PENDING_RECONCILE, Rs_PAUSED]"

definition parse_run_status :: "json \<Rightarrow> run_status res" where
  "parse_run_status = parse_enum str_run_status run_status_members"

lemma parse_run_status_str [simp]: "parse_run_status (JStr (str_run_status x)) = Inr x"
  by (cases x) (simp_all add: parse_run_status_def parse_enum_def run_status_members_def)

datatype acceptance_status =
    Acc_PENDING | Acc_PASSED | Acc_FAILED | Acc_NOT_CONFIGURED

fun str_acceptance_status :: "acceptance_status \<Rightarrow> string" where
  "str_acceptance_status Acc_PENDING = ''pending''"
| "str_acceptance_status Acc_PASSED = ''passed''"
| "str_acceptance_status Acc_FAILED = ''failed''"
| "str_acceptance_status Acc_NOT_CONFIGURED = ''not_configured''"

definition acceptance_status_members :: "acceptance_status list" where
  "acceptance_status_members =
    [Acc_PENDING, Acc_PASSED, Acc_FAILED, Acc_NOT_CONFIGURED]"

definition parse_acceptance_status :: "json \<Rightarrow> acceptance_status res" where
  "parse_acceptance_status = parse_enum str_acceptance_status acceptance_status_members"

lemma parse_acceptance_status_str [simp]: "parse_acceptance_status (JStr (str_acceptance_status x)) = Inr x"
  by (cases x) (simp_all add: parse_acceptance_status_def parse_enum_def acceptance_status_members_def)

datatype delivery_status =
    Del_NOT_CONFIGURED | Del_PENDING | Del_DELIVERED

fun str_delivery_status :: "delivery_status \<Rightarrow> string" where
  "str_delivery_status Del_NOT_CONFIGURED = ''not_configured''"
| "str_delivery_status Del_PENDING = ''pending''"
| "str_delivery_status Del_DELIVERED = ''delivered''"

definition delivery_status_members :: "delivery_status list" where
  "delivery_status_members =
    [Del_NOT_CONFIGURED, Del_PENDING, Del_DELIVERED]"

definition parse_delivery_status :: "json \<Rightarrow> delivery_status res" where
  "parse_delivery_status = parse_enum str_delivery_status delivery_status_members"

lemma parse_delivery_status_str [simp]: "parse_delivery_status (JStr (str_delivery_status x)) = Inr x"
  by (cases x) (simp_all add: parse_delivery_status_def parse_enum_def delivery_status_members_def)

datatype event_type =
    Ev_TASK_CREATED | Ev_RUN_QUEUED | Ev_RUN_DISPATCHING | Ev_RUN_STARTED
  | Ev_MESSAGE | Ev_WAITING_INPUT | Ev_APPROVAL_REQUESTED | Ev_APPROVAL_RESPONDED
  | Ev_APPROVAL_ASSESSED | Ev_APPROVAL_FORWARDING | Ev_CANCEL_REQUESTED | Ev_RUN_TERMINATED
  | Ev_RUN_SUCCEEDED | Ev_RUN_FAILED | Ev_CAPABILITY_REJECTED | Ev_RECONCILED
  | Ev_HANDOFF_PAUSED | Ev_HANDOFF_RESUMED | Ev_EVIDENCE_INVALIDATED | Ev_ACCEPTANCE_EVALUATED
  | Ev_REVIEW_UNAVAILABLE | Ev_REPAIR_LIMIT | Ev_QUEUE_ACCEPTED

fun str_event_type :: "event_type \<Rightarrow> string" where
  "str_event_type Ev_TASK_CREATED = ''task_created''"
| "str_event_type Ev_RUN_QUEUED = ''run_queued''"
| "str_event_type Ev_RUN_DISPATCHING = ''run_dispatching''"
| "str_event_type Ev_RUN_STARTED = ''run_started''"
| "str_event_type Ev_MESSAGE = ''message''"
| "str_event_type Ev_WAITING_INPUT = ''waiting_input''"
| "str_event_type Ev_APPROVAL_REQUESTED = ''approval_requested''"
| "str_event_type Ev_APPROVAL_RESPONDED = ''approval_responded''"
| "str_event_type Ev_APPROVAL_ASSESSED = ''approval_assessed''"
| "str_event_type Ev_APPROVAL_FORWARDING = ''approval_forwarding''"
| "str_event_type Ev_CANCEL_REQUESTED = ''cancel_requested''"
| "str_event_type Ev_RUN_TERMINATED = ''run_terminated''"
| "str_event_type Ev_RUN_SUCCEEDED = ''run_succeeded''"
| "str_event_type Ev_RUN_FAILED = ''run_failed''"
| "str_event_type Ev_CAPABILITY_REJECTED = ''capability_rejected''"
| "str_event_type Ev_RECONCILED = ''reconciled''"
| "str_event_type Ev_HANDOFF_PAUSED = ''handoff_paused''"
| "str_event_type Ev_HANDOFF_RESUMED = ''handoff_resumed''"
| "str_event_type Ev_EVIDENCE_INVALIDATED = ''evidence_invalidated''"
| "str_event_type Ev_ACCEPTANCE_EVALUATED = ''acceptance_evaluated''"
| "str_event_type Ev_REVIEW_UNAVAILABLE = ''review_unavailable''"
| "str_event_type Ev_REPAIR_LIMIT = ''repair_limit''"
| "str_event_type Ev_QUEUE_ACCEPTED = ''queue_accepted''"

definition event_type_members :: "event_type list" where
  "event_type_members =
    [Ev_TASK_CREATED, Ev_RUN_QUEUED, Ev_RUN_DISPATCHING, Ev_RUN_STARTED,
     Ev_MESSAGE, Ev_WAITING_INPUT, Ev_APPROVAL_REQUESTED, Ev_APPROVAL_RESPONDED,
     Ev_APPROVAL_ASSESSED, Ev_APPROVAL_FORWARDING, Ev_CANCEL_REQUESTED, Ev_RUN_TERMINATED,
     Ev_RUN_SUCCEEDED, Ev_RUN_FAILED, Ev_CAPABILITY_REJECTED, Ev_RECONCILED,
     Ev_HANDOFF_PAUSED, Ev_HANDOFF_RESUMED, Ev_EVIDENCE_INVALIDATED, Ev_ACCEPTANCE_EVALUATED,
     Ev_REVIEW_UNAVAILABLE, Ev_REPAIR_LIMIT, Ev_QUEUE_ACCEPTED]"

definition parse_event_type :: "json \<Rightarrow> event_type res" where
  "parse_event_type = parse_enum str_event_type event_type_members"

lemma parse_event_type_str [simp]: "parse_event_type (JStr (str_event_type x)) = Inr x"
  by (cases x) (simp_all add: parse_event_type_def parse_enum_def event_type_members_def)

datatype approval_state =
    Ap_PENDING | Ap_FORWARDING | Ap_INVALIDATED | Ap_APPROVED
  | Ap_DENIED

fun str_approval_state :: "approval_state \<Rightarrow> string" where
  "str_approval_state Ap_PENDING = ''pending''"
| "str_approval_state Ap_FORWARDING = ''forwarding''"
| "str_approval_state Ap_INVALIDATED = ''invalidated''"
| "str_approval_state Ap_APPROVED = ''approved''"
| "str_approval_state Ap_DENIED = ''denied''"

definition approval_state_members :: "approval_state list" where
  "approval_state_members =
    [Ap_PENDING, Ap_FORWARDING, Ap_INVALIDATED, Ap_APPROVED,
     Ap_DENIED]"

definition parse_approval_state :: "json \<Rightarrow> approval_state res" where
  "parse_approval_state = parse_enum str_approval_state approval_state_members"

lemma parse_approval_state_str [simp]: "parse_approval_state (JStr (str_approval_state x)) = Inr x"
  by (cases x) (simp_all add: parse_approval_state_def parse_enum_def approval_state_members_def)

datatype operation_status =
    Op_INTENDED | Op_DISPATCHED | Op_COMPLETED | Op_FAILED
  | Op_UNKNOWN

fun str_operation_status :: "operation_status \<Rightarrow> string" where
  "str_operation_status Op_INTENDED = ''intended''"
| "str_operation_status Op_DISPATCHED = ''dispatched''"
| "str_operation_status Op_COMPLETED = ''completed''"
| "str_operation_status Op_FAILED = ''failed''"
| "str_operation_status Op_UNKNOWN = ''unknown''"

definition operation_status_members :: "operation_status list" where
  "operation_status_members =
    [Op_INTENDED, Op_DISPATCHED, Op_COMPLETED, Op_FAILED,
     Op_UNKNOWN]"

definition parse_operation_status :: "json \<Rightarrow> operation_status res" where
  "parse_operation_status = parse_enum str_operation_status operation_status_members"

lemma parse_operation_status_str [simp]: "parse_operation_status (JStr (str_operation_status x)) = Inr x"
  by (cases x) (simp_all add: parse_operation_status_def parse_enum_def operation_status_members_def)

datatype support_level =
    Sup_SUPPORTED | Sup_UNSUPPORTED | Sup_UNKNOWN

fun str_support_level :: "support_level \<Rightarrow> string" where
  "str_support_level Sup_SUPPORTED = ''supported''"
| "str_support_level Sup_UNSUPPORTED = ''unsupported''"
| "str_support_level Sup_UNKNOWN = ''unknown''"

definition support_level_members :: "support_level list" where
  "support_level_members =
    [Sup_SUPPORTED, Sup_UNSUPPORTED, Sup_UNKNOWN]"

definition parse_support_level :: "json \<Rightarrow> support_level res" where
  "parse_support_level = parse_enum str_support_level support_level_members"

lemma parse_support_level_str [simp]: "parse_support_level (JStr (str_support_level x)) = Inr x"
  by (cases x) (simp_all add: parse_support_level_def parse_enum_def support_level_members_def)

datatype verification_status =
    Ver_NOT_TESTED | Ver_OFFLINE_VERIFIED | Ver_LIVE_VERIFIED | Ver_EXPIRED

fun str_verification_status :: "verification_status \<Rightarrow> string" where
  "str_verification_status Ver_NOT_TESTED = ''not_tested''"
| "str_verification_status Ver_OFFLINE_VERIFIED = ''offline_verified''"
| "str_verification_status Ver_LIVE_VERIFIED = ''live_verified''"
| "str_verification_status Ver_EXPIRED = ''expired''"

definition verification_status_members :: "verification_status list" where
  "verification_status_members =
    [Ver_NOT_TESTED, Ver_OFFLINE_VERIFIED, Ver_LIVE_VERIFIED, Ver_EXPIRED]"

definition parse_verification_status :: "json \<Rightarrow> verification_status res" where
  "parse_verification_status = parse_enum str_verification_status verification_status_members"

lemma parse_verification_status_str [simp]: "parse_verification_status (JStr (str_verification_status x)) = Inr x"
  by (cases x) (simp_all add: parse_verification_status_def parse_enum_def verification_status_members_def)

definition TERMINAL_RUN_STATUSES :: "run_status list" where
  "TERMINAL_RUN_STATUSES = [Rs_SUCCEEDED, Rs_FAILED, Rs_CANCELLED]"

abbreviation terminal :: "run_status \<Rightarrow> bool" where
  "terminal st \<equiv> st \<in> set TERMINAL_RUN_STATUSES"

lemma terminal_iff: "terminal st \<longleftrightarrow> st = Rs_SUCCEEDED \<or> st = Rs_FAILED \<or> st = Rs_CANCELLED"
  by (auto simp: TERMINAL_RUN_STATUSES_def)

text \<open>Keys of the run's native record that the core keeps for itself.\<close>

definition UNAPPLIED_RESULT :: string where "UNAPPLIED_RESULT = ''unapplied_result''"
definition UNAPPLIED_APPROVAL :: string where "UNAPPLIED_APPROVAL = ''unapplied_approval''"
definition SLOT_RELEASED :: string where "SLOT_RELEASED = ''concurrency_released''"
definition SLOT_HELD :: string where "SLOT_HELD = ''slot_held''"

lemmas native_key_defs =
  UNAPPLIED_RESULT_def UNAPPLIED_APPROVAL_def SLOT_RELEASED_def SLOT_HELD_def

section \<open>Dictionary pieces\<close>

text \<open>\<^verbatim>\<open>**({k: v} if c else {})\<close>\<close>

definition dopt :: "bool \<Rightarrow> string \<Rightarrow> json \<Rightarrow> dict" where
  "dopt c k v = (if c then [(k, v)] else [])"

lemma dget_dopt [dict_simps]:
  "dget (dopt c k v @ d) k' = (if k' = k \<and> c then v else dget d k')"
  "dget (dopt c k v) k' = (if k' = k \<and> c then v else JNull)"
  by (simp_all add: dopt_def)

lemma dget_or_dopt [dict_simps]:
  "dget_or (dopt c k v @ d) k' w = (if k' = k \<and> c then v else dget_or d k' w)"
  "dget_or (dopt c k v) k' w = (if k' = k \<and> c then v else w)"
  by (simp_all add: dopt_def)

lemma dhas_dopt [dict_simps]:
  "dhas (dopt c k v @ d) k' \<longleftrightarrow> k' = k \<and> c \<or> dhas d k'"
  "dhas (dopt c k v) k' \<longleftrightarrow> k' = k \<and> c"
  by (auto simp: dopt_def)

lemma getitem_dopt [dict_simps]:
  "getitem (dopt c k v @ d) k' = (if k' = k \<and> c then Inr v else getitem d k')"
  by (simp add: dopt_def)

definition jstr_opt :: "string option \<Rightarrow> json" where
  "jstr_opt x = (case x of None \<Rightarrow> JNull | Some s \<Rightarrow> JStr s)"

text \<open>\<^verbatim>\<open>None if data.get(k) is None else dict(data[k])\<close>, and its inverse.\<close>

definition opt_dict :: "pylib \<Rightarrow> json \<Rightarrow> dict option res" where
  "opt_dict L v = (if v = JNull then Inr None else bind_res (py_dict L v) (\<lambda>d. Inr (Some d)))"

section \<open>Task\<close>

record task =
  t_id :: task_id
  t_workspace :: string
  t_backend :: backend_id
  t_text :: string
  t_script :: string
  t_acceptance :: acceptance_status
  t_delivery :: delivery_status
  t_created_at :: string
  t_current_run_id :: "run_id option"
  t_conversation_id :: "conversation_id option"
  t_account_ref :: "account_ref option"
  t_model_id :: "model_id option"
  t_billing_pool_ref :: "billing_pool_ref option"
  t_runtime_ref :: "runtime_ref option"
  t_config_revision :: int
  t_paused :: bool
  t_orchestration_owner :: string
  t_evidence_stale :: bool
  t_input_hash :: string
  t_evidence_input_hash :: string
  t_execution_digest :: string
  t_findings :: "json list"
  t_repair_count :: int
  t_review_status :: string
  t_run_count :: int
  t_workspace_root :: string
  t_quality :: dict
  t_capability :: json
  t_capability_input :: dict
  t_read_scope :: "dict option"
  t_external_evaluation :: json
  t_external_require_review :: bool
  t_stage_gate :: json
  t_dependencies :: "json list"
  t_dependency_state :: json
  t_external_observations :: json
  t_dispatch_materials :: json
  t_handoff_snapshot :: json

definition task_to_dict :: "task \<Rightarrow> dict" where
  "task_to_dict t =
    [(''id'', JStr (task_val (t_id t))),
     (''workspace'', JStr (t_workspace t)),
     (''backend'', JStr (backend_val (t_backend t))),
     (''text'', JStr (t_text t)),
     (''script'', JStr (t_script t)),
     (''acceptance'', JStr (str_acceptance_status (t_acceptance t))),
     (''delivery'', JStr (str_delivery_status (t_delivery t))),
     (''created_at'', JStr (t_created_at t)),
     (''current_run_id'', opt_val run_val (t_current_run_id t)),
     (''conversation_id'', opt_val conv_val (t_conversation_id t)),
     (''account_ref'', opt_val account_val (t_account_ref t)),
     (''model_id'', opt_val model_val (t_model_id t)),
     (''billing_pool_ref'', opt_val pool_val (t_billing_pool_ref t)),
     (''runtime_ref'', opt_val runtime_val (t_runtime_ref t)),
     (''config_revision'', JInt (t_config_revision t)),
     (''paused'', JBool (t_paused t)),
     (''orchestration_owner'', JStr (t_orchestration_owner t)),
     (''evidence_stale'', JBool (t_evidence_stale t)),
     (''input_hash'', JStr (t_input_hash t)),
     (''evidence_input_hash'', JStr (t_evidence_input_hash t)),
     (''findings'', JArr (t_findings t)),
     (''repair_count'', JInt (t_repair_count t)),
     (''review_status'', JStr (t_review_status t)),
     (''run_count'', JInt (t_run_count t)),
     (''workspace_root'', JStr (t_workspace_root t)),
     (''quality'', JObj (t_quality t))]
    @ dopt (t_execution_digest t \<noteq> []) ''execution_digest'' (JStr (t_execution_digest t))
    @ dopt (truthy (t_capability t)) ''capability'' (t_capability t)
    @ dopt (truthy (t_capability t)) ''capability_input'' (JObj (t_capability_input t))
    @ dopt (t_read_scope t \<noteq> None) ''read_scope'' (case t_read_scope t of None \<Rightarrow> JNull | Some d \<Rightarrow> JObj d)
    @ dopt (truthy (t_external_evaluation t)) ''external_evaluation'' (t_external_evaluation t)
    @ dopt (t_external_require_review t) ''external_require_review'' (JBool True)
    @ dopt (truthy (t_stage_gate t)) ''stage_gate'' (t_stage_gate t)
    @ dopt (t_dependencies t \<noteq> []) ''dependencies'' (JArr (t_dependencies t))
    @ dopt (truthy (t_dependency_state t)) ''dependency_state'' (t_dependency_state t)
    @ dopt (truthy (t_external_observations t)) ''external_observations'' (t_external_observations t)
    @ dopt (truthy (t_dispatch_materials t)) ''dispatch_materials'' (t_dispatch_materials t)
    @ dopt (truthy (t_handoff_snapshot t)) ''handoff_snapshot'' (t_handoff_snapshot t)"

definition task_from_dict :: "pylib \<Rightarrow> dict \<Rightarrow> task res" where
  "task_from_dict L d =
    bind_res (bind_res (getitem d ''id'') (typed_id TaskId)) (\<lambda>id.
    bind_res (getitem d ''workspace'') (\<lambda>workspace.
    bind_res (bind_res (getitem d ''backend'') (typed_id BackendId)) (\<lambda>backend.
    bind_res (bind_res (getitem d ''acceptance'') parse_acceptance_status) (\<lambda>acceptance.
    bind_res (bind_res (getitem d ''delivery'') parse_delivery_status) (\<lambda>delivery.
    bind_res (getitem d ''created_at'') (\<lambda>created_at.
    bind_res (opt_typed_id RunId (dget d ''current_run_id'')) (\<lambda>current_run_id.
    bind_res (opt_typed_id ConversationId (dget d ''conversation_id'')) (\<lambda>conversation_id.
    bind_res (opt_typed_id AccountRef (dget d ''account_ref'')) (\<lambda>account_ref.
    bind_res (opt_typed_id ModelId (dget d ''model_id'')) (\<lambda>model_id.
    bind_res (opt_typed_id BillingPoolRef (dget d ''billing_pool_ref'')) (\<lambda>billing_pool_ref.
    bind_res (opt_typed_id RuntimeRef (dget d ''runtime_ref'')) (\<lambda>runtime_ref.
    bind_res (py_int L (por (dget d ''config_revision'') (JInt 1))) (\<lambda>config_revision.
    bind_res (py_list L (por (dget d ''findings'') (JArr []))) (\<lambda>findings.
    bind_res (py_int L (por (dget d ''repair_count'') (JInt 0))) (\<lambda>repair_count.
    bind_res (py_int L (por (dget d ''run_count'') (JInt 1))) (\<lambda>run_count.
    bind_res (py_dict L (por (dget d ''quality'') (JObj []))) (\<lambda>quality.
    bind_res (py_dict L (por (dget d ''capability_input'') (JObj []))) (\<lambda>capability_input.
    bind_res (opt_dict L (dget d ''read_scope'')) (\<lambda>read_scope.
    bind_res (py_list L (por (dget d ''dependencies'') (JArr []))) (\<lambda>dependencies.
    Inr \<lparr>t_id = id, t_workspace = py_str L workspace, t_backend = backend,
      t_text = py_str L (por (dget d ''text'') (JStr [])),
      t_script = py_str L (por (dget d ''script'') (JStr ''success'')),
      t_acceptance = acceptance, t_delivery = delivery, t_created_at = py_str L created_at,
      t_current_run_id = current_run_id, t_conversation_id = conversation_id,
      t_account_ref = account_ref, t_model_id = model_id,
      t_billing_pool_ref = billing_pool_ref, t_runtime_ref = runtime_ref,
      t_config_revision = config_revision, t_paused = truthy (dget d ''paused''),
      t_orchestration_owner = py_str L (por (dget d ''orchestration_owner'') (JStr ''core'')),
      t_evidence_stale = truthy (dget d ''evidence_stale''),
      t_input_hash = py_str L (por (dget d ''input_hash'') (JStr [])),
      t_evidence_input_hash = py_str L (por (dget d ''evidence_input_hash'') (JStr [])),
      t_execution_digest = py_str L (por (dget d ''execution_digest'') (JStr [])),
      t_findings = findings, t_repair_count = repair_count,
      t_review_status = py_str L (por (dget d ''review_status'') (JStr ''not_configured'')),
      t_run_count = run_count,
      t_workspace_root = py_str L (por (dget d ''workspace_root'') (JStr [])),
      t_quality = quality, t_capability = dget d ''capability'',
      t_capability_input = capability_input, t_read_scope = read_scope,
      t_external_evaluation = por (dget d ''external_evaluation'') (JObj []),
      t_external_require_review = truthy (dget_or d ''external_require_review'' (JBool False)),
      t_stage_gate = por (dget d ''stage_gate'') (JObj []), t_dependencies = dependencies,
      t_dependency_state = por (dget d ''dependency_state'') (JObj []),
      t_external_observations = por (dget d ''external_observations'') (JObj []),
      t_dispatch_materials = por (dget d ''dispatch_materials'') (JArr []),
      t_handoff_snapshot = por (dget d ''handoff_snapshot'') (JObj [])\<rparr>))))))))))))))))))))"

text \<open>
  What a task of the application satisfies: identifiers are not blank, the defaults that
  \<^verbatim>\<open>from_dict\<close> puts in place of falsy values are not needed, and an absent part is the
  empty value of its field.
\<close>

definition blank_part :: "json \<Rightarrow> json \<Rightarrow> bool" where
  "blank_part e v \<longleftrightarrow> truthy v \<or> v = e"

definition wf_task :: "task \<Rightarrow> bool" where
  "wf_task t \<longleftrightarrow>
     \<not> is_blank (task_val (t_id t)) \<and> \<not> is_blank (backend_val (t_backend t))
     \<and> opt_ok run_val (t_current_run_id t) \<and> opt_ok conv_val (t_conversation_id t)
     \<and> opt_ok account_val (t_account_ref t) \<and> opt_ok model_val (t_model_id t)
     \<and> opt_ok pool_val (t_billing_pool_ref t) \<and> opt_ok runtime_val (t_runtime_ref t)
     \<and> t_script t \<noteq> [] \<and> t_orchestration_owner t \<noteq> [] \<and> t_review_status t \<noteq> []
     \<and> t_config_revision t \<noteq> 0 \<and> t_run_count t \<noteq> 0
     \<and> blank_part JNull (t_capability t)
     \<and> (\<not> truthy (t_capability t) \<longrightarrow> t_capability_input t = [])
     \<and> blank_part (JObj []) (t_external_evaluation t) \<and> blank_part (JObj []) (t_stage_gate t)
     \<and> blank_part (JObj []) (t_dependency_state t) \<and> blank_part (JObj []) (t_external_observations t)
     \<and> blank_part (JArr []) (t_dispatch_materials t) \<and> blank_part (JObj []) (t_handoff_snapshot t)"

lemma por_back [simp]:
  "s \<noteq> [] \<Longrightarrow> por (JStr s) w = JStr s"
  "n \<noteq> 0 \<Longrightarrow> por (JInt n) w = JInt n"
  "por (JStr s) (JStr []) = JStr s"
  "por (JInt n) (JInt 0) = JInt n"
  "por (JArr xs) (JArr []) = JArr xs"
  "por (JObj d) (JObj []) = JObj d"
  by (auto simp: por_def)

lemma por_dopt [simp]:
  "blank_part e v \<Longrightarrow> por (if truthy v then v else JNull) e = v"
  by (auto simp: blank_part_def por_def)

lemma task_lookup_parts:
  "dget (task_to_dict t) ''execution_digest'' =
     (if t_execution_digest t \<noteq> [] then JStr (t_execution_digest t) else JNull)"
  "dget (task_to_dict t) ''capability'' = (if truthy (t_capability t) then t_capability t else JNull)"
  "dget (task_to_dict t) ''capability_input'' =
     (if truthy (t_capability t) then JObj (t_capability_input t) else JNull)"
  "dget (task_to_dict t) ''read_scope'' = (case t_read_scope t of None \<Rightarrow> JNull | Some d \<Rightarrow> JObj d)"
  "dget (task_to_dict t) ''external_evaluation'' =
     (if truthy (t_external_evaluation t) then t_external_evaluation t else JNull)"
  "dget_or (task_to_dict t) ''external_require_review'' (JBool False) =
     JBool (t_external_require_review t)"
  "dget (task_to_dict t) ''stage_gate'' = (if truthy (t_stage_gate t) then t_stage_gate t else JNull)"
  "dget (task_to_dict t) ''dependencies'' =
     (if t_dependencies t \<noteq> [] then JArr (t_dependencies t) else JNull)"
  "dget (task_to_dict t) ''dependency_state'' =
     (if truthy (t_dependency_state t) then t_dependency_state t else JNull)"
  "dget (task_to_dict t) ''external_observations'' =
     (if truthy (t_external_observations t) then t_external_observations t else JNull)"
  "dget (task_to_dict t) ''dispatch_materials'' =
     (if truthy (t_dispatch_materials t) then t_dispatch_materials t else JNull)"
  "dget (task_to_dict t) ''handoff_snapshot'' =
     (if truthy (t_handoff_snapshot t) then t_handoff_snapshot t else JNull)"
  by (simp_all add: task_to_dict_def dict_simps split: option.splits)

lemma task_lookup_base:
  "getitem (task_to_dict t) ''id'' = Inr (JStr (task_val (t_id t)))"
  "getitem (task_to_dict t) ''workspace'' = Inr (JStr (t_workspace t))"
  "getitem (task_to_dict t) ''backend'' = Inr (JStr (backend_val (t_backend t)))"
  "getitem (task_to_dict t) ''acceptance'' = Inr (JStr (str_acceptance_status (t_acceptance t)))"
  "getitem (task_to_dict t) ''delivery'' = Inr (JStr (str_delivery_status (t_delivery t)))"
  "getitem (task_to_dict t) ''created_at'' = Inr (JStr (t_created_at t))"
  "dget (task_to_dict t) ''text'' = JStr (t_text t)"
  "dget (task_to_dict t) ''script'' = JStr (t_script t)"
  "dget (task_to_dict t) ''current_run_id'' = opt_val run_val (t_current_run_id t)"
  "dget (task_to_dict t) ''conversation_id'' = opt_val conv_val (t_conversation_id t)"
  "dget (task_to_dict t) ''account_ref'' = opt_val account_val (t_account_ref t)"
  "dget (task_to_dict t) ''model_id'' = opt_val model_val (t_model_id t)"
  "dget (task_to_dict t) ''billing_pool_ref'' = opt_val pool_val (t_billing_pool_ref t)"
  "dget (task_to_dict t) ''runtime_ref'' = opt_val runtime_val (t_runtime_ref t)"
  "dget (task_to_dict t) ''config_revision'' = JInt (t_config_revision t)"
  "dget (task_to_dict t) ''paused'' = JBool (t_paused t)"
  "dget (task_to_dict t) ''orchestration_owner'' = JStr (t_orchestration_owner t)"
  "dget (task_to_dict t) ''evidence_stale'' = JBool (t_evidence_stale t)"
  "dget (task_to_dict t) ''input_hash'' = JStr (t_input_hash t)"
  "dget (task_to_dict t) ''evidence_input_hash'' = JStr (t_evidence_input_hash t)"
  "dget (task_to_dict t) ''findings'' = JArr (t_findings t)"
  "dget (task_to_dict t) ''repair_count'' = JInt (t_repair_count t)"
  "dget (task_to_dict t) ''review_status'' = JStr (t_review_status t)"
  "dget (task_to_dict t) ''run_count'' = JInt (t_run_count t)"
  "dget (task_to_dict t) ''workspace_root'' = JStr (t_workspace_root t)"
  "dget (task_to_dict t) ''quality'' = JObj (t_quality t)"
  by (simp_all add: task_to_dict_def)

lemma por_if [simp]:
  "por (if s \<noteq> [] then JStr s else JNull) (JStr []) = JStr s"
  "por (if xs \<noteq> [] then JArr xs else JNull) (JArr []) = JArr xs"
  "(c \<or> d = []) \<Longrightarrow> por (if c then JObj d else JNull) (JObj []) = JObj d"
  by (auto simp: por_def)

lemma opt_dict_back [simp]:
  "opt_dict L (case x of None \<Rightarrow> JNull | Some d \<Rightarrow> JObj d) = Inr x"
  by (simp add: opt_dict_def split: option.splits)

lemma blank_part_back: "blank_part JNull v \<Longrightarrow> (if truthy v then v else JNull) = v"
  by (auto simp: blank_part_def)

lemma task_roundtrip:
  assumes "wf_task t"
  shows "task_from_dict L (task_to_dict t) = Inr t"
proof -
  have d: "truthy (t_capability t) \<or> t_capability_input t = []"
    using assms by (auto simp: wf_task_def)
  show ?thesis
    using assms
    unfolding task_from_dict_def task_lookup_base task_lookup_parts wf_task_def
    by (simp add: d blank_part_back del: if_split)
qed

section \<open>Run\<close>

record run =
  r_id :: run_id
  r_task_id :: task_id
  r_backend :: backend_id
  r_status :: run_status
  r_created_at :: string
  r_cancel_requested :: bool
  r_terminated :: bool
  r_error_code :: json
  r_summary :: string
  r_native :: dict
  r_role :: string
  r_prompt :: string
  r_conversation_id :: "conversation_id option"
  r_target_hash :: string
  r_approval_attempts :: "json list"
  r_output :: json
  r_plugin_reason :: "string option"

definition run_to_dict :: "run \<Rightarrow> dict" where
  "run_to_dict r =
    [(''id'', JStr (run_val (r_id r))),
     (''task_id'', JStr (task_val (r_task_id r))),
     (''backend'', JStr (backend_val (r_backend r))),
     (''status'', JStr (str_run_status (r_status r))),
     (''created_at'', JStr (r_created_at r)),
     (''cancel_requested'', JBool (r_cancel_requested r)),
     (''terminated'', JBool (r_terminated r)),
     (''error_code'', r_error_code r)]
    @ dopt (r_plugin_reason r \<noteq> None \<and> r_status r = Rs_FAILED) ''plugin_reason''
        (jstr_opt (r_plugin_reason r))
    @ [(''summary'', JStr (r_summary r)),
       (''native'', JObj (r_native r)),
       (''role'', JStr (r_role r)),
       (''prompt'', JStr (r_prompt r)),
       (''conversation_id'', opt_val conv_val (r_conversation_id r)),
       (''target_hash'', JStr (r_target_hash r)),
       (''approval_attempts'', JArr (r_approval_attempts r))]
    @ dopt (r_output r \<noteq> JNull) ''output'' (r_output r)"

definition run_from_dict :: "pylib \<Rightarrow> dict \<Rightarrow> run res" where
  "run_from_dict L d =
    bind_res (bind_res (getitem d ''id'') (typed_id RunId)) (\<lambda>id.
    bind_res (bind_res (getitem d ''task_id'') (typed_id TaskId)) (\<lambda>task_id.
    bind_res (bind_res (getitem d ''backend'') (typed_id BackendId)) (\<lambda>backend.
    bind_res (bind_res (getitem d ''status'') parse_run_status) (\<lambda>status.
    bind_res (getitem d ''created_at'') (\<lambda>created_at.
    bind_res (py_dict L (por (dget d ''native'') (JObj []))) (\<lambda>native.
    bind_res (opt_typed_id ConversationId (dget d ''conversation_id'')) (\<lambda>conversation_id.
    bind_res (py_list L (por (dget d ''approval_attempts'') (JArr []))) (\<lambda>approval_attempts.
    Inr \<lparr>r_id = id, r_task_id = task_id, r_backend = backend, r_status = status,
      r_created_at = py_str L created_at,
      r_cancel_requested = truthy (dget d ''cancel_requested''),
      r_terminated = truthy (dget d ''terminated''),
      r_error_code = dget d ''error_code'',
      r_summary = py_str L (por (dget d ''summary'') (JStr [])),
      r_native = native,
      r_role = py_str L (por (dget d ''role'') (JStr ''implementation'')),
      r_prompt = py_str L (por (dget d ''prompt'') (JStr [])),
      r_conversation_id = conversation_id,
      r_target_hash = py_str L (por (dget d ''target_hash'') (JStr [])),
      r_approval_attempts = approval_attempts,
      r_output = dget d ''output'',
      r_plugin_reason = as_str (dget d ''plugin_reason'')\<rparr>))))))))"

definition wf_run :: "run \<Rightarrow> bool" where
  "wf_run r \<longleftrightarrow>
     \<not> is_blank (run_val (r_id r)) \<and> \<not> is_blank (task_val (r_task_id r))
     \<and> \<not> is_blank (backend_val (r_backend r)) \<and> opt_ok conv_val (r_conversation_id r)
     \<and> r_role r \<noteq> [] \<and> (r_plugin_reason r \<noteq> None \<longrightarrow> r_status r = Rs_FAILED)"

lemma run_lookup:
  "getitem (run_to_dict r) ''id'' = Inr (JStr (run_val (r_id r)))"
  "getitem (run_to_dict r) ''task_id'' = Inr (JStr (task_val (r_task_id r)))"
  "getitem (run_to_dict r) ''backend'' = Inr (JStr (backend_val (r_backend r)))"
  "getitem (run_to_dict r) ''status'' = Inr (JStr (str_run_status (r_status r)))"
  "getitem (run_to_dict r) ''created_at'' = Inr (JStr (r_created_at r))"
  "dget (run_to_dict r) ''cancel_requested'' = JBool (r_cancel_requested r)"
  "dget (run_to_dict r) ''terminated'' = JBool (r_terminated r)"
  "dget (run_to_dict r) ''error_code'' = r_error_code r"
  "dget (run_to_dict r) ''plugin_reason'' =
     (if r_status r = Rs_FAILED then jstr_opt (r_plugin_reason r) else JNull)"
  "dget (run_to_dict r) ''summary'' = JStr (r_summary r)"
  "dget (run_to_dict r) ''native'' = JObj (r_native r)"
  "dget (run_to_dict r) ''role'' = JStr (r_role r)"
  "dget (run_to_dict r) ''prompt'' = JStr (r_prompt r)"
  "dget (run_to_dict r) ''conversation_id'' = opt_val conv_val (r_conversation_id r)"
  "dget (run_to_dict r) ''target_hash'' = JStr (r_target_hash r)"
  "dget (run_to_dict r) ''approval_attempts'' = JArr (r_approval_attempts r)"
  "dget (run_to_dict r) ''output'' = r_output r"
  by (simp_all add: run_to_dict_def dict_simps jstr_opt_def)

lemma as_str_jstr_opt [simp]: "as_str (jstr_opt x) = x"
  by (simp add: jstr_opt_def split: option.splits)

lemma run_roundtrip: "wf_run r \<Longrightarrow> run_from_dict L (run_to_dict r) = Inr r"
  unfolding run_from_dict_def run_lookup wf_run_def by auto

section \<open>Session binding\<close>

record session_binding =
  s_conversation_id :: conversation_id
  s_backend :: backend_id
  s_workspace :: string
  s_account_ref :: account_ref
  s_runtime_ref :: runtime_ref
  s_created_at :: string
  s_updated_at :: string
  s_backend_session_id :: "backend_session_id option"
  s_latest_turn_id :: json
  s_task_id :: "task_id option"
  s_config_revision :: int

definition session_to_dict :: "session_binding \<Rightarrow> dict" where
  "session_to_dict s =
    [(''conversation_id'', JStr (conv_val (s_conversation_id s))),
     (''backend'', JStr (backend_val (s_backend s))),
     (''workspace'', JStr (s_workspace s)),
     (''account_ref'', JStr (account_val (s_account_ref s))),
     (''runtime_ref'', JStr (runtime_val (s_runtime_ref s))),
     (''created_at'', JStr (s_created_at s)),
     (''updated_at'', JStr (s_updated_at s)),
     (''backend_session_id'', opt_val bsession_val (s_backend_session_id s)),
     (''latest_turn_id'', s_latest_turn_id s),
     (''task_id'', opt_val task_val (s_task_id s)),
     (''config_revision'', JInt (s_config_revision s))]"

definition session_from_dict :: "pylib \<Rightarrow> dict \<Rightarrow> session_binding res" where
  "session_from_dict L d =
    bind_res (bind_res (getitem d ''conversation_id'') (typed_id ConversationId)) (\<lambda>conversation_id.
    bind_res (bind_res (getitem d ''backend'') (typed_id BackendId)) (\<lambda>backend.
    bind_res (getitem d ''workspace'') (\<lambda>workspace.
    bind_res (bind_res (getitem d ''account_ref'') (typed_id AccountRef)) (\<lambda>account_ref.
    bind_res (bind_res (getitem d ''runtime_ref'') (typed_id RuntimeRef)) (\<lambda>runtime_ref.
    bind_res (getitem d ''created_at'') (\<lambda>created_at.
    bind_res (getitem d ''updated_at'') (\<lambda>updated_at.
    bind_res (opt_typed_id BackendSessionId (dget d ''backend_session_id'')) (\<lambda>backend_session_id.
    bind_res (opt_typed_id TaskId (dget d ''task_id'')) (\<lambda>task_id.
    bind_res (py_int L (por (dget d ''config_revision'') (JInt 1))) (\<lambda>config_revision.
    Inr \<lparr>s_conversation_id = conversation_id, s_backend = backend,
      s_workspace = py_str L workspace, s_account_ref = account_ref, s_runtime_ref = runtime_ref,
      s_created_at = py_str L created_at, s_updated_at = py_str L updated_at,
      s_backend_session_id = backend_session_id, s_latest_turn_id = dget d ''latest_turn_id'',
      s_task_id = task_id, s_config_revision = config_revision\<rparr>))))))))))"

definition wf_session :: "session_binding \<Rightarrow> bool" where
  "wf_session s \<longleftrightarrow>
     \<not> is_blank (conv_val (s_conversation_id s)) \<and> \<not> is_blank (backend_val (s_backend s))
     \<and> \<not> is_blank (account_val (s_account_ref s)) \<and> \<not> is_blank (runtime_val (s_runtime_ref s))
     \<and> opt_ok bsession_val (s_backend_session_id s) \<and> opt_ok task_val (s_task_id s)
     \<and> s_config_revision s \<noteq> 0"

lemma session_roundtrip:
  "wf_session s \<Longrightarrow> session_from_dict L (session_to_dict s) = Inr s"
  by (simp add: session_from_dict_def session_to_dict_def wf_session_def)

section \<open>Approval request\<close>

record approval_request =
  ap_id :: approval_id
  ap_task_id :: task_id
  ap_run_id :: run_id
  ap_summary :: string
  ap_state :: approval_state
  ap_created_at :: string
  ap_expires_at :: json
  ap_target_hash :: string
  ap_native_request :: dict
  ap_decision_source :: json
  ap_assessment :: dict
  ap_response_status :: string
  ap_native_confirmed :: bool

definition approval_to_dict :: "approval_request \<Rightarrow> dict" where
  "approval_to_dict a =
    [(''id'', JStr (approval_val (ap_id a))),
     (''task_id'', JStr (task_val (ap_task_id a))),
     (''run_id'', JStr (run_val (ap_run_id a))),
     (''summary'', JStr (ap_summary a)),
     (''state'', JStr (str_approval_state (ap_state a))),
     (''created_at'', JStr (ap_created_at a)),
     (''expires_at'', ap_expires_at a),
     (''target_hash'', JStr (ap_target_hash a)),
     (''native_request'', JObj (ap_native_request a)),
     (''decision_source'', ap_decision_source a),
     (''assessment'', JObj (ap_assessment a)),
     (''response_status'', JStr (ap_response_status a)),
     (''native_confirmed'', JBool (ap_native_confirmed a))]"

definition approval_from_dict :: "pylib \<Rightarrow> dict \<Rightarrow> approval_request res" where
  "approval_from_dict L d =
    bind_res (bind_res (getitem d ''id'') (typed_id ApprovalId)) (\<lambda>id.
    bind_res (bind_res (getitem d ''task_id'') (typed_id TaskId)) (\<lambda>task_id.
    bind_res (bind_res (getitem d ''run_id'') (typed_id RunId)) (\<lambda>run_id.
    bind_res (getitem d ''summary'') (\<lambda>summary.
    bind_res (bind_res (getitem d ''state'') parse_approval_state) (\<lambda>state.
    bind_res (getitem d ''created_at'') (\<lambda>created_at.
    bind_res (py_dict L (por (dget d ''native_request'') (JObj []))) (\<lambda>native_request.
    bind_res (py_dict L (por (dget d ''assessment'') (JObj []))) (\<lambda>assessment.
    Inr \<lparr>ap_id = id, ap_task_id = task_id, ap_run_id = run_id, ap_summary = py_str L summary,
      ap_state = state, ap_created_at = py_str L created_at, ap_expires_at = dget d ''expires_at'',
      ap_target_hash = py_str L (por (dget d ''target_hash'') (JStr [])),
      ap_native_request = native_request, ap_decision_source = dget d ''decision_source'',
      ap_assessment = assessment,
      ap_response_status = py_str L (dget_or d ''response_status'' (JStr ''not_sent'')),
      ap_native_confirmed = (dget d ''native_confirmed'' = JBool True)\<rparr>))))))))"

definition wf_approval :: "approval_request \<Rightarrow> bool" where
  "wf_approval a \<longleftrightarrow> \<not> is_blank (approval_val (ap_id a)) \<and> \<not> is_blank (task_val (ap_task_id a))
     \<and> \<not> is_blank (run_val (ap_run_id a))"

lemma approval_roundtrip:
  "wf_approval a \<Longrightarrow> approval_from_dict L (approval_to_dict a) = Inr a"
  by (simp add: approval_from_dict_def approval_to_dict_def wf_approval_def)

section \<open>Operation, event, capability and envelope\<close>

record operation =
  o_id :: operation_id
  o_idempotency_key :: string
  o_principal :: string
  o_action :: string
  o_target :: string
  o_input_hash :: string
  o_status :: operation_status
  o_created_at :: string
  o_task_id :: "task_id option"
  o_run_id :: "run_id option"

definition operation_to_dict :: "operation \<Rightarrow> dict" where
  "operation_to_dict p =
    [(''id'', JStr (operation_val (o_id p))),
     (''idempotency_key'', JStr (o_idempotency_key p)),
     (''principal'', JStr (o_principal p)),
     (''action'', JStr (o_action p)),
     (''target'', JStr (o_target p)),
     (''input_hash'', JStr (o_input_hash p)),
     (''status'', JStr (str_operation_status (o_status p))),
     (''created_at'', JStr (o_created_at p)),
     (''task_id'', opt_val task_val (o_task_id p)),
     (''run_id'', opt_val run_val (o_run_id p))]"

definition operation_from_dict :: "pylib \<Rightarrow> dict \<Rightarrow> operation res" where
  "operation_from_dict L d =
    bind_res (bind_res (getitem d ''id'') (typed_id OperationId)) (\<lambda>id.
    bind_res (getitem d ''idempotency_key'') (\<lambda>idempotency_key.
    bind_res (getitem d ''principal'') (\<lambda>principal.
    bind_res (getitem d ''action'') (\<lambda>action.
    bind_res (getitem d ''target'') (\<lambda>target.
    bind_res (getitem d ''input_hash'') (\<lambda>input_hash.
    bind_res (bind_res (getitem d ''status'') parse_operation_status) (\<lambda>status.
    bind_res (getitem d ''created_at'') (\<lambda>created_at.
    bind_res (opt_typed_id TaskId (dget d ''task_id'')) (\<lambda>task_id.
    bind_res (opt_typed_id RunId (dget d ''run_id'')) (\<lambda>run_id.
    Inr \<lparr>o_id = id, o_idempotency_key = py_str L idempotency_key, o_principal = py_str L principal,
      o_action = py_str L action, o_target = py_str L target, o_input_hash = py_str L input_hash,
      o_status = status, o_created_at = py_str L created_at,
      o_task_id = task_id, o_run_id = run_id\<rparr>))))))))))"

definition wf_operation :: "operation \<Rightarrow> bool" where
  "wf_operation p \<longleftrightarrow> \<not> is_blank (operation_val (o_id p))
     \<and> opt_ok task_val (o_task_id p) \<and> opt_ok run_val (o_run_id p)"

lemma operation_roundtrip:
  "wf_operation p \<Longrightarrow> operation_from_dict L (operation_to_dict p) = Inr p"
  by (simp add: operation_from_dict_def operation_to_dict_def wf_operation_def)

record event =
  e_seq :: int
  e_type :: event_type
  e_source :: string
  e_timestamp :: string
  e_schema_version :: int
  e_payload :: dict

definition event_to_dict :: "event \<Rightarrow> dict" where
  "event_to_dict e =
    [(''seq'', JInt (e_seq e)), (''type'', JStr (str_event_type (e_type e))),
     (''source'', JStr (e_source e)), (''timestamp'', JStr (e_timestamp e)),
     (''schema_version'', JInt (e_schema_version e)), (''payload'', JObj (e_payload e))]"

definition event_from_dict :: "pylib \<Rightarrow> dict \<Rightarrow> event res" where
  "event_from_dict L d =
    bind_res (bind_res (getitem d ''seq'') (py_int L)) (\<lambda>seq.
    bind_res (bind_res (getitem d ''type'') parse_event_type) (\<lambda>ty.
    bind_res (getitem d ''source'') (\<lambda>source.
    bind_res (getitem d ''timestamp'') (\<lambda>timestamp.
    bind_res (bind_res (getitem d ''schema_version'') (py_int L)) (\<lambda>schema_version.
    bind_res (py_dict L (por (dget d ''payload'') (JObj []))) (\<lambda>payload.
    Inr \<lparr>e_seq = seq, e_type = ty, e_source = py_str L source, e_timestamp = py_str L timestamp,
      e_schema_version = schema_version, e_payload = payload\<rparr>))))))"

lemma event_roundtrip: "event_from_dict L (event_to_dict e) = Inr e"
  by (simp add: event_from_dict_def event_to_dict_def)

record capability =
  cap_name :: string
  cap_declared_support :: support_level
  cap_adapter_support :: support_level
  cap_verification_status :: verification_status
  cap_verification_environment :: "string option"
  cap_verified_at :: "string option"

definition capability_to_dict :: "capability \<Rightarrow> dict" where
  "capability_to_dict c =
    [(''name'', JStr (cap_name c)),
     (''declared_support'', JStr (str_support_level (cap_declared_support c))),
     (''adapter_support'', JStr (str_support_level (cap_adapter_support c))),
     (''verification_status'', JStr (str_verification_status (cap_verification_status c))),
     (''verification_environment'', jstr_opt (cap_verification_environment c)),
     (''verified_at'', jstr_opt (cap_verified_at c))]"

record envelope =
  env_ok :: bool
  env_data :: "dict option"
  env_error :: "dict option"
  env_ids :: dict
  env_evidence_ref :: "string option"

definition envelope_to_dict :: "envelope \<Rightarrow> dict" where
  "envelope_to_dict e =
    [(''ok'', JBool (env_ok e)),
     (''data'', case env_data e of None \<Rightarrow> JNull | Some d \<Rightarrow> JObj d),
     (''error'', case env_error e of None \<Rightarrow> JNull | Some d \<Rightarrow> JObj d),
     (''ids'', JObj (env_ids e)),
     (''evidence_ref'', jstr_opt (env_evidence_ref e))]"

section \<open>What is stored comes back\<close>

text \<open>
  C27. A stored task comes back as it was: for a well-formed task \<^verbatim>\<open>from_dict\<close> inverts
  \<^verbatim>\<open>to_dict\<close> on all thirty-eight fields, the optional parts included.
\<close>

theorem task_dict_roundtrip: "wf_task t \<Longrightarrow> task_from_dict L (task_to_dict t) = Inr t"
  by (rule task_roundtrip)

definition example_task :: task where
  "example_task =
    \<lparr>t_id = TaskId ''tsk_1'', t_workspace = ''demo'', t_backend = BackendId ''codex'',
     t_text = ''fix it'', t_script = ''success'', t_acceptance = Acc_PENDING,
     t_delivery = Del_NOT_CONFIGURED, t_created_at = ''2026-01-01T00:00:00Z'',
     t_current_run_id = Some (RunId ''run_1''), t_conversation_id = None,
     t_account_ref = Some (AccountRef ''acct''), t_model_id = None, t_billing_pool_ref = None,
     t_runtime_ref = Some (RuntimeRef ''host''), t_config_revision = 3, t_paused = False,
     t_orchestration_owner = ''core'', t_evidence_stale = False, t_input_hash = ''ab'',
     t_evidence_input_hash = ''ab'', t_execution_digest = [], t_findings = [],
     t_repair_count = 0, t_review_status = ''not_configured'', t_run_count = 1,
     t_workspace_root = ''/w'', t_quality = [], t_capability = JNull, t_capability_input = [],
     t_read_scope = None, t_external_evaluation = JObj [], t_external_require_review = False,
     t_stage_gate = JObj [], t_dependencies = [], t_dependency_state = JObj [],
     t_external_observations = JObj [], t_dispatch_materials = JArr [],
     t_handoff_snapshot = JObj []\<rparr>"

lemma example_task_wf: "wf_task example_task"
  by (simp add: wf_task_def example_task_def opt_ok_def not_blank_Cons ascii_space_def blank_part_def)

theorem task_dict_roundtrip_witness: "task_from_dict plain_lib (task_to_dict example_task) = Inr example_task"
  by (rule task_dict_roundtrip [OF example_task_wf])

text \<open>
  C28. The same for runs: status, native record and the reason a plugin gave for a failure
  survive the state database.
\<close>

theorem run_dict_roundtrip: "wf_run r \<Longrightarrow> run_from_dict L (run_to_dict r) = Inr r"
  by (rule run_roundtrip)

definition example_run :: run where
  "example_run =
    \<lparr>r_id = RunId ''run_1'', r_task_id = TaskId ''tsk_1'', r_backend = BackendId ''codex'',
     r_status = Rs_QUEUED, r_created_at = ''2026-01-01T00:00:00Z'', r_cancel_requested = False,
     r_terminated = False, r_error_code = JNull, r_summary = [], r_native = [],
     r_role = ''implementation'', r_prompt = [], r_conversation_id = None, r_target_hash = [],
     r_approval_attempts = [], r_output = JNull, r_plugin_reason = None\<rparr>"

lemma example_run_wf: "wf_run example_run"
  by (simp add: wf_run_def example_run_def opt_ok_def not_blank_Cons ascii_space_def)

theorem run_dict_roundtrip_witness: "run_from_dict plain_lib (run_to_dict example_run) = Inr example_run"
  by (rule run_dict_roundtrip [OF example_run_wf])

end
