(* ===== verification/Json_Value.thy ===== *)
theory Json_Value
  imports Prelude
begin

text \<open>
  What \<^verbatim>\<open>json.loads(json.dumps(v, sort_keys=True))\<close> makes of a value: the same value with
  the keys of every object sorted. Two values have the same sorted JSON text exactly
  when \<open>canon\<close> makes them equal, so a stored JSON text is modelled by the canonical value
  and the code's comparisons of texts by equality. Floats are finite here: the code writes
  with \<^verbatim>\<open>allow_nan=False\<close>.
\<close>

fun canon :: "json \<Rightarrow> json"
and canon_list :: "json list \<Rightarrow> json list"
and canon_fields :: "dict \<Rightarrow> dict" where
  "canon JNull = JNull"
| "canon (JBool b) = JBool b"
| "canon (JInt n) = JInt n"
| "canon (JFloat r) = JFloat r"
| "canon (JStr s) = JStr s"
| "canon (JArr xs) = JArr (canon_list xs)"
| "canon (JObj d) = JObj (sort_key fst (canon_fields d))"
| "canon_list [] = []"
| "canon_list (x # xs) = canon x # canon_list xs"
| "canon_fields [] = []"
| "canon_fields ((k, v) # d) = (k, canon v) # canon_fields d"

definition canon_dict :: "dict \<Rightarrow> dict" where
  "canon_dict d = sort_key fst (canon_fields d)"

lemma canon_list_map: "canon_list xs = map canon xs"
  by (induction xs) auto

lemma canon_fields_map: "canon_fields d = map (\<lambda>(k, v). (k, canon v)) d"
  by (induction d) auto

lemma map_insort_fst:
  "map (\<lambda>(k, v). (k, f v)) (insort_key fst p d) =
   insort_key fst (case p of (k, v) \<Rightarrow> (k, f v)) (map (\<lambda>(k, v). (k, f v)) d)"
  by (induction d) (auto split: prod.splits)

lemma map_sort_fst:
  "map (\<lambda>(k, v). (k, f v)) (sort_key fst d) = sort_key fst (map (\<lambda>(k, v). (k, f v)) d)"
  by (induction d) (auto simp: map_insort_fst)

lemma sort_key_fst_idem: "sort_key fst (sort_key fst d) = sort_key fst (d :: dict)"
  by (rule sort_key_id_if_sorted) simp

lemma canon_idem [simp]:
  "canon (canon v) = canon v"
  "canon_list (canon_list xs) = canon_list xs"
  "canon_fields (canon_fields d) = canon_fields d"
proof (induction v and xs and d rule: canon_canon_list_canon_fields.induct)
  case (7 d)
  have "canon_fields (sort_key fst (canon_fields d)) = sort_key fst (canon_fields (canon_fields d))"
    by (simp only: canon_fields_map map_sort_fst)
  also have "\<dots> = sort_key fst (canon_fields d)" by (simp only: 7)
  finally have e: "canon_fields (sort_key fst (canon_fields d)) = sort_key fst (canon_fields d)" .
  show ?case by (simp only: canon.simps e sort_key_fst_idem)
qed simp_all

lemma canon_dict_idem [simp]: "canon_dict (canon_dict d) = canon_dict d"
proof -
  have "canon (canon (JObj d)) = canon (JObj d)" by (rule canon_idem)
  then show ?thesis by (simp only: canon_dict_def canon.simps json.inject)
qed

section \<open>Looking up in the stored form\<close>

lemma map_of_insort_fst: "map_of (insort_key fst p d) = map_of (p # d)"
  by (induction d) (auto simp: fun_upd_twist)

lemma map_of_sort_fst [simp]: "map_of (sort_key fst d) = map_of d"
  by (induction d) (simp_all add: map_of_insort_fst)

lemma map_of_canon_dict: "map_of (canon_dict d) k = map_option canon (map_of d k)"
  by (simp add: canon_dict_def canon_fields_map map_of_map) 

lemma dget_canon_dict [dict_simps, simp]: "dget (canon_dict d) k = canon (dget d k)"
  by (simp add: dget_def map_of_canon_dict split: option.splits)

lemma canon_JStr_iff [simp]: "canon v = JStr s \<longleftrightarrow> v = JStr s" "JStr s = canon v \<longleftrightarrow> v = JStr s"
  by (cases v; auto)+

lemma canon_JInt_iff [simp]: "canon v = JInt n \<longleftrightarrow> v = JInt n"
  by (cases v) auto

lemma canon_JNull_iff [simp]: "canon v = JNull \<longleftrightarrow> v = JNull"
  by (cases v) auto

lemma as_int_canon [simp]: "as_int (canon v) = as_int v"
  by (cases v) auto

lemma truthy_canon [simp]: "truthy (canon v) = truthy v"
proof (cases v)
  case (JObj d)
  have "length (sort_key fst (canon_fields d)) = length d"
    by (simp add: canon_fields_map)
  then have "sort_key fst (canon_fields d) = [] \<longleftrightarrow> d = []" by (metis length_0_conv)
  with JObj show ?thesis by simp
next
  case (JArr xs)
  then show ?thesis by (cases xs) auto
qed auto

end
