(* ===== verification/Control_Store.thy ===== *)
theory Control_Store
  imports Json_Value Ids_Errors
begin

text \<open>
  The transactional store of the runner-control service,
  \<^verbatim>\<open>src/asterun/control_store.py\<close>. Each SQL table is a field of the state: a table with a
  primary key the code upserts on is an association list from that key, the others are
  lists of rows, in \<^verbatim>\<open>rowid\<close> order. A payload column holds sorted JSON text, here the
  canonical value (\<open>canon\<close>). An operation is a function from the state to an exception or
  a result and the next state: an exception leaves no state behind, which is what the
  \<^verbatim>\<open>ROLLBACK\<close> of \<^verbatim>\<open>transaction()\<close> does (nested calls join the outer transaction). The key
  fields of an entity are strings, which the caller validates; another type is a
  \<^verbatim>\<open>TypeError\<close> here. \<^verbatim>\<open>hashlib.sha256\<close>, \<^verbatim>\<open>datetime.fromisoformat\<close> and the clock are
  arguments, so that every statement holds for any of them.
\<close>

section \<open>Tables\<close>

definition MAX_INT :: int where
  "MAX_INT = 9007199254740991"

definition METERS :: "string list" where
  "METERS = [''tokens'', ''turns'', ''tool_actions'', ''wall_ms'', ''usd_micros'']"

record event_row =
  ev_ns :: string
  ev_task :: string
  ev_seq :: int
  ev_id :: string
  ev_payload :: dict

record lease_row =
  ls_holder :: "string option"
  ls_expires :: string
  ls_token :: int

record reservation_row =
  rr_ns :: string
  rr_id :: string
  rr_budget :: string
  rr_action :: string

record control_db =
  ct_entities :: "((string \<times> string \<times> string) \<times> dict) list"
  ct_operations :: "((string \<times> string \<times> string \<times> string) \<times> (string \<times> string)) list"
  ct_streams :: "((string \<times> string) \<times> (int \<times> int)) list"
  ct_events :: "event_row list"
  ct_event_ids :: "(string \<times> string) list"
  ct_outbox :: "((string \<times> string) \<times> (json \<times> string)) list"
  ct_leases :: "((string \<times> string) \<times> lease_row) list"
  ct_reservations :: "reservation_row list"
  ct_blobs :: "((string \<times> string) \<times> string) list"

definition new_control_db :: control_db where
  "new_control_db = \<lparr>ct_entities = [], ct_operations = [], ct_streams = [], ct_events = [],
     ct_event_ids = [], ct_outbox = [], ct_leases = [], ct_reservations = [], ct_blobs = []\<rparr>"

type_synonym 'a tx = "control_db \<Rightarrow> ('a \<times> control_db) res"

definition str_item :: "dict \<Rightarrow> string \<Rightarrow> string res" where
  "str_item d k = bind_res (getitem d k)
     (\<lambda>v. case v of JStr s \<Rightarrow> Inr s | _ \<Rightarrow> Inl TypeError)"

definition int_item :: "dict \<Rightarrow> string \<Rightarrow> int res" where
  "int_item d k = bind_res (getitem d k)
     (\<lambda>v. case v of JInt n \<Rightarrow> Inr n | _ \<Rightarrow> Inl TypeError)"

section \<open>Entities\<close>

definition cs_get :: "string \<Rightarrow> string \<Rightarrow> string \<Rightarrow> control_db \<Rightarrow> dict res" where
  "cs_get kind i ns db =
     (if kind = ''Event'' then
        (case find (\<lambda>e. ev_ns e = ns \<and> ev_id e = i) (ct_events db) of
           None \<Rightarrow> raise ''NOT_FOUND'' | Some e \<Rightarrow> Inr (ev_payload e))
      else
        (case map_of (ct_entities db) (ns, kind, i) of
           None \<Rightarrow> raise ''NOT_FOUND'' | Some p \<Rightarrow> Inr p))"

definition cs_put_raw :: "dict \<Rightarrow> control_db \<Rightarrow> control_db res" where
  "cs_put_raw entity db =
     bind_res (str_item entity ''namespace_id'') (\<lambda>ns.
     bind_res (str_item entity ''kind'') (\<lambda>kind.
     bind_res (str_item entity ''id'') (\<lambda>i.
       Inr (db\<lparr>ct_entities := AList.update (ns, kind, i) (canon_dict entity) (ct_entities db)\<rparr>))))"

definition cs_put :: "dict \<Rightarrow> dict tx" where
  "cs_put entity db =
     bind_res (getitem entity ''kind'') (\<lambda>kind.
       if kind = JStr ''Event'' then raise ''INVALID_REQUEST''
       else bind_res (cs_put_raw entity db) (\<lambda>db'. Inr (canon_dict entity, db')))"

definition cs_list :: "string \<Rightarrow> string \<Rightarrow> control_db \<Rightarrow> dict list" where
  "cs_list kind ns db =
     (if kind = ''Event'' then
        map ev_payload (sort_key ev_task (sort_key ev_seq (filter (\<lambda>e. ev_ns e = ns) (ct_events db))))
      else
        map snd (sort_key (\<lambda>((_, _, i), _). i)
          (filter (\<lambda>((n, k, _), _). n = ns \<and> k = kind) (ct_entities db))))"

section \<open>Blobs\<close>

definition cs_get_blob :: "(string \<Rightarrow> string) \<Rightarrow> string \<Rightarrow> string \<Rightarrow> control_db \<Rightarrow> string res" where
  "cs_get_blob sha ns digest db =
     (case map_of (ct_blobs db) (ns, digest) of
        None \<Rightarrow> raise ''NOT_FOUND''
      | Some content \<Rightarrow> if sha content \<noteq> digest then raise ''INVALID_STATE'' else Inr content)"

definition cs_put_blob :: "(string \<Rightarrow> string) \<Rightarrow> string \<Rightarrow> string \<Rightarrow> string tx" where
  "cs_put_blob sha ns content db =
     (let digest = sha content;
          db' = (if map_of (ct_blobs db) (ns, digest) = None
                 then db\<lparr>ct_blobs := ct_blobs db @ [((ns, digest), content)]\<rparr> else db)
      in bind_res (cs_get_blob sha ns digest db') (\<lambda>stored.
           if stored \<noteq> content then raise ''INVALID_STATE'' else Inr (digest, db')))"

section \<open>Idempotent operations\<close>

definition cs_find_operation ::
  "string \<Rightarrow> string \<Rightarrow> string \<Rightarrow> string \<Rightarrow> control_db \<Rightarrow> dict option res" where
  "cs_find_operation ns who mth key db =
     (case map_of (ct_operations db) (ns, who, mth, key) of
        None \<Rightarrow> Inr None
      | Some (i, _) \<Rightarrow> bind_res (cs_get ''Operation'' i ns db) (\<lambda>p. Inr (Some p)))"

definition cs_save_operation :: "dict \<Rightarrow> string \<Rightarrow> string \<Rightarrow> string \<Rightarrow> dict tx" where
  "cs_save_operation operation who key digest db =
     bind_res (str_item operation ''namespace_id'') (\<lambda>ns.
     bind_res (str_item operation ''method'') (\<lambda>mth.
       case map_of (ct_operations db) (ns, who, mth, key) of
         Some (i, d) \<Rightarrow>
           if d \<noteq> digest then raise ''IDEMPOTENCY_CONFLICT''
           else bind_res (cs_get ''Operation'' i ns db) (\<lambda>p. Inr (p, db))
       | None \<Rightarrow>
           bind_res (str_item operation ''id'') (\<lambda>i.
             if list_ex (\<lambda>((n, _), (j, _)). n = ns \<and> j = i) (ct_operations db)
             then raise ''IDEMPOTENCY_CONFLICT''
             else
               bind_res (cs_put_raw operation (db\<lparr>ct_operations :=
                   ct_operations db @ [((ns, who, mth, key), (i, digest))]\<rparr>))
                 (\<lambda>db'. Inr (canon_dict operation, db')))))"

section \<open>Event streams\<close>

definition stream_of :: "control_db \<Rightarrow> string \<Rightarrow> string \<Rightarrow> int \<times> int" where
  "stream_of db ns task = (case map_of (ct_streams db) (ns, task) of None \<Rightarrow> (0, 0) | Some p \<Rightarrow> p)"

definition stream_rows :: "control_db \<Rightarrow> string \<Rightarrow> string \<Rightarrow> event_row list" where
  "stream_rows db ns task = filter (\<lambda>e. ev_ns e = ns \<and> ev_task e = task) (ct_events db)"

definition cs_append_event :: "dict \<Rightarrow> dict tx" where
  "cs_append_event event0 db =
     (let event1 = canon_dict event0 in
      bind_res (str_item event1 ''namespace_id'') (\<lambda>ns.
      bind_res (str_item event1 ''task_id'') (\<lambda>task.
      let (latest, floor) = stream_of db ns task in
      if MAX_INT \<le> latest then raise ''INVALID_STATE''
      else
        let event2 = dset event1 ''sequence'' (JInt (latest + 1)) in
        bind_res (str_item event2 ''id'') (\<lambda>i.
          if (ns, i) \<in> set (ct_event_ids db)
             \<or> list_ex (\<lambda>e. ev_ns e = ns \<and> (ev_id e = i \<or> ev_task e = task \<and> ev_seq e = latest + 1))
                 (ct_events db)
          then raise ''IDEMPOTENCY_CONFLICT''
          else
            Inr (event2,
              db\<lparr>ct_event_ids := ct_event_ids db @ [(ns, i)],
                 ct_events := ct_events db @ [\<lparr>ev_ns = ns, ev_task = task, ev_seq = latest + 1,
                                              ev_id = i, ev_payload = canon_dict event2\<rparr>],
                 ct_streams := AList.update (ns, task) (latest + 1, floor) (ct_streams db)\<rparr>)))))"

definition cs_events :: "string \<Rightarrow> string \<Rightarrow> json \<Rightarrow> json \<Rightarrow> control_db \<Rightarrow> dict list res" where
  "cs_events ns task after limit db =
     (case (as_int after, as_int limit) of
        (Some a, Some l) \<Rightarrow>
          if \<not> (0 \<le> a \<and> a \<le> MAX_INT) \<or> \<not> (1 \<le> l \<and> l \<le> 10000) then raise ''INVALID_REQUEST''
          else
            let (latest, floor) = stream_of db ns task in
            if a < floor then
              Inl (AsterunError ''CURSOR_EXPIRED'' [(''floor'', JInt floor), (''latest'', JInt latest)])
            else if latest < a then
              Inl (AsterunError ''INVALID_REQUEST'' [(''latest'', JInt latest)])
            else
              Inr (map ev_payload (take (nat l)
                (sort_key ev_seq (filter (\<lambda>e. a < ev_seq e) (stream_rows db ns task)))))
      | _ \<Rightarrow> raise ''INVALID_REQUEST'')"

definition cs_prune_events :: "string \<Rightarrow> string \<Rightarrow> json \<Rightarrow> unit tx" where
  "cs_prune_events ns task through db =
     (let (latest, floor) = stream_of db ns task in
      case as_int through of
        None \<Rightarrow> raise ''INVALID_REQUEST''
      | Some t \<Rightarrow>
          if \<not> (0 \<le> t \<and> t \<le> latest) then raise ''INVALID_REQUEST''
          else if t \<le> floor then Inr ((), db)
          else Inr ((), db\<lparr>
            ct_events := filter (\<lambda>e. \<not> (ev_ns e = ns \<and> ev_task e = task \<and> ev_seq e \<le> t)) (ct_events db),
            ct_streams := AList.update (ns, task) (latest, t) (ct_streams db)\<rparr>))"

section \<open>Outbox\<close>

record delivery =
  dl_ns :: string
  dl_action :: string
  dl_payload :: json
  dl_status :: string

definition outbox_row :: "string \<Rightarrow> string \<Rightarrow> json \<Rightarrow> string \<Rightarrow> delivery" where
  "outbox_row ns action payload status =
     \<lparr>dl_ns = ns, dl_action = action, dl_payload = payload, dl_status = status\<rparr>"

definition cs_enqueue :: "string \<Rightarrow> string \<Rightarrow> dict \<Rightarrow> delivery tx" where
  "cs_enqueue action ns payload db =
     (let text = canon (JObj payload) in
      case map_of (ct_outbox db) (ns, action) of
        Some (stored, status) \<Rightarrow>
          if stored \<noteq> text then raise ''IDEMPOTENCY_CONFLICT''
          else Inr (outbox_row ns action stored status, db)
      | None \<Rightarrow>
          Inr (outbox_row ns action text ''PENDING'',
               db\<lparr>ct_outbox := ct_outbox db @ [((ns, action), (text, ''PENDING''))]\<rparr>))"

definition cs_deliveries :: "string \<Rightarrow> string \<Rightarrow> control_db \<Rightarrow> delivery list" where
  "cs_deliveries ns status db =
     map (\<lambda>((n, a), (p, st)). outbox_row n a p st)
       (filter (\<lambda>((n, _), (_, st)). n = ns \<and> st = status) (ct_outbox db))"

definition cs_pending :: "string \<Rightarrow> control_db \<Rightarrow> delivery list" where
  "cs_pending ns db = cs_deliveries ns ''PENDING'' db"

definition cs_uncertain_deliveries :: "string \<Rightarrow> control_db \<Rightarrow> delivery list" where
  "cs_uncertain_deliveries ns db = cs_deliveries ns ''DELIVERING'' db"

definition cs_delivery :: "string \<Rightarrow> string option \<Rightarrow> control_db \<Rightarrow> delivery res" where
  "cs_delivery action ns db =
     (case ns of
        None \<Rightarrow>
          (case filter (\<lambda>((_, a), _). a = action) (ct_outbox db) of
             [] \<Rightarrow> raise ''NOT_FOUND''
           | [((n, a), (p, st))] \<Rightarrow> Inr (outbox_row n action p st)
           | _ \<Rightarrow> raise ''INVALID_REQUEST'')
      | Some n \<Rightarrow>
          (case map_of (ct_outbox db) (n, action) of
             None \<Rightarrow> raise ''NOT_FOUND''
           | Some (p, st) \<Rightarrow> Inr (outbox_row n action p st)))"

definition set_delivery :: "delivery \<Rightarrow> string \<Rightarrow> control_db \<Rightarrow> control_db" where
  "set_delivery item status db =
     db\<lparr>ct_outbox := AList.update (dl_ns item, dl_action item) (dl_payload item, status) (ct_outbox db)\<rparr>"

definition cs_mark_delivery :: "string \<Rightarrow> string option \<Rightarrow> delivery tx" where
  "cs_mark_delivery action ns db =
     bind_res (cs_delivery action ns db) (\<lambda>item.
       if dl_status item \<noteq> ''PENDING'' then
         raise (if dl_status item = ''DELIVERING'' then ''UNKNOWN_REMOTE'' else ''INVALID_STATE'')
       else Inr (item\<lparr>dl_status := ''DELIVERING''\<rparr>, set_delivery item ''DELIVERING'' db))"

definition cs_finish_delivery :: "string \<Rightarrow> string option \<Rightarrow> delivery tx" where
  "cs_finish_delivery action ns db =
     bind_res (cs_delivery action ns db) (\<lambda>item.
       Inr (item\<lparr>dl_status := ''DONE''\<rparr>, set_delivery item ''DONE'' db))"

section \<open>Leases\<close>

definition or_now :: "string option \<Rightarrow> string \<Rightarrow> string" where
  "or_now given clock = (case given of None \<Rightarrow> clock | Some s \<Rightarrow> if s = [] then clock else s)"

definition lease_time :: "(string \<Rightarrow> int option) \<Rightarrow> string \<Rightarrow> int res" where
  "lease_time parse_iso v =
     (if v = [] \<or> last v \<noteq> CHR ''Z'' then raise ''INVALID_REQUEST''
      else case parse_iso (butlast v @ ''+00:00'') of
             None \<Rightarrow> raise ''INVALID_REQUEST'' | Some t \<Rightarrow> Inr t)"

definition cs_claim_lease ::
  "(string \<Rightarrow> int option) \<Rightarrow> string \<Rightarrow> string \<Rightarrow> string \<Rightarrow> string \<Rightarrow> string \<Rightarrow> string option \<Rightarrow> lease_row tx" where
  "cs_claim_lease parse_iso clock ns resource holder expires now db =
     bind_res (lease_time parse_iso (or_now now clock)) (\<lambda>timestamp.
     bind_res (lease_time parse_iso expires) (\<lambda>until.
       if until \<le> timestamp then raise ''INVALID_REQUEST''
       else
         let row = map_of (ct_leases db) (ns, resource) in
         bind_res (case row of
             None \<Rightarrow> Inr False
           | Some r \<Rightarrow>
               (if ls_holder r = None \<or> ls_holder r = Some holder then Inr False
                else bind_res (lease_time parse_iso (ls_expires r)) (\<lambda>u. Inr (timestamp < u))))
         (\<lambda>busy.
           if busy then raise ''LEASE_CONFLICT''
           else
             let token = (case row of None \<Rightarrow> 0 | Some r \<Rightarrow> ls_token r) + 1 in
             if MAX_INT < token then raise ''INVALID_STATE''
             else
               let new = \<lparr>ls_holder = Some holder, ls_expires = expires, ls_token = token\<rparr> in
               Inr (new, db\<lparr>ct_leases := AList.update (ns, resource) new (ct_leases db)\<rparr>))))"

definition cs_check_lease ::
  "(string \<Rightarrow> int option) \<Rightarrow> string \<Rightarrow> string \<Rightarrow> string \<Rightarrow> string \<Rightarrow> json \<Rightarrow> string option \<Rightarrow>
   control_db \<Rightarrow> lease_row res" where
  "cs_check_lease parse_iso clock ns resource holder token now db =
     (case (as_int token, map_of (ct_leases db) (ns, resource)) of
        (Some t, Some r) \<Rightarrow>
          if ls_holder r \<noteq> Some holder \<or> ls_token r \<noteq> t then raise ''LEASE_LOST''
          else
            bind_res (lease_time parse_iso (ls_expires r)) (\<lambda>until.
            bind_res (lease_time parse_iso (or_now now clock)) (\<lambda>timestamp.
              if until \<le> timestamp then raise ''LEASE_LOST'' else Inr r))
      | _ \<Rightarrow> raise ''LEASE_LOST'')"

definition cs_release_lease :: "string \<Rightarrow> string \<Rightarrow> string \<Rightarrow> json \<Rightarrow> unit tx" where
  "cs_release_lease ns resource holder token db =
     (case as_int token of
        None \<Rightarrow> raise ''LEASE_LOST''
      | Some t \<Rightarrow>
          (case map_of (ct_leases db) (ns, resource) of
             None \<Rightarrow> raise ''LEASE_LOST''
           | Some r \<Rightarrow>
               if ls_holder r \<noteq> Some holder \<or> ls_token r \<noteq> t then raise ''LEASE_LOST''
               else Inr ((), db\<lparr>ct_leases :=
                      AList.update (ns, resource) (r\<lparr>ls_holder := None\<rparr>) (ct_leases db)\<rparr>)))"

section \<open>Budgets\<close>

type_synonym meter_key = "string \<times> json"
type_synonym amount_map = "(meter_key \<times> int) list"

text \<open>
  One entry of an amount list. The pool is a string or null; a value that cannot be a
  dictionary key is a \<^verbatim>\<open>TypeError\<close>.
\<close>

definition amount_entry :: "string \<Rightarrow> json \<Rightarrow> amount_map \<Rightarrow> (meter_key \<times> int) res" where
  "amount_entry field v acc =
     (case v of
        JObj d \<Rightarrow>
          bind_res (getitem d ''meter'') (\<lambda>meter.
          bind_res (getitem d ''billing_pool_ref'') (\<lambda>pool.
          bind_res (getitem d field) (\<lambda>amount.
            if \<not> hashable meter then Inl TypeError
            else case (meter, as_int amount) of
              (JStr m, Some n) \<Rightarrow>
                if m \<notin> set METERS then raise ''INVALID_REQUEST''
                else if \<not> hashable pool then Inl TypeError
                else if (m, pool) \<in> fst ` set acc \<or> \<not> (0 \<le> n \<and> n \<le> MAX_INT)
                then raise ''INVALID_REQUEST''
                else Inr ((m, pool), n)
            | (JStr m, None) \<Rightarrow>
                if m \<in> set METERS \<and> \<not> hashable pool then Inl TypeError else raise ''INVALID_REQUEST''
            | _ \<Rightarrow> raise ''INVALID_REQUEST'')))
      | _ \<Rightarrow> Inl TypeError)"

fun amounts_loop :: "string \<Rightarrow> json list \<Rightarrow> amount_map \<Rightarrow> amount_map res" where
  "amounts_loop field [] acc = Inr acc"
| "amounts_loop field (v # vs) acc =
     bind_res (amount_entry field v acc) (\<lambda>e. amounts_loop field vs (acc @ [e]))"

definition amounts :: "string \<Rightarrow> json \<Rightarrow> amount_map res" where
  "amounts field v = (case v of JArr vs \<Rightarrow> amounts_loop field vs [] | _ \<Rightarrow> Inl TypeError)"

text \<open>Per meter and pool: what is settled and what is still held.\<close>

type_synonym totals = "(meter_key \<times> (int \<times> int)) list"

definition total_at :: "totals \<Rightarrow> meter_key \<Rightarrow> int \<times> int" where
  "total_at ts key = (case map_of ts key of None \<Rightarrow> (0, 0) | Some p \<Rightarrow> p)"

definition bump :: "bool \<Rightarrow> meter_key \<times> int \<Rightarrow> totals \<Rightarrow> totals" where
  "bump settled e ts =
     (let (s, h) = total_at ts (fst e)
      in AList.update (fst e) (if settled then (s + snd e, h) else (s, h + snd e)) ts)"

definition add_reservation :: "dict \<Rightarrow> totals \<Rightarrow> totals res" where
  "add_reservation reservation ts =
     bind_res (getitem reservation ''status'') (\<lambda>status.
     bind_res (getitem reservation (if status = JStr ''SETTLED'' then ''actual'' else ''reserved'')) (\<lambda>am.
       if status = JStr ''RELEASED'' then Inr ts
       else bind_res (amounts ''amount'' am) (\<lambda>es.
         Inr (fold (bump (status = JStr ''SETTLED'')) es ts))))"

fun totals_loop :: "control_db \<Rightarrow> string \<Rightarrow> reservation_row list \<Rightarrow> totals \<Rightarrow> totals res" where
  "totals_loop db ns [] ts = Inr ts"
| "totals_loop db ns (row # rows) ts =
     bind_res (cs_get ''Reservation'' (rr_id row) ns db) (\<lambda>reservation.
     bind_res (add_reservation reservation ts) (\<lambda>ts'. totals_loop db ns rows ts'))"

definition pool_text :: "json \<Rightarrow> string" where
  "pool_text v = (case v of JStr s \<Rightarrow> s | _ \<Rightarrow> [])"

definition cs_budget_totals :: "string \<Rightarrow> string \<Rightarrow> control_db \<Rightarrow> totals res" where
  "cs_budget_totals ns budget db =
     bind_res (totals_loop db ns
         (filter (\<lambda>r. rr_ns r = ns \<and> rr_budget r = budget) (ct_reservations db)) [])
       (\<lambda>ts. Inr (sort_key (\<lambda>e. fst (fst e)) (sort_key (\<lambda>e. pool_text (snd (fst e))) ts)))"

section \<open>Reserving and settling\<close>

definition limit_ok :: "amount_map \<Rightarrow> totals \<Rightarrow> meter_key \<times> int \<Rightarrow> unit res" where
  "limit_ok limits current e =
     (case map_of limits (fst e) of
        None \<Rightarrow> raise ''BUDGET_UNKNOWN''
      | Some limit \<Rightarrow>
          (let (s, h) = total_at current (fst e) in
           if limit < s + h + snd e then raise ''BUDGET_EXHAUSTED'' else Inr ()))"

definition same_reservation :: "dict \<Rightarrow> dict \<Rightarrow> amount_map \<Rightarrow> bool res" where
  "same_reservation previous reservation am =
     bind_res (getitem previous ''budget_id'') (\<lambda>pb.
     if Inr pb \<noteq> getitem reservation ''budget_id'' then Inr False else
     bind_res (getitem previous ''action_id'') (\<lambda>pa.
     if Inr pa \<noteq> getitem reservation ''action_id'' then Inr False else
     bind_res (getitem previous ''task_id'') (\<lambda>pt.
     bind_res (getitem reservation ''task_id'') (\<lambda>t.
     if pt \<noteq> canon t then Inr False else
     bind_res (getitem previous ''reserved'') (\<lambda>pr.
     bind_res (amounts ''amount'' pr) (\<lambda>pam. Inr (set pam = set am)))))))"

text \<open>An Action that already has a reservation, and one that has none.\<close>

definition reserve_again :: "string \<Rightarrow> reservation_row \<Rightarrow> dict \<Rightarrow> amount_map \<Rightarrow> dict tx" where
  "reserve_again ns row reservation am db =
     bind_res (cs_get ''Reservation'' (rr_id row) ns db) (\<lambda>previous.
     bind_res (same_reservation previous reservation am) (\<lambda>same.
       if same then Inr (previous, db) else raise ''IDEMPOTENCY_CONFLICT''))"

definition reserve_new ::
  "string \<Rightarrow> string \<Rightarrow> string \<Rightarrow> string \<Rightarrow> dict \<Rightarrow> amount_map \<Rightarrow> dict tx" where
  "reserve_new ns budget_id i action reservation am db =
     bind_res (cs_get ''Budget'' budget_id ns db) (\<lambda>budget.
     bind_res (getitem budget ''task_id'') (\<lambda>bt.
     bind_res (getitem reservation ''task_id'') (\<lambda>t.
     if bt \<noteq> canon t then raise ''BINDING_MISMATCH'' else
     bind_res (bind_res (getitem budget ''limits'') (amounts ''limit'')) (\<lambda>limits.
     bind_res (cs_budget_totals ns budget_id db) (\<lambda>current.
     bind_res (map_res (limit_ok limits current) am) (\<lambda>_.
     bind_res (cs_put_raw reservation (db\<lparr>ct_reservations := ct_reservations db
         @ [\<lparr>rr_ns = ns, rr_id = i, rr_budget = budget_id, rr_action = action\<rparr>]\<rparr>)) (\<lambda>db'.
       Inr (canon_dict reservation, db'))))))))"

definition cs_reserve :: "dict \<Rightarrow> dict tx" where
  "cs_reserve reservation db =
     bind_res (str_item reservation ''namespace_id'') (\<lambda>ns.
     bind_res (str_item reservation ''budget_id'') (\<lambda>budget_id.
     bind_res (bind_res (getitem reservation ''reserved'') (amounts ''amount'')) (\<lambda>am.
     if am = [] then raise ''INVALID_REQUEST'' else
     bind_res (getitem reservation ''status'') (\<lambda>status.
     if status \<noteq> JStr ''HELD'' then raise ''INVALID_REQUEST'' else
     bind_res (getitem reservation ''actual'') (\<lambda>actual.
     if actual \<noteq> JNull then raise ''INVALID_REQUEST'' else
     bind_res (str_item reservation ''id'') (\<lambda>i.
     bind_res (str_item reservation ''action_id'') (\<lambda>action.
     let rows = filter (\<lambda>r. rr_ns r = ns \<and> (rr_id r = i \<or> rr_budget r = budget_id \<and> rr_action r = action))
                  (ct_reservations db)
     in if rows = [] then reserve_new ns budget_id i action reservation am db
        else if length rows \<noteq> 1 then raise ''IDEMPOTENCY_CONFLICT''
        else reserve_again ns (hd rows) reservation am db)))))))"

definition cs_settle :: "string \<Rightarrow> string \<Rightarrow> string \<Rightarrow> json list \<Rightarrow> string list \<Rightarrow> dict tx" where
  "cs_settle clock ns i actual receipts db =
     bind_res (amounts ''amount'' (JArr actual)) (\<lambda>am.
     bind_res (cs_get ''Reservation'' i ns db) (\<lambda>reservation.
     bind_res (getitem reservation ''status'') (\<lambda>status.
     if status = JStr ''SETTLED'' then
       bind_res (bind_res (getitem reservation ''actual'') (amounts ''amount'')) (\<lambda>old.
         if set old \<noteq> set am then raise ''IDEMPOTENCY_CONFLICT'' else Inr (reservation, db))
     else if status = JStr ''RELEASED'' then raise ''INVALID_STATE''
     else
       bind_res (bind_res (getitem reservation ''reserved'') (amounts ''amount'')) (\<lambda>held.
       if \<not> fst ` set am \<subseteq> fst ` set held then raise ''INVALID_REQUEST''
       else
         bind_res (int_item reservation ''revision'') (\<lambda>revision.
         let next = dupdate reservation
               [(''status'', JStr ''SETTLED''), (''actual'', JArr actual),
                (''receipt_evidence_ids'', JArr (map JStr (rev (remdups (rev receipts))))),
                (''revision'', JInt (revision + 1)), (''updated_at'', JStr clock)]
         in bind_res (cs_put_raw next db) (\<lambda>db'. Inr (next, db')))))))"

definition cs_mark_uncertain :: "string \<Rightarrow> string \<Rightarrow> string \<Rightarrow> dict tx" where
  "cs_mark_uncertain clock ns i db =
     bind_res (cs_get ''Reservation'' i ns db) (\<lambda>reservation.
     bind_res (getitem reservation ''status'') (\<lambda>status.
     if status = JStr ''UNCERTAIN'' then Inr (reservation, db)
     else if status \<noteq> JStr ''HELD'' then raise ''INVALID_STATE''
     else
       bind_res (int_item reservation ''revision'') (\<lambda>revision.
       let next = dupdate reservation
             [(''status'', JStr ''UNCERTAIN''), (''revision'', JInt (revision + 1)),
              (''updated_at'', JStr clock)]
       in bind_res (cs_put_raw next db) (\<lambda>db'. Inr (next, db')))))"

section \<open>What each operation touches\<close>

lemma put_raw_touches: "cs_put_raw e db = Inr db' \<Longrightarrow> \<exists>x. db' = db\<lparr>ct_entities := x\<rparr>"
  by (auto simp: cs_put_raw_def bind_res_Inr_iff)

lemma put_touches: "cs_put e db = Inr (r, db') \<Longrightarrow> \<exists>x. db' = db\<lparr>ct_entities := x\<rparr>"
  by (auto simp: cs_put_def bind_res_Inr_iff dest: put_raw_touches split: if_splits)

lemma put_blob_touches:
  "cs_put_blob sha ns c db = Inr (r, db') \<Longrightarrow>
   db' = db \<or> map_of (ct_blobs db) (ns, sha c) = None
     \<and> db' = db\<lparr>ct_blobs := ct_blobs db @ [((ns, sha c), c)]\<rparr>"
  by (auto simp: cs_put_blob_def Let_def bind_res_Inr_iff split: if_splits)

lemma save_operation_touches:
  assumes "cs_save_operation p who key digest db = Inr (r, db')"
  shows "db' = db \<or> (\<exists>ns mth i x. map_of (ct_operations db) (ns, who, mth, key) = None
     \<and> db' = db\<lparr>ct_operations := ct_operations db @ [((ns, who, mth, key), (i, digest))],
                ct_entities := x\<rparr>)"
proof -
  from assms obtain ns mth where nm: "str_item p ''namespace_id'' = Inr ns" "str_item p ''method'' = Inr mth"
    by (auto simp: cs_save_operation_def bind_res_Inr_iff)
  show ?thesis
  proof (cases "map_of (ct_operations db) (ns, who, mth, key)")
    case None
    with assms nm obtain i x where
      "db' = db\<lparr>ct_operations := ct_operations db @ [((ns, who, mth, key), (i, digest))], ct_entities := x\<rparr>"
      by (auto simp: cs_save_operation_def bind_res_Inr_iff dest!: put_raw_touches split: if_splits)
    with None show ?thesis by blast
  next
    case (Some q)
    with assms nm show ?thesis
      by (auto simp: cs_save_operation_def bind_res_Inr_iff split: if_splits prod.splits)
  qed
qed

lemma append_event_touches:
  assumes "cs_append_event e db = Inr (r, db')"
  shows "\<exists>ns task i p. ct_events db' = ct_events db @ [\<lparr>ev_ns = ns, ev_task = task,
            ev_seq = fst (stream_of db ns task) + 1, ev_id = i, ev_payload = p\<rparr>]
     \<and> ct_event_ids db' = ct_event_ids db @ [(ns, i)]
     \<and> ct_streams db' = AList.update (ns, task)
          (fst (stream_of db ns task) + 1, snd (stream_of db ns task)) (ct_streams db)
     \<and> fst (stream_of db ns task) < MAX_INT \<and> (ns, i) \<notin> set (ct_event_ids db)
     \<and> dget p ''sequence'' = JInt (fst (stream_of db ns task) + 1)
     \<and> db' = db\<lparr>ct_events := ct_events db', ct_event_ids := ct_event_ids db', ct_streams := ct_streams db'\<rparr>"
  using assms
  by (auto simp: cs_append_event_def Let_def bind_res_Inr_iff case_prod_beta split: if_splits)

lemma prune_events_touches:
  "cs_prune_events ns task through db = Inr (r, db') \<Longrightarrow>
   db' = db \<or> (\<exists>t. snd (stream_of db ns task) < t \<and> t \<le> fst (stream_of db ns task)
     \<and> db' = db\<lparr>ct_events := filter (\<lambda>e. \<not> (ev_ns e = ns \<and> ev_task e = task \<and> ev_seq e \<le> t)) (ct_events db),
                ct_streams := AList.update (ns, task) (fst (stream_of db ns task), t) (ct_streams db)\<rparr>)"
  by (cases "as_int through"; cases "the (as_int through) \<le> snd (stream_of db ns task)")
    (auto simp: cs_prune_events_def Let_def case_prod_beta not_le split: if_splits
      intro!: exI [of _ "the (as_int through)"])

lemma enqueue_touches:
  "cs_enqueue a ns p db = Inr (r, db') \<Longrightarrow>
   db' = db \<or> map_of (ct_outbox db) (ns, a) = None
     \<and> (\<exists>x. db' = db\<lparr>ct_outbox := ct_outbox db @ [((ns, a), (x, ''PENDING''))]\<rparr>)"
  by (auto simp: cs_enqueue_def Let_def split: if_splits option.splits)

lemma claim_lease_touches:
  "cs_claim_lease parse_iso clock ns res h ex now db = Inr (r, db') \<Longrightarrow>
   ls_token r = (case map_of (ct_leases db) (ns, res) of None \<Rightarrow> 0 | Some l \<Rightarrow> ls_token l) + 1
   \<and> ls_holder r = Some h \<and> ls_expires r = ex
   \<and> db' = db\<lparr>ct_leases := AList.update (ns, res) r (ct_leases db)\<rparr>"
  by (auto simp: cs_claim_lease_def Let_def bind_res_Inr_iff split: if_splits)

lemma release_lease_touches:
  "cs_release_lease ns res h tok db = Inr (r, db') \<Longrightarrow>
   \<exists>l. map_of (ct_leases db) (ns, res) = Some l
     \<and> db' = db\<lparr>ct_leases := AList.update (ns, res) (l\<lparr>ls_holder := None\<rparr>) (ct_leases db)\<rparr>"
  by (auto simp: cs_release_lease_def split: if_splits option.splits)

lemma reserve_new_touches:
  "reserve_new ns b i a p am db = Inr (r, db') \<Longrightarrow>
   r = canon_dict p \<and> (\<exists>y. db' = db\<lparr>ct_reservations := ct_reservations db
      @ [\<lparr>rr_ns = ns, rr_id = i, rr_budget = b, rr_action = a\<rparr>], ct_entities := y\<rparr>)"
  by (auto simp: reserve_new_def bind_res_Inr_iff dest!: put_raw_touches split: if_splits)

lemma reserve_again_touches: "reserve_again ns row p am db = Inr (r, db') \<Longrightarrow> db' = db"
  by (auto simp: reserve_again_def bind_res_Inr_iff split: if_splits)

lemma reserve_touches:
  assumes "cs_reserve p db = Inr (r, db')"
  shows "db' = db \<or> (\<exists>x y. db' = db\<lparr>ct_reservations := x, ct_entities := y\<rparr>)"
  using assms
  by (auto simp: cs_reserve_def bind_res_Inr_iff Let_def dest!: reserve_new_touches reserve_again_touches
      split: if_splits)

lemma settle_touches:
  "cs_settle clock ns i am rs db = Inr (r, db') \<Longrightarrow> db' = db \<or> (\<exists>y. db' = db\<lparr>ct_entities := y\<rparr>)"
  by (auto simp: cs_settle_def bind_res_Inr_iff Let_def dest!: put_raw_touches split: if_splits)

lemma mark_uncertain_touches:
  "cs_mark_uncertain clock ns i db = Inr (r, db') \<Longrightarrow> db' = db \<or> (\<exists>y. db' = db\<lparr>ct_entities := y\<rparr>)"
  by (auto simp: cs_mark_uncertain_def bind_res_Inr_iff Let_def dest!: put_raw_touches split: if_splits)

section \<open>All runs of the store\<close>

inductive control_step :: "(string \<Rightarrow> string) \<Rightarrow> control_db \<Rightarrow> control_db \<Rightarrow> bool" for sha where
  step_put: "cs_put e db = Inr (r1, db') \<Longrightarrow> control_step sha db db'"
| step_put_blob: "cs_put_blob sha ns c db = Inr (r2, db') \<Longrightarrow> control_step sha db db'"
| step_save_operation: "cs_save_operation e who key digest db = Inr (r1, db') \<Longrightarrow> control_step sha db db'"
| step_append_event: "cs_append_event e db = Inr (r1, db') \<Longrightarrow> control_step sha db db'"
| step_prune_events: "cs_prune_events ns task through db = Inr (r3, db') \<Longrightarrow> control_step sha db db'"
| step_enqueue: "cs_enqueue action ns e db = Inr (r4, db') \<Longrightarrow> control_step sha db db'"
| step_mark_delivery: "cs_mark_delivery action nso db = Inr (r4, db') \<Longrightarrow> control_step sha db db'"
| step_finish_delivery: "cs_finish_delivery action nso db = Inr (r4, db') \<Longrightarrow> control_step sha db db'"
| step_claim_lease: "cs_claim_lease parse_iso clock ns res h ex now db = Inr (r5, db') \<Longrightarrow> control_step sha db db'"
| step_release_lease: "cs_release_lease ns res h tok db = Inr (r3, db') \<Longrightarrow> control_step sha db db'"
| step_reserve: "cs_reserve e db = Inr (r1, db') \<Longrightarrow> control_step sha db db'"
| step_settle: "cs_settle clock ns i am rs db = Inr (r1, db') \<Longrightarrow> control_step sha db db'"
| step_mark_uncertain: "cs_mark_uncertain clock ns i db = Inr (r1, db') \<Longrightarrow> control_step sha db db'"

inductive_cases control_stepE: "control_step sha db db'"

abbreviation control_steps :: "(string \<Rightarrow> string) \<Rightarrow> control_db \<Rightarrow> control_db \<Rightarrow> bool" where
  "control_steps sha \<equiv> (control_step sha)\<^sup>*\<^sup>*"

section \<open>Event streams have no gaps\<close>

lemma stream_of_cong: "ct_streams db' = ct_streams db \<Longrightarrow> stream_of db' = stream_of db"
  by (simp add: stream_of_def fun_eq_iff)

lemma stream_of_update:
  "ct_streams db' = AList.update (n, t) p (ct_streams db) \<Longrightarrow>
   stream_of db' ns task = (if (ns, task) = (n, t) then p else stream_of db ns task)"
  by (simp add: stream_of_def update_conv')

definition stream_ok :: "control_db \<Rightarrow> string \<Rightarrow> string \<Rightarrow> bool" where
  "stream_ok db ns task \<longleftrightarrow>
     0 \<le> snd (stream_of db ns task)
     \<and> snd (stream_of db ns task) \<le> fst (stream_of db ns task)
     \<and> fst (stream_of db ns task) \<le> MAX_INT
     \<and> map ev_seq (stream_rows db ns task) = [snd (stream_of db ns task) + 1 .. fst (stream_of db ns task)]
     \<and> (\<forall>e \<in> set (stream_rows db ns task). dget (ev_payload e) ''sequence'' = JInt (ev_seq e))"

lemma stream_ok_cong:
  "ct_streams db' = ct_streams db \<Longrightarrow> ct_events db' = ct_events db \<Longrightarrow>
   stream_ok db' ns task = stream_ok db ns task"
  by (simp add: stream_ok_def stream_of_cong [of db' db] stream_rows_def)

lemma upto_above: "i \<le> t + 1 \<Longrightarrow> t \<le> j \<Longrightarrow> filter (\<lambda>x. t < x) [i..j] = [t + 1..j]"
proof -
  assume t: "i \<le> t + 1" "t \<le> j"
  have "[i..j] = [i..t] @ [t + 1..j]"
  proof (cases "t = j")
    case False
    then show ?thesis using t upto_split1 [of i "t + 1" j] by simp
  qed simp
  moreover have "filter (\<lambda>x. t < x) [i..t] = []" by (auto simp: filter_empty_conv)
  moreover have "filter (\<lambda>x. t < x) [t + 1..j] = [t + 1..j]" by (rule filter_True) auto
  ultimately show ?thesis by simp
qed

lemma take_upto: "take n [i..j] = [i..min (i + int n - 1) j]"
proof (induction n arbitrary: i)
  case (Suc n)
  show ?case
  proof (cases "i \<le> j")
    case True
    with Suc [of "i + 1"] show ?thesis by (simp add: upto_rec1 [of i])
  qed simp
qed simp

lemma append_stream_ok:
  assumes "cs_append_event e db = Inr (r, db')" and ok: "\<And>ns task. stream_ok db ns task"
  shows "stream_ok db' ns task"
proof -
  from append_event_touches [OF assms(1)] obtain n t i p where
    ev: "ct_events db' = ct_events db @ [\<lparr>ev_ns = n, ev_task = t,
            ev_seq = fst (stream_of db n t) + 1, ev_id = i, ev_payload = p\<rparr>]"
    and str: "ct_streams db' = AList.update (n, t)
          (fst (stream_of db n t) + 1, snd (stream_of db n t)) (ct_streams db)"
    and lt: "fst (stream_of db n t) < MAX_INT"
    and seq: "dget p ''sequence'' = JInt (fst (stream_of db n t) + 1)"
    by blast
  show ?thesis
  proof (cases "(ns, task) = (n, t)")
    case True
    with ok [of n t] ev str lt seq show ?thesis
      by (auto simp: stream_ok_def stream_of_update [OF str] stream_rows_def upto_rec2)
  next
    case False
    with ok [of ns task] ev str show ?thesis
      by (auto simp: stream_ok_def stream_of_update [OF str] stream_rows_def)
  qed
qed

lemma map_filter_seq: "map ev_seq (filter (\<lambda>e. P (ev_seq e)) xs) = filter P (map ev_seq xs)"
  by (simp add: filter_map comp_def)

lemma prune_stream_ok:
  assumes "cs_prune_events n t through db = Inr (r, db')" and ok: "\<And>ns task. stream_ok db ns task"
  shows "stream_ok db' ns task"
  using prune_events_touches [OF assms(1)]
proof
  assume "db' = db" then show ?thesis using ok by simp
next
  assume "\<exists>u. snd (stream_of db n t) < u \<and> u \<le> fst (stream_of db n t)
     \<and> db' = db\<lparr>ct_events := filter (\<lambda>e. \<not> (ev_ns e = n \<and> ev_task e = t \<and> ev_seq e \<le> u)) (ct_events db),
                ct_streams := AList.update (n, t) (fst (stream_of db n t), u) (ct_streams db)\<rparr>"
  then obtain u where u: "snd (stream_of db n t) < u" "u \<le> fst (stream_of db n t)"
    and ev: "ct_events db' = filter (\<lambda>e. \<not> (ev_ns e = n \<and> ev_task e = t \<and> ev_seq e \<le> u)) (ct_events db)"
    and str: "ct_streams db' = AList.update (n, t) (fst (stream_of db n t), u) (ct_streams db)"
    by auto
  show ?thesis
  proof (cases "(ns, task) = (n, t)")
    case True
    have rows: "stream_rows db' n t = filter (\<lambda>e. u < ev_seq e) (stream_rows db n t)"
      unfolding stream_rows_def ev filter_filter by (rule filter_cong) auto
    have "map ev_seq (stream_rows db' n t) = [u + 1..fst (stream_of db n t)]"
      using ok [of n t] u by (simp add: rows map_filter_seq stream_ok_def upto_above)
    with True ok [of n t] u show ?thesis
      by (auto simp: stream_ok_def stream_of_update [OF str] rows)
  next
    case False
    then have rows: "stream_rows db' ns task = stream_rows db ns task"
      unfolding stream_rows_def ev filter_filter by (auto intro: filter_cong)
    with False ok [of ns task] show ?thesis
      by (auto simp: stream_ok_def stream_of_update [OF str])
  qed
qed

lemma mark_delivery_touches:
  "cs_mark_delivery action nso db = Inr (r, db') \<Longrightarrow>
   \<exists>item. cs_delivery action nso db = Inr item \<and> dl_status item = ''PENDING''
     \<and> db' = set_delivery item ''DELIVERING'' db"
  by (auto simp: cs_mark_delivery_def bind_res_Inr_iff split: if_splits)

lemma finish_delivery_touches:
  "cs_finish_delivery action nso db = Inr (r, db') \<Longrightarrow>
   \<exists>item. cs_delivery action nso db = Inr item \<and> db' = set_delivery item ''DONE'' db"
  by (auto simp: cs_finish_delivery_def bind_res_Inr_iff)

lemmas step_touches =
  put_touches put_blob_touches save_operation_touches enqueue_touches mark_delivery_touches
  finish_delivery_touches claim_lease_touches release_lease_touches reserve_touches
  settle_touches mark_uncertain_touches

lemma control_step_stream_frame:
  assumes "control_step sha db db'"
    and "\<And>e r. cs_append_event e db \<noteq> Inr (r, db')"
    and "\<And>ns task t r. cs_prune_events ns task t db \<noteq> Inr (r, db')"
  shows "ct_streams db' = ct_streams db \<and> ct_events db' = ct_events db"
  using assms
  by (cases rule: control_step.cases) (auto simp: set_delivery_def dest!: step_touches)

lemma control_step_stream_ok:
  assumes step: "control_step sha db db'" and ok: "\<And>ns task. stream_ok db ns task"
  shows "stream_ok db' ns task"
proof (cases "\<exists>e r. cs_append_event e db = Inr (r, db')")
  case True
  then show ?thesis using append_stream_ok ok by blast
next
  case no_append: False
  show ?thesis
  proof (cases "\<exists>n t u r. cs_prune_events n t u db = Inr (r, db')")
    case True
    then show ?thesis using prune_stream_ok ok by blast
  next
    case False
    with no_append control_step_stream_frame [OF step] ok show ?thesis
      using stream_ok_cong by blast
  qed
qed

lemma new_stream_ok: "stream_ok new_control_db ns task"
  by (simp add: stream_ok_def stream_of_def stream_rows_def new_control_db_def MAX_INT_def)

lemma control_steps_stream_ok:
  "control_steps sha new_control_db db \<Longrightarrow> stream_ok db ns task"
proof (induction arbitrary: ns task rule: rtranclp_induct)
  case base
  show ?case by (rule new_stream_ok)
next
  case (step db db')
  from step.hyps(2) step.IH show ?case by (rule control_step_stream_ok)
qed

lemma sort_key_seq_id: "sorted (map ev_seq es) \<Longrightarrow> sort_key ev_seq es = es"
  by (rule sort_key_id_if_sorted)

lemma page_of_stream:
  assumes "stream_ok db ns task" and "snd (stream_of db ns task) \<le> a" and "a \<le> fst (stream_of db ns task)"
    and "0 \<le> a" "1 \<le> l" "l \<le> 10000"
  shows "\<exists>page. cs_events ns task (JInt a) (JInt l) db = Inr page
    \<and> map (\<lambda>p. dget p ''sequence'') page = map JInt [a + 1 .. min (a + l) (fst (stream_of db ns task))]"
proof -
  obtain latest floor where st: "stream_of db ns task = (latest, floor)" by (cases "stream_of db ns task")
  let ?rows = "filter (\<lambda>e. a < ev_seq e) (stream_rows db ns task)"
  have seqs: "map ev_seq ?rows = [a + 1..latest]"
    using assms st by (simp add: map_filter_seq stream_ok_def upto_above)
  then have sorted: "sort_key ev_seq ?rows = ?rows"
    by (intro sort_key_seq_id) simp
  have "a \<le> MAX_INT" using assms st by (simp add: stream_ok_def)
  then have page: "cs_events ns task (JInt a) (JInt l) db = Inr (map ev_payload (take (nat l) ?rows))"
    using assms st sorted by (simp add: cs_events_def)
  have "map (\<lambda>p. dget p ''sequence'') (map ev_payload (take (nat l) ?rows))
      = map JInt (take (nat l) (map ev_seq ?rows))"
    using assms(1) by (auto simp: stream_ok_def take_map intro!: map_cong dest!: in_set_takeD)
  also have "\<dots> = map JInt [a + 1 .. min (a + l) latest]"
    using assms by (simp add: seqs take_upto add.commute)
  finally show ?thesis using page st by simp
qed

text \<open>
  C19. The event log is gapless under every sequence of store operations, pruning included:
  a page after cursor \<open>a\<close> holds exactly the sequence numbers \<open>a + 1\<close>, \<open>a + 2\<close>, \<dots> up to the
  page size or the latest event; a cursor older than the retained window is refused as
  expired, a cursor from the future as invalid, and nothing is ever skipped.
\<close>

theorem event_pages_have_no_gaps:
  assumes "control_steps sha new_control_db db"
    and "0 \<le> a" "a \<le> MAX_INT" "1 \<le> l" "l \<le> 10000"
  shows "case stream_of db ns task of (latest, floor) \<Rightarrow>
    (case cs_events ns task (JInt a) (JInt l) db of
       Inr page \<Rightarrow> floor \<le> a \<and> a \<le> latest
         \<and> map (\<lambda>p. dget p ''sequence'') page = map JInt [a + 1 .. min (a + l) latest]
     | Inl e \<Rightarrow>
         a < floor \<and> e = AsterunError ''CURSOR_EXPIRED'' [(''floor'', JInt floor), (''latest'', JInt latest)]
         \<or> latest < a \<and> e = AsterunError ''INVALID_REQUEST'' [(''latest'', JInt latest)])"
proof -
  obtain latest floor where st: "stream_of db ns task = (latest, floor)"
    by (cases "stream_of db ns task")
  have ok: "stream_ok db ns task" by (rule control_steps_stream_ok [OF assms(1)])
  show ?thesis
  proof (cases "floor \<le> a \<and> a \<le> latest")
    case True
    with page_of_stream [OF ok, of a l] assms st show ?thesis by auto
  next
    case False
    with assms st show ?thesis by (auto simp: cs_events_def)
  qed
qed

definition example_event :: dict where
  "example_event = [(''namespace_id'', JStr ''ns''), (''task_id'', JStr ''t''), (''id'', JStr ''e'')]"

lemma getitem_canon_dict:
  "getitem (canon_dict d) k = (case map_of d k of None \<Rightarrow> Inl KeyError | Some v \<Rightarrow> Inr (canon v))"
  by (simp add: getitem_def map_of_canon_dict split: option.splits)

lemma str_item_canon_dict [simp]: "str_item (canon_dict d) k = str_item d k"
proof (cases "map_of d k")
  case None
  then show ?thesis by (simp add: str_item_def getitem_def map_of_canon_dict)
next
  case (Some v)
  then show ?thesis by (cases v) (simp_all add: str_item_def getitem_def map_of_canon_dict)
qed

lemma getitem_dset: "getitem (dset d k v) k' = (if k' = k then Inr v else getitem d k')"
  by (simp add: getitem_def update_conv')

lemma str_item_dset: "k' \<noteq> k \<Longrightarrow> str_item (dset d k v) k' = str_item d k'"
  by (simp add: str_item_def getitem_dset)

lemma str_item_Cons:
  "str_item ((k', v) # d) k =
     (if k = k' then (case v of JStr s \<Rightarrow> Inr s | _ \<Rightarrow> Inl TypeError) else str_item d k)"
  by (simp add: str_item_def)

lemma example_append:
  "\<exists>r db. cs_append_event example_event new_control_db = Inr (r, db) \<and> stream_of db ''ns'' ''t'' = (1, 0)"
  by (simp add: cs_append_event_def Let_def str_item_dset str_item_Cons example_event_def
      stream_of_def new_control_db_def MAX_INT_def)

theorem event_pages_have_no_gaps_witness:
  "\<exists>db page. control_steps id new_control_db db
     \<and> cs_events ''ns'' ''t'' (JInt 0) (JInt 10) db = Inr page \<and> map (\<lambda>p. dget p ''sequence'') page = [JInt 1]"
proof -
  obtain r db where app: "cs_append_event example_event new_control_db = Inr (r, db)"
    and st: "stream_of db ''ns'' ''t'' = (1, 0)"
    using example_append by blast
  have reach: "control_steps id new_control_db db"
    by (rule r_into_rtranclp) (rule step_append_event [OF app])
  have "0 \<le> (0 :: int)" "0 \<le> MAX_INT" "1 \<le> (10 :: int)" "(10 :: int) \<le> 10000"
    by (simp_all add: MAX_INT_def)
  from event_pages_have_no_gaps [OF reach this, of "''ns''" "''t''"] st
  show ?thesis using reach by (auto split: sum.splits)
qed

section \<open>An action is handed out once\<close>

lemma map_of_only_action:
  "filter (\<lambda>((_, a), _). a = action) xs = [((n, a'), v)] \<Longrightarrow> map_of xs (n, action) = Some v"
proof (induction xs)
  case (Cons x xs)
  show ?case
  proof (cases "snd (fst x) = action")
    case True
    with Cons.prems show ?thesis by (auto simp: case_prod_beta split: if_splits)
  next
    case False
    with Cons show ?thesis by (cases x) (auto simp: case_prod_beta)
  qed
qed simp

lemma delivery_row:
  assumes "cs_delivery action nso db = Inr item"
  shows "dl_action item = action
    \<and> map_of (ct_outbox db) (dl_ns item, action) = Some (dl_payload item, dl_status item)"
proof (cases nso)
  case None
  with assms obtain n a p st where
    "filter (\<lambda>((_, a), _). a = action) (ct_outbox db) = [((n, a), (p, st))]"
    and item: "item = outbox_row n action p st"
    by (auto simp: cs_delivery_def split: list.splits)
  then have "map_of (ct_outbox db) (n, action) = Some (p, st)" by (intro map_of_only_action)
  with item show ?thesis by (simp add: outbox_row_def)
next
  case (Some n)
  with assms show ?thesis by (auto simp: cs_delivery_def outbox_row_def split: option.splits)
qed

definition handed_out :: "control_db \<Rightarrow> string \<Rightarrow> string \<Rightarrow> bool" where
  "handed_out db ns a \<longleftrightarrow>
     (case map_of (ct_outbox db) (ns, a) of None \<Rightarrow> False | Some (_, st) \<Rightarrow> st \<noteq> ''PENDING'')"

lemma set_delivery_handed_out:
  "st \<noteq> ''PENDING'' \<Longrightarrow> handed_out (set_delivery item st db) ns a \<longleftrightarrow>
     (ns, a) = (dl_ns item, dl_action item) \<or> handed_out db ns a"
  by (auto simp: handed_out_def set_delivery_def update_conv')

lemma handed_out_cong: "ct_outbox db' = ct_outbox db \<Longrightarrow> handed_out db' ns a = handed_out db ns a"
  by (simp add: handed_out_def)

lemma handed_out_append:
  "map_of (ct_outbox db) k = None \<Longrightarrow> handed_out db ns a \<Longrightarrow>
   handed_out (db\<lparr>ct_outbox := ct_outbox db @ [(k, v)]\<rparr>) ns a"
  by (auto simp: handed_out_def map_add_def split: option.splits)

lemma control_step_handed_out:
  assumes "control_step sha db db'" and "handed_out db ns a"
  shows "handed_out db' ns a"
  using assms
  by (cases rule: control_step.cases)
    (auto simp: set_delivery_handed_out handed_out_append
      dest!: step_touches append_event_touches prune_events_touches
      intro: handed_out_cong [THEN iffD2, rotated])

lemma control_steps_handed_out:
  "control_steps sha db db' \<Longrightarrow> handed_out db ns a \<Longrightarrow> handed_out db' ns a"
  by (induction rule: rtranclp_induct) (auto intro: control_step_handed_out)

text \<open>
  C11. An action is handed out for dispatch at most once: once \<^verbatim>\<open>mark_delivery\<close> has returned
  an action, no later \<^verbatim>\<open>mark_delivery\<close>, with or without a namespace and whatever happens in
  between, returns it again for that namespace.
\<close>

theorem action_dispatched_once:
  assumes "cs_mark_delivery action n1 db = Inr (item, db1)"
    and "control_steps sha db1 db2"
    and "cs_mark_delivery action n2 db2 = Inr (item', db3)"
  shows "dl_action item' = action \<and> dl_action item = action \<and> dl_ns item' \<noteq> dl_ns item"
proof -
  from assms(1) have first: "handed_out db1 (dl_ns item) action \<and> dl_action item = action"
    by (auto simp: cs_mark_delivery_def bind_res_Inr_iff set_delivery_handed_out dest!: delivery_row
        split: if_splits)
  with assms(2) have later: "handed_out db2 (dl_ns item) action"
    using control_steps_handed_out by blast
  from assms(3) have "\<not> handed_out db2 (dl_ns item') action \<and> dl_action item' = action"
    by (auto simp: cs_mark_delivery_def bind_res_Inr_iff handed_out_def dest!: delivery_row
        split: if_splits)
  with first later show ?thesis by auto
qed

definition two_actions :: control_db where
  "two_actions = new_control_db\<lparr>ct_outbox :=
     [((''n1'', ''a''), (JObj [], ''PENDING'')), ((''n2'', ''a''), (JObj [], ''PENDING''))]\<rparr>"

theorem action_dispatched_once_witness:
  "\<exists>item db1 item' db3. cs_mark_delivery ''a'' (Some ''n1'') two_actions = Inr (item, db1)
     \<and> cs_mark_delivery ''a'' (Some ''n2'') db1 = Inr (item', db3) \<and> dl_ns item' \<noteq> dl_ns item"
proof -
  let ?item = "\<lparr>dl_ns = ''n1'', dl_action = ''a'', dl_payload = JObj [], dl_status = ''DELIVERING''\<rparr>"
  let ?item' = "\<lparr>dl_ns = ''n2'', dl_action = ''a'', dl_payload = JObj [], dl_status = ''DELIVERING''\<rparr>"
  have 1: "cs_mark_delivery ''a'' (Some ''n1'') two_actions = Inr (?item, set_delivery ?item ''DELIVERING'' two_actions)"
    by (simp add: cs_mark_delivery_def cs_delivery_def two_actions_def outbox_row_def set_delivery_def)
  have 2: "\<exists>db3. cs_mark_delivery ''a'' (Some ''n2'') (set_delivery ?item ''DELIVERING'' two_actions) = Inr (?item', db3)"
    by (simp add: cs_mark_delivery_def cs_delivery_def two_actions_def outbox_row_def set_delivery_def)
  then obtain db3 where
    "cs_mark_delivery ''a'' (Some ''n2'') (set_delivery ?item ''DELIVERING'' two_actions) = Inr (?item', db3)" ..
  with action_dispatched_once [where sha = id, OF 1 rtranclp.rtrancl_refl this] 1 show ?thesis by blast
qed

section \<open>Fencing tokens\<close>

definition lease_token :: "control_db \<Rightarrow> string \<Rightarrow> string \<Rightarrow> int" where
  "lease_token db ns res = (case map_of (ct_leases db) (ns, res) of None \<Rightarrow> 0 | Some l \<Rightarrow> ls_token l)"

text \<open>The claimant's epoch: a newer token, or the same token held by nobody else.\<close>

definition fenced :: "string \<Rightarrow> string \<Rightarrow> string \<Rightarrow> int \<Rightarrow> control_db \<Rightarrow> bool" where
  "fenced ns res h n db \<longleftrightarrow>
     (case map_of (ct_leases db) (ns, res) of
        None \<Rightarrow> False
      | Some l \<Rightarrow> n < ls_token l \<or> ls_token l = n \<and> (ls_holder l = Some h \<or> ls_holder l = None))"

lemma fenced_cong: "ct_leases db' = ct_leases db \<Longrightarrow> fenced ns res h n db' = fenced ns res h n db"
  by (simp add: fenced_def)

lemma fenced_claim:
  "fenced ns res h n db \<Longrightarrow>
   cs_claim_lease parse_iso clock ns' res' h' ex now db = Inr (r, db') \<Longrightarrow> fenced ns res h n db'"
  by (auto simp: fenced_def update_conv' dest!: claim_lease_touches split: option.splits if_splits)

lemma fenced_release:
  "fenced ns res h n db \<Longrightarrow> cs_release_lease ns' res' h' tok db = Inr (r, db') \<Longrightarrow> fenced ns res h n db'"
  by (auto simp: fenced_def update_conv' dest!: release_lease_touches split: option.splits if_splits)

lemma control_step_fenced:
  assumes "control_step sha db db'" and "fenced ns res h n db"
  shows "fenced ns res h n db'"
  using assms(1)
proof (cases rule: control_step.cases)
  case (step_claim_lease parse_iso clock n r h' ex now r5)
  then show ?thesis using fenced_claim assms(2) by blast
next
  case (step_release_lease n r h' tok r3)
  then show ?thesis using fenced_release assms(2) by blast
qed (use assms(2) in \<open>auto simp: set_delivery_def
      dest!: step_touches append_event_touches prune_events_touches
      intro: fenced_cong [THEN iffD2, rotated]\<close>)

lemma control_steps_fenced:
  "control_steps sha db db' \<Longrightarrow> fenced ns res h n db \<Longrightarrow> fenced ns res h n db'"
  by (induction rule: rtranclp_induct) (auto intro: control_step_fenced)

text \<open>
  C17. Leases are fenced: after a holder has claimed a resource and received token \<open>n\<close>, a
  check that passes later carries a larger token, or the same token and the same holder; so
  every earlier epoch is lost for good, and no other party can act under the token.
\<close>

theorem lease_epochs_are_fenced:
  assumes "cs_claim_lease parse_iso clock ns res h ex now db = Inr (l, db1)"
    and "control_steps sha db1 db2"
    and "cs_check_lease parse_iso' clock' ns res h' (JInt t) now' db2 = Inr l'"
  shows "lease_token db ns res < ls_token l
    \<and> (ls_token l < t \<or> t = ls_token l \<and> h' = h)"
proof -
  note claim = claim_lease_touches [OF assms(1)]
  then have "fenced ns res h (ls_token l) db1" by (auto simp: fenced_def update_conv')
  with assms(2) have later: "fenced ns res h (ls_token l) db2" using control_steps_fenced by blast
  from assms(3) obtain r where "map_of (ct_leases db2) (ns, res) = Some r"
    "ls_holder r = Some h'" "ls_token r = t"
    by (auto simp: cs_check_lease_def split: option.splits if_splits)
  with later claim show ?thesis by (auto simp: fenced_def lease_token_def)
qed

text \<open>
  C22. A live lease excludes everyone else: while one holder's lease passes its check, a claim
  of the same resource by another holder at the same time is refused as a conflict.
\<close>

theorem live_lease_excludes_others:
  assumes "cs_check_lease parse_iso clock ns res h token now db = Inr l" and "h' \<noteq> h"
  shows "case cs_claim_lease parse_iso clock ns res h' ex now db of
           Inr _ \<Rightarrow> False
         | Inl e \<Rightarrow> e = AsterunError ''LEASE_CONFLICT'' [] \<or> e = AsterunError ''INVALID_REQUEST'' []"
proof -
  from assms(1) obtain r until timestamp where "map_of (ct_leases db) (ns, res) = Some r"
    "ls_holder r = Some h" "lease_time parse_iso (ls_expires r) = Inr until"
    "lease_time parse_iso (or_now now clock) = Inr timestamp" "timestamp < until"
    by (auto simp: cs_check_lease_def bind_res_Inr_iff not_le split: option.splits if_splits)
  moreover have "lease_time parse_iso ex = raise ''INVALID_REQUEST'' \<or> (\<exists>u. lease_time parse_iso ex = Inr u)"
    by (simp add: lease_time_def split: option.splits)
  ultimately show ?thesis using assms(2) by (auto simp: cs_claim_lease_def Let_def)
qed

definition example_iso :: "string \<Rightarrow> int option" where
  "example_iso s = (case s of c # _ \<Rightarrow> if c = CHR ''1'' then Some 1 else Some 2 | [] \<Rightarrow> None)"

definition example_lease :: lease_row where
  "example_lease = \<lparr>ls_holder = Some ''h1'', ls_expires = ''2Z'', ls_token = 1\<rparr>"

definition example_leased :: control_db where
  "example_leased = new_control_db\<lparr>ct_leases := [((''ns'', ''res''), example_lease)]\<rparr>"

lemma example_claim:
  "cs_claim_lease example_iso ''1Z'' ''ns'' ''res'' ''h1'' ''2Z'' None new_control_db
     = Inr (example_lease, example_leased)"
  by (simp add: cs_claim_lease_def lease_time_def example_iso_def or_now_def new_control_db_def
      example_leased_def example_lease_def MAX_INT_def Let_def)

lemma example_check:
  "cs_check_lease example_iso ''1Z'' ''ns'' ''res'' ''h1'' (JInt 1) None example_leased
     = Inr example_lease"
  by (simp add: cs_check_lease_def lease_time_def example_iso_def or_now_def new_control_db_def
      example_leased_def example_lease_def)

theorem lease_epochs_are_fenced_witness: "lease_token new_control_db ''ns'' ''res'' < 1"
  using lease_epochs_are_fenced [where sha = id, OF example_claim rtranclp.rtrancl_refl example_check]
  by (simp add: example_lease_def)

theorem live_lease_excludes_others_witness:
  "case cs_claim_lease example_iso ''1Z'' ''ns'' ''res'' ''h2'' ''2Z'' None example_leased of
     Inr _ \<Rightarrow> False
   | Inl e \<Rightarrow> e = AsterunError ''LEASE_CONFLICT'' [] \<or> e = AsterunError ''INVALID_REQUEST'' []"
  by (rule live_lease_excludes_others [OF example_check]) simp

section \<open>Budget arithmetic\<close>

definition amount_at :: "amount_map \<Rightarrow> meter_key \<Rightarrow> int" where
  "amount_at es key = (case map_of es key of None \<Rightarrow> 0 | Some n \<Rightarrow> n)"

definition spent :: "totals \<Rightarrow> meter_key \<Rightarrow> int" where
  "spent ts key = fst (total_at ts key) + snd (total_at ts key)"

lemma amount_at_Cons:
  "fst e \<notin> fst ` set es \<Longrightarrow> amount_at (e # es) key = (if key = fst e then snd e else 0) + amount_at es key"
proof -
  assume "fst e \<notin> fst ` set es"
  then have "map_of es (fst e) = None" by (simp add: map_of_eq_None_iff)
  then show ?thesis by (cases e) (simp add: amount_at_def)
qed

lemma total_at_bump:
  "total_at (bump b e ts) key =
     (if key = fst e then (if b then (fst (total_at ts key) + snd e, snd (total_at ts key))
                           else (fst (total_at ts key), snd (total_at ts key) + snd e))
      else total_at ts key)"
  by (simp add: bump_def total_at_def update_conv' case_prod_beta)

lemma spent_bump: "spent (bump b e ts) key = spent ts key + (if key = fst e then snd e else 0)"
  by (simp add: spent_def total_at_bump)

lemma spent_fold_bump:
  "distinct (map fst es) \<Longrightarrow> spent (fold (bump b) es ts) key = spent ts key + amount_at es key"
proof (induction es arbitrary: ts)
  case Nil
  then show ?case by (simp add: amount_at_def)
next
  case (Cons e es)
  then show ?case by (simp add: spent_bump amount_at_Cons)
qed

lemma bump_distinct: "distinct (map fst ts) \<Longrightarrow> distinct (map fst (bump b e ts))"
  by (simp add: bump_def case_prod_beta distinct_update)

lemma fold_bump_distinct: "distinct (map fst ts) \<Longrightarrow> distinct (map fst (fold (bump b) es ts))"
  by (induction es arbitrary: ts) (simp_all add: bump_distinct)

lemma spent_sorted:
  assumes "distinct (map fst ts)" and "set us = set ts" and "length us = length ts"
  shows "spent us key = spent ts key"
proof -
  have "length (map fst us) = card (set (map fst us))"
    using assms distinct_card [OF assms(1)] by simp
  then have "distinct (map fst us)" using card_distinct by metis
  with assms have "map_of us = map_of ts" by (simp add: map_of_inject_set)
  then show ?thesis by (simp add: spent_def total_at_def)
qed

lemma amount_entry_new:
  "amount_entry field v acc = Inr e \<Longrightarrow> fst e \<notin> fst ` set acc \<and> 0 \<le> snd e \<and> snd e \<le> MAX_INT"
  by (auto simp: amount_entry_def bind_res_Inr_iff split: json.splits option.splits if_splits)
    (metis fst_conv image_eqI)

lemma amounts_loop_distinct:
  "amounts_loop field vs acc = Inr es \<Longrightarrow> distinct (map fst acc) \<Longrightarrow> distinct (map fst es)"
proof (induction vs arbitrary: acc)
  case (Cons v vs)
  from Cons.prems obtain e where e: "amount_entry field v acc = Inr e"
    and rest: "amounts_loop field vs (acc @ [e]) = Inr es"
    by (auto simp: bind_res_Inr_iff)
  from amount_entry_new [OF e] Cons.prems(2) have "distinct (map fst (acc @ [e]))" by auto
  with rest show ?case by (rule Cons.IH)
qed simp

lemma amounts_distinct: "amounts field v = Inr es \<Longrightarrow> distinct (map fst es)"
  by (auto simp: amounts_def dest: amounts_loop_distinct split: json.splits)

text \<open>Amounts are read the same from a value and from its stored form.\<close>

lemma canon_hashable: "hashable v \<Longrightarrow> canon v = v"
  by (cases v) (auto simp: hashable_def)

lemma hashable_canon [simp]: "hashable (canon v) = hashable v"
  by (cases v) (auto simp: hashable_def)

lemma getitem_canon_Inr: "getitem d k = Inr v \<Longrightarrow> getitem (canon_dict d) k = Inr (canon v)"
  by (auto simp: getitem_def map_of_canon_dict split: option.splits)

lemma amount_entry_canon:
  assumes "amount_entry field v acc = Inr e"
  shows "amount_entry field (canon v) acc = Inr e"
proof -
  from assms obtain d meter pool amount m n where "v = JObj d" "getitem d ''meter'' = Inr meter"
    "getitem d ''billing_pool_ref'' = Inr pool" "getitem d field = Inr amount"
    "meter = JStr m" "amount = JInt n" "hashable pool" "m \<in> set METERS" "(m, pool) \<notin> fst ` set acc"
    "0 \<le> n" "n \<le> MAX_INT" "e = ((m, pool), n)"
    by (auto simp: amount_entry_def bind_res_Inr_iff
        split: json.splits option.splits if_splits)
  then show ?thesis
    by (simp add: amount_entry_def canon_dict_def [symmetric] getitem_canon_Inr canon_hashable
        hashable_def [of "JStr m"])
qed

lemma amounts_loop_canon:
  "amounts_loop field vs acc = Inr es \<Longrightarrow> amounts_loop field (canon_list vs) acc = Inr es"
  by (induction vs arbitrary: acc) (auto simp: bind_res_Inr_iff dest: amount_entry_canon)

lemma amounts_canon: "amounts field v = Inr es \<Longrightarrow> amounts field (canon v) = Inr es"
  by (auto simp: amounts_def intro: amounts_loop_canon split: json.splits)

section \<open>Totals after a reservation\<close>

lemma totals_loop_append:
  "totals_loop db ns (xs @ ys) ts = bind_res (totals_loop db ns xs ts) (totals_loop db ns ys)"
  by (induction xs arbitrary: ts) (simp_all add: bind_res_def split: sum.splits)

lemma totals_loop_cong:
  "(\<And>r. r \<in> set rows \<Longrightarrow> cs_get ''Reservation'' (rr_id r) ns db' = cs_get ''Reservation'' (rr_id r) ns db) \<Longrightarrow>
   totals_loop db' ns rows ts = totals_loop db ns rows ts"
proof (induction rows arbitrary: ts)
  case (Cons r rows)
  have "totals_loop db' ns rows = totals_loop db ns rows"
    using Cons by (intro ext) simp
  with Cons.prems [of r] show ?case by simp
qed simp

lemma add_reservation_distinct:
  "add_reservation p ts = Inr us \<Longrightarrow> distinct (map fst ts) \<Longrightarrow> distinct (map fst us)"
  by (auto simp: add_reservation_def bind_res_Inr_iff fold_bump_distinct split: if_splits)

lemma totals_loop_distinct:
  "totals_loop db ns rows ts = Inr us \<Longrightarrow> distinct (map fst ts) \<Longrightarrow> distinct (map fst us)"
  by (induction rows arbitrary: ts) (auto simp: bind_res_Inr_iff dest: add_reservation_distinct)

lemma budget_totals_spent:
  assumes "totals_loop db ns (filter (\<lambda>r. rr_ns r = ns \<and> rr_budget r = b) (ct_reservations db)) [] = Inr ts"
  shows "\<exists>us. cs_budget_totals ns b db = Inr us \<and> spent us = spent ts"
proof -
  have "distinct (map fst ts)" using totals_loop_distinct [OF assms] by simp
  then show ?thesis
    using assms by (auto simp: cs_budget_totals_def fun_eq_iff intro!: spent_sorted)
qed

lemma budget_totals_loop:
  assumes "cs_budget_totals ns b db = Inr us"
  shows "\<exists>ts. totals_loop db ns (filter (\<lambda>r. rr_ns r = ns \<and> rr_budget r = b) (ct_reservations db)) [] = Inr ts
     \<and> spent us = spent ts"
proof -
  from assms obtain ts where
    ts: "totals_loop db ns (filter (\<lambda>r. rr_ns r = ns \<and> rr_budget r = b) (ct_reservations db)) [] = Inr ts"
    by (auto simp: cs_budget_totals_def bind_res_Inr_iff)
  from budget_totals_spent [OF ts] assms ts show ?thesis by auto
qed

lemma map_res_unit_ok: "map_res f xs = Inr ys \<Longrightarrow> x \<in> set xs \<Longrightarrow> \<exists>y. f x = Inr y"
  by (induction xs arbitrary: ys) (auto simp: bind_res_Inr_iff)

lemma limit_ok_bound:
  "limit_ok limits current e = Inr u \<Longrightarrow>
   \<exists>limit. map_of limits (fst e) = Some limit \<and> spent current (fst e) + snd e \<le> limit"
  by (auto simp: limit_ok_def spent_def case_prod_beta split: option.splits if_splits)

lemma cs_get_put_raw:
  "cs_put_raw p db = Inr db' \<Longrightarrow> str_item p ''namespace_id'' = Inr ns \<Longrightarrow> str_item p ''kind'' = Inr kind \<Longrightarrow>
   str_item p ''id'' = Inr i \<Longrightarrow> kind \<noteq> ''Event'' \<Longrightarrow>
   cs_get kind' i' ns' db' =
     (if (ns', kind', i') = (ns, kind, i) then Inr (canon_dict p) else cs_get kind' i' ns' db)"
  by (auto simp: cs_put_raw_def cs_get_def update_conv')

lemma add_reservation_canon:
  assumes "getitem p ''status'' = Inr (JStr ''HELD'')" and "getitem p ''reserved'' = Inr v"
    and "amounts ''amount'' v = Inr am"
  shows "add_reservation (canon_dict p) ts = Inr (fold (bump False) am ts)"
  using assms by (simp add: add_reservation_def getitem_canon_Inr [OF assms(1)]
      getitem_canon_Inr [OF assms(2)] amounts_canon)

lemma admitted_reservation:
  assumes "cs_reserve p db = Inr (r, db')" and new: "ct_reservations db' \<noteq> ct_reservations db"
    and kind: "str_item p ''kind'' = Inr ''Reservation''"
    and ns: "str_item p ''namespace_id'' = Inr ns" and b: "str_item p ''budget_id'' = Inr b"
  shows "\<exists>am budget limits before after.
      bind_res (getitem p ''reserved'') (amounts ''amount'') = Inr am
    \<and> cs_get ''Budget'' b ns db = Inr budget
    \<and> bind_res (getitem budget ''limits'') (amounts ''limit'') = Inr limits
    \<and> cs_budget_totals ns b db = Inr before \<and> cs_budget_totals ns b db' = Inr after
    \<and> (\<forall>key. spent after key = spent before key + amount_at am key)
    \<and> (\<forall>e \<in> set am. \<exists>limit. map_of limits (fst e) = Some limit \<and> spent after (fst e) \<le> limit)"
proof -
  let ?hit = "\<lambda>i a r. rr_ns r = ns \<and> (rr_id r = i \<or> rr_budget r = b \<and> rr_action r = a)"
  from assms obtain am v i a where am: "amounts ''amount'' v = Inr am" "getitem p ''reserved'' = Inr v"
    and held: "getitem p ''status'' = Inr (JStr ''HELD'')"
    and i: "str_item p ''id'' = Inr i" and fresh: "filter (?hit i a) (ct_reservations db) = []"
    and step: "reserve_new ns b i a p am db = Inr (r, db')"
    by (auto simp: cs_reserve_def bind_res_Inr_iff Let_def dest: reserve_again_touches split: if_splits)
  from step obtain budget limits before us where
    bud: "cs_get ''Budget'' b ns db = Inr budget"
    and lim: "bind_res (getitem budget ''limits'') (amounts ''limit'') = Inr limits"
    and tot: "cs_budget_totals ns b db = Inr before"
    and oks: "map_res (limit_ok limits before) am = Inr us"
    and put: "cs_put_raw p (db\<lparr>ct_reservations := ct_reservations db
         @ [\<lparr>rr_ns = ns, rr_id = i, rr_budget = b, rr_action = a\<rparr>]\<rparr>) = Inr db'"
    by (auto simp: reserve_new_def bind_res_Inr_iff split: if_splits)
  have rows: "ct_reservations db' = ct_reservations db
      @ [\<lparr>rr_ns = ns, rr_id = i, rr_budget = b, rr_action = a\<rparr>]"
    using put_raw_touches [OF put] by auto
  have get: "cs_get ''Reservation'' j ns db' = (if j = i then Inr (canon_dict p) else cs_get ''Reservation'' j ns db)"
    for j using cs_get_put_raw [OF put ns kind i, of "''Reservation''" j ns] by (auto simp: cs_get_def)
  let ?mine = "filter (\<lambda>r. rr_ns r = ns \<and> rr_budget r = b)"
  from budget_totals_loop [OF tot] obtain ts where
    ts: "totals_loop db ns (?mine (ct_reservations db)) [] = Inr ts" and sp: "spent before = spent ts"
    by blast
  have "totals_loop db' ns (?mine (ct_reservations db)) [] = Inr ts"
    using ts fresh by (subst totals_loop_cong) (auto simp: get filter_empty_conv)
  then have "totals_loop db' ns (?mine (ct_reservations db')) [] = Inr (fold (bump False) am ts)"
    by (simp add: rows totals_loop_append get add_reservation_canon [OF held am(2) am(1)])
  from budget_totals_spent [OF this] obtain after where
    aft: "cs_budget_totals ns b db' = Inr after" and "spent after = spent (fold (bump False) am ts)"
    by blast
  with sp have sum: "spent after key = spent before key + amount_at am key" for key
    using amounts_distinct [OF am(1)] by (simp add: spent_fold_bump)
  have "\<exists>limit. map_of limits (fst e) = Some limit \<and> spent after (fst e) \<le> limit" if "e \<in> set am" for e
  proof -
    have "amount_at am (fst e) = snd e"
      using map_of_is_SomeI [OF amounts_distinct [OF am(1)], of "fst e" "snd e"] that
      by (simp add: amount_at_def)
    with map_res_unit_ok [OF oks that] sum [of "fst e"] show ?thesis
      using limit_ok_bound by fastforce
  qed
  with am bud lim tot aft sum show ?thesis by auto
qed

text \<open>
  C10. A new reservation never oversubscribes a budget: when \<^verbatim>\<open>reserve\<close> admits one, the
  totals the store reports afterwards are the totals before plus the reserved amounts, and
  for every meter and billing pool it reserves they stay within the limit of the budget.
\<close>

theorem reserve_stays_within_budget:
  assumes "cs_reserve p db = Inr (r, db')" and new: "ct_reservations db' \<noteq> ct_reservations db"
    and kind: "str_item p ''kind'' = Inr ''Reservation''"
    and ns: "str_item p ''namespace_id'' = Inr ns" and b: "str_item p ''budget_id'' = Inr b"
  shows "\<exists>am budget limits before after.
      bind_res (getitem p ''reserved'') (amounts ''amount'') = Inr am
    \<and> cs_get ''Budget'' b ns db = Inr budget
    \<and> bind_res (getitem budget ''limits'') (amounts ''limit'') = Inr limits
    \<and> cs_budget_totals ns b db = Inr before \<and> cs_budget_totals ns b db' = Inr after
    \<and> (\<forall>key. spent after key = spent before key + amount_at am key)
    \<and> (\<forall>e \<in> set am. \<exists>limit. map_of limits (fst e) = Some limit \<and> spent after (fst e) \<le> limit)"
  using admitted_reservation [OF assms] .

definition example_budget :: dict where
  "example_budget = [(''task_id'', JStr ''t''), (''limits'', JArr [JObj
     [(''meter'', JStr ''tokens''), (''billing_pool_ref'', JNull), (''limit'', JInt 100)]])]"

definition example_reservation :: dict where
  "example_reservation =
    [(''namespace_id'', JStr ''ns''), (''kind'', JStr ''Reservation''), (''id'', JStr ''r1''),
     (''budget_id'', JStr ''b''), (''action_id'', JStr ''a''), (''task_id'', JStr ''t''),
     (''status'', JStr ''HELD''), (''actual'', JNull),
     (''reserved'', JArr [JObj [(''meter'', JStr ''tokens''), (''billing_pool_ref'', JNull), (''amount'', JInt 60)]])]"

definition example_budget_db :: control_db where
  "example_budget_db = new_control_db\<lparr>ct_entities := [((''ns'', ''Budget'', ''b''), example_budget)]\<rparr>"

lemma example_amounts:
  "amounts f (JArr [JObj [(''meter'', JStr ''tokens''), (''billing_pool_ref'', JNull), (f, JInt 60)]]) =
     (if f = ''meter'' \<or> f = ''billing_pool_ref'' then raise ''INVALID_REQUEST'' else Inr [((''tokens'', JNull), 60)])"
  by (auto simp: amounts_def amount_entry_def hashable_def METERS_def MAX_INT_def)

lemma example_reserve:
  "\<exists>db'. cs_reserve example_reservation example_budget_db = Inr (canon_dict example_reservation, db')
     \<and> ct_reservations db' \<noteq> ct_reservations example_budget_db"
  by (simp add: cs_reserve_def str_item_Cons example_reservation_def example_amounts example_budget_db_def
      new_control_db_def reserve_new_def cs_get_def example_budget_def cs_put_raw_def cs_budget_totals_def
      limit_ok_def total_at_def amounts_def amount_entry_def hashable_def METERS_def MAX_INT_def)

theorem reserve_stays_within_budget_witness:
  "\<exists>db' after. cs_reserve example_reservation example_budget_db = Inr (canon_dict example_reservation, db')
     \<and> cs_budget_totals ''ns'' ''b'' db' = Inr after"
proof -
  obtain db' where step: "cs_reserve example_reservation example_budget_db
      = Inr (canon_dict example_reservation, db')"
    and new: "ct_reservations db' \<noteq> ct_reservations example_budget_db"
    using example_reserve by blast
  have "str_item example_reservation ''kind'' = Inr ''Reservation''"
    "str_item example_reservation ''namespace_id'' = Inr ''ns''"
    "str_item example_reservation ''budget_id'' = Inr ''b''"
    by (simp_all add: example_reservation_def str_item_Cons)
  from reserve_stays_within_budget [OF step new this] step show ?thesis by blast
qed

section \<open>Blobs and operations stay\<close>

lemma control_step_blob_stays:
  "control_step sha db db' \<Longrightarrow> map_of (ct_blobs db) k = Some c \<Longrightarrow> map_of (ct_blobs db') k = Some c"
  by (cases rule: control_step.cases)
    (auto simp: set_delivery_def map_add_def
      dest!: step_touches append_event_touches prune_events_touches)

lemma control_steps_blob_stays:
  "control_steps sha db db' \<Longrightarrow> map_of (ct_blobs db) k = Some c \<Longrightarrow> map_of (ct_blobs db') k = Some c"
  by (induction rule: rtranclp_induct) (auto intro: control_step_blob_stays)

lemma put_blob_stored:
  "cs_put_blob sha ns c db = Inr (d, db') \<Longrightarrow> d = sha c \<and> map_of (ct_blobs db') (ns, d) = Some c"
  by (auto simp: cs_put_blob_def cs_get_blob_def Let_def bind_res_Inr_iff map_add_def
      split: option.splits if_splits)

text \<open>
  C25. Content is addressed by its hash for good: what \<^verbatim>\<open>put_blob\<close> stored is what
  \<^verbatim>\<open>get_blob\<close> returns under the returned digest in every later state, and storing it
  again is accepted with the same digest and changes nothing.
\<close>

theorem blobs_are_immutable:
  assumes "cs_put_blob sha ns content db = Inr (digest, db1)" and "control_steps sha db1 db2"
  shows "digest = sha content \<and> cs_get_blob sha ns digest db2 = Inr content
    \<and> cs_put_blob sha ns content db2 = Inr (digest, db2)"
proof -
  have "digest = sha content" "map_of (ct_blobs db2) (ns, digest) = Some content"
    using put_blob_stored [OF assms(1)] control_steps_blob_stays [OF assms(2)] by auto
  then show ?thesis by (simp add: cs_get_blob_def cs_put_blob_def)
qed

theorem blobs_are_immutable_witness:
  "cs_get_blob id ''ns'' ''x'' (new_control_db\<lparr>ct_blobs := [((''ns'', ''x''), ''x'')]\<rparr>) = Inr ''x''"
proof -
  have "cs_put_blob id ''ns'' ''x'' new_control_db
      = Inr (''x'', new_control_db\<lparr>ct_blobs := [((''ns'', ''x''), ''x'')]\<rparr>)"
    by (simp add: cs_put_blob_def cs_get_blob_def new_control_db_def Let_def)
  from blobs_are_immutable [OF this rtranclp.rtrancl_refl] show ?thesis by blast
qed

lemma put_raw_keeps:
  "cs_put_raw p db = Inr db' \<Longrightarrow> map_of (ct_entities db) k \<noteq> None \<Longrightarrow> map_of (ct_entities db') k \<noteq> None"
  by (auto simp: cs_put_raw_def bind_res_Inr_iff update_conv')

lemma put_raw_fields:
  "cs_put_raw p db = Inr db' \<Longrightarrow> ct_operations db' = ct_operations db"
  by (auto simp: cs_put_raw_def bind_res_Inr_iff)

definition op_known :: "string \<Rightarrow> string \<Rightarrow> string \<Rightarrow> string \<Rightarrow> string \<Rightarrow> string \<Rightarrow> control_db \<Rightarrow> bool" where
  "op_known ns who mth key i digest db \<longleftrightarrow>
     map_of (ct_operations db) (ns, who, mth, key) = Some (i, digest)
     \<and> map_of (ct_entities db) (ns, ''Operation'', i) \<noteq> None"

lemma op_known_frame:
  "op_known ns who mth key i digest db \<Longrightarrow> ct_operations db' = ct_operations db \<Longrightarrow>
   (\<And>k. map_of (ct_entities db) k \<noteq> None \<Longrightarrow> map_of (ct_entities db') k \<noteq> None) \<Longrightarrow>
   op_known ns who mth key i digest db'"
  by (simp add: op_known_def)

lemma save_operation_op_known:
  assumes "cs_save_operation p who' key' digest' db = Inr (r, db')" "op_known ns who mth key i digest db"
  shows "op_known ns who mth key i digest db'"
  using assms
  by (auto simp: cs_save_operation_def bind_res_Inr_iff op_known_def map_add_def
      dest: put_raw_keeps [where k = "(ns, ''Operation'', i)"] put_raw_fields
      split: if_splits option.splits prod.splits)

lemma entities_stay:
  "cs_put p db = Inr (r, db') \<Longrightarrow> map_of (ct_entities db) k \<noteq> None \<Longrightarrow> map_of (ct_entities db') k \<noteq> None"
  "cs_reserve p db = Inr (r, db') \<Longrightarrow> map_of (ct_entities db) k \<noteq> None \<Longrightarrow> map_of (ct_entities db') k \<noteq> None"
  "cs_settle clock ns i am rs db = Inr (r, db') \<Longrightarrow> map_of (ct_entities db) k \<noteq> None \<Longrightarrow>
   map_of (ct_entities db') k \<noteq> None"
  "cs_mark_uncertain clock ns i db = Inr (r, db') \<Longrightarrow> map_of (ct_entities db) k \<noteq> None \<Longrightarrow>
   map_of (ct_entities db') k \<noteq> None"
proof -
  show "cs_put p db = Inr (r, db') \<Longrightarrow> map_of (ct_entities db) k \<noteq> None \<Longrightarrow> map_of (ct_entities db') k \<noteq> None"
    by (auto simp only: cs_put_def bind_res_Inr_iff prod.inject sum.inject sum.distinct
        split: if_splits dest: put_raw_keeps)
  have again: "reserve_again n row p am db = Inr (r, db') \<Longrightarrow> map_of (ct_entities db) k \<noteq> None \<Longrightarrow>
      map_of (ct_entities db') k \<noteq> None" for n row p am
    by (drule reserve_again_touches) simp
  have fresh: "reserve_new n b i a p am db = Inr (r, db') \<Longrightarrow> map_of (ct_entities db) k \<noteq> None \<Longrightarrow>
      map_of (ct_entities db') k \<noteq> None" for n b i a p am
    by (auto simp: reserve_new_def bind_res_Inr_iff split: if_splits dest!: put_raw_keeps [where k = k])
  show "cs_reserve p db = Inr (r, db') \<Longrightarrow> map_of (ct_entities db) k \<noteq> None \<Longrightarrow> map_of (ct_entities db') k \<noteq> None"
    by (auto simp only: cs_reserve_def bind_res_Inr_iff Let_def sum.distinct
        split: if_splits dest: again fresh)
  show "cs_settle clock ns i am rs db = Inr (r, db') \<Longrightarrow> map_of (ct_entities db) k \<noteq> None \<Longrightarrow>
   map_of (ct_entities db') k \<noteq> None"
    by (auto simp only: cs_settle_def bind_res_Inr_iff Let_def prod.inject sum.inject sum.distinct
        split: if_splits dest: put_raw_keeps)
  show "cs_mark_uncertain clock ns i db = Inr (r, db') \<Longrightarrow> map_of (ct_entities db) k \<noteq> None \<Longrightarrow>
   map_of (ct_entities db') k \<noteq> None"
    by (auto simp only: cs_mark_uncertain_def bind_res_Inr_iff Let_def prod.inject sum.inject sum.distinct
        split: if_splits dest: put_raw_keeps)
qed

lemma control_step_op_known:
  assumes step: "control_step sha db db'" and known: "op_known ns who mth key i digest db"
  shows "op_known ns who mth key i digest db'"
  using step
proof (cases rule: control_step.cases)
  case (step_save_operation e who' key' digest' r1)
  then show ?thesis using save_operation_op_known known by blast
next
  case (step_put e r1)
  then show ?thesis
    using put_touches [OF step_put] entities_stay(1) [OF step_put] by (intro op_known_frame [OF known]) auto
next
  case (step_reserve e r1)
  then show ?thesis
    using reserve_touches [OF step_reserve] entities_stay(2) [OF step_reserve]
    by (intro op_known_frame [OF known]) auto
next
  case (step_settle clock n j am rs r1)
  then show ?thesis
    using settle_touches [OF step_settle] entities_stay(3) [OF step_settle]
    by (intro op_known_frame [OF known]) auto
next
  case (step_mark_uncertain clock n j r1)
  then show ?thesis
    using mark_uncertain_touches [OF step_mark_uncertain] entities_stay(4) [OF step_mark_uncertain]
    by (intro op_known_frame [OF known]) auto
qed (rule op_known_frame [OF known]; use known in
  \<open>auto simp: set_delivery_def dest!: step_touches append_event_touches prune_events_touches\<close>)+

lemma control_steps_op_known:
  "control_steps sha db db' \<Longrightarrow> op_known ns who mth key i digest db \<Longrightarrow> op_known ns who mth key i digest db'"
  by (induction rule: rtranclp_induct) (auto intro: control_step_op_known)

lemma save_operation_makes_known:
  assumes "cs_save_operation p who key digest db = Inr (r, db')"
    and "str_item p ''namespace_id'' = Inr ns" "str_item p ''method'' = Inr mth"
    and "str_item p ''kind'' = Inr ''Operation''"
  shows "\<exists>i. op_known ns who mth key i digest db'"
proof (cases "map_of (ct_operations db) (ns, who, mth, key)")
  case None
  with assms obtain i where i: "str_item p ''id'' = Inr i"
    and put: "cs_put_raw p (db\<lparr>ct_operations := ct_operations db @ [((ns, who, mth, key), (i, digest))]\<rparr>) = Inr db'"
    by (auto simp: cs_save_operation_def bind_res_Inr_iff split: if_splits)
  have "map_of (ct_operations db') (ns, who, mth, key) = Some (i, digest)"
    using put_raw_fields [OF put] None by (simp add: map_add_def)
  moreover have "map_of (ct_entities db') (ns, ''Operation'', i) \<noteq> None"
    using put assms i by (auto simp: cs_put_raw_def bind_res_Inr_iff update_conv')
  ultimately show ?thesis by (auto simp: op_known_def)
next
  case (Some q)
  with assms show ?thesis
    by (auto simp: cs_save_operation_def bind_res_Inr_iff op_known_def cs_get_def
        split: if_splits option.splits prod.splits)
qed

text \<open>
  C23. A command is accepted once per idempotency key: after \<^verbatim>\<open>save_operation\<close> has
  returned, in every later state the same principal, method and key get the recorded
  operation back with no state change when the command digest is the same, and
  \<^verbatim>\<open>IDEMPOTENCY_CONFLICT\<close> when it is another.
\<close>

theorem operations_are_idempotent:
  assumes "cs_save_operation p who key digest db = Inr (r, db1)"
    and "str_item p ''namespace_id'' = Inr ns" "str_item p ''method'' = Inr mth"
    and "str_item p ''kind'' = Inr ''Operation''"
    and "control_steps sha db1 db2"
    and "str_item p' ''namespace_id'' = Inr ns" "str_item p' ''method'' = Inr mth"
  shows "\<exists>q. cs_find_operation ns who mth key db2 = Inr (Some q)
    \<and> cs_save_operation p' who key digest' db2 =
        (if digest' = digest then Inr (q, db2) else raise ''IDEMPOTENCY_CONFLICT'')"
proof -
  obtain i where "op_known ns who mth key i digest db2"
    using save_operation_makes_known [OF assms(1-4)] control_steps_op_known [OF assms(5)] by blast
  then obtain q where "map_of (ct_operations db2) (ns, who, mth, key) = Some (i, digest)"
    "cs_get ''Operation'' i ns db2 = Inr q"
    by (auto simp: op_known_def cs_get_def)
  with assms(6,7) show ?thesis by (simp add: cs_find_operation_def cs_save_operation_def)
qed

definition example_operation :: dict where
  "example_operation = [(''namespace_id'', JStr ''ns''), (''kind'', JStr ''Operation''),
     (''method'', JStr ''create''), (''id'', JStr ''op'')]"

theorem operations_are_idempotent_witness:
  "\<exists>r db1. cs_save_operation example_operation ''p'' ''k'' ''d'' new_control_db = Inr (r, db1)
     \<and> cs_save_operation example_operation ''p'' ''k'' ''other'' db1 = raise ''IDEMPOTENCY_CONFLICT''"
proof -
  have items: "str_item example_operation ''namespace_id'' = Inr ''ns''"
    "str_item example_operation ''method'' = Inr ''create''"
    "str_item example_operation ''kind'' = Inr ''Operation''"
    by (simp_all add: example_operation_def str_item_Cons)
  have "\<exists>r db1. cs_save_operation example_operation ''p'' ''k'' ''d'' new_control_db = Inr (r, db1)"
    by (simp add: cs_save_operation_def example_operation_def str_item_Cons new_control_db_def cs_put_raw_def)
  then obtain r db1 where
    first: "cs_save_operation example_operation ''p'' ''k'' ''d'' new_control_db = Inr (r, db1)" by blast
  from operations_are_idempotent [where sha = id and digest' = "''other''",
      OF first items rtranclp.rtrancl_refl items(1,2)] first
  show ?thesis by auto
qed

end
