(* ===== verification/Policy_Gate.thy ===== *)
theory Policy_Gate
  imports Ids_Errors
begin

text \<open>
  Who may do what: \<^verbatim>\<open>src/asterun/policy.py\<close>. Every definition is one class or function of
  the module. \<^verbatim>\<open>datetime.fromisoformat\<close> is an argument that gives the instant of a text and
  whether it carries a time zone.
\<close>

definition FORBIDDEN_REQUEST_KEYS :: "string list" where
  "FORBIDDEN_REQUEST_KEYS =
    [''principal'', ''granted'', ''set_ready'', ''set_granted'', ''authorization'', ''actor'',
     ''account_ref'', ''runtime_ref'', ''billing_pool_ref'', ''auth'']"

record principal_subject =
  subject_id :: string
  subject_source :: string

record decision =
  allowed :: bool
  deny_code :: "string option"

record grant =
  g_expires_at :: json
  g_resources :: "string list option"
  g_revision :: int

section \<open>Grants\<close>

type_synonym iso_parser = "string \<Rightarrow> (int \<times> bool) option"

text \<open>\<^verbatim>\<open>s.replace("Z", "+00:00")\<close>\<close>

definition zulu :: "string \<Rightarrow> string" where
  "zulu s = concat (map (\<lambda>c. if c = CHR ''Z'' then ''+00:00'' else [c]) s)"

definition is_expired :: "iso_parser \<Rightarrow> grant \<Rightarrow> string \<Rightarrow> bool" where
  "is_expired iso_parse g now =
     (case g_expires_at g of
        JNull \<Rightarrow> False
      | JStr e \<Rightarrow>
          (case (iso_parse (zulu e), iso_parse (zulu now)) of
             (Some (expiry, aware), Some (instant, aware')) \<Rightarrow> \<not> aware \<or> \<not> aware' \<or> expiry \<le> instant
           | _ \<Rightarrow> True)
      | _ \<Rightarrow> True)"

definition covers :: "grant \<Rightarrow> string \<Rightarrow> bool" where
  "covers g resource =
     (case g_resources g of
        None \<Rightarrow> True
      | Some rs \<Rightarrow> ''*'' \<in> set rs \<or> resource \<in> set rs)"

definition grant_to_dict :: "grant \<Rightarrow> dict" where
  "grant_to_dict g =
    [(''expires_at'', g_expires_at g),
     (''resources'', case g_resources g of None \<Rightarrow> JNull | Some rs \<Rightarrow> JArr (map JStr rs)),
     (''revision'', JInt (g_revision g))]"

definition grant_from_dict :: "pylib \<Rightarrow> dict \<Rightarrow> grant res" where
  "grant_from_dict L d =
    bind_res (if dget d ''resources'' = JNull then Inr None
              else bind_res (py_list L (dget d ''resources'')) (\<lambda>xs. Inr (Some (map (py_str L) xs)))) (\<lambda>rs.
    bind_res (py_int L (por (dget d ''revision'') (JInt 1))) (\<lambda>rev.
    Inr \<lparr>g_expires_at = dget d ''expires_at'', g_resources = rs, g_revision = rev\<rparr>))"

lemma grant_roundtrip: "g_revision g \<noteq> 0 \<Longrightarrow> grant_from_dict L (grant_to_dict g) = Inr g"
  by (cases "g_resources g") (simp_all add: grant_from_dict_def grant_to_dict_def por_def comp_def)

definition enforce_grant :: "iso_parser \<Rightarrow> grant option \<Rightarrow> string \<Rightarrow> string \<Rightarrow> unit res" where
  "enforce_grant iso_parse g resource now =
     (case g of
        None \<Rightarrow> Inr ()
      | Some g \<Rightarrow>
          if is_expired iso_parse g now then
            Inl (AsterunError ''AUTH_REQUIRED''
              [(''grant'', JStr ''expired''), (''expires_at'', g_expires_at g)])
          else if \<not> covers g resource then
            Inl (AsterunError ''SCOPE_DENIED'' [(''resource'', JStr resource)])
          else Inr ())"

section \<open>Policies\<close>

definition allow_configured_workspaces :: "string list \<Rightarrow> principal_subject \<Rightarrow> string \<Rightarrow> string \<Rightarrow> decision" where
  "allow_configured_workspaces aliases subject action resource =
     (if subject_source subject \<notin> {''process'', ''test''}
      then \<lparr>allowed = False, deny_code = Some ''SCOPE_DENIED''\<rparr>
      else if resource = ''*'' then \<lparr>allowed = True, deny_code = None\<rparr>
      else if resource \<notin> set aliases then \<lparr>allowed = False, deny_code = Some ''SCOPE_DENIED''\<rparr>
      else \<lparr>allowed = True, deny_code = None\<rparr>)"

definition deny_all :: "principal_subject \<Rightarrow> string \<Rightarrow> string \<Rightarrow> decision" where
  "deny_all subject action resource = \<lparr>allowed = False, deny_code = Some ''SCOPE_DENIED''\<rparr>"

definition process_principal :: "string \<Rightarrow> principal_subject" where
  "process_principal user = \<lparr>subject_id = ''os:'' @ user, subject_source = ''process''\<rparr>"

definition reject_self_reported_authority :: "dict option \<Rightarrow> unit res" where
  "reject_self_reported_authority payload =
     (case payload of
        None \<Rightarrow> Inr ()
      | Some d \<Rightarrow>
          let hit = filter (dhas d) (sort FORBIDDEN_REQUEST_KEYS)
          in if hit = [] then Inr ()
             else Inl (AsterunError ''SCOPE_DENIED'' [(''rejected_fields'', JArr (map JStr hit))]))"

definition enforce :: "decision \<Rightarrow> unit res" where
  "enforce d =
     (if allowed d then Inr ()
      else raise (case deny_code d of None \<Rightarrow> ''SCOPE_DENIED''
                  | Some c \<Rightarrow> if c = [] then ''SCOPE_DENIED'' else c))"

end
