(* ===== verification/Stores.thy ===== *)
theory Stores
  imports Contracts Control_Store
begin

text \<open>
  The state stores behind the application: \<^verbatim>\<open>MemoryStore\<close> and \<^verbatim>\<open>JsonFileStore\<close> of
  \<^verbatim>\<open>src/asterun/store.py\<close> and \<^verbatim>\<open>SqliteStore\<close> of \<^verbatim>\<open>src/asterun/sqlite_store.py\<close>, one
  definition per method, with the compare-and-set guard of
  \<^verbatim>\<open>src/asterun/context_transition.py\<close> and the authority digest of
  \<^verbatim>\<open>src/asterun/handoff.py\<close> that \<^verbatim>\<open>commit_intent\<close> and \<^verbatim>\<open>commit_handoff\<close> consult.

  A store returns its objects by value here: a caller that changes an object it was given
  must save it to be seen, which is how the application uses all stores. SHA-256 of a
  value's sorted JSON text is the argument \<open>H\<close>, of a byte string the argument \<open>sha\<close>.
  Hooks of the SQLite store (plugin admission, quota) write tables of their own, the field
  \<open>sq_ext\<close>; they may raise, and then the whole transaction is rolled back.
\<close>

section \<open>Digests and the authority of a task\<close>

definition digest :: "(json \<Rightarrow> string) \<Rightarrow> json \<Rightarrow> string" where
  "digest H v = H (canon v)"

text \<open>The read side of \<^verbatim>\<open>Store\<close> that the guards use.\<close>

record store_view =
  sv_task :: "task_id \<Rightarrow> task res"
  sv_run :: "run_id \<Rightarrow> run res"
  sv_pending :: "run_id \<Rightarrow> approval_request option res"
  sv_operation :: "run_id \<Rightarrow> operation option res"
  sv_last_seq :: "run_id \<Rightarrow> int"

text \<open>\<^verbatim>\<open>handoff.state\<close>: what a handoff or a context transition was decided on.\<close>

definition authority_native :: "dict \<Rightarrow> dict" where
  "authority_native native =
     dpop (dpop (dpop (dpop (dpop native ''payload_manifests'') UNAPPLIED_RESULT) UNAPPLIED_APPROVAL)
       SLOT_RELEASED) SLOT_HELD"

definition handoff_state :: "(json \<Rightarrow> string) \<Rightarrow> store_view \<Rightarrow> task \<Rightarrow> run \<Rightarrow> dict res" where
  "handoff_state H sv t r =
     (let data = dpop (task_to_dict t) ''handoff_snapshot'';
          current = dset (run_to_dict r) ''native'' (JObj (authority_native (r_native r)))
      in bind_res (sv_pending sv (r_id r)) (\<lambda>approval.
         bind_res (sv_operation sv (r_id r)) (\<lambda>operation.
         Inr [(''operation'', case operation of None \<Rightarrow> JNull
                | Some p \<Rightarrow> JObj [(''id'', JStr (operation_val (o_id p))),
                                   (''status'', JStr (str_operation_status (o_status p)))]),
              (''task_sha256'', JStr (digest H (JObj data))),
              (''run_sha256'', JStr (digest H (JObj current))),
              (''source_event_sequence'', JInt (sv_last_seq sv (r_id r))),
              (''pending_approval'', case approval of None \<Rightarrow> JNull
                | Some a \<Rightarrow> JObj [(''id'', JStr (approval_val (ap_id a))),
                                   (''sha256'', JStr (digest H (JObj (approval_to_dict a))))])])))"

text \<open>\<^verbatim>\<open>context_transition.cas\<close>\<close>

definition transition_cas :: "(json \<Rightarrow> string) \<Rightarrow> store_view \<Rightarrow> task \<Rightarrow> run \<Rightarrow> unit res" where
  "transition_cas H sv t r =
     (let rec = dget (r_native r) ''context_transition''
      in if \<not> truthy rec then Inr ()
         else
           bind_res (sv_task sv (t_id t)) (\<lambda>current.
           case as_dict rec of
             None \<Rightarrow> Inl TypeError
           | Some rd \<Rightarrow>
               bind_res (bind_res (getitem rd ''source_run_id'') (typed_id RunId)) (\<lambda>sid.
               bind_res (sv_run sv sid) (\<lambda>source.
               bind_res (getitem rd ''source_task_sha256'') (\<lambda>expected.
               if JStr (digest H (JObj (task_to_dict current))) \<noteq> expected then raise ''REVISION_CONFLICT''
               else
                 bind_res (handoff_state H sv current source) (\<lambda>st.
                 bind_res (getitem rd ''source_authority'') (\<lambda>authority.
                 if canon (JObj st) \<noteq> canon authority then raise ''REVISION_CONFLICT''
                 else Inr ())))))))"

text \<open>\<^verbatim>\<open>handoff.commit\<close>: the new snapshot reference, or a conflict. The blob is put by the store.\<close>

definition handoff_expected ::
  "(json \<Rightarrow> string) \<Rightarrow> store_view \<Rightarrow> task \<Rightarrow> run \<Rightarrow> json \<Rightarrow> int \<Rightarrow> task res" where
  "handoff_expected H sv t r expected revision =
     bind_res (sv_task sv (t_id t)) (\<lambda>current_task.
     bind_res (sv_run sv (r_id r)) (\<lambda>current_run.
     case as_dict (t_handoff_snapshot current_task) of
       None \<Rightarrow> Inl TypeError
     | Some snap \<Rightarrow>
         if dget_or snap ''revision'' (JInt 0) \<noteq> JInt revision then raise ''REVISION_CONFLICT''
         else
           bind_res (handoff_state H sv current_task current_run) (\<lambda>st.
           if canon (JObj st) \<noteq> canon expected then raise ''REVISION_CONFLICT'' else Inr current_task)))"

definition handoff_reference :: "int \<Rightarrow> string \<Rightarrow> dict" where
  "handoff_reference revision sha = [(''revision'', JInt (revision + 1)), (''sha256'', JStr sha)]"

section \<open>The memory store\<close>

type_synonym op_key = "string \<times> string \<times> string \<times> string"

record mem_store =
  ms_tasks :: "(string \<times> task) list"
  ms_runs :: "(string \<times> run) list"
  ms_approvals :: "(string \<times> approval_request) list"
  ms_events :: "(string \<times> event list) list"
  ms_operations :: "(string \<times> operation) list"
  ms_sessions :: "(string \<times> session_binding) list"
  ms_ops_by_key :: "(op_key \<times> operation) list"
  ms_applied :: "int option"
  ms_blobs :: "(string \<times> string) list"
  ms_fail_next_intent :: bool

definition new_mem_store :: mem_store where
  "new_mem_store = \<lparr>ms_tasks = [], ms_runs = [], ms_approvals = [], ms_events = [], ms_operations = [],
     ms_sessions = [], ms_ops_by_key = [], ms_applied = None, ms_blobs = [], ms_fail_next_intent = False\<rparr>"

definition not_found :: "string \<Rightarrow> string \<Rightarrow> 'a res" where
  "not_found k v = Inl (AsterunError ''NOT_FOUND'' [(k, JStr v)])"

definition lookup_or :: "'a res \<Rightarrow> (string \<times> 'a) list \<Rightarrow> string \<Rightarrow> 'a res" where
  "lookup_or e xs k = (case map_of xs k of None \<Rightarrow> e | Some x \<Rightarrow> Inr x)"

definition ms_save_task :: "task \<Rightarrow> mem_store \<Rightarrow> mem_store" where
  "ms_save_task t s = s\<lparr>ms_tasks := AList.update (task_val (t_id t)) t (ms_tasks s)\<rparr>"

definition ms_get_task :: "mem_store \<Rightarrow> task_id \<Rightarrow> task res" where
  "ms_get_task s i = lookup_or (not_found ''task_id'' (task_val i)) (ms_tasks s) (task_val i)"

definition ms_save_run :: "run \<Rightarrow> mem_store \<Rightarrow> mem_store" where
  "ms_save_run r s = s\<lparr>ms_runs := AList.update (run_val (r_id r)) r (ms_runs s)\<rparr>"

definition ms_get_run :: "mem_store \<Rightarrow> run_id \<Rightarrow> run res" where
  "ms_get_run s i = lookup_or (not_found ''run_id'' (run_val i)) (ms_runs s) (run_val i)"

definition ms_list_runs :: "mem_store \<Rightarrow> task_id \<Rightarrow> run list" where
  "ms_list_runs s i = filter (\<lambda>r. r_task_id r = i) (map snd (ms_runs s))"

definition ms_save_approval :: "approval_request \<Rightarrow> mem_store \<Rightarrow> mem_store" where
  "ms_save_approval a s = s\<lparr>ms_approvals := AList.update (approval_val (ap_id a)) a (ms_approvals s)\<rparr>"

definition ms_get_approval :: "mem_store \<Rightarrow> approval_id \<Rightarrow> approval_request res" where
  "ms_get_approval s i = lookup_or (not_found ''approval_id'' (approval_val i)) (ms_approvals s) (approval_val i)"

definition is_pending_for :: "run_id \<Rightarrow> approval_request \<Rightarrow> bool" where
  "is_pending_for i a \<longleftrightarrow> run_val (ap_run_id a) = run_val i \<and> str_approval_state (ap_state a) = ''pending''"

definition ms_find_pending_approval :: "mem_store \<Rightarrow> run_id \<Rightarrow> approval_request option" where
  "ms_find_pending_approval s i = find (is_pending_for i) (map snd (ms_approvals s))"

definition ms_bucket :: "mem_store \<Rightarrow> string \<Rightarrow> event list" where
  "ms_bucket s k = (case map_of (ms_events s) k of None \<Rightarrow> [] | Some es \<Rightarrow> es)"

definition ms_append_event :: "run_id \<Rightarrow> event \<Rightarrow> mem_store \<Rightarrow> event \<times> mem_store" where
  "ms_append_event i e s =
     (let bucket = ms_bucket s (run_val i);
          e' = e\<lparr>e_seq := int (length bucket) + 1\<rparr>
      in (e', s\<lparr>ms_events := AList.update (run_val i) (bucket @ [e']) (ms_events s)\<rparr>))"

text \<open>Python's \<^verbatim>\<open>xs[:n]\<close>: a negative \<open>n\<close> counts from the end.\<close>

definition py_prefix :: "int \<Rightarrow> 'a list \<Rightarrow> 'a list" where
  "py_prefix n xs = (if 0 \<le> n then take (nat n) xs else take (nat (int (length xs) + n)) xs)"

definition ms_list_events :: "mem_store \<Rightarrow> run_id \<Rightarrow> int \<Rightarrow> int \<Rightarrow> event list" where
  "ms_list_events s i cursor page_size =
     py_prefix page_size (filter (\<lambda>e. cursor < e_seq e) (ms_bucket s (run_val i)))"

definition ms_last_event_sequence :: "mem_store \<Rightarrow> run_id \<Rightarrow> int" where
  "ms_last_event_sequence s i =
     (let es = ms_bucket s (run_val i) in if es = [] then 0 else e_seq (last es))"

definition idempotency_key :: "operation \<Rightarrow> op_key" where
  "idempotency_key p = (o_principal p, o_action p, o_target p, o_idempotency_key p)"

definition ms_find_operation_by_key :: "mem_store \<Rightarrow> op_key \<Rightarrow> operation option" where
  "ms_find_operation_by_key s k = map_of (ms_ops_by_key s) k"

definition ms_find_idempotent_operation :: "mem_store \<Rightarrow> operation \<Rightarrow> operation option" where
  "ms_find_idempotent_operation s p = map_of (ms_ops_by_key s) (idempotency_key p)"

definition ms_save_operation :: "operation \<Rightarrow> mem_store \<Rightarrow> mem_store" where
  "ms_save_operation p s =
     s\<lparr>ms_operations := AList.update (operation_val (o_id p)) p (ms_operations s),
       ms_ops_by_key := AList.update (idempotency_key p) p (ms_ops_by_key s)\<rparr>"

definition ms_get_operation :: "mem_store \<Rightarrow> operation_id \<Rightarrow> operation res" where
  "ms_get_operation s i =
     lookup_or (not_found ''operation_id'' (operation_val i)) (ms_operations s) (operation_val i)"

definition operation_for :: "run_id \<Rightarrow> operation \<Rightarrow> bool" where
  "operation_for i p \<longleftrightarrow> (case o_run_id p of None \<Rightarrow> False | Some j \<Rightarrow> run_val j = run_val i)"

definition ms_find_operation_for_run :: "mem_store \<Rightarrow> run_id \<Rightarrow> operation option" where
  "ms_find_operation_for_run s i = find (operation_for i) (map snd (ms_operations s))"

definition ms_save_session :: "session_binding \<Rightarrow> mem_store \<Rightarrow> mem_store" where
  "ms_save_session b s =
     s\<lparr>ms_sessions := AList.update (conv_val (s_conversation_id b)) b (ms_sessions s)\<rparr>"

definition ms_get_session :: "mem_store \<Rightarrow> conversation_id \<Rightarrow> session_binding res" where
  "ms_get_session s i = lookup_or (not_found ''conversation_id'' (conv_val i)) (ms_sessions s) (conv_val i)"

definition is_native_session :: "string \<Rightarrow> string \<Rightarrow> session_binding \<Rightarrow> bool" where
  "is_native_session backend native b \<longleftrightarrow>
     backend_val (s_backend b) = backend \<and> map_option bsession_val (s_backend_session_id b) = Some native"

definition ms_find_session_by_native :: "mem_store \<Rightarrow> string \<Rightarrow> string \<Rightarrow> session_binding option" where
  "ms_find_session_by_native s backend native =
     find (is_native_session backend native) (map snd (ms_sessions s))"

definition ms_list_task_ids :: "mem_store \<Rightarrow> task_id list" where
  "ms_list_task_ids s = map (TaskId \<circ> fst) (ms_tasks s)"

definition ms_put_blob :: "(string \<Rightarrow> string) \<Rightarrow> string \<Rightarrow> mem_store \<Rightarrow> string \<times> mem_store" where
  "ms_put_blob sha content s =
     (sha content, s\<lparr>ms_blobs := AList.update (sha content) content (ms_blobs s)\<rparr>)"

definition ms_get_blob :: "(string \<Rightarrow> string) \<Rightarrow> mem_store \<Rightarrow> string \<Rightarrow> string res" where
  "ms_get_blob sha s d =
     (case map_of (ms_blobs s) d of
        None \<Rightarrow> raise ''NOT_FOUND''
      | Some content \<Rightarrow> if sha content \<noteq> d then raise ''NOT_FOUND'' else Inr content)"

definition ms_view :: "mem_store \<Rightarrow> store_view" where
  "ms_view s = \<lparr>sv_task = ms_get_task s, sv_run = ms_get_run s,
     sv_pending = (\<lambda>i. Inr (ms_find_pending_approval s i)),
     sv_operation = (\<lambda>i. Inr (ms_find_operation_for_run s i)),
     sv_last_seq = ms_last_event_sequence s\<rparr>"

definition save_manifest :: "string \<Rightarrow> json \<Rightarrow> run \<Rightarrow> run res" where
  "save_manifest scope manifest r =
     (case dget_or (r_native r) ''payload_manifests'' (JObj []) of
        JObj d \<Rightarrow> Inr (r\<lparr>r_native := dset (r_native r) ''payload_manifests'' (JObj (dset d scope manifest))\<rparr>)
      | _ \<Rightarrow> Inl TypeError)"

definition ms_save_payload_manifest :: "run_id \<Rightarrow> string \<Rightarrow> json \<Rightarrow> mem_store \<Rightarrow> mem_store res" where
  "ms_save_payload_manifest i scope manifest s =
     bind_res (ms_get_run s i) (\<lambda>r.
     bind_res (save_manifest scope manifest r) (\<lambda>r'. Inr (ms_save_run r' s)))"

definition ms_commit_handoff ::
  "(json \<Rightarrow> string) \<Rightarrow> (string \<Rightarrow> string) \<Rightarrow> task \<Rightarrow> run \<Rightarrow> json \<Rightarrow> int \<Rightarrow> string \<Rightarrow> mem_store \<Rightarrow>
   (dict \<times> mem_store) res" where
  "ms_commit_handoff H sha t r expected revision content s =
     bind_res (handoff_expected H (ms_view s) t r expected revision) (\<lambda>current.
     let (d, s1) = ms_put_blob sha content s;
         ref = handoff_reference revision d
     in Inr (ref, ms_save_task (current\<lparr>t_handoff_snapshot := JObj ref\<rparr>) s1))"

text \<open>
  \<^verbatim>\<open>commit_intent\<close>. The injected failure is consumed even though the call raises, so the
  result comes with the state in every case.
\<close>

type_synonym intent = "operation \<times> task \<times> run \<times> bool"

definition intended :: "operation \<Rightarrow> task \<Rightarrow> run \<Rightarrow> operation" where
  "intended p t r = p\<lparr>o_status := Op_INTENDED, o_task_id := Some (t_id t), o_run_id := Some (r_id r)\<rparr>"

definition idempotency_conflict :: "operation \<Rightarrow> 'a res" where
  "idempotency_conflict p =
     Inl (AsterunError ''IDEMPOTENCY_CONFLICT'' [(''idempotency_key'', JStr (o_idempotency_key p))])"

definition ms_commit_intent ::
  "(json \<Rightarrow> string) \<Rightarrow> operation \<Rightarrow> task \<Rightarrow> run \<Rightarrow> session_binding option \<Rightarrow> mem_store \<Rightarrow>
   intent res \<times> mem_store" where
  "ms_commit_intent H p t r session s =
     (if ms_fail_next_intent s then
        (raise ''INTENT_PERSIST_FAILED'', s\<lparr>ms_fail_next_intent := False\<rparr>)
      else
        case map_of (ms_ops_by_key s) (idempotency_key p) of
          Some existing \<Rightarrow>
            (if o_input_hash existing \<noteq> o_input_hash p then idempotency_conflict p
             else case (o_task_id existing, o_run_id existing) of
                 (Some ti, Some ri) \<Rightarrow>
                   bind_res (ms_get_task s ti) (\<lambda>t'. bind_res (ms_get_run s ri) (\<lambda>r'.
                     Inr (existing, t', r', True)))
               | _ \<Rightarrow> raise ''NOT_FOUND'', s)
        | None \<Rightarrow>
            (case transition_cas H (ms_view s) t r of
               Inl e \<Rightarrow> (Inl e, s)
             | Inr _ \<Rightarrow>
                 let p' = intended p t r;
                     s1 = s\<lparr>ms_operations := AList.update (operation_val (o_id p')) p' (ms_operations s),
                            ms_ops_by_key := AList.update (idempotency_key p) p' (ms_ops_by_key s),
                            ms_tasks := AList.update (task_val (t_id t)) t (ms_tasks s),
                            ms_runs := AList.update (run_val (r_id r)) r (ms_runs s)\<rparr>
                 in (Inr (p', t, r, False),
                     case session of None \<Rightarrow> s1 | Some b \<Rightarrow> ms_save_session b s1)))"

definition ms_bootstrap_applied_revision :: "int \<Rightarrow> mem_store \<Rightarrow> int \<times> mem_store" where
  "ms_bootstrap_applied_revision revision s =
     (case ms_applied s of
        None \<Rightarrow> (revision, s\<lparr>ms_applied := Some revision\<rparr>)
      | Some n \<Rightarrow> (n, s))"

definition revision_conflict :: "int \<Rightarrow> int \<Rightarrow> int \<Rightarrow> 'a res" where
  "revision_conflict expected current new =
     Inl (AsterunError ''REVISION_CONFLICT''
       [(''expected'', JInt expected), (''applied'', JInt current), (''requested'', JInt new)])"

definition ms_cas_apply_revision :: "int \<Rightarrow> int \<Rightarrow> mem_store \<Rightarrow> (int \<times> mem_store) res" where
  "ms_cas_apply_revision expected new s =
     (case ms_applied s of
        None \<Rightarrow> raise ''REVISION_CONFLICT''
      | Some current \<Rightarrow>
          if current \<noteq> expected then revision_conflict expected current new
          else Inr (new, s\<lparr>ms_applied := Some new\<rparr>))"

section \<open>The JSON file store\<close>

text \<open>
  Every method loads the file, runs the memory store's method and, when it wrote, dumps the
  file again. The file holds the dictionary below; checkpoint blobs and the injected
  failure are not part of it.
\<close>

definition dump_table :: "('a \<Rightarrow> json) \<Rightarrow> (string \<times> 'a) list \<Rightarrow> json" where
  "dump_table f xs = JObj (map (\<lambda>(k, v). (k, f v)) xs)"

definition jf_dump :: "mem_store \<Rightarrow> dict" where
  "jf_dump s =
    [(''tasks'', dump_table (\<lambda>v. JObj (task_to_dict v)) (ms_tasks s)),
     (''runs'', dump_table (\<lambda>v. JObj (run_to_dict v)) (ms_runs s)),
     (''approvals'', dump_table (\<lambda>v. JObj (approval_to_dict v)) (ms_approvals s)),
     (''events'', dump_table (\<lambda>es. JArr (map (\<lambda>e. JObj (event_to_dict e)) es)) (ms_events s)),
     (''operations'', dump_table (\<lambda>v. JObj (operation_to_dict v)) (ms_operations s)),
     (''sessions'', dump_table (\<lambda>v. JObj (session_to_dict v)) (ms_sessions s)),
     (''applied_config_revision'', case ms_applied s of None \<Rightarrow> JNull | Some n \<Rightarrow> JInt n)]"

definition load_table :: "(json \<Rightarrow> 'a res) \<Rightarrow> json \<Rightarrow> (string \<times> 'a) list res" where
  "load_table f v =
     (case v of
        JObj d \<Rightarrow> map_res (\<lambda>(k, x). bind_res (f x) (\<lambda>y. Inr (k, y))) d
      | _ \<Rightarrow> Inl TypeError)"

definition from_obj :: "(dict \<Rightarrow> 'a res) \<Rightarrow> json \<Rightarrow> 'a res" where
  "from_obj f v = (case v of JObj d \<Rightarrow> f d | _ \<Rightarrow> Inl TypeError)"

text \<open>\<open>raw\<close> is the parsed file; before the first dump there is none.\<close>

definition jf_load :: "pylib \<Rightarrow> dict option \<Rightarrow> mem_store \<Rightarrow> mem_store res" where
  "jf_load L file s =
     (case file of
        None \<Rightarrow> Inr s
      | Some raw \<Rightarrow>
          bind_res (load_table (from_obj (task_from_dict L)) (dget_or raw ''tasks'' (JObj []))) (\<lambda>tasks.
          bind_res (load_table (from_obj (run_from_dict L)) (dget_or raw ''runs'' (JObj []))) (\<lambda>runs.
          bind_res (load_table (from_obj (approval_from_dict L)) (dget_or raw ''approvals'' (JObj []))) (\<lambda>approvals.
          bind_res (load_table (\<lambda>v. case v of JArr xs \<Rightarrow> map_res (from_obj (event_from_dict L)) xs
                                            | _ \<Rightarrow> Inl TypeError)
              (dget_or raw ''events'' (JObj []))) (\<lambda>events.
          bind_res (load_table (from_obj (operation_from_dict L)) (dget_or raw ''operations'' (JObj []))) (\<lambda>operations.
          bind_res (load_table (from_obj (session_from_dict L)) (dget_or raw ''sessions'' (JObj []))) (\<lambda>sessions.
          bind_res (if dget raw ''applied_config_revision'' = JNull then Inr None
                    else bind_res (py_int L (dget raw ''applied_config_revision'')) (\<lambda>n. Inr (Some n))) (\<lambda>applied.
          Inr (s\<lparr>ms_tasks := tasks, ms_runs := runs, ms_approvals := approvals, ms_events := events,
                 ms_operations := operations, ms_sessions := sessions, ms_applied := applied,
                 ms_ops_by_key := fold (\<lambda>p. AList.update (idempotency_key p) p) (map snd operations) []\<rparr>)))))))))"

record json_file_store =
  jf_file :: "dict option"
  jf_mem :: mem_store

definition jf_read :: "pylib \<Rightarrow> (mem_store \<Rightarrow> 'a res) \<Rightarrow> json_file_store \<Rightarrow> ('a \<times> json_file_store) res" where
  "jf_read L f s =
     bind_res (jf_load L (jf_file s) (jf_mem s)) (\<lambda>m.
     bind_res (f m) (\<lambda>x. Inr (x, s\<lparr>jf_mem := m\<rparr>)))"

definition jf_write ::
  "pylib \<Rightarrow> (mem_store \<Rightarrow> ('a \<times> mem_store) res) \<Rightarrow> json_file_store \<Rightarrow> ('a \<times> json_file_store) res" where
  "jf_write L f s =
     bind_res (jf_load L (jf_file s) (jf_mem s)) (\<lambda>m.
     bind_res (f m) (\<lambda>(x, m'). Inr (x, \<lparr>jf_file = Some (jf_dump m'), jf_mem = m'\<rparr>)))"

abbreviation wrote :: "mem_store \<Rightarrow> (unit \<times> mem_store) res" where
  "wrote m \<equiv> Inr ((), m)"

definition jf_save_task where "jf_save_task L t = jf_write L (\<lambda>m. wrote (ms_save_task t m))"
definition jf_get_task where "jf_get_task L i = jf_read L (\<lambda>m. ms_get_task m i)"
definition jf_save_run where "jf_save_run L r = jf_write L (\<lambda>m. wrote (ms_save_run r m))"
definition jf_get_run where "jf_get_run L i = jf_read L (\<lambda>m. ms_get_run m i)"
definition jf_list_runs where "jf_list_runs L i = jf_read L (\<lambda>m. Inr (ms_list_runs m i))"
definition jf_save_approval where "jf_save_approval L a = jf_write L (\<lambda>m. wrote (ms_save_approval a m))"
definition jf_get_approval where "jf_get_approval L i = jf_read L (\<lambda>m. ms_get_approval m i)"
definition jf_find_pending_approval where
  "jf_find_pending_approval L i = jf_read L (\<lambda>m. Inr (ms_find_pending_approval m i))"
definition jf_append_event where "jf_append_event L i e = jf_write L (\<lambda>m. Inr (ms_append_event i e m))"
definition jf_list_events where
  "jf_list_events L i cursor page_size = jf_read L (\<lambda>m. Inr (ms_list_events m i cursor page_size))"
definition jf_commit_intent where
  "jf_commit_intent L H p t r b s =
     (case jf_load L (jf_file s) (jf_mem s) of
        Inl e \<Rightarrow> (Inl e, s)
      | Inr m \<Rightarrow>
          (case ms_commit_intent H p t r b m of
             (Inl e, m') \<Rightarrow> (Inl e, s\<lparr>jf_mem := m'\<rparr>)
           | (Inr x, m') \<Rightarrow> (Inr x, \<lparr>jf_file = Some (jf_dump m'), jf_mem = m'\<rparr>)))"
definition jf_save_operation where "jf_save_operation L p = jf_write L (\<lambda>m. wrote (ms_save_operation p m))"
definition jf_get_operation where "jf_get_operation L i = jf_read L (\<lambda>m. ms_get_operation m i)"
definition jf_get_applied_revision where "jf_get_applied_revision L = jf_read L (\<lambda>m. Inr (ms_applied m))"
definition jf_bootstrap_applied_revision where
  "jf_bootstrap_applied_revision L n = jf_write L (\<lambda>m. Inr (ms_bootstrap_applied_revision n m))"
definition jf_cas_apply_revision where
  "jf_cas_apply_revision L expected new = jf_write L (ms_cas_apply_revision expected new)"
definition jf_save_session where "jf_save_session L b = jf_write L (\<lambda>m. wrote (ms_save_session b m))"
definition jf_get_session where "jf_get_session L i = jf_read L (\<lambda>m. ms_get_session m i)"
definition jf_find_session_by_native where
  "jf_find_session_by_native L backend native = jf_read L (\<lambda>m. Inr (ms_find_session_by_native m backend native))"
definition jf_list_task_ids where "jf_list_task_ids L = jf_read L (\<lambda>m. Inr (ms_list_task_ids m))"
definition jf_find_operation_for_run where
  "jf_find_operation_for_run L i = jf_read L (\<lambda>m. Inr (ms_find_operation_for_run m i))"
definition jf_find_idempotent_operation where
  "jf_find_idempotent_operation L p = jf_read L (\<lambda>m. Inr (ms_find_idempotent_operation m p))"
definition jf_commit_handoff :: "json_file_store \<Rightarrow> (dict \<times> json_file_store) res" where
  "jf_commit_handoff s = raise ''CAPABILITY_UNSUPPORTED''"

section \<open>The SQLite store\<close>

text \<open>
  One field per table. A payload column is the JSON text of \<^verbatim>\<open>to_dict()\<close> in its own key
  order, so reading it gives that dictionary back. The columns of \<^verbatim>\<open>operations\<close> are the
  fields of an \<^verbatim>\<open>Operation\<close>. A violated key is an \<open>IntegrityError\<close>.
\<close>

record 'x sqlite_db =
  sq_operations :: "operation list"
  sq_tasks :: "(string \<times> dict) list"
  sq_runs :: "(string \<times> dict) list"
  sq_approvals :: "(string \<times> dict) list"
  sq_events :: "(string \<times> int \<times> dict) list"
  sq_sessions :: "(string \<times> dict) list"
  sq_applied :: "int option"
  sq_control :: control_db
  sq_fail_next_intent :: bool
  sq_ext :: 'x

text \<open>What the hooks do to the tables they own.\<close>

record 'x sq_hooks =
  intent_hook :: "operation \<Rightarrow> task \<Rightarrow> run \<Rightarrow> session_binding option \<Rightarrow> 'x \<Rightarrow> 'x res"
  run_hook :: "run \<Rightarrow> 'x \<Rightarrow> 'x res"
  quota_hook :: "run \<Rightarrow> 'x \<Rightarrow> 'x res"

definition sq_get :: "(string \<times> dict) list \<Rightarrow> string \<Rightarrow> dict res" where
  "sq_get table k = lookup_or (not_found ''id'' k) table k"

definition sq_save_task :: "task \<Rightarrow> 'x sqlite_db \<Rightarrow> 'x sqlite_db" where
  "sq_save_task t s = s\<lparr>sq_tasks := AList.update (task_val (t_id t)) (task_to_dict t) (sq_tasks s)\<rparr>"

definition sq_get_task :: "pylib \<Rightarrow> 'x sqlite_db \<Rightarrow> task_id \<Rightarrow> task res" where
  "sq_get_task L s i = bind_res (sq_get (sq_tasks s) (task_val i)) (task_from_dict L)"

definition sq_save_run :: "'x sq_hooks \<Rightarrow> run \<Rightarrow> 'x sqlite_db \<Rightarrow> 'x sqlite_db res" where
  "sq_save_run hooks r s =
     bind_res (run_hook hooks r (sq_ext s)) (\<lambda>x1.
     bind_res (quota_hook hooks r x1) (\<lambda>x2.
     Inr (s\<lparr>sq_runs := AList.update (run_val (r_id r)) (run_to_dict r) (sq_runs s), sq_ext := x2\<rparr>)))"

definition sq_get_run :: "pylib \<Rightarrow> 'x sqlite_db \<Rightarrow> run_id \<Rightarrow> run res" where
  "sq_get_run L s i = bind_res (sq_get (sq_runs s) (run_val i)) (run_from_dict L)"

definition sq_list_runs :: "pylib \<Rightarrow> 'x sqlite_db \<Rightarrow> task_id \<Rightarrow> run list res" where
  "sq_list_runs L s i =
     map_res (run_from_dict L)
       (filter (\<lambda>d. dget d ''task_id'' = JStr (task_val i)) (map snd (sq_runs s)))"

definition sq_save_approval :: "approval_request \<Rightarrow> 'x sqlite_db \<Rightarrow> 'x sqlite_db" where
  "sq_save_approval a s =
     s\<lparr>sq_approvals := AList.update (approval_val (ap_id a)) (approval_to_dict a) (sq_approvals s)\<rparr>"

definition sq_get_approval :: "pylib \<Rightarrow> 'x sqlite_db \<Rightarrow> approval_id \<Rightarrow> approval_request res" where
  "sq_get_approval L s i = bind_res (sq_get (sq_approvals s) (approval_val i)) (approval_from_dict L)"

text \<open>Rows are parsed one by one until the first match.\<close>

fun find_parsed :: "(dict \<Rightarrow> 'a res) \<Rightarrow> ('a \<Rightarrow> bool) \<Rightarrow> dict list \<Rightarrow> 'a option res" where
  "find_parsed f P [] = Inr None"
| "find_parsed f P (d # ds) =
     bind_res (f d) (\<lambda>x. if P x then Inr (Some x) else find_parsed f P ds)"

definition sq_find_pending_approval :: "pylib \<Rightarrow> 'x sqlite_db \<Rightarrow> run_id \<Rightarrow> approval_request option res" where
  "sq_find_pending_approval L s i =
     find_parsed (approval_from_dict L) (is_pending_for i) (map snd (sq_approvals s))"

definition sq_last_event_sequence :: "'x sqlite_db \<Rightarrow> run_id \<Rightarrow> int" where
  "sq_last_event_sequence s i =
     fold max (map (\<lambda>(_, n, _). n) (filter (\<lambda>(k, _, _). k = run_val i) (sq_events s))) 0"

definition sq_append_event :: "run_id \<Rightarrow> event \<Rightarrow> 'x sqlite_db \<Rightarrow> event \<times> 'x sqlite_db" where
  "sq_append_event i e s =
     (let e' = e\<lparr>e_seq := sq_last_event_sequence s i + 1\<rparr>
      in (e', s\<lparr>sq_events := sq_events s @ [(run_val i, e_seq e', event_to_dict e')]\<rparr>))"

text \<open>SQL's \<^verbatim>\<open>LIMIT n\<close>: a negative \<open>n\<close> is no limit.\<close>

definition sq_list_events :: "pylib \<Rightarrow> 'x sqlite_db \<Rightarrow> run_id \<Rightarrow> int \<Rightarrow> int \<Rightarrow> event list res" where
  "sq_list_events L s i cursor page_size =
     (let rows = sort_key (\<lambda>(_, n, _). n)
            (filter (\<lambda>(k, n, _). k = run_val i \<and> cursor < n) (sq_events s))
      in map_res (\<lambda>(_, _, d). event_from_dict L d)
           (if page_size < 0 then rows else take (nat page_size) rows))"

definition sq_find_operation :: "(operation \<Rightarrow> bool) \<Rightarrow> 'x sqlite_db \<Rightarrow> operation option" where
  "sq_find_operation P s = find P (sq_operations s)"

definition sq_find_operation_by_key :: "'x sqlite_db \<Rightarrow> op_key \<Rightarrow> operation option" where
  "sq_find_operation_by_key s k = sq_find_operation (\<lambda>p. idempotency_key p = k) s"

definition sq_find_idempotent_operation :: "'x sqlite_db \<Rightarrow> operation \<Rightarrow> operation option" where
  "sq_find_idempotent_operation s p = sq_find_operation_by_key s (idempotency_key p)"

definition sq_find_operation_for_run :: "'x sqlite_db \<Rightarrow> run_id \<Rightarrow> operation option" where
  "sq_find_operation_for_run s i = sq_find_operation (operation_for i) s"

definition sq_get_operation :: "'x sqlite_db \<Rightarrow> operation_id \<Rightarrow> operation res" where
  "sq_get_operation s i =
     (case sq_find_operation (\<lambda>p. operation_val (o_id p) = operation_val i) s of
        None \<Rightarrow> raise ''NOT_FOUND'' | Some p \<Rightarrow> Inr p)"

text \<open>\<^verbatim>\<open>UPDATE operations SET status, task_id, run_id WHERE id\<close>: nothing for an unknown id.\<close>

definition sq_save_operation :: "operation \<Rightarrow> 'x sqlite_db \<Rightarrow> 'x sqlite_db" where
  "sq_save_operation p s =
     s\<lparr>sq_operations := map (\<lambda>q. if o_id q = o_id p
          then q\<lparr>o_status := o_status p, o_task_id := o_task_id p, o_run_id := o_run_id p\<rparr> else q)
        (sq_operations s)\<rparr>"

definition sq_save_session :: "session_binding \<Rightarrow> 'x sqlite_db \<Rightarrow> 'x sqlite_db" where
  "sq_save_session b s =
     s\<lparr>sq_sessions := AList.update (conv_val (s_conversation_id b)) (session_to_dict b) (sq_sessions s)\<rparr>"

definition sq_get_session :: "pylib \<Rightarrow> 'x sqlite_db \<Rightarrow> conversation_id \<Rightarrow> session_binding res" where
  "sq_get_session L s i =
     bind_res (lookup_or (not_found ''conversation_id'' (conv_val i)) (sq_sessions s) (conv_val i))
       (session_from_dict L)"

definition sq_find_session_by_native ::
  "pylib \<Rightarrow> 'x sqlite_db \<Rightarrow> string \<Rightarrow> string \<Rightarrow> session_binding option res" where
  "sq_find_session_by_native L s backend native =
     find_parsed (session_from_dict L) (is_native_session backend native) (map snd (sq_sessions s))"

text \<open>
  \<^verbatim>\<open>SELECT id FROM tasks\<close> names no order; SQLite answers it from the index of the key, so the ids
  come in ascending order and not in the order of the insertions.
\<close>

definition sq_list_task_ids :: "'x sqlite_db \<Rightarrow> task_id list" where
  "sq_list_task_ids s = map TaskId (sort (map fst (sq_tasks s)))"

definition CHECKPOINT_NS :: string where "CHECKPOINT_NS = ''asterun_checkpoint_v1''"

definition sq_put_blob :: "(string \<Rightarrow> string) \<Rightarrow> string \<Rightarrow> 'x sqlite_db \<Rightarrow> (string \<times> 'x sqlite_db) res" where
  "sq_put_blob sha content s =
     bind_res (cs_put_blob sha CHECKPOINT_NS content (sq_control s))
       (\<lambda>(d, c). Inr (d, s\<lparr>sq_control := c\<rparr>))"

definition sq_get_blob :: "(string \<Rightarrow> string) \<Rightarrow> 'x sqlite_db \<Rightarrow> string \<Rightarrow> string res" where
  "sq_get_blob sha s d = cs_get_blob sha CHECKPOINT_NS d (sq_control s)"

definition sq_view :: "pylib \<Rightarrow> 'x sqlite_db \<Rightarrow> store_view" where
  "sq_view L s = \<lparr>sv_task = sq_get_task L s, sv_run = sq_get_run L s,
     sv_pending = sq_find_pending_approval L s,
     sv_operation = (\<lambda>i. Inr (sq_find_operation_for_run s i)),
     sv_last_seq = sq_last_event_sequence s\<rparr>"

definition sq_save_payload_manifest ::
  "pylib \<Rightarrow> 'x sq_hooks \<Rightarrow> run_id \<Rightarrow> string \<Rightarrow> json \<Rightarrow> 'x sqlite_db \<Rightarrow> 'x sqlite_db res" where
  "sq_save_payload_manifest L hooks i scope manifest s =
     bind_res (sq_get_run L s i) (\<lambda>r.
     bind_res (save_manifest scope manifest r) (\<lambda>r'. sq_save_run hooks r' s))"

definition sq_commit_handoff ::
  "pylib \<Rightarrow> (json \<Rightarrow> string) \<Rightarrow> (string \<Rightarrow> string) \<Rightarrow> task \<Rightarrow> run \<Rightarrow> json \<Rightarrow> int \<Rightarrow> string \<Rightarrow>
   'x sqlite_db \<Rightarrow> (dict \<times> 'x sqlite_db) res" where
  "sq_commit_handoff L H sha t r expected revision content s =
     bind_res (handoff_expected H (sq_view L s) t r expected revision) (\<lambda>current.
     bind_res (sq_put_blob sha content s) (\<lambda>(d, s1).
     let ref = handoff_reference revision d
     in Inr (ref, sq_save_task (current\<lparr>t_handoff_snapshot := JObj ref\<rparr>) s1)))"

text \<open>
  The body of \<^verbatim>\<open>commit_intent\<close>'s transaction. A violated key of the two plain inserts
  surfaces as \<^verbatim>\<open>INTENT_PERSIST_FAILED\<close>; any exception rolls everything back.
\<close>

definition sq_commit_new ::
  "'x sq_hooks \<Rightarrow> operation \<Rightarrow> task \<Rightarrow> run \<Rightarrow> session_binding option \<Rightarrow> 'x sqlite_db \<Rightarrow>
   (intent \<times> 'x sqlite_db) res" where
  "sq_commit_new hooks p t r session s =
     (let p' = intended p t r in
      if list_ex (\<lambda>q. o_id q = o_id p' \<or> idempotency_key q = idempotency_key p') (sq_operations s)
         \<or> map_of (sq_runs s) (run_val (r_id r)) \<noteq> None
      then raise ''INTENT_PERSIST_FAILED''
      else
        bind_res (intent_hook hooks p' t r session (sq_ext s)) (\<lambda>x.
        let s1 = s\<lparr>sq_operations := sq_operations s @ [p'],
                   sq_tasks := AList.update (task_val (t_id t)) (task_to_dict t) (sq_tasks s),
                   sq_runs := sq_runs s @ [(run_val (r_id r), run_to_dict r)],
                   sq_ext := x\<rparr>
        in Inr ((p', t, r, False), case session of None \<Rightarrow> s1 | Some b \<Rightarrow> sq_save_session b s1)))"

definition sq_commit_intent ::
  "pylib \<Rightarrow> (json \<Rightarrow> string) \<Rightarrow> 'x sq_hooks \<Rightarrow> operation \<Rightarrow> task \<Rightarrow> run \<Rightarrow> session_binding option \<Rightarrow>
   'x sqlite_db \<Rightarrow> intent res \<times> 'x sqlite_db" where
  "sq_commit_intent L H hooks p t r session s =
     (if sq_fail_next_intent s then
        (raise ''INTENT_PERSIST_FAILED'', s\<lparr>sq_fail_next_intent := False\<rparr>)
      else
        case sq_find_operation_by_key s (idempotency_key p) of
          Some existing \<Rightarrow>
            (if o_input_hash existing \<noteq> o_input_hash p then idempotency_conflict p
             else
               bind_res (sq_get_operation s (o_id existing)) (\<lambda>found.
               case (o_task_id found, o_run_id found) of
                 (Some ti, Some ri) \<Rightarrow>
                   bind_res (sq_get_task L s ti) (\<lambda>t'. bind_res (sq_get_run L s ri) (\<lambda>r'.
                     Inr (found, t', r', True)))
               | _ \<Rightarrow> raise ''NOT_FOUND''), s)
        | None \<Rightarrow>
            (case bind_res (transition_cas H (sq_view L s) t r)
                    (\<lambda>_. sq_commit_new hooks p t r session s) of
               Inl e \<Rightarrow> (Inl e, s)
             | Inr (x, s') \<Rightarrow> (Inr x, s')))"

definition sq_bootstrap_applied_revision :: "int \<Rightarrow> 'x sqlite_db \<Rightarrow> int \<times> 'x sqlite_db" where
  "sq_bootstrap_applied_revision revision s =
     (case sq_applied s of
        None \<Rightarrow> (revision, s\<lparr>sq_applied := Some revision\<rparr>)
      | Some n \<Rightarrow> (n, s))"

definition sq_cas_apply_revision :: "int \<Rightarrow> int \<Rightarrow> 'x sqlite_db \<Rightarrow> (int \<times> 'x sqlite_db) res" where
  "sq_cas_apply_revision expected new s =
     (case sq_applied s of
        None \<Rightarrow> raise ''REVISION_CONFLICT''
      | Some current \<Rightarrow>
          if current \<noteq> expected then revision_conflict expected current new
          else Inr (new, s\<lparr>sq_applied := Some new\<rparr>))"

end
