(* ===== verification/Store_Refinement.thy ===== *)
theory Store_Refinement
  imports Stores
begin

text \<open>
  The SQLite store refines the memory store: whatever sequence of writes the application
  makes, both stores answer alike. The link is one relation per table, stated once for any
  table of coded values (locale \<open>coded_table\<close>) and interpreted on tasks, runs, approvals and
  sessions. Two answers agree when they are the same value or exceptions with the same code.
\<close>

section \<open>Agreement of answers\<close>

fun exn_code :: "exn \<Rightarrow> exn" where
  "exn_code (AsterunError c d) = AsterunError c []"
| "exn_code e = e"

definition agree :: "'a res \<Rightarrow> 'a res \<Rightarrow> bool" where
  "agree r r' \<longleftrightarrow> (case (r, r') of
     (Inr x, Inr y) \<Rightarrow> x = y | (Inl e, Inl e') \<Rightarrow> exn_code e = exn_code e' | _ \<Rightarrow> False)"

lemma agree_refl [simp]: "agree r r"
  by (simp add: agree_def split: sum.splits)

lemma agree_Inr [simp]: "agree r (Inr x) \<longleftrightarrow> r = Inr x" "agree (Inr x) r \<longleftrightarrow> r = Inr x"
  by (auto simp: agree_def split: sum.splits)

lemma agree_not_found [simp]: "agree (not_found k v) (not_found k' v')"
  by (simp add: agree_def not_found_def)

lemma agree_bind: "agree r r' \<Longrightarrow> (\<And>x. agree (f x) (g x)) \<Longrightarrow> agree (bind_res r f) (bind_res r' g)"
  by (cases r; cases r') (auto simp: agree_def)

lemma agree_if: "agree a b \<Longrightarrow> agree c d \<Longrightarrow> agree (if P then a else c) (if P then b else d)"
  by simp

section \<open>Tables of coded values\<close>

definition encode_table :: "('a \<Rightarrow> dict) \<Rightarrow> (string \<times> 'a) list \<Rightarrow> (string \<times> dict) list" where
  "encode_table enc xs = map (\<lambda>(k, v). (k, enc v)) xs"

locale coded_table =
  fixes enc :: "'a \<Rightarrow> dict"
    and dec :: "dict \<Rightarrow> 'a res"
    and ok :: "'a \<Rightarrow> bool"
    and key :: "'a \<Rightarrow> string"
  assumes dec_enc: "ok v \<Longrightarrow> dec (enc v) = Inr v"
begin

definition table_ok :: "(string \<times> 'a) list \<Rightarrow> bool" where
  "table_ok xs \<longleftrightarrow> distinct (map fst xs) \<and> (\<forall>(k, v) \<in> set xs. k = key v \<and> ok v)"

lemma table_ok_update: "table_ok xs \<Longrightarrow> ok v \<Longrightarrow> table_ok (AList.update (key v) v xs)"
  unfolding table_ok_def
proof (intro conjI ballI)
  assume xs: "distinct (map fst xs) \<and> (\<forall>(k, v) \<in> set xs. k = key v \<and> ok v)" and v: "ok v"
  then show "distinct (map fst (AList.update (key v) v xs))" by (simp add: distinct_update)
  show "case p of (k, w) \<Rightarrow> k = key w \<and> ok w" if "p \<in> set (AList.update (key v) v xs)" for p
    using that xs v by (induction xs) (auto split: if_splits)
qed

lemma encode_update: "encode_table enc (AList.update k v xs) = AList.update k (enc v) (encode_table enc xs)"
  by (induction xs) (auto simp: encode_table_def)

lemma lookup_decoded:
  "table_ok xs \<Longrightarrow>
   bind_res (lookup_or e (encode_table enc xs) k) dec =
     (case map_of xs k of None \<Rightarrow> bind_res e dec | Some v \<Rightarrow> Inr v)"
  by (auto simp: table_ok_def encode_table_def lookup_or_def map_of_map dest!: map_of_SomeD
      intro: dec_enc split: option.splits)

lemma lookup_agrees:
  assumes "table_ok xs"
  shows "agree (bind_res (lookup_or (not_found a b) (encode_table enc xs) k) dec)
     (lookup_or (not_found a' b') xs k)"
  unfolding lookup_decoded [OF assms]
  by (simp add: lookup_or_def not_found_def agree_def split: option.splits)

lemma find_decoded:
  "table_ok xs \<Longrightarrow> find_parsed dec P (map snd (encode_table enc xs)) = Inr (find P (map snd xs))"
proof (induction xs)
  case (Cons p xs)
  then show ?case by (cases p) (auto simp: table_ok_def encode_table_def dec_enc)
qed (simp add: encode_table_def)

lemma filter_decoded:
  assumes "table_ok xs" and "\<And>v. ok v \<Longrightarrow> Q (enc v) = P v"
  shows "map_res dec (filter Q (map snd (encode_table enc xs))) = Inr (filter P (map snd xs))"
  using assms(1)
proof (induction xs)
  case (Cons p xs)
  then show ?case using assms(2) by (cases p) (auto simp: table_ok_def encode_table_def dec_enc)
qed (simp add: encode_table_def)

lemma table_ok_append:
  "table_ok xs \<Longrightarrow> ok v \<Longrightarrow> map_of xs (key v) = None \<Longrightarrow> table_ok (xs @ [(key v, v)])"
  by (auto simp: table_ok_def map_of_eq_None_iff)

lemma table_ok_Nil: "table_ok []"
  by (simp add: table_ok_def)

end

interpretation tasks: coded_table task_to_dict "task_from_dict L" wf_task "\<lambda>t. task_val (t_id t)" for L
  by unfold_locales (rule task_roundtrip)

interpretation runs: coded_table run_to_dict "run_from_dict L" wf_run "\<lambda>r. run_val (r_id r)" for L
  by unfold_locales (rule run_roundtrip)

interpretation approvals: coded_table approval_to_dict "approval_from_dict L" wf_approval
  "\<lambda>a. approval_val (ap_id a)" for L
  by unfold_locales (rule approval_roundtrip)

interpretation sessions: coded_table session_to_dict "session_from_dict L" wf_session
  "\<lambda>b. conv_val (s_conversation_id b)" for L
  by unfold_locales (rule session_roundtrip)

lemma encode_append: "encode_table enc (xs @ ys) = encode_table enc xs @ encode_table enc ys"
  by (simp add: encode_table_def)

section \<open>The relation between the stores\<close>

definition rows_of :: "'x sqlite_db \<Rightarrow> string \<Rightarrow> (int \<times> dict) list" where
  "rows_of s k = map snd (filter (\<lambda>e. fst e = k) (sq_events s))"

definition ops_ok :: "(string \<times> operation) list \<Rightarrow> bool" where
  "ops_ok xs \<longleftrightarrow> distinct (map fst xs) \<and> (\<forall>(k, p) \<in> set xs. k = operation_val (o_id p))"

definition store_sim :: "'x sqlite_db \<Rightarrow> mem_store \<Rightarrow> bool" where
  "store_sim s m \<longleftrightarrow>
     sq_tasks s = encode_table task_to_dict (ms_tasks m) \<and> tasks.table_ok (ms_tasks m)
   \<and> sq_runs s = encode_table run_to_dict (ms_runs m) \<and> runs.table_ok (ms_runs m)
   \<and> sq_approvals s = encode_table approval_to_dict (ms_approvals m) \<and> approvals.table_ok (ms_approvals m)
   \<and> sq_sessions s = encode_table session_to_dict (ms_sessions m) \<and> sessions.table_ok (ms_sessions m)
   \<and> sq_operations s = map snd (ms_operations m) \<and> ops_ok (ms_operations m)
   \<and> distinct (map (\<lambda>e. idempotency_key (snd e)) (ms_operations m))
   \<and> (\<forall>k. map_of (ms_ops_by_key m) k = find (\<lambda>p. idempotency_key p = k) (sq_operations s))
   \<and> (\<forall>k. rows_of s k = map (\<lambda>e. (e_seq e, event_to_dict e)) (ms_bucket m k)
        \<and> map e_seq (ms_bucket m k) = [1..int (length (ms_bucket m k))])
   \<and> sq_applied s = ms_applied m
   \<and> sq_fail_next_intent s = ms_fail_next_intent m"

section \<open>Reads agree\<close>

lemmas agree_lookup =
  tasks.lookup_agrees runs.lookup_agrees approvals.lookup_agrees sessions.lookup_agrees

lemma sim_get:
  assumes "store_sim s m"
  shows "agree (sq_get_task L s t) (ms_get_task m t)"
    and "agree (sq_get_run L s r) (ms_get_run m r)"
    and "agree (sq_get_approval L s a) (ms_get_approval m a)"
    and "agree (sq_get_session L s c) (ms_get_session m c)"
  using assms by (simp_all add: store_sim_def sq_get_task_def ms_get_task_def sq_get_run_def ms_get_run_def
      sq_get_approval_def ms_get_approval_def sq_get_session_def ms_get_session_def sq_get_def agree_lookup)

lemma dget_run_task: "dget (run_to_dict r) ''task_id'' = JStr (task_val (r_task_id r))"
  by (simp add: run_to_dict_def dict_simps)

lemma insort_key_map: "insort_key f (g x) (map g xs) = map g (insort_key (f \<circ> g) x xs)"
  by (induction xs) auto

lemma sort_key_map: "sort_key f (map g xs) = map g (sort_key (f \<circ> g) xs)"
  by (induction xs) (simp_all add: insort_key_map comp_def)

lemma sim_find:
  assumes "store_sim s m"
  shows "sq_find_pending_approval L s r = Inr (ms_find_pending_approval m r)"
    and "sq_find_session_by_native L s b n = Inr (ms_find_session_by_native m b n)"
    and "sq_find_operation_for_run s r = ms_find_operation_for_run m r"
    and "sq_find_operation_by_key s k = ms_find_operation_by_key m k"
    and "sq_list_runs L s t = Inr (ms_list_runs m t)"
    and "sq_list_task_ids s = sort_key task_val (ms_list_task_ids m)"
proof -
  show "sq_list_runs L s t = Inr (ms_list_runs m t)"
    unfolding sq_list_runs_def ms_list_runs_def
    using assms by (simp add: store_sim_def runs.filter_decoded dget_run_task)
  show "sq_find_operation_by_key s k = ms_find_operation_by_key m k"
    using assms unfolding store_sim_def sq_find_operation_by_key_def sq_find_operation_def
      ms_find_operation_by_key_def by metis
  have "map fst (sq_tasks s) = map fst (ms_tasks m)"
    using assms by (auto simp: store_sim_def encode_table_def)
  then show "sq_list_task_ids s = sort_key task_val (ms_list_task_ids m)"
    using sort_key_map [of "\<lambda>k. k" fst "ms_tasks m"] sort_key_map [of task_val "TaskId \<circ> fst" "ms_tasks m"]
    by (simp add: sq_list_task_ids_def ms_list_task_ids_def comp_def)
qed (use assms in \<open>simp_all add: store_sim_def sq_find_pending_approval_def ms_find_pending_approval_def
      sq_find_session_by_native_def ms_find_session_by_native_def sq_find_operation_for_run_def
      ms_find_operation_for_run_def sq_find_operation_def approvals.find_decoded sessions.find_decoded\<close>)

lemma ops_ok_lookup:
  "ops_ok xs \<Longrightarrow> find (\<lambda>p. operation_val (o_id p) = k) (map snd xs) = map_of xs k"
  by (induction xs) (auto simp: ops_ok_def)

lemma sim_operation:
  assumes "store_sim s m"
  shows "agree (sq_get_operation s i) (ms_get_operation m i)"
proof -
  have "find (\<lambda>p. operation_val (o_id p) = operation_val i) (sq_operations s)
      = map_of (ms_operations m) (operation_val i)"
    using assms ops_ok_lookup [of "ms_operations m" "operation_val i"]
    by (simp only: store_sim_def)
  then show ?thesis
    by (auto simp: sq_get_operation_def sq_find_operation_def ms_get_operation_def lookup_or_def not_found_def agree_def
        split: option.splits)
qed

text \<open>The events of a run are stored in the order of their numbers, so the sorted page is a prefix.\<close>

lemma sim_events:
  assumes "store_sim s m" "0 \<le> page_size"
  shows "sq_list_events L s i cursor page_size = Inr (ms_list_events m i cursor page_size)"
proof -
  let ?b = "ms_bucket m (run_val i)"
  let ?rows = "filter (\<lambda>(k, n, _). k = run_val i \<and> cursor < n) (sq_events s)"
  have rows: "rows_of s (run_val i) = map (\<lambda>e. (e_seq e, event_to_dict e)) ?b"
    and seqs: "map e_seq ?b = [1..int (length ?b)]"
    using assms(1) by (simp_all add: store_sim_def del: split_paired_All)
  have "map snd ?rows = filter (\<lambda>(n, _). cursor < n) (rows_of s (run_val i))"
    unfolding rows_of_def by (induction "sq_events s" rule: list.induct) (auto simp: filter_map comp_def split_beta)
  then have page: "map snd ?rows = map (\<lambda>e. (e_seq e, event_to_dict e)) (filter (\<lambda>e. cursor < e_seq e) ?b)"
    by (simp add: rows filter_map comp_def)
  have "sorted (map e_seq ?b)" by (simp add: seqs)
  then have "sorted (map e_seq (filter (\<lambda>e. cursor < e_seq e) ?b))" by (rule sorted_filter)
  also have "map e_seq (filter (\<lambda>e. cursor < e_seq e) ?b) = map fst (map snd ?rows)"
    unfolding page by simp
  also have "map fst (map snd ?rows) = map (\<lambda>(_, n, _). n) ?rows"
    by (simp add: split_beta comp_def del: filter.simps)
  finally have "sort_key (\<lambda>(_, n, _). n) ?rows = ?rows"
    by (rule sort_key_id_if_sorted)
  moreover have "map_res (\<lambda>(_, _, d). event_from_dict L d) xs = Inr es"
    if "map snd xs = map (\<lambda>e. (e_seq e, event_to_dict e)) es" for xs :: "(string \<times> int \<times> dict) list" and es
    using that by (induction xs arbitrary: es) (auto simp: event_roundtrip)
  moreover have "map snd (take n ?rows) = map (\<lambda>e. (e_seq e, event_to_dict e))
      (take n (filter (\<lambda>e. cursor < e_seq e) ?b))" for n
    using page by (simp add: take_map flip: take_map)
  ultimately show ?thesis
    using assms(2) by (simp add: sq_list_events_def ms_list_events_def py_prefix_def Let_def)
qed

section \<open>The guard sees the same state\<close>

lemma fold_max_upto: "0 \<le> a \<Longrightarrow> fold max [a + 1..a + int n] a = a + int n"
proof (induction n arbitrary: a)
  case (Suc n)
  have "[a + 1..a + int (Suc n)] = (a + 1) # [a + 1 + 1..a + 1 + int n]"
    by (subst upto_rec1) (simp_all add: algebra_simps)
  with Suc.IH [of "a + 1"] Suc.prems show ?case by (simp add: max_def)
qed simp

lemma last_upto: "xs \<noteq> [] \<Longrightarrow> map f xs = [1..int (length xs)] \<Longrightarrow> f (last xs) = int (length xs)"
proof -
  assume "xs \<noteq> []" and m: "map f xs = [1..int (length xs)]"
  then have "f (last xs) = last [1..int (length xs)]" by (metis last_map)
  also have "\<dots> = int (length xs)"
  proof -
    have "1 \<le> int (length xs)" using \<open>xs \<noteq> []\<close> by (cases xs) simp_all
    then show ?thesis by (simp add: upto_rec2)
  qed
  finally show ?thesis .
qed

lemma sim_last_seq:
  assumes "store_sim s m"
  shows "sq_last_event_sequence s i = int (length (ms_bucket m (run_val i)))"
    and "ms_last_event_sequence m i = int (length (ms_bucket m (run_val i)))"
proof -
  let ?b = "ms_bucket m (run_val i)"
  have rows: "rows_of s (run_val i) = map (\<lambda>e. (e_seq e, event_to_dict e)) ?b"
    and seqs: "map e_seq ?b = [1..int (length ?b)]"
    using assms by (simp_all add: store_sim_def)
  have "map (\<lambda>(_, n, _). n) (filter (\<lambda>(k, _, _). k = run_val i) (sq_events s)) = map fst (rows_of s (run_val i))"
    by (simp add: rows_of_def case_prod_unfold comp_def)
  also have "\<dots> = [1..int (length ?b)]" using rows seqs by (simp add: comp_def)
  finally show "sq_last_event_sequence s i = int (length ?b)"
    using fold_max_upto [of 0 "length ?b"] by (simp add: sq_last_event_sequence_def)
  show "ms_last_event_sequence m i = int (length ?b)"
    using last_upto [OF _ seqs] by (auto simp: ms_last_event_sequence_def Let_def)
qed

lemma view_simps:
  "sv_task (sq_view L s) = sq_get_task L s" "sv_task (ms_view m) = ms_get_task m"
  "sv_run (sq_view L s) = sq_get_run L s" "sv_run (ms_view m) = ms_get_run m"
  by (simp_all add: sq_view_def ms_view_def)

lemma sim_state:
  assumes "store_sim s m"
  shows "handoff_state H (sq_view L s) t r = handoff_state H (ms_view m) t r"
  by (simp add: handoff_state_def sq_view_def ms_view_def sim_find [OF assms] sim_last_seq [OF assms])

lemma sim_cas:
  assumes "store_sim s m"
  shows "agree (transition_cas H (sq_view L s) t r) (transition_cas H (ms_view m) t r)"
  unfolding transition_cas_def Let_def
  by (auto simp: sim_state [OF assms] view_simps sim_get [OF assms]
      intro!: agree_bind split: option.splits)

section \<open>Writes agree\<close>

datatype store_cmd =
    Save_task task | Save_run run | Save_approval approval_request | Save_session session_binding
  | Append_event run_id event | Commit_intent operation task run "session_binding option"
  | Save_operation operation | Bootstrap_revision int | Cas_revision int int

datatype store_out = Saved | Appended event | Committed intent | Revision int

fun sq_exec ::
  "pylib \<Rightarrow> (json \<Rightarrow> string) \<Rightarrow> 'x sq_hooks \<Rightarrow> store_cmd \<Rightarrow> 'x sqlite_db \<Rightarrow> store_out res \<times> 'x sqlite_db" where
  "sq_exec L H hooks (Save_task t) s = (Inr Saved, sq_save_task t s)"
| "sq_exec L H hooks (Save_run r) s =
     (case sq_save_run hooks r s of Inl e \<Rightarrow> (Inl e, s) | Inr s' \<Rightarrow> (Inr Saved, s'))"
| "sq_exec L H hooks (Save_approval a) s = (Inr Saved, sq_save_approval a s)"
| "sq_exec L H hooks (Save_session b) s = (Inr Saved, sq_save_session b s)"
| "sq_exec L H hooks (Append_event i e) s = (let (e', s') = sq_append_event i e s in (Inr (Appended e'), s'))"
| "sq_exec L H hooks (Commit_intent p t r b) s =
     (let (x, s') = sq_commit_intent L H hooks p t r b s in (map_sum id Committed x, s'))"
| "sq_exec L H hooks (Save_operation p) s = (Inr Saved, sq_save_operation p s)"
| "sq_exec L H hooks (Bootstrap_revision n) s =
     (let (k, s') = sq_bootstrap_applied_revision n s in (Inr (Revision k), s'))"
| "sq_exec L H hooks (Cas_revision a b) s =
     (case sq_cas_apply_revision a b s of Inl e \<Rightarrow> (Inl e, s) | Inr (k, s') \<Rightarrow> (Inr (Revision k), s'))"

fun ms_exec :: "(json \<Rightarrow> string) \<Rightarrow> store_cmd \<Rightarrow> mem_store \<Rightarrow> store_out res \<times> mem_store" where
  "ms_exec H (Save_task t) m = (Inr Saved, ms_save_task t m)"
| "ms_exec H (Save_run r) m = (Inr Saved, ms_save_run r m)"
| "ms_exec H (Save_approval a) m = (Inr Saved, ms_save_approval a m)"
| "ms_exec H (Save_session b) m = (Inr Saved, ms_save_session b m)"
| "ms_exec H (Append_event i e) m = (let (e', m') = ms_append_event i e m in (Inr (Appended e'), m'))"
| "ms_exec H (Commit_intent p t r b) m =
     (let (x, m') = ms_commit_intent H p t r b m in (map_sum id Committed x, m'))"
| "ms_exec H (Save_operation p) m = (Inr Saved, ms_save_operation p m)"
| "ms_exec H (Bootstrap_revision n) m =
     (let (k, m') = ms_bootstrap_applied_revision n m in (Inr (Revision k), m'))"
| "ms_exec H (Cas_revision a b) m =
     (case ms_cas_apply_revision a b m of Inl e \<Rightarrow> (Inl e, m) | Inr (k, m') \<Rightarrow> (Inr (Revision k), m'))"

text \<open>
  The hooks accept everything. A committed run and operation have new ids, as the
  application mints them, and only a committed operation is saved again, with another
  status or other references.
\<close>

definition hooks_quiet :: "'x sq_hooks \<Rightarrow> bool" where
  "hooks_quiet h \<longleftrightarrow> (\<forall>p t r b x. \<exists>y. intent_hook h p t r b x = Inr y)
     \<and> (\<forall>r x. (\<exists>y. run_hook h r x = Inr y) \<and> (\<exists>y. quota_hook h r x = Inr y))"

fun cmd_ok :: "mem_store \<Rightarrow> store_cmd \<Rightarrow> bool" where
  "cmd_ok m (Save_task t) = wf_task t"
| "cmd_ok m (Save_run r) = wf_run r"
| "cmd_ok m (Save_approval a) = wf_approval a"
| "cmd_ok m (Save_session b) = wf_session b"
| "cmd_ok m (Append_event i e) = True"
| "cmd_ok m (Commit_intent p t r b) =
     (wf_task t \<and> wf_run r \<and> (case b of None \<Rightarrow> True | Some b \<Rightarrow> wf_session b)
      \<and> (map_of (ms_ops_by_key m) (idempotency_key p) = None \<longrightarrow>
           map_of (ms_runs m) (run_val (r_id r)) = None
         \<and> map_of (ms_operations m) (operation_val (o_id p)) = None))"
| "cmd_ok m (Save_operation p) =
     (case map_of (ms_operations m) (operation_val (o_id p)) of
        None \<Rightarrow> False
      | Some q \<Rightarrow> p = q\<lparr>o_status := o_status p, o_task_id := o_task_id p, o_run_id := o_run_id p\<rparr>)"
| "cmd_ok m (Bootstrap_revision n) = True"
| "cmd_ok m (Cas_revision a b) = True"

lemma sim_save_simple:
  assumes "store_sim s m"
  shows "wf_task t \<Longrightarrow> store_sim (sq_save_task t s) (ms_save_task t m)"
    and "wf_approval a \<Longrightarrow> store_sim (sq_save_approval a s) (ms_save_approval a m)"
    and "wf_session b \<Longrightarrow> store_sim (sq_save_session b s) (ms_save_session b m)"
    and "wf_run r \<Longrightarrow> store_sim (s\<lparr>sq_runs := AList.update (run_val (r_id r)) (run_to_dict r) (sq_runs s),
           sq_ext := x\<rparr>) (ms_save_run r m)"
  using assms
  by (simp_all add: store_sim_def sq_save_task_def ms_save_task_def sq_save_approval_def ms_save_approval_def
      sq_save_session_def ms_save_session_def ms_save_run_def rows_of_def ms_bucket_def
      tasks.encode_update tasks.table_ok_update runs.encode_update runs.table_ok_update
      approvals.encode_update approvals.table_ok_update sessions.encode_update sessions.table_ok_update
      del: split_paired_All)

lemma sim_append_event:
  assumes "store_sim s m"
  shows "fst (sq_append_event i e s) = fst (ms_append_event i e m)"
    and "store_sim (snd (sq_append_event i e s)) (snd (ms_append_event i e m))"
proof -
  let ?b = "ms_bucket m (run_val i)"
  note last = sim_last_seq(1) [OF assms, of i]
  then show "fst (sq_append_event i e s) = fst (ms_append_event i e m)"
    by (simp add: sq_append_event_def ms_append_event_def Let_def)
  let ?s = "snd (sq_append_event i e s)" and ?m = "snd (ms_append_event i e m)"
  have bucket: "ms_bucket ?m k = (if k = run_val i then ?b @ [e\<lparr>e_seq := int (length ?b) + 1\<rparr>] else ms_bucket m k)" for k
    by (simp add: ms_append_event_def Let_def ms_bucket_def update_conv')
  have rows: "rows_of ?s k = (if k = run_val i then rows_of s k @
      [(int (length ?b) + 1, event_to_dict (e\<lparr>e_seq := int (length ?b) + 1\<rparr>))] else rows_of s k)" for k
    using last by (simp add: sq_append_event_def Let_def rows_of_def)
  have "rows_of ?s k = map (\<lambda>e. (e_seq e, event_to_dict e)) (ms_bucket ?m k)
      \<and> map e_seq (ms_bucket ?m k) = [1..int (length (ms_bucket ?m k))]" for k
    using assms unfolding bucket rows by (auto simp: store_sim_def upto_rec2)
  then show "store_sim ?s ?m"
    using assms by (simp add: store_sim_def sq_append_event_def ms_append_event_def Let_def
        del: split_paired_All)
qed

lemma intended_fields [simp]:
  "idempotency_key (intended p t r) = idempotency_key p" "o_id (intended p t r) = o_id p"
  by (simp_all add: intended_def idempotency_key_def)

lemma find_key_None: "find P xs = None \<longleftrightarrow> \<not> list_ex P xs"
  by (induction xs) auto

lemma sim_commit_fresh:
  assumes sim: "store_sim s m" and t: "wf_task t" and r: "wf_run r"
    and new: "map_of (ms_runs m) (run_val (r_id r)) = None"
      "map_of (ms_operations m) (operation_val (o_id p)) = None"
      "map_of (ms_ops_by_key m) (idempotency_key p) = None"
  shows "store_sim
    (s\<lparr>sq_operations := sq_operations s @ [intended p t r],
       sq_tasks := AList.update (task_val (t_id t)) (task_to_dict t) (sq_tasks s),
       sq_runs := sq_runs s @ [(run_val (r_id r), run_to_dict r)], sq_ext := x\<rparr>)
    (m\<lparr>ms_operations := AList.update (operation_val (o_id p)) (intended p t r) (ms_operations m),
       ms_ops_by_key := AList.update (idempotency_key p) (intended p t r) (ms_ops_by_key m),
       ms_tasks := AList.update (task_val (t_id t)) t (ms_tasks m),
       ms_runs := AList.update (run_val (r_id r)) r (ms_runs m)\<rparr>)"
proof -
  have keys: "map_of (ms_ops_by_key m) k = find (\<lambda>p. idempotency_key p = k) (sq_operations s)" for k
    using sim by (simp add: store_sim_def del: split_paired_All)
  have "find (\<lambda>q. idempotency_key q = idempotency_key p) (sq_operations s) = None"
    using new(3) keys by metis
  then have key_new: "idempotency_key p \<notin> idempotency_key ` set (sq_operations s)"
    by (auto simp: find_key_None list_ex_iff)
  have "map_of (AList.update (idempotency_key p) (intended p t r) (ms_ops_by_key m)) k
      = find (\<lambda>p. idempotency_key p = k) (sq_operations s @ [intended p t r])" for k
    using keys [of k] new(3) by (auto simp: update_conv' find_append split: option.splits)
  moreover have "ops_ok (ms_operations m @ [(operation_val (o_id p), intended p t r)])"
    using sim new(2) by (auto simp: store_sim_def ops_ok_def map_of_eq_None_iff)
  ultimately show ?thesis
    using sim t r new key_new
    by (simp add: store_sim_def update_fresh encode_append encode_table_def [of run_to_dict "[_]"]
        runs.table_ok_append tasks.encode_update tasks.table_ok_update rows_of_def ms_bucket_def
        image_image del: split_paired_All)
qed

lemma sim_commit_new:
  assumes sim: "store_sim s m" and ok: "cmd_ok m (Commit_intent p t r b)" and quiet: "hooks_quiet hooks"
    and none: "map_of (ms_ops_by_key m) (idempotency_key p) = None"
  shows "\<exists>s'. sq_commit_new hooks p t r b s = Inr ((intended p t r, t, r, False), s')
    \<and> store_sim s' (let m1 = m\<lparr>ms_operations := AList.update (operation_val (o_id p)) (intended p t r) (ms_operations m),
          ms_ops_by_key := AList.update (idempotency_key p) (intended p t r) (ms_ops_by_key m),
          ms_tasks := AList.update (task_val (t_id t)) t (ms_tasks m),
          ms_runs := AList.update (run_val (r_id r)) r (ms_runs m)\<rparr>
        in case b of None \<Rightarrow> m1 | Some b \<Rightarrow> ms_save_session b m1)"
proof -
  from quiet obtain x where hook: "intent_hook hooks (intended p t r) t r b (sq_ext s) = Inr x"
    unfolding hooks_quiet_def by blast
  have wf: "wf_task t" "wf_run r" and new: "map_of (ms_runs m) (run_val (r_id r)) = None"
    "map_of (ms_operations m) (operation_val (o_id p)) = None"
    using ok none by simp_all
  have "find (\<lambda>q. idempotency_key q = idempotency_key p) (sq_operations s) = None"
    using sim none unfolding store_sim_def by metis
  moreover have "find (\<lambda>q. o_id q = o_id p) (sq_operations s) = None"
    using sim new(2) ops_ok_lookup [of "ms_operations m" "operation_val (o_id p)"]
    by (simp add: store_sim_def del: split_paired_All)
  ultimately have "\<not> list_ex (\<lambda>q. o_id q = o_id p \<or> idempotency_key q = idempotency_key p) (sq_operations s)"
    by (auto simp: find_key_None list_ex_iff)
  moreover have "map_of (sq_runs s) (run_val (r_id r)) = None"
    using sim new(1) by (simp add: store_sim_def encode_table_def map_of_map del: split_paired_All)
  ultimately show ?thesis
    using sim_commit_fresh [OF sim wf new none, of x] hook ok
    by (auto simp: sq_commit_new_def Let_def intro: sim_save_simple(3) split: option.splits)
qed

lemma sim_same_flag: "store_sim s m \<Longrightarrow>
   store_sim (s\<lparr>sq_fail_next_intent := False\<rparr>) (m\<lparr>ms_fail_next_intent := False\<rparr>)"
  by (simp add: store_sim_def rows_of_def ms_bucket_def del: split_paired_All)

lemma agree_conflict: "agree (idempotency_conflict p :: 'a res) (idempotency_conflict p)"
  by simp

lemma sim_commit:
  assumes sim: "store_sim s m" and ok: "cmd_ok m (Commit_intent p t r b)" and quiet: "hooks_quiet hooks"
  shows "agree (fst (sq_commit_intent L H hooks p t r b s)) (fst (ms_commit_intent H p t r b m))
    \<and> store_sim (snd (sq_commit_intent L H hooks p t r b s)) (snd (ms_commit_intent H p t r b m))"
proof (cases "ms_fail_next_intent m")
  case True
  then have "sq_fail_next_intent s" using sim by (simp add: store_sim_def)
  with True sim show ?thesis by (simp add: sq_commit_intent_def ms_commit_intent_def sim_same_flag)
next
  case False
  then have nf: "\<not> sq_fail_next_intent s" using sim by (simp add: store_sim_def)
  have same: "sq_find_operation_by_key s (idempotency_key p) = map_of (ms_ops_by_key m) (idempotency_key p)"
    using sim_find(4) [OF sim] by (simp add: ms_find_operation_by_key_def)
  show ?thesis
  proof (cases "map_of (ms_ops_by_key m) (idempotency_key p)")
    case (Some existing)
    then have "existing \<in> set (sq_operations s)"
      using same by (auto simp: sq_find_operation_by_key_def sq_find_operation_def find_Some_iff)
    moreover have "ops_ok (ms_operations m)" "sq_operations s = map snd (ms_operations m)"
      using sim by (simp_all add: store_sim_def)
    ultimately have "sq_get_operation s (o_id existing) = Inr existing"
      by (auto simp: sq_get_operation_def sq_find_operation_def ops_ok_lookup ops_ok_def
          simp del: operation_val_inject)
    then have "agree (fst (sq_commit_intent L H hooks p t r b s)) (fst (ms_commit_intent H p t r b m))"
      using Some same False nf
      by (auto simp: sq_commit_intent_def ms_commit_intent_def sim_get [OF sim]
          intro!: agree_bind split: option.splits)
    then show ?thesis using Some same False nf sim
      by (auto simp: sq_commit_intent_def ms_commit_intent_def)
  next
    case None
    note cas = sim_cas [OF sim, of H L t r]
    obtain s' where new: "sq_commit_new hooks p t r b s = Inr ((intended p t r, t, r, False), s')"
      and sim': "store_sim s' (let m1 = m\<lparr>ms_operations := AList.update (operation_val (o_id p)) (intended p t r) (ms_operations m),
          ms_ops_by_key := AList.update (idempotency_key p) (intended p t r) (ms_ops_by_key m),
          ms_tasks := AList.update (task_val (t_id t)) t (ms_tasks m),
          ms_runs := AList.update (run_val (r_id r)) r (ms_runs m)\<rparr>
        in case b of None \<Rightarrow> m1 | Some b \<Rightarrow> ms_save_session b m1)"
      using sim_commit_new [OF sim ok quiet None] by blast
    show ?thesis
    proof (cases "transition_cas H (ms_view m) t r")
      case (Inl e)
      with cas None False nf same sim show ?thesis
        by (auto simp: sq_commit_intent_def ms_commit_intent_def agree_def split: sum.splits)
    next
      case (Inr u)
      with cas None False nf same new sim' show ?thesis
        by (cases b) (simp_all add: sq_commit_intent_def ms_commit_intent_def Let_def)
    qed
  qed
qed

lemma map_if_absent: "k \<notin> fst ` set xs \<Longrightarrow> map (\<lambda>(j, v). if j = k then p else v) xs = map snd xs"
  by (induction xs) auto

lemma map_update_snd:
  assumes "distinct (map fst xs)" and "map_of xs k = Some q"
  shows "map snd (AList.update k p xs) = map (\<lambda>(j, v). if j = k then p else v) xs"
  using assms
proof (induction xs)
  case (Cons e xs)
  show ?case
  proof (cases "fst e = k")
    case True
    with Cons.prems have rest: "map (\<lambda>(j, v). if j = k then p else v) xs = map snd xs"
      by (intro map_if_absent) auto
    show ?thesis using True by (cases e) (simp add: rest)
  next
    case False
    with Cons show ?thesis by (cases e) simp
  qed
qed simp

lemma update_by_key:
  assumes "distinct (map (\<lambda>e. idempotency_key (snd e)) xs)" and "distinct (map fst xs)"
    and "(i, q) \<in> set xs" and "idempotency_key p = idempotency_key q"
  shows "find (\<lambda>p. idempotency_key p = k) (map (\<lambda>(j, v). if j = i then p else v) xs) =
     (if k = idempotency_key p then Some p else find (\<lambda>p. idempotency_key p = k) (map snd xs))"
  using assms
proof (induction xs)
  case (Cons e xs)
  show ?case
  proof (cases "e = (i, q)")
    case True
    with Cons.prems have rest: "map (\<lambda>(j, v). if j = i then p else v) xs = map snd xs"
      by (intro map_if_absent) auto
    show ?thesis using True Cons.prems by (simp add: rest)
  next
    case False
    with Cons.prems have iq: "(i, q) \<in> set xs" by auto
    then have "i \<in> fst ` set xs" "idempotency_key q \<in> (\<lambda>e. idempotency_key (snd e)) ` set xs"
      by force+
    moreover have "fst e \<notin> fst ` set xs"
      "idempotency_key (snd e) \<notin> (\<lambda>e. idempotency_key (snd e)) ` set xs"
      using Cons.prems(1,2) by simp_all
    ultimately have "fst e \<noteq> i" "idempotency_key (snd e) \<noteq> idempotency_key p"
      using Cons.prems(4) by metis+
    with Cons iq show ?thesis by (cases e) auto
  qed
qed simp

lemma sim_save_operation:
  assumes sim: "store_sim s m" and ok: "cmd_ok m (Save_operation p)"
  shows "store_sim (sq_save_operation p s) (ms_save_operation p m)"
proof -
  let ?ops = "ms_operations m" and ?i = "operation_val (o_id p)"
  from ok obtain q where q: "map_of ?ops ?i = Some q"
    and p: "p = q\<lparr>o_status := o_status p, o_task_id := o_task_id p, o_run_id := o_run_id p\<rparr>"
    by (auto split: option.splits)
  have key: "idempotency_key p = idempotency_key q" by (subst p) (simp add: idempotency_key_def)
  have dist: "distinct (map fst ?ops)" "distinct (map (\<lambda>e. idempotency_key (snd e)) ?ops)"
    and ids: "\<forall>(k, v) \<in> set ?ops. k = operation_val (o_id v)" and ops: "sq_operations s = map snd ?ops"
    using sim by (simp_all add: store_sim_def ops_ok_def)
  have uq: "v = q" if "(?i, v) \<in> set ?ops" for v
    using that q dist(1) by (metis map_of_is_SomeI option.inject)
  have upd: "(if o_id v = o_id p then v\<lparr>o_status := o_status p, o_task_id := o_task_id p, o_run_id := o_run_id p\<rparr> else v)
      = (if j = ?i then p else v)" if "(j, v) \<in> set ?ops" for j v
  proof (cases "j = ?i")
    case True
    with that q dist have "v = q" by (metis map_of_is_SomeI option.inject)
    with True that ids p show ?thesis by auto
  next
    case False
    with that ids show ?thesis by auto
  qed
  have new: "sq_operations (sq_save_operation p s) = map (\<lambda>(j, v). if j = ?i then p else v) ?ops"
  proof -
    have "(if o_id (snd e) = o_id p then (snd e)\<lparr>o_status := o_status p, o_task_id := o_task_id p, o_run_id := o_run_id p\<rparr> else snd e)
        = (case e of (j, v) \<Rightarrow> if j = ?i then p else v)" if "e \<in> set ?ops" for e
    proof (cases e)
      case (Pair j v)
      with that have "(j, v) \<in> set ?ops" by simp
      from upd [OF this] show ?thesis by (simp only: Pair fst_conv snd_conv prod.case)
    qed
    then show ?thesis by (simp add: sq_save_operation_def ops)
  qed
  have mem: "map snd (AList.update ?i p ?ops) = map (\<lambda>(j, v). if j = ?i then p else v) ?ops"
    by (rule map_update_snd [OF dist(1) q])
  have "ops_ok (AList.update ?i p ?ops)"
    using ids dist by (auto simp: ops_ok_def distinct_update dest!: map_of_is_SomeI [rotated] 
        simp: update_conv' split: if_splits)
  moreover have "map (\<lambda>e. idempotency_key (snd e)) (AList.update ?i p ?ops) = map (\<lambda>e. idempotency_key (snd e)) ?ops"
  proof -
    have "map idempotency_key (map snd (AList.update ?i p ?ops)) = map idempotency_key (map snd ?ops)"
      unfolding mem using key by (auto dest!: uq)
    then show ?thesis by (simp add: comp_def)
  qed
  moreover have "map_of (AList.update (idempotency_key p) p (ms_ops_by_key m)) k =
      find (\<lambda>p. idempotency_key p = k) (sq_operations (sq_save_operation p s))" for k
    using sim update_by_key [OF dist(2,1) map_of_SomeD [OF q] key, of k] unfolding new
    by (simp add: store_sim_def update_conv' del: split_paired_All)
  ultimately show ?thesis
    using sim dist new mem
    by (simp add: store_sim_def ms_save_operation_def sq_save_operation_def [of p s] rows_of_def ms_bucket_def
        del: split_paired_All)
qed

lemma sim_exec:
  assumes sim: "store_sim s m" and ok: "cmd_ok m cmd" and quiet: "hooks_quiet hooks"
  shows "agree (fst (sq_exec L H hooks cmd s)) (fst (ms_exec H cmd m))
    \<and> store_sim (snd (sq_exec L H hooks cmd s)) (snd (ms_exec H cmd m))"
proof (cases cmd)
  case (Save_run r)
  from quiet obtain x y where "run_hook hooks r (sq_ext s) = Inr x" "quota_hook hooks r x = Inr y"
    unfolding hooks_quiet_def by metis
  with Save_run ok sim_save_simple(4) [OF sim] show ?thesis by (simp add: sq_save_run_def)
next
  case (Append_event i e)
  with sim_append_event [OF sim, of i e] show ?thesis
    by (simp add: case_prod_beta)
next
  case (Commit_intent p t r b)
  with sim_commit [OF sim, of p t r b hooks L H] ok quiet show ?thesis
    by (auto simp: case_prod_beta agree_def split: sum.splits)
next
  case (Save_operation p)
  with sim_save_operation [OF sim] ok show ?thesis by simp
next
  case (Bootstrap_revision n)
  with sim show ?thesis
    by (auto simp: sq_bootstrap_applied_revision_def ms_bootstrap_applied_revision_def store_sim_def
        rows_of_def ms_bucket_def simp del: split_paired_All split: option.splits)
next
  case (Cas_revision a c)
  with sim show ?thesis
    by (auto simp: sq_cas_apply_revision_def ms_cas_apply_revision_def store_sim_def revision_conflict_def
        rows_of_def ms_bucket_def simp del: split_paired_All split: option.splits if_splits)
qed (use ok sim_save_simple(1-3) [OF sim] in simp_all)

fun sq_run :: "pylib \<Rightarrow> (json \<Rightarrow> string) \<Rightarrow> 'x sq_hooks \<Rightarrow> store_cmd list \<Rightarrow> 'x sqlite_db \<Rightarrow>
    store_out res list \<times> 'x sqlite_db" where
  "sq_run L H hooks [] s = ([], s)"
| "sq_run L H hooks (c # cs) s =
     (let (x, s1) = sq_exec L H hooks c s; (xs, s2) = sq_run L H hooks cs s1 in (x # xs, s2))"

fun ms_run :: "(json \<Rightarrow> string) \<Rightarrow> store_cmd list \<Rightarrow> mem_store \<Rightarrow> store_out res list \<times> mem_store" where
  "ms_run H [] m = ([], m)"
| "ms_run H (c # cs) m =
     (let (x, m1) = ms_exec H c m; (xs, m2) = ms_run H cs m1 in (x # xs, m2))"

fun cmds_ok :: "(json \<Rightarrow> string) \<Rightarrow> store_cmd list \<Rightarrow> mem_store \<Rightarrow> bool" where
  "cmds_ok H [] m = True"
| "cmds_ok H (c # cs) m = (cmd_ok m c \<and> cmds_ok H cs (snd (ms_exec H c m)))"

lemma sim_run:
  "store_sim s m \<Longrightarrow> cmds_ok H cs m \<Longrightarrow> hooks_quiet hooks \<Longrightarrow>
   list_all2 agree (fst (sq_run L H hooks cs s)) (fst (ms_run H cs m))
   \<and> store_sim (snd (sq_run L H hooks cs s)) (snd (ms_run H cs m))"
proof (induction cs arbitrary: s m)
  case (Cons c cs)
  have step: "agree (fst (sq_exec L H hooks c s)) (fst (ms_exec H c m))"
    "store_sim (snd (sq_exec L H hooks c s)) (snd (ms_exec H c m))"
    using sim_exec [OF Cons.prems(1) _ Cons.prems(3), of c L H] Cons.prems(2) by auto
  with Cons.IH [OF step(2)] Cons.prems show ?case by (simp add: case_prod_beta)
qed simp

definition new_sqlite_db :: "'x \<Rightarrow> 'x sqlite_db" where
  "new_sqlite_db x = \<lparr>sq_operations = [], sq_tasks = [], sq_runs = [], sq_approvals = [], sq_events = [],
     sq_sessions = [], sq_applied = None, sq_control = new_control_db, sq_fail_next_intent = False, sq_ext = x\<rparr>"

lemma new_sim: "store_sim (new_sqlite_db x) new_mem_store"
  by (simp add: store_sim_def new_sqlite_db_def new_mem_store_def encode_table_def tasks.table_ok_Nil
      runs.table_ok_Nil approvals.table_ok_Nil sessions.table_ok_Nil ops_ok_def rows_of_def ms_bucket_def)


definition quiet_hooks :: "unit sq_hooks" where
  "quiet_hooks = \<lparr>intent_hook = (\<lambda>_ _ _ _ _. Inr ()), run_hook = (\<lambda>_ _. Inr ()), quota_hook = (\<lambda>_ _. Inr ())\<rparr>"

lemma quiet_hooks_quiet: "hooks_quiet quiet_hooks"
  by (simp add: hooks_quiet_def quiet_hooks_def)

definition example_intent :: operation where
  "example_intent = \<lparr>o_id = OperationId ''op_1'', o_idempotency_key = ''k'', o_principal = ''os:me'',
     o_action = ''task.submit'', o_target = ''demo'', o_input_hash = ''h'', o_status = Op_INTENDED,
     o_created_at = ''2026-01-01T00:00:00Z'', o_task_id = None, o_run_id = None\<rparr>"


section \<open>An intent is accepted once\<close>

definition mem_ok :: "mem_store \<Rightarrow> bool" where
  "mem_ok m \<longleftrightarrow> (\<exists>s :: unit sqlite_db. store_sim s m)"

lemma mem_ok_exec: "mem_ok m \<Longrightarrow> cmd_ok m c \<Longrightarrow> mem_ok (snd (ms_exec H c m))"
  unfolding mem_ok_def using sim_exec [OF _ _ quiet_hooks_quiet] by blast

definition intent_known :: "op_key \<Rightarrow> operation_id \<Rightarrow> string \<Rightarrow> mem_store \<Rightarrow> bool" where
  "intent_known k i h m \<longleftrightarrow>
     (\<exists>q. map_of (ms_ops_by_key m) k = Some q \<and> o_id q = i \<and> o_input_hash q = h)"

lemma unique_key:
  assumes "mem_ok m" and "map_of (ms_ops_by_key m) k = Some q" and "(i, q') \<in> set (ms_operations m)"
    and "idempotency_key q' = k"
  shows "q' = q"
proof -
  from assms(1) obtain s :: "unit sqlite_db" where sim: "store_sim s m" by (auto simp: mem_ok_def)
  have "find (\<lambda>p. idempotency_key p = k) (map snd (ms_operations m)) = Some q"
    using sim assms(2) unfolding store_sim_def by metis
  then obtain j where j: "(j, q) \<in> set (ms_operations m)" "idempotency_key q = k"
    by (auto simp: find_Some_iff in_set_conv_nth) (metis prod.collapse)
  have "inj_on (\<lambda>e. idempotency_key (snd e)) (set (ms_operations m))"
    using sim by (simp add: store_sim_def distinct_map)
  from inj_onD [OF this _ j(1) assms(3)] j(2) assms(4) show ?thesis by simp
qed

lemma intent_known_exec:
  assumes ok: "mem_ok m" "cmd_ok m c" and known: "intent_known k i h m"
  shows "intent_known k i h (snd (ms_exec H c m))"
proof (cases c)
  case (Save_operation p)
  from ok(2) Save_operation obtain q where
    q: "map_of (ms_operations m) (operation_val (o_id p)) = Some q"
    and p: "p = q\<lparr>o_status := o_status p, o_task_id := o_task_id p, o_run_id := o_run_id p\<rparr>"
    by (auto split: option.splits)
  have same: "idempotency_key p = idempotency_key q" "o_id p = o_id q" "o_input_hash p = o_input_hash q"
    by (subst p, simp add: idempotency_key_def)+
  have "o_id p = i \<and> o_input_hash p = h" if "idempotency_key p = k"
  proof -
    from known obtain q1 where q1: "map_of (ms_ops_by_key m) k = Some q1" "o_id q1 = i" "o_input_hash q1 = h"
      unfolding intent_known_def by blast
    then have "q = q1" using unique_key [OF ok(1) q1(1) map_of_SomeD [OF q]] same that by simp
    with q1 same show ?thesis by simp
  qed
  with known Save_operation show ?thesis
    by (auto simp: intent_known_def ms_save_operation_def update_conv')
next
  case (Commit_intent p t r b)
  with known show ?thesis
    by (auto simp: intent_known_def ms_commit_intent_def ms_save_session_def update_conv' Let_def
        split: option.splits sum.splits)
qed (use known in \<open>auto simp: intent_known_def ms_save_task_def ms_save_run_def ms_save_approval_def
      ms_save_session_def ms_append_event_def ms_bootstrap_applied_revision_def ms_cas_apply_revision_def
      revision_conflict_def Let_def split: option.splits\<close>)

lemma intent_known_run:
  "mem_ok m \<Longrightarrow> cmds_ok H cs m \<Longrightarrow> intent_known k i h m \<Longrightarrow> intent_known k i h (snd (ms_run H cs m))"
proof (induction cs arbitrary: m)
  case (Cons c cs)
  then show ?case
    using mem_ok_exec [of m c H] intent_known_exec [of m c k i h H] by (simp add: case_prod_beta)
qed simp

text \<open>
  C18. A command is accepted once: after \<^verbatim>\<open>commit_intent\<close> has accepted an intent, through
  any later writes, no intent under the same idempotency key creates anything: the stores
  stay as they are, an answer is a replay of the first operation, and an intent with other
  input is refused as a conflict.
\<close>

theorem intent_accepted_once:
  assumes "mem_ok m" and "ms_commit_intent H p t r b m = (Inr (q, t', r', dup), m1)"
    and "cmd_ok m (Commit_intent p t r b)" and "cmds_ok H cs m1"
    and "snd (ms_run H cs m1) = m2" and "\<not> ms_fail_next_intent m2"
    and "idempotency_key p2 = idempotency_key p"
  shows "snd (ms_commit_intent H p2 t2 r2 b2 m2) = m2
    \<and> (case fst (ms_commit_intent H p2 t2 r2 b2 m2) of
         Inr (q2, _, _, dup2) \<Rightarrow> dup2 \<and> o_id q2 = o_id q \<and> o_input_hash p2 = o_input_hash p
       | Inl e \<Rightarrow> True)
    \<and> (o_input_hash p2 \<noteq> o_input_hash p \<longrightarrow>
         fst (ms_commit_intent H p2 t2 r2 b2 m2) = idempotency_conflict p2)"
proof -
  have first: "intent_known (idempotency_key p) (o_id q) (o_input_hash p) m1"
    using assms(2)
    by (auto simp: ms_commit_intent_def intent_known_def bind_res_Inr_iff Let_def update_conv'
        ms_save_session_def idempotency_conflict_def intended_def split: if_splits option.splits sum.splits)
  have "mem_ok m1" using mem_ok_exec [OF assms(1,3), of H] assms(2) by simp
  with first have "intent_known (idempotency_key p) (o_id q) (o_input_hash p) m2"
    using intent_known_run [of m1 H cs] assms(4,5) by blast
  then obtain q0 where "map_of (ms_ops_by_key m2) (idempotency_key p2) = Some q0"
    "o_id q0 = o_id q" "o_input_hash q0 = o_input_hash p"
    using assms(7) by (auto simp: intent_known_def)
  with assms(6) show ?thesis
    by (auto simp: ms_commit_intent_def bind_res_def idempotency_conflict_def split: sum.splits option.splits)
qed

theorem intent_accepted_once_witness:
  "\<exists>m1. ms_commit_intent (\<lambda>_. ''h'') example_intent example_task example_run None new_mem_store
        = (Inr (intended example_intent example_task example_run, example_task, example_run, False), m1)
     \<and> fst (ms_commit_intent (\<lambda>_. ''h'') (example_intent\<lparr>o_input_hash := ''other''\<rparr>) example_task example_run None m1)
        = idempotency_conflict (example_intent\<lparr>o_input_hash := ''other''\<rparr>)"
proof -
  have "mem_ok new_mem_store" using new_sim [of "()"] by (auto simp: mem_ok_def)
  moreover obtain m1 where c: "ms_commit_intent (\<lambda>_. ''h'') example_intent example_task example_run None new_mem_store
      = (Inr (intended example_intent example_task example_run, example_task, example_run, False), m1)"
    and f: "\<not> ms_fail_next_intent m1"
    by (simp add: ms_commit_intent_def new_mem_store_def transition_cas_def example_run_def Let_def)
  moreover have "cmd_ok new_mem_store (Commit_intent example_intent example_task example_run None)"
    by (simp add: example_task_wf example_run_wf new_mem_store_def)
  moreover have "cmds_ok (\<lambda>_. ''h'') [] m1" "snd (ms_run (\<lambda>_. ''h'') [] m1) = m1" by simp_all
  moreover have "idempotency_key (example_intent\<lparr>o_input_hash := ''other''\<rparr>) = idempotency_key example_intent"
    by (simp add: idempotency_key_def)
  ultimately have "o_input_hash (example_intent\<lparr>o_input_hash := ''other''\<rparr>) \<noteq> o_input_hash example_intent \<longrightarrow>
     fst (ms_commit_intent (\<lambda>_. ''h'') (example_intent\<lparr>o_input_hash := ''other''\<rparr>) example_task example_run None m1)
        = idempotency_conflict (example_intent\<lparr>o_input_hash := ''other''\<rparr>)"
    using intent_accepted_once by blast
  with c show ?thesis by (auto simp: example_intent_def)
qed

end
