(* ===== verification/Quota_Selection.thy ===== *)
theory Quota_Selection
  imports Policy_Gate
begin

text \<open>
  Quota-aware routing, \<^verbatim>\<open>src/asterun/quota/selection.py\<close>: the score of a candidate from
  its observed quota windows and the conservative choice between candidates. Instants are
  microseconds; \<^verbatim>\<open>datetime.fromisoformat\<close> is the argument \<open>iso_parse\<close>, a text without a
  time zone counting as UTC. Window identities and kinds are texts, which the observation
  schema enforces; preferences and estimates are integers, which the configuration does, and
  another type is a \<^verbatim>\<open>TypeError\<close>.
\<close>

section \<open>Preferences\<close>

definition PREFERENCE_DEFAULTS :: dict where
  "PREFERENCE_DEFAULTS =
    [(''enabled'', JBool False), (''horizon_hours'', JInt 72), (''waste_threshold_bp'', JInt 1000),
     (''switch_margin_bp'', JInt 500), (''require_confidence'', JStr ''medium''),
     (''consider_short_windows'', JBool False), (''floor_short_bp'', JInt 500),
     (''floor_long_bp'', JInt 1000), (''count_reset_grants'', JBool False)]"

definition resolve_prefs :: "json \<Rightarrow> dict" where
  "resolve_prefs raw =
     dset (map (\<lambda>(k, v). (k, dget_or (dict_or_empty raw) k v)) PREFERENCE_DEFAULTS)
       ''count_reset_grants'' (JBool False)"

record quota_prefs =
  p_horizon_hours :: int
  p_waste_threshold_bp :: int
  p_switch_margin_bp :: int
  p_require_confidence :: json
  p_consider_short :: bool
  p_floor_short_bp :: int
  p_floor_long_bp :: int

definition int_pref :: "dict \<Rightarrow> string \<Rightarrow> int res" where
  "int_pref d k = (case dget d k of JInt n \<Rightarrow> Inr n | _ \<Rightarrow> Inl TypeError)"

definition read_prefs :: "dict \<Rightarrow> quota_prefs res" where
  "read_prefs d =
     bind_res (int_pref d ''horizon_hours'') (\<lambda>h.
     bind_res (int_pref d ''waste_threshold_bp'') (\<lambda>t.
     bind_res (int_pref d ''switch_margin_bp'') (\<lambda>m.
     bind_res (int_pref d ''floor_short_bp'') (\<lambda>fs.
     bind_res (int_pref d ''floor_long_bp'') (\<lambda>fl.
     Inr \<lparr>p_horizon_hours = h, p_waste_threshold_bp = t, p_switch_margin_bp = m,
       p_require_confidence = dget d ''require_confidence'',
       p_consider_short = truthy (dget d ''consider_short_windows''),
       p_floor_short_bp = fs, p_floor_long_bp = fl\<rparr>)))))"

definition confidence_rank :: "json \<Rightarrow> int \<Rightarrow> int" where
  "confidence_rank v missing =
     (case v of JStr s \<Rightarrow> if s = ''low'' then 0 else if s = ''medium'' then 1 else if s = ''high'' then 2 else missing
      | _ \<Rightarrow> missing)"

definition confidence_ok :: "json \<Rightarrow> json \<Rightarrow> bool" where
  "confidence_ok confidence required \<longleftrightarrow> confidence_rank required 1 \<le> confidence_rank confidence (-1)"

section \<open>Time and windows\<close>

definition parse_time :: "iso_parser \<Rightarrow> json \<Rightarrow> int option" where
  "parse_time iso_parse v =
     (case v of JStr s \<Rightarrow> if s = [] then None else map_option fst (iso_parse (zulu s)) | _ \<Rightarrow> None)"

text \<open>\<^verbatim>\<open>int(delta.total_seconds())\<close> truncates towards zero.\<close>

definition whole_seconds :: "int \<Rightarrow> int" where
  "whole_seconds d = (if 0 \<le> d then d div 1000000 else - ((- d) div 1000000))"

definition duration_s :: "dict \<Rightarrow> int option" where
  "duration_s observation =
     (case dget observation ''window_duration_s'' of
        JInt n \<Rightarrow> if 0 < n then Some n else map_of [(JStr ''5h'', 18000), (JStr ''weekly'', 604800), (JStr ''monthly'', 2592000)]
                                                (dget observation ''window_kind'')
      | _ \<Rightarrow> map_of [(JStr ''5h'', 18000), (JStr ''weekly'', 604800), (JStr ''monthly'', 2592000)]
               (dget observation ''window_kind''))"

definition is_short :: "dict \<Rightarrow> int option \<Rightarrow> bool" where
  "is_short observation duration \<longleftrightarrow>
     dget observation ''window_kind'' = JStr ''5h''
     \<or> (case duration of None \<Rightarrow> False | Some d \<Rightarrow> d < 86400)"

definition is_latch :: "iso_parser \<Rightarrow> dict \<Rightarrow> json \<Rightarrow> int option \<Rightarrow> bool" where
  "is_latch iso_parse observation freshness moment \<longleftrightarrow>
     freshness = JStr ''latched''
     \<and> \<not> (case (parse_time iso_parse (dget observation ''resets_at''), moment) of
            (Some reset, Some m) \<Rightarrow> reset \<le> m | _ \<Rightarrow> False)"

datatype estimate = EstInt int | EstMap "(string \<times> int) list"

definition estimate_for :: "estimate \<Rightarrow> json \<Rightarrow> int" where
  "estimate_for est kind =
     (case est of
        EstInt n \<Rightarrow> n
      | EstMap m \<Rightarrow>
          (case (case kind of JStr s \<Rightarrow> map_of m s | _ \<Rightarrow> None) of
             Some n \<Rightarrow> n
           | None \<Rightarrow> (case map_of m ''default'' of Some n \<Rightarrow> n | None \<Rightarrow> 100)))"

definition str_or_empty :: "json \<Rightarrow> string" where
  "str_or_empty v = (case v of JStr s \<Rightarrow> s | _ \<Rightarrow> [])"

record window_row =
  w_bucket :: string
  w_kind :: string
  w_used :: int
  w_remaining :: int
  w_duration :: "int option"
  w_t_seconds :: "int option"
  w_resets_at :: "string option"
  w_confidence :: json
  w_est :: int
  w_short :: bool
  w_history :: json
  w_observation :: dict

text \<open>What the loop of \<^verbatim>\<open>score_candidate\<close> makes of one inspected window.\<close>

datatype window_class = WSkip | WPaid | WLatched | WExhausted | WRow window_row

definition classify_window :: "iso_parser \<Rightarrow> int option \<Rightarrow> int \<Rightarrow> estimate \<Rightarrow> json \<Rightarrow> window_class" where
  "classify_window iso_parse moment inflight_runs est item =
     (case item of
        JObj d \<Rightarrow>
          (let observation = dict_or_empty (dget d ''observation'');
               freshness = dget d ''freshness'';
               used = dget observation ''used_bp'';
               fresh = (freshness = JStr ''fresh'')
           in if dget observation ''paid_overage'' = JBool True then WPaid
              else if is_latch iso_parse observation freshness moment then WLatched
              else if freshness = JStr ''exhausted''
                   \<or> fresh \<and> (truthy (dget observation ''exhausted_hint'')
                               \<or> (case used of JInt n \<Rightarrow> 10000 \<le> n | _ \<Rightarrow> False))
              then WExhausted
              else case used of
                  JInt n \<Rightarrow>
                    if \<not> fresh then WSkip
                    else
                      let duration = duration_s observation;
                          resets_at = dget observation ''resets_at'';
                          e = estimate_for est (dget observation ''window_kind'')
                      in WRow \<lparr>w_bucket = str_or_empty (dget observation ''bucket_id''),
                               w_kind = str_or_empty (dget observation ''window_kind''),
                               w_used = n, w_remaining = 10000 - n - inflight_runs * e,
                               w_duration = duration,
                               w_t_seconds = (case (moment, parse_time iso_parse resets_at) of
                                   (Some m, Some r) \<Rightarrow> Some (whole_seconds (r - m)) | _ \<Rightarrow> None),
                               w_resets_at = as_str resets_at,
                               w_confidence = dget observation ''confidence'', w_est = e,
                               w_short = is_short observation duration,
                               w_history = dget d ''history'', w_observation = observation\<rparr>
                | _ \<Rightarrow> WSkip)
      | _ \<Rightarrow> WSkip)"

section \<open>Expected waste\<close>

definition history_points :: "iso_parser \<Rightarrow> dict \<Rightarrow> json \<Rightarrow> (int \<times> int) list" where
  "history_points iso_parse observation history =
     (let epoch = dget observation ''window_epoch'';
          items = (case history of JArr xs \<Rightarrow> xs | _ \<Rightarrow> []) @ [JObj observation]
      in sort_key fst (concat (map (\<lambda>item.
           case item of
             JObj d \<Rightarrow>
               if truthy epoch \<and> dget d ''window_epoch'' \<noteq> JNull \<and> dget d ''window_epoch'' \<noteq> epoch then []
               else (case (dget d ''used_bp'', parse_time iso_parse (dget d ''observed_at'')) of
                       (JInt used, Some stamp) \<Rightarrow> [(stamp, used)] | _ \<Rightarrow> [])
           | _ \<Rightarrow> []) items)))"

fun usage_rates :: "(int \<times> int) list \<Rightarrow> (int \<times> int) list" where
  "usage_rates (p # q # ps) =
     (let gap = whole_seconds (fst q - fst p); delta = snd q - snd p
      in (if 1800 \<le> gap \<and> 0 \<le> delta then [(delta, gap)] else []) @ usage_rates (q # ps))"
| "usage_rates ps = []"

definition ewma_per_second :: "iso_parser \<Rightarrow> dict \<Rightarrow> json \<Rightarrow> (int \<times> int) option" where
  "ewma_per_second iso_parse observation history =
     (case usage_rates (history_points iso_parse observation history) of
        [] \<Rightarrow> None
      | r # rs \<Rightarrow> Some (fold (\<lambda>(delta, gap) (n, d). (delta * d + n * gap, 2 * gap * d)) rs r))"

definition waste :: "iso_parser \<Rightarrow> window_row \<Rightarrow> int \<Rightarrow> int \<Rightarrow> int" where
  "waste iso_parse row duration t_seconds =
     (let remaining = w_remaining row;
          elapsed = duration - t_seconds;
          minimum_elapsed = max 3600 (duration div 10);
          (numerator, denominator) =
            (case ewma_per_second iso_parse (w_observation row) (w_history row) of
               Some (n, d) \<Rightarrow> (remaining * d - n * t_seconds, d)
             | None \<Rightarrow>
                 if minimum_elapsed \<le> elapsed \<and> 0 < elapsed
                 then (remaining * elapsed - w_used row * t_seconds, elapsed)
                 else (remaining * duration - 10000 * t_seconds, duration))
      in if numerator \<le> 0 \<or> denominator \<le> 0 then 0 else numerator div denominator)"

record valued_row =
  v_row :: window_row
  v_waste :: int
  v_s_a :: int

definition value_row :: "iso_parser \<Rightarrow> quota_prefs \<Rightarrow> window_row \<Rightarrow> valued_row option" where
  "value_row iso_parse prefs row =
     (if w_short row \<and> \<not> p_consider_short prefs then None
      else case (w_duration row, w_t_seconds row) of
          (Some duration, Some t) \<Rightarrow>
            if t \<le> 0 \<or> p_horizon_hours prefs * 3600 < t then None
            else if duration < t then None
            else Some \<lparr>v_row = row, v_waste = waste iso_parse row duration t,
                       v_s_a = w_remaining row * 3600 div t\<rparr>
        | _ \<Rightarrow> None)"

text \<open>Per window kind the row with the least remaining.\<close>

fun value_rows :: "iso_parser \<Rightarrow> quota_prefs \<Rightarrow> window_row list \<Rightarrow> (string \<times> valued_row) list \<Rightarrow> valued_row list" where
  "value_rows iso_parse prefs [] chosen = map snd chosen"
| "value_rows iso_parse prefs (row # rows) chosen =
     (case value_row iso_parse prefs row of
        None \<Rightarrow> value_rows iso_parse prefs rows chosen
      | Some v \<Rightarrow>
          (case map_of chosen (w_kind row) of
             Some current \<Rightarrow>
               if w_remaining row < w_remaining (v_row current)
               then value_rows iso_parse prefs rows (AList.update (w_kind row) v chosen)
               else value_rows iso_parse prefs rows chosen
           | None \<Rightarrow> value_rows iso_parse prefs rows (AList.update (w_kind row) v chosen)))"

definition FAR_RESET :: string where
  "FAR_RESET = ''9999-12-31T23:59:59Z''"

definition reset_or_far :: "string option \<Rightarrow> string" where
  "reset_or_far r = (case r of None \<Rightarrow> FAR_RESET | Some s \<Rightarrow> if s = [] then FAR_RESET else s)"

definition more_wasteful :: "valued_row \<Rightarrow> valued_row \<Rightarrow> bool" where
  "more_wasteful v best \<longleftrightarrow>
     v_waste best < v_waste v
     \<or> v_waste v = v_waste best
       \<and> reset_or_far (w_resets_at (v_row v)) < reset_or_far (w_resets_at (v_row best))"

fun best_waste :: "valued_row list \<Rightarrow> valued_row option \<Rightarrow> valued_row option" where
  "best_waste [] best = best"
| "best_waste (v # vs) best =
     best_waste vs (case best of None \<Rightarrow> Some v | Some b \<Rightarrow> if more_wasteful v b then Some v else Some b)"
section \<open>The score of a candidate\<close>

record quota_score =
  q_tier :: int
  q_S :: int
  q_S_A :: int
  q_U :: "int option"
  q_excluded :: bool
  q_codes :: "string list"
  q_windows :: "string list"
  q_resets_at :: "string option"
  q_can_start :: "bool option"

definition floor_bp :: "window_row \<Rightarrow> quota_prefs \<Rightarrow> int" where
  "floor_bp row prefs = (if w_short row then p_floor_short_bp prefs else p_floor_long_bp prefs)"

definition score_rows ::
  "iso_parser \<Rightarrow> quota_prefs \<Rightarrow> int \<Rightarrow> bool \<Rightarrow> window_class list \<Rightarrow> quota_score" where
  "score_rows iso_parse prefs weight no_windows classes =
     (let rows = concat (map (\<lambda>c. case c of WRow r \<Rightarrow> [r] | _ \<Rightarrow> []) classes);
          latched = (WLatched \<in> set classes);
          exhausted = (WExhausted \<in> set classes);
          codes = (if WPaid \<in> set classes then [''paid_overage_ignored''] else [])
                @ (if latched then [''latched''] else []) @ (if exhausted then [''exhausted''] else []);
          used = map (\<lambda>r. w_bucket r @ ''/'' @ w_kind r) rows;
          result = (\<lambda>tier s sa u excluded cs resets.
             \<lparr>q_tier = tier, q_S = s, q_S_A = sa, q_U = u, q_excluded = excluded, q_codes = cs,
              q_windows = used, q_resets_at = resets, q_can_start = None\<rparr>)
      in if rows = [] \<and> \<not> latched \<and> \<not> exhausted then
           result 2 0 0 None False (codes @ [if no_windows then ''no_windows'' else ''unknown'']) None
         else
           let u_value = (if rows = [] then None else Some (Min (set (map w_remaining rows))));
               below_floor = list_ex (\<lambda>r. w_remaining r < floor_bp r prefs + w_est r) rows;
               ranked = value_rows iso_parse prefs rows [];
               best = best_waste ranked None;
               best_qualified = best_waste
                 (filter (\<lambda>v. confidence_ok (w_confidence (v_row v)) (p_require_confidence prefs)) ranked) None;
               score = weight * (case best of None \<Rightarrow> 0 | Some b \<Rightarrow> v_waste b);
               score_a = (case best of None \<Rightarrow> 0 | Some b \<Rightarrow> v_s_a b);
               resets = (case best of None \<Rightarrow> None | Some b \<Rightarrow> w_resets_at (v_row b));
               theta = p_waste_threshold_bp prefs;
               qualified_score = (case best_qualified of None \<Rightarrow> 0 | Some b \<Rightarrow> weight * v_waste b);
               floor_code = (if below_floor then [''below_floor''] else [])
           in if latched \<or> exhausted then
                result 3 score score_a u_value True (codes @ floor_code) resets
              else if below_floor then
                result 3 score score_a u_value False (codes @ floor_code) resets
              else if theta \<le> qualified_score \<and> best_qualified \<noteq> None then
                result 0 score score_a u_value False codes resets
              else
                result 1 score score_a u_value False
                  (codes @ (if best \<noteq> None \<and> qualified_score < theta \<and> theta \<le> score
                            then [''confidence_below_required''] else [])) resets)"

definition score_candidate ::
  "iso_parser \<Rightarrow> json list \<Rightarrow> json \<Rightarrow> json \<Rightarrow> int \<Rightarrow> estimate \<Rightarrow> int \<Rightarrow> quota_score res" where
  "score_candidate iso_parse windows now raw_prefs inflight_runs est weight =
     bind_res (read_prefs (resolve_prefs raw_prefs)) (\<lambda>prefs.
       Inr (score_rows iso_parse prefs weight (windows = [])
         (map (classify_window iso_parse (parse_time iso_parse now) inflight_runs est) windows)))"

section \<open>The choice\<close>

definition removed :: "quota_score \<Rightarrow> bool" where
  "removed s \<longleftrightarrow> q_excluded s \<or> q_tier s = 3"

definition latched_score :: "quota_score \<Rightarrow> bool" where
  "latched_score s \<longleftrightarrow> ''latched'' \<in> set (q_codes s)"

definition rounded :: "int \<Rightarrow> int" where
  "rounded n = (if 0 \<le> n then ((n + 50) div 100) * 100 else - ((((- n) + 50) div 100) * 100))"

definition beats :: "quota_score \<Rightarrow> quota_score \<Rightarrow> int \<Rightarrow> bool" where
  "beats challenger incumbent delta \<longleftrightarrow> rounded (q_S incumbent) + delta \<le> rounded (q_S challenger)"

fun index_of :: "'a \<Rightarrow> 'a list \<Rightarrow> nat" where
  "index_of x [] = 0"
| "index_of x (y # ys) = (if x = y then 0 else Suc (index_of x ys))"

definition better :: "(string \<Rightarrow> quota_score) \<Rightarrow> string list \<Rightarrow> int \<Rightarrow> string \<Rightarrow> string \<Rightarrow> bool" where
  "better scores members delta left right =
     (let ls = rounded (q_S (scores left)); rs = rounded (q_S (scores right));
          lr = reset_or_far (q_resets_at (scores left)); rr = reset_or_far (q_resets_at (scores right));
          la = q_S_A (scores left); ra = q_S_A (scores right)
      in if delta \<le> \<bar>ls - rs\<bar> \<and> ls \<noteq> rs then rs < ls
         else if lr \<noteq> rr then lr < rr
         else if la \<noteq> ra then ra < la
         else case (q_can_start (scores left), q_can_start (scores right)) of
             (Some a, Some b) \<Rightarrow> if a \<noteq> b then a else index_of left members < index_of right members
           | _ \<Rightarrow> index_of left members < index_of right members)"

fun best_alias :: "(string \<Rightarrow> quota_score) \<Rightarrow> string list \<Rightarrow> int \<Rightarrow> string list \<Rightarrow> string \<Rightarrow> string" where
  "best_alias scores members delta [] winner = winner"
| "best_alias scores members delta (a # as) winner =
     best_alias scores members delta as (if better scores members delta a winner then a else winner)"

definition unknown_score :: quota_score where
  "unknown_score = \<lparr>q_tier = 2, q_S = 0, q_S_A = 0, q_U = None, q_excluded = False, q_codes = [''unknown''],
     q_windows = [], q_resets_at = None, q_can_start = None\<rparr>"

definition score_of :: "(string \<times> quota_score) list \<Rightarrow> string \<Rightarrow> quota_score" where
  "score_of candidates a = (case map_of candidates a of None \<Rightarrow> unknown_score | Some s \<Rightarrow> s)"

record selection =
  sel_chosen :: string
  sel_primary :: string
  sel_mode :: string
  sel_reason :: string
  sel_candidates :: "json list"

definition public_candidate :: "string \<Rightarrow> quota_score \<Rightarrow> json" where
  "public_candidate a s =
     JObj [(''alias'', JStr a), (''tier'', JInt (q_tier s)), (''S'', JInt (q_S s)),
           (''S_A'', JInt (q_S_A s)), (''excluded'', JBool (q_excluded s)),
           (''reason_codes'', JArr (map JStr (q_codes s)))]"

text \<open>The choice before stickiness: alias, mode and reason.\<close>

definition pick :: "(string \<Rightarrow> quota_score) \<Rightarrow> string list \<Rightarrow> string \<Rightarrow> int \<Rightarrow> string \<times> string \<times> string" where
  "pick scores members primary delta =
     (if removed (scores primary) then
        (case filter (\<lambda>a. q_tier (scores a) \<in> {0, 1} \<and> \<not> q_excluded (scores a)) members of
           a # as \<Rightarrow> (best_alias scores members delta as a, ''switch'', ''primary_excluded'')
         | [] \<Rightarrow> (primary, ''fallback_primary'', ''primary_excluded''))
      else if q_tier (scores primary) = 2 then (primary, ''fallback_primary'', ''primary_unknown'')
      else
        (case filter (\<lambda>a. a \<noteq> primary \<and> q_tier (scores a) = 0 \<and> \<not> q_excluded (scores a)
                          \<and> beats (scores a) (scores primary) delta) members of
           a # as \<Rightarrow> (best_alias scores members delta as a, ''switch'', ''waste_margin'')
         | [] \<Rightarrow> (primary, ''primary'', ''stay_primary'')))"

definition stick :: "(string \<Rightarrow> quota_score) \<Rightarrow> string list \<Rightarrow> string \<Rightarrow> int \<Rightarrow> string option \<Rightarrow>
    string \<times> string \<times> string \<Rightarrow> string \<times> string \<times> string" where
  "stick scores members primary delta sticky choice =
     (case choice of (chosen, mode, reason) \<Rightarrow>
        (case sticky of
           None \<Rightarrow> choice
         | Some k \<Rightarrow>
             if k \<in> set members \<and> k \<noteq> chosen
                \<and> reason \<notin> {''all_unknown'', ''primary_unknown'', ''all_latched''}
                \<and> q_tier (scores k) \<in> {0, 1} \<and> \<not> removed (scores k)
                \<and> \<not> beats (scores chosen) (scores k) delta
             then (k, if k = primary then ''primary'' else ''switch'', ''sticky'') else choice))"

definition select_choice :: "(string \<Rightarrow> quota_score) \<Rightarrow> string list \<Rightarrow> string \<Rightarrow> int \<Rightarrow> string option \<Rightarrow>
    string \<times> string \<times> string" where
  "select_choice scores members primary delta sticky =
     (if length members = 1 then (primary, ''primary'', ''single_candidate'')
      else if members \<noteq> [] \<and> list_all (\<lambda>a. latched_score (scores a)) members
      then (primary, ''fallback_primary'', ''all_latched'')
      else if list_all (\<lambda>a. q_tier (scores a) = 2 \<and> \<not> q_excluded (scores a)) members
      then (primary, ''fallback_primary'', ''all_unknown'')
      else stick scores members primary delta sticky (pick scores members primary delta))"

definition select :: "string list \<Rightarrow> string \<Rightarrow> (string \<times> quota_score) list \<Rightarrow> json \<Rightarrow> string option \<Rightarrow> selection res" where
  "select members primary candidates raw_prefs sticky =
     bind_res (read_prefs (resolve_prefs raw_prefs)) (\<lambda>prefs.
       let scores = score_of candidates;
           (chosen, mode, reason) = select_choice scores members primary (p_switch_margin_bp prefs) sticky
       in Inr \<lparr>sel_chosen = chosen, sel_primary = primary, sel_mode = mode, sel_reason = reason,
               sel_candidates = map (\<lambda>a. public_candidate a (scores a)) members\<rparr>)"

section \<open>The choice is conservative and stable\<close>

lemma best_alias_in: "best_alias scores members delta as w \<in> insert w (set as)"
  by (induction as arbitrary: w) (auto, blast?)

lemma pick_cases:
  assumes "pick scores members primary delta = (chosen, mode, reason)"
  shows "chosen = primary \<or>
     chosen \<in> set members \<and> q_tier (scores chosen) \<in> {0, 1} \<and> \<not> q_excluded (scores chosen)
     \<and> (removed (scores primary) \<or> q_tier (scores primary) \<noteq> 2 \<and> beats (scores chosen) (scores primary) delta)"
proof (cases "removed (scores primary)")
  case True
  show ?thesis
  proof (cases "filter (\<lambda>a. q_tier (scores a) \<in> {0, 1} \<and> \<not> q_excluded (scores a)) members")
    case Nil
    with True assms show ?thesis by (simp add: pick_def)
  next
    case (Cons a as)
    with True assms have "chosen = best_alias scores members delta as a" by (simp add: pick_def)
    then have "chosen \<in> set (filter (\<lambda>a. q_tier (scores a) \<in> {0, 1} \<and> \<not> q_excluded (scores a)) members)"
      using best_alias_in [of scores members delta as a] unfolding Cons by simp
    with True show ?thesis by simp
  qed
next
  case False
  let ?P = "\<lambda>a. a \<noteq> primary \<and> q_tier (scores a) = 0 \<and> \<not> q_excluded (scores a)
                          \<and> beats (scores a) (scores primary) delta"
  show ?thesis
  proof (cases "q_tier (scores primary) = 2")
    case True
    with False assms show ?thesis by (simp add: pick_def)
  next
    case no: False
    show ?thesis
    proof (cases "filter ?P members")
    case Nil
    with no False assms have "(chosen, mode, reason) = (primary, ''primary'', ''stay_primary'')"
      unfolding pick_def by (simp only: if_False list.case)
    then show ?thesis by simp
  next
    case pool: (Cons a as)
    with no False assms have "chosen = best_alias scores members delta as a" by (simp add: pick_def)
    then have "chosen \<in> set (filter ?P members)"
      using best_alias_in [of scores members delta as a] unfolding pool by simp
    with no show ?thesis by simp
    qed
  qed
qed

lemma pick_unknown: "q_tier (scores primary) = 2 \<Longrightarrow> \<not> removed (scores primary) \<Longrightarrow>
   pick scores members primary delta = (primary, ''fallback_primary'', ''primary_unknown'')"
  by (simp add: pick_def)

lemma stick_cases:
  assumes "stick scores members primary delta sticky (c0, m0, r0) = (chosen, mode, reason)"
  shows "chosen = c0 \<or> sticky = Some chosen \<and> chosen \<in> set members
     \<and> q_tier (scores chosen) \<in> {0, 1} \<and> \<not> removed (scores chosen) \<and> r0 \<noteq> ''primary_unknown''
     \<and> \<not> beats (scores c0) (scores chosen) delta"
  using assms by (auto simp: stick_def split: option.splits if_splits)

lemma select_Inr:
  "select members primary candidates raw_prefs sticky = Inr s \<Longrightarrow>
   \<exists>prefs. read_prefs (resolve_prefs raw_prefs) = Inr prefs
     \<and> select_choice (score_of candidates) members primary (p_switch_margin_bp prefs) sticky
         = (sel_chosen s, sel_mode s, sel_reason s)
     \<and> sel_candidates s = map (\<lambda>a. public_candidate a (score_of candidates a)) members"
  by (auto simp: select_def bind_res_Inr_iff Let_def case_prod_beta)

text \<open>
  C20. Routing leaves the primary only on fresh evidence: the choice is always a member of
  the group, and when it is not the primary its own score is fresh (tier 0 or 1, not
  excluded), and the primary is out (excluded or nearly exhausted) or at least known.
\<close>

theorem select_is_conservative:
  assumes "select members primary candidates raw_prefs sticky = Inr s" and "primary \<in> set members"
  shows "sel_chosen s \<in> set members
    \<and> (sel_chosen s \<noteq> primary \<longrightarrow>
         q_tier (score_of candidates (sel_chosen s)) \<in> {0, 1}
         \<and> \<not> q_excluded (score_of candidates (sel_chosen s))
         \<and> (removed (score_of candidates primary) \<or> q_tier (score_of candidates primary) \<noteq> 2))"
proof -
  let ?sc = "score_of candidates"
  obtain prefs :: quota_prefs where
    c: "select_choice ?sc members primary (p_switch_margin_bp prefs) sticky
        = (sel_chosen s, sel_mode s, sel_reason s)"
    using select_Inr [OF assms(1)] by blast
  let ?d = "p_switch_margin_bp prefs"
  obtain c0 m0 r0 where p: "pick ?sc members primary ?d = (c0, m0, r0)" by (cases "pick ?sc members primary ?d")
  have "sel_chosen s = primary \<or> stick ?sc members primary ?d sticky (c0, m0, r0) = (sel_chosen s, sel_mode s, sel_reason s)"
    using c p by (auto simp: select_choice_def split: if_splits)
  then show ?thesis
  proof
    assume "sel_chosen s = primary"
    with assms(2) show ?thesis by simp
  next
    assume st: "stick ?sc members primary ?d sticky (c0, m0, r0) = (sel_chosen s, sel_mode s, sel_reason s)"
    have "r0 = ''primary_unknown''" if "q_tier (?sc primary) = 2" "\<not> removed (?sc primary)"
      using pick_unknown [of ?sc primary members ?d] that p by simp
    with stick_cases [OF st] pick_cases [OF p] assms(2) show ?thesis
      by (auto simp: removed_def)
  qed
qed

definition example_scores :: "(string \<times> quota_score) list" where
  "example_scores = [(''a'', unknown_score\<lparr>q_tier := 1, q_codes := []\<rparr>),
     (''b'', unknown_score\<lparr>q_tier := 0, q_S := 2000, q_codes := []\<rparr>)]"

lemma default_prefs: "\<exists>prefs. read_prefs (resolve_prefs JNull) = Inr prefs \<and> p_switch_margin_bp prefs = 500"
  by (simp add: read_prefs_def resolve_prefs_def PREFERENCE_DEFAULTS_def int_pref_def)

lemma example_select:
  "\<exists>s. select [''a'', ''b''] ''a'' example_scores JNull None = Inr s \<and> sel_chosen s = ''b''"
proof -
  obtain prefs where "read_prefs (resolve_prefs JNull) = Inr prefs" "p_switch_margin_bp prefs = 500"
    using default_prefs by blast
  then show ?thesis
    by (simp add: select_def select_choice_def pick_def stick_def score_of_def example_scores_def
        unknown_score_def removed_def latched_score_def beats_def rounded_def)
qed

theorem select_is_conservative_witness: "q_tier (score_of example_scores ''b'') \<in> {0, 1}"
proof -
  obtain s where s: "select [''a'', ''b''] ''a'' example_scores JNull None = Inr s" and b: "sel_chosen s = ''b''"
    using example_select by blast
  show ?thesis using select_is_conservative [OF s] b by simp
qed

section \<open>Scores are bounded\<close>

lemma waste_bounds:
  assumes "0 < t" "t \<le> duration" "0 \<le> w_used row"
    and "\<And>n d. ewma_per_second iso_parse (w_observation row) (w_history row) = Some (n, d) \<Longrightarrow> 0 \<le> n"
  shows "0 \<le> waste iso_parse row duration t \<and> waste iso_parse row duration t \<le> max 0 (w_remaining row)"
proof -
  have bound: "num div den \<le> max 0 r" if "num \<le> r * den" "0 < den" for num den r :: int
  proof -
    have "num div den \<le> r * den div den" using that by (intro zdiv_mono1) simp_all
    with that show ?thesis by simp
  qed
  have pos: "0 \<le> num div den" if "0 < num" "0 < den" for num den :: int
    using that by (simp add: pos_imp_zdiv_nonneg_iff)
  let ?e = "ewma_per_second iso_parse (w_observation row) (w_history row)"
  let ?late = "max 3600 (duration div 10) \<le> duration - t \<and> 0 < duration - t"
  let ?nd = "case ?e of Some (n, d) \<Rightarrow> (w_remaining row * d - n * t, d)
    | None \<Rightarrow> if ?late then (w_remaining row * (duration - t) - w_used row * t, duration - t)
              else (w_remaining row * duration - 10000 * t, duration)"
  obtain num den where nd: "?nd = (num, den)" by (cases ?nd)
  have nonneg: "0 \<le> w_used row * t" "0 \<le> 10000 * t" using assms(1,3) by simp_all
  have "num \<le> w_remaining row * den"
  proof (cases ?e)
    case None
    then show ?thesis using nd nonneg by (cases ?late) auto
  next
    case (Some p)
    obtain n d where "p = (n, d)" by (cases p)
    with Some assms(4) [of n d] assms(1) have "0 \<le> n * t" by simp
    with Some \<open>p = (n, d)\<close> nd show ?thesis by auto
  qed
  moreover have "waste iso_parse row duration t = (if num \<le> 0 \<or> den \<le> 0 then 0 else num div den)"
    unfolding waste_def Let_def nd by simp
  ultimately show ?thesis using bound [of num "w_remaining row" den] pos [of num den] by auto
qed

lemma usage_rates_nonneg: "(n, d) \<in> set (usage_rates ps) \<Longrightarrow> 0 \<le> n \<and> 0 < d"
  by (induction ps rule: usage_rates.induct) (auto simp: Let_def split: if_splits)

lemma ewma_fold_nonneg:
  "\<forall>(a, b) \<in> set rs. (0 :: int) \<le> a \<and> (0 :: int) < b \<Longrightarrow> 0 \<le> fst r \<Longrightarrow> 0 < snd r \<Longrightarrow>
   0 \<le> fst (fold (\<lambda>(delta, gap) (n, d). (delta * d + n * gap, 2 * gap * d)) rs r)
   \<and> 0 < snd (fold (\<lambda>(delta, gap) (n, d). (delta * d + n * gap, 2 * gap * d)) rs r)"
proof (induction rs arbitrary: r)
  case (Cons q rs)
  obtain a b n d where q: "q = (a, b)" and r: "r = (n, d)" by (metis surj_pair)
  with Cons.prems have "0 \<le> a" "0 < b" "0 \<le> n" "0 < d" by simp_all
  then have "0 \<le> a * d + n * b" "0 < 2 * b * d" by simp_all
  with Cons.IH [of "(a * d + n * b, 2 * b * d)"] Cons.prems(1) q r show ?case by simp
qed simp

lemma ewma_nonneg: "ewma_per_second iso_parse ob h = Some (n, d) \<Longrightarrow> 0 \<le> n \<and> 0 < d"
proof -
  assume e: "ewma_per_second iso_parse ob h = Some (n, d)"
  then obtain r rs where rates: "usage_rates (history_points iso_parse ob h) = r # rs"
    and nd: "fold (\<lambda>(delta, gap) (n, d). (delta * d + n * gap, 2 * gap * d)) rs r = (n, d)"
    by (auto simp: ewma_per_second_def split: list.splits)
  have all: "\<forall>(a, b) \<in> set (r # rs). 0 \<le> a \<and> 0 < b"
    unfolding rates [symmetric] using usage_rates_nonneg by auto
  then have "0 \<le> fst r" "0 < snd r" by (auto split: prod.splits)
  with ewma_fold_nonneg [of rs r] all nd show ?thesis by auto
qed

lemma set_alist_update: "set (AList.update k v xs) \<subseteq> insert (k, v) (set xs)"
  by (induction xs) auto

lemma value_rows_from:
  "v \<in> set (value_rows iso_parse prefs rows chosen) \<Longrightarrow>
   v \<in> snd ` set chosen \<or> (\<exists>row \<in> set rows. value_row iso_parse prefs row = Some v)"
proof (induction rows arbitrary: chosen)
  case (Cons row rows)
  show ?case
  proof (cases "value_row iso_parse prefs row")
    case None
    with Cons show ?thesis by auto
  next
    case (Some w)
    have "v \<in> set (value_rows iso_parse prefs rows chosen)
        \<or> v \<in> set (value_rows iso_parse prefs rows (AList.update (w_kind row) w chosen))"
      using Cons.prems Some by (auto split: option.splits if_splits)
    then show ?thesis
    proof
      assume "v \<in> set (value_rows iso_parse prefs rows chosen)"
      from Cons.IH [OF this] show ?thesis by auto
    next
      assume "v \<in> set (value_rows iso_parse prefs rows (AList.update (w_kind row) w chosen))"
      from Cons.IH [OF this] show ?thesis
        using set_alist_update [of "w_kind row" w chosen] Some by auto
    qed
  qed
qed auto

lemma best_waste_max:
  "case best_waste vs b of
     None \<Rightarrow> b = None \<and> vs = []
   | Some m \<Rightarrow> m \<in> set vs \<union> set_option b \<and> (\<forall>v \<in> set vs \<union> set_option b. v_waste v \<le> v_waste m)"
proof (induction vs arbitrary: b)
  case Nil
  then show ?case by (cases b) auto
next
  case (Cons v vs)
  let ?b = "case b of None \<Rightarrow> Some v | Some b \<Rightarrow> if more_wasteful v b then Some v else Some b"
  have b: "set_option ?b \<subseteq> insert v (set_option b) \<and> (\<forall>x \<in> insert v (set_option b). \<exists>y \<in> set_option ?b. v_waste x \<le> v_waste y)"
    by (cases b) (auto simp: more_wasteful_def)
  have rec: "best_waste (v # vs) b = best_waste vs ?b" by simp
  show ?case
  proof (cases "best_waste vs ?b")
    case None
    with Cons.IH [of ?b] show ?thesis by (auto split: option.splits if_splits)
  next
    case (Some m)
    with Cons.IH [of ?b] have m: "m \<in> set vs \<union> set_option ?b" "\<forall>x \<in> set vs \<union> set_option ?b. v_waste x \<le> v_waste m"
      by simp_all
    have "m \<in> set (v # vs) \<union> set_option b" using m(1) b by auto
    moreover have "v_waste x \<le> v_waste m" if "x \<in> set (v # vs) \<union> set_option b" for x
    proof (cases "x \<in> set vs")
      case False
      with that obtain y where "y \<in> set_option ?b" "v_waste x \<le> v_waste y" using b by auto
      with m(2) show ?thesis by force
    qed (use m(2) in simp)
    ultimately show ?thesis unfolding rec Some by simp
  qed
qed

lemma value_row_bound:
  assumes "value_row iso_parse prefs row = Some v" "0 \<le> w_used row" "w_remaining row \<le> 10000"
  shows "v_row v = row \<and> 0 \<le> v_waste v \<and> v_waste v \<le> 10000"
proof -
  from assms(1) obtain duration t where dt: "0 < t" "t \<le> duration" and v: "v_row v = row"
    "v_waste v = waste iso_parse row duration t"
    by (auto simp: value_row_def not_le not_less split: option.splits if_splits)
  have "0 \<le> waste iso_parse row duration t \<and> waste iso_parse row duration t \<le> max 0 (w_remaining row)"
    by (rule waste_bounds [OF dt assms(2)]) (auto dest: ewma_nonneg)
  with v assms(3) show ?thesis by auto
qed

definition rows_ok :: "window_class list \<Rightarrow> bool" where
  "rows_ok classes \<longleftrightarrow> (\<forall>r. WRow r \<in> set classes \<longrightarrow> 0 \<le> w_used r \<and> w_remaining r \<le> 10000)"

lemma score_rows_sound:
  assumes "rows_ok classes" and "0 \<le> weight" and r: "r = score_rows iso_parse prefs weight nw classes"
  shows "q_tier r \<in> {0, 1, 2, 3} \<and> (q_excluded r \<longrightarrow> q_tier r = 3) \<and> 0 \<le> q_S r \<and> q_S r \<le> weight * 10000
    \<and> (q_tier r = 0 \<longrightarrow> p_waste_threshold_bp prefs \<le> q_S r)"
proof -
  define rows where "rows = concat (map (\<lambda>c. case c of WRow r \<Rightarrow> [r] | _ \<Rightarrow> []) classes)"
  define ranked where "ranked = value_rows iso_parse prefs rows []"
  define score where "score = weight * (case best_waste ranked None of None \<Rightarrow> 0 | Some b \<Rightarrow> v_waste b)"
  define good where "good = filter (\<lambda>v. confidence_ok (w_confidence (v_row v)) (p_require_confidence prefs)) ranked"
  define qual where "qual = (case best_waste good None of None \<Rightarrow> 0 | Some b \<Rightarrow> weight * v_waste b)"
  have rows: "0 \<le> w_used x \<and> w_remaining x \<le> 10000" if "x \<in> set rows" for x
    using that assms(1) by (auto simp: rows_def rows_ok_def split: window_class.splits)
  have ranked: "0 \<le> v_waste v \<and> v_waste v \<le> 10000" if "v \<in> set ranked" for v
    using value_rows_from [of v iso_parse prefs rows "[]"] that rows value_row_bound
    unfolding ranked_def by fastforce
  have score: "0 \<le> score \<and> score \<le> weight * 10000"
    using best_waste_max [where vs = ranked and b = None] ranked assms(2)
    by (auto simp: score_def mult_left_mono split: option.splits)
  have le: "qual \<le> score"
  proof (cases "best_waste good None")
    case None
    then show ?thesis using score by (simp add: qual_def)
  next
    case (Some b)
    then have "b \<in> set ranked" using best_waste_max [where vs = good and b = None] by (auto simp: good_def)
    then show ?thesis
      using Some best_waste_max [where vs = ranked and b = None] assms(2)
      by (auto simp: qual_def score_def intro: mult_left_mono split: option.splits)
  qed
  show ?thesis
    unfolding r score_rows_def Let_def rows_def [symmetric] ranked_def [symmetric] good_def [symmetric]
      score_def [symmetric] qual_def [symmetric]
    using score le assms(2) by simp
qed

lemma classify_row:
  assumes "classify_window iso_parse m inflight_runs est item = WRow x"
  shows "\<exists>d n. item = JObj d \<and> dget (dict_or_empty (dget d ''observation'')) ''used_bp'' = JInt n
    \<and> w_used x = n \<and> w_remaining x = 10000 - n
        - inflight_runs * estimate_for est (dget (dict_or_empty (dget d ''observation'')) ''window_kind'')"
proof -
  obtain d where d: "item = JObj d" using assms by (cases item) (auto simp: classify_window_def)
  show ?thesis
  proof (cases "dget (dict_or_empty (dget d ''observation'')) ''used_bp''")
    case (JInt n)
    with assms d show ?thesis by (auto simp: classify_window_def Let_def split: if_splits)
  qed (use assms d in \<open>auto simp: classify_window_def Let_def split: if_splits\<close>)
qed

text \<open>
  C24. The score is sound: a candidate has one of the four tiers, is excluded only in tier 3,
  its score is between 0 and the whole window times its weight, and tier 0 ("about to be
  wasted") is given only when the score reaches the configured threshold.
\<close>

theorem score_is_sound:
  assumes "score_candidate iso_parse windows now raw_prefs inflight_runs est weight = Inr r"
    and "0 \<le> weight" "0 \<le> inflight_runs" "\<forall>k. 0 \<le> estimate_for est k"
    and "\<forall>d n. JObj d \<in> set windows \<and> dget (dict_or_empty (dget d ''observation'')) ''used_bp'' = JInt n \<longrightarrow> 0 \<le> n"
  shows "q_tier r \<in> {0, 1, 2, 3} \<and> (q_excluded r \<longrightarrow> q_tier r = 3) \<and> 0 \<le> q_S r \<and> q_S r \<le> weight * 10000
    \<and> (q_tier r = 0 \<longrightarrow> (\<exists>prefs. read_prefs (resolve_prefs raw_prefs) = Inr prefs
                                \<and> p_waste_threshold_bp prefs \<le> q_S r))"
proof -
  from assms(1) obtain prefs where p: "read_prefs (resolve_prefs raw_prefs) = Inr prefs"
    and r: "r = score_rows iso_parse prefs weight (windows = [])
         (map (classify_window iso_parse (parse_time iso_parse now) inflight_runs est) windows)"
    by (auto simp: score_candidate_def bind_res_Inr_iff)
  have "0 \<le> w_used x \<and> w_remaining x \<le> 10000"
    if item: "item \<in> set windows" and x: "classify_window iso_parse m inflight_runs est item = WRow x" for item m x
  proof -
    obtain d n where d: "item = JObj d"
      and n: "dget (dict_or_empty (dget d ''observation'')) ''used_bp'' = JInt n" "w_used x = n"
      and rem: "w_remaining x = 10000 - n
        - inflight_runs * estimate_for est (dget (dict_or_empty (dget d ''observation'')) ''window_kind'')"
      using classify_row [OF x] by blast
    with assms(5) item have "0 \<le> n" by blast
    moreover have "0 \<le> inflight_runs * estimate_for est (dget (dict_or_empty (dget d ''observation'')) ''window_kind'')"
      using assms(3,4) by simp
    moreover note rem
    ultimately show ?thesis using n by simp
  qed
  then have "rows_ok (map (classify_window iso_parse (parse_time iso_parse now) inflight_runs est) windows)"
    by (force simp: rows_ok_def)
  from score_rows_sound [OF this assms(2) r] p show ?thesis by blast
qed

definition example_window :: json where
  "example_window = JObj [(''freshness'', JStr ''fresh''), (''observation'', JObj [(''used_bp'', JInt 2500),
     (''window_kind'', JStr ''weekly''), (''bucket_id'', JStr ''all''), (''confidence'', JStr ''high'')])]"

theorem score_is_sound_witness:
  "\<exists>r. score_candidate (\<lambda>_. None) [example_window] JNull JNull 1 (EstInt 100) 1 = Inr r
     \<and> 0 \<le> q_S r \<and> q_S r \<le> 10000"
proof -
  obtain prefs where "read_prefs (resolve_prefs JNull) = Inr prefs" using default_prefs by blast
  then obtain r where r: "score_candidate (\<lambda>_. None) [example_window] JNull JNull 1 (EstInt 100) 1 = Inr r"
    by (simp add: score_candidate_def)
  have "\<forall>k. 0 \<le> estimate_for (EstInt 100) k" by (simp add: estimate_for_def)
  moreover have "\<forall>d n. JObj d \<in> set [example_window] \<and> dget (dict_or_empty (dget d ''observation'')) ''used_bp'' = JInt n \<longrightarrow> 0 \<le> n"
    by (auto simp: example_window_def)
  ultimately show ?thesis using score_is_sound [OF r] r by auto
qed

end
