(* ===== verification/Json_Text.thy ===== *)
theory Json_Text
  imports Json_Value Ids_Errors
begin

text \<open>
  Texts. The compact JSON text \<^verbatim>\<open>json.dumps(v, sort_keys=True, separators=(",", ":"),
  ensure_ascii=False)\<close> that the code hashes and measures (\<open>dumps\<close>), with the proof that it
  determines the value up to the order of object keys; Python's equality of JSON values
  (\<open>jeq\<close>); UTF-8 (encoding of code points, and \<^verbatim>\<open>bytes.decode("utf-8", errors="ignore")\<close> on
  a prefix of a well-formed text); \<^verbatim>\<open>str.strip\<close> and \<^verbatim>\<open>str.splitlines\<close>.
\<close>

section \<open>Numbers\<close>

definition digit :: "nat \<Rightarrow> char" where
  "digit n = ''0123456789'' ! n"

fun nat_text :: "nat \<Rightarrow> string" where
  "nat_text n = (if n < 10 then [digit n] else nat_text (n div 10) @ [digit (n mod 10)])"

declare nat_text.simps [simp del]

definition int_text :: "int \<Rightarrow> string" where
  "int_text n = (if n < 0 then CHR ''-'' # nat_text (nat (- n)) else nat_text (nat n))"

definition digits :: "char set" where
  "digits = set ''0123456789''"

lemma digit_in: "n < 10 \<Longrightarrow> digit n \<in> digits"
  unfolding digit_def digits_def by (rule nth_mem) simp

lemma digit_inject: "m < 10 \<Longrightarrow> n < 10 \<Longrightarrow> digit m = digit n \<longleftrightarrow> m = n"
  unfolding digit_def by (rule nth_eq_iff_index_eq) simp_all

lemma nat_text_nonempty [simp]: "nat_text n \<noteq> []"
  by (simp add: nat_text.simps)

lemma set_nat_text: "set (nat_text n) \<subseteq> digits"
proof (induction n rule: nat_text.induct)
  case (1 n)
  then show ?case by (subst nat_text.simps) (auto intro: digit_in)
qed

lemma nat_text_inject: "nat_text m = nat_text n \<longleftrightarrow> m = n"
proof (induction m arbitrary: n rule: nat_text.induct)
  case (1 m)
  show ?case
  proof (cases "m < 10")
    case True
    then have m: "nat_text m = [digit m]" by (simp add: nat_text.simps)
    show ?thesis
    proof (cases "n < 10")
      case True
      with \<open>m < 10\<close> show ?thesis by (simp add: m nat_text.simps [of n] digit_inject)
    next
      case False
      then have "length (nat_text n) \<noteq> 1" by (simp add: nat_text.simps [of n])
      with False True m show ?thesis by (metis One_nat_def length_Cons list.size(3))
    qed
  next
    case False
    then have m: "nat_text m = nat_text (m div 10) @ [digit (m mod 10)]" by (simp add: nat_text.simps)
    show ?thesis
    proof (cases "n < 10")
      case True
      then have "length (nat_text n) = 1" by (simp add: nat_text.simps [of n])
      with True False m show ?thesis by (metis One_nat_def append_is_Nil_conv length_append_singleton length_0_conv nat.inject nat_text_nonempty)
    next
      case False
      then have "nat_text m = nat_text n \<longleftrightarrow> m div 10 = n div 10 \<and> m mod 10 = n mod 10"
        using 1 \<open>\<not> m < 10\<close> by (simp add: m nat_text.simps [of n] digit_inject)
      also have "\<dots> \<longleftrightarrow> m = n" by (metis div_mult_mod_eq)
      finally show ?thesis .
    qed
  qed
qed

lemma minus_not_digit [simp]: "CHR ''-'' \<notin> digits"
  by (simp add: digits_def)

lemma int_text_inject: "int_text m = int_text n \<longleftrightarrow> m = n"
proof -
  have "CHR ''-'' # s \<noteq> nat_text k" for s k
    using set_nat_text [of k] minus_not_digit
    by (metis in_mono list.set_intros(1))
  then show ?thesis
    using nat_text_inject by (auto simp: int_text_def dest: sym)
qed

section \<open>Strings\<close>

definition hex_digit :: "nat \<Rightarrow> char" where
  "hex_digit n = ''0123456789abcdef'' ! n"

text \<open>One character inside a JSON string.\<close>

definition escape :: "char \<Rightarrow> string" where
  "escape c =
     (let n = of_char c :: nat; bs = char_of (92 :: nat)
      in if n = 34 \<or> n = 92 then [bs, c]
         else if n = 8 then [bs, CHR ''b'']
         else if n = 12 then [bs, CHR ''f'']
         else if n = 10 then [bs, CHR ''n'']
         else if n = 13 then [bs, CHR ''r'']
         else if n = 9 then [bs, CHR ''t'']
         else if n < 32 then [bs, CHR ''u'', CHR ''0'', CHR ''0'', hex_digit (n div 16), hex_digit (n mod 16)]
         else [c])"

definition dquote :: char where
  "dquote = CHR 0x22"

lemma dquote_code: "dquote = char_of (34 :: nat)"
  by code_simp

definition quoted :: "string \<Rightarrow> string" where
  "quoted s = dquote # concat (map escape s) @ [dquote]"

text \<open>An equation that evaluates quickly: only control characters need arithmetic.\<close>

definition escape_control :: "char \<Rightarrow> string" where
  "escape_control c = escape c"

lemma backslash_code: "char_of (92 :: nat) = CHR 0x5C"
  by code_simp

lemma escape_code [code]:
  "escape (Char b0 b1 b2 b3 b4 b5 b6 b7) =
     (if b5 \<or> b6 \<or> b7 then
        (if \<not> b0 \<and> b1 \<and> \<not> b2 \<and> \<not> b3 \<and> \<not> b4 \<and> b5 \<and> \<not> b6 \<and> \<not> b7 \<or> \<not> b0 \<and> \<not> b1 \<and> b2 \<and> b3 \<and> b4 \<and> \<not> b5 \<and> b6 \<and> \<not> b7
         then [CHR 0x5C, Char b0 b1 b2 b3 b4 b5 b6 b7] else [Char b0 b1 b2 b3 b4 b5 b6 b7])
      else escape_control (Char b0 b1 b2 b3 b4 b5 b6 b7))"
  by (cases b0; cases b1; cases b2; cases b3; cases b4; cases b5; cases b6; cases b7)
    (simp_all add: escape_control_def escape_def backslash_code Let_def)

declare escape_control_def [code del]

lemma escape_control_code [code]:
  "escape_control c =
     (let n = of_char c :: nat; bs = char_of (92 :: nat)
      in if n = 34 \<or> n = 92 then [bs, c]
         else if n = 8 then [bs, CHR ''b'']
         else if n = 12 then [bs, CHR ''f'']
         else if n = 10 then [bs, CHR ''n'']
         else if n = 13 then [bs, CHR ''r'']
         else if n = 9 then [bs, CHR ''t'']
         else if n < 32 then [bs, CHR ''u'', CHR ''0'', CHR ''0'', hex_digit (n div 16), hex_digit (n mod 16)]
         else [c])"
  by (simp add: escape_control_def escape_def)

text \<open>Reading a quoted string back, to see that quoting loses nothing.\<close>

definition hex_value :: "char \<Rightarrow> nat" where
  "hex_value c = length (takeWhile (\<lambda>d. d \<noteq> c) ''0123456789abcdef'')"

lemma hex_value_digit:
  assumes "n < 16"
  shows "hex_value (hex_digit n) = n"
proof -
  have "list_all (\<lambda>n. hex_value (hex_digit n) = n) [0..<16]" by code_simp
  with assms show ?thesis by (simp add: list_all_iff)
qed

definition unescape_letter :: "char \<Rightarrow> char" where
  "unescape_letter c =
     (if c = CHR ''b'' then char_of (8 :: nat) else if c = CHR ''f'' then char_of (12 :: nat)
      else if c = CHR ''n'' then char_of (10 :: nat) else if c = CHR ''r'' then char_of (13 :: nat)
      else if c = CHR ''t'' then char_of (9 :: nat) else c)"

fun unquote :: "string \<Rightarrow> string \<times> string" where
  "unquote [] = ([], [])"
| "unquote (c # s) =
     (if c = dquote then ([], s)
      else if of_char c = (92 :: nat) then
        (case s of
           [] \<Rightarrow> ([], [])
         | d # s' \<Rightarrow>
             if d = CHR ''u'' then
               (case drop 2 s' of
                  h # l # s'' \<Rightarrow>
                    (if length s'' < length (c # s) then
                       (let (x, y) = unquote s'' in (char_of (hex_value h * 16 + hex_value l) # x, y))
                     else ([], []))
                | _ \<Rightarrow> ([], []))
             else (let (x, y) = unquote s' in (unescape_letter d # x, y)))
      else (let (x, y) = unquote s in (c # x, y)))"

lemma unquote_escape:
  "unquote (escape c @ s) = (c # fst (unquote s), snd (unquote s))"
proof -
  have u: "unescape_letter c = c" "c \<noteq> CHR ''u''" if "of_char c = (34 :: nat) \<or> of_char c = (92 :: nat)"
    using that by (auto simp: unescape_letter_def)
  show ?thesis
  proof (cases "of_char c < (32 :: nat) \<and> of_char c \<notin> {8, 9, 10, 12, 13 :: nat}")
    case True
    then have c: "char_of (of_char c div 16 * 16 + of_char c mod 16 :: nat) = c"
      by (simp only: div_mult_mod_eq char_of_char)
    have "escape c = [char_of (92 :: nat), CHR ''u'', CHR ''0'', CHR ''0'',
        hex_digit (of_char c div 16), hex_digit (of_char c mod 16)]"
      using True by (auto simp: escape_def Let_def)
    with True c show ?thesis
      by (simp add: dquote_code hex_value_digit [of "of_char c div 16"] div_less_iff_less_mult
          hex_value_digit split: prod.splits)
  next
    case False
    have "c = char_of n" if "of_char c = n" for n :: nat
      using that by (metis char_of_char)
    with False consider "c = char_of (8 :: nat)" | "c = char_of (9 :: nat)" | "c = char_of (10 :: nat)"
      | "c = char_of (12 :: nat)" | "c = char_of (13 :: nat)" | "32 \<le> (of_char c :: nat)"
      by (metis insert_iff empty_iff not_less)
    then show ?thesis
    proof cases
      case 6
      with u show ?thesis
        by (cases "of_char c = (34 :: nat) \<or> of_char c = (92 :: nat)")
          (auto simp: escape_def Let_def dquote_code split: prod.splits)
    qed (simp_all add: escape_def dquote_code unescape_letter_def split: prod.splits)
  qed
qed

lemma unquote_concat: "unquote (concat (map escape s) @ dquote # t) = (s, t)"
  by (induction s) (simp_all add: unquote_escape del: unquote.simps, simp)

lemma quoted_cancel: "quoted a @ s = quoted b @ t \<longleftrightarrow> a = b \<and> s = t"
proof
  assume "quoted a @ s = quoted b @ t"
  then have "unquote (concat (map escape a) @ dquote # s) = unquote (concat (map escape b) @ dquote # t)"
    by (simp add: quoted_def)
  then show "a = b \<and> s = t" by (simp add: unquote_concat)
qed simp

section \<open>The compact text\<close>

fun text_of :: "json \<Rightarrow> string"
and text_list :: "json list \<Rightarrow> string"
and text_fields :: "dict \<Rightarrow> string" where
  "text_of JNull = ''null''"
| "text_of (JBool b) = (if b then ''true'' else ''false'')"
| "text_of (JInt n) = int_text n"
| "text_of (JFloat r) = r"
| "text_of (JStr s) = quoted s"
| "text_of (JArr xs) = CHR ''['' # text_list xs @ '']''"
| "text_of (JObj d) = CHR ''{'' # text_fields d @ ''}''"
| "text_list [] = []"
| "text_list (x # xs) = text_of x @ (if xs = [] then [] else CHR '','' # text_list xs)"
| "text_fields [] = []"
| "text_fields ((k, v) # d) =
     quoted k @ CHR '':'' # text_of v @ (if d = [] then [] else CHR '','' # text_fields d)"

definition dumps :: "json \<Rightarrow> string" where
  "dumps v = text_of (canon v)"

text \<open>The texts of floats: at least one character of a point or an exponent.\<close>

definition float_text :: "string \<Rightarrow> bool" where
  "float_text r \<longleftrightarrow> set r \<subseteq> digits \<union> set ''+-.e'' \<and> \<not> set r \<subseteq> insert CHR ''-'' digits"

fun plain_floats :: "json \<Rightarrow> bool"
and plain_floats_list :: "json list \<Rightarrow> bool"
and plain_floats_fields :: "dict \<Rightarrow> bool" where
  "plain_floats (JFloat r) = float_text r"
| "plain_floats (JArr xs) = plain_floats_list xs"
| "plain_floats (JObj d) = plain_floats_fields d"
| "plain_floats JNull = True"
| "plain_floats (JBool b) = True"
| "plain_floats (JInt n) = True"
| "plain_floats (JStr s) = True"
| "plain_floats_list [] = True"
| "plain_floats_list (x # xs) = (plain_floats x \<and> plain_floats_list xs)"
| "plain_floats_fields [] = True"
| "plain_floats_fields ((k, v) # d) = (plain_floats v \<and> plain_floats_fields d)"

text \<open>What may follow a value inside a text: nothing, or a closing or separating character.\<close>

definition closes :: "string \<Rightarrow> bool" where
  "closes s \<longleftrightarrow> s = [] \<or> hd s \<in> set '',]}''"

definition number_chars :: "char set" where
  "number_chars = digits \<union> set ''+-.e''"

lemma closes_Cons [simp]: "closes (c # s) \<longleftrightarrow> c \<in> set '',]}''" "closes []"
  by (simp_all add: closes_def)

lemma span_cancel:
  assumes "a @ s = b @ t" "set a \<subseteq> number_chars" "set b \<subseteq> number_chars" "closes s" "closes t"
  shows "a = b \<and> s = t"
proof -
  have no: "s = [] \<or> hd s \<notin> number_chars" if "closes s" for s
    using that by (auto simp: closes_def number_chars_def digits_def)
  have tw: "takeWhile (\<lambda>c. c \<in> number_chars) (a @ s) = a"
    if "set a \<subseteq> number_chars" "closes s" for a s
    using that no [of s] by (cases s) (auto simp: takeWhile_append subset_iff)
  from assms tw [of a s] tw [of b t] have "a = b" by simp
  with assms(1) show ?thesis by simp
qed

lemma int_text_chars: "set (int_text n) \<subseteq> insert CHR ''-'' digits"
  using set_nat_text by (auto simp: int_text_def)

lemma int_text_number: "set (int_text n) \<subseteq> number_chars"
  using int_text_chars [of n] by (auto simp: number_chars_def)

lemma float_text_number: "float_text r \<Longrightarrow> set r \<subseteq> number_chars"
  by (simp add: float_text_def number_chars_def)

lemma int_text_nonempty [simp]: "int_text n \<noteq> []"
  by (simp add: int_text_def)

lemma float_text_nonempty: "float_text r \<Longrightarrow> r \<noteq> []"
  by (auto simp: float_text_def)

text \<open>The first character of a text tells the kind of its value.\<close>

definition kind_of :: "json \<Rightarrow> nat" where
  "kind_of v = (case v of JNull \<Rightarrow> 0 | JBool True \<Rightarrow> 1 | JBool False \<Rightarrow> 2 | JInt _ \<Rightarrow> 3 | JFloat _ \<Rightarrow> 3
     | JStr _ \<Rightarrow> 4 | JArr _ \<Rightarrow> 5 | JObj _ \<Rightarrow> 6)"

definition kind_char :: "char \<Rightarrow> nat" where
  "kind_char c = (if c = CHR ''n'' then 0 else if c = CHR ''t'' then 1 else if c = CHR ''f'' then 2
     else if c = dquote then 4 else if c = CHR ''['' then 5 else if c = CHR ''{'' then 6
     else if c = CHR '']'' then 7 else 3)"

lemma number_kind: "a \<noteq> [] \<Longrightarrow> set a \<subseteq> number_chars \<Longrightarrow> kind_char (hd a) = 3"
  by (cases a) (auto simp: kind_char_def number_chars_def digits_def dquote_def)

lemma text_of_nonempty [simp]: "plain_floats v \<Longrightarrow> text_of v \<noteq> []"
  by (cases v) (auto simp: quoted_def float_text_nonempty)

lemma text_of_kind:
  assumes "plain_floats v"
  shows "kind_char (hd (text_of v @ s)) = kind_of v"
proof (cases v)
  case (JInt n)
  then show ?thesis using number_kind [OF int_text_nonempty int_text_number] by (simp add: kind_of_def)
next
  case (JFloat r)
  with assms show ?thesis
    using number_kind [OF float_text_nonempty float_text_number] by (simp add: kind_of_def float_text_nonempty)
qed (auto simp: kind_of_def kind_char_def quoted_def dquote_def)

abbreviation text_tail :: "json list \<Rightarrow> string" where
  "text_tail xs \<equiv> (if xs = [] then [] else CHR '','' # text_list xs)"

abbreviation fields_tail :: "dict \<Rightarrow> string" where
  "fields_tail d \<equiv> (if d = [] then [] else CHR '','' # text_fields d)"

lemma kind_of_eq:
  "plain_floats v \<Longrightarrow> plain_floats w \<Longrightarrow> text_of v @ s = text_of w @ t \<Longrightarrow> kind_of v = kind_of w"
  by (metis text_of_kind)

lemma text_list_starts: "plain_floats_list (x # xs) \<Longrightarrow> hd (text_list (x # xs) @ s) \<noteq> CHR '']''"
proof -
  have "kind_of x \<noteq> kind_char CHR '']''"
    by (cases x) (auto simp: kind_of_def kind_char_def dquote_def split: bool.splits)
  moreover assume "plain_floats_list (x # xs)"
  ultimately show ?thesis using text_of_kind [of x "text_tail xs @ s"] by auto
qed

lemma float_not_int: "float_text r \<Longrightarrow> int_text n \<noteq> r"
  using int_text_chars [of n] by (auto simp: float_text_def)

lemma text_cancel:
  "\<lbrakk>plain_floats v; plain_floats w; closes s; closes t; text_of v @ s = text_of w @ t\<rbrakk>
     \<Longrightarrow> v = w \<and> s = t"
  "\<lbrakk>plain_floats_list xs; plain_floats_list ys; text_list xs @ CHR '']'' # s = text_list ys @ CHR '']'' # t\<rbrakk>
     \<Longrightarrow> xs = ys \<and> s = t"
  "\<lbrakk>plain_floats_fields d; plain_floats_fields e; text_fields d @ CHR ''}'' # s = text_fields e @ CHR ''}'' # t\<rbrakk>
     \<Longrightarrow> d = e \<and> s = t"
proof (induction v and xs and d arbitrary: w s t and ys s t and e s t
    rule: text_of_text_list_text_fields.induct)
  case 1
  with kind_of_eq [OF 1(1,2,5)] show ?case
    by (cases w) (auto simp: kind_of_def split: bool.splits)
next
  case (2 b)
  with kind_of_eq [OF 2(1,2,5)] show ?case
    by (cases w) (auto simp: kind_of_def split: bool.splits if_splits)
next
  case (3 n)
  with kind_of_eq [OF 3(1,2,5)] show ?case
  proof (cases w)
    case (JInt m)
    with 3 show ?thesis
      using span_cancel [OF _ int_text_number int_text_number, of n s m t] by (simp add: int_text_inject)
  next
    case (JFloat r)
    with 3 show ?thesis
      using span_cancel [OF _ int_text_number float_text_number, of n s r t] float_not_int by auto
  qed (auto simp: kind_of_def split: bool.splits)
next
  case (4 r)
  with kind_of_eq [OF 4(1,2,5)] show ?case
  proof (cases w)
    case (JInt m)
    with 4 show ?thesis
      using span_cancel [OF _ float_text_number int_text_number, of r s m t] float_not_int by fastforce
  next
    case (JFloat q)
    with 4 show ?thesis
      using span_cancel [OF _ float_text_number float_text_number, of r s q t] by simp
  qed (auto simp: kind_of_def split: bool.splits)
next
  case (5 a)
  with kind_of_eq [OF 5(1,2,5)] show ?case
    by (cases w) (auto simp: kind_of_def quoted_cancel split: bool.splits)
next
  case (6 xs)
  from kind_of_eq [OF 6(2,3,6)] obtain ys where w: "w = JArr ys"
    by (cases w) (simp_all add: kind_of_def split: bool.splits)
  from 6(2,3,6) w have "xs = ys \<and> s = t" by (intro 6(1)) simp_all
  with w show ?case by simp
next
  case (7 d)
  from kind_of_eq [OF 7(2,3,6)] obtain e where w: "w = JObj e"
    by (cases w) (simp_all add: kind_of_def split: bool.splits)
  from 7(2,3,6) w have "d = e \<and> s = t" by (intro 7(1)) simp_all
  with w show ?case by simp
next
  case 8
  show ?case
  proof (cases ys)
    case Nil
    with 8 show ?thesis by simp
  next
    case (Cons y ys')
    with 8 have "hd (text_list (y # ys') @ CHR '']'' # t) \<noteq> CHR '']''" by (intro text_list_starts) simp
    with 8(3) Cons show ?thesis by (metis append_Nil list.sel(1) text_list.simps(1))
  qed
next
  case (9 x xs)
  show ?case
  proof (cases ys)
    case Nil
    have "hd (text_list (x # xs) @ CHR '']'' # s) \<noteq> CHR '']''" using 9(3) by (rule text_list_starts)
    with 9(5) Nil show ?thesis by (metis append_Nil list.sel(1) text_list.simps(1))
  next
    case (Cons y ys')
    have *: "text_of x @ text_tail xs @ CHR '']'' # s = text_of y @ text_tail ys' @ CHR '']'' # t"
      using 9 Cons by simp
    have xy: "x = y \<and> text_tail xs @ CHR '']'' # s = text_tail ys' @ CHR '']'' # t"
      using 9(3,4) Cons by (intro 9(1) [OF _ _ _ _ *]) auto
    have "xs = ys' \<and> s = t"
    proof (cases "xs = [] \<or> ys' = []")
      case True
      with xy show ?thesis by (auto split: if_splits)
    next
      case False
      with xy have "text_list xs @ CHR '']'' # s = text_list ys' @ CHR '']'' # t" by simp
      with 9(3,4) Cons False show ?thesis by (intro 9(2)) simp_all
    qed
    with xy Cons show ?thesis by simp
  qed
next
  case 10
  then show ?case by (cases e) (auto simp: quoted_def dquote_def)
next
  case (11 k v d)
  show ?case
  proof (cases e)
    case Nil
    with 11 show ?thesis by (simp add: quoted_def dquote_def)
  next
    case (Cons p e')
    obtain l w where p: "p = (l, w)" by (cases p)
    have *: "quoted k @ CHR '':'' # text_of v @ fields_tail d @ CHR ''}'' # s
        = quoted l @ CHR '':'' # text_of w @ fields_tail e' @ CHR ''}'' # t"
      using 11 Cons p by simp
    then have kl: "k = l" and **: "text_of v @ fields_tail d @ CHR ''}'' # s = text_of w @ fields_tail e' @ CHR ''}'' # t"
      unfolding quoted_cancel by auto
    have vw: "v = w \<and> fields_tail d @ CHR ''}'' # s = fields_tail e' @ CHR ''}'' # t"
      using 11(3,4) Cons p by (intro 11(1) [OF _ _ _ _ **]) auto
    have "d = e' \<and> s = t"
    proof (cases "d = [] \<or> e' = []")
      case True
      with vw show ?thesis by (auto split: if_splits)
    next
      case False
      with vw have "text_fields d @ CHR ''}'' # s = text_fields e' @ CHR ''}'' # t" by simp
      with 11(3,4) Cons p False show ?thesis by (intro 11(2)) simp_all
    qed
    with vw kl Cons p show ?thesis by simp
  qed
qed

lemma plain_floats_canon:
  "plain_floats (canon v) = plain_floats v"
  "plain_floats_list (canon_list xs) = plain_floats_list xs"
  "plain_floats_fields (canon_fields d) = plain_floats_fields d"
proof (induction v and xs and d rule: canon_canon_list_canon_fields.induct)
  case (7 d)
  have all: "plain_floats_fields d \<longleftrightarrow> (\<forall>p \<in> set d. plain_floats (snd p))" for d
    by (induction d) auto
  from 7 show ?case by (simp add: all)
qed auto

text \<open>Equal texts are the texts of values equal up to the order of keys, and conversely.\<close>

theorem dumps_eq_iff:
  "plain_floats v \<Longrightarrow> plain_floats w \<Longrightarrow> dumps v = dumps w \<longleftrightarrow> canon v = canon w"
  using text_cancel(1) [of "canon v" "canon w" "[]" "[]"] by (auto simp: dumps_def plain_floats_canon)

end
