(* ===== verification/Text_Tools.thy ===== *)
theory Text_Tools
  imports Json_Text
begin

text \<open>
  What the code uses of Python's texts, on their UTF-8 encoding: equality of JSON values,
  encoding of code points, cutting an encoded text at a byte count, \<^verbatim>\<open>strip\<close>, \<^verbatim>\<open>splitlines\<close>
  and \<^verbatim>\<open>join\<close>.
\<close>

section \<open>Equality of JSON values\<close>

text \<open>
  \<^verbatim>\<open>v == w\<close>: objects without regard to the order of keys, \<^verbatim>\<open>True\<close> and \<^verbatim>\<open>False\<close> as 1 and 0,
  and a float with an integral value like that integer. \<open>fi\<close> is \<^verbatim>\<open>int(float(r))\<close> for the text
  of an integral float and \<open>None\<close> for every other float.
\<close>

fun jnum :: "(string \<Rightarrow> int option) \<Rightarrow> json \<Rightarrow> json"
and jnum_list :: "(string \<Rightarrow> int option) \<Rightarrow> json list \<Rightarrow> json list"
and jnum_fields :: "(string \<Rightarrow> int option) \<Rightarrow> dict \<Rightarrow> dict" where
  "jnum fi JNull = JNull"
| "jnum fi (JBool b) = JInt (if b then 1 else 0)"
| "jnum fi (JInt n) = JInt n"
| "jnum fi (JFloat r) = (case fi r of Some n \<Rightarrow> JInt n | None \<Rightarrow> JFloat r)"
| "jnum fi (JStr s) = JStr s"
| "jnum fi (JArr xs) = JArr (jnum_list fi xs)"
| "jnum fi (JObj d) = JObj (jnum_fields fi d)"
| "jnum_list fi [] = []"
| "jnum_list fi (x # xs) = jnum fi x # jnum_list fi xs"
| "jnum_fields fi [] = []"
| "jnum_fields fi ((k, v) # d) = (k, jnum fi v) # jnum_fields fi d"

definition jeq :: "(string \<Rightarrow> int option) \<Rightarrow> json \<Rightarrow> json \<Rightarrow> bool" where
  "jeq fi v w \<longleftrightarrow> canon (jnum fi v) = canon (jnum fi w)"

lemma jeq_refl [simp]: "jeq fi v v"
  by (simp add: jeq_def)

lemma jeq_sym: "jeq fi v w \<longleftrightarrow> jeq fi w v"
  by (auto simp: jeq_def)

lemma jeq_trans: "jeq fi u v \<Longrightarrow> jeq fi v w \<Longrightarrow> jeq fi u w"
  by (simp add: jeq_def)

lemma jeq_JStr [simp]: "jeq fi (JStr s) (JStr t) \<longleftrightarrow> s = t"
  by (auto simp: jeq_def)

section \<open>UTF-8\<close>

definition utf8_char :: "nat \<Rightarrow> string" where
  "utf8_char n =
     (if n < 0x80 then [char_of n]
      else if n < 0x800 then [char_of (0xC0 + n div 64), char_of (0x80 + n mod 64)]
      else if n < 0x10000 then
        [char_of (0xE0 + n div 4096), char_of (0x80 + n div 64 mod 64), char_of (0x80 + n mod 64)]
      else [char_of (0xF0 + n div 262144), char_of (0x80 + n div 4096 mod 64),
            char_of (0x80 + n div 64 mod 64), char_of (0x80 + n mod 64)])"

definition utf8 :: "nat list \<Rightarrow> string" where
  "utf8 cs = concat (map utf8_char cs)"

text \<open>The length of the sequence a lead byte opens.\<close>

definition seq_len :: "char \<Rightarrow> nat" where
  "seq_len c = (let n = of_char c :: nat in if n < 0x80 then 1 else if n < 0xE0 then 2 else if n < 0xF0 then 3 else 4)"

definition continuation :: "char \<Rightarrow> bool" where
  "continuation c \<longleftrightarrow> (of_char c :: nat) div 64 = 2"

lemma seq_len_pos [simp]: "0 < seq_len c"
  by (simp add: seq_len_def Let_def)

lemma seq_len_le: "seq_len c \<le> 4"
  by (simp add: seq_len_def Let_def)

text \<open>\<^verbatim>\<open>len(s)\<close> and \<^verbatim>\<open>s[:n]\<close> count code points.\<close>

definition char_count :: "string \<Rightarrow> nat" where
  "char_count s = length (filter (\<lambda>c. \<not> continuation c) s)"

fun take_chars :: "nat \<Rightarrow> string \<Rightarrow> string" where
  "take_chars 0 s = []"
| "take_chars (Suc n) [] = []"
| "take_chars (Suc n) (c # s) = c # takeWhile continuation s @ take_chars n (dropWhile continuation s)"

text \<open>A text is a list of complete sequences.\<close>

function wf_utf8 :: "string \<Rightarrow> bool" where
  "wf_utf8 [] = True"
| "wf_utf8 (c # s) \<longleftrightarrow>
     \<not> continuation c \<and> seq_len c - 1 \<le> length s \<and> list_all continuation (take (seq_len c - 1) s)
     \<and> wf_utf8 (drop (seq_len c - 1) s)"
  by pat_completeness auto
termination by (relation "measure length") (auto simp: less_Suc_eq_le)

text \<open>The complete sequences of a cut text: what decoding with \<^verbatim>\<open>errors="ignore"\<close> keeps.\<close>

function complete_prefix :: "string \<Rightarrow> string" where
  "complete_prefix [] = []"
| "complete_prefix (c # s) =
     (if length s < seq_len c - 1 then []
      else c # take (seq_len c - 1) s @ complete_prefix (drop (seq_len c - 1) s))"
  by pat_completeness auto
termination by (relation "measure length") (auto simp: less_Suc_eq_le)

definition truncate_utf8 :: "string \<Rightarrow> nat \<Rightarrow> string \<times> bool" where
  "truncate_utf8 text max_bytes =
     (if length text \<le> max_bytes then (text, False)
      else (complete_prefix (take max_bytes text), True))"

lemma complete_prefix_prefix: "\<exists>t. s = complete_prefix s @ t \<and> length t < 4"
proof (induction s rule: complete_prefix.induct)
  case (2 c s)
  show ?case
  proof (cases "length s < seq_len c - 1")
    case True
    then show ?thesis using seq_len_le [of c] by simp
  next
    case False
    with 2 obtain t where t: "drop (seq_len c - 1) s = complete_prefix (drop (seq_len c - 1) s) @ t" "length t < 4"
      by blast
    then have "s = take (seq_len c - 1) s @ complete_prefix (drop (seq_len c - 1) s) @ t"
      by (metis append_take_drop_id)
    with t(2) False show ?thesis by auto
  qed
qed simp

lemma wf_complete_prefix: "wf_utf8 s \<Longrightarrow> wf_utf8 (complete_prefix (take n s))"
proof (induction s arbitrary: n rule: wf_utf8.induct)
  case (2 c s)
  show ?case
  proof (cases n)
    case (Suc m)
    obtain k where k: "seq_len c = Suc k" using gr0_implies_Suc [OF seq_len_pos] by blast
    show ?thesis
    proof (cases "m < k")
      case False
      then have t: "take k (take m s) = take k s" "drop k (take m s) = take (m - k) (drop k s)"
        by (simp_all add: min_def drop_take)
      have "wf_utf8 (complete_prefix (take (m - k) (drop k s)))" using 2 by (simp add: k)
      with 2(2) False Suc show ?thesis
        by (simp add: k t del: take_take drop_take)
    qed (simp add: Suc k min_less_iff_disj)
  qed simp
qed simp

lemma truncate_utf8_fits: "length (fst (truncate_utf8 s n)) \<le> n"
proof -
  obtain t where "take n s = complete_prefix (take n s) @ t" using complete_prefix_prefix by blast
  then have "length (complete_prefix (take n s)) \<le> length (take n s)"
    by (metis le_add1 length_append)
  then show ?thesis by (simp add: truncate_utf8_def)
qed

section \<open>White space and lines\<close>

text \<open>\<^verbatim>\<open>rstrip\<close> works on the reversed text, where the bytes of a space come last first.\<close>

fun lstrip_rev :: "string \<Rightarrow> string" where
  "lstrip_rev [] = []"
| "lstrip_rev [a] = (if ascii_space a then [] else [a])"
| "lstrip_rev [a, b] = (if ascii_space a then lstrip_rev [b] else if space2 b a then [] else [a, b])"
| "lstrip_rev (a # b # c # s) =
     (if ascii_space a then lstrip_rev (b # c # s)
      else if space2 b a then lstrip_rev (c # s)
      else if space3 c b a then lstrip_rev s
      else a # b # c # s)"

definition rstrip :: "string \<Rightarrow> string" where
  "rstrip s = rev (lstrip_rev (rev s))"

definition strip :: "string \<Rightarrow> string" where
  "strip s = rstrip (lstrip s)"

text \<open>The bytes of the line boundary a text starts with, 0 where it starts with none.\<close>

definition line_break :: "string \<Rightarrow> nat" where
  "line_break s =
     (case map of_char s :: nat list of
        [] \<Rightarrow> 0
      | a # r \<Rightarrow>
          if a = 13 \<and> r \<noteq> [] \<and> hd r = 10 then 2
          else if a \<in> set [10, 11, 12, 13, 28, 29, 30] then 1
          else if a = 0xC2 \<and> r \<noteq> [] \<and> hd r = 0x85 then 2
          else if a = 0xE2 \<and> (case r of b # c # _ \<Rightarrow> b = 0x80 \<and> (c = 0xA8 \<or> c = 0xA9) | _ \<Rightarrow> False) then 3
          else 0)"

function lines_from :: "string \<Rightarrow> string \<Rightarrow> string list" where
  "lines_from cur [] = (if cur = [] then [] else [rev cur])"
| "lines_from cur (c # s) =
     (case line_break (c # s) of
        0 \<Rightarrow> lines_from (c # cur) s
      | Suc n \<Rightarrow> rev cur # lines_from [] (drop n s))"
  by pat_completeness auto
termination by (relation "measure (\<lambda>(cur, s). length s)") auto

definition splitlines :: "string \<Rightarrow> string list" where
  "splitlines s = lines_from [] s"

fun join :: "string \<Rightarrow> string list \<Rightarrow> string" where
  "join sep [] = []"
| "join sep [x] = x"
| "join sep (x # y # ys) = x @ sep @ join sep (y # ys)"

definition newline :: string where
  "newline = [CHR 0x0A]"

definition starts_with :: "string \<Rightarrow> string \<Rightarrow> bool" where
  "starts_with p s \<longleftrightarrow> take (length p) s = p"

definition ends_with :: "string \<Rightarrow> string \<Rightarrow> bool" where
  "ends_with p s \<longleftrightarrow> starts_with (rev p) (rev s)"

text \<open>\<^verbatim>\<open>s.split(c)\<close> for an ASCII character, and \<^verbatim>\<open>s.replace(a, b)\<close> for two of them.\<close>

fun split_on :: "char \<Rightarrow> string \<Rightarrow> string list" where
  "split_on c [] = [[]]"
| "split_on c (x # s) =
     (if x = c then [] # split_on c s
      else (case split_on c s of [] \<Rightarrow> [[x]] | t # ts \<Rightarrow> (x # t) # ts))"

definition replace_char :: "char \<Rightarrow> char \<Rightarrow> string \<Rightarrow> string" where
  "replace_char a b s = map (\<lambda>c. if c = a then b else c) s"

text \<open>\<^verbatim>\<open>[A-Za-z0-9._-]\<close>\<close>

definition name_char :: "char \<Rightarrow> bool" where
  "name_char c = (let n = of_char c :: nat in
     48 \<le> n \<and> n \<le> 57 \<or> 65 \<le> n \<and> n \<le> 90 \<or> 97 \<le> n \<and> n \<le> 122 \<or> n \<in> set [45, 46, 95])"

lemma in_join: "x \<in> set xs \<Longrightarrow> \<exists>a b. join sep xs = a @ x @ b"
proof (induction sep xs rule: join.induct)
  case (3 sep x' y ys)
  show ?case
  proof (cases "x = x'")
    case True
    then have "join sep (x' # y # ys) = [] @ x @ (sep @ join sep (y # ys))" by simp
    then show ?thesis by blast
  next
    case False
    with 3 obtain a b where "join sep (y # ys) = a @ x @ b" by auto
    then have "join sep (x' # y # ys) = (x' @ sep @ a) @ x @ b" by simp
    then show ?thesis by blast
  qed
next
  case (2 sep y)
  then have "join sep [y] = [] @ x @ []" by simp
  then show ?case by blast
qed simp

section \<open>Lengths\<close>

lemma join_length: "length (join sep xs) = sum_list (map length xs) + (length xs - 1) * length sep"
  by (induction sep xs rule: join.induct) auto

lemma utf8_length: "length (utf8 cs) = sum_list (map (\<lambda>n. length (utf8_char n)) cs)"
  by (simp add: utf8_def length_concat comp_def)

end
