(* ===== verification/Capsule_Model.thy ===== *)
theory Capsule_Model
  imports Text_Tools
begin

text \<open>
  The continuation capsule, \<^verbatim>\<open>src/asterun/capsule/model.py\<close>: what a run hands to the run
  that continues it. Building trims the optional part to a byte budget and never touches the
  mandatory part; validating recomputes every digest. \<open>H\<close> is \<^verbatim>\<open>hashlib.sha256(b).hexdigest()\<close>.
  The mutable dictionaries of the builder are threaded as values: the trimming state is the
  notes, the progress and the list of steps taken so far.
\<close>

definition SCHEMA :: string where
  "SCHEMA = ''asterun.capsule/v1''"

definition RENDER_VERSION :: int where "RENDER_VERSION = 1"
definition NONMANDATORY_SOFT :: int where "NONMANDATORY_SOFT = 16384"
definition NONMANDATORY_HARD :: int where "NONMANDATORY_HARD = 24576"
definition NOTES_MAX :: nat where "NOTES_MAX = 4096"
definition MAX_FILES :: nat where "MAX_FILES = 200"
definition MAX_COMMANDS :: nat where "MAX_COMMANDS = 30"
definition MAX_SEGMENT_DETAIL :: nat where "MAX_SEGMENT_DETAIL = 3"

definition TRIGGERS :: "string list" where
  "TRIGGERS = [''segment_end'', ''budget_soft'', ''lost_reconciled'', ''pre_repair'', ''manual'', ''observe_only'']"

definition MANDATORY_KEYS :: "string list" where
  "MANDATORY_KEYS = [''objective'', ''constraints'', ''acceptance'', ''review_requirements'', ''findings'', ''limits'']"

definition EXCLUDED_FROM_BODY :: "string list" where
  "EXCLUDED_FROM_BODY = [''integrity'', ''capsule_id'']"

definition sha :: "(string \<Rightarrow> string) \<Rightarrow> json \<Rightarrow> string" where
  "sha H obj = H (dumps obj)"

section \<open>The parts of a capsule\<close>

record capsule_parts =
  cp_task_id :: json
  cp_source_run_id :: json
  cp_segment_index :: json
  cp_role :: json
  cp_backend_kind :: json
  cp_trigger :: json
  cp_created_at :: json
  cp_authority :: json
  cp_mandatory :: json
  cp_workspace :: json
  cp_progress :: json
  cp_open_items :: json
  cp_notes_text :: json
  cp_budget_ref :: json
  cp_limits :: json
  cp_dropped_lines :: json

definition assemble_body :: "capsule_parts \<Rightarrow> json \<Rightarrow> dict \<Rightarrow> dict \<Rightarrow> dict" where
  "assemble_body p mandatory progress notes =
    [(''schema'', JStr SCHEMA), (''render_version'', JInt RENDER_VERSION),
     (''task_id'', cp_task_id p), (''source_run_id'', cp_source_run_id p),
     (''segment_index'', cp_segment_index p), (''role'', cp_role p),
     (''backend_kind'', cp_backend_kind p), (''trigger'', cp_trigger p),
     (''created_at'', cp_created_at p), (''authority'', cp_authority p),
     (''mandatory'', mandatory), (''workspace'', cp_workspace p),
     (''progress'', JObj progress), (''open_items'', cp_open_items p),
     (''notes'', JObj notes), (''budget_ref'', cp_budget_ref p), (''limits'', cp_limits p)]"

definition nonmandatory_bytes_of_body :: "dict \<Rightarrow> int" where
  "nonmandatory_bytes_of_body body =
     int (length (dumps (JObj (filter (\<lambda>(k, v). k \<noteq> ''mandatory'') body))))"

definition nonmandatory_bytes :: "capsule_parts \<Rightarrow> dict \<Rightarrow> dict \<Rightarrow> int" where
  "nonmandatory_bytes p progress notes = nonmandatory_bytes_of_body (assemble_body p (JObj []) progress notes)"

section \<open>Validation of the arguments\<close>

definition is_list :: "json \<Rightarrow> bool" where
  "is_list v \<longleftrightarrow> (case v of JArr _ \<Rightarrow> True | _ \<Rightarrow> False)"

definition good_finding :: "json \<Rightarrow> bool" where
  "good_finding f \<longleftrightarrow> (case f of JObj d \<Rightarrow> dhas d ''id'' \<and> dhas d ''text'' \<and> is_str (dget d ''text'') | _ \<Rightarrow> False)"

lemma good_finding_cases:
  assumes "good_finding f"
  obtains d t where "f = JObj d" "dhas d ''id''" "dget d ''text'' = JStr t"
  using assms by (auto simp: good_finding_def is_str_def split: json.splits)

definition validate_mandatory :: "json \<Rightarrow> unit res" where
  "validate_mandatory mandatory =
     (case mandatory of
        JObj d \<Rightarrow>
          if \<not> list_all (dhas d) MANDATORY_KEYS then Inl ValueError
          else if \<not> is_str (dget d ''objective'') then Inl ValueError
          else if \<not> is_list (dget d ''constraints'') then Inl ValueError
          else if \<not> is_list (dget d ''acceptance'') then Inl ValueError
          else if \<not> is_dict (dget d ''review_requirements'') then Inl ValueError
          else if \<not> is_dict (dget d ''limits'') then Inl ValueError
          else (case dget d ''findings'' of
                  JArr fs \<Rightarrow> if list_all good_finding fs then Inr () else Inl ValueError
                | _ \<Rightarrow> Inl ValueError)
      | _ \<Rightarrow> Inl ValueError)"

definition require_dict :: "json \<Rightarrow> unit res" where
  "require_dict v = (if is_dict v then Inr () else Inl ValueError)"

text \<open>The tests at the head of \<^verbatim>\<open>build_capsule\<close>; membership of an unhashable trigger is a \<^verbatim>\<open>TypeError\<close>.\<close>

definition check_parts :: "capsule_parts \<Rightarrow> unit res" where
  "check_parts p =
     (if \<not> hashable (cp_trigger p) then Inl TypeError
      else if cp_trigger p \<notin> JStr ` set TRIGGERS then Inl ValueError
      else bind_res (validate_mandatory (cp_mandatory p)) (\<lambda>_.
           bind_res (require_dict (cp_authority p)) (\<lambda>_.
           bind_res (require_dict (cp_workspace p)) (\<lambda>_.
           bind_res (require_dict (cp_progress p)) (\<lambda>_.
           bind_res (require_dict (cp_open_items p)) (\<lambda>_.
           bind_res (require_dict (cp_budget_ref p)) (\<lambda>_.
             if cp_limits p \<noteq> JNull \<and> \<not> is_dict (cp_limits p) then Inl ValueError
             else if cp_notes_text p \<noteq> JNull \<and> \<not> is_str (cp_notes_text p) then Inl ValueError
             else (case cp_dropped_lines p of
                     JInt n \<Rightarrow> if n < 0 then Inl ValueError else Inr ()
                   | _ \<Rightarrow> Inl ValueError))))))))"

section \<open>Notes, segments and lists\<close>

definition build_notes :: "(string \<Rightarrow> string) \<Rightarrow> json \<Rightarrow> json \<Rightarrow> dict \<times> json list" where
  "build_notes H notes_text dropped_lines =
     (case notes_text of
        JStr s \<Rightarrow>
          (let (t, truncated) = truncate_utf8 s NOTES_MAX
           in ([(''trust'', JStr ''low''), (''source'', JStr ''progress_markers''), (''text'', JStr t),
                (''sha256'', JStr (sha H (JStr t))), (''truncated'', JBool truncated),
                (''dropped_lines'', dropped_lines)],
               if truncated then
                 [JObj [(''op'', JStr ''truncate_notes''), (''max_bytes'', JInt (int NOTES_MAX)),
                    (''before_bytes'', JInt (int (length s))), (''after_bytes'', JInt (int (length t)))]]
               else []))
      | _ \<Rightarrow>
          ([(''trust'', JStr ''low''), (''source'', JStr ''none''), (''text'', JStr []),
            (''sha256'', JStr (sha H (JStr []))), (''truncated'', JBool False),
            (''dropped_lines'', dropped_lines)], []))"

definition num_turns :: "json \<Rightarrow> int" where
  "num_turns segment =
     (case segment of
        JObj d \<Rightarrow> (case dget_or d ''num_turns'' (JInt 0) of JInt n \<Rightarrow> n | _ \<Rightarrow> 0)
      | _ \<Rightarrow> 0)"

definition fold_segments :: "dict \<Rightarrow> dict \<times> json list" where
  "fold_segments progress =
     (case dget progress ''segments'' of
        JArr segments \<Rightarrow>
          if length segments \<le> MAX_SEGMENT_DETAIL then (progress, [])
          else
            (let cut = length segments - MAX_SEGMENT_DETAIL;
                 early = take cut segments;
                 counts = [(''folded_segments'', JInt (int (length early))),
                           (''folded_num_turns'', JInt (sum_list (map num_turns early)))]
             in (dset progress ''segments'' (JArr (JObj counts # drop cut segments)),
                 [JObj ((''op'', JStr ''fold_segments'') # counts)]))
      | _ \<Rightarrow> (progress, []))"

definition identity_key :: "json \<Rightarrow> string" where
  "identity_key item =
     (case item of
        JStr s \<Rightarrow> ''s:'' @ s
      | JBool b \<Rightarrow> ''b:'' @ (if b then ''1'' else ''0'')
      | JInt n \<Rightarrow> ''n:'' @ int_text n
      | JFloat r \<Rightarrow> ''f:'' @ r
      | JNull \<Rightarrow> ''null''
      | _ \<Rightarrow> ''j:'' @ dumps item)"

text \<open>An item stays where its key does not come again.\<close>

fun dedupe_keep_last :: "json list \<Rightarrow> json list" where
  "dedupe_keep_last [] = []"
| "dedupe_keep_last (x # xs) =
     (if identity_key x \<in> identity_key ` set xs then dedupe_keep_last xs else x # dedupe_keep_last xs)"

definition last_n :: "nat \<Rightarrow> 'a list \<Rightarrow> 'a list" where
  "last_n n xs = drop (length xs - n) xs"

definition list_step :: "string \<Rightarrow> 'a list \<Rightarrow> 'b list \<Rightarrow> json" where
  "list_step op before after =
     JObj [(''op'', JStr op), (''before'', JInt (int (length before))), (''after'', JInt (int (length after)))]"

text \<open>The result is a sublist, so the test \<^verbatim>\<open>result == items\<close> is equality of the lists.\<close>

definition cap_files_touched :: "json \<Rightarrow> nat \<Rightarrow> json \<times> json list" where
  "cap_files_touched items limit =
     (case items of
        JArr xs \<Rightarrow>
          (let deduped = dedupe_keep_last xs;
               result = (if limit < length deduped then last_n limit deduped else deduped)
           in if result = xs then (items, []) else (JArr result, [list_step ''cap_files_touched'' xs result]))
      | _ \<Rightarrow> (items, []))"

definition cap_commands :: "json \<Rightarrow> json \<times> json list" where
  "cap_commands items =
     (case items of
        JArr xs \<Rightarrow>
          if length xs \<le> MAX_COMMANDS then (items, [])
          else (JArr (last_n MAX_COMMANDS xs), [list_step ''cap_commands'' xs (last_n MAX_COMMANDS xs)])
      | _ \<Rightarrow> (items, []))"

definition cap_progress_lists :: "dict \<Rightarrow> dict \<times> json list" where
  "cap_progress_lists progress =
     (let (progress1, steps1) =
            (if dhas progress ''files_touched'' then
               (let (updated, step) = cap_files_touched (dget progress ''files_touched'') MAX_FILES
                in (dset progress ''files_touched'' updated, step))
             else (progress, []));
          (progress2, steps2) =
            (if dhas progress1 ''commands'' then
               (let (updated, step) = cap_commands (dget progress1 ''commands'')
                in (dset progress1 ''commands'' updated, step))
             else (progress1, []))
      in (progress2, steps1 @ steps2))"

definition halve_tail :: "'a list \<Rightarrow> 'a list" where
  "halve_tail items = (if length items \<le> 1 then [] else drop (length items div 2) items)"

section \<open>Trimming\<close>

type_synonym trimming = "dict \<times> dict \<times> json list"

definition clear_notes :: "(string \<Rightarrow> string) \<Rightarrow> dict \<Rightarrow> dict" where
  "clear_notes H notes =
     dset (dset (dset notes ''text'' (JStr [])) ''sha256'' (JStr (sha H (JStr [])))) ''truncated'' (JBool True)"

text \<open>The items of a list, none where the value is no list.\<close>

definition items_of :: "json \<Rightarrow> json list" where
  "items_of v = (case v of JArr xs \<Rightarrow> xs | _ \<Rightarrow> [])"

lemma items_of_JArr [simp]: "items_of (JArr xs) = xs" "items_of JNull = []"
  by (simp_all add: items_of_def)

text \<open>One round of the loop, \<open>None\<close> where it breaks because nothing is left to trim.\<close>

definition trim_step :: "(string \<Rightarrow> string) \<Rightarrow> trimming \<Rightarrow> trimming option" where
  "trim_step H st =
     (case st of (notes, progress, steps) \<Rightarrow>
        let commands = items_of (dget progress ''commands'');
            files = items_of (dget progress ''files_touched'')
        in if truthy (dget notes ''text'') then
             Some (clear_notes H notes, progress, steps @ [JObj [(''op'', JStr ''clear_notes_text'')]])
           else if commands \<noteq> [] then
             Some (notes, dset progress ''commands'' (JArr (halve_tail commands)),
               steps @ [list_step ''halve_commands'' commands (halve_tail commands)])
           else if files \<noteq> [] then
             Some (notes, dset progress ''files_touched'' (JArr (halve_tail files)),
               steps @ [list_step ''halve_files_touched'' files (halve_tail files)])
           else None)"

text \<open>What is left to trim.\<close>

definition trim_left :: "trimming \<Rightarrow> nat" where
  "trim_left st =
     (case st of (notes, progress, _) \<Rightarrow>
        (if truthy (dget notes ''text'') then 1 else 0)
        + length (items_of (dget progress ''commands'')) + length (items_of (dget progress ''files_touched'')))"

lemma halve_tail_shorter: "xs \<noteq> [] \<Longrightarrow> length (halve_tail xs) < length xs"
  by (cases xs) (auto simp: halve_tail_def)

lemma trim_step_cases:
  assumes "trim_step H (notes, progress, steps) = Some st'"
  obtains (clearing) "truthy (dget notes ''text'')"
      "st' = (clear_notes H notes, progress, steps @ [JObj [(''op'', JStr ''clear_notes_text'')]])"
    | (halve_commands) xs where "\<not> truthy (dget notes ''text'')" "xs = items_of (dget progress ''commands'')" "xs \<noteq> []"
      "st' = (notes, dset progress ''commands'' (JArr (halve_tail xs)),
         steps @ [list_step ''halve_commands'' xs (halve_tail xs)])"
    | (halve_files) xs where "\<not> truthy (dget notes ''text'')" "items_of (dget progress ''commands'') = []"
      "xs = items_of (dget progress ''files_touched'')" "xs \<noteq> []"
      "st' = (notes, dset progress ''files_touched'' (JArr (halve_tail xs)),
         steps @ [list_step ''halve_files_touched'' xs (halve_tail xs)])"
proof -
  let ?t = "truthy (dget notes ''text'')"
  let ?c = "items_of (dget progress ''commands'')"
  let ?f = "items_of (dget progress ''files_touched'')"
  consider "?t" | "\<not> ?t" "?c \<noteq> []" | "\<not> ?t" "?c = []" "?f \<noteq> []" | "\<not> ?t" "?c = []" "?f = []" by blast
  then show thesis
  proof cases
    case 1 with assms that(1) show ?thesis by (simp add: trim_step_def Let_def)
  next
    case 2 with assms that(2) [of ?c] show ?thesis by (simp add: trim_step_def Let_def)
  next
    case 3 with assms that(3) [of ?f] show ?thesis by (simp add: trim_step_def Let_def)
  next
    case 4 with assms show ?thesis by (simp add: trim_step_def Let_def)
  qed
qed

lemma clear_notes_text [simp]: "dget (clear_notes H notes) ''text'' = JStr []"
  by (simp add: clear_notes_def)

lemma trim_step_less:
  assumes "trim_step H st = Some st'"
  shows "trim_left st' < trim_left st"
proof -
  obtain nts progress steps where st: "st = (nts, progress, steps)" by (cases st)
  from assms [unfolded st] show ?thesis
    by (cases rule: trim_step_cases) (auto simp: st trim_left_def dest: halve_tail_shorter)
qed

function trim :: "(string \<Rightarrow> string) \<Rightarrow> capsule_parts \<Rightarrow> trimming \<Rightarrow> trimming" where
  "trim H p st =
     (case st of (notes, progress, steps) \<Rightarrow>
        if nonmandatory_bytes p progress notes \<le> NONMANDATORY_SOFT then st
        else (case trim_step H st of None \<Rightarrow> st | Some st' \<Rightarrow> trim H p st'))"
  by pat_completeness auto
termination by (relation "measure (\<lambda>(H, p, st). trim_left st)") (auto dest: trim_step_less)

declare trim.simps [simp del]

section \<open>Building\<close>

text \<open>The notes, the progress and the steps before the loop: cap, fold, cap.\<close>

definition start_trimming :: "(string \<Rightarrow> string) \<Rightarrow> capsule_parts \<Rightarrow> trimming" where
  "start_trimming H p =
     (let (nts, steps1) = build_notes H (cp_notes_text p) (cp_dropped_lines p);
          (folded, steps2) = fold_segments (dict_or_empty (cp_progress p));
          (capped, steps3) = cap_progress_lists folded
      in (nts, capped, steps1 @ steps2 @ steps3))"

definition integrity_of :: "(string \<Rightarrow> string) \<Rightarrow> json \<Rightarrow> int \<Rightarrow> json list \<Rightarrow> string \<Rightarrow> int \<Rightarrow> json" where
  "integrity_of H mandatory nbytes truncation body_sha256 size_bytes =
     JObj [(''mandatory_sha256'', JStr (sha H mandatory)), (''nonmandatory_bytes'', JInt nbytes),
       (''truncated'', JBool (truncation \<noteq> [])), (''truncation'', JArr truncation),
       (''body_sha256'', JStr body_sha256), (''size_bytes'', JInt size_bytes)]"

definition with_integrity :: "dict \<Rightarrow> string \<Rightarrow> json \<Rightarrow> dict" where
  "with_integrity body body_sha256 integrity =
     body @ [(''capsule_id'', JStr (''cap_'' @ take 32 body_sha256)), (''integrity'', integrity)]"

definition build_capsule :: "(string \<Rightarrow> string) \<Rightarrow> capsule_parts \<Rightarrow> dict res" where
  "build_capsule H p =
     bind_res (check_parts p) (\<lambda>_.
       let (nts, progress, truncation) = trim H p (start_trimming H p);
           body = assemble_body p (cp_mandatory p) progress nts;
           nbytes = nonmandatory_bytes_of_body body
       in if NONMANDATORY_HARD < nbytes then Inl (CapsuleTooLarge nbytes)
          else
            (let body_sha256 = sha H (JObj body);
                 integrity = integrity_of H (cp_mandatory p) nbytes truncation body_sha256;
                 size_bytes = int (length (dumps (JObj (with_integrity body body_sha256 (integrity 0)))))
             in Inr (with_integrity body body_sha256 (integrity size_bytes))))"

section \<open>Validating\<close>

text \<open>The first finding with each identifier; an unhashable identifier is a \<^verbatim>\<open>TypeError\<close>.\<close>

fun index_findings :: "(string \<Rightarrow> int option) \<Rightarrow> json list \<Rightarrow> (json \<times> dict) list \<Rightarrow> (json \<times> dict) list res" where
  "index_findings fi [] by_id = Inr by_id"
| "index_findings fi (f # fs) by_id =
     (case f of
        JObj d \<Rightarrow>
          if \<not> dhas d ''id'' then index_findings fi fs by_id
          else if \<not> hashable (dget d ''id'') then Inl TypeError
          else if list_ex (\<lambda>(i, _). jeq fi i (dget d ''id'')) by_id then index_findings fi fs by_id
          else index_findings fi fs (by_id @ [(dget d ''id'', d)])
      | _ \<Rightarrow> index_findings fi fs by_id)"

definition same_text :: "(string \<Rightarrow> int option) \<Rightarrow> json \<Rightarrow> json \<Rightarrow> bool" where
  "same_text fi left right \<longleftrightarrow>
     (case (left, right) of (JStr a, JStr b) \<Rightarrow> a = b | _ \<Rightarrow> jeq fi left right)"

fun check_findings ::
  "(string \<Rightarrow> int option) \<Rightarrow> pylib \<Rightarrow> (json \<times> dict) list \<Rightarrow> json list \<Rightarrow> string list res" where
  "check_findings fi L by_id [] = Inr []"
| "check_findings fi L by_id (f # fs) =
     (case f of
        JObj d \<Rightarrow>
          if \<not> dhas d ''id'' then check_findings fi L by_id fs
          else if \<not> hashable (dget d ''id'') then Inl TypeError
          else
            let finding_id = dget d ''id'';
                here = (case find (\<lambda>(i, _). jeq fi i finding_id) by_id of
                    None \<Rightarrow> [''finding_missing:'' @ py_str L finding_id]
                  | Some (_, actual) \<Rightarrow>
                      if same_text fi (dget actual ''text'') (dget d ''text'') then []
                      else [''finding_text_changed:'' @ py_str L finding_id])
            in bind_res (check_findings fi L by_id fs) (\<lambda>rest. Inr (here @ rest))
      | _ \<Rightarrow> check_findings fi L by_id fs)"

definition finding_problems ::
  "(string \<Rightarrow> int option) \<Rightarrow> pylib \<Rightarrow> dict \<Rightarrow> json \<Rightarrow> string list res" where
  "finding_problems fi L expected_mandatory mandatory =
     (case dget expected_mandatory ''findings'' of
        JArr expected_findings \<Rightarrow>
          bind_res (index_findings fi (items_of (dget (dict_or_empty mandatory) ''findings'')) [])
            (\<lambda>by_id. check_findings fi L by_id expected_findings)
      | _ \<Rightarrow> Inr [])"

definition body_of :: "dict \<Rightarrow> dict" where
  "body_of capsule = filter (\<lambda>(k, v). k \<notin> set EXCLUDED_FROM_BODY) capsule"

definition validate_capsule ::
  "(string \<Rightarrow> int option) \<Rightarrow> pylib \<Rightarrow> (string \<Rightarrow> string) \<Rightarrow> json \<Rightarrow> json \<Rightarrow> string list res" where
  "validate_capsule fi L H capsule expected_mandatory =
     (case expected_mandatory of
        JObj expected \<Rightarrow>
          (case capsule of
             JObj c \<Rightarrow>
               let recomputed = sha H (JObj (body_of c));
                   integrity = dict_or_empty (dget c ''integrity'');
                   problems =
                     (if dget c ''schema'' \<noteq> JStr SCHEMA then [''schema_mismatch''] else [])
                     @ (if dget integrity ''body_sha256'' \<noteq> JStr recomputed then [''body_sha256_mismatch''] else [])
                     @ (if dget c ''capsule_id'' \<noteq> JStr (''cap_'' @ take 32 recomputed)
                        then [''capsule_id_mismatch''] else [])
                     @ (if dget integrity ''mandatory_sha256'' \<noteq> JStr (sha H expected_mandatory)
                        then [''mandatory_sha256_mismatch''] else [])
                     @ (if \<not> jeq fi (dget c ''mandatory'') expected_mandatory
                        then [''mandatory_mismatch''] else [])
               in bind_res (finding_problems fi L expected (dget c ''mandatory''))
                    (\<lambda>more. Inr (problems @ more))
           | _ \<Rightarrow> Inr [''schema_mismatch'', ''body_sha256_mismatch'', ''capsule_id_mismatch'',
                         ''mandatory_sha256_mismatch'', ''mandatory_mismatch''])
      | _ \<Rightarrow> Inl ValueError)"

section \<open>What building guarantees\<close>

lemma trim_stops:
  assumes "trim H p st = (nts, progress, steps)"
  shows "nonmandatory_bytes p progress nts \<le> NONMANDATORY_SOFT \<or> trim_left (nts, progress, steps) = 0"
  using assms
proof (induction H p st rule: trim.induct)
  case (1 H p st)
  obtain n0 p0 s0 where st: "st = (n0, p0, s0)" by (cases st)
  show ?case
  proof (cases "nonmandatory_bytes p p0 n0 \<le> NONMANDATORY_SOFT")
    case True
    with 1(2) show ?thesis by (simp add: st trim.simps [of H p "(n0, p0, s0)"])
  next
    case big: False
    show ?thesis
    proof (cases "trim_step H st")
      case None
      with 1(2) big have "(nts, progress, steps) = (n0, p0, s0)" by (simp add: st trim.simps [of H p "(n0, p0, s0)"])
      moreover from None have "trim_left (n0, p0, s0) = 0"
        by (auto simp: st trim_step_def trim_left_def Let_def split: if_splits)
      ultimately show ?thesis by simp
    next
      case (Some st')
      with 1(2) big have "trim H p st' = (nts, progress, steps)"
        by (simp add: st trim.simps [of H p "(n0, p0, s0)"])
      from 1(1) [OF st [symmetric] refl big Some this] show ?thesis .
    qed
  qed
qed

text \<open>Rounds needed to empty a list by halving.\<close>

fun halvings :: "nat \<Rightarrow> nat" where
  "halvings n = (if n = 0 then 0 else Suc (halvings (if n \<le> 1 then 0 else n - n div 2)))"

declare halvings.simps [simp del]

lemma length_halve_tail: "length (halve_tail xs) = (if length xs \<le> 1 then 0 else length xs - length xs div 2)"
  by (simp add: halve_tail_def)

lemma halvings_halve: "xs \<noteq> [] \<Longrightarrow> halvings (length xs) = Suc (halvings (length (halve_tail xs)))"
  by (subst halvings.simps) (simp add: length_halve_tail)

lemma halvings_bounds: "n \<le> 30 \<Longrightarrow> halvings n \<le> 6" "n \<le> 200 \<Longrightarrow> halvings n \<le> 9"
proof -
  have "list_all (\<lambda>n. halvings n \<le> 6) [0..<31]" "list_all (\<lambda>n. halvings n \<le> 9) [0..<201]"
    by code_simp+
  then show "n \<le> 30 \<Longrightarrow> halvings n \<le> 6" "n \<le> 200 \<Longrightarrow> halvings n \<le> 9"
    by (simp_all add: list_all_iff)
qed

definition trim_rounds :: "trimming \<Rightarrow> nat" where
  "trim_rounds st =
     (case st of (nts, progress, _) \<Rightarrow>
        (if truthy (dget nts ''text'') then 1 else 0)
        + halvings (length (items_of (dget progress ''commands'')))
        + halvings (length (items_of (dget progress ''files_touched''))))"

lemma trim_step_rounds:
  assumes "trim_step H st = Some st'"
  shows "trim_rounds st = Suc (trim_rounds st')" "length (snd (snd st')) = Suc (length (snd (snd st)))"
proof -
  obtain nts progress steps where st: "st = (nts, progress, steps)" by (cases st)
  from assms [unfolded st]
  have "trim_rounds st = Suc (trim_rounds st') \<and> length (snd (snd st')) = Suc (length (snd (snd st)))"
    by (cases rule: trim_step_cases) (auto simp: st trim_rounds_def halvings_halve)
  then show "trim_rounds st = Suc (trim_rounds st')" "length (snd (snd st')) = Suc (length (snd (snd st)))"
    by simp_all
qed

lemma trim_unfold:
  "trim H p st = (if nonmandatory_bytes p (fst (snd st)) (fst st) \<le> NONMANDATORY_SOFT then st
     else (case trim_step H st of None \<Rightarrow> st | Some st' \<Rightarrow> trim H p st'))"
  by (subst trim.simps) (simp add: case_prod_beta)

text \<open>What every round keeps, the loop keeps.\<close>

lemma trim_keeps:
  assumes "P st" and "\<And>st st'. P st \<Longrightarrow> trim_step H st = Some st' \<Longrightarrow> P st'"
  shows "P (trim H p st)"
  using assms(1)
proof (induction H\<equiv>H p st rule: trim.induct)
  case (1 p st)
  obtain nts progress steps where st: "st = (nts, progress, steps)" by (cases st)
  show ?case
    using 1(1) [OF st [symmetric] refl] 1(2) assms(2) [of st]
    by (subst trim_unfold) (auto simp: st split: option.splits)
qed

lemma trim_length: "length (snd (snd (trim H p st))) \<le> length (snd (snd st)) + trim_rounds st"
proof -
  let ?spent = "\<lambda>st :: trimming. length (snd (snd st)) + trim_rounds st"
  have "?spent (trim H p st) \<le> ?spent st"
  proof (rule trim_keeps)
    fix x y assume "?spent x \<le> ?spent st" "trim_step H x = Some y"
    then show "?spent y \<le> ?spent st" using trim_step_rounds [of H x y] by simp
  qed simp
  then show ?thesis by simp
qed

lemma cap_progress_bounds:
  assumes "cap_progress_lists progress = (progress', steps)"
  shows "length (items_of (dget progress' ''commands'')) \<le> 30"
    and "length (items_of (dget progress' ''files_touched'')) \<le> 200"
    and "length steps \<le> 2"
proof -
  have dedupe: "length (dedupe_keep_last xs) \<le> length xs" for xs
    by (induction xs rule: dedupe_keep_last.induct) (simp_all add: le_SucI)
  have f: "length (items_of (fst (cap_files_touched v 200))) \<le> 200" "length (snd (cap_files_touched v 200)) \<le> 1" for v
    using dedupe by (auto simp: cap_files_touched_def last_n_def items_of_def Let_def split: json.splits)
      (metis diff_diff_cancel length_drop less_imp_le order.refl)+
  have c: "length (items_of (fst (cap_commands v))) \<le> 30" "length (snd (cap_commands v)) \<le> 1" for v
    by (auto simp: cap_commands_def MAX_COMMANDS_def last_n_def items_of_def split: json.splits)
  obtain p1 s1 where 1: "(if dhas progress ''files_touched'' then
      (let (updated, step) = cap_files_touched (dget progress ''files_touched'') MAX_FILES
       in (dset progress ''files_touched'' updated, step)) else (progress, [])) = (p1, s1)"
    by (metis surj_pair)
  then have f1: "length (items_of (dget p1 ''files_touched'')) \<le> 200 \<and> length s1 \<le> 1"
    using f [of "dget progress ''files_touched''"]
    by (auto simp: MAX_FILES_def not_dhas_dget split: if_splits prod.splits)
  obtain p2 s2 where 2: "(if dhas p1 ''commands'' then
      (let (updated, step) = cap_commands (dget p1 ''commands'')
       in (dset p1 ''commands'' updated, step)) else (p1, [])) = (p2, s2)"
    by (metis surj_pair)
  then have c2: "length (items_of (dget p2 ''commands'')) \<le> 30 \<and> length s2 \<le> 1
      \<and> dget p2 ''files_touched'' = dget p1 ''files_touched''"
    using c [of "dget p1 ''commands''"]
    by (auto simp: not_dhas_dget split: if_splits prod.splits)
  from assms have "progress' = p2" "steps = s1 @ s2"
    by (simp_all add: cap_progress_lists_def 1 2)
  with f1 c2 show "length (items_of (dget progress' ''commands'')) \<le> 30"
    "length (items_of (dget progress' ''files_touched'')) \<le> 200" "length steps \<le> 2"
    by auto
qed

lemma fold_segments_keeps:
  assumes "fold_segments progress = (progress', steps)"
  shows "dget progress' ''commands'' = dget progress ''commands''"
    and "dget progress' ''files_touched'' = dget progress ''files_touched''"
    and "length (items_of (dget progress' ''segments'')) \<le> 4" and "length steps \<le> 1"
  using assms
  by (auto simp: fold_segments_def MAX_SEGMENT_DETAIL_def Let_def items_of_def split: json.splits if_splits)

lemma build_notes_bounds:
  assumes "build_notes H v n = (nts, steps)"
  shows "\<exists>t. dget nts ''text'' = JStr t \<and> length t \<le> 4096 \<and> dget nts ''sha256'' = JStr (sha H (JStr t))"
    and "length steps \<le> 1"
proof -
  show "\<exists>t. dget nts ''text'' = JStr t \<and> length t \<le> 4096 \<and> dget nts ''sha256'' = JStr (sha H (JStr t))"
    using assms truncate_utf8_fits [of _ 4096]
    by (auto simp: build_notes_def NOTES_MAX_def case_prod_beta Let_def split: json.splits)
  show "length steps \<le> 1"
    using assms by (auto simp: build_notes_def case_prod_beta Let_def split: json.splits)
qed

lemma cap_progress_segments:
  "cap_progress_lists progress = (progress', steps) \<Longrightarrow> dget progress' ''segments'' = dget progress ''segments''"
  by (auto simp: cap_progress_lists_def Let_def split: prod.splits if_splits)

text \<open>The state of the loop at every round.\<close>

definition trim_ok :: "(string \<Rightarrow> string) \<Rightarrow> trimming \<Rightarrow> bool" where
  "trim_ok H st \<longleftrightarrow>
     (case st of (nts, progress, steps) \<Rightarrow>
        (\<exists>t. dget nts ''text'' = JStr t \<and> length t \<le> 4096 \<and> dget nts ''sha256'' = JStr (sha H (JStr t)))
        \<and> length (items_of (dget progress ''segments'')) \<le> 4)"

lemma start_trimming_ok:
  "trim_ok H (start_trimming H p)" "length (snd (snd (start_trimming H p))) + trim_rounds (start_trimming H p) \<le> 20"
proof -
  obtain nts s1 where 1: "build_notes H (cp_notes_text p) (cp_dropped_lines p) = (nts, s1)" by (metis surj_pair)
  obtain folded s2 where 2: "fold_segments (dict_or_empty (cp_progress p)) = (folded, s2)" by (metis surj_pair)
  obtain capped s3 where 3: "cap_progress_lists folded = (capped, s3)" by (metis surj_pair)
  have st: "start_trimming H p = (nts, capped, s1 @ s2 @ s3)" by (simp add: start_trimming_def 1 2 3)
  show "trim_ok H (start_trimming H p)"
    using build_notes_bounds [OF 1] fold_segments_keeps [OF 2] cap_progress_segments [OF 3]
    by (simp add: st trim_ok_def)
  have "trim_rounds (nts, capped, s1 @ s2 @ s3) \<le> 1 + 6 + 9"
    using halvings_bounds(1) [OF cap_progress_bounds(1) [OF 3]] halvings_bounds(2) [OF cap_progress_bounds(2) [OF 3]]
    by (simp add: trim_rounds_def)
  moreover have "length (s1 @ s2 @ s3) \<le> 4"
    using build_notes_bounds [OF 1] fold_segments_keeps [OF 2] cap_progress_bounds [OF 3] by simp
  ultimately show "length (snd (snd (start_trimming H p))) + trim_rounds (start_trimming H p) \<le> 20"
    by (simp add: st)
qed

lemma trim_step_ok:
  assumes "trim_ok H st" "trim_step H st = Some st'"
  shows "trim_ok H st'"
proof -
  obtain nts progress steps where st: "st = (nts, progress, steps)" by (cases st)
  from assms(2) [unfolded st] show ?thesis
    by (cases rule: trim_step_cases; use assms(1) in \<open>simp add: st trim_ok_def clear_notes_def\<close>)
qed

lemma trimmed_ok:
  assumes "trim H p (start_trimming H p) = (nts, progress, steps)"
  shows "trim_ok H (nts, progress, steps)" "length steps \<le> 20"
    "nonmandatory_bytes p progress nts \<le> NONMANDATORY_SOFT \<or> trim_left (nts, progress, steps) = 0"
proof -
  have "trim_ok H (trim H p (start_trimming H p))"
    by (rule trim_keeps [where P = "trim_ok H"]) (auto intro: start_trimming_ok trim_step_ok)
  then show "trim_ok H (nts, progress, steps)" by (simp add: assms)
  show "length steps \<le> 20"
    using trim_length [of H p "start_trimming H p"] start_trimming_ok(2) [of H p] assms by simp
  show "nonmandatory_bytes p progress nts \<le> NONMANDATORY_SOFT \<or> trim_left (nts, progress, steps) = 0"
    by (rule trim_stops [OF assms])
qed

lemma bytes_without_mandatory:
  "nonmandatory_bytes_of_body (assemble_body p m progress nts) = nonmandatory_bytes p progress nts"
  by (simp add: nonmandatory_bytes_def nonmandatory_bytes_of_body_def assemble_body_def)

lemma build_capsule_Inr:
  assumes "build_capsule H p = Inr c"
  obtains nts progress steps where "check_parts p = Inr ()"
    and "trim H p (start_trimming H p) = (nts, progress, steps)"
    and "nonmandatory_bytes p progress nts \<le> NONMANDATORY_HARD"
    and "c = with_integrity (assemble_body p (cp_mandatory p) progress nts)
           (sha H (JObj (assemble_body p (cp_mandatory p) progress nts)))
           (integrity_of H (cp_mandatory p) (nonmandatory_bytes p progress nts) steps
              (sha H (JObj (assemble_body p (cp_mandatory p) progress nts)))
              (int (length (dumps (JObj (with_integrity (assemble_body p (cp_mandatory p) progress nts)
                 (sha H (JObj (assemble_body p (cp_mandatory p) progress nts)))
                 (integrity_of H (cp_mandatory p) (nonmandatory_bytes p progress nts) steps
                    (sha H (JObj (assemble_body p (cp_mandatory p) progress nts))) 0)))))))"
proof -
  obtain nts progress steps where t: "trim H p (start_trimming H p) = (nts, progress, steps)" by (metis prod_cases3)
  show thesis
    by (rule that [OF _ t])
      (use assms in \<open>auto simp: build_capsule_def bind_res_Inr_iff t Let_def bytes_without_mandatory split: if_splits\<close>)
qed

lemma body_of_with_integrity [simp]:
  "body_of (with_integrity (assemble_body p m progress nts) h i) = assemble_body p m progress nts"
  by (simp add: body_of_def with_integrity_def assemble_body_def EXCLUDED_FROM_BODY_def)

lemma dget_with_integrity [simp]:
  "dget (with_integrity (assemble_body p m progress nts) h i) ''integrity'' = i"
  "dget (with_integrity (assemble_body p m progress nts) h i) ''capsule_id'' = JStr (''cap_'' @ take 32 h)"
  "dget (with_integrity (assemble_body p m progress nts) h i) ''mandatory'' = m"
  "dget (with_integrity (assemble_body p m progress nts) h i) ''schema'' = JStr SCHEMA"
  "dget (with_integrity (assemble_body p m progress nts) h i) ''notes'' = JObj nts"
  "dget (with_integrity (assemble_body p m progress nts) h i) ''progress'' = JObj progress"
  by (simp_all add: with_integrity_def assemble_body_def)

lemma dget_integrity_of [simp]:
  "dget (dict_or_empty (integrity_of H m n steps h z)) ''mandatory_sha256'' = JStr (sha H m)"
  "dget (dict_or_empty (integrity_of H m n steps h z)) ''body_sha256'' = JStr h"
  "dget (dict_or_empty (integrity_of H m n steps h z)) ''nonmandatory_bytes'' = JInt n"
  "dget (dict_or_empty (integrity_of H m n steps h z)) ''truncation'' = JArr steps"
  "dget (dict_or_empty (integrity_of H m n steps h z)) ''truncated'' = JBool (steps \<noteq> [])"
  "dget (dict_or_empty (integrity_of H m n steps h z)) ''size_bytes'' = JInt z"
  by (simp_all add: integrity_of_def)

end
