(* ===== verification/Capsule_Render.thy ===== *)
theory Capsule_Render
  imports Capsule_Model
begin

text \<open>
  The continuation prompt of \<^verbatim>\<open>src/asterun/capsule/model.py\<close> (\<^verbatim>\<open>render_prompt\<close>) and the notes it
  collects from progress texts (\<^verbatim>\<open>extract_notes\<close>). The Chinese headings are written by their
  code points.
\<close>

section \<open>Fixed texts\<close>

definition NONE_TEXT :: string where
  "NONE_TEXT =
     utf8 [0xFF08, 0x65E0, 0xFF09]"

definition CONTRACT_TITLE :: string where
  "CONTRACT_TITLE =
     utf8 [0x4EE5, 0x4E0B, 0x662F, 0x4EFB, 0x52A1, 0x5951, 0x7EA6, 0xFF08, 0x6743, 0x5A01, 0xFF0C,
     0x539F, 0x6587, 0xFF09]"

definition WORKSPACE_TITLE :: string where
  "WORKSPACE_TITLE =
     utf8 [0x5DE5, 0x4F5C, 0x533A, 0x72B6, 0x6001]"

definition PROGRESS_TITLE :: string where
  "PROGRESS_TITLE =
     utf8 [0x5DF2, 0x5B8C, 0x6210, 0x8FDB, 0x5EA6]"

definition OPEN_TITLE :: string where
  "OPEN_TITLE =
     utf8 [0x672A, 0x51B3, 0x4E8B, 0x9879]"

definition APPROVALS_TITLE :: string where
  "APPROVALS_TITLE =
     ''approvals_not_revived'' @ utf8 [0xFF08, 0x65E7, 0x5BA1, 0x6279, 0x4E0D, 0x590D, 0x6D3B, 0xFF0C,
     0x9700, 0x91CD, 0x65B0, 0x7533, 0x8BF7, 0xFF09] @ '':''"

definition UNCONFIRMED_TITLE :: string where
  "UNCONFIRMED_TITLE =
     ''unconfirmed_actions'' @ utf8 [0xFF08, 0x4E0D, 0x5F97, 0x91CD, 0x590D, 0x6267, 0x884C, 0xFF09] @
     '':''"

definition NOTES_TITLE :: string where
  "NOTES_TITLE =
     utf8 [0x524D, 0x6BB5, 0x7B14, 0x8BB0, 0xFF08, 0x4F4E, 0x4FE1, 0x4EFB, 0x6570, 0x636E, 0xFF0C,
     0x4E0D, 0x6539, 0x53D8, 0x4EFB, 0x4F55, 0x4EFB, 0x52A1, 0x7EA6, 0x675F, 0xFF09]"

definition ORDERS_TITLE :: string where
  "ORDERS_TITLE =
     utf8 [0x7EED, 0x6BB5, 0x6307, 0x4EE4]"

definition ORDER_CHECK :: string where
  "ORDER_CHECK =
     utf8 [0x5DE5, 0x4F5C, 0x6811, 0x5DF2, 0x542B, 0x524D, 0x6BB5, 0x6539, 0x52A8, 0xFF0C, 0x5148]
     @ '' git status/git diff '' @ utf8 [0x6838, 0x5BF9, 0x3002]"

definition ORDER_NO_REDO :: string where
  "ORDER_NO_REDO =
     utf8 [0x4E0D, 0x8981, 0x91CD, 0x505A, 0x5DF2, 0x5B8C, 0x6210, 0x6B65, 0x9AA4, 0x3002]"

definition ORDER_NO_REPEAT :: string where
  "ORDER_NO_REPEAT =
     utf8 [0x4E0D, 0x8981, 0x91CD, 0x590D] @ '' unconfirmed_actions'' @ utf8 [0x3002]"

definition ORDER_NOTE :: string where
  "ORDER_NOTE =
     utf8 [0x6BCF, 0x5B8C, 0x6210, 0x4E00, 0x4E2A, 0x5B50, 0x6B65, 0x9AA4, 0x5728, 0x56DE, 0x590D,
     0x91CC, 0x5199, 0x4E00, 0x884C] @ '' ASTERUN-NOTE: ...''"

definition ORDER_NO_AGENTS :: string where
  "ORDER_NO_AGENTS =
     utf8 [0x4E0D, 0x5F97, 0x4F7F, 0x7528, 0x5B50, 0x4EE3, 0x7406, 0x6216, 0x4EFB, 0x4F55, 0x59D4,
     0x6D3E, 0x5DE5, 0x5177, 0x3002]"

definition FOLDED_TEXT :: string where
  "FOLDED_TEXT =
     utf8 [0x5DF2, 0x6298, 0x53E0] @ '' ''"

definition SEGMENTS_TEXT :: string where
  "SEGMENTS_TEXT =
     '' '' @ utf8 [0x6BB5, 0xFF0C]"

definition TOTAL_TEXT :: string where
  "TOTAL_TEXT =
     utf8 [0x5171] @ '' ''"

definition TURNS_TEXT :: string where
  "TURNS_TEXT =
     '' '' @ utf8 [0x8F6E]"

section \<open>Values as text\<close>

definition as_text :: "json \<Rightarrow> string" where
  "as_text v = (case v of JStr s \<Rightarrow> s | JNull \<Rightarrow> [] | _ \<Rightarrow> dumps v)"

definition is_scalar :: "json \<Rightarrow> bool" where
  "is_scalar v \<longleftrightarrow> (case v of JArr _ \<Rightarrow> False | JObj _ \<Rightarrow> False | _ \<Rightarrow> True)"

fun first_present :: "dict \<Rightarrow> string list \<Rightarrow> json" where
  "first_present d [] = JStr []"
| "first_present d (k # ks) = (if dhas d k then dget d k else first_present d ks)"

text \<open>\<^verbatim>\<open>f"{v}"\<close>; the text of a list or an object is left to the library.\<close>

definition fstr :: "pylib \<Rightarrow> json \<Rightarrow> string" where
  "fstr L v =
     (case v of
        JStr s \<Rightarrow> s
      | JInt n \<Rightarrow> int_text n
      | JBool b \<Rightarrow> (if b then ''True'' else ''False'')
      | JNull \<Rightarrow> ''None''
      | JFloat r \<Rightarrow> r
      | _ \<Rightarrow> lib_str L v)"

definition dashed :: "json \<Rightarrow> string" where
  "dashed item = ''- '' @ (case item of JStr s \<Rightarrow> s | _ \<Rightarrow> dumps item)"

definition render_items :: "json \<Rightarrow> string" where
  "render_items v =
     (case v of
        JNull \<Rightarrow> NONE_TEXT
      | JStr s \<Rightarrow> s
      | JArr xs \<Rightarrow> if xs = [] then NONE_TEXT else join newline (map dashed xs)
      | _ \<Rightarrow> dumps v)"

definition render_mapping :: "json \<Rightarrow> string" where
  "render_mapping v =
     (case v of
        JObj d \<Rightarrow>
          if d = [] then NONE_TEXT
          else join newline (map (\<lambda>(k, inner). k @ '': '' @ (case inner of JStr s \<Rightarrow> s | _ \<Rightarrow> dumps inner))
                 (sort_key (\<lambda>(k, _). dumps (JStr k)) d))
      | JNull \<Rightarrow> NONE_TEXT
      | _ \<Rightarrow> if is_scalar v then as_text v else dumps v)"

definition command_record :: "json \<Rightarrow> bool" where
  "command_record item \<longleftrightarrow>
     (case item of
        JObj d \<Rightarrow> list_ex (dhas d) [''program'', ''sha256'', ''length'', ''summary'']
      | _ \<Rightarrow> False)"

definition shown_command :: "dict \<Rightarrow> string" where
  "shown_command d =
     rstrip (''- '' @ (case dget d ''program'' of JStr s \<Rightarrow> s | _ \<Rightarrow> ''null'')
       @ '' '' @ (case dget d ''sha256'' of JStr s \<Rightarrow> take_chars 12 s | _ \<Rightarrow> []))"

definition render_command :: "json \<Rightarrow> string" where
  "render_command item = (if command_record item then shown_command (dict_or_empty item) else dashed item)"

definition render_commands :: "json \<Rightarrow> string" where
  "render_commands v =
     (case v of
        JArr xs \<Rightarrow> if xs = [] then NONE_TEXT else join newline (map render_command xs)
      | _ \<Rightarrow> render_items v)"

definition render_checks :: "json \<Rightarrow> string" where
  "render_checks v = (case v of JArr xs \<Rightarrow> render_items v | _ \<Rightarrow> render_mapping v)"

definition folded_segment :: "json \<Rightarrow> bool" where
  "folded_segment segment \<longleftrightarrow>
     (case segment of
        JObj d \<Rightarrow> dhas d ''folded_segments'' \<and> dhas d ''folded_num_turns'' \<and> \<not> dhas d ''index''
                  \<and> \<not> dhas d ''detail'' \<and> \<not> dhas d ''text''
      | _ \<Rightarrow> False)"

definition render_segment :: "pylib \<Rightarrow> json \<Rightarrow> string" where
  "render_segment L segment =
     (if folded_segment segment then
        FOLDED_TEXT @ fstr L (dget (dict_or_empty segment) ''folded_segments'') @ SEGMENTS_TEXT
        @ TOTAL_TEXT @ fstr L (dget (dict_or_empty segment) ''folded_num_turns'') @ TURNS_TEXT
      else dashed segment)"

definition render_finding :: "json \<Rightarrow> string list" where
  "render_finding f =
     (case f of
        JObj d \<Rightarrow> [''- id: '' @ as_text (dget_or d ''id'' (JStr [])),
                   ''  status: '' @ as_text (dget_or d ''status'' (JStr [])),
                   ''  text:'', as_text (dget_or d ''text'' (JStr []))]
      | _ \<Rightarrow> [''- '' @ dumps f])"

section \<open>The prompt\<close>

definition mandatory_lines :: "dict \<Rightarrow> string list" where
  "mandatory_lines mandatory =
     [''schema: '' @ SCHEMA, ''render_version: '' @ int_text RENDER_VERSION, [],
      CONTRACT_TITLE, as_text (dget_or mandatory ''objective'' (JStr [])), [],
      ''constraints:'', render_items (dget mandatory ''constraints''), [],
      ''acceptance:'', render_items (dget mandatory ''acceptance''), [],
      ''review_requirements:'', render_mapping (dget mandatory ''review_requirements''), [],
      ''findings:'']
     @ concat (map render_finding (items_of (dget mandatory ''findings'')))
     @ [[], ''limits:'', render_mapping (dget mandatory ''limits''), []]"

definition workspace_lines :: "dict \<Rightarrow> string list" where
  "workspace_lines workspace =
     (let diff_stat = dget_or workspace ''diff_stat'' (JStr [])
      in [WORKSPACE_TITLE,
          ''HEAD: '' @ as_text (first_present workspace [''HEAD'', ''head'']),
          ''branch: '' @ as_text (dget_or workspace ''branch'' (JStr [])),
          ''dirty_files:'', render_items (dget workspace ''dirty_files''),
          ''diff_stat:'', if is_scalar diff_stat then as_text diff_stat else dumps diff_stat, []])"

definition progress_lines :: "pylib \<Rightarrow> dict \<Rightarrow> string list" where
  "progress_lines L progress =
     [PROGRESS_TITLE, ''segments:'']
     @ (case dget progress ''segments'' of
          JArr (s # ss) \<Rightarrow> map (render_segment L) (s # ss)
        | _ \<Rightarrow> [NONE_TEXT])
     @ [''files_touched:'', render_items (dget progress ''files_touched''),
        ''commands:'', render_commands (dget progress ''commands''),
        ''checks:'', render_checks (dget progress ''checks''), []]"

definition open_lines :: "dict \<Rightarrow> string list" where
  "open_lines open_items =
     [OPEN_TITLE, APPROVALS_TITLE, render_items (dget open_items ''approvals_not_revived''),
      UNCONFIRMED_TITLE, render_items (dget open_items ''unconfirmed_actions''),
      ''open_questions:'', render_items (dget open_items ''open_questions''), []]"

definition order_lines :: "string \<Rightarrow> string list" where
  "order_lines backend_kind =
     [ORDERS_TITLE, ORDER_CHECK, ORDER_NO_REDO, ORDER_NO_REPEAT, ORDER_NOTE]
     @ (if backend_kind = ''antigravity'' then [ORDER_NO_AGENTS] else [])"

definition render_prompt :: "pylib \<Rightarrow> json \<Rightarrow> string \<Rightarrow> string res" where
  "render_prompt L capsule backend_kind =
     (case capsule of
        JObj c \<Rightarrow>
          Inr (join newline
            (mandatory_lines (dict_or_empty (dget c ''mandatory''))
             @ workspace_lines (dict_or_empty (dget c ''workspace''))
             @ progress_lines L (dict_or_empty (dget c ''progress''))
             @ open_lines (dict_or_empty (dget c ''open_items''))
             @ [NOTES_TITLE, as_text (dget_or (dict_or_empty (dget c ''notes'')) ''text'' (JStr [])), []]
             @ order_lines backend_kind))
      | _ \<Rightarrow> Inl ValueError)"

section \<open>Notes in progress texts\<close>

definition NOTE_PREFIX :: string where
  "NOTE_PREFIX = ''ASTERUN-NOTE:''"

definition note_of_line :: "string \<Rightarrow> string option" where
  "note_of_line line =
     (let stripped = strip line
      in if starts_with NOTE_PREFIX stripped then Some (strip (drop (length NOTE_PREFIX) stripped)) else None)"

fun collect_notes :: "json list \<Rightarrow> string list res" where
  "collect_notes [] = Inr []"
| "collect_notes (t # ts) =
     (case t of
        JStr s \<Rightarrow> bind_res (collect_notes ts) (\<lambda>rest. Inr (List.map_filter note_of_line (splitlines s) @ rest))
      | _ \<Rightarrow> Inl TypeError)"

definition extract_notes :: "json list \<Rightarrow> string option res" where
  "extract_notes texts =
     bind_res (collect_notes texts)
       (\<lambda>collected. Inr (if collected = [] then None else Some (join newline collected)))"

section \<open>What the prompt shows\<close>

definition occurs_in :: "string \<Rightarrow> string \<Rightarrow> bool" where
  "occurs_in x s \<longleftrightarrow> (\<exists>a b. s = a @ x @ b)"

lemma occurs_in_join: "x \<in> set xs \<Longrightarrow> occurs_in x (join sep xs)"
  using in_join by (auto simp: occurs_in_def)

lemma occurs_in_trans: "occurs_in x y \<Longrightarrow> occurs_in y z \<Longrightarrow> occurs_in x z"
proof -
  assume "occurs_in x y" "occurs_in y z"
  then obtain a b c d where "y = a @ x @ b" "z = c @ y @ d" by (auto simp: occurs_in_def)
  then have "z = (c @ a) @ x @ (b @ d)" by simp
  then show ?thesis unfolding occurs_in_def by blast
qed

lemma occurs_in_dashed: "occurs_in s (dashed (JStr s))"
proof -
  have "dashed (JStr s) = ''- '' @ s @ []" by (simp add: dashed_def)
  then show ?thesis unfolding occurs_in_def by blast
qed

lemma item_in_list: "JStr s \<in> set xs \<Longrightarrow> occurs_in s (render_items (JArr xs))"
proof (rule occurs_in_trans [OF occurs_in_dashed])
  assume s: "JStr s \<in> set xs"
  then have "dashed (JStr s) \<in> set (map dashed xs)" by (simp only: set_map image_eqI)
  with s show "occurs_in (dashed (JStr s)) (render_items (JArr xs))"
    by (auto simp: render_items_def intro: occurs_in_join)
qed

lemma finding_text_shown:
  assumes "f \<in> set fs" "f = JObj d" "dget d ''text'' = JStr t"
  shows "t \<in> set (concat (map render_finding fs))"
proof -
  have "dget_or d ''text'' (JStr []) = JStr t"
    using assms(3) by (auto simp: dget_def dget_or_def split: option.splits)
  then have "t \<in> set (render_finding f)" by (simp add: assms(2) render_finding_def as_text_def)
  with assms(1) show ?thesis by auto
qed

end
