(* ===== verification/Usage_Models.thy ===== *)
theory Usage_Models
  imports Policy_Gate Text_Tools
begin

text \<open>
  The checked records of usage accounting, \<^verbatim>\<open>src/asterun/usage/models.py\<close>, and the copy of
  untrusted JSON, \<^verbatim>\<open>plugin_api/protocol.py\<close> (\<^verbatim>\<open>json_copy\<close>): bounded texts and integers, UTC
  instants in microseconds, the amounts a reservation asks for, billing pools and usage
  observations. \<^verbatim>\<open>datetime.fromisoformat\<close> is an argument (\<open>iso_parser\<close>); a text that ends in
  \<^verbatim>\<open>+00:00\<close> and carries a zone has offset zero. An immutable record holds its sorted JSON text;
  here it is the dictionary \<^verbatim>\<open>to_dict\<close> reads back.
\<close>

section \<open>Untrusted JSON\<close>

text \<open>No value is nested deeper than \<open>n\<close> levels.\<close>

fun within_depth :: "nat \<Rightarrow> json \<Rightarrow> bool"
and fits_list :: "nat \<Rightarrow> json list \<Rightarrow> bool"
and fits_fields :: "nat \<Rightarrow> dict \<Rightarrow> bool" where
  "within_depth n JNull = True"
| "within_depth n (JBool b) = True"
| "within_depth n (JStr s) = True"
| "within_depth n (JInt i) = True"
| "within_depth n (JFloat r) = True"
| "within_depth n (JArr xs) = fits_list n xs"
| "within_depth n (JObj d) = fits_fields n d"
| "fits_list n [] = True"
| "fits_list n (x # xs) = (case n of 0 \<Rightarrow> False | Suc m \<Rightarrow> within_depth m x \<and> fits_list n xs)"
| "fits_fields n [] = True"
| "fits_fields n ((k, v) # d) = (case n of 0 \<Rightarrow> False | Suc m \<Rightarrow> within_depth m v \<and> fits_fields n d)"

text \<open>\<^verbatim>\<open>allow_nan=False\<close>\<close>

fun finite_numbers :: "json \<Rightarrow> bool"
and finite_list :: "json list \<Rightarrow> bool"
and finite_fields :: "dict \<Rightarrow> bool" where
  "finite_numbers JNull = True"
| "finite_numbers (JBool b) = True"
| "finite_numbers (JStr s) = True"
| "finite_numbers (JInt i) = True"
| "finite_numbers (JFloat r) = (r \<notin> set [''inf'', ''-inf'', ''nan''])"
| "finite_numbers (JArr xs) = finite_list xs"
| "finite_numbers (JObj d) = finite_fields d"
| "finite_list [] = True"
| "finite_list (x # xs) = (finite_numbers x \<and> finite_list xs)"
| "finite_fields [] = True"
| "finite_fields ((k, v) # d) = (finite_numbers v \<and> finite_fields d)"

definition json_copy :: "json \<Rightarrow> json res" where
  "json_copy v = (if within_depth 64 v \<and> finite_numbers v then Inr v else raise ''INVALID_REQUEST'')"

section \<open>Checked fields\<close>

definition MAX_INTEGER :: int where
  "MAX_INTEGER = 9007199254740991"

definition USAGE_METERS :: "string list" where
  "USAGE_METERS = [''requests'', ''turns'', ''tokens'', ''micro_usd'', ''wall_ms'', ''tool_actions'', ''bytes'']"

text \<open>Checks without a result; \<open>require_that\<close> is the guard \<^verbatim>\<open>if not p: raise\<close>.\<close>

definition require_that :: "bool \<Rightarrow> unit res" where
  "require_that p = (if p then Inr () else raise ''INVALID_REQUEST'')"

definition check_mapping :: "json \<Rightarrow> string list option \<Rightarrow> string list \<Rightarrow> dict res" where
  "check_mapping v permitted required =
     (case v of
        JObj d \<Rightarrow>
          if (case permitted of None \<Rightarrow> True | Some ks \<Rightarrow> set (map fst d) \<subseteq> set ks) \<and> set required \<subseteq> set (map fst d)
          then Inr d else raise ''INVALID_REQUEST''
      | _ \<Rightarrow> raise ''INVALID_REQUEST'')"

definition canonical_text :: "string \<Rightarrow> bool" where
  "canonical_text s \<longleftrightarrow>
     s \<noteq> [] \<and> s = strip s \<and> char_count s \<le> 1024 \<and> (\<forall>c \<in> set s. 32 \<le> (of_char c :: nat))"

definition check_text :: "bool \<Rightarrow> json \<Rightarrow> unit res" where
  "check_text nullable v =
     (case v of
        JNull \<Rightarrow> require_that nullable
      | JStr s \<Rightarrow> require_that (canonical_text s)
      | _ \<Rightarrow> raise ''INVALID_REQUEST'')"

definition check_integer :: "int \<Rightarrow> bool \<Rightarrow> json \<Rightarrow> unit res" where
  "check_integer least nullable v =
     (case v of
        JNull \<Rightarrow> require_that nullable
      | JInt n \<Rightarrow> require_that (least \<le> n \<and> n \<le> MAX_INTEGER)
      | _ \<Rightarrow> raise ''INVALID_REQUEST'')"

definition timestamp :: "iso_parser \<Rightarrow> json \<Rightarrow> int res" where
  "timestamp parse v =
     (case v of
        JStr s \<Rightarrow>
          if (ends_with ''Z'' s \<or> ends_with ''+00:00'' s) \<and> CHR ''T'' \<in> set s then
            (case parse (if ends_with ''Z'' s then butlast s @ ''+00:00'' else s) of
               Some (t, True) \<Rightarrow> Inr t
             | _ \<Rightarrow> raise ''INVALID_REQUEST'')
          else raise ''INVALID_REQUEST''
      | _ \<Rightarrow> raise ''INVALID_REQUEST'')"

definition opt_timestamp :: "iso_parser \<Rightarrow> json \<Rightarrow> int option res" where
  "opt_timestamp parse v =
     (if v = JNull then Inr None else bind_res (timestamp parse v) (\<lambda>t. Inr (Some t)))"

text \<open>A check of a field only when the dictionary has it.\<close>

definition if_given :: "dict \<Rightarrow> (json \<Rightarrow> unit res) \<Rightarrow> string \<Rightarrow> unit res" where
  "if_given d check k = (if dhas d k then check (dget d k) else Inr ())"

fun each_res :: "('a \<Rightarrow> unit res) \<Rightarrow> 'a list \<Rightarrow> unit res" where
  "each_res f [] = Inr ()"
| "each_res f (x # xs) = bind_res (f x) (\<lambda>_. each_res f xs)"

definition one_of :: "string list \<Rightarrow> json \<Rightarrow> bool" where
  "one_of names v \<longleftrightarrow> (case v of JStr s \<Rightarrow> s \<in> set names | _ \<Rightarrow> False)"

lemma require_that_Inr [simp]: "require_that p = Inr u \<longleftrightarrow> p"
  by (simp add: require_that_def)

lemma each_res_Inr_iff: "each_res f xs = Inr u \<longleftrightarrow> (\<forall>x \<in> set xs. f x = Inr ())"
  by (induction xs) (auto simp: bind_res_Inr_iff)

section \<open>Amounts of a reservation\<close>

type_synonym amount_key = "string \<times> string \<times> string"

definition reservation_amount :: "json \<Rightarrow> (amount_key \<times> int) res" where
  "reservation_amount v =
     bind_res (check_mapping v (Some [''pool_ref'', ''meter'', ''amount'', ''window_id''])
                 [''pool_ref'', ''meter'', ''amount'', ''window_id'']) (\<lambda>d.
     bind_res (each_res (\<lambda>k. check_text False (dget d k)) [''pool_ref'', ''window_id'']) (\<lambda>_.
     bind_res (require_that (one_of USAGE_METERS (dget d ''meter''))) (\<lambda>_.
     bind_res (check_integer 0 False (dget d ''amount'')) (\<lambda>_.
       case (dget d ''pool_ref'', dget d ''meter'', dget d ''window_id'', dget d ''amount'') of
         (JStr p, JStr m, JStr w, JInt n) \<Rightarrow> Inr ((p, m, w), n)
       | _ \<Rightarrow> raise ''INVALID_REQUEST''))))"

fun collect_amounts :: "json list \<Rightarrow> (amount_key \<times> int) list \<Rightarrow> (amount_key \<times> int) list res" where
  "collect_amounts [] acc = Inr acc"
| "collect_amounts (v # vs) acc =
     bind_res (reservation_amount v) (\<lambda>(k, n).
       if map_of acc k \<noteq> None then raise ''INVALID_REQUEST'' else collect_amounts vs (acc @ [(k, n)]))"

definition reservation_amounts :: "json \<Rightarrow> (amount_key \<times> int) list res" where
  "reservation_amounts v =
     (case v of
        JArr vs \<Rightarrow> if vs = [] then raise ''BUDGET_UNKNOWN'' else collect_amounts vs []
      | _ \<Rightarrow> raise ''BUDGET_UNKNOWN'')"

section \<open>Billing pools\<close>

definition POOL_KEYS :: "string list" where
  "POOL_KEYS =
    [''billing_mode'', ''remaining'', ''meter'', ''local_limit'', ''max_concurrency'', ''window_id'',
     ''observed_at'', ''valid_until'', ''overage_verified'', ''allow_unknown_subscription'',
     ''risk_acceptance'', ''estimate_per_action'', ''paid_overage_allowed'']"

definition check_bool :: "json \<Rightarrow> unit res" where
  "check_bool v = (case v of JBool b \<Rightarrow> Inr () | _ \<Rightarrow> raise ''INVALID_REQUEST'')"

definition validity_window :: "iso_parser \<Rightarrow> dict \<Rightarrow> unit res" where
  "validity_window parse d =
     (if truthy (dget d ''observed_at'') \<and> truthy (dget d ''valid_until'') then
        bind_res (timestamp parse (dget d ''valid_until'')) (\<lambda>valid.
        bind_res (timestamp parse (dget d ''observed_at'')) (\<lambda>observed.
          require_that (observed < valid)))
      else Inr ())"

definition billing_pool :: "iso_parser \<Rightarrow> json \<Rightarrow> json \<Rightarrow> dict res" where
  "billing_pool parse ref v =
     bind_res (check_text False ref) (\<lambda>_.
     bind_res (json_copy v) (\<lambda>copy.
     bind_res (check_mapping copy (Some POOL_KEYS) [''billing_mode'', ''paid_overage_allowed'']) (\<lambda>d.
     bind_res (require_that (one_of [''local'', ''subscription'', ''metered'', ''manual'', ''unknown'']
         (dget d ''billing_mode''))) (\<lambda>_.
     bind_res (each_res (if_given d check_bool)
         [''paid_overage_allowed'', ''overage_verified'', ''allow_unknown_subscription'']) (\<lambda>_.
     bind_res (require_that (\<not> truthy (dget d ''paid_overage_allowed''))) (\<lambda>_.
     bind_res (if_given d (\<lambda>m. require_that (one_of USAGE_METERS m)) ''meter'') (\<lambda>_.
     bind_res (each_res (\<lambda>k. if_given d
         (check_integer (if k \<in> set [''local_limit'', ''max_concurrency''] then 1 else 0) (k = ''remaining'')) k)
         [''remaining'', ''estimate_per_action'', ''local_limit'', ''max_concurrency'']) (\<lambda>_.
     bind_res (if_given d (check_text False) ''window_id'') (\<lambda>_.
     bind_res (each_res (if_given d (\<lambda>t. bind_res (opt_timestamp parse t) (\<lambda>_. Inr ())))
         [''observed_at'', ''valid_until'']) (\<lambda>_.
     bind_res (validity_window parse d) (\<lambda>_.
     bind_res (require_that (dget d ''risk_acceptance'' \<in> set [JNull, JStr ''local_estimate''])) (\<lambda>_.
       Inr (canon_dict ((''ref'', ref) # d))))))))))))))"

section \<open>Usage observations\<close>

definition OBSERVATION_REQUIRED :: "string list" where
  "OBSERVATION_REQUIRED =
    [''pool_ref'', ''meter'', ''scope'', ''window_id'', ''cursor'', ''source_kind'', ''observed_at'', ''used'']"

definition OBSERVATION_OPTIONAL :: "string list" where
  "OBSERVATION_OPTIONAL =
    [''scope_ref'', ''unit'', ''limit'', ''remaining'', ''valid_until'', ''sequence'', ''raw_evidence_ref'',
     ''confidence'', ''cumulative'']"

definition set_default :: "string \<Rightarrow> json \<Rightarrow> dict \<Rightarrow> dict" where
  "set_default k v d = (if dhas d k then d else dset d k v)"

definition SCOPES :: "string list" where
  "SCOPES = [''request'', ''run'', ''session_cumulative'', ''billing_window'']"

definition cumulative_scope :: "json \<Rightarrow> bool" where
  "cumulative_scope v \<longleftrightarrow> one_of [''session_cumulative'', ''billing_window''] v"

text \<open>The source with its dashes replaced, and the defaults of the scope and the unit.\<close>

definition observation_defaults :: "string \<Rightarrow> dict \<Rightarrow> dict" where
  "observation_defaults source d =
     set_default ''unit'' (dget d ''meter'')
       (set_default ''scope_ref'' (if dget d ''scope'' = JStr ''billing_window'' then JStr ''pool'' else JNull)
          (dset d ''source_kind'' (JStr source)))"

definition observation_source :: "dict \<Rightarrow> string res" where
  "observation_source d =
     (case dget d ''source_kind'' of
        JStr s \<Rightarrow>
          let source = replace_char CHR ''-'' CHR ''_'' s
          in if source \<in> set [''provider_observed'', ''local_estimated'', ''billed'', ''user_claim'', ''unknown'']
             then Inr source else raise ''INVALID_REQUEST''
      | _ \<Rightarrow> raise ''INVALID_REQUEST'')"

text \<open>The numbers and instants, once the defaults are in.\<close>

definition observation_values :: "iso_parser \<Rightarrow> dict \<Rightarrow> unit res" where
  "observation_values parse d =
     bind_res (each_res (if_given d (check_integer 0 True)) [''used'', ''limit'', ''remaining'']) (\<lambda>_.
     bind_res (if_given d (check_integer 0 False) ''sequence'') (\<lambda>_.
     bind_res (timestamp parse (dget d ''observed_at'')) (\<lambda>observed.
     bind_res (if_given d (\<lambda>t. bind_res (opt_timestamp parse t) (\<lambda>_. Inr ())) ''valid_until'') (\<lambda>_.
     bind_res (if truthy (dget d ''valid_until'')
               then bind_res (timestamp parse (dget d ''valid_until'')) (\<lambda>valid. require_that (observed < valid))
               else Inr ()) (\<lambda>_.
     bind_res (if_given d (check_text True) ''raw_evidence_ref'') (\<lambda>_.
       require_that (dget d ''confidence'' = JNull
         \<or> one_of [''high'', ''medium'', ''low'', ''unknown''] (dget d ''confidence''))))))))"

definition usage_observation :: "iso_parser \<Rightarrow> json \<Rightarrow> dict res" where
  "usage_observation parse v =
     bind_res (json_copy v) (\<lambda>copy.
     bind_res (check_mapping copy (Some (OBSERVATION_REQUIRED @ OBSERVATION_OPTIONAL)) OBSERVATION_REQUIRED) (\<lambda>d0.
     bind_res (each_res (\<lambda>k. check_text False (dget d0 k)) [''pool_ref'', ''window_id'', ''cursor'']) (\<lambda>_.
     bind_res (require_that (one_of USAGE_METERS (dget d0 ''meter''))) (\<lambda>_.
     bind_res (require_that (one_of SCOPES (dget d0 ''scope''))) (\<lambda>_.
     bind_res (observation_source d0) (\<lambda>source.
     let d = observation_defaults source d0 in
     bind_res (check_text False (dget d ''scope_ref'')) (\<lambda>_.
     bind_res (require_that (dget d ''unit'' = dget d ''meter'')) (\<lambda>_.
     bind_res (observation_values parse d) (\<lambda>_.
     let d' = set_default ''cumulative'' (JBool (cumulative_scope (dget d ''scope''))) d in
     bind_res (require_that (dget d' ''cumulative'' = JBool (cumulative_scope (dget d ''scope'')))) (\<lambda>_.
       Inr (canon_dict d')))))))))))"

end
