(* ===== verification/Quota_Observation.thy ===== *)
theory Quota_Observation
  imports Usage_Models Quota_Selection "HOL-Library.Product_Lexorder"
begin

text \<open>
  Observed quota windows, \<^verbatim>\<open>src/asterun/quota/models.py\<close>: the strict normalization of what a
  probe, a passive notification or the user reports, the freshness of a stored observation,
  and the merge of observations of one window from several sources. Instants are microseconds
  since the epoch. What the code uses of \<^verbatim>\<open>datetime\<close> is in \<open>time_lib\<close>: parsing, \<^verbatim>\<open>isoformat\<close> of a
  UTC instant without its zone for a \<^verbatim>\<open>timespec\<close>, and \<^verbatim>\<open>strftime\<close> of a whole minute.
\<close>

record time_lib =
  tl_parse :: iso_parser
  tl_format :: "string \<Rightarrow> int \<Rightarrow> string"
  tl_minute :: "int \<Rightarrow> string"

section \<open>Secrets are refused\<close>

definition WINDOW_KINDS :: "string list" where
  "WINDOW_KINDS = [''5h'', ''weekly'', ''monthly'', ''billing_period'', ''latch'', ''other'']"

definition CONFIDENCE :: "string list" where
  "CONFIDENCE = [''high'', ''medium'', ''low'']"

definition SECRET_KEYS :: "string list" where
  "SECRET_KEYS =
    [''env'', ''environment'', ''secret'', ''secrets'', ''credentials'', ''api_key'', ''apikey'',
     ''access_token'', ''refresh_token'', ''authorization'', ''password'', ''token'', ''client_secret'',
     ''private_key'', ''email'', ''e_mail'', ''balance'', ''account_id'']"

definition SECRET_PARTS :: "string list" where
  "SECRET_PARTS = [''email'', ''token'', ''secret'', ''password'', ''balance'', ''credential'', ''credentials'']"

definition SECRET_SUFFIXES :: "string list" where
  "SECRET_SUFFIXES = [''_api_key'', ''_token'', ''_secret'', ''_password'', ''_email'', ''_balance'']"

text \<open>
  \<^verbatim>\<open>key.lower()\<close> as far as it can make an ASCII text: the ASCII letters, and the Kelvin sign,
  the only other character whose lower case is ASCII.
\<close>

definition low :: "char \<Rightarrow> char" where
  "low c = (let n = of_char c :: nat in if 65 \<le> n \<and> n \<le> 90 then char_of (n + 32) else c)"

fun lower_key :: "string \<Rightarrow> string" where
  "lower_key [] = []"
| "lower_key (a # b # c # s) =
     (if (of_char a, of_char b, of_char c) = (0xE2 :: nat, 0x84 :: nat, 0xAA :: nat)
      then CHR ''k'' # lower_key s else low a # lower_key (b # c # s))"
| "lower_key (a # s) = low a # lower_key s"

definition secret_key :: "string \<Rightarrow> bool" where
  "secret_key key =
     (let normalized = replace_char CHR ''-'' CHR ''_'' (lower_key key)
      in normalized \<in> set SECRET_KEYS
         \<or> (\<exists>suffix \<in> set SECRET_SUFFIXES. ends_with suffix normalized)
         \<or> (\<exists>part \<in> set (split_on CHR ''_'' normalized). part \<in> set SECRET_PARTS))"

fun sensitive :: "json \<Rightarrow> bool"
and sensitive_list :: "json list \<Rightarrow> bool"
and sensitive_fields :: "dict \<Rightarrow> bool" where
  "sensitive JNull = False"
| "sensitive (JBool b) = False"
| "sensitive (JInt i) = False"
| "sensitive (JFloat r) = False"
| "sensitive (JStr s) = (CHR ''@'' \<in> set s)"
| "sensitive (JArr xs) = sensitive_list xs"
| "sensitive (JObj d) = sensitive_fields d"
| "sensitive_list [] = False"
| "sensitive_list (x # xs) = (sensitive x \<or> sensitive_list xs)"
| "sensitive_fields [] = False"
| "sensitive_fields ((k, v) # d) = (CHR ''@'' \<in> set k \<or> secret_key k \<or> sensitive v \<or> sensitive_fields d)"

section \<open>Canonical instants\<close>

definition canonical_utc :: "time_lib \<Rightarrow> int \<Rightarrow> string" where
  "canonical_utc lib t =
     tl_format lib (if t mod 1000000 \<noteq> 0 then ''microseconds'' else ''seconds'') t @ ''Z''"

definition window_epoch_from :: "time_lib \<Rightarrow> int option \<Rightarrow> string option" where
  "window_epoch_from lib resets = map_option (\<lambda>t. tl_minute lib (t - t mod 60000000)) resets"

definition opt_str :: "string option \<Rightarrow> json" where
  "opt_str o' = (case o' of None \<Rightarrow> JNull | Some s \<Rightarrow> JStr s)"

text \<open>\<^verbatim>\<open>_optional_text\<close>, \<^verbatim>\<open>_optional_time\<close>\<close>

definition optional_text :: "dict \<Rightarrow> string \<Rightarrow> json res" where
  "optional_text d k =
     (if dget d k = JNull then Inr JNull
      else bind_res (check_text False (dget d k)) (\<lambda>_. Inr (dget d k)))"

definition optional_time :: "time_lib \<Rightarrow> dict \<Rightarrow> string \<Rightarrow> json res" where
  "optional_time lib d k =
     bind_res (opt_timestamp (tl_parse lib) (dget d k)) (\<lambda>t. Inr (opt_str (map_option (canonical_utc lib) t)))"

section \<open>Normalizing an observation\<close>

definition WINDOW_REQUIRED :: "string list" where
  "WINDOW_REQUIRED =
    [''scope_ref'', ''bucket_id'', ''window_kind'', ''source_kind'', ''confidence'', ''paid_overage'',
     ''observed_at'', ''valid_until'']"

definition WINDOW_OPTIONAL :: "string list" where
  "WINDOW_OPTIONAL =
    [''window_duration_s'', ''used_bp'', ''resets_at'', ''window_epoch'', ''native_time'', ''exhausted_hint'',
     ''expiring_grants'', ''adapter_version'', ''native_version'', ''schema_version'', ''raw_digest'']"

definition MANUAL_MAX_TTL :: int where "MANUAL_MAX_TTL = 24 * 3600 * 1000000"

text \<open>\<^verbatim>\<open>_SOURCE\<close>, \<^verbatim>\<open>_DIGEST\<close> and \<^verbatim>\<open>_ERROR_CODE\<close>\<close>

definition named_source :: "string \<Rightarrow> string \<Rightarrow> bool" where
  "named_source prefix s \<longleftrightarrow>
     starts_with prefix s
     \<and> (let r = drop (length prefix) s in 1 \<le> length r \<and> length r \<le> 64 \<and> list_all name_char r)"

definition source_ok :: "string \<Rightarrow> bool" where
  "source_ok s \<longleftrightarrow> named_source ''probe_'' s \<or> named_source ''passive_'' s \<or> s = ''manual'' \<or> s = ''latch''"

definition digest_ok :: "string \<Rightarrow> bool" where
  "digest_ok s \<longleftrightarrow> length s = 64 \<and> list_all (\<lambda>c. c \<in> set ''0123456789abcdef'') s"

definition letter :: "char \<Rightarrow> bool" where
  "letter c = (let n = of_char c :: nat in 65 \<le> n \<and> n \<le> 90 \<or> 97 \<le> n \<and> n \<le> 122)"

definition digit :: "char \<Rightarrow> bool" where
  "digit c = (let n = of_char c :: nat in 48 \<le> n \<and> n \<le> 57)"

definition error_code_ok :: "string \<Rightarrow> bool" where
  "error_code_ok s \<longleftrightarrow>
     (case s of [] \<Rightarrow> False
      | c # r \<Rightarrow> letter c \<and> length r \<le> 63 \<and> list_all (\<lambda>x. letter x \<or> digit x \<or> x = CHR ''_'') r)"

definition names :: "string set \<Rightarrow> json" where
  "names ks = JArr (map JStr (sorted_list_of_set ks))"

text \<open>The object without secrets, with the right keys.\<close>

definition observation_object :: "json \<Rightarrow> dict res" where
  "observation_object v =
     bind_res (case v of JObj _ \<Rightarrow> json_copy v | _ \<Rightarrow> raise ''INVALID_REQUEST'') (\<lambda>copy.
     if sensitive copy then raise ''INVALID_REQUEST'' else
     let d = dict_or_empty copy; keys = set (map fst d); known = set (WINDOW_REQUIRED @ WINDOW_OPTIONAL) in
     if \<not> keys \<subseteq> known then Inl (AsterunError ''INVALID_REQUEST'' [(''unknown'', names (keys - known))])
     else if \<not> set WINDOW_REQUIRED \<subseteq> keys
     then Inl (AsterunError ''INVALID_REQUEST'' [(''missing'', names (set WINDOW_REQUIRED - keys))])
     else Inr d)"

text \<open>\<^verbatim>\<open>x in FROZENSET\<close> of a list or a dictionary is a \<^verbatim>\<open>TypeError\<close>.\<close>

definition member_of :: "string list \<Rightarrow> json \<Rightarrow> unit res" where
  "member_of ks v = (if \<not> hashable v then Inl TypeError else require_that (one_of ks v))"

definition manual :: "dict \<Rightarrow> bool" where
  "manual d \<longleftrightarrow> dget d ''source_kind'' = JStr ''manual''"

definition check_kinds :: "dict \<Rightarrow> unit res" where
  "check_kinds d =
     bind_res (each_res (\<lambda>k. check_text False (dget d k)) [''scope_ref'', ''bucket_id'']) (\<lambda>_.
     bind_res (member_of WINDOW_KINDS (dget d ''window_kind'')) (\<lambda>_.
     bind_res (require_that (case dget d ''source_kind'' of JStr s \<Rightarrow> source_ok s | _ \<Rightarrow> False)) (\<lambda>_.
     bind_res (member_of CONFIDENCE (dget d ''confidence'')) (\<lambda>_.
     bind_res (check_bool (dget d ''paid_overage'')) (\<lambda>_.
       if manual d then
         require_that (dget d ''confidence'' = JStr ''low'' \<and> dget d ''paid_overage'' = JBool False
           \<and> dget d ''window_kind'' \<noteq> JStr ''latch'')
       else Inr ())))))"

definition check_amounts :: "dict \<Rightarrow> unit res" where
  "check_amounts d =
     bind_res (if_given d (check_integer 0 True) ''used_bp'') (\<lambda>_.
     bind_res (require_that (case dget d ''used_bp'' of JInt n \<Rightarrow> n \<le> 10000 | _ \<Rightarrow> True)) (\<lambda>_.
       if_given d (check_integer 0 True) ''window_duration_s''))"

text \<open>The three instants: observed, valid until, and the reset when it is known.\<close>

definition check_times :: "time_lib \<Rightarrow> dict \<Rightarrow> (int \<times> int \<times> int option) res" where
  "check_times lib d =
     bind_res (timestamp (tl_parse lib) (dget d ''observed_at'')) (\<lambda>observed.
     bind_res (timestamp (tl_parse lib) (dget d ''valid_until'')) (\<lambda>valid.
     bind_res (require_that (observed < valid)) (\<lambda>_.
     bind_res (opt_timestamp (tl_parse lib) (dget d ''resets_at'')) (\<lambda>resets.
     bind_res (require_that (case resets of None \<Rightarrow> True | Some r \<Rightarrow> valid \<le> r)) (\<lambda>_.
     bind_res (require_that (manual d \<longrightarrow> valid - observed \<le> MANUAL_MAX_TTL)) (\<lambda>_.
       Inr (observed, valid, resets)))))))"

definition check_epoch :: "time_lib \<Rightarrow> dict \<Rightarrow> int option \<Rightarrow> unit res" where
  "check_epoch lib d resets =
     (if dget d ''window_epoch'' = JNull then Inr ()
      else bind_res (timestamp (tl_parse lib) (dget d ''window_epoch'')) (\<lambda>supplied.
             require_that (Some (canonical_utc lib supplied) = window_epoch_from lib resets)))"

definition normalize_grant :: "time_lib \<Rightarrow> json \<Rightarrow> json res" where
  "normalize_grant lib v =
     (case v of
        JObj d \<Rightarrow>
          bind_res (require_that (set (map fst d) = set [''count'', ''expires_at'', ''kind''])) (\<lambda>_.
          bind_res (check_integer 0 False (dget d ''count'')) (\<lambda>_.
          bind_res (check_text False (dget d ''kind'')) (\<lambda>_.
          bind_res (timestamp (tl_parse lib) (dget d ''expires_at'')) (\<lambda>t.
            Inr (JObj [(''count'', dget d ''count''), (''expires_at'', JStr (canonical_utc lib t)),
                       (''kind'', dget d ''kind'')])))))
      | _ \<Rightarrow> raise ''INVALID_REQUEST'')"

definition normalize_grants :: "time_lib \<Rightarrow> dict \<Rightarrow> json list res" where
  "normalize_grants lib d =
     (case dget_or d ''expiring_grants'' (JArr []) of
        JArr vs \<Rightarrow> if 64 < length vs then raise ''INVALID_REQUEST'' else map_res (normalize_grant lib) vs
      | _ \<Rightarrow> raise ''INVALID_REQUEST'')"

definition check_versions :: "dict \<Rightarrow> unit res" where
  "check_versions d =
     bind_res (require_that (\<not> dhas d ''schema_version'' \<or> dget d ''schema_version'' = JInt 1)) (\<lambda>_.
       require_that (case dget d ''raw_digest'' of JNull \<Rightarrow> True | JStr s \<Rightarrow> digest_ok s | _ \<Rightarrow> False))"

definition normalized_fields :: "time_lib \<Rightarrow> dict \<Rightarrow> int \<Rightarrow> int \<Rightarrow> int option \<Rightarrow> dict res" where
  "normalized_fields lib d observed valid resets =
     bind_res (check_epoch lib d resets) (\<lambda>_.
     bind_res (optional_text d ''exhausted_hint'') (\<lambda>hint.
     bind_res (optional_text d ''native_time'') (\<lambda>native_time.
     bind_res (optional_text d ''adapter_version'') (\<lambda>adapter.
     bind_res (optional_text d ''native_version'') (\<lambda>native_version.
     bind_res (normalize_grants lib d) (\<lambda>grants.
     bind_res (check_versions d) (\<lambda>_.
       Inr [(''scope_ref'', dget d ''scope_ref''), (''bucket_id'', dget d ''bucket_id''),
            (''window_kind'', dget d ''window_kind''), (''window_duration_s'', dget d ''window_duration_s''),
            (''used_bp'', dget d ''used_bp''),
            (''resets_at'', opt_str (map_option (canonical_utc lib) resets)),
            (''window_epoch'', opt_str (window_epoch_from lib resets)),
            (''observed_at'', JStr (canonical_utc lib observed)), (''native_time'', native_time),
            (''source_kind'', dget d ''source_kind''), (''confidence'', dget d ''confidence''),
            (''paid_overage'', dget d ''paid_overage''), (''exhausted_hint'', hint),
            (''expiring_grants'', JArr grants), (''valid_until'', JStr (canonical_utc lib valid)),
            (''adapter_version'', adapter), (''native_version'', native_version),
            (''schema_version'', JInt 1), (''raw_digest'', dget d ''raw_digest'')])))))))"

definition normalize_observation :: "time_lib \<Rightarrow> json \<Rightarrow> dict res" where
  "normalize_observation lib v =
     bind_res (observation_object v) (\<lambda>d.
     bind_res (check_kinds d) (\<lambda>_.
     bind_res (check_amounts d) (\<lambda>_.
     bind_res (check_times lib d) (\<lambda>(observed, valid, resets).
       normalized_fields lib d observed valid resets))))"

text \<open>The state of a probe.\<close>

definition PROBE_FIELDS :: "string list" where
  "PROBE_FIELDS =
    [''scope_ref'', ''probe_id'', ''last_attempt_at'', ''last_ok_at'', ''last_error_code'', ''lease_until'']"

definition normalize_probe_state :: "time_lib \<Rightarrow> json \<Rightarrow> dict res" where
  "normalize_probe_state lib v =
     bind_res (case v of JObj _ \<Rightarrow> json_copy v | _ \<Rightarrow> raise ''INVALID_REQUEST'') (\<lambda>copy.
     if sensitive copy then raise ''INVALID_REQUEST'' else
     let d = dict_or_empty copy in
     bind_res (require_that (set (map fst d) \<subseteq> set PROBE_FIELDS
         \<and> set [''scope_ref'', ''probe_id''] \<subseteq> set (map fst d))) (\<lambda>_.
     bind_res (check_text False (dget d ''scope_ref'')) (\<lambda>_.
     bind_res (check_text False (dget d ''probe_id'')) (\<lambda>_.
     bind_res (optional_time lib d ''last_attempt_at'') (\<lambda>attempt.
     bind_res (optional_time lib d ''last_ok_at'') (\<lambda>ok.
     bind_res (optional_time lib d ''lease_until'') (\<lambda>lease.
     bind_res (require_that (case dget d ''last_error_code'' of
         JNull \<Rightarrow> True | JStr s \<Rightarrow> error_code_ok s | _ \<Rightarrow> False)) (\<lambda>_.
       Inr [(''scope_ref'', dget d ''scope_ref''), (''probe_id'', dget d ''probe_id''),
            (''last_attempt_at'', attempt), (''last_ok_at'', ok), (''lease_until'', lease),
            (''last_error_code'', dget d ''last_error_code'')]))))))))"

text \<open>
  \<^verbatim>\<open>used_bp_from_percent\<close>: a decimal text from 0 to 100 with at most two places, in basis points.
\<close>

definition digits_value :: "string \<Rightarrow> int" where
  "digits_value s = fold (\<lambda>c n. 10 * n + (int (of_char c) - 48)) s 0"

definition percent_parts :: "string \<Rightarrow> (string \<times> string) option" where
  "percent_parts s =
     (let whole = takeWhile (\<lambda>c. c \<noteq> CHR ''.'') s; rest = drop (length whole) s; frac = tl rest in
      if list_all digit whole \<and> list_all digit frac \<and> (rest = [] \<or> 1 \<le> length frac \<and> length frac \<le> 2)
         \<and> (1 \<le> length whole \<and> length whole \<le> 2
            \<or> whole = ''100'' \<and> list_all (\<lambda>c. c = CHR ''0'') frac)
      then Some (whole, frac) else None)"

definition used_bp_from_percent :: "json \<Rightarrow> int res" where
  "used_bp_from_percent v =
     (case v of
        JStr s \<Rightarrow>
          (case percent_parts s of
             Some (whole, frac) \<Rightarrow> Inr (digits_value whole * 100 + digits_value (take 2 (frac @ ''00'')))
           | None \<Rightarrow> raise ''INVALID_REQUEST'')
      | _ \<Rightarrow> raise ''INVALID_REQUEST'')"

section \<open>Freshness\<close>

text \<open>
  \<^verbatim>\<open>timedelta.total_seconds()\<close> is taken exact; its rounding to a float shows only beyond 270 years.
\<close>

record freshness_report =
  fr_state :: string
  fr_issues :: "string list"
  fr_age :: "int option"

definition CLOCK_FUTURE :: int where "CLOCK_FUTURE = 120 * 1000000"
definition CLOCK_SLACK :: int where "CLOCK_SLACK = 300 * 1000000"

definition clock_inconsistent :: "dict \<Rightarrow> int \<Rightarrow> int option \<Rightarrow> int \<Rightarrow> bool" where
  "clock_inconsistent d observed resets now \<longleftrightarrow>
     (case resets of
        None \<Rightarrow> False
      | Some r \<Rightarrow>
          r < observed
          \<or> (case dget d ''window_duration_s'' of
               JInt n \<Rightarrow> 0 \<le> n \<and> n * 1000000 + CLOCK_SLACK < r - observed
             | _ \<Rightarrow> False))
     \<or> CLOCK_FUTURE < observed - now"

definition used_up :: "dict \<Rightarrow> bool" where
  "used_up d \<longleftrightarrow>
     (case dget d ''exhausted_hint'' of JStr s \<Rightarrow> s \<noteq> [] | _ \<Rightarrow> False)
     \<or> (case dget d ''used_bp'' of JInt n \<Rightarrow> 10000 \<le> n | _ \<Rightarrow> False)"

definition known_freshness :: "dict \<Rightarrow> int \<Rightarrow> int \<Rightarrow> int option \<Rightarrow> int \<Rightarrow> string \<times> string list" where
  "known_freshness d observed valid resets now =
     (if clock_inconsistent d observed resets now then (''unknown'', [''clock_inconsistent''])
      else if (case resets of None \<Rightarrow> False | Some r \<Rightarrow> r \<le> now) then (''unknown'', [''window_flipped''])
      else if dget d ''window_kind'' = JStr ''latch'' \<or> dget d ''source_kind'' = JStr ''latch'' then (''latched'', [])
      else if now < valid \<and> used_up d then (''exhausted'', [])
      else if now < valid then (''fresh'', [])
      else (''stale'', []))"

definition observed_freshness :: "iso_parser \<Rightarrow> dict \<Rightarrow> int \<Rightarrow> int \<Rightarrow> freshness_report" where
  "observed_freshness parse d observed now =
     (let age = Some (whole_seconds (now - observed)) in
      case (timestamp parse (dget d ''valid_until''), opt_timestamp parse (dget d ''resets_at'')) of
        (Inr valid, Inr resets) \<Rightarrow>
          (let (st, issues) = known_freshness d observed valid resets now
           in \<lparr>fr_state = st, fr_issues = issues, fr_age = age\<rparr>)
      | _ \<Rightarrow> \<lparr>fr_state = ''unknown'', fr_issues = [], fr_age = age\<rparr>)"

definition freshness :: "iso_parser \<Rightarrow> json \<Rightarrow> int \<Rightarrow> freshness_report" where
  "freshness parse obs now =
     (case obs of
        JNull \<Rightarrow> \<lparr>fr_state = ''absent'', fr_issues = [], fr_age = None\<rparr>
      | JObj d \<Rightarrow>
          (case timestamp parse (dget d ''observed_at'') of
             Inl _ \<Rightarrow> \<lparr>fr_state = ''unknown'', fr_issues = [], fr_age = None\<rparr>
           | Inr observed \<Rightarrow> observed_freshness parse d observed now)
      | _ \<Rightarrow> \<lparr>fr_state = ''unknown'', fr_issues = [], fr_age = None\<rparr>)"

section \<open>Merging the observations of a window\<close>

text \<open>
  \<open>num\<close> compares numbers as Python does (\<open>jeq\<close>) and \<open>L\<close> is Python's \<^verbatim>\<open>str\<close> of other values; both
  matter only for observations that were not normalized.
\<close>

definition CONFLICT_BP :: int where "CONFLICT_BP = 1000"
definition CONFLICT_WINDOW :: int where "CONFLICT_WINDOW = 300 * 1000000"

type_synonym merge_id = "json \<times> json \<times> json"

definition merge_key :: "dict \<Rightarrow> merge_id" where
  "merge_key d = (dget d ''scope_ref'', dget d ''bucket_id'', dget d ''window_kind'')"

definition key_hashable :: "merge_id \<Rightarrow> bool" where
  "key_hashable k \<longleftrightarrow> (case k of (a, b, c) \<Rightarrow> hashable a \<and> hashable b \<and> hashable c)"

definition same_key :: "(string \<Rightarrow> int option) \<Rightarrow> merge_id \<Rightarrow> merge_id \<Rightarrow> bool" where
  "same_key num k k' \<longleftrightarrow>
     (case (k, k') of ((a, b, c), (a', b', c')) \<Rightarrow> jeq num a a' \<and> jeq num b b' \<and> jeq num c c')"

fun add_to_group ::
  "(string \<Rightarrow> int option) \<Rightarrow> dict \<Rightarrow> (merge_id \<times> dict list) list \<Rightarrow> (merge_id \<times> dict list) list" where
  "add_to_group num d [] = [(merge_key d, [d])]"
| "add_to_group num d ((k, ds) # gs) =
     (if same_key num k (merge_key d) then (k, ds @ [d]) # gs else (k, ds) # add_to_group num d gs)"

fun group_windows ::
  "(string \<Rightarrow> int option) \<Rightarrow> json list \<Rightarrow> (merge_id \<times> dict list) list \<Rightarrow> (merge_id \<times> dict list) list res" where
  "group_windows num [] gs = Inr gs"
| "group_windows num (v # vs) gs =
     (case v of
        JObj d \<Rightarrow>
          if key_hashable (merge_key d) then group_windows num vs (add_to_group num d gs) else Inl TypeError
      | _ \<Rightarrow> raise ''INVALID_REQUEST'')"

definition bp_of :: "dict \<Rightarrow> int option" where
  "bp_of d = as_int (dget d ''used_bp'')"

definition source_text :: "pylib \<Rightarrow> dict \<Rightarrow> string" where
  "source_text L d = py_str L (dget d ''source_kind'')"

definition window_marker :: "time_lib \<Rightarrow> dict \<Rightarrow> string option res" where
  "window_marker lib d =
     (case dget d ''window_epoch'' of
        JStr (c # s) \<Rightarrow> Inr (Some (c # s))
      | _ \<Rightarrow> bind_res (opt_timestamp (tl_parse lib) (dget d ''resets_at'')) (\<lambda>r. Inr (window_epoch_from lib r)))"

text \<open>An observation with its instant and its marker.\<close>

type_synonym seen = "int \<times> string option \<times> dict"

definition other_window :: "string option \<Rightarrow> string option \<Rightarrow> bool" where
  "other_window m m' \<longleftrightarrow> m \<noteq> None \<and> m' \<noteq> None \<and> m \<noteq> m'"

fun recent_seen :: "time_lib \<Rightarrow> int \<Rightarrow> string option \<Rightarrow> (int \<times> dict) list \<Rightarrow> seen list res" where
  "recent_seen lib latest_at latest_marker [] = Inr []"
| "recent_seen lib latest_at latest_marker ((t, d) # ds) =
     (if latest_at - t \<le> CONFLICT_WINDOW then
        bind_res (window_marker lib d) (\<lambda>m.
        bind_res (recent_seen lib latest_at latest_marker ds) (\<lambda>r.
          Inr (if other_window m latest_marker then r else (t, m, d) # r)))
      else recent_seen lib latest_at latest_marker ds)"

definition clash :: "(string \<Rightarrow> int option) \<Rightarrow> seen \<Rightarrow> seen \<Rightarrow> bool" where
  "clash num l r =
     (case (l, r) of ((_, ml, dl), (_, mr, dr)) \<Rightarrow>
        \<not> jeq num (dget dl ''source_kind'') (dget dr ''source_kind'') \<and> \<not> other_window ml mr
        \<and> (case (bp_of dl, bp_of dr) of (Some a, Some b) \<Rightarrow> CONFLICT_BP < \<bar>a - b\<bar> | _ \<Rightarrow> False))"

fun any_clash :: "(string \<Rightarrow> int option) \<Rightarrow> seen list \<Rightarrow> bool" where
  "any_clash num [] = False"
| "any_clash num (l # rs) = (list_ex (clash num l) rs \<or> any_clash num rs)"

text \<open>Python's \<^verbatim>\<open>max\<close> returns the first of the greatest.\<close>

fun first_max :: "('a \<Rightarrow> 'b::linorder) \<Rightarrow> 'a \<Rightarrow> 'a list \<Rightarrow> 'a" where
  "first_max f x [] = x"
| "first_max f x (y # ys) = (if f x < f y then first_max f y ys else first_max f x ys)"

definition rank :: "pylib \<Rightarrow> seen \<Rightarrow> int \<times> int \<times> string" where
  "rank L x = (case x of (t, _, d) \<Rightarrow> (the (bp_of d), t, source_text L d))"

definition age_order :: "pylib \<Rightarrow> int \<times> dict \<Rightarrow> int \<times> string \<times> int" where
  "age_order L x = (case x of (t, d) \<Rightarrow> (t, source_text L d, case bp_of d of None \<Rightarrow> - 1 | Some n \<Rightarrow> n))"

definition with_instant :: "time_lib \<Rightarrow> dict \<Rightarrow> (int \<times> dict) res" where
  "with_instant lib d = bind_res (timestamp (tl_parse lib) (dget d ''observed_at'')) (\<lambda>t. Inr (t, d))"

definition merge_group ::
  "time_lib \<Rightarrow> pylib \<Rightarrow> (string \<Rightarrow> int option) \<Rightarrow> dict list \<Rightarrow> (dict \<times> string list) res" where
  "merge_group lib L num ds =
     bind_res (map_res (with_instant lib) ds) (\<lambda>ts.
       let ordered = sort_key (age_order L) ts; (latest_at, latest) = last ordered in
       bind_res (window_marker lib latest) (\<lambda>marker.
       bind_res (recent_seen lib latest_at marker ordered) (\<lambda>recent.
         if any_clash num recent then
           (case filter (\<lambda>(_, _, d). bp_of d \<noteq> None) recent of
              [] \<Rightarrow> Inl TypeError
            | x # xs \<Rightarrow> Inr (snd (snd (first_max (rank L) x xs)), [''source_conflict'']))
         else Inr (latest, []))))"

definition key_text :: "pylib \<Rightarrow> merge_id \<times> 'a \<Rightarrow> string \<times> string \<times> string" where
  "key_text L g =
     (let part = (\<lambda>v. if v = JNull then [] else py_str L v)
      in case g of ((a, b, c), _) \<Rightarrow> (part a, part b, part c))"

definition merge_observations ::
  "time_lib \<Rightarrow> pylib \<Rightarrow> (string \<Rightarrow> int option) \<Rightarrow> json \<Rightarrow> (dict \<times> string list) list res" where
  "merge_observations lib L num v =
     (case v of
        JArr vs \<Rightarrow>
          bind_res (group_windows num vs []) (\<lambda>gs.
            map_res (\<lambda>(_, ds). merge_group lib L num ds) (sort_key (key_text L) gs))
      | _ \<Rightarrow> raise ''INVALID_REQUEST'')"

section \<open>A normalized observation is well typed\<close>

definition OBSERVATION_FIELDS :: "string list" where
  "OBSERVATION_FIELDS =
    [''scope_ref'', ''bucket_id'', ''window_kind'', ''window_duration_s'', ''used_bp'', ''resets_at'',
     ''window_epoch'', ''observed_at'', ''native_time'', ''source_kind'', ''confidence'', ''paid_overage'',
     ''exhausted_hint'', ''expiring_grants'', ''valid_until'', ''adapter_version'', ''native_version'',
     ''schema_version'', ''raw_digest'']"

definition text_typed :: "json \<Rightarrow> bool" where
  "text_typed v \<longleftrightarrow> (\<exists>s. v = JStr s \<and> canonical_text s)"

definition count_typed :: "int \<Rightarrow> json \<Rightarrow> bool" where
  "count_typed most v \<longleftrightarrow> (\<exists>n. v = JInt n \<and> 0 \<le> n \<and> n \<le> most)"

definition grant_typed :: "time_lib \<Rightarrow> json \<Rightarrow> bool" where
  "grant_typed lib v \<longleftrightarrow>
     (\<exists>n t k. v = JObj [(''count'', n), (''expires_at'', JStr (canonical_utc lib t)), (''kind'', k)]
       \<and> count_typed MAX_INTEGER n \<and> text_typed k)"

definition times_typed :: "time_lib \<Rightarrow> dict \<Rightarrow> bool" where
  "times_typed lib d \<longleftrightarrow>
     (\<exists>observed valid resets.
        dget d ''observed_at'' = JStr (canonical_utc lib observed)
        \<and> dget d ''valid_until'' = JStr (canonical_utc lib valid) \<and> observed < valid
        \<and> dget d ''resets_at'' = opt_str (map_option (canonical_utc lib) resets)
        \<and> dget d ''window_epoch'' = opt_str (window_epoch_from lib resets)
        \<and> (\<forall>r. resets = Some r \<longrightarrow> valid \<le> r)
        \<and> (manual d \<longrightarrow> valid - observed \<le> MANUAL_MAX_TTL))"

definition kinds_typed :: "dict \<Rightarrow> bool" where
  "kinds_typed d \<longleftrightarrow>
     text_typed (dget d ''scope_ref'') \<and> text_typed (dget d ''bucket_id'')
     \<and> one_of WINDOW_KINDS (dget d ''window_kind'') \<and> one_of CONFIDENCE (dget d ''confidence'')
     \<and> (\<exists>s. dget d ''source_kind'' = JStr s \<and> source_ok s) \<and> (\<exists>b. dget d ''paid_overage'' = JBool b)
     \<and> (manual d \<longrightarrow> dget d ''confidence'' = JStr ''low'' \<and> dget d ''paid_overage'' = JBool False
          \<and> dget d ''window_kind'' \<noteq> JStr ''latch'')"

definition observation_typed :: "time_lib \<Rightarrow> dict \<Rightarrow> bool" where
  "observation_typed lib d \<longleftrightarrow>
     map fst d = OBSERVATION_FIELDS \<and> kinds_typed d \<and> times_typed lib d
     \<and> (dget d ''used_bp'' = JNull \<or> count_typed 10000 (dget d ''used_bp''))
     \<and> (dget d ''window_duration_s'' = JNull \<or> count_typed MAX_INTEGER (dget d ''window_duration_s''))
     \<and> (\<forall>k \<in> set [''exhausted_hint'', ''native_time'', ''adapter_version'', ''native_version''].
          dget d k = JNull \<or> text_typed (dget d k))
     \<and> (\<exists>gs. dget d ''expiring_grants'' = JArr gs \<and> length gs \<le> 64 \<and> list_all (grant_typed lib) gs)
     \<and> dget d ''schema_version'' = JInt 1
     \<and> (dget d ''raw_digest'' = JNull \<or> (\<exists>s. dget d ''raw_digest'' = JStr s \<and> digest_ok s))"

named_theorems check_iffs \<open>what a check that passes has established\<close>

lemma check_text_Inr [check_iffs]: "check_text False v = Inr u \<longleftrightarrow> text_typed v"
  by (auto simp: check_text_def text_typed_def split: json.splits)

lemma check_integer_Inr [check_iffs]: "check_integer 0 False v = Inr u \<longleftrightarrow> count_typed MAX_INTEGER v"
  by (auto simp: check_integer_def count_typed_def split: json.splits)

lemma check_nullable_Inr [check_iffs]:
  "check_integer 0 True v = Inr u \<longleftrightarrow> v = JNull \<or> count_typed MAX_INTEGER v"
  by (auto simp: check_integer_def count_typed_def split: json.splits)

lemma dget_absent: "\<not> dhas d k \<Longrightarrow> dget d k = JNull"
  by (induction d) (auto simp: dhas_def)

lemma if_given_Inr: "if_given d c k = Inr u \<Longrightarrow> dget d k = JNull \<or> c (dget d k) = Inr ()"
  using dget_absent [of d k] by (cases "dhas d k") (auto simp: if_given_def)

lemma member_of_Inr [check_iffs]: "member_of ks v = Inr u \<longleftrightarrow> one_of ks v"
  by (auto simp: member_of_def one_of_def hashable_def split: json.splits)

lemma check_bool_Inr [check_iffs]: "check_bool v = Inr u \<longleftrightarrow> (\<exists>b. v = JBool b)"
  by (auto simp: check_bool_def split: json.splits)

lemma optional_text_Inr:
  "optional_text d k = Inr v \<Longrightarrow> v = JNull \<or> text_typed v"
  by (auto simp: optional_text_def bind_res_Inr_iff check_iffs split: if_splits)

lemma check_kinds_Inr: "check_kinds d = Inr u \<Longrightarrow> kinds_typed d"
  by (auto simp: check_kinds_def kinds_typed_def bind_res_Inr_iff each_res_Inr_iff check_iffs
      split: if_splits json.splits)

lemma check_amounts_Inr:
  "check_amounts d = Inr u \<Longrightarrow>
   (dget d ''used_bp'' = JNull \<or> count_typed 10000 (dget d ''used_bp''))
   \<and> (dget d ''window_duration_s'' = JNull \<or> count_typed MAX_INTEGER (dget d ''window_duration_s''))"
  by (auto simp: check_amounts_def bind_res_Inr_iff count_typed_def check_iffs dest!: if_given_Inr)

lemma check_times_Inr:
  "check_times lib d = Inr (observed, valid, resets) \<Longrightarrow>
   observed < valid \<and> (\<forall>r. resets = Some r \<longrightarrow> valid \<le> r) \<and> (manual d \<longrightarrow> valid - observed \<le> MANUAL_MAX_TTL)"
  by (auto simp: check_times_def bind_res_Inr_iff)

lemma map_res_all: "map_res f xs = Inr ys \<Longrightarrow> (\<And>x y. f x = Inr y \<Longrightarrow> P y) \<Longrightarrow> list_all P ys \<and> length ys = length xs"
  by (induction xs arbitrary: ys) (auto simp: bind_res_Inr_iff)

lemma normalize_grant_Inr:
  assumes "normalize_grant lib v = Inr g"
  shows "grant_typed lib g"
proof (cases v)
  case (JObj d)
  from assms [unfolded JObj normalize_grant_def json.case] show ?thesis
    unfolding JObj by (elim bind_res_InrE) (unfold grant_typed_def check_iffs sum.inject, blast)
qed (use assms in \<open>simp_all add: normalize_grant_def\<close>)

lemma normalize_grants_Inr:
  assumes "normalize_grants lib d = Inr gs"
  shows "length gs \<le> 64 \<and> list_all (grant_typed lib) gs"
proof -
  from assms obtain vs where "map_res (normalize_grant lib) vs = Inr gs" "length vs \<le> 64"
    by (auto simp: normalize_grants_def split: json.splits if_splits)
  from this(1) have "list_all (grant_typed lib) gs \<and> length gs = length vs"
    by (rule map_res_all) (rule normalize_grant_Inr)
  with \<open>length vs \<le> 64\<close> show ?thesis by simp
qed

lemma check_versions_Inr:
  "check_versions d = Inr u \<Longrightarrow>
   dget d ''raw_digest'' = JNull \<or> (\<exists>s. dget d ''raw_digest'' = JStr s \<and> digest_ok s)"
  by (auto simp: check_versions_def bind_res_Inr_iff split: json.splits)

text \<open>
  Whatever \<^verbatim>\<open>normalize_observation\<close> accepts becomes a well-typed observation: exactly the
  nineteen fields in their order; checked texts, kinds and sources; a used share between 0
  and 10000 basis points; canonical instants with observed before valid, valid not after the
  reset, and the epoch derived from the reset; at most 64 well-typed grants; and an entry by
  hand is of low confidence, not paid, no latch and valid for at most a day. What it was made
  of holds no secret key and no text with an at sign.
\<close>

theorem normalized_observation_typed:
  assumes "normalize_observation lib v = Inr d"
  shows "observation_typed lib d \<and> \<not> sensitive v"
proof -
  from assms obtain d0 u1 u2 x where
    o: "observation_object v = Inr d0" and k: "check_kinds d0 = Inr u1" and a: "check_amounts d0 = Inr u2" and
    x: "check_times lib d0 = Inr x"
      "(case x of (observed, valid, resets) \<Rightarrow> normalized_fields lib d0 observed valid resets) = Inr d"
    unfolding normalize_observation_def by (elim bind_res_InrE) (rule that)
  obtain observed valid resets where times: "x = (observed, valid, resets)" by (rule prod_cases3)
  note t = x(1) [unfolded times]
  from x(2) [unfolded times prod.case] obtain hint native_time adapter native_version grants u3 where
    h: "optional_text d0 ''exhausted_hint'' = Inr hint" "optional_text d0 ''native_time'' = Inr native_time"
      "optional_text d0 ''adapter_version'' = Inr adapter" "optional_text d0 ''native_version'' = Inr native_version" and
    g: "normalize_grants lib d0 = Inr grants" and c: "check_versions d0 = Inr u3" and
    fields: "Inr [(''scope_ref'', dget d0 ''scope_ref''), (''bucket_id'', dget d0 ''bucket_id''),
            (''window_kind'', dget d0 ''window_kind''), (''window_duration_s'', dget d0 ''window_duration_s''),
            (''used_bp'', dget d0 ''used_bp''),
            (''resets_at'', opt_str (map_option (canonical_utc lib) resets)),
            (''window_epoch'', opt_str (window_epoch_from lib resets)),
            (''observed_at'', JStr (canonical_utc lib observed)), (''native_time'', native_time),
            (''source_kind'', dget d0 ''source_kind''), (''confidence'', dget d0 ''confidence''),
            (''paid_overage'', dget d0 ''paid_overage''), (''exhausted_hint'', hint),
            (''expiring_grants'', JArr grants), (''valid_until'', JStr (canonical_utc lib valid)),
            (''adapter_version'', adapter), (''native_version'', native_version),
            (''schema_version'', JInt 1), (''raw_digest'', dget d0 ''raw_digest'')] = (Inr d :: dict res)"
    unfolding normalized_fields_def by (elim bind_res_InrE) (rule that)
  note d = fields [unfolded sum.inject, symmetric]
  have same:
      "dget d ''scope_ref'' = dget d0 ''scope_ref''"
      "dget d ''bucket_id'' = dget d0 ''bucket_id''"
      "dget d ''window_kind'' = dget d0 ''window_kind''"
      "dget d ''source_kind'' = dget d0 ''source_kind''"
      "dget d ''confidence'' = dget d0 ''confidence''"
      "dget d ''paid_overage'' = dget d0 ''paid_overage''"
      "dget d ''used_bp'' = dget d0 ''used_bp''"
      "dget d ''window_duration_s'' = dget d0 ''window_duration_s''"
      "dget d ''raw_digest'' = dget d0 ''raw_digest''"
    unfolding d by simp_all
  have m: "manual d = manual d0" by (simp add: manual_def same)
  have "kinds_typed d" using check_kinds_Inr [OF k] by (simp add: kinds_typed_def same m)
  moreover have "times_typed lib d"
    unfolding times_typed_def m using check_times_Inr [OF t]
    by (intro exI [of _ observed] exI [of _ valid] exI [of _ resets]) (simp add: d)
  moreover have "dget d k = JNull \<or> text_typed (dget d k)"
    if "k \<in> set [''exhausted_hint'', ''native_time'', ''adapter_version'', ''native_version'']" for k
  proof -
    have "dget d ''exhausted_hint'' = hint" "dget d ''native_time'' = native_time"
        "dget d ''adapter_version'' = adapter" "dget d ''native_version'' = native_version"
      unfolding d by simp_all
    with that h [THEN optional_text_Inr] show ?thesis by auto
  qed
  moreover have "map fst d = OBSERVATION_FIELDS" by (simp add: d OBSERVATION_FIELDS_def)
  moreover have "\<exists>gs. dget d ''expiring_grants'' = JArr gs \<and> length gs \<le> 64 \<and> list_all (grant_typed lib) gs"
    using normalize_grants_Inr [OF g] by (simp add: d)
  moreover have "dget d ''schema_version'' = JInt 1" by (simp add: d)
  ultimately have "observation_typed lib d"
    using check_amounts_Inr [OF a] check_versions_Inr [OF c] by (simp add: observation_typed_def same)
  moreover have "\<not> sensitive v"
    using o by (auto simp: observation_object_def bind_res_Inr_iff json_copy_def Let_def
        split: json.splits if_splits)
  ultimately show ?thesis by blast
qed

definition example_lib :: time_lib where
  "example_lib = \<lparr>tl_parse = (\<lambda>s. Some (if take 1 s = ''1'' then 60000000 else 120000000, True)),
     tl_format = (\<lambda>_ t. if t = 60000000 then ''1T'' else ''2T''), tl_minute = (\<lambda>_. ''mZ'')\<rparr>"

definition example_window :: dict where
  "example_window =
    [(''scope_ref'', JStr ''backend:codex''), (''bucket_id'', JStr ''primary''), (''window_kind'', JStr ''5h''),
     (''source_kind'', JStr ''manual''), (''confidence'', JStr ''low''), (''paid_overage'', JBool False),
     (''observed_at'', JStr ''1TZ''), (''valid_until'', JStr ''2TZ''), (''used_bp'', JInt 2500)]"

lemma example_normalizes: "ok_res (normalize_observation example_lib (JObj example_window))"
  by code_simp

theorem normalized_observation_typed_witness:
  "\<exists>d. normalize_observation example_lib (JObj example_window) = Inr d \<and> observation_typed example_lib d"
proof -
  obtain d where "normalize_observation example_lib (JObj example_window) = Inr d"
    using example_normalizes by (auto simp: ok_res_def split: sum.splits)
  with normalized_observation_typed [OF this] show ?thesis by blast
qed

section \<open>Freshness over time\<close>

lemma known_freshness_fresh:
  "known_freshness d observed valid resets now = (''fresh'', []) \<longleftrightarrow>
   \<not> clock_inconsistent d observed resets now \<and> (\<forall>r. resets = Some r \<longrightarrow> now < r)
   \<and> dget d ''window_kind'' \<noteq> JStr ''latch'' \<and> dget d ''source_kind'' \<noteq> JStr ''latch'' \<and> now < valid \<and> \<not> used_up d"
  by (auto simp: known_freshness_def split: option.splits)

definition instants_of :: "iso_parser \<Rightarrow> dict \<Rightarrow> (int \<times> int \<times> int option) res" where
  "instants_of parse d =
     bind_res (timestamp parse (dget d ''observed_at'')) (\<lambda>observed.
     bind_res (timestamp parse (dget d ''valid_until'')) (\<lambda>valid.
     bind_res (opt_timestamp parse (dget d ''resets_at'')) (\<lambda>resets. Inr (observed, valid, resets))))"

lemma freshness_known:
  "instants_of parse d = Inr (observed, valid, resets) \<Longrightarrow>
   fr_state (freshness parse (JObj d) now) = fst (known_freshness d observed valid resets now)"
  by (auto simp: instants_of_def freshness_def observed_freshness_def bind_res_Inr_iff Let_def split: prod.splits)

lemma freshness_unknown:
  "instants_of parse d = Inl e \<Longrightarrow> fr_state (freshness parse (JObj d) now) = ''unknown''"
  by (auto simp: instants_of_def freshness_def observed_freshness_def bind_res_def Let_def split: sum.splits)

lemma known_state_fresh:
  "fst (known_freshness d observed valid resets now) = ''fresh'' \<longleftrightarrow>
   known_freshness d observed valid resets now = (''fresh'', [])"
  by (auto simp: known_freshness_def split: option.splits if_splits)

text \<open>
  A quota observation is trusted only inside its window, and trust that ends does not come
  back: an observation that is fresh now is parsed, is no latch and not used up, and now is
  before its end of validity and before its reset; and once an observation that was fresh is
  not fresh any more, it is never fresh again.
\<close>

theorem freshness_ends_for_good:
  assumes "fr_state (freshness parse obs t1) = ''fresh''" and "t1 \<le> t2" and "t2 \<le> t3"
    and "fr_state (freshness parse obs t2) \<noteq> ''fresh''"
  shows "fr_state (freshness parse obs t3) \<noteq> ''fresh''
    \<and> (\<exists>d observed valid resets. obs = JObj d \<and> instants_of parse d = Inr (observed, valid, resets)
        \<and> t1 < valid \<and> (\<forall>r. resets = Some r \<longrightarrow> t1 < r) \<and> \<not> used_up d
        \<and> dget d ''window_kind'' \<noteq> JStr ''latch'' \<and> dget d ''source_kind'' \<noteq> JStr ''latch''
        \<and> (valid \<le> t2 \<or> (\<exists>r. resets = Some r \<and> r \<le> t2)))"
proof -
  from assms(1) obtain d where obs: "obs = JObj d"
    by (auto simp: freshness_def split: json.splits)
  with assms(1) obtain observed valid resets where i: "instants_of parse d = Inr (observed, valid, resets)"
    using freshness_unknown [of parse d] by (cases "instants_of parse d") auto
  have fresh: "fr_state (freshness parse (JObj d) t) = ''fresh'' \<longleftrightarrow>
     known_freshness d observed valid resets t = (''fresh'', [])" for t
    unfolding freshness_known [OF i] by (rule known_state_fresh)
  have clock: "clock_inconsistent d observed resets t2 \<Longrightarrow> clock_inconsistent d observed resets t1"
    using assms(2) by (auto simp: clock_inconsistent_def)
  from assms(1,4) have 1: "known_freshness d observed valid resets t1 = (''fresh'', [])"
    "known_freshness d observed valid resets t2 \<noteq> (''fresh'', [])" by (simp_all add: obs fresh)
  with clock have over: "valid \<le> t2 \<or> (\<exists>r. resets = Some r \<and> r \<le> t2)"
    by (auto simp: known_freshness_fresh not_less)
  with assms(3) have "known_freshness d observed valid resets t3 \<noteq> (''fresh'', [])"
    by (auto simp: known_freshness_fresh)
  with 1(1) over i show ?thesis unfolding obs fresh known_freshness_fresh by blast
qed

theorem freshness_ends_for_good_witness:
  "fr_state (freshness (tl_parse example_lib) (JObj example_window) 130000000) \<noteq> ''fresh''"
  using freshness_ends_for_good [of "tl_parse example_lib" "JObj example_window" 60000000 120000000 130000000]
  by (simp add: freshness_def observed_freshness_def timestamp_def opt_timestamp_def known_freshness_def
      clock_inconsistent_def used_up_def example_lib_def example_window_def ends_with_def starts_with_def
      CLOCK_FUTURE_def Let_def)

section \<open>Merging is conservative\<close>

lemma sorted_last: "sorted (map f xs) \<Longrightarrow> x \<in> set xs \<Longrightarrow> f x \<le> f (last xs)"
  by (induction xs) auto

lemma last_sort_key: "x \<in> set xs \<Longrightarrow> f x \<le> f (last (sort_key f xs))"
  by (rule sorted_last) simp_all

lemma first_max_in: "first_max f x xs \<in> set (x # xs)"
  by (induction f x xs rule: first_max.induct) auto

lemma first_max_above: "f x \<le> f (first_max f x xs)"
  by (induction f x xs rule: first_max.induct) (auto intro: order.trans less_imp_le)

lemma first_max_ge: "y \<in> set (x # xs) \<Longrightarrow> f y \<le> f (first_max f x xs)"
proof (induction xs arbitrary: x)
  case (Cons z zs)
  show ?case
  proof (cases "y \<in> set zs")
    case True
    with Cons.IH show ?thesis by simp
  next
    case False
    with Cons.prems have "y = x \<or> y = z" by auto
    then show ?thesis
      using first_max_above [of f x zs] first_max_above [of f z zs] by (auto intro: order.trans less_imp_le)
  qed
qed simp

lemma recent_seen_iff:
  "recent_seen lib T m xs = Inr rs \<Longrightarrow>
   (t, k, d) \<in> set rs \<longleftrightarrow>
     (t, d) \<in> set xs \<and> T - t \<le> CONFLICT_WINDOW \<and> window_marker lib d = Inr k \<and> \<not> other_window k m"
  by (induction xs arbitrary: rs) (auto simp: bind_res_Inr_iff split: if_splits)

lemma clash_sym: "clash num x y \<longleftrightarrow> clash num y x"
  by (auto simp: clash_def other_window_def jeq_sym abs_minus_commute split: prod.splits option.splits)

lemma no_clash:
  "\<not> any_clash num xs \<Longrightarrow> x \<in> set xs \<Longrightarrow> y \<in> set xs \<Longrightarrow> x \<noteq> y \<Longrightarrow> \<not> clash num x y"
  by (induction xs) (auto simp: list_ex_iff clash_sym)

lemma some_clash:
  "any_clash num xs \<Longrightarrow> \<exists>x \<in> set xs. \<exists>y \<in> set xs. clash num x y"
  by (induction xs) (auto simp: list_ex_iff)

lemma rank_le: "rank L x \<le> rank L y \<Longrightarrow> the (bp_of (snd (snd x))) \<le> the (bp_of (snd (snd y)))"
  by (cases x; cases y) (auto simp: rank_def less_eq_prod_def)

lemma age_order_le: "age_order L x \<le> age_order L y \<Longrightarrow> fst x \<le> fst y"
  by (cases x; cases y) (auto simp: age_order_def less_eq_prod_def)

lemma with_instant_iff: "with_instant lib d = Inr x \<longleftrightarrow> (\<exists>t. timestamp (tl_parse lib) (dget d ''observed_at'') = Inr t \<and> x = (t, d))"
  by (auto simp: with_instant_def bind_res_Inr_iff)

lemma map_res_with_instant:
  "map_res (with_instant lib) ds = Inr ts \<Longrightarrow>
   (t, d) \<in> set ts \<longleftrightarrow> d \<in> set ds \<and> timestamp (tl_parse lib) (dget d ''observed_at'') = Inr t"
  by (induction ds arbitrary: ts) (auto simp: bind_res_Inr_iff with_instant_iff)

text \<open>An observation of the group that counts against the latest one: recent, and not of another window.\<close>

definition counts_with :: "time_lib \<Rightarrow> dict \<Rightarrow> dict \<Rightarrow> bool" where
  "counts_with lib latest d \<longleftrightarrow>
     (\<exists>T t m k. timestamp (tl_parse lib) (dget latest ''observed_at'') = Inr T
        \<and> timestamp (tl_parse lib) (dget d ''observed_at'') = Inr t \<and> T - t \<le> CONFLICT_WINDOW
        \<and> window_marker lib latest = Inr m \<and> window_marker lib d = Inr k \<and> \<not> other_window k m)"

lemma other_window_refl [simp]: "\<not> other_window m m"
  by (simp add: other_window_def)

text \<open>
  The merge of the observations of one window never hides use: its result is one of them;
  without a conflict it is the latest, and no observation of another source that counts with
  it reports more than ten percentage points more; with a conflict two sources that count do
  differ by more, and the result reports the greatest use of all that count.
\<close>

theorem merge_is_conservative:
  assumes "merge_group lib L num ds = Inr (w, issues)" and "ds \<noteq> []"
  shows "w \<in> set ds \<and> (\<exists>latest \<in> set ds.
     (\<forall>d \<in> set ds. \<forall>t T. timestamp (tl_parse lib) (dget d ''observed_at'') = Inr t \<longrightarrow>
        timestamp (tl_parse lib) (dget latest ''observed_at'') = Inr T \<longrightarrow> t \<le> T)
     \<and> (if issues = [] then
          w = latest \<and> (\<forall>d \<in> set ds. \<forall>a b k m. counts_with lib latest d \<longrightarrow>
            \<not> jeq num (dget d ''source_kind'') (dget w ''source_kind'') \<longrightarrow>
            bp_of d = Some a \<longrightarrow> bp_of w = Some b \<longrightarrow> a \<le> b + CONFLICT_BP)
        else
          issues = [''source_conflict''] \<and> counts_with lib latest w
          \<and> (\<exists>b. bp_of w = Some b \<and> (\<forall>d \<in> set ds. \<forall>a. counts_with lib latest d \<longrightarrow> bp_of d = Some a \<longrightarrow> a \<le> b)
               \<and> (\<exists>d \<in> set ds. \<exists>a. bp_of d = Some a \<and> a + CONFLICT_BP < b))))"
proof -
  from assms(1) obtain ts where ts: "map_res (with_instant lib) ds = Inr ts"
    by (auto simp: merge_group_def bind_res_Inr_iff)
  obtain T latest where last: "last (sort_key (age_order L) ts) = (T, latest)" by fastforce
  from assms(1) ts last obtain m rs where
    m: "window_marker lib latest = Inr m" and
    rs: "recent_seen lib T m (sort_key (age_order L) ts) = Inr rs" and
    res: "(if any_clash num rs then
            (case filter (\<lambda>(_, _, d). bp_of d \<noteq> None) rs of
               [] \<Rightarrow> Inl TypeError
             | x # xs \<Rightarrow> Inr (snd (snd (first_max (rank L) x xs)), [''source_conflict'']))
          else Inr (latest, [])) = Inr (w, issues)"
    by (auto simp: merge_group_def bind_res_Inr_iff Let_def)
  have "length ts = length ds" using ts by (auto dest: map_res_all [where P = "\<lambda>_. True"])
  with assms(2) have ne: "sort_key (age_order L) ts \<noteq> []"
    by (metis length_0_conv length_sort)
  have at: "(t, d) \<in> set ts \<longleftrightarrow> d \<in> set ds \<and> timestamp (tl_parse lib) (dget d ''observed_at'') = Inr t" for t d
    by (rule map_res_with_instant [OF ts])
  from last_in_set [OF ne] have "(T, latest) \<in> set ts" by (simp add: last)
  with at have lat: "latest \<in> set ds" "timestamp (tl_parse lib) (dget latest ''observed_at'') = Inr T" by auto
  have old: "t \<le> T" if "d \<in> set ds" "timestamp (tl_parse lib) (dget d ''observed_at'') = Inr t" for d t
    using last_sort_key [of "(t, d)" ts "age_order L"] that at last age_order_le by fastforce
  have rec: "(t, k, d) \<in> set rs \<longleftrightarrow> d \<in> set ds \<and> timestamp (tl_parse lib) (dget d ''observed_at'') = Inr t
      \<and> T - t \<le> CONFLICT_WINDOW \<and> window_marker lib d = Inr k \<and> \<not> other_window k m" for t k d
    using recent_seen_iff [OF rs] at by auto
  have counts: "d \<in> set ds \<and> counts_with lib latest d \<longleftrightarrow> (\<exists>t k. (t, k, d) \<in> set rs)" for d
    using lat m by (auto simp: rec counts_with_def)
  have self: "(T, m, latest) \<in> set rs" using lat m by (simp add: rec CONFLICT_WINDOW_def)
  show ?thesis
  proof (cases "any_clash num rs")
    case False
    with res have w: "w = latest" "issues = []" by auto
    have "a \<le> b + CONFLICT_BP"
      if "d \<in> set ds" "counts_with lib latest d" "\<not> jeq num (dget d ''source_kind'') (dget latest ''source_kind'')"
        "bp_of d = Some a" "bp_of latest = Some b" for d a b
    proof -
      from counts that(1,2) obtain t k where d: "(t, k, d) \<in> set rs" by blast
      with that(3) have "(t, k, d) \<noteq> (T, m, latest)" by auto
      with no_clash [OF False d self] d rec that(3-5) show ?thesis by (auto simp: clash_def)
    qed
    with w lat old show ?thesis by auto
  next
    case True
    from some_clash [OF this] obtain x y where c: "x \<in> set rs" "y \<in> set rs" "clash num x y" by blast
    obtain t1 k1 d1 t2 k2 d2 where xy: "x = (t1, k1, d1)" "y = (t2, k2, d2)" by (metis prod_cases3)
    from c(3) obtain a1 a2 where bp: "bp_of d1 = Some a1" "bp_of d2 = Some a2" "CONFLICT_BP < \<bar>a1 - a2\<bar>"
      by (auto simp: xy clash_def split: option.splits)
    let ?num = "filter (\<lambda>(_, _, d). bp_of d \<noteq> None) rs"
    from c(1) xy bp have "x \<in> set ?num" by auto
    then have "?num \<noteq> []" by (metis empty_iff empty_set)
    then obtain z zs where num: "?num = z # zs" by (meson neq_Nil_conv)
    define best where "best = first_max (rank L) z zs"
    from res True num have w: "w = snd (snd best)" "issues = [''source_conflict'']" by (auto simp: best_def)
    have best: "best \<in> set ?num" unfolding num best_def by (rule first_max_in)
    obtain tb kb where b: "best = (tb, kb, w)" by (metis w(1) prod.collapse)
    with best have wrs: "(tb, kb, w) \<in> set rs" by auto
    from best b obtain bw where bw: "bp_of w = Some bw" by auto
    have top: "a \<le> bw" if "(t, k, d) \<in> set rs" "bp_of d = Some a" for t k d a
    proof -
      from that have "(t, k, d) \<in> set ?num" by auto
      then have "rank L (t, k, d) \<le> rank L best"
        unfolding num best_def by (rule first_max_ge)
      from rank_le [OF this] that(2) bw b show ?thesis by simp
    qed
    have "a1 \<le> bw" "a2 \<le> bw" using top c(1,2) bp by (auto simp: xy)
    with bp(3) have low: "a1 + CONFLICT_BP < bw \<or> a2 + CONFLICT_BP < bw" by (auto simp: abs_if split: if_splits)
    have "d1 \<in> set ds" "d2 \<in> set ds" using c(1,2) by (auto simp: xy rec)
    with low bp have "\<exists>d \<in> set ds. \<exists>a. bp_of d = Some a \<and> a + CONFLICT_BP < bw" by blast
    moreover have "w \<in> set ds \<and> counts_with lib latest w" using wrs counts by blast
    moreover have "\<forall>d \<in> set ds. \<forall>a. counts_with lib latest d \<longrightarrow> bp_of d = Some a \<longrightarrow> a \<le> bw"
      using counts top by blast
    moreover have "t \<le> T'" if "d \<in> set ds" "timestamp (tl_parse lib) (dget d ''observed_at'') = Inr t"
        "timestamp (tl_parse lib) (dget latest ''observed_at'') = Inr T'" for d t T'
      using old that lat(2) by simp
    ultimately show ?thesis using w(2) bw lat(1) by (intro conjI bexI [of _ latest]) auto
  qed
qed

definition passive_window :: dict where
  "passive_window = dset (dset example_window ''source_kind'' (JStr ''passive_codex'')) ''used_bp'' (JInt 9000)"

theorem merge_is_conservative_witness:
  "merge_group example_lib plain_lib (\<lambda>_. None) [example_window, passive_window]
     = Inr (passive_window, [''source_conflict'']) \<and> passive_window \<in> set [example_window, passive_window]"
proof -
  have run: "merge_group example_lib plain_lib (\<lambda>_. None) [example_window, passive_window]
      = Inr (passive_window, [''source_conflict''])"
    by code_simp
  from merge_is_conservative [OF run] run show ?thesis by simp
qed

end
