(* ===== verification/Note_Filter.thy ===== *)
theory Note_Filter
  imports Capsule_Render Quota_Observation
begin

text \<open>
  What of a backend's text may travel in a capsule: the redaction of
  \<^verbatim>\<open>src/asterun/redact.py\<close> and the white list for note lines of
  \<^verbatim>\<open>src/asterun/capsule/assemble.py\<close>. Regular expressions are written out as searches over the
  suffixes of a text. The environment, the home directory and the order in which the set of
  secret names iterates are the record \<open>note_env\<close>.
\<close>

section \<open>Searching\<close>

fun anywhere :: "(string \<Rightarrow> bool) \<Rightarrow> string \<Rightarrow> bool" where
  "anywhere P [] = P []"
| "anywhere P (c # s) \<longleftrightarrow> P (c # s) \<or> anywhere P s"

definition contains :: "string \<Rightarrow> string \<Rightarrow> bool" where
  "contains x s \<longleftrightarrow> anywhere (starts_with x) s"

definition run_of :: "nat \<Rightarrow> (char \<Rightarrow> bool) \<Rightarrow> string \<Rightarrow> bool" where
  "run_of n P s \<longleftrightarrow> anywhere (\<lambda>t. n \<le> length (takeWhile P t)) s"

lemma anywhere_suffix: "anywhere P s \<longleftrightarrow> (\<exists>a b. s = a @ b \<and> P b)"
proof (induction s)
  case (Cons c s)
  show ?case
  proof
    assume "anywhere P (c # s)"
    then show "\<exists>a b. c # s = a @ b \<and> P b"
    proof (cases "P (c # s)")
      case True then show ?thesis by (metis append_Nil)
    next
      case False
      with \<open>anywhere P (c # s)\<close> Cons obtain a b where "s = a @ b" "P b" by auto
      then show ?thesis by (metis append_Cons)
    qed
  next
    assume "\<exists>a b. c # s = a @ b \<and> P b"
    then obtain a b where ab: "c # s = a @ b" "P b" by blast
    show "anywhere P (c # s)"
    proof (cases a)
      case Nil with ab(1) [symmetric] ab(2) show ?thesis by simp
    next
      case (Cons x xs)
      with ab have "s = xs @ b" by simp
      with ab(2) \<open>anywhere P s \<longleftrightarrow> (\<exists>a b. s = a @ b \<and> P b)\<close> show ?thesis by auto
    qed
  qed
qed simp

lemma contains_occurs: "contains x s \<longleftrightarrow> occurs_in x s"
proof -
  have "starts_with x b \<longleftrightarrow> (\<exists>c. b = x @ c)" for b
    by (metis append_eq_conv_conj append_take_drop_id starts_with_def)
  then show ?thesis by (auto simp: contains_def occurs_in_def anywhere_suffix)
qed

lemma run_of_occurs: "list_all P x \<Longrightarrow> n \<le> length x \<Longrightarrow> occurs_in x s \<Longrightarrow> run_of n P s"
proof -
  assume x: "list_all P x" "n \<le> length x" and "occurs_in x s"
  then obtain a b where s: "s = a @ x @ b" by (auto simp: occurs_in_def)
  from x(1) have "takeWhile P (x @ b) = x @ takeWhile P b"
    by (simp add: list_all_iff takeWhile_append2)
  with x(2) have "n \<le> length (takeWhile P (x @ b))" by simp
  with s show ?thesis unfolding run_of_def anywhere_suffix by blast
qed

section \<open>Redaction\<close>

record note_env =
  ne_environ :: "string \<Rightarrow> string option"
  ne_home :: string
  ne_names :: "string list"

definition SECRET_ENV_NAMES :: "string list" where
  "SECRET_ENV_NAMES =
    [''ANTHROPIC_API_KEY'', ''OPENAI_API_KEY'', ''GROK_API_KEY'', ''CODEX_API_KEY'', ''ASTERUN_ACCOUNT_REF'',
     ''ASTERUN_RUNTIME_REF'', ''CODEX_HOME'', ''GROK_MODELS_CACHE'']"

definition environ_text :: "note_env \<Rightarrow> string \<Rightarrow> string" where
  "environ_text env name = (case ne_environ env name of None \<Rightarrow> [] | Some v \<Rightarrow> v)"

definition secret_values :: "note_env \<Rightarrow> string list" where
  "secret_values env =
     filter (\<lambda>v. v \<noteq> []) (map (environ_text env) (ne_names env))
     @ (if ne_home env \<notin> {[], ''/''} then [ne_home env] else [])
     @ (if environ_text env ''ASTERUN_HOME'' \<noteq> [] then [environ_text env ''ASTERUN_HOME''] else [])"

text \<open>\<^verbatim>\<open>s.replace(old, new)\<close> for a text \<open>old\<close> that is not empty\<close>

function replace_text :: "string \<Rightarrow> string \<Rightarrow> string \<Rightarrow> string" where
  "replace_text old new [] = []"
| "replace_text old new (c # s) =
     (if starts_with old (c # s) then new @ replace_text old new (drop (length old - 1) s)
      else c # replace_text old new s)"
  by pat_completeness auto
termination by (relation "measure (\<lambda>(old, new, s). length s)") auto

definition token_char :: "char \<Rightarrow> bool" where
  "token_char c \<longleftrightarrow> (let n = of_char c :: nat in
     48 \<le> n \<and> n \<le> 57 \<or> 65 \<le> n \<and> n \<le> 90 \<or> 97 \<le> n \<and> n \<le> 122 \<or> n \<in> set [45, 95])"

definition TOKEN_PREFIXES :: "string list" where
  "TOKEN_PREFIXES =
    [''sk-'', ''gsk_'', ''xoxb-'', ''xoxa-'', ''xoxp-'', ''xoxr-'', ''xoxs-'', ''ghp_'', ''github_pat_'']"

text \<open>The length of the token a text starts with, 0 where it starts with none.\<close>

definition token_length :: "string \<Rightarrow> nat" where
  "token_length s =
     (case find (\<lambda>p. starts_with p s) TOKEN_PREFIXES of
        None \<Rightarrow> 0
      | Some p \<Rightarrow>
          (let n = length (takeWhile token_char (drop (length p) s))
           in if n < 8 then 0 else length p + n))"

definition REDACTED :: string where "REDACTED = ''[redacted]''"

function redact_tokens :: "string \<Rightarrow> string" where
  "redact_tokens [] = []"
| "redact_tokens (c # s) =
     (case token_length (c # s) of
        0 \<Rightarrow> c # redact_tokens s
      | Suc n \<Rightarrow> REDACTED @ redact_tokens (drop n s))"
  by pat_completeness auto
termination by (relation "measure length") auto

definition redact_item :: "string \<Rightarrow> string \<Rightarrow> string" where
  "redact_item item s =
     (if item = [] \<or> item \<in> {''/'', ''.'', ''~''} then s else replace_text item REDACTED s)"

definition redact_text :: "note_env \<Rightarrow> string list \<Rightarrow> string \<Rightarrow> string" where
  "redact_text env extras s = redact_tokens (fold redact_item (extras @ secret_values env) s)"

section \<open>Note lines\<close>

text \<open>
  Matching without regard to case: the ASCII letters, and the four characters whose case
  relatives are ASCII letters (the Kelvin sign, the dotted capital and the dotless small I,
  the long s).
\<close>

fun fold_case :: "string \<Rightarrow> string" where
  "fold_case [] = []"
| "fold_case [a] = [low a]"
| "fold_case [a, b] =
     (if (of_char a, of_char b) \<in> {(0xC4 :: nat, 0xB0 :: nat), (0xC4, 0xB1)} then ''i''
      else if (of_char a, of_char b) = (0xC5 :: nat, 0xBF :: nat) then ''s''
      else [low a, low b])"
| "fold_case (a # b # c # s) =
     (if (of_char a, of_char b, of_char c) = (0xE2 :: nat, 0x84 :: nat, 0xAA :: nat) then CHR ''k'' # fold_case s
      else if (of_char a, of_char b) \<in> {(0xC4 :: nat, 0xB0 :: nat), (0xC4, 0xB1)} then CHR ''i'' # fold_case (c # s)
      else if (of_char a, of_char b) = (0xC5 :: nat, 0xBF :: nat) then CHR ''s'' # fold_case (c # s)
      else low a # fold_case (b # c # s))"

definition word_char :: "char \<Rightarrow> bool" where
  "word_char c \<longleftrightarrow> (let n = of_char c :: nat in
     48 \<le> n \<and> n \<le> 57 \<or> 65 \<le> n \<and> n \<le> 90 \<or> 97 \<le> n \<and> n \<le> 122 \<or> n = 95)"

text \<open>\<^verbatim>\<open>[A-Za-z0-9_+/-]\<close>\<close>

definition run_char :: "char \<Rightarrow> bool" where
  "run_char c \<longleftrightarrow> token_char c \<or> of_char c \<in> set ([43, 47] :: nat list)"

definition NOTE_FORBIDDEN :: string where
  "NOTE_FORBIDDEN = map char_of
    ([64, 61, 123, 125, 91, 93, 60, 62, 36, 96, 59, 124, 40, 41, 34, 39, 92] :: nat list)"

definition NOTE_KEYWORDS :: "string list" where
  "NOTE_KEYWORDS =
    [''def'', ''class'', ''import'', ''from'', ''return'', ''function'', ''const'', ''let'', ''var'', ''lambda'',
     ''export'', ''password'', ''passwd'', ''secret'', ''token'', ''apikey'', ''api_key'', ''bearer'',
     ''authorization'', ''cookie'']"

definition SECRET_WORDS :: "string list" where
  "SECRET_WORDS =
    [''password'', ''passwd'', ''secret'', ''token'', ''api_key'', ''api-key'', ''apikey'', ''authorization'',
     ''bearer'', ''cookie'', ''private_key'', ''private-key'', ''privatekey'']"

text \<open>A key word that no word character precedes or follows; \<open>prev\<close> is the character before.\<close>

definition keyword_here :: "string \<Rightarrow> bool" where
  "keyword_here s \<longleftrightarrow>
     (\<exists>k \<in> set NOTE_KEYWORDS. starts_with k s
        \<and> (case drop (length k) s of [] \<Rightarrow> True | c # _ \<Rightarrow> \<not> word_char c))"

fun keyword_in :: "bool \<Rightarrow> string \<Rightarrow> bool" where
  "keyword_in prev [] = False"
| "keyword_in prev (c # s) \<longleftrightarrow> \<not> prev \<and> keyword_here (c # s) \<or> keyword_in (word_char c) s"

text \<open>\<^verbatim>\<open>(password|...)\s*[:=]\<close> and \<^verbatim>\<open>bearer\s+\S+\<close> at the start of a folded text\<close>

definition assigns_secret :: "string \<Rightarrow> bool" where
  "assigns_secret s \<longleftrightarrow>
     (\<exists>w \<in> set SECRET_WORDS. starts_with w s
        \<and> (case lstrip (drop (length w) s) of [] \<Rightarrow> False | c # _ \<Rightarrow> c \<in> set '':=''))"

definition bearer_value :: "string \<Rightarrow> bool" where
  "bearer_value s \<longleftrightarrow> starts_with ''bearer'' s
     \<and> (let t = drop 6 s in lstrip t \<noteq> t \<and> lstrip t \<noteq> [])"

definition credential_like :: "string \<Rightarrow> bool" where
  "credential_like s \<longleftrightarrow>
     anywhere assigns_secret (fold_case s) \<or> anywhere bearer_value (fold_case s)
     \<or> run_of 32 token_char s \<or> contains ''-----BEGIN'' s"

definition note_body :: "string \<Rightarrow> string" where
  "note_body line =
     (let body = strip line
      in if starts_with NOTE_PREFIX body then strip (drop (length NOTE_PREFIX) body) else body)"

definition safe_note_line :: "note_env \<Rightarrow> string \<Rightarrow> string option" where
  "safe_note_line env line =
     (let body = note_body line; redacted = redact_text env [] body in
      if CHR 0x0A \<in> set body \<or> CHR 0x0D \<in> set body then None
      else if \<not> (1 \<le> char_count redacted \<and> char_count redacted \<le> 200) then None
      else if \<exists>c \<in> set redacted. c \<in> set NOTE_FORBIDDEN then None
      else if contains ''://'' redacted then None
      else if run_of 20 run_char redacted then None
      else if \<exists>k \<in> set NOTE_KEYWORDS. starts_with k (lower_key (lstrip redacted)) then None
      else if keyword_in False (fold_case redacted) then None
      else if credential_like redacted then None
      else Some redacted)"

text \<open>\<^verbatim>\<open>_redacted_notes\<close>: the kept lines and the number of dropped ones\<close>

definition redacted_notes :: "note_env \<Rightarrow> string list \<Rightarrow> (string option \<times> int) res" where
  "redacted_notes env texts =
     bind_res (extract_notes (map JStr texts)) (\<lambda>extracted.
       Inr (case extracted of
              None \<Rightarrow> (None, 0)
            | Some notes \<Rightarrow>
                (let safe = map (safe_note_line env) (splitlines notes)
                 in (Some (join newline (List.map_filter id safe)),
                     int (length (filter (\<lambda>x. x = None) safe))))))"

section \<open>What a note cannot hold\<close>

lemma safe_note_line_Some:
  assumes "safe_note_line env line = Some note"
  shows "1 \<le> char_count note \<and> char_count note \<le> 200" "\<not> (\<exists>c \<in> set note. c \<in> set NOTE_FORBIDDEN)"
    "\<not> contains ''://'' note" "\<not> run_of 20 run_char note" "\<not> keyword_in False (fold_case note)"
    "\<not> credential_like note"
  using assms unfolding safe_note_line_def Let_def by (metis option.distinct(1) option.sel)+

text \<open>No piece of a kept note that could be a key or a token reaches twenty characters.\<close>

lemma kept_note_pieces:
  assumes "safe_note_line env line = Some note" "occurs_in piece note" "list_all run_char piece"
  shows "length piece < 20"
  using run_of_occurs [OF assms(3) _ assms(2), of 20] safe_note_line_Some(4) [OF assms(1)] by force

lemma redacted_notes_lines:
  assumes "redacted_notes env texts = Inr (Some notes, dropped)"
  shows "\<exists>lines kept. notes = join newline kept
    \<and> (\<forall>note \<in> set kept. \<exists>line \<in> set lines. safe_note_line env line = Some note)
    \<and> int (length lines) = int (length kept) + dropped"
proof -
  have split: "length xs = length (List.map_filter id xs) + length (filter (\<lambda>x. x = None) xs)" for xs :: "'b option list"
    by (induction xs) (auto simp: List.map_filter_def)
  have kept: "y \<in> set (List.map_filter id (map f xs)) \<Longrightarrow> \<exists>x \<in> set xs. f x = Some y" for f :: "'b \<Rightarrow> 'c option" and xs y
    by (force simp: List.map_filter_def)
  from assms obtain extracted where e: "notes = join newline (List.map_filter id (map (safe_note_line env) (splitlines extracted)))"
      "dropped = int (length (filter (\<lambda>x. x = None) (map (safe_note_line env) (splitlines extracted))))"
    by (auto simp: redacted_notes_def bind_res_def Let_def split: sum.splits option.splits)
  have "int (length (splitlines extracted))
      = int (length (List.map_filter id (map (safe_note_line env) (splitlines extracted)))) + dropped"
    using split [of "map (safe_note_line env) (splitlines extracted)"] by (simp add: e(2))
  moreover have "\<forall>note \<in> set (List.map_filter id (map (safe_note_line env) (splitlines extracted))).
      \<exists>line \<in> set (splitlines extracted). safe_note_line env line = Some note"
    using kept by fast
  ultimately show ?thesis using e(1) by (intro exI conjI)
qed

end
