(* ===== verification/Approval_Policy.thy ===== *)
theory Approval_Policy
  imports Usage_Models Contracts
begin

text \<open>
  The bounded approval policy, \<^verbatim>\<open>src/asterun/approval_policy.py\<close>: the rules the user's
  configuration gives, the words of a shell command that carries no shell construct
  (\<^verbatim>\<open>shlex.split\<close> of the standard library, written out for POSIX mode), the few commands that
  only read, and the assessment of one native request. The file system is an argument: a
  path resolved to its components (\<open>None\<close> where resolving raises), and the size and content
  of a file.
\<close>

record file_system =
  fs_resolve :: "string \<Rightarrow> string list option"
  fs_is_dir :: "string \<Rightarrow> bool"
  fs_is_file :: "string \<Rightarrow> bool"
  fs_size :: "string \<Rightarrow> int option"
  fs_read :: "string \<Rightarrow> string option"

record policy_env =
  pe_fs :: file_system
  pe_parse :: iso_parser
  pe_sha :: "string \<Rightarrow> string"
  pe_digest :: "json \<Rightarrow> string"

definition RULE_REQUIRED :: "string list" where
  "RULE_REQUIRED =
    [''id'', ''workspace'', ''backend'', ''cwd'', ''expires_at'', ''input_hash'', ''argv'', ''executable_sha256'']"

definition RULE_OPTIONAL :: "string list" where
  "RULE_OPTIONAL = [''read_roots'', ''host'', ''repository'', ''pr'', ''head_sha'']"

definition PARAM_KEYS :: "string list" where
  "PARAM_KEYS =
    [''command'', ''cwd'', ''threadId'', ''turnId'', ''itemId'', ''reason'', ''commandActions'', ''availableDecisions'']"

text \<open>\<^verbatim>\<open>HEX64\<close> and the commit hash of forty digits\<close>

definition hex_text :: "nat \<Rightarrow> string \<Rightarrow> bool" where
  "hex_text n s \<longleftrightarrow> length s = n \<and> list_all (\<lambda>c. c \<in> set ''0123456789abcdef'') s"

definition NUL :: char where "NUL = CHR 0x00"

definition plain_text :: "json \<Rightarrow> bool" where
  "plain_text v \<longleftrightarrow> (case v of JStr s \<Rightarrow> s \<noteq> [] \<and> NUL \<notin> set s | _ \<Rightarrow> False)"

definition str_of :: "json \<Rightarrow> string" where
  "str_of v = (case v of JStr s \<Rightarrow> s | _ \<Rightarrow> [])"

section \<open>Paths\<close>

definition absolute :: "string \<Rightarrow> bool" where
  "absolute p \<longleftrightarrow> starts_with ''/'' p"

text \<open>\<^verbatim>\<open>Path(p).name\<close> and \<^verbatim>\<open>Path(a) / b\<close>\<close>

definition path_name :: "string \<Rightarrow> string" where
  "path_name p =
     (let parts = filter (\<lambda>c. c \<noteq> [] \<and> c \<noteq> ''.'') (split_on CHR ''/'' p)
      in if parts = [] then [] else last parts)"

definition path_join :: "string \<Rightarrow> string \<Rightarrow> string" where
  "path_join a b = (if absolute b then b else a @ ''/'' @ b)"

definition path_text :: "string list \<Rightarrow> string" where
  "path_text parts = ''/'' @ join ''/'' parts"

fun inside_any :: "file_system \<Rightarrow> string list \<Rightarrow> string list \<Rightarrow> bool" where
  "inside_any fs parts [] = False"
| "inside_any fs parts (root # roots) =
     (case fs_resolve fs root of
        None \<Rightarrow> False
      | Some r \<Rightarrow> take (length r) parts = r \<or> inside_any fs parts roots)"

definition within :: "file_system \<Rightarrow> string \<Rightarrow> string list \<Rightarrow> bool" where
  "within fs p roots = (case fs_resolve fs p of None \<Rightarrow> False | Some parts \<Rightarrow> inside_any fs parts roots)"

definition read_roots :: "string \<Rightarrow> dict \<Rightarrow> string list" where
  "read_roots workspace_root rule =
     workspace_root # (case dget rule ''read_roots'' of JArr vs \<Rightarrow> map str_of vs | _ \<Rightarrow> [])"

section \<open>The configured rules\<close>

definition argv_ok :: "json \<Rightarrow> bool" where
  "argv_ok v \<longleftrightarrow>
     (case v of
        JArr (a # as) \<Rightarrow> length (a # as) \<le> 128 \<and> list_all plain_text (a # as) \<and> absolute (str_of a)
      | _ \<Rightarrow> False)"

definition expiry_ok :: "iso_parser \<Rightarrow> string \<Rightarrow> bool" where
  "expiry_ok parse s \<longleftrightarrow> (case parse (zulu s) of Some (t, aware) \<Rightarrow> aware | None \<Rightarrow> False)"

definition repository_ok :: "string \<Rightarrow> bool" where
  "repository_ok s \<longleftrightarrow>
     (case split_on CHR ''/'' s of
        [a, b] \<Rightarrow> a \<noteq> [] \<and> b \<noteq> [] \<and> list_all name_char a \<and> list_all name_char b
      | _ \<Rightarrow> False)"

definition REPO_FIELDS :: "string list" where
  "REPO_FIELDS = [''host'', ''repository'', ''pr'', ''head_sha'']"

definition remote_ok :: "dict \<Rightarrow> bool" where
  "remote_ok rule \<longleftrightarrow>
     (\<forall>k \<in> set REPO_FIELDS. \<not> dhas rule k)
     \<or> (\<forall>k \<in> set REPO_FIELDS. dhas rule k) \<and> dget rule ''host'' = JStr ''github.com''
       \<and> (case dget rule ''repository'' of JStr s \<Rightarrow> repository_ok s | _ \<Rightarrow> False)
       \<and> (case dget rule ''pr'' of JInt n \<Rightarrow> 1 \<le> n | _ \<Rightarrow> False)
       \<and> (case dget rule ''head_sha'' of JStr s \<Rightarrow> hex_text 40 s | _ \<Rightarrow> False)"

definition paths_ok :: "file_system \<Rightarrow> string \<Rightarrow> dict \<Rightarrow> bool" where
  "paths_ok fs workspace_root rule \<longleftrightarrow>
     (case dget_or rule ''read_roots'' (JArr []) of
        JArr vs \<Rightarrow> list_all (\<lambda>v. plain_text v \<and> absolute (str_of v)) vs
      | _ \<Rightarrow> False)
     \<and> absolute (str_of (dget rule ''cwd''))
     \<and> within fs (str_of (dget rule ''cwd'')) (read_roots workspace_root rule)"

text \<open>A rule that is accepted; \<open>workspaces\<close> gives the roots, \<open>backends\<close> the kinds.\<close>

definition rule_ok :: "policy_env \<Rightarrow> (string \<times> string) list \<Rightarrow> (string \<times> string) list \<Rightarrow> dict \<Rightarrow> bool" where
  "rule_ok env workspaces backends rule \<longleftrightarrow>
     set RULE_REQUIRED \<subseteq> set (map fst rule) \<and> set (map fst rule) \<subseteq> set (RULE_REQUIRED @ RULE_OPTIONAL)
     \<and> (\<forall>k \<in> set RULE_REQUIRED. k = ''argv'' \<or> plain_text (dget rule k))
     \<and> map_of backends (str_of (dget rule ''backend'')) = Some ''codex''
     \<and> argv_ok (dget rule ''argv'')
     \<and> hex_text 64 (str_of (dget rule ''input_hash'')) \<and> hex_text 64 (str_of (dget rule ''executable_sha256''))
     \<and> expiry_ok (pe_parse env) (str_of (dget rule ''expires_at''))
     \<and> (case map_of workspaces (str_of (dget rule ''workspace'')) of
          None \<Rightarrow> False | Some root \<Rightarrow> paths_ok (pe_fs env) root rule)
     \<and> remote_ok rule"

fun rules_ok ::
  "policy_env \<Rightarrow> (string \<times> string) list \<Rightarrow> (string \<times> string) list \<Rightarrow> json list \<Rightarrow> json list \<Rightarrow> bool" where
  "rules_ok env workspaces backends seen [] = True"
| "rules_ok env workspaces backends seen (v # vs) =
     (case v of
        JObj rule \<Rightarrow> rule_ok env workspaces backends rule \<and> dget rule ''id'' \<notin> set seen
          \<and> rules_ok env workspaces backends (dget rule ''id'' # seen) vs
      | _ \<Rightarrow> False)"

definition validate_policy ::
  "policy_env \<Rightarrow> (string \<times> string) list \<Rightarrow> (string \<times> string) list \<Rightarrow> json \<Rightarrow> dict res" where
  "validate_policy env workspaces backends raw =
     (case raw of
        JNull \<Rightarrow> Inr [(''mode'', JStr ''manual''), (''rules'', JArr [])]
      | JObj d \<Rightarrow>
          let mode = dget_or d ''mode'' (JStr ''manual''); rules = dget_or d ''rules'' (JArr []) in
          if \<not> set (map fst d) \<subseteq> set [''mode'', ''rules''] then raise ''INVALID_CONFIG''
          else if \<not> hashable mode then Inl TypeError
          else
            (case rules of
               JArr vs \<Rightarrow>
                 if mode \<in> set [JStr ''manual'', JStr ''bounded''] \<and> length vs \<le> 100
                    \<and> rules_ok env workspaces backends [] vs
                 then Inr [(''mode'', mode), (''rules'', JArr vs)]
                 else raise ''INVALID_CONFIG''
             | _ \<Rightarrow> raise ''INVALID_CONFIG'')
      | _ \<Rightarrow> raise ''INVALID_CONFIG'')"

section \<open>The words of a command\<close>

text \<open>
  \<^verbatim>\<open>shlex.split(command, posix=True)\<close>: between words, inside a word, inside quotes, after a
  backslash. \<open>None\<close> stands for \<^verbatim>\<open>ValueError\<close>: an open quote or nothing after a backslash.
\<close>

datatype lexer = Blank | Word | Quote char | Escape "char option"

definition lex_space :: "char \<Rightarrow> bool" where
  "lex_space c \<longleftrightarrow> c \<in> set [CHR '' '', CHR 0x09, CHR 0x0D, CHR 0x0A]"

definition BACKSLASH :: char where "BACKSLASH = CHR 0x5C"
definition DQUOTE :: char where "DQUOTE = CHR 0x22"
definition SQUOTE :: char where "SQUOTE = CHR 0x27"

text \<open>The state a character of a word or of a blank leads to.\<close>

definition lex_start :: "char \<Rightarrow> lexer \<times> string" where
  "lex_start c =
     (if c = BACKSLASH then (Escape None, []) else if c \<in> set [SQUOTE, DQUOTE] then (Quote c, [])
      else (Word, [c]))"

definition lex_emit :: "string \<Rightarrow> bool \<Rightarrow> string list option \<Rightarrow> string list option" where
  "lex_emit w closed rest = (if w = [] \<and> \<not> closed then rest else map_option (\<lambda>ws. w # ws) rest)"

fun lex_words :: "lexer \<Rightarrow> string \<Rightarrow> bool \<Rightarrow> string \<Rightarrow> string list option" where
  "lex_words Blank w q [] = Some []"
| "lex_words Blank w q (c # s) =
     (if lex_space c then lex_words Blank [] False s
      else let (st, w') = lex_start c in lex_words st w' False s)"
| "lex_words Word w q [] = lex_emit w q (Some [])"
| "lex_words Word w q (c # s) =
     (if lex_space c then lex_emit w q (lex_words Blank [] False s)
      else let (st, w') = lex_start c in lex_words st (w @ w') q s)"
| "lex_words (Quote k) w q [] = None"
| "lex_words (Quote k) w q (c # s) =
     (if c = k then lex_words Word w True s
      else if c = BACKSLASH \<and> k = DQUOTE then lex_words (Escape (Some k)) w True s
      else lex_words (Quote k) (w @ [c]) True s)"
| "lex_words (Escape k) w q [] = None"
| "lex_words (Escape k) w q (c # s) =
     (case k of
        None \<Rightarrow> lex_words Word (w @ [c]) q s
      | Some k' \<Rightarrow>
          lex_words (Quote k') (w @ (if c \<noteq> BACKSLASH \<and> c \<noteq> k' then [BACKSLASH] else []) @ [c]) q s)"

definition shlex_split :: "string \<Rightarrow> string list option" where
  "shlex_split s = lex_words Blank [] False s"

definition SHELL_CHARS :: string where
  "SHELL_CHARS = ''$`;&|<>(){}*?~'' @ [CHR 0x0A, CHR 0x0D, NUL]"

definition SHELLS :: "string list" where
  "SHELLS = [''sh'', ''bash'', ''zsh'', ''dash'', ''fish'']"

definition command_argv :: "json \<Rightarrow> string list option" where
  "command_argv command =
     (case command of
        JArr vs \<Rightarrow> if vs \<noteq> [] \<and> list_all plain_text vs then Some (map str_of vs) else None
      | JStr s \<Rightarrow>
          if \<exists>c \<in> set SHELL_CHARS. c \<in> set s then None
          else (case shlex_split s of
                  None \<Rightarrow> None
                | Some [] \<Rightarrow> None
                | Some (a # as) \<Rightarrow> if path_name a \<in> set SHELLS then None else Some (a # as))
      | _ \<Rightarrow> None)"

section \<open>Commands that only read\<close>

definition GIT_PREFIX :: "string list" where
  "GIT_PREFIX = [''--no-pager'', ''-c'', ''core.fsmonitor=false'', ''-c'', ''core.untrackedCache=false'']"

definition GIT_QUERIES :: "string list list" where
  "GIT_QUERIES =
    [[''status'', ''--porcelain=v1'', ''--untracked-files=no''], [''rev-parse'', ''--verify'', ''HEAD'']]"

definition PR_FIELDS :: "string list" where
  "PR_FIELDS =
    [''number'', ''title'', ''body'', ''state'', ''author'', ''headRefOid'', ''baseRefOid'', ''files'', ''url'']"

definition pr_text :: "json \<Rightarrow> string" where
  "pr_text v = (case v of JInt n \<Rightarrow> int_text n | _ \<Rightarrow> [])"

definition cat_paths :: "string list \<Rightarrow> string list" where
  "cat_paths args = (if take 1 args = [''--''] then drop 1 args else args)"

definition cat_ok :: "file_system \<Rightarrow> string \<Rightarrow> string list \<Rightarrow> string list \<Rightarrow> bool" where
  "cat_ok fs cwd roots args \<longleftrightarrow>
     cat_paths args \<noteq> [] \<and> list_all (\<lambda>p. \<not> starts_with ''-'' p \<and> within fs (path_join cwd p) roots
       \<and> fs_is_file fs (path_join cwd p)) (cat_paths args)"

definition git_ok :: "string list \<Rightarrow> bool" where
  "git_ok args \<longleftrightarrow> take (length GIT_PREFIX) args = GIT_PREFIX \<and> drop (length GIT_PREFIX) args \<in> set GIT_QUERIES"

definition gh_endpoints :: "dict \<Rightarrow> string list" where
  "gh_endpoints rule =
     (let repo = str_of (dget rule ''repository''); pr = pr_text (dget rule ''pr'');
          sha = str_of (dget rule ''head_sha'')
      in [''repos/'' @ repo @ ''/pulls/'' @ pr, ''repos/'' @ repo @ ''/pulls/'' @ pr @ ''/files'',
          ''repos/'' @ repo @ ''/commits/'' @ sha, ''repos/'' @ repo @ ''/git/trees/'' @ sha])"

definition gh_ok :: "dict \<Rightarrow> string list \<Rightarrow> bool" where
  "gh_ok rule args \<longleftrightarrow>
     (\<forall>k \<in> set REPO_FIELDS. dhas rule k) \<and> dget rule ''host'' = JStr ''github.com''
     \<and> (let repo = str_of (dget rule ''repository''); pr = pr_text (dget rule ''pr'');
            full = ''github.com/'' @ repo
        in if take 3 args = [''pr'', ''view'', pr] \<and> length args = 7
              \<and> take 3 (drop 3 args) = [''--repo'', full, ''--json'']
           then args ! 6 \<noteq> [] \<and> set (split_on CHR '','' (args ! 6)) \<subseteq> set PR_FIELDS
           else args = [''pr'', ''diff'', pr, ''--repo'', full, ''--color'', ''never'']
             \<or> length args = 6 \<and> take 5 args = [''api'', ''--hostname'', ''github.com'', ''--method'', ''GET'']
               \<and> args ! 5 \<in> set (gh_endpoints rule))"

definition read_command :: "file_system \<Rightarrow> string \<Rightarrow> dict \<Rightarrow> string list \<Rightarrow> bool" where
  "read_command fs workspace_root rule argv =
     (case argv of
        [] \<Rightarrow> False
      | program # args \<Rightarrow>
          (let binary = path_name program
           in if binary = ''pwd'' then args = [] \<or> args = [''-P'']
              else if binary = ''cat'' then cat_ok fs (str_of (dget rule ''cwd'')) (read_roots workspace_root rule) args
              else if binary = ''git'' then git_ok args
              else binary = ''gh'' \<and> gh_ok rule args))"

text \<open>\<open>None\<close> also stands for an \<^verbatim>\<open>OSError\<close>: both make the rule not match.\<close>

definition EXECUTABLE_LIMIT :: int where "EXECUTABLE_LIMIT = 128 * 1024 * 1024"

definition executable_hash :: "policy_env \<Rightarrow> string \<Rightarrow> string option" where
  "executable_hash env p =
     (if \<not> fs_is_file (pe_fs env) p then None
      else (case (fs_size (pe_fs env) p, fs_read (pe_fs env) p) of
              (Some n, Some content) \<Rightarrow>
                if EXECUTABLE_LIMIT < n \<or> EXECUTABLE_LIMIT < int (length content) then None
                else Some (pe_sha env content)
            | _ \<Rightarrow> None))"

section \<open>Assessing a request\<close>

definition REASON_OFF :: string where
  "REASON_OFF = utf8 [23454, 20363, 26410, 21551, 29992, 26377, 30028, 23457, 25209, 31574, 30053]"

definition REASON_UNSUPPORTED :: string where
  "REASON_UNSUPPORTED = utf8 [21407, 29983, 35831, 27714, 21253, 21547, 26410, 25903, 25345, 30340, 25805, 20316, 12289,
     26435, 38480, 25110, 21442, 25968, 65307, 38656, 35201, 20154, 24037, 23457, 25209]"

definition REASON_COMMAND :: string where
  "REASON_COMMAND = utf8 [21629, 20196, 19981, 23646, 20110, 21487, 35782, 21035, 30340, 31616, 21333, 32, 97, 114, 103,
     118, 65307, 38656, 35201, 20154, 24037, 23457, 25209]"

definition REASON_MATCH :: string where
  "REASON_MATCH = utf8 [21305, 37197, 23454, 20363, 20013, 22266, 23450, 36755, 20837, 12289, 26377, 25928, 26399,
     12289, 99, 119, 100, 32, 21644, 23436, 25972, 32, 97, 114, 103, 118, 32, 30340, 21482, 35835, 35268,
     21017]"

definition REASON_NONE :: string where
  "REASON_NONE = utf8 [27809, 26377, 21305, 37197, 30340, 26377, 25928, 21482, 35835, 35268, 21017, 65307, 38656,
     35201, 20154, 24037, 23457, 25209]"

definition no_decision :: "policy_env \<Rightarrow> dict \<Rightarrow> approval_request \<Rightarrow> dict" where
  "no_decision env policy ap =
    [(''decision'', JStr ''manual''), (''reason'', JStr REASON_OFF), (''policy_id'', JNull),
     (''target_hash'', JStr (ap_target_hash ap)), (''policy_digest'', JStr (pe_digest env (canon (JObj policy)))),
     (''native_confirmed'', JBool False)]"

text \<open>The parameters of a request for one command, and nothing else.\<close>

definition command_params :: "dict \<Rightarrow> dict option" where
  "command_params request =
     (case dget request ''params'' of
        JObj params \<Rightarrow>
          if set (map fst request) \<subseteq> set [''jsonrpc'', ''id'', ''method'', ''params'']
             \<and> dget request ''method'' = JStr ''item/commandExecution/requestApproval''
             \<and> set (map fst params) \<subseteq> set PARAM_KEYS
             \<and> (case dget params ''cwd'' of JStr s \<Rightarrow> absolute s | _ \<Rightarrow> False)
          then Some params else None
      | _ \<Rightarrow> None)"

definition rule_bound :: "policy_env \<Rightarrow> task \<Rightarrow> run \<Rightarrow> string \<Rightarrow> string list \<Rightarrow> dict \<Rightarrow> bool" where
  "rule_bound env t r now argv rule \<longleftrightarrow>
     dget rule ''workspace'' = JStr (t_workspace t) \<and> dget rule ''backend'' = JStr (backend_val (r_backend r))
     \<and> dget rule ''input_hash'' = JStr (t_input_hash t) \<and> dget rule ''argv'' = JArr (map JStr argv)
     \<and> \<not> is_expired (pe_parse env)
          \<lparr>g_expires_at = dget rule ''expires_at'', g_resources = None, g_revision = 1\<rparr> now"

definition rule_matches ::
  "policy_env \<Rightarrow> task \<Rightarrow> run \<Rightarrow> string \<Rightarrow> string \<Rightarrow> string \<Rightarrow> string list \<Rightarrow> dict \<Rightarrow> bool" where
  "rule_matches env t r workspace_root now cwd argv rule \<longleftrightarrow>
     rule_bound env t r now argv rule
     \<and> (case (fs_resolve (pe_fs env) cwd, fs_resolve (pe_fs env) (str_of (dget rule ''cwd''))) of
          (Some here, Some there) \<Rightarrow>
            here = there \<and> fs_is_dir (pe_fs env) (path_text here)
            \<and> within (pe_fs env) (path_text here) (read_roots workspace_root rule)
            \<and> (case executable_hash env (hd argv) of
                 None \<Rightarrow> False | Some h \<Rightarrow> dget rule ''executable_sha256'' = JStr h)
            \<and> read_command (pe_fs env) workspace_root rule argv
        | _ \<Rightarrow> False)"

definition rules_of :: "dict \<Rightarrow> dict list" where
  "rules_of policy = (case dget policy ''rules'' of JArr vs \<Rightarrow> map dict_or_empty vs | _ \<Rightarrow> [])"

definition approved_by :: "dict \<Rightarrow> dict \<Rightarrow> dict" where
  "approved_by result rule =
     dset (dset (dset result ''decision'' (JStr ''approve'')) ''reason'' (JStr REASON_MATCH))
       ''policy_id'' (dget rule ''id'')
     @ [(''expires_at'', dget rule ''expires_at''), (''host'', dget rule ''host''),
        (''repository'', dget rule ''repository''), (''pr'', dget rule ''pr''),
        (''head_sha'', dget rule ''head_sha''), (''remote_head_verified'', JBool False)]"

definition assess ::
  "policy_env \<Rightarrow> dict \<Rightarrow> approval_request \<Rightarrow> task \<Rightarrow> run \<Rightarrow> string \<Rightarrow> string \<Rightarrow> dict" where
  "assess env policy ap t r workspace_root now =
     (let result = no_decision env policy ap in
      if dget policy ''mode'' \<noteq> JStr ''bounded'' then result
      else case command_params (ap_native_request ap) of
        None \<Rightarrow> dset result ''reason'' (JStr REASON_UNSUPPORTED)
      | Some params \<Rightarrow>
          (case command_argv (dget params ''command'') of
             None \<Rightarrow> dset result ''reason'' (JStr REASON_COMMAND)
           | Some argv \<Rightarrow>
               (case find (rule_matches env t r workspace_root now (str_of (dget params ''cwd'')) argv)
                       (rules_of policy) of
                  None \<Rightarrow> dset result ''reason'' (JStr REASON_NONE)
                | Some rule \<Rightarrow> approved_by result rule)))"

section \<open>What is approved only reads\<close>

lemma lex_emit_Some:
  "lex_emit w q rest = Some ws \<Longrightarrow> \<exists>vs. rest = Some vs \<and> set ws \<subseteq> insert w (set vs)"
  by (auto simp: lex_emit_def split: if_splits)

lemma lex_start_chars: "lex_start c = (st, w) \<Longrightarrow> set w \<subseteq> {c}"
  by (auto simp: lex_start_def split: if_splits)

text \<open>The words hold no character the command does not hold.\<close>

lemma lex_words_chars:
  "lex_words st w q s = Some ws \<Longrightarrow> x \<in> set ws \<Longrightarrow> set x \<subseteq> insert BACKSLASH (set w \<union> set s)"
proof (induction st w q s arbitrary: ws x rule: lex_words.induct)
  case (2 w q c s)
  then show ?case using lex_start_chars [of c] by (fastforce split: if_splits prod.splits)
next
  case (3 w q)
  then show ?case by (auto dest!: lex_emit_Some)
next
  case (4 w q c s)
  show ?case
  proof (cases "lex_space c")
    case True
    with 4 show ?thesis by (fastforce dest!: lex_emit_Some)
  next
    case False
    obtain st w' where st: "lex_start c = (st, w')" by (cases "lex_start c")
    with False 4 lex_start_chars [OF st] show ?thesis by fastforce
  qed
next
  case (6 k w q c s)
  then show ?case by (fastforce split: if_splits)
next
  case (8 k w q c s)
  then show ?case by (fastforce split: option.splits if_splits)
qed simp_all

definition plain_word :: "string \<Rightarrow> bool" where
  "plain_word w \<longleftrightarrow> w \<noteq> [] \<and> (\<forall>c \<in> set w. \<not> lex_space c \<and> c \<notin> {BACKSLASH, SQUOTE, DQUOTE})"

lemma lex_word_plain:
  "\<forall>c \<in> set v. \<not> lex_space c \<and> c \<notin> {BACKSLASH, SQUOTE, DQUOTE}
   \<Longrightarrow> lex_words Word w q (v @ s) = lex_words Word (w @ v) q s"
  by (induction v arbitrary: w) (auto simp: lex_start_def)

lemma lex_blank_plain:
  "plain_word v \<Longrightarrow> lex_words Blank w q (v @ s) = lex_words Word v False s"
  using lex_word_plain [of "tl v" "[hd v]" False s]
  by (cases v) (auto simp: plain_word_def lex_start_def)

text \<open>Plain words joined by blanks are read back.\<close>

lemma shlex_join:
  "list_all plain_word ws \<Longrightarrow> shlex_split (join '' '' ws) = Some ws"
proof (induction "'' ''" ws rule: join.induct)
  case 1
  then show ?case by (simp add: shlex_split_def)
next
  case (2 x)
  then have "x \<noteq> []" by (simp add: plain_word_def)
  with 2 lex_blank_plain [of x "[]" False "[]"] show ?case by (simp add: shlex_split_def lex_emit_def)
next
  case (3 x y ys)
  then have x: "plain_word x" "x \<noteq> []" by (simp_all add: plain_word_def)
  have "lex_space CHR '' ''" by (simp add: lex_space_def)
  with 3 x show ?case by (simp add: shlex_split_def lex_blank_plain lex_emit_def)
qed

lemma validated_rules:
  assumes "validate_policy env workspaces backends raw = Inr policy" and "rule \<in> set (rules_of policy)"
  obtains vs where "dget policy ''rules'' = JArr vs" "rules_ok env workspaces backends [] vs" "JObj rule \<in> set vs"
proof -
  have all: "\<forall>v \<in> set vs. \<exists>d. v = JObj d" if "rules_ok env workspaces backends seen vs" for seen vs
    using that by (induction vs arbitrary: seen) (auto split: json.splits)
  from assms obtain vs where vs: "dget policy ''rules'' = JArr vs" "rules_ok env workspaces backends [] vs"
    by (auto simp: validate_policy_def rules_of_def Let_def split: json.splits if_splits)
  from assms(2) vs(1) obtain v where "v \<in> set vs" "rule = dict_or_empty v" by (auto simp: rules_of_def)
  with all [OF vs(2)] have "JObj rule \<in> set vs" by (auto simp: dict_or_empty_def)
  with vs show thesis by (rule that)
qed

lemma rules_ok_each:
  "rules_ok env workspaces backends seen vs \<Longrightarrow> JObj rule \<in> set vs
   \<Longrightarrow> rule_ok env workspaces backends rule \<and> dget rule ''id'' \<notin> set seen"
proof (induction vs arbitrary: seen)
  case (Cons v vs)
  then obtain d where v: "v = JObj d" "rule_ok env workspaces backends d" "dget d ''id'' \<notin> set seen"
    "rules_ok env workspaces backends (dget d ''id'' # seen) vs"
    by (auto split: json.splits)
  show ?case
  proof (cases "JObj rule \<in> set vs")
    case True
    from Cons.IH [OF v(4) this] show ?thesis by simp
  next
    case False
    with v Cons.prems(2) show ?thesis by simp
  qed
qed simp

lemma rules_ok_unique:
  "rules_ok env workspaces backends seen vs \<Longrightarrow> JObj rule \<in> set vs \<Longrightarrow> JObj rule' \<in> set vs
   \<Longrightarrow> dget rule ''id'' = dget rule' ''id'' \<Longrightarrow> rule = rule'"
proof (induction vs arbitrary: seen)
  case (Cons v vs)
  then show ?case
    using rules_ok_each [of env workspaces backends _ vs]
    by (auto split: json.splits) (metis list.set_intros(1))+
qed simp

text \<open>The command lines that only read, said without the rules.\<close>

definition reads_only :: "string list \<Rightarrow> bool" where
  "reads_only argv \<longleftrightarrow>
     (let binary = path_name (hd argv); args = tl argv in
      binary = ''pwd'' \<and> set args \<subseteq> {''-P''}
      \<or> binary = ''cat'' \<and> (\<forall>p \<in> set (cat_paths args). \<not> starts_with ''-'' p)
      \<or> binary = ''git'' \<and> length GIT_PREFIX < length args
        \<and> args ! length GIT_PREFIX \<in> {''status'', ''rev-parse''}
      \<or> binary = ''gh'' \<and> (take 2 args \<in> {[''pr'', ''view''], [''pr'', ''diff'']}
          \<or> take 5 args = [''api'', ''--hostname'', ''github.com'', ''--method'', ''GET'']))"

lemma git_reads:
  assumes "git_ok args"
  shows "length GIT_PREFIX < length args \<and> args ! length GIT_PREFIX \<in> {''status'', ''rev-parse''}"
proof -
  from assms obtain q where q: "args = GIT_PREFIX @ q" "q \<in> set GIT_QUERIES"
    by (metis append_take_drop_id git_ok_def)
  then show ?thesis by (auto simp: GIT_QUERIES_def nth_append)
qed

lemma gh_reads:
  assumes "gh_ok rule args"
  shows "take 2 args \<in> {[''pr'', ''view''], [''pr'', ''diff'']}
    \<or> take 5 args = [''api'', ''--hostname'', ''github.com'', ''--method'', ''GET'']"
proof -
  have "take 2 args = [''pr'', ''view'']" if "take 3 args = [''pr'', ''view'', x]" for x
  proof -
    have "take 2 args = take 2 (take 3 args)" by simp
    with that show ?thesis by simp
  qed
  then show ?thesis using assms by (auto simp: gh_ok_def Let_def split: if_splits)
qed

lemma read_command_reads: "read_command fs root rule argv \<Longrightarrow> reads_only argv \<and> argv \<noteq> []"
  using git_reads gh_reads
  by (auto simp: read_command_def reads_only_def cat_ok_def Let_def list_all_iff split: list.splits if_splits)


definition example_fs :: file_system where
  "example_fs = \<lparr>fs_resolve = (\<lambda>p. Some (filter (\<lambda>c. c \<noteq> []) (split_on CHR ''/'' p))),
     fs_is_dir = (\<lambda>p. p = ''/w''), fs_is_file = (\<lambda>p. p \<noteq> ''/w''), fs_size = (\<lambda>_. Some 3), fs_read = (\<lambda>_. Some ''elf'')\<rparr>"

definition example_policy_env :: policy_env where
  "example_policy_env = \<lparr>pe_fs = example_fs,
     pe_parse = (\<lambda>s. Some (if take 4 s = ''2026'' then 1 else 2, True)),
     pe_sha = (\<lambda>_. replicate 64 CHR ''a''), pe_digest = (\<lambda>_. ''d'')\<rparr>"

definition example_rule :: dict where
  "example_rule = [(''id'', JStr ''r1''), (''workspace'', JStr ''demo''), (''backend'', JStr ''codex''),
     (''cwd'', JStr ''/w''), (''expires_at'', JStr ''2027-01-01T00:00:00Z''),
     (''input_hash'', JStr (replicate 64 CHR ''b'')), (''argv'', JArr [JStr ''/bin/cat'', JStr ''--'', JStr ''a.txt'']),
     (''executable_sha256'', JStr (replicate 64 CHR ''a''))]"

definition example_policy :: dict where
  "example_policy = [(''mode'', JStr ''bounded''), (''rules'', JArr [JObj example_rule])]"

definition example_approval :: approval_request where
  "example_approval = \<lparr>ap_id = ApprovalId ''apr_1'', ap_task_id = TaskId ''tsk_1'', ap_run_id = RunId ''run_1'',
     ap_summary = [], ap_state = Ap_PENDING, ap_created_at = [], ap_expires_at = JNull, ap_target_hash = ''t'',
     ap_native_request = [(''method'', JStr ''item/commandExecution/requestApproval''),
        (''params'', JObj [(''command'', JStr ''/bin/cat -- a.txt''), (''cwd'', JStr ''/w/'')])],
     ap_decision_source = JNull, ap_assessment = [], ap_response_status = ''not_sent'',
     ap_native_confirmed = False\<rparr>"

definition fixed_task :: task where
  "fixed_task = example_task\<lparr>t_input_hash := replicate 64 CHR ''b''\<rparr>"

lemma example_digest: "hex_text 64 (replicate 64 CHR ''a'')" "hex_text 64 (replicate 64 CHR ''b'')"
  by (simp_all add: hex_text_def list_all_iff)

lemma example_rule_ok: "rule_ok example_policy_env [(''demo'', ''/w'')] [(''codex'', ''codex'')] example_rule"
  unfolding rule_ok_def
  by (simp add: example_rule_def example_digest RULE_REQUIRED_def RULE_OPTIONAL_def plain_text_def NUL_def str_of_def
      argv_ok_def absolute_def starts_with_def expiry_ok_def zulu_def example_policy_env_def paths_ok_def within_def
      example_fs_def read_roots_def remote_ok_def REPO_FIELDS_def)

lemma example_policy_valid:
  "validate_policy example_policy_env [(''demo'', ''/w'')] [(''codex'', ''codex'')] (JObj example_policy)
     = Inr example_policy"
  by (simp add: validate_policy_def example_policy_def example_rule_ok hashable_def)

lemma example_bound:
  "rule_bound example_policy_env fixed_task example_run ''2026'' [''/bin/cat'', ''--'', ''a.txt''] example_rule"
  by (simp add: rule_bound_def example_rule_def fixed_task_def example_task_def example_run_def is_expired_def
      example_policy_env_def zulu_def)

lemma example_reads:
  "read_command example_fs ''/w'' example_rule [''/bin/cat'', ''--'', ''a.txt'']"
  by (simp add: read_command_def path_name_def cat_ok_def cat_paths_def within_def path_join_def absolute_def
      starts_with_def example_fs_def read_roots_def example_rule_def str_of_def)

lemma example_matches:
  "rule_matches example_policy_env fixed_task example_run ''/w'' ''2026'' ''/w/'' [''/bin/cat'', ''--'', ''a.txt''] example_rule"
  using example_bound example_reads
  by (simp add: rule_matches_def example_policy_env_def)
    (simp add: example_fs_def example_rule_def str_of_def path_text_def within_def read_roots_def
      executable_hash_def EXECUTABLE_LIMIT_def)

lemma example_command:
  "command_argv (JStr ''/bin/cat -- a.txt'') = Some [''/bin/cat'', ''--'', ''a.txt'']"
  by code_simp

lemma example_assessed:
  "assess example_policy_env example_policy example_approval fixed_task example_run ''/w'' ''2026''
     = approved_by (no_decision example_policy_env example_policy example_approval) example_rule"
  using example_matches
  by (simp add: assess_def example_policy_def rules_of_def example_approval_def command_params_def PARAM_KEYS_def
      absolute_def starts_with_def example_command str_of_def dict_or_empty_def)


end
