(* ===== verification/Capsule_Assembly.thy ===== *)
theory Capsule_Assembly
  imports Note_Filter Approval_Policy Stores
begin

text \<open>
  How a capsule is put together from the records of a task,
  \<^verbatim>\<open>src/asterun/capsule/assemble.py\<close>: the mandatory part from the task, the state of the working
  tree from read-only Git commands, the progress from the runs and from the events of the
  current run. The configuration, Git, the file system and SHA-256 are the record
  \<open>capsule_env\<close>.
\<close>

section \<open>Surroundings\<close>

datatype git_answer = GitError | GitExit int string string

record capsule_env =
  ca_note :: note_env
  ca_sha :: "string \<Rightarrow> string"
  ca_fs :: file_system
  ca_git :: "string \<Rightarrow> string list \<Rightarrow> git_answer"
  ca_git_dir :: "string \<Rightarrow> bool"
  ca_decode :: "string \<Rightarrow> string"
  ca_kind :: "string \<Rightarrow> string res"
  ca_root :: "string \<Rightarrow> string res"
  ca_max_runs :: int
  ca_max_repairs :: int
  ca_require_review :: bool
  ca_fi :: "string \<Rightarrow> int option"
  ca_lib :: pylib
  ca_loads :: "string \<Rightarrow> json res"
  ca_now :: string
  ca_cutoff :: string

definition PAGE_SIZE :: int where "PAGE_SIZE = 100"
definition MAX_DIRTY :: nat where "MAX_DIRTY = 500"

definition TERMINAL_TOOL_STATUSES :: "string list" where
  "TERMINAL_TOOL_STATUSES = [''completed'', ''failed'']"

definition FILE_INPUT_KEYS :: "string list" where
  "FILE_INPUT_KEYS = [''path'', ''file_path'', ''target_file'']"

definition RESULT_KINDS :: "string list" where
  "RESULT_KINDS = [''tool_call_update'', ''tool_result'']"

text \<open>\<^verbatim>\<open>quality.digest\<close>: the digest of the canonical text.\<close>

abbreviation json_hash :: "capsule_env \<Rightarrow> json \<Rightarrow> string" where
  "json_hash env v \<equiv> ca_sha env (text_of v)"

section \<open>The mandatory part\<close>

definition finding_with_text :: "dict \<Rightarrow> dict" where
  "finding_with_text d =
     (if \<not> dhas d ''text'' then dset d ''text'' (JStr (dumps (JObj d)))
      else if \<not> is_str (dget d ''text'') then dset d ''text'' (JStr (dumps (dget d ''text'')))
      else d)"

definition finding_entry :: "nat \<times> json \<Rightarrow> json" where
  "finding_entry item =
     (case item of (index, v) \<Rightarrow>
        let fallback = JStr (''idx'' @ int_text (int index)) in
        (case v of
           JObj d \<Rightarrow>
             let f = finding_with_text d in JObj (if dhas f ''id'' then f else dset f ''id'' fallback)
         | _ \<Rightarrow> JObj [(''id'', fallback), (''text'', JStr (dumps v))]))"

definition capsule_findings :: "json list \<Rightarrow> json list" where
  "capsule_findings items = map finding_entry (List.enumerate 0 items)"

definition mandatory_for :: "capsule_env \<Rightarrow> task \<Rightarrow> dict" where
  "mandatory_for env t =
    [(''objective'', JStr (t_text t)), (''constraints'', JArr []),
     (''acceptance'', case dget_or (t_quality t) ''checks'' (JArr []) of JArr xs \<Rightarrow> JArr xs | _ \<Rightarrow> JArr []),
     (''review_requirements'', JObj
        [(''require_review'', JBool (ca_require_review env \<or> t_external_require_review t)),
         (''review_status'', JStr (t_review_status t))]),
     (''findings'', JArr (capsule_findings (t_findings t))),
     (''limits'', JObj
        [(''max_runs_per_task'', JInt (ca_max_runs env)), (''max_repairs'', JInt (ca_max_repairs env)),
         (''repair_count'', JInt (t_repair_count t))])]"

text \<open>\<^verbatim>\<open>context_transition.contract\<close>\<close>

definition task_contract :: "(json \<Rightarrow> string) \<Rightarrow> task \<Rightarrow> string res" where
  "task_contract H t =
     (case t_stage_gate t of
        JObj gate \<Rightarrow>
          Inr (digest H (JObj
            [(''text'', JStr (t_text t)), (''input_hash'', JStr (t_input_hash t)),
             (''workspace'', JStr (t_workspace_root t)),
             (''require_review'', JBool (t_external_require_review t)),
             (''findings'', JArr (t_findings t)),
             (''read_scope'', case t_read_scope t of None \<Rightarrow> JNull | Some d \<Rightarrow> JObj d),
             (''stage_policy'', dget gate ''policy''), (''dependencies'', JArr (t_dependencies t))]))
      | _ \<Rightarrow> Inl TypeError)"

section \<open>The working tree\<close>

definition EMPTY_WORKSPACE :: dict where
  "EMPTY_WORKSPACE = [(''head'', JNull), (''branch'', JNull), (''dirty_files'', JNull), (''diff_stat'', JNull)]"

definition GIT_COMMAND :: "string list" where
  "GIT_COMMAND =
    [''git'', ''--no-optional-locks'', ''-c'', ''core.fsmonitor=false'', ''-c'', ''core.hooksPath=/dev/null'',
     ''-c'', ''diff.external='']"

text \<open>\<open>Inl\<close> is the code a \<^verbatim>\<open>_GitFailed\<close> carries; a time limit or an \<^verbatim>\<open>OSError\<close> is \<open>GitError\<close>.\<close>

definition git_bytes :: "capsule_env \<Rightarrow> string \<Rightarrow> string list \<Rightarrow> string + string" where
  "git_bytes env root args =
     (case ca_git env root (GIT_COMMAND @ args) of
        GitExit code out err \<Rightarrow> if code \<noteq> 0 then Inl ''git_failed'' else Inr out
      | GitError \<Rightarrow> Inl ''git_failed'')"

definition git_text :: "capsule_env \<Rightarrow> string \<Rightarrow> string list \<Rightarrow> string + string" where
  "git_text env root args =
     (case ca_git env root (GIT_COMMAND @ args) of
        GitExit code out err \<Rightarrow>
          if code \<noteq> 0 then
            (let detail = lower_key (ca_decode env err)
             in if contains ''not a git repository'' detail \<or> contains ''not a git repo'' detail
                then Inl ''not_git'' else Inl ''git_failed'')
          else Inr (strip (ca_decode env out))
      | GitError \<Rightarrow> Inl ''git_failed'')"

definition file_sha256 :: "capsule_env \<Rightarrow> string \<Rightarrow> string \<Rightarrow> string option" where
  "file_sha256 env root relative =
     (if absolute relative then None
      else case (fs_resolve (ca_fs env) root, fs_resolve (ca_fs env) (path_join root relative)) of
          (Some r, Some p) \<Rightarrow>
            if take (length r) p \<noteq> r then None
            else if \<not> fs_is_file (ca_fs env) (path_text p) then None
            else map_option (ca_sha env) (fs_read (ca_fs env) (path_text p))
        | _ \<Rightarrow> None)"

text \<open>\<^verbatim>\<open>bytes.decode("ascii", errors="replace")\<close>\<close>

definition ascii_text :: "string \<Rightarrow> string" where
  "ascii_text s = concat (map (\<lambda>c. if of_char c < (128 :: nat) then [c] else map char_of [0xEF :: nat, 0xBF, 0xBD]) s)"

definition dirty_entry :: "capsule_env \<Rightarrow> string \<Rightarrow> string \<Rightarrow> string \<Rightarrow> json" where
  "dirty_entry env root status path =
     JObj ([(''path'', JStr path), (''status'', JStr status)]
       @ (case file_sha256 env root path of None \<Rightarrow> [] | Some d \<Rightarrow> [(''sha256'', JStr d)]))"

text \<open>
  The entries of \<^verbatim>\<open>git status --porcelain=v1 -z\<close>, at most \<open>n\<close> more: a renamed or copied file is
  followed by its old path.
\<close>

function dirty_items :: "capsule_env \<Rightarrow> string \<Rightarrow> nat \<Rightarrow> string list \<Rightarrow> json list" where
  "dirty_items env root n [] = []"
| "dirty_items env root 0 (entry # rest) = []"
| "dirty_items env root (Suc n) (entry # rest) =
     (if length entry < 4 \<or> entry ! 2 \<noteq> CHR '' '' then dirty_items env root (Suc n) rest
      else
        let status = ascii_text (take 2 entry); path = ca_decode env (drop 3 entry);
            moved = CHR ''R'' \<in> set status \<or> CHR ''C'' \<in> set status in
        if moved \<and> rest = [] then []
        else if path = [] then dirty_items env root (Suc n) (if moved then drop 1 rest else rest)
        else dirty_entry env root status path # dirty_items env root n (if moved then drop 1 rest else rest))"
  by pat_completeness auto
termination by (relation "measure (\<lambda>(env, root, n, xs). length xs)") auto

definition dirty_files :: "capsule_env \<Rightarrow> string \<Rightarrow> string \<Rightarrow> json list" where
  "dirty_files env root raw =
     (let parts = split_on NUL raw
      in dirty_items env root MAX_DIRTY (if last parts = [] then butlast parts else parts))"

text \<open>The first number (in ASCII digits, as Git prints them) that text \<open>P\<close> accepts follows.\<close>

definition digit_char :: "char \<Rightarrow> bool" where
  "digit_char c \<longleftrightarrow> (let n = of_char c :: nat in 48 \<le> n \<and> n \<le> 57)"

fun first_number :: "(string \<Rightarrow> bool) \<Rightarrow> string \<Rightarrow> int option" where
  "first_number P [] = None"
| "first_number P (c # s) =
     (let d = takeWhile digit_char (c # s)
      in if d \<noteq> [] \<and> P (drop (length d) (c # s)) then Some (digits_value d) else first_number P s)"

definition counted :: "string \<Rightarrow> string \<Rightarrow> string \<Rightarrow> int option" where
  "counted one many text =
     first_number (\<lambda>rest. starts_with one rest \<or> starts_with many rest) text"

definition diff_stat :: "string \<Rightarrow> string + json" where
  "diff_stat text =
     (let body = strip text;
          stat = (\<lambda>f i d. JObj [(''files'', JInt f), (''insertions'', JInt i), (''deletions'', JInt d)]);
          or_zero = (\<lambda>x. case x of None \<Rightarrow> 0 | Some n \<Rightarrow> n)
      in if body = [] then Inr (stat 0 0 0)
         else case counted '' file changed'' '' files changed'' body of
             None \<Rightarrow> Inl ''git_failed''
           | Some f \<Rightarrow>
               Inr (stat f (or_zero (counted '' insertion(+)'' '' insertions(+)'' body))
                      (or_zero (counted '' deletion(-)'' '' deletions(-)'' body))))"

definition git_then :: "string + 'a \<Rightarrow> ('a \<Rightarrow> string + 'b) \<Rightarrow> string + 'b" where
  "git_then r f = (case r of Inl e \<Rightarrow> Inl e | Inr x \<Rightarrow> f x)"

definition workspace_snapshot :: "capsule_env \<Rightarrow> string \<Rightarrow> string + dict" where
  "workspace_snapshot env root =
     git_then (git_text env root [''rev-parse'', ''HEAD'']) (\<lambda>head.
     git_then (git_text env root [''rev-parse'', ''--abbrev-ref'', ''HEAD'']) (\<lambda>branch.
     git_then (git_bytes env root [''status'', ''--porcelain=v1'', ''-z'']) (\<lambda>raw.
     git_then (git_text env root [''diff'', ''--shortstat'', ''HEAD'']) (\<lambda>shortstat.
     git_then (diff_stat shortstat) (\<lambda>stat.
       Inr [(''head'', JStr head), (''branch'', JStr branch),
            (''dirty_files'', JArr (dirty_files env root raw)), (''diff_stat'', stat)])))))"

definition no_workspace :: "string \<Rightarrow> dict" where
  "no_workspace code = EMPTY_WORKSPACE @ [(''error'', JStr code)]"

definition workspace_for :: "capsule_env \<Rightarrow> string \<Rightarrow> dict" where
  "workspace_for env root =
     (if \<not> fs_is_dir (ca_fs env) root \<or> \<not> ca_git_dir env root then no_workspace ''not_git''
      else case git_text env root [''rev-parse'', ''--is-inside-work-tree''] of
          Inl code \<Rightarrow> no_workspace code
        | Inr inside \<Rightarrow>
            if inside \<noteq> ''true'' then no_workspace ''not_git''
            else (case workspace_snapshot env root of
                    Inl _ \<Rightarrow> no_workspace ''git_failed''
                  | Inr snap \<Rightarrow> snap @ [(''binding_hash'', JStr (sha (ca_sha env) (JObj snap)))]))"

section \<open>Progress\<close>

definition run_order :: "run \<Rightarrow> string \<times> string" where
  "run_order r = (r_created_at r, run_val (r_id r))"

definition ordered_runs :: "mem_store \<Rightarrow> task \<Rightarrow> run list" where
  "ordered_runs s t = sort_key run_order (ms_list_runs s (t_id t))"

fun position_in :: "'a \<Rightarrow> 'a list \<Rightarrow> nat" where
  "position_in x [] = 0"
| "position_in x (y # ys) = (if y = x then 0 else Suc (position_in x ys))"

definition segment_index_for :: "mem_store \<Rightarrow> task \<Rightarrow> run \<Rightarrow> int" where
  "segment_index_for s t r =
     (let ids = map r_id (ordered_runs s t)
      in if r_id r \<in> set ids then int (position_in (r_id r) ids) else int (length ids) - 1)"

lemma last_page_seen:
  "ms_list_events s i cursor PAGE_SIZE \<noteq> [] \<Longrightarrow>
   last (ms_list_events s i cursor PAGE_SIZE) \<in> set (ms_bucket s (run_val i))
   \<and> cursor < e_seq (last (ms_list_events s i cursor PAGE_SIZE))"
proof -
  assume "ms_list_events s i cursor PAGE_SIZE \<noteq> []"
  then have "last (ms_list_events s i cursor PAGE_SIZE) \<in> set (ms_list_events s i cursor PAGE_SIZE)"
    by (rule last_in_set)
  then show ?thesis by (auto simp: ms_list_events_def py_prefix_def PAGE_SIZE_def dest: in_set_takeD)
qed

lemma fewer_events:
  assumes "x \<in> set xs" "c < e_seq x"
  shows "length (filter (\<lambda>e. e_seq x < e_seq e) xs) < length (filter (\<lambda>e. c < e_seq e) xs)"
  using assms(1)
proof (induction xs)
  case (Cons y ys)
  have le: "length (filter (\<lambda>e. e_seq x < e_seq e) zs) \<le> length (filter (\<lambda>e. c < e_seq e) zs)" for zs
    using assms(2) by (induction zs) auto
  from Cons show ?case using assms(2) le [of ys] by auto
qed simp

text \<open>\<^verbatim>\<open>_events\<close>: the pages of the events of a run, until an empty page or one that does not advance.\<close>

function events_from :: "mem_store \<Rightarrow> run_id \<Rightarrow> int \<Rightarrow> event list" where
  "events_from s i cursor =
     (let page = ms_list_events s i cursor PAGE_SIZE
      in if page = [] then []
         else page @ (if e_seq (last page) \<le> cursor then [] else events_from s i (e_seq (last page))))"
  by pat_completeness auto

termination by (relation "measure (\<lambda>(s, i, cursor). length (filter (\<lambda>e. cursor < e_seq e) (ms_bucket s (run_val i))))")
    (auto dest!: last_page_seen intro!: fewer_events)

declare events_from.simps [simp del]

text \<open>The first word of a command; its last path component where it looks like a program.\<close>

fun until_space :: "string \<Rightarrow> string" where
  "until_space [] = []"
| "until_space [a] = (if ascii_space a then [] else [a])"
| "until_space [a, b] = (if ascii_space a \<or> space2 a b then [] else a # until_space [b])"
| "until_space (a # b # c # s) =
     (if ascii_space a \<or> space2 a b \<or> space3 a b c then [] else a # until_space (b # c # s))"

definition program_like :: "string \<Rightarrow> bool" where
  "program_like s \<longleftrightarrow> 1 \<le> length s \<and> length s \<le> 64 \<and> list_all (\<lambda>c. name_char c \<or> c = CHR ''+'') s"

definition command_program :: "string \<Rightarrow> string option" where
  "command_program command =
     (let word = until_space (lstrip command); base = last (split_on CHR ''/'' word)
      in if word \<noteq> [] \<and> program_like base then Some base else None)"

definition command_entry :: "capsule_env \<Rightarrow> string \<Rightarrow> json" where
  "command_entry env command =
     JObj [(''program'', jstr_opt (command_program command)), (''sha256'', JStr (ca_sha env command)),
           (''length'', JInt (int (char_count command)))]"

record tool_call =
  tc_tool :: string
  tc_input :: json
  tc_status :: string
  tc_saw_result :: bool

record progress_scan =
  sc_files :: "string list"
  sc_commands :: "json list"
  sc_texts :: "string list"
  sc_calls :: "(string \<times> tool_call) list"
  sc_order :: "string list"

definition scan_call :: "capsule_env \<Rightarrow> int \<Rightarrow> dict \<Rightarrow> progress_scan \<Rightarrow> progress_scan" where
  "scan_call env seq payload sc =
     (let input = dict_or_empty (dget payload ''input'');
          files = filter (\<lambda>f. f \<noteq> []) (map (\<lambda>k. str_of (dget input k)) FILE_INPUT_KEYS);
          commands = (case dget input ''command'' of JStr c \<Rightarrow> [command_entry env c] | _ \<Rightarrow> []);
          given = str_of (dget payload ''toolCallId'');
          call_id = (if given = [] then ''anon:'' @ int_text seq else given)
      in sc\<lparr>sc_files := sc_files sc @ files, sc_commands := sc_commands sc @ commands,
            sc_order := (if map_of (sc_calls sc) call_id = None then sc_order sc @ [call_id] else sc_order sc),
            sc_calls := AList.update call_id
              \<lparr>tc_tool = str_of (dget payload ''toolName''), tc_input = dget payload ''input'',
                tc_status = str_of (dget payload ''status''), tc_saw_result = False\<rparr> (sc_calls sc)\<rparr>)"

definition scan_result :: "dict \<Rightarrow> progress_scan \<Rightarrow> progress_scan" where
  "scan_result payload sc =
     (case dget payload ''toolCallId'' of
        JStr call_id \<Rightarrow>
          (case map_of (sc_calls sc) call_id of
             None \<Rightarrow> sc
           | Some call \<Rightarrow>
               let seen = call\<lparr>tc_saw_result := True\<rparr>;
                   told = (case dget payload ''status'' of JStr st \<Rightarrow> seen\<lparr>tc_status := st\<rparr> | _ \<Rightarrow> seen)
               in sc\<lparr>sc_calls := AList.update call_id told (sc_calls sc)\<rparr>)
      | _ \<Rightarrow> sc)"

text \<open>Membership of an unhashable kind in the set of result kinds is a \<^verbatim>\<open>TypeError\<close>.\<close>

definition scan_event :: "capsule_env \<Rightarrow> event \<Rightarrow> progress_scan \<Rightarrow> progress_scan res" where
  "scan_event env e sc =
     (let payload = e_payload e; kind = dget payload ''kind'' in
      if kind = JStr ''text'' then
        Inr (case dget payload ''text'' of JStr s \<Rightarrow> sc\<lparr>sc_texts := sc_texts sc @ [s]\<rparr> | _ \<Rightarrow> sc)
      else if kind = JStr ''tool_call'' then Inr (scan_call env (e_seq e) payload sc)
      else if \<not> hashable kind then Inl TypeError
      else if kind \<in> JStr ` set RESULT_KINDS then Inr (scan_result payload sc)
      else Inr sc)"

fun scan_events :: "capsule_env \<Rightarrow> event list \<Rightarrow> progress_scan \<Rightarrow> progress_scan res" where
  "scan_events env [] sc = Inr sc"
| "scan_events env (e # es) sc = bind_res (scan_event env e sc) (scan_events env es)"

definition empty_scan :: progress_scan where
  "empty_scan = \<lparr>sc_files = [], sc_commands = [], sc_texts = [], sc_calls = [], sc_order = []\<rparr>"

definition unconfirmed :: "capsule_env \<Rightarrow> progress_scan \<Rightarrow> json list" where
  "unconfirmed env sc =
     List.map_filter (\<lambda>call_id.
       case map_of (sc_calls sc) call_id of
         Some call \<Rightarrow>
           if tc_saw_result call \<or> tc_status call \<in> set TERMINAL_TOOL_STATUSES then None
           else Some (JObj [(''tool'', JStr (tc_tool call)),
                            (''input_digest'', JStr (sha (ca_sha env) (tc_input call))),
                            (''reason'', JStr ''no_result'')])
       | None \<Rightarrow> None) (sc_order sc)"

definition segment_entry :: "nat \<times> run \<Rightarrow> json" where
  "segment_entry item =
     (case item of (index, r) \<Rightarrow>
        JObj [(''index'', JInt (int index)), (''run_id'', JStr (run_val (r_id r))),
              (''stop_reason'', dget (r_native r) ''stop_reason''),
              (''num_turns'', JInt (num_turns (dget (r_native r) ''num_turns''))),
              (''status'', JStr (str_run_status (r_status r)))])"

definition segments_of :: "mem_store \<Rightarrow> task \<Rightarrow> run \<Rightarrow> json list" where
  "segments_of s t r =
     map segment_entry (List.enumerate 0 (filter (\<lambda>x. r_created_at x \<le> r_created_at r) (ordered_runs s t)))"

definition approvals_of :: "capsule_env \<Rightarrow> mem_store \<Rightarrow> run \<Rightarrow> json list" where
  "approvals_of env s r =
     (case ms_find_pending_approval s (r_id r) of
        None \<Rightarrow> []
      | Some a \<Rightarrow> [JObj [(''action_sha256'', JStr (sha (ca_sha env) (JObj (approval_to_dict a)))),
                          (''summary'', JStr ''pending approval'')]])"

definition progress_for ::
  "capsule_env \<Rightarrow> mem_store \<Rightarrow> task \<Rightarrow> run \<Rightarrow> (dict \<times> dict \<times> string list) res" where
  "progress_for env s t r =
     bind_res (scan_events env (events_from s (r_id r) 0) empty_scan) (\<lambda>sc.
       Inr ([(''segments'', JArr (segments_of s t r)), (''files_touched'', JArr (map JStr (sc_files sc))),
             (''commands'', JArr (sc_commands sc)), (''checks'', JArr [])],
            [(''approvals_not_revived'', JArr (approvals_of env s r)),
             (''unconfirmed_actions'', JArr (unconfirmed env sc)), (''open_questions'', JArr [])],
            sc_texts sc))"

section \<open>The capsule\<close>

definition capsule_authority :: "capsule_env \<Rightarrow> mem_store \<Rightarrow> task \<Rightarrow> run \<Rightarrow> dict res" where
  "capsule_authority env s t r =
     bind_res (task_contract (json_hash env) t) (\<lambda>c.
     bind_res (handoff_state (json_hash env) (ms_view s) t r) (\<lambda>st.
       Inr ((''contract_sha256'', JStr c) # st @ [(''config_revision'', JInt (t_config_revision t))])))"

definition assemble_capsule :: "capsule_env \<Rightarrow> mem_store \<Rightarrow> task \<Rightarrow> run \<Rightarrow> string \<Rightarrow> int \<Rightarrow> dict res" where
  "assemble_capsule env s t r trigger segment_index =
     bind_res (progress_for env s t r) (\<lambda>(progress, open_items, texts).
     bind_res (redacted_notes (ca_note env) texts) (\<lambda>(notes, dropped).
     bind_res (capsule_authority env s t r) (\<lambda>authority.
     bind_res (ca_kind env (backend_val (r_backend r))) (\<lambda>kind.
     bind_res (ca_root env (t_workspace t)) (\<lambda>root.
       build_capsule (ca_sha env)
         \<lparr>cp_task_id = JStr (task_val (t_id t)), cp_source_run_id = JStr (run_val (r_id r)),
           cp_segment_index = JInt segment_index, cp_role = JStr (r_role r), cp_backend_kind = JStr kind,
           cp_trigger = JStr trigger, cp_created_at = JStr (r_created_at r), cp_authority = JObj authority,
           cp_mandatory = JObj (mandatory_for env t), cp_workspace = JObj (workspace_for env root),
           cp_progress = JObj progress, cp_open_items = JObj open_items, cp_notes_text = jstr_opt notes,
           cp_budget_ref = JObj [(''budget_id'', JNull), (''ledger_revision'', JInt 0)],
           cp_limits = JNull, cp_dropped_lines = JInt dropped\<rparr>)))))"

definition verify_capsule :: "capsule_env \<Rightarrow> task \<Rightarrow> json \<Rightarrow> string list res" where
  "verify_capsule env t capsule =
     bind_res (validate_capsule (ca_fi env) (ca_lib env) (ca_sha env) capsule (JObj (mandatory_for env t)))
       (\<lambda>problems.
     bind_res (task_contract (json_hash env) t) (\<lambda>c.
       let stored = dget (dict_or_empty (dget (dict_or_empty capsule) ''authority'')) ''contract_sha256''
       in Inr (problems @ (if stored \<noteq> JStr c then [''contract_changed''] else []))))"

section \<open>The table of capsules\<close>

text \<open>
  \<^verbatim>\<open>src/asterun/capsule/store.py\<close>: one row for each run and trigger, in the order of their row
  ids. The rows hold the one namespace of the code, so it is not a column here.
\<close>

record capsule_row =
  cr_capsule_id :: json
  cr_task_id :: string
  cr_run_id :: string
  cr_segment_index :: json
  cr_trigger :: string
  cr_body_sha256 :: json
  cr_blob_sha256 :: "string option"
  cr_size_bytes :: json
  cr_truncated :: int
  cr_ready :: int
  cr_issues :: "string list"
  cr_error_code :: "string option"
  cr_created_at :: string

definition CAPSULE_LIMIT :: nat where "CAPSULE_LIMIT = 2000"

definition base_row :: "capsule_env \<Rightarrow> task \<Rightarrow> run \<Rightarrow> string \<Rightarrow> int \<Rightarrow> capsule_row" where
  "base_row env t r trigger segment_index =
     \<lparr>cr_capsule_id = JNull, cr_task_id = task_val (t_id t), cr_run_id = run_val (r_id r),
       cr_segment_index = JInt segment_index, cr_trigger = trigger, cr_body_sha256 = JNull, cr_blob_sha256 = None,
       cr_size_bytes = JNull, cr_truncated = 0, cr_ready = 0, cr_issues = [], cr_error_code = None,
       cr_created_at = (if r_created_at r = [] then ca_now env else r_created_at r)\<rparr>"

definition row_key :: "capsule_row \<Rightarrow> string \<times> string" where
  "row_key row = (cr_run_id row, cr_trigger row)"

fun upsert_row :: "capsule_row \<Rightarrow> capsule_row list \<Rightarrow> capsule_row list" where
  "upsert_row row [] = [row]"
| "upsert_row row (x # xs) = (if row_key x = row_key row then row # xs else x # upsert_row row xs)"

text \<open>\<^verbatim>\<open>ORDER BY created_at DESC, rowid DESC\<close>\<close>

definition newest_first :: "capsule_row list \<Rightarrow> capsule_row list" where
  "newest_first rows = rev (sort_key cr_created_at rows)"

definition prune_rows :: "string \<Rightarrow> capsule_row list \<Rightarrow> capsule_row list" where
  "prune_rows cutoff rows =
     (let kept = filter (\<lambda>x. \<not> cr_created_at x < cutoff) rows;
          extra = drop CAPSULE_LIMIT (newest_first kept)
      in filter (\<lambda>x. row_key x \<notin> row_key ` set extra) kept)"

type_synonym capsule_state = "mem_store \<times> capsule_row list"

definition write_row ::
  "capsule_env \<Rightarrow> capsule_row \<Rightarrow> string option \<Rightarrow> capsule_state \<Rightarrow> capsule_row \<times> capsule_state" where
  "write_row env row blob st =
     (case st of (s, rows) \<Rightarrow>
        (case blob of
           None \<Rightarrow> (row, s, prune_rows (ca_cutoff env) (upsert_row row rows))
         | Some content \<Rightarrow>
             (let (d, s') = ms_put_blob (ca_sha env) content s; row' = row\<lparr>cr_blob_sha256 := Some d\<rparr>
              in (row', s', prune_rows (ca_cutoff env) (upsert_row row' rows)))))"

definition full_row :: "capsule_row \<Rightarrow> string \<Rightarrow> dict \<Rightarrow> string list \<Rightarrow> capsule_row" where
  "full_row row trigger capsule issues =
     (let integrity = dict_or_empty (dget capsule ''integrity'') in
      row\<lparr>cr_segment_index := dget_or capsule ''segment_index'' (cr_segment_index row),
          cr_capsule_id := dget capsule ''capsule_id'', cr_body_sha256 := dget integrity ''body_sha256'',
          cr_size_bytes := dget integrity ''size_bytes'',
          cr_truncated := (if truthy (dget integrity ''truncated'') then 1 else 0),
          cr_ready := (if trigger = ''observe_only'' \<or> issues \<noteq> [] then 0 else 1),
          cr_issues := issues,
          cr_created_at := (case dget capsule ''created_at'' of
              JStr c \<Rightarrow> if c = [] then cr_created_at row else c | _ \<Rightarrow> cr_created_at row)\<rparr>)"

definition record_capsule ::
  "capsule_env \<Rightarrow> task \<Rightarrow> run \<Rightarrow> string \<Rightarrow> capsule_state \<Rightarrow> (capsule_row \<times> capsule_state) res" where
  "record_capsule env t r trigger st =
     (let index = segment_index_for (fst st) t r; base = base_row env t r trigger index in
      case assemble_capsule env (fst st) t r trigger index of
        Inl (CapsuleTooLarge n) \<Rightarrow>
          Inr (write_row env (base\<lparr>cr_error_code := Some ''CAPSULE_TOO_LARGE''\<rparr>) None st)
      | Inl e \<Rightarrow> Inl e
      | Inr capsule \<Rightarrow>
          bind_res (verify_capsule env t (JObj capsule)) (\<lambda>issues.
            Inr (write_row env (full_row base trigger capsule issues) (Some (dumps (JObj capsule))) st)))"

definition list_capsules :: "string option \<Rightarrow> nat \<Rightarrow> capsule_row list \<Rightarrow> capsule_row list" where
  "list_capsules task_id limit rows =
     take limit (newest_first
       (filter (\<lambda>x. case task_id of None \<Rightarrow> True | Some i \<Rightarrow> cr_task_id x = i) rows))"

definition latest_with_blob :: "string \<Rightarrow> capsule_row list \<Rightarrow> capsule_row option" where
  "latest_with_blob task_id rows =
     (case newest_first (filter (\<lambda>x. cr_task_id x = task_id
          \<and> (case cr_blob_sha256 x of None \<Rightarrow> False | Some d \<Rightarrow> d \<noteq> [])) rows) of
        [] \<Rightarrow> None | x # _ \<Rightarrow> Some x)"

definition load_capsule :: "capsule_env \<Rightarrow> mem_store \<Rightarrow> string \<Rightarrow> json res" where
  "load_capsule env s d = bind_res (ms_get_blob (ca_sha env) s d) (ca_loads env)"

end
