(* ===== verification/Usage_Breakdown.thy ===== *)
theory Usage_Breakdown
  imports Prelude
begin

text \<open>
  Token usage of a run, \<^verbatim>\<open>src/asterun/usage/breakdown.py\<close>: the native counters of the three
  conventions (Grok headless, Codex app-server, Antigravity) brought to one picture, with a
  missing counter kept missing, and the residency curve of Grok events. A counter that may be
  \<^verbatim>\<open>None\<close> is an \<open>int option\<close>; the list of issues is threaded in the order the code appends.
\<close>

definition CUMULATIVE_SCOPES :: "string list" where
  "CUMULATIVE_SCOPES = [''session'', ''session_cumulative'', ''thread_cumulative'']"

definition DISPATCH_KEY :: string where
  "DISPATCH_KEY = ''asterun.antigravity_dispatch_v1''"

definition RESIDENCY_LIMIT :: nat where
  "RESIDENCY_LIMIT = 500"

definition RESIDENCY_FIELDS :: "string list" where
  "RESIDENCY_FIELDS = [''input_tokens'', ''cache_read_input_tokens'', ''cache_creation_input_tokens'']"

section \<open>Counters\<close>

text \<open>The counter or \<open>None\<close>, whether the key is there, and the issues.\<close>

definition component :: "dict \<Rightarrow> string \<Rightarrow> string list \<Rightarrow> int option \<times> bool \<times> string list" where
  "component raw key issues =
     (if \<not> dhas raw key then (None, False, issues)
      else (case dget raw key of
              JInt n \<Rightarrow> if 0 \<le> n then (Some n, True, issues)
                        else (None, True, issues @ [''invalid_counter:'' @ key])
            | _ \<Rightarrow> (None, True, issues @ [''invalid_counter:'' @ key])))"

datatype inclusion = Unverified | Verified | Mismatch
datatype completeness = Unknown | Partial | Complete

record picture =
  pic_convention :: string
  pic_scope :: string
  pic_attributable :: bool
  pic_input_uncached :: "int option"
  pic_cache_read :: "int option"
  pic_cache_write :: "int option"
  pic_output :: "int option"
  pic_reasoning :: "int option"
  pic_processed :: "int option"
  pic_new :: "int option"
  pic_inclusion :: inclusion
  pic_completeness :: completeness
  pic_issues :: "string list"

text \<open>The sums of \<^verbatim>\<open>_picture\<close>: processed, new and completeness.\<close>

definition token_sums ::
  "int option \<Rightarrow> int option \<Rightarrow> int option \<Rightarrow> int option \<Rightarrow> int option \<times> int option \<times> completeness" where
  "token_sums input_uncached cache_read cache_write out_tokens =
     (case (input_uncached, cache_read, out_tokens) of
        (Some i, Some r, Some e) \<Rightarrow>
          (case cache_write of
             None \<Rightarrow> (Some (i + r + e), Some (i + e), Partial)
           | Some w \<Rightarrow> (Some (i + r + w + e), Some (i + w + e), Complete))
      | _ \<Rightarrow> (None, None, Unknown))"

definition make_picture ::
  "string \<Rightarrow> string \<Rightarrow> bool \<Rightarrow> int option \<Rightarrow> int option \<Rightarrow> int option \<Rightarrow> int option \<Rightarrow> int option \<Rightarrow>
   inclusion \<Rightarrow> string list \<Rightarrow> bool \<Rightarrow> picture" where
  "make_picture convention scope attributable input_uncached cache_read cache_write out_tokens reasoning
       incl issues reasoning_subset =
     (if incl = Mismatch then
        \<lparr>pic_convention = convention, pic_scope = scope, pic_attributable = attributable,
         pic_input_uncached = None, pic_cache_read = None, pic_cache_write = None, pic_output = None,
         pic_reasoning = None, pic_processed = None, pic_new = None, pic_inclusion = incl,
         pic_completeness = Unknown, pic_issues = issues\<rparr>
      else
        (let (processed, new, complete) = token_sums input_uncached cache_read cache_write out_tokens
         in \<lparr>pic_convention = convention, pic_scope = scope, pic_attributable = attributable,
             pic_input_uncached = input_uncached, pic_cache_read = cache_read,
             pic_cache_write = cache_write, pic_output = out_tokens, pic_reasoning = reasoning,
             pic_processed = processed, pic_new = new, pic_inclusion = incl,
             pic_completeness = complete,
             pic_issues = issues @
               (case (reasoning, out_tokens) of
                  (Some r, Some e) \<Rightarrow> if reasoning_subset \<and> e < r then [''reasoning_exceeds_output''] else []
                | _ \<Rightarrow> [])\<rparr>))"

definition unknown_picture :: picture where
  "unknown_picture =
     make_picture ''unknown'' ''unknown'' False None None None None None Unverified
       [''usage_convention_unknown''] False"

section \<open>The three conventions\<close>

text \<open>Grok: what the total says about the counters, the uncached input and the issue found.\<close>

definition grok_inclusion ::
  "int option \<Rightarrow> int option \<Rightarrow> bool \<Rightarrow> int option \<Rightarrow> bool \<Rightarrow> int option \<Rightarrow> int option \<Rightarrow>
   int option \<times> inclusion \<times> string list" where
  "grok_inclusion reported cache_read read_present cache_write write_present out_tokens total_n =
     (case total_n of
        None \<Rightarrow> (reported, Unverified, [])
      | Some t \<Rightarrow>
          (case (reported, cache_read, cache_write, out_tokens) of
             (Some i, Some r, Some w, Some e) \<Rightarrow>
               if t = i + r + w + e then (reported, Verified, [])
               else if t = i + e then
                 (if i - r - w < 0 then (reported, Mismatch, [''input_uncached_negative''])
                  else (Some (i - r - w), Verified, []))
               else (reported, Mismatch, [''inclusion_mismatch''])
           | (Some i, Some r, None, Some e) \<Rightarrow>
               if \<not> write_present \<and> t = i + r + e then (reported, Verified, [])
               else (reported, Mismatch, [''inclusion_mismatch''])
           | (Some i, None, None, Some e) \<Rightarrow>
               if \<not> read_present \<and> \<not> write_present \<and> t = i + e then (reported, Unverified, [])
               else (reported, Mismatch, [''inclusion_mismatch''])
           | _ \<Rightarrow> (reported, Mismatch, [''inclusion_mismatch''])))"

definition grok_picture :: "dict \<Rightarrow> picture" where
  "grok_picture native =
     (let raw = dict_or_empty (dget native ''usage'');
          (reported, _, is1) = component raw ''input_tokens'' [];
          (cache_read, read_present, is2) = component raw ''cache_read_input_tokens'' is1;
          (cache_write, write_present, is3) = component raw ''cache_creation_input_tokens'' is2;
          (out_tokens, _, is4) = component raw ''output_tokens'' is3;
          (reasoning, _, is5) = component raw ''reasoning_tokens'' is4;
          (total_n, _, is6) = component raw ''total_tokens'' is5;
          (input_uncached, incl, extra) =
            grok_inclusion reported cache_read read_present cache_write write_present out_tokens total_n
      in make_picture ''grok_headless'' ''run'' True input_uncached cache_read cache_write out_tokens reasoning
           incl (is6 @ extra) True)"

definition codex_inclusion ::
  "int option \<Rightarrow> int option \<Rightarrow> int option \<Rightarrow> int option \<Rightarrow> int option \<times> inclusion \<times> string list" where
  "codex_inclusion reported cache_read out_tokens total_n =
     (let checked =
        (case total_n of
           None \<Rightarrow> (Unverified, [])
         | Some t \<Rightarrow>
             (case (reported, out_tokens) of
                (Some i, Some e) \<Rightarrow>
                  if t = i + e then (Verified, []) else (Mismatch, [''inclusion_mismatch''])
              | _ \<Rightarrow> (Mismatch, [''inclusion_mismatch''])))
      in case (reported, cache_read) of
           (Some i, Some r) \<Rightarrow>
             if i < r then (None, Mismatch, [''cached_input_exceeds_input'']) else (Some (i - r), checked)
         | _ \<Rightarrow> (None, checked))"

definition codex_picture :: "dict \<Rightarrow> picture" where
  "codex_picture native =
     (let notification = dict_or_empty (dget native ''token_usage'');
          token_usage = dict_or_empty (dget notification ''tokenUsage'');
          is0 = (if token_usage = [] then [''unrecognized_codex_usage_shape''] else []);
          raw = dict_or_empty (dget token_usage ''total'');
          (reported, _, is1) = component raw ''inputTokens'' is0;
          (cache_read, _, is2) = component raw ''cachedInputTokens'' is1;
          (out_tokens, _, is3) = component raw ''outputTokens'' is2;
          (reasoning, _, is4) = component raw ''reasoningOutputTokens'' is3;
          (total_n, _, is5) = component raw ''totalTokens'' is4;
          (input_uncached, incl, extra) = codex_inclusion reported cache_read out_tokens total_n
      in make_picture ''codex_app_server'' ''thread_cumulative'' False input_uncached cache_read None out_tokens
           reasoning incl (is5 @ extra) True)"

definition antigravity_inclusion ::
  "int option \<Rightarrow> int option \<Rightarrow> int option \<Rightarrow> int option \<Rightarrow> int option \<times> inclusion \<times> string list" where
  "antigravity_inclusion reported out_tokens thinking total_n =
     (case total_n of
        None \<Rightarrow> (out_tokens, Unverified, [])
      | Some t \<Rightarrow>
          (case (reported, out_tokens) of
             (Some i, Some e) \<Rightarrow>
               if t = i + e then (out_tokens, Verified, [])
               else (case thinking of
                       Some h \<Rightarrow> if t = i + e + h then (Some (e + h), Verified, [])
                                 else (out_tokens, Mismatch, [''inclusion_mismatch''])
                     | None \<Rightarrow> (out_tokens, Mismatch, [''inclusion_mismatch'']))
           | _ \<Rightarrow> (out_tokens, Mismatch, [''inclusion_mismatch''])))"

definition antigravity_picture :: "dict \<Rightarrow> picture" where
  "antigravity_picture native =
     (let raw = dict_or_empty (dget native ''usage'');
          (reported, _, is1) = component raw ''input_tokens'' [];
          (out0, _, is2) = component raw ''output_tokens'' is1;
          (thinking, _, is3) = component raw ''thinking_tokens'' is2;
          (cache_read, _, is4) = component raw ''cache_read_tokens'' is3;
          (total_n, _, is5) = component raw ''total_tokens'' is4;
          (out_tokens, incl, extra) = antigravity_inclusion reported out0 thinking total_n
      in make_picture ''antigravity'' ''run'' True reported cache_read None out_tokens thinking
           incl (is5 @ extra) False)"

text \<open>An unhashable scope cannot be looked up in the set of cumulative scopes: a \<^verbatim>\<open>TypeError\<close>.\<close>

definition normalize_breakdown :: "json \<Rightarrow> picture res" where
  "normalize_breakdown native =
     (case native of
        JObj d \<Rightarrow>
          if dhas d ''token_usage'' then Inr (codex_picture d)
          else if dhas d DISPATCH_KEY \<and> dget d ''usage_scope'' = JStr ''session'' then Inr (antigravity_picture d)
          else if dget d ''usage_source'' = JStr ''native_headless_report'' then
            (if \<not> hashable (dget d ''usage_scope'') then Inl TypeError
             else if dget d ''usage_scope'' \<notin> JStr ` set CUMULATIVE_SCOPES then Inr (grok_picture d)
             else Inr unknown_picture)
          else Inr unknown_picture
      | _ \<Rightarrow> Inr unknown_picture)"

section \<open>Residency of Grok\<close>

definition usage_event :: "json \<Rightarrow> bool" where
  "usage_event event \<longleftrightarrow>
     (case event of
        JObj d \<Rightarrow>
          let ok = dget d ''type'' \<in> {JNull, JStr ''message''}
          in if dget d ''kind'' = JStr ''usage'' then ok
             else dget d ''kind'' = JNull \<and> ok \<and> dhas d ''usage''
      | _ \<Rightarrow> False)"

fun residency :: "dict \<Rightarrow> string list \<Rightarrow> int \<times> bool" where
  "residency usage [] = (0, False)"
| "residency usage (k # ks) =
     (let (total_n, partial) = residency usage ks
      in case dget usage k of
           JInt n \<Rightarrow> if 0 \<le> n then (n + total_n, partial) else (total_n, True)
         | _ \<Rightarrow> (total_n, True))"

type_synonym curve_point = "string option \<times> int \<times> bool"

text \<open>The points so far and the positions of the messages that have one.\<close>

definition add_point ::
  "json \<Rightarrow> curve_point list \<times> (string \<times> nat) list \<Rightarrow> curve_point list \<times> (string \<times> nat) list" where
  "add_point event st =
     (case st of (points, positions) \<Rightarrow>
        if \<not> usage_event event then (points, positions)
        else
          let d = dict_or_empty event;
              (amount, partial) = residency (dict_or_empty (dget d ''usage'')) RESIDENCY_FIELDS;
              message_id = (case dget d ''message_id'' of JStr s \<Rightarrow> if s = [] then None else Some s | _ \<Rightarrow> None);
              point = (message_id, amount, partial)
          in case message_id of
               None \<Rightarrow> (points @ [point], positions)
             | Some m \<Rightarrow>
                 (case map_of positions m of
                    None \<Rightarrow> (points @ [point], positions @ [(m, length points)])
                  | Some slot \<Rightarrow> (points[slot := point], positions)))"

record residency_curve =
  rc_points :: "(string option \<times> int) list"
  rc_peak :: "int option"
  rc_count :: nat
  rc_partial :: bool

definition grok_residency_curve :: "json list \<Rightarrow> residency_curve" where
  "grok_residency_curve events =
     (let points = fst (fold add_point events ([], []))
      in \<lparr>rc_points = drop (length points - RESIDENCY_LIMIT) (map (\<lambda>(m, n, _). (m, n)) points),
          rc_peak = (if points = [] then None else Some (Max (set (map (\<lambda>(_, n, _). n) points)))),
          rc_count = length points,
          rc_partial = list_ex (\<lambda>(_, _, partial). partial) points\<rparr>)"

section \<open>The sums add up\<close>

definition nonneg :: "int option \<Rightarrow> bool" where
  "nonneg v \<longleftrightarrow> (case v of None \<Rightarrow> True | Some n \<Rightarrow> 0 \<le> n)"

text \<open>What every picture satisfies, whatever its convention.\<close>

definition picture_ok :: "picture \<Rightarrow> bool" where
  "picture_ok p \<longleftrightarrow>
     list_all nonneg [pic_input_uncached p, pic_cache_read p, pic_cache_write p, pic_output p, pic_reasoning p]
     \<and> (pic_inclusion p = Mismatch \<longrightarrow>
          [pic_input_uncached p, pic_cache_read p, pic_cache_write p, pic_output p, pic_reasoning p]
            = replicate 5 None)
     \<and> (case pic_processed p of
          None \<Rightarrow> pic_new p = None \<and> pic_completeness p = Unknown
            \<and> (pic_input_uncached p = None \<or> pic_cache_read p = None \<or> pic_output p = None)
        | Some n \<Rightarrow>
            (\<exists>i r e. pic_input_uncached p = Some i \<and> pic_cache_read p = Some r \<and> pic_output p = Some e
               \<and> n = i + r + e + (case pic_cache_write p of None \<Rightarrow> 0 | Some w \<Rightarrow> w)
               \<and> pic_new p = Some (n - r) \<and> 0 \<le> n - r \<and> n - r \<le> n)
            \<and> pic_completeness p = (if pic_cache_write p = None then Partial else Complete))"

lemma nonneg_simps [simp]: "nonneg None" "nonneg (Some n) \<longleftrightarrow> 0 \<le> n"
  by (simp_all add: nonneg_def)

lemma component_nonneg: "nonneg (fst (component raw k issues))"
  by (auto simp: component_def split: if_splits json.splits)

lemma component_value: "component raw k issues = (Some n, q, is') \<Longrightarrow> dget raw k = JInt n"
  by (auto simp: component_def split: if_splits json.splits)

lemma make_picture_ok:
  assumes "list_all nonneg [i, r, w, e, h]"
  shows "picture_ok (make_picture c s a i r w e h incl issues b)"
  using assms
  by (auto simp: picture_ok_def make_picture_def token_sums_def numeral_eq_Suc split: option.splits)

lemma inclusion_nonneg:
  "nonneg i \<Longrightarrow> nonneg (fst (grok_inclusion i r rp w wp e t))"
  "nonneg (fst (codex_inclusion i r e t))"
  "nonneg e \<Longrightarrow> nonneg h \<Longrightarrow> nonneg (fst (antigravity_inclusion i e h t))"
  by (auto simp: grok_inclusion_def codex_inclusion_def antigravity_inclusion_def Let_def
      split: option.splits if_splits)

lemma pictures_ok: "picture_ok (grok_picture d)" "picture_ok (codex_picture d)" "picture_ok (antigravity_picture d)"
  by (simp_all add: grok_picture_def codex_picture_def antigravity_picture_def Let_def case_prod_beta
      make_picture_ok component_nonneg inclusion_nonneg)

lemma unknown_picture_ok: "picture_ok unknown_picture"
  unfolding unknown_picture_def by (rule make_picture_ok) simp

lemma normalize_breakdown_ok: "normalize_breakdown native = Inr p \<Longrightarrow> picture_ok p"
  by (auto simp: normalize_breakdown_def pictures_ok unknown_picture_ok split: json.splits if_splits)

lemma make_picture_fields:
  assumes "pic_inclusion (make_picture c s a i r w e h incl issues b) = Verified"
  shows "pic_convention (make_picture c s a i r w e h incl issues b) = c" "incl = Verified"
    "pic_processed (make_picture c s a i r w e h incl issues b) = fst (token_sums i r w e)"
    "pic_cache_read (make_picture c s a i r w e h incl issues b) = r"
  using assms by (auto simp: make_picture_def Let_def case_prod_beta split: if_splits)

lemma grok_verified:
  assumes "pic_inclusion (grok_picture d) = Verified" "pic_processed (grok_picture d) = Some n"
  shows "dget (dict_or_empty (dget d ''usage'')) ''total_tokens'' = JInt n"
proof -
  let ?raw = "dict_or_empty (dget d ''usage'')"
  obtain i q1 is1 where 1: "component ?raw ''input_tokens'' [] = (i, q1, is1)" by (metis prod_cases3)
  obtain r rp is2 where 2: "component ?raw ''cache_read_input_tokens'' is1 = (r, rp, is2)" by (metis prod_cases3)
  obtain w wp is3 where 3: "component ?raw ''cache_creation_input_tokens'' is2 = (w, wp, is3)" by (metis prod_cases3)
  obtain e q4 is4 where 4: "component ?raw ''output_tokens'' is3 = (e, q4, is4)" by (metis prod_cases3)
  obtain h q5 is5 where 5: "component ?raw ''reasoning_tokens'' is4 = (h, q5, is5)" by (metis prod_cases3)
  obtain t q6 is6 where 6: "component ?raw ''total_tokens'' is5 = (t, q6, is6)" by (metis prod_cases3)
  obtain u incl extra where 7: "grok_inclusion i r rp w wp e t = (u, incl, extra)" by (metis prod_cases3)
  have g: "grok_picture d = make_picture ''grok_headless'' ''run'' True u r w e h incl (is6 @ extra) True"
    by (simp add: grok_picture_def 1 2 3 4 5 6 7)
  from make_picture_fields [OF assms(1) [unfolded g]] assms(2)
  have "incl = Verified" "fst (token_sums u r w e) = Some n" by (simp_all add: g)
  with 7 have "t = Some n"
    by (auto simp: grok_inclusion_def token_sums_def split: option.splits if_splits)
  with 6 show ?thesis by (auto dest: component_value)
qed

lemma codex_verified:
  assumes "pic_inclusion (codex_picture d) = Verified" "pic_processed (codex_picture d) = Some n"
  shows "dget (dict_or_empty (dget (dict_or_empty (dget (dict_or_empty (dget d ''token_usage'')) ''tokenUsage''))
      ''total'')) ''totalTokens'' = JInt n"
proof -
  let ?u = "dict_or_empty (dget (dict_or_empty (dget d ''token_usage'')) ''tokenUsage'')"
  let ?raw = "dict_or_empty (dget ?u ''total'')"
  let ?is0 = "if ?u = [] then [''unrecognized_codex_usage_shape''] else []"
  obtain i q1 is1 where 1: "component ?raw ''inputTokens'' ?is0 = (i, q1, is1)" by (metis prod_cases3)
  obtain r q2 is2 where 2: "component ?raw ''cachedInputTokens'' is1 = (r, q2, is2)" by (metis prod_cases3)
  obtain e q3 is3 where 3: "component ?raw ''outputTokens'' is2 = (e, q3, is3)" by (metis prod_cases3)
  obtain h q4 is4 where 4: "component ?raw ''reasoningOutputTokens'' is3 = (h, q4, is4)" by (metis prod_cases3)
  obtain t q5 is5 where 5: "component ?raw ''totalTokens'' is4 = (t, q5, is5)" by (metis prod_cases3)
  obtain u incl extra where 6: "codex_inclusion i r e t = (u, incl, extra)" by (metis prod_cases3)
  have g: "codex_picture d = make_picture ''codex_app_server'' ''thread_cumulative'' False u r None e h incl (is5 @ extra) True"
    unfolding codex_picture_def Let_def by (simp only: 1 2 3 4 5 6 prod.case)
  from make_picture_fields [OF assms(1) [unfolded g]] assms(2)
  have "incl = Verified" "fst (token_sums u r None e) = Some n" by (simp_all add: g)
  with 6 have "t = Some n"
    by (auto simp: codex_inclusion_def token_sums_def Let_def split: option.splits if_splits)
  with 5 show ?thesis by (auto dest: component_value)
qed

text \<open>
  C40. The picture of a native usage record adds up: no counter is negative, processed is there exactly when
  uncached input, cache read and output are, and is then their sum with the cache write, new is processed
  without the cache read, a record whose total does not fit its counters keeps none of them, and where Grok's
  or Codex's total was verified it is what was processed.
\<close>

theorem breakdown_adds_up:
  assumes "normalize_breakdown native = Inr p"
  shows "picture_ok p
    \<and> (pic_inclusion p = Verified \<and> pic_processed p \<noteq> None \<longrightarrow>
        (pic_convention p = ''grok_headless'' \<longrightarrow>
           dget (dict_or_empty (dget (dict_or_empty native) ''usage'')) ''total_tokens''
             = JInt (the (pic_processed p)))
        \<and> (pic_convention p = ''codex_app_server'' \<longrightarrow>
           dget (dict_or_empty (dget (dict_or_empty (dget (dict_or_empty (dget (dict_or_empty native)
             ''token_usage'')) ''tokenUsage'')) ''total'')) ''totalTokens'' = JInt (the (pic_processed p))))"
proof -
  have c: "pic_convention (make_picture c s a i r w e h incl issues b) = c" for c s a i r w e h incl issues b
    by (simp add: make_picture_def Let_def case_prod_beta)
  have conv: "pic_convention (grok_picture d) = ''grok_headless''" "pic_convention (codex_picture d) = ''codex_app_server''"
    "pic_convention (antigravity_picture d) = ''antigravity''" "pic_convention unknown_picture = ''unknown''" for d
    by (simp_all add: grok_picture_def codex_picture_def antigravity_picture_def unknown_picture_def c Let_def case_prod_beta)
  from assms consider (unknown) "p = unknown_picture" | (grok) d where "native = JObj d" "p = grok_picture d"
    | (codex) d where "native = JObj d" "p = codex_picture d"
    | (antigravity) d where "native = JObj d" "p = antigravity_picture d"
    by (auto simp: normalize_breakdown_def split: json.splits if_splits)
  then show ?thesis
  proof cases
    case grok
    then show ?thesis using grok_verified [of d] by (auto simp: pictures_ok conv)
  next
    case codex
    then show ?thesis using codex_verified [of d] by (auto simp: pictures_ok conv)
  qed (auto simp: unknown_picture_ok pictures_ok conv)
qed

definition example_usage :: json where
  "example_usage = JObj [(''usage_source'', JStr ''native_headless_report''),
     (''usage'', JObj [(''input_tokens'', JInt 100), (''cache_read_input_tokens'', JInt 60),
        (''cache_creation_input_tokens'', JInt 10), (''output_tokens'', JInt 5), (''total_tokens'', JInt 105)])]"

theorem breakdown_adds_up_witness:
  "\<exists>p. normalize_breakdown example_usage = Inr p \<and> picture_ok p \<and> pic_processed p = Some 105
     \<and> pic_input_uncached p = Some 30"
proof -
  let ?p = "grok_picture (dict_or_empty example_usage)"
  have n: "normalize_breakdown example_usage = Inr ?p"
    by (simp add: normalize_breakdown_def example_usage_def DISPATCH_KEY_def CUMULATIVE_SCOPES_def image_iff hashable_def)
  moreover have "pic_processed ?p = Some 105" "pic_input_uncached ?p = Some 30"
    by (simp_all add: example_usage_def grok_picture_def component_def grok_inclusion_def make_picture_def token_sums_def)
  ultimately show ?thesis using breakdown_adds_up [OF n] by blast
qed

end
