(* ===== verification/Budget_Ledger.thy ===== *)
theory Budget_Ledger
  imports Control_Store Contracts Usage_Breakdown
begin

text \<open>
  The token budget of a task, \<^verbatim>\<open>src/asterun/context_budget/ledger.py\<close>, on the control store:
  a dispatch reserves tokens against the budget of its task, the end of the run settles or
  marks the reservation, and the view adds the reservations up. \<^verbatim>\<open>app.config\<close> is the record
  \<open>budget_env\<close>: the schema version and the context-budget section of the configuration, the
  kind of each backend, the digest function, the digest of the settings and the clock.
\<close>

section \<open>Settings\<close>

definition CONTEXT_MODES :: "string list" where
  "CONTEXT_MODES = [''off'', ''observe'', ''enforce'']"

definition ROLE_KINDS :: "(string \<times> string list) list" where
  "ROLE_KINDS = [(''implementation'', [''grok'']), (''review'', [''codex'']), (''planning'', [''antigravity'', ''claude''])]"

record budget_env =
  be_schema_version :: int
  be_context_budget :: json
  be_kind :: "string \<Rightarrow> string option"
  be_sha :: "string \<Rightarrow> string"
  be_policy_sha :: "dict \<Rightarrow> string"
  be_clock :: string

definition default_context_budget :: dict where
  "default_context_budget =
    [(''mode'', JStr ''off''), (''token_basis'', JStr ''processed''),
     (''capsule'', JObj [(''nonmandatory_soft_bytes'', JInt 16384), (''nonmandatory_hard_bytes'', JInt 24576),
        (''notes_max_bytes'', JInt 4096), (''progress_markers'', JBool True)]),
     (''segmentation'', JObj [(''backends'', JArr []), (''roles'', JArr [JStr ''implementation'', JStr ''repair'']),
        (''min_long_task_processed'', JInt 600000), (''resume_max_residency'', JInt 100000),
        (''observe_capsule_min_processed'', JInt 600000)]),
     (''ab_assignment'', JObj [(''enabled'', JBool False), (''enforce_ratio_bp'', JInt 5000)]),
     (''profiles'', JObj [])]"

definition context_budget_settings :: "budget_env \<Rightarrow> dict res" where
  "context_budget_settings env =
     (if be_schema_version env \<noteq> 2 then Inr default_context_budget
      else (case be_context_budget env of
              JObj d \<Rightarrow>
                if \<not> hashable (dget d ''mode'') then Inl TypeError
                else if dget d ''mode'' \<notin> JStr ` set CONTEXT_MODES then Inr default_context_budget
                else Inr d
            | _ \<Rightarrow> Inr default_context_budget))"

definition matched_profile :: "budget_env \<Rightarrow> string \<Rightarrow> string \<Rightarrow> dict \<Rightarrow> string \<times> string" where
  "matched_profile env backend role profiles =
     (let profile_key = backend @ ''/'' @ role
      in if dhas profiles profile_key \<or> role \<noteq> ''implementation'' then (profile_key, role)
         else (case be_kind env backend of
                 None \<Rightarrow> (profile_key, role)
               | Some kind \<Rightarrow>
                   (case map fst (filter (\<lambda>(_, kinds). kind \<in> set kinds) ROLE_KINDS) of
                      [inferred] \<Rightarrow>
                        if inferred \<noteq> ''implementation'' \<and> dhas profiles (backend @ ''/'' @ inferred)
                        then (backend @ ''/'' @ inferred, inferred) else (profile_key, role)
                    | _ \<Rightarrow> (profile_key, role))))"

definition run_role :: "run \<Rightarrow> string" where
  "run_role r = (if r_role r = [] then ''implementation'' else r_role r)"

text \<open>\<^verbatim>\<open>_profile\<close>: settings, profile key and profile where budgets are enforced.\<close>

definition select_profile :: "budget_env \<Rightarrow> run \<Rightarrow> (dict \<times> string \<times> dict) option res" where
  "select_profile env r =
     bind_res (context_budget_settings env) (\<lambda>settings.
       if dget settings ''mode'' \<noteq> JStr ''enforce'' then Inr None
       else
         let profiles = dict_or_empty (dget settings ''profiles'');
             (key, _) = matched_profile env (backend_val (r_backend r)) (run_role r) profiles
         in Inr (Some (settings, key, dict_or_empty (dget profiles key))))"

section \<open>Identifiers and entities\<close>

definition BUDGET_NAMESPACE :: string where
  "BUDGET_NAMESPACE = ''asterun.context_budget.v1''"

definition budget_id :: "budget_env \<Rightarrow> string \<Rightarrow> string" where
  "budget_id env task_id = ''bud_cb_'' @ take 24 (be_sha env task_id)"

definition reservation_id :: "string \<Rightarrow> string" where
  "reservation_id run_id = ''res_cb_'' @ run_id"

definition new_entity :: "budget_env \<Rightarrow> string \<Rightarrow> string \<Rightarrow> dict \<Rightarrow> dict" where
  "new_entity env kind i given =
     dupdate
       [(''schema_version'', JStr ''runner-control/v1''), (''kind'', JStr kind), (''id'', JStr i),
        (''namespace_id'', JStr BUDGET_NAMESPACE), (''revision'', JInt 1),
        (''created_at'', JStr (be_clock env)), (''updated_at'', JStr (be_clock env)),
        (''extensions'', JObj [])]
       given"

definition token_entry :: "string \<Rightarrow> int \<Rightarrow> json" where
  "token_entry field n = JObj [(''meter'', JStr ''tokens''), (field, JInt n), (''billing_pool_ref'', JNull)]"

definition budget_entity :: "budget_env \<Rightarrow> string \<Rightarrow> string \<Rightarrow> int \<Rightarrow> string \<Rightarrow> dict" where
  "budget_entity env task_id profile_key task_hard policy_sha =
     dset (new_entity env ''Budget'' (budget_id env task_id)
         [(''task_id'', JStr task_id),
          (''limits'', JArr [JObj [(''meter'', JStr ''tokens''), (''limit'', JInt task_hard),
             (''enforcement'', JStr ''admission_only''), (''billing_pool_ref'', JNull)]])])
       ''extensions''
       (JObj [(''asterun.legacy_task_id'', JStr task_id), (''asterun.profile_key'', JStr profile_key),
         (''asterun.budget_policy_sha256'', JStr policy_sha), (''asterun.token_basis'', JStr ''processed'')])"

definition reservation_entity :: "budget_env \<Rightarrow> string \<Rightarrow> string \<Rightarrow> json \<Rightarrow> int \<Rightarrow> dict" where
  "reservation_entity env run_id task_id bid amount =
     new_entity env ''Reservation'' (reservation_id run_id)
       [(''task_id'', JStr task_id), (''budget_id'', bid), (''action_id'', JStr run_id),
        (''reserved'', JArr [token_entry ''amount'' amount]), (''actual'', JNull),
        (''status'', JStr ''HELD''), (''receipt_evidence_ids'', JArr [])]"

section \<open>Admission\<close>

text \<open>\<^verbatim>\<open>NOT_FOUND\<close> is an answer, every other exception passes.\<close>

definition or_absent :: "'a res \<Rightarrow> 'a option res" where
  "or_absent r =
     (case r of
        Inr x \<Rightarrow> Inr (Some x)
      | Inl (AsterunError code details) \<Rightarrow>
          if code = ''NOT_FOUND'' then Inr None else Inl (AsterunError code details)
      | Inl e \<Rightarrow> Inl e)"

definition ensure_budget :: "budget_env \<Rightarrow> string \<Rightarrow> string \<Rightarrow> int \<Rightarrow> string \<Rightarrow> dict tx" where
  "ensure_budget env task_id profile_key task_hard policy_sha db =
     bind_res (or_absent (cs_get ''Budget'' (budget_id env task_id) BUDGET_NAMESPACE db)) (\<lambda>found.
       case found of
         Some budget \<Rightarrow> Inr (budget, db)
       | None \<Rightarrow> cs_put (budget_entity env task_id profile_key task_hard policy_sha) db)"

text \<open>Settled and held tokens of the first row metered in tokens.\<close>

definition token_totals :: "string \<Rightarrow> control_db \<Rightarrow> (int \<times> int) res" where
  "token_totals bid db =
     bind_res (cs_budget_totals BUDGET_NAMESPACE bid db) (\<lambda>rows.
       Inr (case find (\<lambda>((meter, _), _). meter = ''tokens'') rows of
              None \<Rightarrow> (0, 0) | Some (_, sums) \<Rightarrow> sums))"

text \<open>\<^verbatim>\<open>budget["limits"][0]["limit"]\<close>\<close>

definition first_limit :: "dict \<Rightarrow> int res" where
  "first_limit budget =
     bind_res (getitem budget ''limits'') (\<lambda>limits.
       case limits of
         JArr [] \<Rightarrow> Inl IndexError
       | JArr (JObj d # _) \<Rightarrow> int_item d ''limit''
       | _ \<Rightarrow> Inl TypeError)"

definition bound_elsewhere :: "budget_env \<Rightarrow> string \<Rightarrow> string \<Rightarrow> dict \<Rightarrow> bool" where
  "bound_elsewhere env run_id task_id existing \<longleftrightarrow>
     dget existing ''budget_id'' \<noteq> JStr (budget_id env task_id)
     \<or> dget existing ''action_id'' \<noteq> JStr run_id
     \<or> dget existing ''task_id'' \<noteq> JStr task_id"

text \<open>The budget of the task, made from the profile if it has none; \<open>None\<close> without a hard limit.\<close>

definition find_or_make_budget ::
  "budget_env \<Rightarrow> string \<Rightarrow> dict \<Rightarrow> string \<Rightarrow> dict \<Rightarrow> dict option tx" where
  "find_or_make_budget env task_id settings profile_key profile db =
     bind_res (or_absent (cs_get ''Budget'' (budget_id env task_id) BUDGET_NAMESPACE db)) (\<lambda>found.
       case found of
         Some budget \<Rightarrow> Inr (Some budget, db)
       | None \<Rightarrow>
           (case dget profile ''task_hard'' of
              JInt n \<Rightarrow>
                if n \<le> 0 then Inr (None, db)
                else bind_res (ensure_budget env task_id profile_key n (be_policy_sha env settings) db)
                       (\<lambda>(budget, db'). Inr (Some budget, db'))
            | _ \<Rightarrow> Inr (None, db)))"

definition admitted_amount :: "dict \<Rightarrow> string \<Rightarrow> int \<Rightarrow> control_db \<Rightarrow> int res" where
  "admitted_amount profile bid limit db =
     (case dget profile ''segment_soft'' of
        JInt soft \<Rightarrow>
          if 0 < soft then Inr (min soft limit)
          else bind_res (token_totals bid db) (\<lambda>(settled, held). Inr (max 1 (min limit (limit - settled - held))))
      | _ \<Rightarrow> bind_res (token_totals bid db) (\<lambda>(settled, held). Inr (max 1 (min limit (limit - settled - held)))))"

definition reserve_or_explain :: "dict \<Rightarrow> json \<Rightarrow> int \<Rightarrow> int \<Rightarrow> dict tx" where
  "reserve_or_explain reservation bid limit amount db =
     (case cs_reserve reservation db of
        Inl (AsterunError code details) \<Rightarrow>
          if code \<noteq> ''BUDGET_EXHAUSTED'' then Inl (AsterunError code details)
          else (case bid of
                  JStr b \<Rightarrow>
                    bind_res (token_totals b db) (\<lambda>(settled, held).
                      Inl (AsterunError ''BUDGET_EXHAUSTED''
                        [(''budget_id'', bid), (''task_hard'', JInt limit), (''settled'', JInt settled),
                         (''held'', JInt held), (''requested'', JInt amount)]))
                | _ \<Rightarrow> Inl TypeError)
      | other \<Rightarrow> other)"

definition guard_dispatch :: "budget_env \<Rightarrow> run \<Rightarrow> dict option tx" where
  "guard_dispatch env r db =
     bind_res (select_profile env r) (\<lambda>selected.
       case selected of
         None \<Rightarrow> Inr (None, db)
       | Some (settings, profile_key, profile) \<Rightarrow>
           let run_id = run_val (r_id r); task_id = task_val (r_task_id r) in
           bind_res (or_absent (cs_get ''Reservation'' (reservation_id run_id) BUDGET_NAMESPACE db)) (\<lambda>existing.
             case existing of
               Some e \<Rightarrow>
                 if bound_elsewhere env run_id task_id e then raise ''IDEMPOTENCY_CONFLICT''
                 else Inr (Some e, db)
             | None \<Rightarrow>
                 bind_res (find_or_make_budget env task_id settings profile_key profile db) (\<lambda>(found, db1).
                   case found of
                     None \<Rightarrow> Inr (None, db1)
                   | Some budget \<Rightarrow>
                       bind_res (first_limit budget) (\<lambda>limit.
                       bind_res (str_item budget ''id'') (\<lambda>bid.
                       bind_res (admitted_amount profile bid limit db1) (\<lambda>amount.
                       bind_res (reserve_or_explain (reservation_entity env run_id task_id (JStr bid) amount)
                           (JStr bid) limit amount db1)
                         (\<lambda>(reservation, db2). Inr (Some reservation, db2))))))))"

section \<open>Settling\<close>

text \<open>\<^verbatim>\<open>run_processed\<close> of \<^verbatim>\<open>segment.py\<close>: the tokens that count as this run's.\<close>

definition run_processed :: "dict \<Rightarrow> int option res" where
  "run_processed native =
     bind_res (normalize_breakdown (JObj native)) (\<lambda>p.
       Inr (case pic_processed p of
              None \<Rightarrow> None
            | Some n \<Rightarrow>
                if n < 0 then None
                else if pic_attributable p then Some n
                else if pic_convention p = ''codex_app_server'' \<and> pic_scope p = ''thread_cumulative''
                        \<and> dget native ''segment_fresh_thread'' = JBool True then Some n
                else None))"

definition settle_held :: "budget_env \<Rightarrow> run \<Rightarrow> control_db \<Rightarrow> control_db res" where
  "settle_held env r db =
     (let rid = reservation_id (run_val (r_id r)) in
      if \<not> list_ex (\<lambda>row. rr_ns row = BUDGET_NAMESPACE \<and> rr_id row = rid) (ct_reservations db) then Inr db
      else
        bind_res (or_absent (cs_get ''Reservation'' rid BUDGET_NAMESPACE db)) (\<lambda>found.
          case found of
            None \<Rightarrow> Inr db
          | Some current \<Rightarrow>
              if dget current ''status'' \<noteq> JStr ''HELD'' then Inr db
              else
                bind_res (run_processed (r_native r)) (\<lambda>processed.
                  case processed of
                    Some n \<Rightarrow>
                      bind_res (cs_settle (be_clock env) BUDGET_NAMESPACE rid [token_entry ''amount'' n] [] db)
                        (\<lambda>(_, db'). Inr db')
                  | None \<Rightarrow>
                      bind_res (cs_mark_uncertain (be_clock env) BUDGET_NAMESPACE rid db) (\<lambda>(_, db'). Inr db'))))"

text \<open>Every exception is swallowed.\<close>

definition settle_run :: "budget_env \<Rightarrow> run \<Rightarrow> control_db \<Rightarrow> control_db" where
  "settle_run env r db =
     (if \<not> terminal (r_status r) then db
      else (case settle_held env r db of Inl _ \<Rightarrow> db | Inr db' \<Rightarrow> db'))"

section \<open>The view\<close>

definition token_amount :: "json \<Rightarrow> int" where
  "token_amount items =
     (case items of
        JArr xs \<Rightarrow> sum_list (map (\<lambda>item. case item of
            JObj d \<Rightarrow> if dget d ''meter'' = JStr ''tokens'' then (case dget d ''amount'' of JInt n \<Rightarrow> n | _ \<Rightarrow> 0) else 0
          | _ \<Rightarrow> 0) xs)
      | _ \<Rightarrow> 0)"

record ledger_view =
  lv_budget_id :: json
  lv_task_hard :: json
  lv_settled :: int
  lv_held :: int
  lv_uncertain :: nat
  lv_profile_key :: json

text \<open>The payloads of the reservations of a budget that have an entity.\<close>

definition joined_reservations :: "string \<Rightarrow> control_db \<Rightarrow> dict list" where
  "joined_reservations bid db =
     List.map_filter (\<lambda>row. map_of (ct_entities db) (rr_ns row, ''Reservation'', rr_id row))
       (filter (\<lambda>row. rr_ns row = BUDGET_NAMESPACE \<and> rr_budget row = bid) (ct_reservations db))"

definition view_settled :: "dict \<Rightarrow> int" where
  "view_settled payload =
     (if dget payload ''status'' = JStr ''SETTLED'' then token_amount (dget payload ''actual'') else 0)"

definition view_held :: "dict \<Rightarrow> int" where
  "view_held payload =
     (if dget payload ''status'' = JStr ''HELD'' \<or> dget payload ''status'' = JStr ''UNCERTAIN''
      then token_amount (dget payload ''reserved'') else 0)"

definition task_hard_of :: "dict \<Rightarrow> json res" where
  "task_hard_of budget =
     (let limits = dget budget ''limits'' in
      if \<not> truthy limits then Inr JNull
      else (case limits of JArr (JObj d # _) \<Rightarrow> getitem d ''limit'' | _ \<Rightarrow> Inl TypeError))"

definition budget_view :: "budget_env \<Rightarrow> string \<Rightarrow> control_db \<Rightarrow> ledger_view option" where
  "budget_view env task_id db =
     (let bid = budget_id env task_id; rows = joined_reservations bid db in
      case map_of (ct_entities db) (BUDGET_NAMESPACE, ''Budget'', bid) of
        None \<Rightarrow> None
      | Some budget \<Rightarrow>
          let extensions = dget budget ''extensions'' in
          (case (getitem budget ''id'', task_hard_of budget, truthy extensions \<and> \<not> is_dict extensions) of
             (Inr i, Inr hard, False) \<Rightarrow>
               Some \<lparr>lv_budget_id = i, lv_task_hard = hard,
                 lv_settled = sum_list (map view_settled rows), lv_held = sum_list (map view_held rows),
                 lv_uncertain = length (filter (\<lambda>p. dget p ''status'' = JStr ''UNCERTAIN'') rows),
                 lv_profile_key = dget (dict_or_empty extensions) ''asterun.profile_key''\<rparr>
           | _ \<Rightarrow> None))"

section \<open>Entities and amounts\<close>

abbreviation tokens_key :: meter_key where
  "tokens_key \<equiv> (''tokens'', JNull)"

lemma dget_dupdate_nil [simp]: "dupdate d [] = d"
  by simp

lemma reservation_entity_fields [simp]:
  "getitem (reservation_entity env run_id task_id bid n) ''status'' = Inr (JStr ''HELD'')"
  "getitem (reservation_entity env run_id task_id bid n) ''actual'' = Inr JNull"
  "getitem (reservation_entity env run_id task_id bid n) ''reserved'' = Inr (JArr [token_entry ''amount'' n])"
  "getitem (reservation_entity env run_id task_id bid n) ''budget_id'' = Inr bid"
  "getitem (reservation_entity env run_id task_id bid n) ''action_id'' = Inr (JStr run_id)"
  "getitem (reservation_entity env run_id task_id bid n) ''task_id'' = Inr (JStr task_id)"
  "str_item (reservation_entity env run_id task_id bid n) ''namespace_id'' = Inr BUDGET_NAMESPACE"
  "str_item (reservation_entity env run_id task_id bid n) ''kind'' = Inr ''Reservation''"
  "str_item (reservation_entity env run_id task_id bid n) ''id'' = Inr (reservation_id run_id)"
  "str_item (reservation_entity env run_id task_id bid n) ''action_id'' = Inr run_id"
  by (simp_all add: reservation_entity_def new_entity_def str_item_Cons)

lemma str_item_budget_id [simp]:
  "str_item (reservation_entity env run_id task_id (JStr b) n) ''budget_id'' = Inr b"
  by (simp add: str_item_def)

lemma budget_entity_fields [simp]:
  "str_item (budget_entity env task_id key n h) ''namespace_id'' = Inr BUDGET_NAMESPACE"
  "str_item (budget_entity env task_id key n h) ''kind'' = Inr ''Budget''"
  "str_item (budget_entity env task_id key n h) ''id'' = Inr (budget_id env task_id)"
  "getitem (budget_entity env task_id key n h) ''kind'' = Inr (JStr ''Budget'')"
  by (simp_all add: budget_entity_def new_entity_def str_item_Cons)

lemma amounts_token_entry:
  "0 \<le> n \<Longrightarrow> n \<le> MAX_INT \<Longrightarrow> amounts ''amount'' (JArr [token_entry ''amount'' n]) = Inr [(tokens_key, n)]"
  by (simp add: amounts_def amount_entry_def token_entry_def hashable_def METERS_def)

lemma amounts_token_entry_Inr:
  "amounts ''amount'' (JArr [token_entry ''amount'' n]) = Inr am \<Longrightarrow> am = [(tokens_key, n)] \<and> 0 \<le> n \<and> n \<le> MAX_INT"
  by (auto simp: amounts_def amount_entry_def token_entry_def hashable_def split: if_splits)

lemma getitem_dget_canon: "getitem e k = Inr v \<Longrightarrow> dget (canon_dict e) k = canon v"
  by (auto simp: getitem_def dget_def map_of_canon_dict split: option.splits)

lemma or_absent_Inr_iff [simp]: "or_absent r = Inr (Some x) \<longleftrightarrow> r = Inr x"
  by (cases r) (auto simp: or_absent_def split: exn.splits)

lemma or_absent_Inr [simp]: "or_absent (Inr x) = Inr (Some x)"
  by (simp add: or_absent_def)

lemma cs_put_Inr:
  assumes "cs_put e db = Inr (b, db')" "str_item e ''namespace_id'' = Inr ns" "str_item e ''kind'' = Inr kind"
    "str_item e ''id'' = Inr i"
  shows "b = canon_dict e" "kind \<noteq> ''Event''" "cs_put_raw e db = Inr db'"
    "db' = db\<lparr>ct_entities := AList.update (ns, kind, i) (canon_dict e) (ct_entities db)\<rparr>"
  using assms by (auto simp: cs_put_def cs_put_raw_def bind_res_Inr_iff str_item_def split: if_splits json.splits)

section \<open>Finding or making the budget\<close>

lemma find_or_make_found:
  assumes "find_or_make_budget env t settings key profile db = Inr (Some budget, db')"
  shows "cs_get ''Budget'' (budget_id env t) BUDGET_NAMESPACE db' = Inr budget"
    and "kind \<noteq> ''Budget'' \<Longrightarrow> cs_get kind i ns db' = cs_get kind i ns db"
    and "ct_reservations db' = ct_reservations db"
proof -
  have *: "db' = db \<and> cs_get ''Budget'' (budget_id env t) BUDGET_NAMESPACE db = Inr budget
    \<or> (\<exists>n. budget = canon_dict (budget_entity env t key n (be_policy_sha env settings))
         \<and> db' = db\<lparr>ct_entities := AList.update (BUDGET_NAMESPACE, ''Budget'', budget_id env t) budget (ct_entities db)\<rparr>)"
  proof -
    obtain found where f: "or_absent (cs_get ''Budget'' (budget_id env t) BUDGET_NAMESPACE db) = Inr found"
      using assms by (auto simp: find_or_make_budget_def bind_res_Inr_iff)
    show ?thesis
    proof (cases found)
      case (Some x)
      with assms f show ?thesis by (simp add: find_or_make_budget_def)
    next
      case None
      with assms f obtain n where n: "cs_put (budget_entity env t key n (be_policy_sha env settings)) db = Inr (budget, db')"
        by (auto simp: find_or_make_budget_def ensure_budget_def bind_res_Inr_iff split: json.splits if_splits)
      from cs_put_Inr(1,4) [OF n budget_entity_fields(1-3)] show ?thesis by auto
    qed
  qed
  then show "cs_get ''Budget'' (budget_id env t) BUDGET_NAMESPACE db' = Inr budget"
    by (auto simp: cs_get_def update_conv')
  from * show "kind \<noteq> ''Budget'' \<Longrightarrow> cs_get kind i ns db' = cs_get kind i ns db"
    by (auto simp: cs_get_def update_conv')
  from * show "ct_reservations db' = ct_reservations db" by auto
qed

lemma find_or_make_again:
  assumes "find_or_make_budget env t settings key profile db = Inr (Some budget, db')"
  shows "find_or_make_budget env t settings key profile db' = Inr (Some budget, db')"
  using find_or_make_found(1) [OF assms] by (simp add: find_or_make_budget_def)

lemma reserve_or_explain_Inr:
  "reserve_or_explain p bid limit n db = Inr x \<longleftrightarrow> cs_reserve p db = Inr x"
  by (auto simp: reserve_or_explain_def bind_res_Inr_iff split: sum.splits exn.splits if_splits json.splits)

lemma reserve_new_entity:
  assumes "cs_reserve (reservation_entity env run_id t (JStr b) n) db = Inr (res, db')"
  shows "db' = db \<or>
     res = canon_dict (reservation_entity env run_id t (JStr b) n) \<and> 0 \<le> n \<and> n \<le> MAX_INT
     \<and> db' = db\<lparr>ct_reservations := ct_reservations db
          @ [\<lparr>rr_ns = BUDGET_NAMESPACE, rr_id = reservation_id run_id, rr_budget = b, rr_action = run_id\<rparr>],
          ct_entities := AList.update (BUDGET_NAMESPACE, ''Reservation'', reservation_id run_id) res (ct_entities db)\<rparr>"
  using assms
  by (auto simp: cs_reserve_def bind_res_Inr_iff reserve_new_def cs_put_raw_def Let_def
      dest!: reserve_again_touches amounts_token_entry_Inr split: if_splits)

text \<open>The cases in which a dispatch is admitted with a reservation.\<close>

lemma guard_dispatch_cases:
  assumes "guard_dispatch env r db = Inr (Some res, db')"
  obtains (again) "db' = db" "cs_get ''Reservation'' (reservation_id (run_val (r_id r))) BUDGET_NAMESPACE db = Inr res"
      "\<not> bound_elsewhere env (run_val (r_id r)) (task_val (r_task_id r)) res"
    | (reserved) settings key profile budget db1 limit bid amount where
      "select_profile env r = Inr (Some (settings, key, profile))"
      "or_absent (cs_get ''Reservation'' (reservation_id (run_val (r_id r))) BUDGET_NAMESPACE db) = Inr None"
      "find_or_make_budget env (task_val (r_task_id r)) settings key profile db = Inr (Some budget, db1)"
      "first_limit budget = Inr limit" "str_item budget ''id'' = Inr bid"
      "admitted_amount profile bid limit db1 = Inr amount"
      "cs_reserve (reservation_entity env (run_val (r_id r)) (task_val (r_task_id r)) (JStr bid) amount) db1
         = Inr (res, db')"
proof -
  let ?rid = "run_val (r_id r)" and ?tid = "task_val (r_task_id r)"
  from assms obtain settings key profile where s: "select_profile env r = Inr (Some (settings, key, profile))"
    by (auto simp: guard_dispatch_def bind_res_Inr_iff split: option.splits)
  from assms obtain existing where
    e: "or_absent (cs_get ''Reservation'' (reservation_id ?rid) BUDGET_NAMESPACE db) = Inr existing"
    by (auto simp: guard_dispatch_def s Let_def bind_res_Inr_iff)
  show thesis
  proof (cases existing)
    case (Some x)
    with assms e show ?thesis
      by (intro again) (auto simp: guard_dispatch_def s Let_def split: if_splits)
  next
    case None
    with assms e obtain budget db1 limit bid amount where
      "find_or_make_budget env ?tid settings key profile db = Inr (Some budget, db1)"
      "first_limit budget = Inr limit" "str_item budget ''id'' = Inr bid"
      "admitted_amount profile bid limit db1 = Inr amount"
      "cs_reserve (reservation_entity env ?rid ?tid (JStr bid) amount) db1 = Inr (res, db')"
      by (auto simp: guard_dispatch_def s Let_def bind_res_Inr_iff reserve_or_explain_Inr split: option.splits)
    with s e None show ?thesis by (intro reserved) simp_all
  qed
qed

section \<open>The invariant of the ledger\<close>

text \<open>The amount of a list that holds tokens of no billing pool and nothing else.\<close>

definition single_tokens :: "json \<Rightarrow> int option" where
  "single_tokens v =
     (case amounts ''amount'' v of
        Inr [(key, n)] \<Rightarrow> if key = tokens_key then Some n else None
      | _ \<Rightarrow> None)"

definition token_reservation :: "dict \<Rightarrow> bool" where
  "token_reservation p \<longleftrightarrow>
     (dget p ''status'' = JStr ''HELD'' \<or> dget p ''status'' = JStr ''UNCERTAIN'')
       \<and> single_tokens (dget p ''reserved'') \<noteq> None
     \<or> dget p ''status'' = JStr ''SETTLED'' \<and> single_tokens (dget p ''actual'') \<noteq> None"

definition keyed :: "string \<Rightarrow> string \<Rightarrow> dict \<Rightarrow> bool" where
  "keyed kind i p \<longleftrightarrow>
     str_item p ''namespace_id'' = Inr BUDGET_NAMESPACE \<and> str_item p ''kind'' = Inr kind \<and> str_item p ''id'' = Inr i"

definition ledger_ok :: "control_db \<Rightarrow> bool" where
  "ledger_ok db \<longleftrightarrow>
     (\<forall>kind i p. map_of (ct_entities db) (BUDGET_NAMESPACE, kind, i) = Some p \<longrightarrow> keyed kind i p)
     \<and> (\<forall>row \<in> set (ct_reservations db). rr_ns row = BUDGET_NAMESPACE \<longrightarrow>
          (\<exists>p. map_of (ct_entities db) (BUDGET_NAMESPACE, ''Reservation'', rr_id row) = Some p \<and> token_reservation p))"

lemma single_tokens_Some:
  "single_tokens v = Some n \<longleftrightarrow> amounts ''amount'' v = Inr [(tokens_key, n)]"
  by (auto simp: single_tokens_def split: sum.splits list.splits if_splits)

lemma single_tokens_canon: "single_tokens v = Some n \<Longrightarrow> single_tokens (canon v) = Some n"
  by (simp add: single_tokens_Some amounts_canon)

lemma ledger_okE:
  assumes "ledger_ok db" "row \<in> set (ct_reservations db)" "rr_ns row = BUDGET_NAMESPACE"
  obtains p where "map_of (ct_entities db) (BUDGET_NAMESPACE, ''Reservation'', rr_id row) = Some p"
    "token_reservation p"
  using assms by (auto simp: ledger_ok_def)

lemma ledger_ok_keyed:
  "ledger_ok db \<Longrightarrow> map_of (ct_entities db) (BUDGET_NAMESPACE, kind, i) = Some p \<Longrightarrow> keyed kind i p"
  by (simp add: ledger_ok_def)

text \<open>Storing an entity under its own key, and a row with its entity, keep the invariant.\<close>

lemma ledger_ok_store:
  assumes "ledger_ok db" "keyed kind i p" "kind = ''Reservation'' \<longrightarrow> token_reservation p"
  shows "ledger_ok (db\<lparr>ct_entities := AList.update (BUDGET_NAMESPACE, kind, i) p (ct_entities db)\<rparr>)"
  using assms by (auto simp: ledger_ok_def update_conv')

lemma ledger_ok_row:
  assumes "ledger_ok db" "map_of (ct_entities db) (BUDGET_NAMESPACE, ''Reservation'', rr_id row) = Some p"
    "token_reservation p"
  shows "ledger_ok (db\<lparr>ct_reservations := ct_reservations db @ [row]\<rparr>)"
  using assms by (auto simp: ledger_ok_def)

lemma find_or_make_ok:
  assumes "find_or_make_budget env t settings key profile db = Inr (found, db')" "ledger_ok db"
  shows "ledger_ok db'"
proof (cases "db' = db")
  case False
  with assms(1) obtain n budget where n: "cs_put (budget_entity env t key n (be_policy_sha env settings)) db = Inr (budget, db')"
    by (auto simp: find_or_make_budget_def ensure_budget_def bind_res_Inr_iff split: option.splits json.splits if_splits)
  from cs_put_Inr(1,4) [OF n budget_entity_fields(1-3)] show ?thesis
    by (auto intro!: ledger_ok_store [OF assms(2)] simp: keyed_def)
qed (use assms in simp)

lemma reservation_entity_ok:
  assumes "0 \<le> n" "n \<le> MAX_INT"
  shows "token_reservation (canon_dict (reservation_entity env run_id t b n))"
    and "keyed ''Reservation'' (reservation_id run_id) (canon_dict (reservation_entity env run_id t b n))"
  using getitem_dget_canon [OF reservation_entity_fields(1)] getitem_dget_canon [OF reservation_entity_fields(3)]
    single_tokens_canon [of "JArr [token_entry ''amount'' n]" n] amounts_token_entry [OF assms]
  by (simp_all add: token_reservation_def keyed_def single_tokens_Some)

lemma guard_None: "guard_dispatch env r db = Inr (None, db') \<Longrightarrow> db' = db"
proof -
  have f: "db1 = db" if "find_or_make_budget env t settings key profile db = Inr (None, db1)" for t settings key profile db1
    using that by (auto simp: find_or_make_budget_def bind_res_Inr_iff split: option.splits json.splits if_splits)
  show "guard_dispatch env r db = Inr (None, db') \<Longrightarrow> db' = db"
    by (auto simp: guard_dispatch_def bind_res_Inr_iff Let_def split: option.splits if_splits prod.splits dest: f)
qed

lemma guard_dispatch_ok:
  assumes "guard_dispatch env r db = Inr (found, db')" "ledger_ok db"
  shows "ledger_ok db'"
proof (cases found)
  case None
  with assms guard_None show ?thesis by auto
next
  case (Some res)
  with assms(1) have "guard_dispatch env r db = Inr (Some res, db')" by simp
  then show ?thesis
  proof (cases rule: guard_dispatch_cases)
    case again
    with assms(2) show ?thesis by simp
  next
    case (reserved settings key profile budget db1 limit bid amount)
    let ?row = "\<lparr>rr_ns = BUDGET_NAMESPACE, rr_id = reservation_id (run_val (r_id r)), rr_budget = bid,
      rr_action = run_val (r_id r)\<rparr>"
    have db1: "ledger_ok db1" using find_or_make_ok [OF reserved(3) assms(2)] .
    from reserve_new_entity [OF reserved(7)] show ?thesis
    proof
      assume new: "res = canon_dict (reservation_entity env (run_val (r_id r)) (task_val (r_task_id r)) (JStr bid) amount)
        \<and> 0 \<le> amount \<and> amount \<le> MAX_INT \<and> db' = db1\<lparr>ct_reservations := ct_reservations db1 @ [?row],
          ct_entities := AList.update (BUDGET_NAMESPACE, ''Reservation'', reservation_id (run_val (r_id r))) res (ct_entities db1)\<rparr>"
      then have res: "token_reservation res" "keyed ''Reservation'' (reservation_id (run_val (r_id r))) res"
        using reservation_entity_ok by auto
      let ?db = "db1\<lparr>ct_entities := AList.update (BUDGET_NAMESPACE, ''Reservation'',
        reservation_id (run_val (r_id r))) res (ct_entities db1)\<rparr>"
      have "ledger_ok ?db" using ledger_ok_store [OF db1 res(2)] res(1) by simp
      then have "ledger_ok (?db\<lparr>ct_reservations := ct_reservations ?db @ [?row]\<rparr>)"
        by (rule ledger_ok_row [where p = res]) (use res in \<open>simp_all add: update_conv'\<close>)
      moreover from new have "db' = ?db\<lparr>ct_reservations := ct_reservations ?db @ [?row]\<rparr>" by simp
      ultimately show ?thesis by (simp only:)
    qed (use db1 in simp)
  qed
qed

text \<open>What a reservation that is settled or marked becomes.\<close>

lemma settle_held_cases:
  assumes "settle_held env r db = Inr db'" "ledger_ok db"
  obtains (same) "db' = db"
    | (changed) p q where "cs_get ''Reservation'' (reservation_id (run_val (r_id r))) BUDGET_NAMESPACE db = Inr p"
      "dget p ''status'' = JStr ''HELD''" "keyed ''Reservation'' (reservation_id (run_val (r_id r))) q" "token_reservation q"
      "db' = db\<lparr>ct_entities := AList.update (BUDGET_NAMESPACE, ''Reservation'', reservation_id (run_val (r_id r))) q (ct_entities db)\<rparr>"
      "dget q ''status'' = JStr ''SETTLED'' \<and> (\<exists>n. run_processed (r_native r) = Inr (Some n)
           \<and> single_tokens (dget q ''actual'') = Some n)
       \<or> dget q ''status'' = JStr ''UNCERTAIN'' \<and> run_processed (r_native r) = Inr None
           \<and> dget q ''reserved'' = canon (dget p ''reserved'')"
proof -
  let ?i = "reservation_id (run_val (r_id r))"
  show thesis
  proof (cases "db' = db")
    case True
    then show ?thesis by (rule same)
  next
    case False
    from assms(1) False obtain p where p: "cs_get ''Reservation'' ?i BUDGET_NAMESPACE db = Inr p"
      and held: "dget p ''status'' = JStr ''HELD''"
      and row: "\<exists>row \<in> set (ct_reservations db). rr_ns row = BUDGET_NAMESPACE \<and> rr_id row = ?i"
      by (auto simp: settle_held_def Let_def bind_res_Inr_iff list_ex_iff split: if_splits option.splits)
    from p have m: "map_of (ct_entities db) (BUDGET_NAMESPACE, ''Reservation'', ?i) = Some p"
      by (auto simp: cs_get_def split: option.splits)
    have key: "keyed ''Reservation'' ?i p" by (rule ledger_ok_keyed [OF assms(2) m])
    from row m have tok: "token_reservation p"
      by (auto elim!: ledger_okE [OF assms(2)])
    have st: "getitem p ''status'' = Inr (JStr ''HELD'')"
      using held by (auto simp: dget_def getitem_def split: option.splits)
    have dd: "dget (canon_dict (dset d k v)) k = canon v" "k' \<noteq> k \<Longrightarrow> dget (canon_dict (dset d k v)) k' = canon (dget d k')"
      for d k k' v by simp_all
    from assms(1) obtain processed where proc: "run_processed (r_native r) = Inr processed"
      using p held False
      by (auto simp: settle_held_def Let_def bind_res_Inr_iff split: if_splits)
    show ?thesis
    proof (cases processed)
      case (Some n)
      with assms(1) False p held proc obtain x where
        settle: "cs_settle (be_clock env) BUDGET_NAMESPACE ?i [token_entry ''amount'' n] [] db = Inr (x, db')"
        by (auto simp: settle_held_def Let_def bind_res_Inr_iff split: if_splits)
      then obtain am where am: "amounts ''amount'' (JArr [token_entry ''amount'' n]) = Inr am"
        by (auto simp: cs_settle_def bind_res_Inr_iff)
      then have n: "single_tokens (JArr [token_entry ''amount'' n]) = Some n"
        using amounts_token_entry_Inr by (auto simp: single_tokens_Some)
      from settle am p st obtain rev where put: "cs_put_raw (dupdate p
          [(''status'', JStr ''SETTLED''), (''actual'', JArr [token_entry ''amount'' n]),
           (''receipt_evidence_ids'', JArr []), (''revision'', JInt rev), (''updated_at'', JStr (be_clock env))]) db = Inr db'"
        by (auto simp: cs_settle_def bind_res_Inr_iff Let_def split: if_splits)
      let ?q = "canon_dict (dupdate p
          [(''status'', JStr ''SETTLED''), (''actual'', JArr [token_entry ''amount'' n]),
           (''receipt_evidence_ids'', JArr []), (''revision'', JInt rev), (''updated_at'', JStr (be_clock env))])"
      have k: "keyed ''Reservation'' ?i ?q"
        using key by (simp add: keyed_def str_item_dset)
      have "db' = db\<lparr>ct_entities := AList.update (BUDGET_NAMESPACE, ''Reservation'', ?i) ?q (ct_entities db)\<rparr>"
        using put key by (simp add: cs_put_raw_def keyed_def str_item_dset)
      moreover have s: "dget ?q ''status'' = JStr ''SETTLED''" "single_tokens (dget ?q ''actual'') = Some n"
        using single_tokens_canon [OF n] by simp_all
      then have "token_reservation ?q" by (simp add: token_reservation_def)
      ultimately show ?thesis using k s proc Some p held by (intro changed) auto
    next
      case None
      with assms(1) False p held proc obtain x where
        mark: "cs_mark_uncertain (be_clock env) BUDGET_NAMESPACE ?i db = Inr (x, db')"
        by (auto simp: settle_held_def Let_def bind_res_Inr_iff split: if_splits)
      from mark p st obtain rev where put: "cs_put_raw (dupdate p
          [(''status'', JStr ''UNCERTAIN''), (''revision'', JInt rev), (''updated_at'', JStr (be_clock env))]) db = Inr db'"
        by (auto simp: cs_mark_uncertain_def bind_res_Inr_iff Let_def split: if_splits)
      let ?q = "canon_dict (dupdate p
          [(''status'', JStr ''UNCERTAIN''), (''revision'', JInt rev), (''updated_at'', JStr (be_clock env))])"
      have k: "keyed ''Reservation'' ?i ?q"
        using key by (simp add: keyed_def str_item_dset)
      have d: "db' = db\<lparr>ct_entities := AList.update (BUDGET_NAMESPACE, ''Reservation'', ?i) ?q (ct_entities db)\<rparr>"
        using put key by (simp add: cs_put_raw_def keyed_def str_item_dset)
      have s: "dget ?q ''status'' = JStr ''UNCERTAIN''" "dget ?q ''reserved'' = canon (dget p ''reserved'')"
        by simp_all
      moreover have "token_reservation ?q"
        using tok held s single_tokens_canon by (auto simp: token_reservation_def)
      ultimately show ?thesis using k d proc None p held by (intro changed) auto
    qed
  qed
qed

lemma settle_run_ok: "ledger_ok db \<Longrightarrow> ledger_ok (settle_run env r db)"
proof -
  assume ok: "ledger_ok db"
  show ?thesis
  proof (cases "settle_held env r db")
    case (Inr db')
    from this ok have "ledger_ok db'"
      by (cases rule: settle_held_cases) (auto intro: ledger_ok_store ok)
    with ok Inr show ?thesis by (simp add: settle_run_def)
  qed (simp add: settle_run_def ok)
qed

section \<open>Histories\<close>

text \<open>
  Everything that may happen to the store: a dispatch is guarded, a run is settled, or another component changes
  records outside the namespace of the budgets. Clock and settings may differ from step to step, the digest not.
\<close>

definition same_ledger :: "control_db \<Rightarrow> control_db \<Rightarrow> bool" where
  "same_ledger db db' \<longleftrightarrow>
     (\<forall>kind i. map_of (ct_entities db') (BUDGET_NAMESPACE, kind, i) = map_of (ct_entities db) (BUDGET_NAMESPACE, kind, i))
     \<and> filter (\<lambda>row. rr_ns row = BUDGET_NAMESPACE) (ct_reservations db')
       = filter (\<lambda>row. rr_ns row = BUDGET_NAMESPACE) (ct_reservations db)"

inductive ledger_history :: "(string \<Rightarrow> string) \<Rightarrow> control_db \<Rightarrow> bool" for H where
  empty: "ledger_history H new_control_db"
| guarded: "ledger_history H db \<Longrightarrow> be_sha env = H \<Longrightarrow> guard_dispatch env r db = Inr (found, db') \<Longrightarrow> ledger_history H db'"
| settled: "ledger_history H db \<Longrightarrow> be_sha env = H \<Longrightarrow> ledger_history H (settle_run env r db)"
| outside: "ledger_history H db \<Longrightarrow> same_ledger db db' \<Longrightarrow> ledger_history H db'"

lemma same_ledger_ok: "same_ledger db db' \<Longrightarrow> ledger_ok db \<Longrightarrow> ledger_ok db'"
proof -
  assume s: "same_ledger db db'" and ok: "ledger_ok db"
  have "row \<in> set (ct_reservations db)" if "row \<in> set (ct_reservations db')" "rr_ns row = BUDGET_NAMESPACE" for row
  proof -
    have "row \<in> set (filter (\<lambda>row. rr_ns row = BUDGET_NAMESPACE) (ct_reservations db'))" using that by simp
    with s have "row \<in> set (filter (\<lambda>row. rr_ns row = BUDGET_NAMESPACE) (ct_reservations db))"
      by (simp only: same_ledger_def)
    then show ?thesis by simp
  qed
  with s ok show ?thesis by (auto simp: ledger_ok_def same_ledger_def)
qed

lemma ledger_ok_new: "ledger_ok new_control_db"
  by (simp add: ledger_ok_def new_control_db_def)

lemma ledger_history_ok: "ledger_history H db \<Longrightarrow> ledger_ok db"
  by (induction rule: ledger_history.induct)
    (auto intro: ledger_ok_new guard_dispatch_ok settle_run_ok same_ledger_ok)

section \<open>The view agrees with the ledger\<close>

lemma amount_of_single:
  assumes "single_tokens v = Some n"
  shows "token_amount v = n"
proof -
  have len: "amounts_loop f vs acc = Inr es \<Longrightarrow> length es = length acc + length vs" for f vs acc es
    by (induction vs arbitrary: acc) (auto simp: bind_res_Inr_iff)
  from assms obtain vs where v: "v = JArr vs" and l: "amounts_loop ''amount'' vs [] = Inr [(tokens_key, n)]"
    by (cases v) (auto simp: single_tokens_Some amounts_def)
  from len [OF l] obtain x where "vs = [x]" by (cases vs) auto
  with l have "amount_entry ''amount'' x [] = Inr (tokens_key, n)" by (auto simp: bind_res_Inr_iff)
  then obtain d where "x = JObj d" "getitem d ''meter'' = Inr (JStr ''tokens'')" "getitem d ''amount'' = Inr (JInt n)"
    by (auto simp: amount_entry_def bind_res_Inr_iff split: json.splits option.splits if_splits)
  with \<open>vs = [x]\<close> v show ?thesis
    by (auto simp: token_amount_def getitem_def dget_def split: option.splits)
qed

lemma add_token_reservation:
  assumes "token_reservation p"
  shows "\<exists>b n. add_reservation p ts = Inr (bump b (tokens_key, n) ts)
    \<and> (b \<longrightarrow> view_settled p = n \<and> view_held p = 0) \<and> (\<not> b \<longrightarrow> view_settled p = 0 \<and> view_held p = n)"
proof -
  have g: "getitem p k = Inr (dget p k)" if "dget p k \<noteq> JNull" for k
    using that not_dhas_dget getitem_dget by blast
  have null: "single_tokens JNull = None" by (simp add: single_tokens_def amounts_def)
  from assms consider (held) n where "dget p ''status'' = JStr ''HELD'' \<or> dget p ''status'' = JStr ''UNCERTAIN''"
      "single_tokens (dget p ''reserved'') = Some n"
    | (settled) n where "dget p ''status'' = JStr ''SETTLED''" "single_tokens (dget p ''actual'') = Some n"
    by (auto simp: token_reservation_def)
  then show ?thesis
  proof cases
    case held
    then have "getitem p ''status'' = Inr (dget p ''status'')" "getitem p ''reserved'' = Inr (dget p ''reserved'')"
      using null by (intro g; force)+
    with held have "add_reservation p ts = Inr (bump False (tokens_key, n) ts)"
      by (auto simp: add_reservation_def single_tokens_Some)
    with held amount_of_single [OF held(2)] show ?thesis
      by (intro exI [of _ False] exI [of _ n]) (auto simp: view_settled_def view_held_def)
  next
    case settled
    then have "getitem p ''status'' = Inr (dget p ''status'')" "getitem p ''actual'' = Inr (dget p ''actual'')"
      using null by (intro g; force)+
    with settled have "add_reservation p ts = Inr (bump True (tokens_key, n) ts)"
      by (simp add: add_reservation_def single_tokens_Some)
    with settled amount_of_single [OF settled(2)] show ?thesis
      by (intro exI [of _ True] exI [of _ n]) (auto simp: view_settled_def view_held_def)
  qed
qed

definition payload_of :: "control_db \<Rightarrow> reservation_row \<Rightarrow> dict" where
  "payload_of db row =
     (case map_of (ct_entities db) (BUDGET_NAMESPACE, ''Reservation'', rr_id row) of Some p \<Rightarrow> p | None \<Rightarrow> [])"

lemma totals_of_rows:
  assumes "\<forall>row \<in> set rows. \<exists>p. map_of (ct_entities db) (BUDGET_NAMESPACE, ''Reservation'', rr_id row) = Some p
      \<and> token_reservation p"
    and "ts = [(tokens_key, (s, h))] \<or> ts = [] \<and> s = 0 \<and> h = 0"
  shows "\<exists>us. totals_loop db BUDGET_NAMESPACE rows ts = Inr us
    \<and> (us = [(tokens_key, (s + sum_list (map (view_settled \<circ> payload_of db) rows),
                            h + sum_list (map (view_held \<circ> payload_of db) rows)))]
       \<or> us = [] \<and> rows = [] \<and> s = 0 \<and> h = 0)"
  using assms
proof (induction rows arbitrary: ts s h)
  case Nil
  then show ?case by auto
next
  case (Cons row rows)
  from Cons.prems(1) obtain p where p: "map_of (ct_entities db) (BUDGET_NAMESPACE, ''Reservation'', rr_id row) = Some p"
      "token_reservation p" by auto
  from add_token_reservation [OF p(2), of ts] obtain b n where
    bn: "add_reservation p ts = Inr (bump b (tokens_key, n) ts)"
      "b \<longrightarrow> view_settled p = n \<and> view_held p = 0" "\<not> b \<longrightarrow> view_settled p = 0 \<and> view_held p = n" by blast
  have "bump b (tokens_key, n) ts = [(tokens_key, (s + view_settled p, h + view_held p))]"
    using Cons.prems(2) bn(2,3) by (cases b) (auto simp: bump_def total_at_def)
  moreover from p have "cs_get ''Reservation'' (rr_id row) BUDGET_NAMESPACE db = Inr p" "payload_of db row = p"
    by (simp_all add: cs_get_def payload_of_def)
  ultimately show ?case
    using Cons.IH [of "[(tokens_key, (s + view_settled p, h + view_held p))]" "s + view_settled p" "h + view_held p"]
      Cons.prems(1) bn(1)
    by (auto simp: algebra_simps)
qed

lemma joined_all:
  assumes "ledger_ok db"
  shows "joined_reservations bid db = map (payload_of db)
    (filter (\<lambda>row. rr_ns row = BUDGET_NAMESPACE \<and> rr_budget row = bid) (ct_reservations db))"
proof -
  let ?rows = "filter (\<lambda>row. rr_ns row = BUDGET_NAMESPACE \<and> rr_budget row = bid) (ct_reservations db)"
  have all: "List.map_filter f rows = map g rows" if "\<forall>r \<in> set rows. f r = Some (g r)" for f g and rows :: "reservation_row list"
    using that by (induction rows) (auto simp: List.map_filter_simps)
  have "\<forall>row \<in> set ?rows. map_of (ct_entities db) (rr_ns row, ''Reservation'', rr_id row) = Some (payload_of db row)"
  proof
    fix row assume "row \<in> set ?rows"
    then have row: "row \<in> set (ct_reservations db)" "rr_ns row = BUDGET_NAMESPACE" by simp_all
    from ledger_okE [OF assms row] obtain p where
      "map_of (ct_entities db) (BUDGET_NAMESPACE, ''Reservation'', rr_id row) = Some p" by metis
    with row(2) show "map_of (ct_entities db) (rr_ns row, ''Reservation'', rr_id row) = Some (payload_of db row)"
      by (simp add: payload_of_def)
  qed
  from all [OF this] show ?thesis by (simp only: joined_reservations_def)
qed

lemma ledger_totals:
  assumes "ledger_ok db"
  shows "token_totals bid db =
    Inr (sum_list (map view_settled (joined_reservations bid db)), sum_list (map view_held (joined_reservations bid db)))"
proof -
  let ?rows = "filter (\<lambda>row. rr_ns row = BUDGET_NAMESPACE \<and> rr_budget row = bid) (ct_reservations db)"
  have "\<forall>row \<in> set ?rows. \<exists>p. map_of (ct_entities db) (BUDGET_NAMESPACE, ''Reservation'', rr_id row) = Some p
      \<and> token_reservation p"
    using assms by (auto simp: ledger_ok_def)
  from totals_of_rows [OF this, of "[]" 0 0] show ?thesis
    by (auto simp: token_totals_def cs_budget_totals_def joined_all [OF assms])
qed

lemma totals_at_tokens:
  assumes "ledger_ok db" "cs_budget_totals BUDGET_NAMESPACE bid db = Inr ts"
  shows "token_totals bid db = Inr (total_at ts tokens_key)"
proof -
  let ?rows = "filter (\<lambda>row. rr_ns row = BUDGET_NAMESPACE \<and> rr_budget row = bid) (ct_reservations db)"
  have "\<forall>row \<in> set ?rows. \<exists>p. map_of (ct_entities db) (BUDGET_NAMESPACE, ''Reservation'', rr_id row) = Some p
      \<and> token_reservation p"
    using assms(1) by (auto simp: ledger_ok_def)
  from totals_of_rows [OF this, of "[]" 0 0] assms(2) show ?thesis
    by (auto simp: token_totals_def cs_budget_totals_def total_at_def)
qed

lemma joined_cong:
  assumes "\<And>i. map_of (ct_entities db') (BUDGET_NAMESPACE, ''Reservation'', i) = map_of (ct_entities db) (BUDGET_NAMESPACE, ''Reservation'', i)"
    and "ct_reservations db' = ct_reservations db" "ledger_ok db" "ledger_ok db'"
  shows "joined_reservations bid db' = joined_reservations bid db"
  using assms by (simp add: joined_all payload_of_def [abs_def])

lemma find_or_make_joined:
  assumes "find_or_make_budget env t settings key profile db = Inr (Some budget, db')" "ledger_ok db"
  shows "joined_reservations bid db' = joined_reservations bid db"
proof (rule joined_cong)
  fix i
  have "cs_get ''Reservation'' i BUDGET_NAMESPACE db' = cs_get ''Reservation'' i BUDGET_NAMESPACE db"
    by (rule find_or_make_found(2) [OF assms(1)]) simp
  then show "map_of (ct_entities db') (BUDGET_NAMESPACE, ''Reservation'', i)
      = map_of (ct_entities db) (BUDGET_NAMESPACE, ''Reservation'', i)"
    by (simp add: cs_get_def split: option.splits)
qed (use assms find_or_make_ok find_or_make_found(3) in auto)

text \<open>The budget of a task is stored under the identifier it carries.\<close>

lemma budget_of_task:
  assumes "ledger_ok db1" "cs_get ''Budget'' i BUDGET_NAMESPACE db1 = Inr budget" "str_item budget ''id'' = Inr bid"
  shows "bid = i"
proof -
  from assms(2) have "map_of (ct_entities db1) (BUDGET_NAMESPACE, ''Budget'', i) = Some budget"
    by (simp add: cs_get_def split: option.splits)
  with assms(1,3) show ?thesis by (auto simp: keyed_def dest: ledger_ok_keyed)
qed

section \<open>An example\<close>

definition example_ledger_env :: budget_env where
  "example_ledger_env =
    \<lparr>be_schema_version = 2,
     be_context_budget = JObj [(''mode'', JStr ''enforce''),
       (''profiles'', JObj [(''fake/implementation'', JObj [(''task_hard'', JInt 100), (''segment_soft'', JInt 60)])])],
     be_kind = (\<lambda>_. None), be_sha = (\<lambda>s. s), be_policy_sha = (\<lambda>_. ''p''), be_clock = ''now''\<rparr>"

definition example_ledger_run :: run where
  "example_ledger_run =
    \<lparr>r_id = RunId ''r1'', r_task_id = TaskId ''t1'', r_backend = BackendId ''fake'', r_status = Rs_SUCCEEDED,
     r_created_at = ''now'', r_cancel_requested = False, r_terminated = True, r_error_code = JNull, r_summary = [],
     r_native = [], r_role = [], r_prompt = [], r_conversation_id = None, r_target_hash = [],
     r_approval_attempts = [], r_output = JNull, r_plugin_reason = None\<rparr>"

definition example_guarded :: "(dict option \<times> control_db) res" where
  "example_guarded = guard_dispatch example_ledger_env example_ledger_run new_control_db"

lemma example_guard:
  obtains res db where "guard_dispatch example_ledger_env example_ledger_run new_control_db = Inr (Some res, db)"
    "ct_reservations db \<noteq> ct_reservations new_control_db"
    "cs_get ''Reservation'' (reservation_id ''r1'') BUDGET_NAMESPACE db = Inr res"
    "dget res ''status'' = JStr ''HELD''" "budget_view example_ledger_env ''t1'' db \<noteq> None"
proof -
  have *: "case example_guarded of
      Inr (Some res, db) \<Rightarrow> ct_reservations db \<noteq> []
        \<and> cs_get ''Reservation'' (reservation_id ''r1'') BUDGET_NAMESPACE db = Inr res
        \<and> dget res ''status'' = JStr ''HELD''
        \<and> (case budget_view example_ledger_env ''t1'' db of None \<Rightarrow> False | Some _ \<Rightarrow> True)
    | _ \<Rightarrow> False"
    by code_simp
  show thesis
  proof (cases example_guarded)
    case (Inr p)
    obtain found db where p: "p = (found, db)" by (cases p)
    show ?thesis
    proof (cases found)
      case (Some res)
      have "guard_dispatch example_ledger_env example_ledger_run new_control_db = Inr (Some res, db)"
        using Inr p Some by (simp only: example_guarded_def)
      moreover have "ct_reservations new_control_db = []" by (simp add: new_control_db_def)
      ultimately show ?thesis using *
        by (intro that [of res db]) (auto simp: Inr p Some split: option.splits)
    next
      case None
      with * show ?thesis unfolding Inr p by simp
    qed
  next
    case (Inl e)
    from * show ?thesis unfolding Inl by simp
  qed
qed

lemma example_history: "ledger_history (be_sha example_ledger_env) new_control_db"
  by (rule ledger_history.empty)

section \<open>Properties\<close>

text \<open>
  C37. Guarding a dispatch again changes nothing: after a run has been admitted with a reservation, the guard
  returns the same reservation and leaves the store as it is.
\<close>

theorem guard_is_idempotent:
  assumes "ledger_history (be_sha env) db" "guard_dispatch env r db = Inr (Some res, db')"
  shows "guard_dispatch env r db' = Inr (Some res, db')"
  using assms(2)
proof (cases rule: guard_dispatch_cases)
  case again
  with assms(2) show ?thesis by simp
next
  case (reserved settings key profile budget db1 limit bid amount)
  let ?rid = "run_val (r_id r)" and ?tid = "task_val (r_task_id r)"
  have ok: "ledger_ok db1" by (rule find_or_make_ok [OF reserved(3) ledger_history_ok [OF assms(1)]])
  have bid: "bid = budget_id env ?tid"
    by (rule budget_of_task [OF ok find_or_make_found(1) [OF reserved(3)] reserved(5)])
  from reserve_new_entity [OF reserved(7)] show ?thesis
  proof
    assume same: "db' = db1"
    have "cs_get ''Reservation'' (reservation_id ?rid) BUDGET_NAMESPACE db1
        = cs_get ''Reservation'' (reservation_id ?rid) BUDGET_NAMESPACE db"
      by (rule find_or_make_found(2) [OF reserved(3)]) simp
    with reserved(1,2,4-7) find_or_make_again [OF reserved(3)] same show ?thesis
      by (simp add: guard_dispatch_def Let_def reserve_or_explain_Inr [THEN iffD2, OF reserved(7)])
  next
    assume new: "res = canon_dict (reservation_entity env ?rid ?tid (JStr bid) amount) \<and> 0 \<le> amount \<and> amount \<le> MAX_INT
      \<and> db' = db1\<lparr>ct_reservations := ct_reservations db1
          @ [\<lparr>rr_ns = BUDGET_NAMESPACE, rr_id = reservation_id ?rid, rr_budget = bid, rr_action = ?rid\<rparr>],
          ct_entities := AList.update (BUDGET_NAMESPACE, ''Reservation'', reservation_id ?rid) res (ct_entities db1)\<rparr>"
    then have "cs_get ''Reservation'' (reservation_id ?rid) BUDGET_NAMESPACE db' = Inr res"
      by (simp add: cs_get_def update_conv')
    moreover have "\<not> bound_elsewhere env ?rid ?tid res"
      using new getitem_dget_canon [OF reservation_entity_fields(4)] getitem_dget_canon [OF reservation_entity_fields(5)]
        getitem_dget_canon [OF reservation_entity_fields(6)]
      by (simp add: bound_elsewhere_def bid)
    ultimately show ?thesis using reserved(1) by (simp add: guard_dispatch_def Let_def)
  qed
qed

theorem guard_is_idempotent_witness:
  "\<exists>res db. guard_dispatch example_ledger_env example_ledger_run new_control_db = Inr (Some res, db)
     \<and> guard_dispatch example_ledger_env example_ledger_run db = Inr (Some res, db)"
  using example_guard guard_is_idempotent [OF example_history] by metis


text \<open>
  C36. A dispatch that is admitted with a new reservation holds that many more tokens of its task's budget than
  before, in state HELD, and what is then settled and held together stays within the limit of the budget.
\<close>

theorem guard_admits_within_budget:
  assumes "ledger_history (be_sha env) db" "guard_dispatch env r db = Inr (Some res, db')"
    and "ct_reservations db' \<noteq> ct_reservations db"
  shows "\<exists>amount budget limits limit s h s' h'.
      dget res ''status'' = JStr ''HELD'' \<and> single_tokens (dget res ''reserved'') = Some amount \<and> 0 \<le> amount
    \<and> cs_get ''Budget'' (budget_id env (task_val (r_task_id r))) BUDGET_NAMESPACE db' = Inr budget
    \<and> bind_res (getitem budget ''limits'') (amounts ''limit'') = Inr limits \<and> map_of limits tokens_key = Some limit
    \<and> token_totals (budget_id env (task_val (r_task_id r))) db = Inr (s, h)
    \<and> token_totals (budget_id env (task_val (r_task_id r))) db' = Inr (s', h')
    \<and> s' + h' = s + h + amount \<and> s' + h' \<le> limit"
  using assms(2)
proof (cases rule: guard_dispatch_cases)
  case again
  with assms(3) show ?thesis by simp
next
  case (reserved settings key profile budget db1 limit0 bid amount)
  let ?rid = "run_val (r_id r)" and ?tid = "task_val (r_task_id r)"
  let ?e = "reservation_entity env ?rid ?tid (JStr bid) amount"
  have ok: "ledger_ok db" by (rule ledger_history_ok [OF assms(1)])
  have ok1: "ledger_ok db1" by (rule find_or_make_ok [OF reserved(3) ok])
  have bid: "bid = budget_id env ?tid"
    by (rule budget_of_task [OF ok1 find_or_make_found(1) [OF reserved(3)] reserved(5)])
  have new: "ct_reservations db' \<noteq> ct_reservations db1"
    using assms(3) find_or_make_found(3) [OF reserved(3)] by simp
  then have res: "res = canon_dict ?e" "0 \<le> amount" "amount \<le> MAX_INT"
    using reserve_new_entity [OF reserved(7)] by auto
  from admitted_reservation [OF reserved(7) new reservation_entity_fields(8) reservation_entity_fields(7) str_item_budget_id]
  obtain am bud limits before after where
    am: "bind_res (getitem ?e ''reserved'') (amounts ''amount'') = Inr am"
    and bud: "cs_get ''Budget'' bid BUDGET_NAMESPACE db1 = Inr bud"
    and lim: "bind_res (getitem bud ''limits'') (amounts ''limit'') = Inr limits"
    and tot: "cs_budget_totals BUDGET_NAMESPACE bid db1 = Inr before" "cs_budget_totals BUDGET_NAMESPACE bid db' = Inr after"
    and sum: "\<forall>key. spent after key = spent before key + amount_at am key"
    and within: "\<forall>e \<in> set am. \<exists>limit. map_of limits (fst e) = Some limit \<and> spent after (fst e) \<le> limit"
    by blast
  have am1: "am = [(tokens_key, amount)]" using am amounts_token_entry_Inr by auto
  then obtain limit where limit: "map_of limits tokens_key = Some limit" "spent after tokens_key \<le> limit"
    using within by auto
  have sp: "spent after tokens_key = spent before tokens_key + amount"
    using sum am1 by (simp add: amount_at_def)
  have ok': "ledger_ok db'" by (rule guard_dispatch_ok [OF assms(2) ok])
  have t0: "token_totals bid db = Inr (total_at before tokens_key)"
    using totals_at_tokens [OF ok1 tot(1)] ledger_totals [OF ok] ledger_totals [OF ok1]
      find_or_make_joined [OF reserved(3) ok] by simp
  have t1: "token_totals bid db' = Inr (total_at after tokens_key)" by (rule totals_at_tokens [OF ok' tot(2)])
  have bud': "cs_get ''Budget'' bid BUDGET_NAMESPACE db' = Inr bud"
    using bud reserve_new_entity [OF reserved(7)] by (auto simp: cs_get_def update_conv')
  have shown: "single_tokens (dget res ''reserved'') = Some amount" "dget res ''status'' = JStr ''HELD''"
    using getitem_dget_canon [OF reservation_entity_fields(1)] getitem_dget_canon [OF reservation_entity_fields(3)]
      single_tokens_canon [of "JArr [token_entry ''amount'' amount]" amount] amounts_token_entry [OF res(2,3)]
    by (simp_all add: res(1) single_tokens_Some)
  obtain s h where sh: "total_at before tokens_key = (s, h)" by (cases "total_at before tokens_key")
  obtain s' h' where sh': "total_at after tokens_key = (s', h')" by (cases "total_at after tokens_key")
  have "s' + h' = s + h + amount" "s' + h' \<le> limit" using sp limit(2) by (simp_all add: spent_def sh sh')
  note sums = this
  show ?thesis
    by (rule exI [of _ amount], rule exI [of _ bud], rule exI [of _ limits], rule exI [of _ limit],
        rule exI [of _ s], rule exI [of _ h], rule exI [of _ s'], rule exI [of _ h'])
      (use res(2) bud' lim limit(1) t0 t1 bid shown sums in \<open>simp add: sh sh'\<close>)
qed

theorem guard_admits_within_budget_witness:
  "\<exists>res db s h. guard_dispatch example_ledger_env example_ledger_run new_control_db = Inr (Some res, db)
     \<and> token_totals (budget_id example_ledger_env ''t1'') db = Inr (s, h)"
proof -
  obtain res db where g: "guard_dispatch example_ledger_env example_ledger_run new_control_db = Inr (Some res, db)"
    "ct_reservations db \<noteq> ct_reservations new_control_db" by (rule example_guard)
  from guard_admits_within_budget [OF example_history g] g(1) show ?thesis
    by (auto simp: example_ledger_run_def)
qed


text \<open>
  C39. The view of a task's budget and the ledger that admits dispatches agree: whatever happened before, what the
  view adds up as settled and held is what the store's totals report.
\<close>

theorem budget_view_agrees:
  assumes "ledger_history (be_sha env) db" "budget_view env task_id db = Some v"
  shows "token_totals (budget_id env task_id) db = Inr (lv_settled v, lv_held v)"
  using ledger_totals [OF ledger_history_ok [OF assms(1)], of "budget_id env task_id"] assms(2)
  by (auto simp: budget_view_def Let_def split: option.splits sum.splits bool.splits)

theorem budget_view_agrees_witness:
  "\<exists>db v. budget_view example_ledger_env ''t1'' db = Some v
     \<and> token_totals (budget_id example_ledger_env ''t1'') db = Inr (lv_settled v, lv_held v)"
proof -
  obtain res db where g: "guard_dispatch example_ledger_env example_ledger_run new_control_db = Inr (Some res, db)"
    and v: "budget_view example_ledger_env ''t1'' db \<noteq> None" by (rule example_guard)
  have "ledger_history (be_sha example_ledger_env) db"
    by (rule ledger_history.guarded [OF example_history refl g])
  with v budget_view_agrees show ?thesis by blast
qed


text \<open>
  C38. Settling is exact and final: the end of a run only ever turns its own HELD reservation into SETTLED with the
  tokens the run processed, or into UNCERTAIN where they are not known, and a reservation that is not held any
  more is not changed by any later settlement or dispatch.
\<close>

theorem settlement_is_final:
  assumes "ledger_history (be_sha env) db" "cs_get ''Reservation'' i BUDGET_NAMESPACE db = Inr p"
  shows "(dget p ''status'' \<noteq> JStr ''HELD'' \<longrightarrow>
        cs_get ''Reservation'' i BUDGET_NAMESPACE (settle_run env r db) = Inr p
        \<and> (\<forall>found db'. guard_dispatch env r db = Inr (found, db') \<longrightarrow> cs_get ''Reservation'' i BUDGET_NAMESPACE db' = Inr p))
    \<and> (\<exists>q. cs_get ''Reservation'' i BUDGET_NAMESPACE (settle_run env r db) = Inr q
        \<and> (q = p \<or> terminal (r_status r) \<and> i = reservation_id (run_val (r_id r)) \<and> dget p ''status'' = JStr ''HELD''
             \<and> (dget q ''status'' = JStr ''SETTLED'' \<and> (\<exists>n. run_processed (r_native r) = Inr (Some n)
                    \<and> single_tokens (dget q ''actual'') = Some n)
                \<or> dget q ''status'' = JStr ''UNCERTAIN'' \<and> run_processed (r_native r) = Inr None)))"
proof -
  have ok: "ledger_ok db" by (rule ledger_history_ok [OF assms(1)])
  have settle: "\<exists>q. cs_get ''Reservation'' i BUDGET_NAMESPACE (settle_run env r db) = Inr q
        \<and> (q = p \<or> terminal (r_status r) \<and> i = reservation_id (run_val (r_id r)) \<and> dget p ''status'' = JStr ''HELD''
             \<and> (dget q ''status'' = JStr ''SETTLED'' \<and> (\<exists>n. run_processed (r_native r) = Inr (Some n)
                    \<and> single_tokens (dget q ''actual'') = Some n)
                \<or> dget q ''status'' = JStr ''UNCERTAIN'' \<and> run_processed (r_native r) = Inr None))"
  proof (cases "terminal (r_status r)")
    case fin: True
    show ?thesis
    proof (cases "settle_held env r db")
      case (Inl e)
      with assms(2) show ?thesis by (simp add: settle_run_def)
    next
      case (Inr db')
      with fin have d: "settle_run env r db = db'" by (simp add: settle_run_def)
      from Inr ok show ?thesis
      proof (cases rule: settle_held_cases)
        case same
        with assms(2) d show ?thesis by simp
      next
        case (changed p' q)
        show ?thesis
        proof (cases "i = reservation_id (run_val (r_id r))")
          case True
          with changed(1) assms(2) have "p' = p" by simp
          moreover have "cs_get ''Reservation'' i BUDGET_NAMESPACE db' = Inr q"
            using True by (simp add: changed(5) cs_get_def update_conv')
          ultimately show ?thesis using changed(2,6) fin True d by (intro exI [of _ q]) auto
        next
          case False
          with assms(2) have "cs_get ''Reservation'' i BUDGET_NAMESPACE db' = Inr p"
            by (simp add: changed(5) cs_get_def update_conv')
          with d show ?thesis by simp
        qed
      qed
    qed
  next
    case False
    with assms(2) show ?thesis by (simp add: settle_run_def)
  qed
  moreover have "cs_get ''Reservation'' i BUDGET_NAMESPACE db' = Inr p"
    if g: "guard_dispatch env r db = Inr (found, db')" for found db'
  proof (cases found)
    case None
    with g guard_None assms(2) show ?thesis by auto
  next
    case (Some res)
    with g have "guard_dispatch env r db = Inr (Some res, db')" by simp
    then show ?thesis
    proof (cases rule: guard_dispatch_cases)
      case again
      with assms(2) show ?thesis by simp
    next
      case (reserved settings key profile budget db1 limit bid amount)
      have db1: "cs_get ''Reservation'' i BUDGET_NAMESPACE db1 = Inr p"
        using find_or_make_found(2) [OF reserved(3), of "''Reservation''" i BUDGET_NAMESPACE] assms(2) by simp
      have "i \<noteq> reservation_id (run_val (r_id r))"
        using reserved(2) assms(2) by auto
      with db1 reserve_new_entity [OF reserved(7)] show ?thesis
        by (auto simp: cs_get_def update_conv')
    qed
  qed
  ultimately show ?thesis by auto
qed

theorem settlement_is_final_witness:
  "\<exists>db q. cs_get ''Reservation'' (reservation_id ''r1'') BUDGET_NAMESPACE
     (settle_run example_ledger_env example_ledger_run db) = Inr q"
proof -
  obtain res db where g: "guard_dispatch example_ledger_env example_ledger_run new_control_db = Inr (Some res, db)"
    and i: "cs_get ''Reservation'' (reservation_id ''r1'') BUDGET_NAMESPACE db = Inr res" by (rule example_guard)
  have "ledger_history (be_sha example_ledger_env) db"
    by (rule ledger_history.guarded [OF example_history refl g])
  from settlement_is_final [OF this i, of example_ledger_run] show ?thesis by blast
qed

end
