(* ===== verification/Run_Lifecycle.thy ===== *)
theory Run_Lifecycle
  imports Stores Scheduler_Queue
begin

text \<open>
  The life of a run in \<^verbatim>\<open>src/asterun/application.py\<close>: how a result of a backend is recorded,
  what happens to a result that could not be saved, how the concurrency slot of a run
  follows its state, how the queue is drained, and how an interrupted run is reconciled
  after a restart without being dispatched again.

  The state is the store, the scheduler, the results kept in memory for another try, the
  poll counter, the ids of the live workers and the log of the calls made to backends. The
  store is the one of \<^verbatim>\<open>Stores\<close>. Writing it can fail at any moment (a full disk, a hook
  that raises): \<open>ap_faults\<close> holds, for each transaction to come, the exception it fails with, if
  any; a failed transaction leaves the store as it was.

  What other code answers is in the record \<open>app_env\<close>: the kinds of the configured backends, a
  backend's answer to a call, to a cancellation or about a lost process, what a plugin
  worker's result contributes, the checkpoint of a finished run, the classification of
  an error text, the guards before a dispatch. A result is a JSON value. Reading an
  attribute that a value lacks (\<^verbatim>\<open>AttributeError\<close>) is \<open>TypeError\<close> here.
\<close>

section \<open>Texts\<close>

definition utf8_bytes :: "nat list \<Rightarrow> string" where
  "utf8_bytes = List.map char_of"

definition SUMMARY_UNSAVED :: string where
  "SUMMARY_UNSAVED = utf8_bytes
      [231, 187, 147, 230, 158, 156, 229, 183, 178, 230, 148, 182, 229, 136, 176, 228, 189, 134,
      230, 156, 170, 232, 131, 189, 229, 174, 140, 230, 149, 180, 232, 144, 189, 231, 155, 152,
      239, 188, 140, 228, 191, 157, 231, 149, 153, 229, 190, 133, 229, 175, 185, 232, 180, 166,
      239, 188, 140, 228, 184, 141, 228, 188, 154, 232, 135, 170, 229, 138, 168, 233, 135, 141,
      230, 180, 190]"

definition SUMMARY_UNTRACKED :: string where
  "SUMMARY_UNTRACKED = utf8_bytes
      [230, 137, 190, 228, 184, 141, 229, 136, 176, 230, 147, 141, 228, 189, 156, 232, 174, 176,
      229, 189, 149, 239, 188, 140, 229, 183, 178, 233, 135, 138, 230, 148, 190, 229, 185, 182,
      229, 143, 145, 229, 144, 141, 233, 162, 157, 239, 188, 140, 228, 184, 141, 228, 188, 154,
      232, 135, 170, 229, 138, 168, 233, 135, 141, 230, 180, 190]"

definition SUMMARY_UNVERIFIED :: string where
  "SUMMARY_UNVERIFIED = utf8_bytes
      [230, 143, 146, 228, 187, 182, 231, 187, 147, 230, 158, 156, 230, 156, 170, 233, 128, 154,
      232, 191, 135, 230, 160, 184, 229, 191, 131, 233, 170, 140, 232, 175, 129, 239, 188, 140,
      228, 191, 157, 231, 149, 153, 233, 162, 132, 231, 149, 153, 231, 173, 137, 229, 190, 133,
      229, 175, 185, 232, 180, 166]"

definition SUMMARY_CALL_UNKNOWN :: string where
  "SUMMARY_CALL_UNKNOWN = utf8_bytes
      [229, 144, 142, 231, 171, 175, 232, 176, 131, 231, 148, 168, 230, 156, 170, 229, 143, 150,
      229, 190, 151, 231, 161, 174, 229, 174, 154, 231, 187, 147, 230, 158, 156, 239, 188, 140,
      233, 156, 128, 232, 166, 129, 229, 175, 185, 232, 180, 166]"

definition SUMMARY_NOT_DISPATCHED :: string where
  "SUMMARY_NOT_DISPATCHED = utf8_bytes
      [230, 180, 190, 229, 143, 145, 229, 137, 141, 230, 160, 161, 233, 170, 140, 229, 164, 177,
      232, 180, 165, 239, 188, 140, 230, 156, 170, 232, 176, 131, 231, 148, 168, 229, 144, 142,
      231, 171, 175]"

definition SUMMARY_QUEUE_CANCELLED :: string where
  "SUMMARY_QUEUE_CANCELLED = utf8_bytes
      [230, 142, 146, 233, 152, 159, 232, 191, 144, 232, 161, 140, 229, 183, 178, 229, 143, 150,
      230, 182, 136, 239, 188, 140, 230, 156, 170, 230, 180, 190, 229, 143, 145, 229, 144, 142,
      231, 171, 175]"

definition FAKE_INPUT :: string where
  "FAKE_INPUT = utf8_bytes
      [102, 97, 107, 101, 32, 231, 173, 137, 229, 190, 133, 232, 190, 147, 229, 133, 165]"

definition QUALITY_CANCELLED :: string where
  "QUALITY_CANCELLED = utf8_bytes
      [231, 148, 168, 230, 136, 183, 229, 143, 150, 230, 182, 136, 228, 186, 134, 232, 180, 168,
      233, 135, 143, 230, 181, 129, 231, 168, 139, 239, 188, 140, 229, 129, 156, 230, 173, 162,
      229, 144, 142, 231, 187, 173, 229, 174, 161, 230, 159, 165, 229, 146, 140, 228, 191, 174,
      229, 164, 141]"

definition REMOTE_STATE_UNKNOWN :: string where
  "REMOTE_STATE_UNKNOWN = ''REMOTE_STATE_UNKNOWN''"

section \<open>State\<close>

record retained_result =
  rr_result :: json
  rr_failures :: int
  rr_ready_at_poll :: int
  rr_approval :: "dict option"

record app =
  ap_store :: mem_store
  ap_sched :: scheduler
  ap_retained :: "(string \<times> retained_result) list"
  ap_poll_epoch :: int
  ap_workers :: "string list"
  ap_calls :: "run_id list"
  ap_faults :: "exn option list"

record app_env =
  env_lib :: pylib
  env_now :: string
  env_hash :: "json \<Rightarrow> string"
  env_sha :: "string \<Rightarrow> string"
  env_approval_id :: approval_id
  env_kind :: "string \<Rightarrow> string res"
  env_external :: "string \<Rightarrow> bool"
  env_ingest :: "run \<Rightarrow> dict \<Rightarrow> (json \<times> dict list) res"
  env_capture :: "mem_store \<Rightarrow> run \<Rightarrow> string \<Rightarrow> (string \<times> (string \<Rightarrow> json)) res"
  env_classify :: "string \<Rightarrow> dict option"
  env_workspace_key :: "task \<Rightarrow> string"
  env_background :: "string \<Rightarrow> bool"
  env_admit :: "task \<Rightarrow> run \<Rightarrow> operation \<Rightarrow> dict \<times> exn option"
  env_bind :: "task \<Rightarrow> run \<Rightarrow> dict \<times> exn option"
  env_principal :: string
  env_call :: "task \<Rightarrow> run \<Rightarrow> json res"
  env_may_advance :: "task \<Rightarrow> operation option \<Rightarrow> bool"
  env_stopping :: bool
  env_executor :: bool
  env_authorize :: "task \<Rightarrow> exn option"
  env_cancel_guard :: "task \<Rightarrow> run \<Rightarrow> exn option"
  env_cancel :: "run \<Rightarrow> dict"
  env_lost :: "run \<Rightarrow> json option"

type_synonym 'a action = "app \<Rightarrow> 'a res \<times> app"

definition andthen :: "'a action \<Rightarrow> ('a \<Rightarrow> 'b action) \<Rightarrow> 'b action" where
  "andthen m f a = (case m a of (Inl e, b) \<Rightarrow> (Inl e, b) | (Inr x, b) \<Rightarrow> f x b)"

definition reading :: "(mem_store \<Rightarrow> 'a res) \<Rightarrow> 'a action" where
  "reading f a = (f (ap_store a), a)"

text \<open>
  A transaction runs its body on the store; an exception of the body or a failing write
  rolls it back.
\<close>

definition transaction :: "(mem_store \<Rightarrow> ('a \<times> mem_store) res) \<Rightarrow> 'a action" where
  "transaction body a =
     (let b = a\<lparr>ap_faults := tl (ap_faults a)\<rparr>
      in case body (ap_store a) of
           Inl e \<Rightarrow> (Inl e, b)
         | Inr (x, s) \<Rightarrow>
             (case ap_faults a of
                Some e # _ \<Rightarrow> (Inl e, b)
              | _ \<Rightarrow> (Inr x, b\<lparr>ap_store := s\<rparr>)))"

definition on_sched :: "(scheduler \<Rightarrow> scheduler) \<Rightarrow> app \<Rightarrow> app" where
  "on_sched f a = a\<lparr>ap_sched := f (ap_sched a)\<rparr>"

fun each :: "('a \<Rightarrow> unit action) \<Rightarrow> 'a list \<Rightarrow> unit action" where
  "each f [] a = (Inr (), a)"
| "each f (x # xs) a = andthen (f x) (\<lambda>_. each f xs) a"

section \<open>Results\<close>

definition is_worker_fallback :: "json \<Rightarrow> bool" where
  "is_worker_fallback result =
     (case result of
        JObj d \<Rightarrow>
          dget d ''status'' = JStr (str_run_status Rs_PENDING_RECONCILE)
          \<and> dget d ''terminated'' = JBool False
          \<and> dget d ''error_code'' = JStr REMOTE_STATE_UNKNOWN
          \<and> \<not> truthy (dget d ''native'') \<and> \<not> truthy (dget d ''events'')
          \<and> \<not> truthy (dget d ''approvals'') \<and> \<not> truthy (dget d ''needs_approval'')
      | _ \<Rightarrow> False)"

definition is_progress_snapshot :: "json \<Rightarrow> bool" where
  "is_progress_snapshot result =
     (case result of
        JObj d \<Rightarrow>
          dget d ''status'' \<in> {JStr (str_run_status Rs_DISPATCHING), JStr (str_run_status Rs_RUNNING)}
          \<and> \<not> truthy (dget d ''terminated'')
          \<and> \<not> truthy (dget d ''approvals'') \<and> \<not> truthy (dget d ''needs_approval'')
      | _ \<Rightarrow> False)"

definition RETRY_BACKOFF_CAP :: int where "RETRY_BACKOFF_CAP = 8"

definition backoff_gap :: "int \<Rightarrow> int" where
  "backoff_gap failures =
     (if failures \<le> 1 then 1 else min RETRY_BACKOFF_CAP (2 ^ nat (failures - 1)))"

definition remember_result :: "run_id \<Rightarrow> json \<Rightarrow> bool \<Rightarrow> dict option \<Rightarrow> app \<Rightarrow> app" where
  "remember_result i result failed approval a =
     (let current = map_of (ap_retained a) (run_val i)
      in if (case current of None \<Rightarrow> False
             | Some c \<Rightarrow> is_worker_fallback result \<and> \<not> is_worker_fallback (rr_result c)) then a
         else
           let failures = (case current of None \<Rightarrow> 0 | Some c \<Rightarrow> rr_failures c) + (if failed then 1 else 0);
               kept = (case approval of Some p \<Rightarrow> Some p
                       | None \<Rightarrow> (case current of None \<Rightarrow> None | Some c \<Rightarrow> rr_approval c))
           in a\<lparr>ap_retained := AList.update (run_val i)
                  \<lparr>rr_result = result, rr_failures = failures,
                   rr_ready_at_poll = ap_poll_epoch a + (if failed then backoff_gap failures else 0),
                   rr_approval = kept\<rparr> (ap_retained a)\<rparr>)"

definition forget_result :: "run_id \<Rightarrow> app \<Rightarrow> app" where
  "forget_result i a = a\<lparr>ap_retained := AList.delete (run_val i) (ap_retained a)\<rparr>"

section \<open>Slots\<close>

definition assign_slot :: "bool \<Rightarrow> run \<Rightarrow> run" where
  "assign_slot held r =
     (if terminal (r_status r) then
        r\<lparr>r_native := dpop (dpop (r_native r) SLOT_HELD) SLOT_RELEASED\<rparr>
      else if held then
        r\<lparr>r_native := dpop (dset (r_native r) SLOT_HELD (JBool True)) SLOT_RELEASED\<rparr>
      else
        r\<lparr>r_native := dset (dset (r_native r) SLOT_HELD (JBool False)) SLOT_RELEASED (JBool True)\<rparr>)"

definition persisted_slot_held :: "run \<Rightarrow> operation option \<Rightarrow> bool" where
  "persisted_slot_held r operation =
     (if terminal (r_status r) then False
      else if dhas (r_native r) SLOT_HELD then truthy (dget (r_native r) SLOT_HELD)
      else
        case operation of
          None \<Rightarrow> False
        | Some p \<Rightarrow> o_status p \<noteq> Op_INTENDED \<and> \<not> truthy (dget (r_native r) SLOT_RELEASED))"

definition project_slot :: "app_env \<Rightarrow> run \<Rightarrow> unit action" where
  "project_slot env r a =
     (if persisted_slot_held r (ms_find_operation_for_run (ap_store a) (r_id r)) then
        case ms_get_task (ap_store a) (r_task_id r) of
          Inl e \<Rightarrow> (Inl e, a)
        | Inr t \<Rightarrow> (Inr (), on_sched (\<lambda>s. start s (backend_val (r_backend r)) (Some (run_val (r_id r)))
                                            (Some (env_workspace_key env t))) a)
      else (Inr (), on_sched (\<lambda>s. finish s (backend_val (r_backend r)) (Some (run_val (r_id r)))) a))"

section \<open>Writing a result\<close>

definition set_run :: "run_status \<Rightarrow> (run \<Rightarrow> run) \<Rightarrow> run \<Rightarrow> mem_store \<Rightarrow> run \<times> mem_store" where
  "set_run st updates r s = (let r' = updates (r\<lparr>r_status := st\<rparr>) in (r', ms_save_run r' s))"

definition emit :: "app_env \<Rightarrow> run_id \<Rightarrow> event_type \<Rightarrow> string \<Rightarrow> dict \<Rightarrow> mem_store \<Rightarrow> mem_store" where
  "emit env i ty source payload s =
     snd (ms_append_event i \<lparr>e_seq = 0, e_type = ty, e_source = source, e_timestamp = env_now env,
       e_schema_version = 1, e_payload = payload\<rparr> s)"

text \<open>\<^verbatim>\<open>v or []\<close> as the head of a loop\<close>

definition list_or_empty :: "json \<Rightarrow> json list res" where
  "list_or_empty v =
     (if \<not> truthy v then Inr [] else case v of JArr xs \<Rightarrow> Inr xs | _ \<Rightarrow> Inl TypeError)"

text \<open>
  The type of a backend's event: its own when it names one, else \<^verbatim>\<open>message\<close>; a list or a
  dictionary cannot be looked up in a set.
\<close>

definition raw_event_type :: "dict \<Rightarrow> event_type res" where
  "raw_event_type d =
     (case dget d ''type'' of
        JArr _ \<Rightarrow> Inl TypeError
      | JObj _ \<Rightarrow> Inl TypeError
      | v \<Rightarrow> (case parse_event_type v of Inl _ \<Rightarrow> Inr Ev_MESSAGE | Inr ty \<Rightarrow> Inr ty))"

definition without_key :: "string \<Rightarrow> dict \<Rightarrow> dict" where
  "without_key k d = filter (\<lambda>(k', v). k' \<noteq> k) d"

fun emit_raw_events :: "app_env \<Rightarrow> run_id \<Rightarrow> string \<Rightarrow> json list \<Rightarrow> mem_store \<Rightarrow> mem_store res" where
  "emit_raw_events env i source [] s = Inr s"
| "emit_raw_events env i source (JObj d # rows) s =
     bind_res (raw_event_type d) (\<lambda>ty.
       emit_raw_events env i source rows (emit env i ty source (without_key ''type'' d) s))"
| "emit_raw_events env i source (_ # rows) s = Inl TypeError"

text \<open>Keys of the native record that a backend's result never overwrites.\<close>

definition CORE_NATIVE_KEYS :: "string list" where
  "CORE_NATIVE_KEYS =
     [''checkpoint'', ''local_checks'', ''stage_attestations'', ''dependency_bindings'',
      ''payload_manifests'', ''segment_fresh_thread'',
      SLOT_HELD, SLOT_RELEASED, UNAPPLIED_RESULT, UNAPPLIED_APPROVAL]"

definition merge_native :: "string list \<Rightarrow> dict \<Rightarrow> dict \<Rightarrow> dict" where
  "merge_native kept native reported = dupdate native (filter (\<lambda>(k, v). k \<notin> set kept) reported)"

text \<open>
  \<^verbatim>\<open>checkpoints.after_result\<close>. What is captured, the document to store and the checkpoint
  that refers to it, comes from the work tree.
\<close>

definition after_result :: "app_env \<Rightarrow> run \<Rightarrow> string \<Rightarrow> mem_store \<Rightarrow> (run \<times> mem_store) res" where
  "after_result env r st s =
     (if \<not> truthy (dget (r_native r) ''checkpoint'')
       \<or> st \<notin> {''succeeded'', ''failed'', ''cancelled'', ''pending_reconcile''} then Inr (r, s)
      else
        bind_res (ms_get_task s (r_task_id r)) (\<lambda>_.
        bind_res (env_capture env s r st) (\<lambda>(document, checkpoint).
          let (sha, s') = ms_put_blob (env_sha env) document s
          in Inr (r\<lparr>r_native := dset (r_native r) ''checkpoint'' (checkpoint sha)\<rparr>, s'))))"

definition attach_provider_failure :: "app_env \<Rightarrow> run \<Rightarrow> run" where
  "attach_provider_failure env r =
     (if truthy (dget (r_native r) ''provider_failure'')
       \<or> r_status r \<noteq> Rs_FAILED \<or> r_error_code r \<noteq> JStr ''ANTIGRAVITY_RUN_FAILED''
       \<or> env_kind env (backend_val (r_backend r)) \<noteq> Inr ''antigravity'' then r
      else
        case env_classify env (r_summary r) of
          None \<Rightarrow> r
        | Some c \<Rightarrow>
            (if \<forall>k \<in> set [''kind'', ''status_code'', ''source'', ''provider'']. dhas c k
             then r\<lparr>r_native := dset (r_native r) ''provider_failure''
                (JObj (map (\<lambda>k. (k, dget c k)) [''kind'', ''status_code'', ''source'', ''provider'']))\<rparr>
             else r))"

definition apply_ingested :: "app_env \<Rightarrow> run \<Rightarrow> dict \<Rightarrow> mem_store \<Rightarrow> (run \<times> mem_store) res" where
  "apply_ingested env r d s =
     bind_res (env_ingest env r d) (\<lambda>(output, observations).
       Inr (r\<lparr>r_output := output\<rparr>,
            fold (emit env (r_id r) Ev_MESSAGE ''plugin.observation'') observations s))"

definition apply_native :: "run \<Rightarrow> dict \<Rightarrow> run res" where
  "apply_native r d =
     (if \<not> truthy (dget d ''native'') then Inr r
      else case as_dict (dget d ''native'') of
             None \<Rightarrow> Inl TypeError
           | Some n \<Rightarrow> Inr (r\<lparr>r_native := merge_native CORE_NATIVE_KEYS (r_native r) n\<rparr>))"

definition reported_status :: "run \<Rightarrow> dict \<Rightarrow> run_status res" where
  "reported_status r d =
     (if truthy (dget d ''status'') then parse_run_status (dget d ''status'') else Inr (r_status r))"

definition reported_reason :: "run_status \<Rightarrow> dict \<Rightarrow> string option" where
  "reported_reason st d = (if st = Rs_FAILED then as_str (dget d ''plugin_reason'') else None)"

definition settle_run_fields :: "app_env \<Rightarrow> run \<Rightarrow> dict \<Rightarrow> run_status \<Rightarrow> run" where
  "settle_run_fields env r d st =
     attach_provider_failure env
       (r\<lparr>r_status := st, r_error_code := dget d ''error_code'',
          r_summary := py_str (env_lib env) (por (dget d ''summary'') (JStr (r_summary r))),
          r_plugin_reason := reported_reason st d\<rparr>)"

definition apply_backend_result_inner ::
  "app_env \<Rightarrow> run \<Rightarrow> dict \<Rightarrow> string \<Rightarrow> mem_store \<Rightarrow> (run \<times> mem_store) res" where
  "apply_backend_result_inner env r d source s =
     bind_res (apply_ingested env r d s) (\<lambda>(r1, s1).
     bind_res (apply_native r1 d) (\<lambda>r2.
     bind_res (list_or_empty (dget d ''events'')) (\<lambda>rows.
     bind_res (emit_raw_events env (r_id r) source rows s1) (\<lambda>s2.
     bind_res (reported_status r2 d) (\<lambda>st.
     bind_res (after_result env r2 (str_run_status st) s2) (\<lambda>(r3, s3).
     let terminated = truthy (dget d ''terminated'');
         s4 = (if terminated \<and> st = Rs_CANCELLED
               then emit env (r_id r) Ev_RUN_TERMINATED source [(''status'', JStr (str_run_status st))] s3 else s3)
     in Inr (set_run st (\<lambda>x. x\<lparr>r_terminated := terminated\<rparr>) (settle_run_fields env r3 d st) s4)))))))"

text \<open>
  A result of an external plugin worker that fails validation keeps the references it
  carries, and the run waits for reconciliation.
\<close>

definition NATIVE_REFERENCES :: "string list" where
  "NATIVE_REFERENCES = [''provider_job_ref'', ''provider_session_id'', ''provider_turn_id'']"

definition utf8_points :: "string \<Rightarrow> nat" where
  "utf8_points s = length (filter (\<lambda>c. of_char c < (128 :: nat) \<or> 192 \<le> (of_char c :: nat)) s)"

definition native_reference_ok :: "string \<times> json \<Rightarrow> bool" where
  "native_reference_ok kv =
     (fst kv \<in> set NATIVE_REFERENCES
      \<and> (case snd kv of
           JStr v \<Rightarrow> 0 < utf8_points v \<and> utf8_points v \<le> 4096 \<and> (\<forall>c \<in> set v. 32 \<le> (of_char c :: nat))
         | _ \<Rightarrow> False))"

definition apply_unverified :: "app_env \<Rightarrow> run \<Rightarrow> dict \<Rightarrow> mem_store \<Rightarrow> (run \<times> mem_store) res" where
  "apply_unverified env r d s =
     bind_res (ms_get_run s (r_id r)) (\<lambda>prior.
     bind_res (if \<not> truthy (dget d ''native'') then Inr []
               else case dget d ''native'' of JObj n \<Rightarrow> Inr n | _ \<Rightarrow> Inl TypeError) (\<lambda>n.
       Inr (set_run Rs_PENDING_RECONCILE
              (\<lambda>x. x\<lparr>r_terminated := False, r_error_code := JStr REMOTE_STATE_UNKNOWN,
                     r_summary := SUMMARY_UNVERIFIED, r_plugin_reason := None\<rparr>)
              (r\<lparr>r_native := dupdate (r_native prior) (filter native_reference_ok n),
                 r_output := r_output prior\<rparr>) s)))"

fun is_asterun_error :: "exn \<Rightarrow> bool" where
  "is_asterun_error (AsterunError c d) = True"
| "is_asterun_error e = False"

definition apply_backend_result ::
  "app_env \<Rightarrow> run \<Rightarrow> dict \<Rightarrow> string \<Rightarrow> mem_store \<Rightarrow> (run \<times> mem_store) res" where
  "apply_backend_result env r d source s =
     (case apply_backend_result_inner env r d source s of
        Inr x \<Rightarrow> Inr x
      | Inl e \<Rightarrow> if env_external env (backend_val (r_backend r)) \<and> is_asterun_error e
                 then apply_unverified env r d s else Inl e)"

section \<open>Recording a result\<close>

definition write_approval_outcome ::
  "app_env \<Rightarrow> run \<Rightarrow> dict \<Rightarrow> mem_store \<Rightarrow> mem_store res" where
  "write_approval_outcome env r payload s =
     bind_res (getitem payload ''id'') (\<lambda>i.
     bind_res (typed_id ApprovalId (JStr (py_str (env_lib env) i))) (\<lambda>aid.
     bind_res (ms_get_approval s aid) (\<lambda>ap.
     bind_res (getitem payload ''state'') (\<lambda>v.
     bind_res (parse_approval_state (JStr (py_str (env_lib env) v))) (\<lambda>st.
       let source = (if truthy (dget payload ''decision_source'')
                     then JStr (py_str (env_lib env) (dget payload ''decision_source''))
                     else ap_decision_source ap);
           assessment = (if dhas payload ''assessment'' then dict_or_empty (dget payload ''assessment'')
                         else ap_assessment ap);
           ap' = ap\<lparr>ap_state := st,
                    ap_response_status := py_str (env_lib env) (por (dget payload ''response_status'') (JStr [])),
                    ap_native_confirmed := truthy (dget payload ''native_confirmed''),
                    ap_decision_source := source, ap_assessment := assessment\<rparr>
       in Inr (emit env (r_id r) Ev_APPROVAL_RESPONDED ''core''
            [(''approval_id'', JStr (approval_val (ap_id ap'))),
             (''decision'', dget payload ''decision''),
             (''decision_source'', ap_decision_source ap'),
             (''response_status'', JStr (ap_response_status ap')),
             (''native_confirmed'', JBool (ap_native_confirmed ap')),
             (''assessment'', if dhas payload ''assessment'' then dget payload ''assessment'' else JObj assessment)]
            (ms_save_approval ap' s)))))))"

definition apply_approval_payload ::
  "app_env \<Rightarrow> run \<Rightarrow> dict option \<Rightarrow> json \<Rightarrow> mem_store \<Rightarrow> mem_store res" where
  "apply_approval_payload env r approval stashed s =
     (case (case approval of Some p \<Rightarrow> Some p | None \<Rightarrow> as_dict stashed) of
        None \<Rightarrow> Inr s
      | Some p \<Rightarrow> if truthy (dget p ''id'') then write_approval_outcome env r p s else Inr s)"

definition native_thread :: "dict \<Rightarrow> json" where
  "native_thread n =
     (if dhas n ''backend_session_id'' then dget n ''backend_session_id''
      else por (por (dget n ''thread_id'') (dget n ''session_id'')) (dget n ''provider_session_id''))"

definition record_session_after_dispatch ::
  "app_env \<Rightarrow> session_binding \<Rightarrow> task \<Rightarrow> json \<Rightarrow> mem_store \<Rightarrow> mem_store res" where
  "record_session_after_dispatch env b t native s =
     (let n = dict_or_empty native;
          b1 = b\<lparr>s_task_id := Some (t_id t), s_updated_at := env_now env\<rparr>;
          turn = por (dget n ''turn_id'') (dget n ''provider_turn_id'')
      in bind_res (if truthy (native_thread n)
                   then bind_res (typed_id BackendSessionId (JStr (py_str (env_lib env) (native_thread n))))
                          (\<lambda>i. Inr (b1\<lparr>s_backend_session_id := Some i\<rparr>))
                   else Inr b1) (\<lambda>b2.
         Inr (ms_save_session
           (if truthy turn then b2\<lparr>s_latest_turn_id := JStr (py_str (env_lib env) turn)\<rparr> else b2) s)))"

definition session_of :: "run \<Rightarrow> task \<Rightarrow> conversation_id option" where
  "session_of r t = (case r_conversation_id r of Some c \<Rightarrow> Some c | None \<Rightarrow> t_conversation_id t)"

definition record_native_session :: "app_env \<Rightarrow> run \<Rightarrow> task \<Rightarrow> dict \<Rightarrow> mem_store \<Rightarrow> mem_store res" where
  "record_native_session env r t d s =
     (case session_of r t of
        None \<Rightarrow> Inr s
      | Some c \<Rightarrow>
          if truthy (dget d ''native'') then
            bind_res (ms_get_session s c) (\<lambda>b. record_session_after_dispatch env b t (dget d ''native'') s)
          else Inr s)"

text \<open>\<^verbatim>\<open>approval_digest.request_hash\<close>\<close>

definition request_hash :: "app_env \<Rightarrow> string \<Rightarrow> run_id \<Rightarrow> json \<Rightarrow> string" where
  "request_hash env input_hash i request =
     digest (env_hash env) (JArr [JStr input_hash, JStr (run_val i), request])"

definition target_of :: "app_env \<Rightarrow> task \<Rightarrow> run \<Rightarrow> json \<Rightarrow> string" where
  "target_of env t r request =
     (if truthy request then request_hash env (t_input_hash t) (r_id r) request else t_input_hash t)"

definition reported_requests :: "app_env \<Rightarrow> task \<Rightarrow> run \<Rightarrow> dict \<Rightarrow> json list res" where
  "reported_requests env t r d =
     bind_res (if truthy (dget d ''approvals'') then list_or_empty (dget d ''approvals'')
               else Inr (if truthy (dget d ''needs_approval'') then [JObj []] else [])) (\<lambda>requests.
       Inr (filter (\<lambda>q. JStr (target_of env t r q) \<notin> set (r_approval_attempts r)) requests))"

definition invalidate_pending :: "run \<Rightarrow> dict \<Rightarrow> json list \<Rightarrow> mem_store \<Rightarrow> mem_store" where
  "invalidate_pending r d requests s =
     (case ms_find_pending_approval s (r_id r) of
        None \<Rightarrow> s
      | Some p \<Rightarrow>
          if (ap_native_request p \<noteq> [] \<and> dhas d ''approvals''
              \<and> canon (JObj (ap_native_request p)) \<notin> canon ` set requests)
            \<or> terminal (r_status r)
          then ms_save_approval (p\<lparr>ap_state := Ap_INVALIDATED\<rparr>) s else s)"

definition request_summary :: "app_env \<Rightarrow> dict \<Rightarrow> string res" where
  "request_summary env q =
     (let params = por (dget q ''params'') (JObj [])
      in case params of
           JObj p \<Rightarrow> Inr (py_str (env_lib env) (por (por (dget p ''command'') (dget q ''method'')) (JStr FAKE_INPUT)))
         | _ \<Rightarrow> Inl TypeError)"

definition ask_approval :: "app_env \<Rightarrow> task \<Rightarrow> run \<Rightarrow> json list \<Rightarrow> mem_store \<Rightarrow> mem_store res" where
  "ask_approval env t r requests s =
     (case requests of
        [] \<Rightarrow> Inr s
      | request # _ \<Rightarrow>
          if ms_find_pending_approval s (r_id r) \<noteq> None then Inr s
          else
            case request of
              JObj q \<Rightarrow>
                bind_res (request_summary env q) (\<lambda>summary.
                let ap = \<lparr>ap_id = env_approval_id env, ap_task_id = t_id t, ap_run_id = r_id r,
                          ap_summary = summary, ap_state = Ap_PENDING, ap_created_at = env_now env,
                          ap_expires_at = JNull, ap_target_hash = target_of env t r request,
                          ap_native_request = q, ap_decision_source = JNull, ap_assessment = [],
                          ap_response_status = ''not_sent'', ap_native_confirmed = False\<rparr>
                in Inr (emit env (r_id r) Ev_APPROVAL_REQUESTED ''core''
                     [(''approval_id'', JStr (approval_val (ap_id ap))),
                      (''target_hash'', JStr (ap_target_hash ap)), (''summary'', JStr summary)]
                     (ms_save_approval ap s)))
            | _ \<Rightarrow> Inl TypeError)"

definition operation_status_for :: "run_status \<Rightarrow> operation_status" where
  "operation_status_for st =
     (if st = Rs_FAILED then Op_FAILED else if terminal st then Op_COMPLETED
      else if st = Rs_PENDING_RECONCILE then Op_UNKNOWN else Op_DISPATCHED)"

definition save_operation_status :: "run_id \<Rightarrow> operation_status \<Rightarrow> mem_store \<Rightarrow> mem_store" where
  "save_operation_status i st s =
     (case ms_find_operation_for_run s i of
        None \<Rightarrow> s | Some p \<Rightarrow> ms_save_operation (p\<lparr>o_status := st\<rparr>) s)"

definition open_run :: "mem_store \<Rightarrow> run_id \<Rightarrow> (run \<times> task) option res" where
  "open_run s i =
     bind_res (ms_get_run s i) (\<lambda>r.
     bind_res (ms_get_task s (r_task_id r)) (\<lambda>t.
       Inr (if terminal (r_status r) \<or> t_current_run_id t \<noteq> Some (r_id r) then None else Some (r, t))))"

definition strip_marks :: "run \<Rightarrow> run" where
  "strip_marks r = r\<lparr>r_native := dpop (dpop (dpop (dpop (r_native r) UNAPPLIED_APPROVAL)
     UNAPPLIED_RESULT) SLOT_RELEASED) SLOT_HELD\<rparr>"

text \<open>The body of the transaction of \<^verbatim>\<open>_record_result_once\<close>.\<close>

definition record_body ::
  "app_env \<Rightarrow> run_id \<Rightarrow> dict \<Rightarrow> dict option \<Rightarrow> string \<Rightarrow> mem_store \<Rightarrow> (run option \<times> mem_store) res" where
  "record_body env i d approval kind s =
     bind_res (open_run s i) (\<lambda>found.
     case found of
       None \<Rightarrow> Inr (None, s)
     | Some (r0, t) \<Rightarrow>
         let r1 = strip_marks r0
         in bind_res (apply_approval_payload env r1 approval (dget (r_native r0) UNAPPLIED_APPROVAL) s) (\<lambda>s1.
            bind_res (apply_backend_result env r1 d (''backend.'' @ kind) s1) (\<lambda>(r2, s2).
            let (r3, s3) = (if truthy (dget d ''raced_completion'') \<and> r_status r2 = Rs_SUCCEEDED
                            then (r2\<lparr>r_cancel_requested := True\<rparr>, ms_save_run (r2\<lparr>r_cancel_requested := True\<rparr>) s2)
                            else (r2, s2))
            in bind_res (record_native_session env r3 t d s3) (\<lambda>s4.
               bind_res (reported_requests env t r3 d) (\<lambda>requests.
               bind_res (ask_approval env t r3 requests (invalidate_pending r3 d requests s4)) (\<lambda>s5.
               let s6 = save_operation_status i (operation_status_for (r_status r3)) s5;
                   r4 = assign_slot (\<not> terminal (r_status r3)) r3
               in Inr (Some r4, ms_save_run r4 s6)))))))"

datatype outcome = Closed | IgnoredFallback | Recorded run bool json

definition richer_retained :: "app \<Rightarrow> run_id \<Rightarrow> run \<Rightarrow> bool" where
  "richer_retained a i r =
     ((let stashed = dget (r_native r) UNAPPLIED_RESULT in is_dict stashed \<and> \<not> is_worker_fallback stashed)
      \<or> (case map_of (ap_retained a) (run_val i) of
           None \<Rightarrow> False | Some c \<Rightarrow> \<not> is_worker_fallback (rr_result c)))"

definition slot_was_released :: "run \<Rightarrow> bool" where
  "slot_was_released r =
     (dget (r_native r) SLOT_HELD = JBool False \<or> truthy (dget (r_native r) SLOT_RELEASED))"

text \<open>
  Only a Codex result may carry the optional report about the desktop project; it is kept
  apart, so that it cannot spoil the record of the result.
\<close>

definition split_presentation :: "string \<Rightarrow> dict \<Rightarrow> bool \<times> json \<times> dict" where
  "split_presentation kind d =
     (case dget d ''native'' of
        JObj n \<Rightarrow> if kind = ''codex'' \<and> dhas n ''desktop_project''
                  then (True, dget n ''desktop_project'', dset d ''native'' (JObj (without_key ''desktop_project'' n)))
                  else (False, JNull, d)
      | _ \<Rightarrow> (False, JNull, d))"

definition record_result_once ::
  "app_env \<Rightarrow> run_id \<Rightarrow> json \<Rightarrow> dict option \<Rightarrow> outcome action" where
  "record_result_once env i result approval a =
     (case open_run (ap_store a) i of
        Inl e \<Rightarrow> (Inl e, a)
      | Inr None \<Rightarrow> (Inr Closed, a)
      | Inr (Some (r, t)) \<Rightarrow>
          if is_worker_fallback result
             \<and> (richer_retained a i r \<or> r_status r = Rs_PENDING_RECONCILE \<or> slot_was_released r)
          then (Inr IgnoredFallback, a)
          else
            case env_kind env (backend_val (r_backend r)) of
              Inl e \<Rightarrow> (Inl e, a)
            | Inr kind \<Rightarrow>
                case result of
                  JObj d \<Rightarrow>
                    (case split_presentation kind d of (has_presentation, presentation, d') \<Rightarrow>
                       andthen (transaction (record_body env i d' approval kind))
                         (\<lambda>saved b. (Inr (case saved of None \<Rightarrow> Closed
                                            | Some r' \<Rightarrow> Recorded r' has_presentation presentation), b)) a)
                | _ \<Rightarrow> (Inl TypeError, a))"

section \<open>Results that could not be saved\<close>

definition mark_unknown :: "run_id \<Rightarrow> mem_store \<Rightarrow> bool \<times> mem_store" where
  "mark_unknown i s =
     (case ms_find_operation_for_run s i of
        None \<Rightarrow> (False, s)
      | Some p \<Rightarrow> if o_status p \<noteq> Op_UNKNOWN then (True, ms_save_operation (p\<lparr>o_status := Op_UNKNOWN\<rparr>) s)
                  else (False, s))"

definition emit_kept :: "app_env \<Rightarrow> run_id \<Rightarrow> dict \<Rightarrow> mem_store \<Rightarrow> mem_store" where
  "emit_kept env i extra s =
     emit env i Ev_RECONCILED ''core''
       ([(''re_dispatched'', JBool False), (''error_code'', JStr REMOTE_STATE_UNKNOWN)] @ extra) s"

definition keep_for_reconcile :: "string \<Rightarrow> run \<Rightarrow> run" where
  "keep_for_reconcile summary r =
     r\<lparr>r_terminated := False, r_error_code := JStr REMOTE_STATE_UNKNOWN, r_summary := summary\<rparr>"

definition stash_native :: "json \<Rightarrow> dict option \<Rightarrow> run \<Rightarrow> run" where
  "stash_native result approval r =
     (let existing = dget (r_native r) UNAPPLIED_RESULT;
          copied = (if is_dict existing \<and> is_worker_fallback result \<and> \<not> is_worker_fallback existing
                    then Some existing
                    else map_option JObj (as_dict result));
          r1 = assign_slot False r;
          r2 = (case approval of None \<Rightarrow> r1
                | Some p \<Rightarrow> r1\<lparr>r_native := dset (r_native r1) UNAPPLIED_APPROVAL (JObj p)\<rparr>)
      in case copied of None \<Rightarrow> r2
         | Some c \<Rightarrow> r2\<lparr>r_native := dset (r_native r2) UNAPPLIED_RESULT c\<rparr>)"

definition preserve_body ::
  "app_env \<Rightarrow> run_id \<Rightarrow> json \<Rightarrow> dict option \<Rightarrow> mem_store \<Rightarrow> (unit \<times> mem_store) res" where
  "preserve_body env i result approval s =
     bind_res (ms_get_run s i) (\<lambda>r.
       if terminal (r_status r) then Inr ((), s)
       else
         let r1 = stash_native result approval r;
             already = (r_status r = Rs_PENDING_RECONCILE);
             s1 = (if already then ms_save_run r1 s
                   else snd (set_run Rs_PENDING_RECONCILE (keep_for_reconcile SUMMARY_UNSAVED) r1 s));
             (changed, s2) = mark_unknown (r_id r) s1
         in Inr ((), if \<not> already \<or> changed then emit_kept env (r_id r) [] s2 else s2))"

definition preserve_failed_result ::
  "app_env \<Rightarrow> run_id \<Rightarrow> json \<Rightarrow> string option \<Rightarrow> dict option \<Rightarrow> app \<Rightarrow> app" where
  "preserve_failed_result env i result backend_name approval a =
     (let a1 = remember_result i result True approval a;
          name = (case ms_get_run (ap_store a1) i of
                    Inr r \<Rightarrow> Some (backend_val (r_backend r)) | Inl _ \<Rightarrow> backend_name);
          a2 = snd (transaction (preserve_body env i result approval) a1)
      in case name of None \<Rightarrow> a2
         | Some b \<Rightarrow> on_sched (\<lambda>s. finish s b (Some (run_val i))) a2)"

definition PROGRESS_NATIVE_KEYS :: "string list" where
  "PROGRESS_NATIVE_KEYS = ''desktop_project'' # CORE_NATIVE_KEYS"

fun emit_dict_events :: "app_env \<Rightarrow> run_id \<Rightarrow> string \<Rightarrow> json list \<Rightarrow> mem_store \<Rightarrow> mem_store res" where
  "emit_dict_events env i source [] s = Inr s"
| "emit_dict_events env i source (JObj d # rows) s =
     bind_res (raw_event_type d) (\<lambda>ty.
       emit_dict_events env i source rows (emit env i ty source (without_key ''type'' d) s))"
| "emit_dict_events env i source (_ # rows) s = emit_dict_events env i source rows s"

definition record_progress_session ::
  "app_env \<Rightarrow> run \<Rightarrow> task \<Rightarrow> dict \<Rightarrow> mem_store \<Rightarrow> mem_store res" where
  "record_progress_session env r t n s =
     (case session_of r t of
        None \<Rightarrow> Inr s
      | Some c \<Rightarrow>
          if n \<noteq> [] then
            bind_res (ms_get_session s c) (\<lambda>b. record_session_after_dispatch env b t (JObj n) s)
          else Inr s)"

definition commit_progress_body ::
  "app_env \<Rightarrow> run_id \<Rightarrow> dict \<Rightarrow> dict option \<Rightarrow> string \<Rightarrow> mem_store \<Rightarrow> (bool \<times> mem_store) res" where
  "commit_progress_body env i d approval source s =
     bind_res (open_run s i) (\<lambda>found.
     case found of
       None \<Rightarrow> Inr (False, s)
     | Some (r0, t) \<Rightarrow>
         let n = dict_or_empty (dget d ''native'');
             r1 = r0\<lparr>r_native := dpop (dpop (r_native r0) UNAPPLIED_RESULT) UNAPPLIED_APPROVAL\<rparr>
         in bind_res (apply_approval_payload env r1 approval (dget (r_native r0) UNAPPLIED_APPROVAL) s) (\<lambda>s1.
            let r2 = r1\<lparr>r_native := merge_native PROGRESS_NATIVE_KEYS (r_native r1) n\<rparr>
            in bind_res (list_or_empty (dget d ''events'')) (\<lambda>rows.
               bind_res (emit_dict_events env (r_id r0) source rows s1) (\<lambda>s2.
               bind_res (record_progress_session env r2 t n s2) (\<lambda>s3.
               let already = (r_status r2 = Rs_PENDING_RECONCILE);
                   r3 = assign_slot False r2;
                   s4 = (if already
                         then ms_save_run (r3\<lparr>r_error_code := por (r_error_code r3) (JStr REMOTE_STATE_UNKNOWN),
                                              r_terminated := False\<rparr>) s3
                         else snd (set_run Rs_PENDING_RECONCILE (keep_for_reconcile SUMMARY_UNSAVED) r3 s3));
                   (changed, s5) = mark_unknown (r_id r0) s4
               in Inr (True, if \<not> already \<or> changed then emit_kept env (r_id r0) [] s5 else s5))))))"

definition persist_native_presentation :: "app_env \<Rightarrow> run \<Rightarrow> json \<Rightarrow> app \<Rightarrow> app" where
  "persist_native_presentation env r report a =
     (if dhas (r_native r) ''desktop_project'' \<and> canon (dget (r_native r) ''desktop_project'') = canon report then a
      else
        case transaction (\<lambda>s. Inr ((), ms_save_run (r\<lparr>r_native := dset (r_native r) ''desktop_project'' report\<rparr>) s)) a of
          (Inr _, b) \<Rightarrow> b
        | (Inl _, b) \<Rightarrow> snd (transaction (\<lambda>s. Inr ((), emit env (r_id r) Ev_MESSAGE ''native.presentation''
              [(''receipt_persistence'', JStr ''unknown''),
               (''reason'', JStr ''presentation_receipt_unconfirmed'')] s)) b))"

definition commit_retained_progress ::
  "app_env \<Rightarrow> run_id \<Rightarrow> json \<Rightarrow> dict option \<Rightarrow> unit action" where
  "commit_retained_progress env i result approval a =
     (case ms_get_run (ap_store a) i of
        Inl e \<Rightarrow> (Inl e, a)
      | Inr r \<Rightarrow>
          case env_kind env (backend_val (r_backend r)) of
            Inl e \<Rightarrow> (Inl e, a)
          | Inr kind \<Rightarrow>
              case result of
                JObj d \<Rightarrow>
                  (case transaction (commit_progress_body env i d approval (''backend.'' @ kind)) a of
                     (Inl e, b) \<Rightarrow> (Inl e, b)
                   | (Inr saved, b) \<Rightarrow>
                       let n = dict_or_empty (dget d ''native'')
                       in if saved \<and> kind = ''codex'' \<and> dget n ''desktop_project'' \<noteq> JNull then
                            case ms_get_run (ap_store b) i of
                              Inl e \<Rightarrow> (Inl e, b)
                            | Inr r' \<Rightarrow> (Inr (), persist_native_presentation env r' (dget n ''desktop_project'') b)
                          else (Inr (), b))
              | _ \<Rightarrow> (Inl TypeError, a))"

section \<open>The two halves of recording\<close>

text \<open>
  \<^verbatim>\<open>_record_result\<close> up to \<^verbatim>\<open>_finish_recorded_result\<close>. The answer is the outcome that still
  has to be followed up.
\<close>

definition project_run :: "app_env \<Rightarrow> run_id \<Rightarrow> unit action" where
  "project_run env i a =
     (case ms_get_run (ap_store a) i of Inl e \<Rightarrow> (Inl e, a) | Inr r \<Rightarrow> project_slot env r a)"

definition backend_of :: "app \<Rightarrow> run_id \<Rightarrow> string option" where
  "backend_of a i = (case ms_get_run (ap_store a) i of Inl _ \<Rightarrow> None | Inr r \<Rightarrow> Some (backend_val (r_backend r)))"

definition record_attempt ::
  "app_env \<Rightarrow> run_id \<Rightarrow> json \<Rightarrow> bool \<Rightarrow> dict option \<Rightarrow> outcome action" where
  "record_attempt env i result remember approval a =
     (if \<not> remember \<and> is_progress_snapshot result then
        case commit_retained_progress env i result approval a of
          (Inl e, b) \<Rightarrow> (Inr Closed, preserve_failed_result env i result (backend_of a i) approval b)
        | (Inr _, b) \<Rightarrow> andthen (project_run env i) (\<lambda>_ c. (Inr Closed, c)) (forget_result i b)
      else
        case record_result_once env i result approval a of
          (Inl e, b) \<Rightarrow>
            (if remember then Inl e else Inr Closed,
             preserve_failed_result env i result (backend_of a i) approval b)
        | (Inr IgnoredFallback, b) \<Rightarrow> (Inr IgnoredFallback, b)
        | (Inr Closed, b) \<Rightarrow> (Inr Closed, forget_result i b)
        | (Inr (Recorded r has p), b) \<Rightarrow>
            andthen (project_slot env r) (\<lambda>_ c. (Inr (Recorded r has p), c)) (forget_result i b))"

section \<open>Dispatching\<close>

definition writing :: "(mem_store \<Rightarrow> mem_store) \<Rightarrow> unit action" where
  "writing f = transaction (\<lambda>s. Inr ((), f s))"

definition finish_operation :: "run \<Rightarrow> unit action" where
  "finish_operation r a =
     (case ms_find_operation_for_run (ap_store a) (r_id r) of
        None \<Rightarrow> (Inr (), a)
      | Some p \<Rightarrow>
          writing (ms_save_operation
            (if r_status r = Rs_FAILED then p\<lparr>o_status := Op_FAILED\<rparr>
             else if terminal (r_status r) then p\<lparr>o_status := Op_COMPLETED\<rparr> else p)) a)"

text \<open>
  The guards of \<^verbatim>\<open>_dispatch_committed\<close> up to the first write. They may leave notes in the
  native record of the run, also when a later guard refuses.
\<close>

definition prepare_dispatch :: "app_env \<Rightarrow> task \<Rightarrow> run \<Rightarrow> operation \<Rightarrow> run \<times> exn option" where
  "prepare_dispatch env t r p =
     (let (n1, e1) = env_admit env t r p;
          r1 = r\<lparr>r_native := n1\<rparr>
      in if e1 \<noteq> None then (r1, e1)
         else if o_principal p \<noteq> env_principal env then (r1, Some (AsterunError ''SCOPE_DENIED'' []))
         else if o_status p \<noteq> Op_INTENDED \<or> r_status r1 \<noteq> Rs_QUEUED \<or> r_cancel_requested r1
              then (r1, Some (AsterunError ''INVALID_REQUEST'' []))
         else let (n2, e2) = env_bind env t r1 in (r1\<lparr>r_native := n2\<rparr>, e2))"

definition dispatching :: "run \<Rightarrow> run" where
  "dispatching r = (assign_slot True r)\<lparr>r_status := Rs_DISPATCHING\<rparr>"

definition mark_dispatching :: "app_env \<Rightarrow> string \<Rightarrow> run \<Rightarrow> unit action" where
  "mark_dispatching env backend_name r =
     andthen (writing (ms_save_run (dispatching r))) (\<lambda>_.
       writing (emit env (r_id r) Ev_RUN_DISPATCHING ''core'' [(''backend'', JStr backend_name)]))"

definition mark_dispatched :: "app_env \<Rightarrow> run \<Rightarrow> operation \<Rightarrow> unit action" where
  "mark_dispatched env r p =
     andthen (writing (ms_save_operation (p\<lparr>o_status := Op_DISPATCHED\<rparr>))) (\<lambda>_. project_slot env r)"

text \<open>The one place where a backend is called.\<close>

definition log_call :: "run_id \<Rightarrow> app \<Rightarrow> app" where
  "log_call i a = a\<lparr>ap_calls := i # ap_calls a\<rparr>"

definition start_worker :: "app_env \<Rightarrow> run \<Rightarrow> unit action" where
  "start_worker env r a =
     (if env_stopping env \<or> run_val (r_id r) \<in> set (ap_workers a) then (Inl RuntimeError, a)
      else (Inr (), log_call (r_id r) (a\<lparr>ap_workers := run_val (r_id r) # ap_workers a\<rparr>)))"

definition call_unknown :: "app_env \<Rightarrow> run \<Rightarrow> operation \<Rightarrow> unit action" where
  "call_unknown env r p a =
     (case writing (\<lambda>s.
         emit env (r_id r) Ev_RECONCILED ''core'' [(''error_code'', JStr REMOTE_STATE_UNKNOWN)]
           (ms_save_operation (p\<lparr>o_status := Op_UNKNOWN\<rparr>)
             (snd (set_run Rs_PENDING_RECONCILE
               (\<lambda>x. x\<lparr>r_error_code := JStr REMOTE_STATE_UNKNOWN, r_summary := SUMMARY_CALL_UNKNOWN\<rparr>) r s)))) a of
        (Inl e, b) \<Rightarrow> (Inl e, b)
      | (Inr _, b) \<Rightarrow> (raise ''REMOTE_STATE_UNKNOWN'', b))"

definition follow_up :: "app_env \<Rightarrow> unit action \<Rightarrow> outcome \<Rightarrow> unit action" where
  "follow_up env drain saved a =
     (case saved of
        Recorded r has report \<Rightarrow>
          andthen (if terminal (r_status r) then drain else (\<lambda>b. (Inr (), b)))
            (\<lambda>_ b. (Inr (), if has then persist_native_presentation env r report b else b)) a
      | _ \<Rightarrow> (Inr (), a))"

definition record_result_with ::
  "app_env \<Rightarrow> unit action \<Rightarrow> run_id \<Rightarrow> json \<Rightarrow> bool \<Rightarrow> dict option \<Rightarrow> unit action" where
  "record_result_with env drain i result remember approval =
     andthen (record_attempt env i result remember approval) (follow_up env drain)"

definition no_drain :: "unit action" where
  "no_drain a = (Inr (), a)"

definition call_backend ::
  "app_env \<Rightarrow> unit action \<Rightarrow> task \<Rightarrow> run \<Rightarrow> operation \<Rightarrow> string \<Rightarrow> unit action" where
  "call_backend env drain t r p backend_name a =
     (if env_background env backend_name then start_worker env r a
      else
        let b = log_call (r_id r) a
        in case env_call env t r of
             Inl _ \<Rightarrow> call_unknown env r (p\<lparr>o_status := Op_DISPATCHED\<rparr>) b
           | Inr result \<Rightarrow> record_result_with env drain (r_id r) result True None b)"

definition dispatch_failed :: "run \<Rightarrow> exn \<Rightarrow> unit action" where
  "dispatch_failed r e =
     (case e of
        AsterunError code details \<Rightarrow>
          let r' = r\<lparr>r_status := Rs_FAILED, r_error_code := JStr code, r_terminated := True,
                     r_summary := SUMMARY_NOT_DISPATCHED\<rparr>
          in andthen (writing (ms_save_run r')) (\<lambda>_. finish_operation r')
      | _ \<Rightarrow> (\<lambda>a. (Inl e, a)))"

definition swallow_asterun :: "unit action \<Rightarrow> unit action" where
  "swallow_asterun m a =
     (case m a of (Inl e, b) \<Rightarrow> (if is_asterun_error e then Inr () else Inl e, b) | (Inr x, b) \<Rightarrow> (Inr x, b))"

text \<open>
  \<^verbatim>\<open>_dispatch_committed\<close> as the queue calls it. A refusal before the operation is marked
  dispatched fails the run; later the run keeps the state the call left.
\<close>

definition dispatch_queued :: "app_env \<Rightarrow> task \<Rightarrow> run \<Rightarrow> operation \<Rightarrow> string \<Rightarrow> unit action" where
  "dispatch_queued env t r p backend_name a =
     (case prepare_dispatch env t r p of
        (r1, Some e) \<Rightarrow> dispatch_failed r1 e a
      | (r1, None) \<Rightarrow>
          (case mark_dispatching env backend_name r1 a of
             (Inl e, b) \<Rightarrow> dispatch_failed (dispatching r1) e b
           | (Inr _, b) \<Rightarrow>
               swallow_asterun
                 (andthen (mark_dispatched env (dispatching r1) p)
                   (\<lambda>_. call_backend env no_drain t (dispatching r1) p backend_name)) b))"

definition drain_item :: "app_env \<Rightarrow> queue_item \<Rightarrow> unit action" where
  "drain_item env item a =
     (case ms_get_task (ap_store a) (TaskId (qi_task_id item)) of
        Inl e \<Rightarrow> (Inl e, a)
      | Inr t \<Rightarrow>
          case ms_get_run (ap_store a) (RunId (qi_run_id item)) of
            Inl e \<Rightarrow> (Inl e, a)
          | Inr r \<Rightarrow>
              let operation = ms_find_operation_for_run (ap_store a) (r_id r);
                  removed = on_sched (\<lambda>s. remove s (run_val (r_id r))) a
              in if terminal (r_status r) \<or> t_current_run_id t \<noteq> Some (r_id r) then (Inr (), removed)
                 else if t_paused t \<or> t_orchestration_owner t = ''human''
                         \<or> \<not> can_start (ap_sched a) (qi_backend item) (qi_workspace item)
                         \<or> \<not> env_may_advance env t operation then (Inr (), a)
                 else
                   case operation of
                     None \<Rightarrow> (Inr (), a)
                   | Some p \<Rightarrow>
                       if o_status p \<noteq> Op_INTENDED then (Inr (), a)
                       else dispatch_queued env t r p (qi_backend item) removed)"

definition drain_queue :: "app_env \<Rightarrow> unit action" where
  "drain_queue env a =
     (if env_stopping env then (Inr (), a) else each (drain_item env) (queue (ap_sched a)) a)"

definition record_result :: "app_env \<Rightarrow> run_id \<Rightarrow> json \<Rightarrow> bool \<Rightarrow> dict option \<Rightarrow> unit action" where
  "record_result env = record_result_with env (drain_queue env)"

section \<open>Submitting\<close>

text \<open>
  The end of \<^verbatim>\<open>task_submit\<close>, from the built operation, task, run and session on. \<open>ready\<close> tells
  whether the dependencies of the task are met. Here a refused dispatch is the caller's
  error, and the run stays queued.
\<close>

definition dispatch_now :: "app_env \<Rightarrow> task \<Rightarrow> run \<Rightarrow> operation \<Rightarrow> string \<Rightarrow> unit action" where
  "dispatch_now env t r p backend_name a =
     (case prepare_dispatch env t r p of
        (r1, Some e) \<Rightarrow> (Inl e, a)
      | (r1, None) \<Rightarrow>
          andthen (mark_dispatching env backend_name r1) (\<lambda>_.
          andthen (mark_dispatched env (dispatching r1) p) (\<lambda>_.
            call_backend env (drain_queue env) t (dispatching r1) p backend_name)) a)"

definition submit_decision ::
  "mem_store \<Rightarrow> scheduler \<Rightarrow> operation \<Rightarrow> bool \<Rightarrow> string \<Rightarrow> string \<Rightarrow> admission res" where
  "submit_decision s sched p ready backend_name workspace =
     (if ms_find_idempotent_operation s p \<noteq> None then Inr AdmitStart
      else if \<not> ready then (if can_enqueue sched then Inr AdmitQueue else raise ''RATE_LIMITED'')
      else admit sched backend_name (Some workspace))"

definition commit_action ::
  "app_env \<Rightarrow> operation \<Rightarrow> task \<Rightarrow> run \<Rightarrow> session_binding \<Rightarrow> intent action" where
  "commit_action env p t r session a =
     (case ms_commit_intent (env_hash env) p t r (Some session) (ap_store a) of
        (Inl e, s) \<Rightarrow> (Inl e, a\<lparr>ap_store := s\<rparr>)
      | (Inr v, s) \<Rightarrow> transaction (\<lambda>_. Inr (v, s)) a)"

definition submit_tail ::
  "app_env \<Rightarrow> operation \<Rightarrow> task \<Rightarrow> run \<Rightarrow> session_binding \<Rightarrow> bool \<Rightarrow> string \<Rightarrow> string \<Rightarrow> unit action" where
  "submit_tail env p t r session ready backend_name workspace a =
     (case submit_decision (ap_store a) (ap_sched a) p ready backend_name workspace of
        Inl e \<Rightarrow> (Inl e, a)
      | Inr decision \<Rightarrow>
          andthen (commit_action env p t r
              (session\<lparr>s_task_id := Some (t_id t), s_updated_at := env_now env\<rparr>))
            (\<lambda>(p', t', r', reused).
              if reused then no_drain
              else
                andthen (writing (emit env (r_id r') Ev_TASK_CREATED ''core''
                    [(''workspace'', JStr (t_workspace t'))])) (\<lambda>_.
                andthen (writing (emit env (r_id r') Ev_RUN_QUEUED ''core'' [])) (\<lambda>_.
                case decision of
                  AdmitQueue \<Rightarrow>
                    (\<lambda>b. writing (emit env (r_id r') Ev_QUEUE_ACCEPTED ''core''
                        [(''backend'', JStr backend_name)])
                      (on_sched (\<lambda>s. enqueue s backend_name (task_val (t_id t')) (run_val (r_id r'))
                         (Some workspace)) b))
                | AdmitStart \<Rightarrow> dispatch_now env t' r' p' backend_name))) a)"

section \<open>Polling, cancelling, reconciling, restarting\<close>

definition retry_retained_results :: "app_env \<Rightarrow> unit action" where
  "retry_retained_results env a =
     each (\<lambda>(k, c). record_result env (RunId k) (rr_result c) False (rr_approval c))
       (filter (\<lambda>(k, c). rr_ready_at_poll c \<le> ap_poll_epoch a) (ap_retained a)) a"

text \<open>
  One poll: \<open>updates\<close> are the results the workers have published, \<open>alive\<close> tells which workers
  still run.
\<close>

definition poll :: "app_env \<Rightarrow> (run_id \<times> json) list \<Rightarrow> (string \<Rightarrow> bool) \<Rightarrow> unit action" where
  "poll env updates alive a =
     andthen (retry_retained_results env) (\<lambda>_.
     andthen (each (\<lambda>(i, result). record_result env i result True None) updates) (\<lambda>_ b.
       drain_queue env (b\<lparr>ap_workers := filter alive (ap_workers b)\<rparr>)))
       (a\<lparr>ap_poll_epoch := ap_poll_epoch a + 1\<rparr>)"

definition apply_retained_result_if_any :: "app_env \<Rightarrow> unit action \<Rightarrow> run \<Rightarrow> unit action" where
  "apply_retained_result_if_any env drain r a =
     (case dget (r_native r) UNAPPLIED_RESULT of
        JObj d \<Rightarrow>
          if run_val (r_id r) \<in> set (ap_workers a) then (Inr (), a)
          else record_result_with env drain (r_id r) (JObj d) False (as_dict (dget (r_native r) UNAPPLIED_APPROVAL)) a
      | _ \<Rightarrow> (Inr (), a))"

definition release_body :: "app_env \<Rightarrow> run_id \<Rightarrow> mem_store \<Rightarrow> ((bool \<times> run) \<times> mem_store) res" where
  "release_body env i s =
     bind_res (ms_get_run s i) (\<lambda>current.
       if terminal (r_status current) \<or> ms_find_operation_for_run s (r_id current) \<noteq> None
       then Inr ((False, current), s)
       else
         let r1 = assign_slot False current;
             s1 = (if r_status current \<noteq> Rs_PENDING_RECONCILE
                   then emit_kept env (r_id current) [(''reason'', JStr ''operation_missing'')]
                     (snd (set_run Rs_PENDING_RECONCILE (keep_for_reconcile SUMMARY_UNTRACKED) r1 s))
                   else ms_save_run r1 s)
         in bind_res (ms_get_run s1 (r_id current)) (\<lambda>r2. Inr ((True, r2), s1)))"

definition release_untracked_run :: "app_env \<Rightarrow> run \<Rightarrow> run action" where
  "release_untracked_run env r =
     (if terminal (r_status r) then andthen (project_slot env r) (\<lambda>_ b. (Inr r, b))
      else andthen (transaction (release_body env (r_id r))) (\<lambda>(released, current) b.
        if released then andthen (project_slot env current) (\<lambda>_ c. (Inr current, c)) b
        else (Inr current, b)))"

definition reconcile_view :: "task_id \<Rightarrow> operation option \<Rightarrow> run \<Rightarrow> bool \<Rightarrow> dict" where
  "reconcile_view i operation r unknown =
     [(''task_id'', JStr (task_val i)), (''found'', JBool True)]
     @ (case operation of None \<Rightarrow> [(''operation_status'', JNull)]
        | Some p \<Rightarrow> [(''operation_id'', JStr (operation_val (o_id p))),
                     (''operation_status'', JStr (str_operation_status (o_status p)))])
     @ [(''run_id'', JStr (run_val (r_id r))), (''run_status'', JStr (str_run_status (r_status r))),
        (''error_code'', r_error_code r), (''re_dispatched'', JBool False),
        (''terminal'', JBool (terminal (r_status r))), (''unknown'', JBool unknown), (''locatable'', JBool True)]"

definition closed_view :: "task_id \<Rightarrow> run option \<Rightarrow> dict" where
  "closed_view i found =
     [(''task_id'', JStr (task_val i)), (''found'', JBool True), (''operation_status'', JNull),
      (''run_status'', case found of None \<Rightarrow> JNull | Some r \<Rightarrow> JStr (str_run_status (r_status r))),
      (''re_dispatched'', JBool False),
      (''terminal'', JBool (case found of None \<Rightarrow> False | Some r \<Rightarrow> terminal (r_status r))),
      (''unknown'', JBool False), (''locatable'', JBool True)]"

definition demote_unknown :: "app_env \<Rightarrow> task_id \<Rightarrow> run \<Rightarrow> operation \<Rightarrow> dict action" where
  "demote_unknown env i r p =
     (let p' = p\<lparr>o_status := Op_UNKNOWN\<rparr>
      in andthen (writing (ms_save_operation p')) (\<lambda>_.
         andthen (if r_status r \<noteq> Rs_PENDING_RECONCILE
                  then writing (\<lambda>s. snd (set_run Rs_PENDING_RECONCILE
                         (\<lambda>x. x\<lparr>r_error_code := JStr REMOTE_STATE_UNKNOWN\<rparr>) r s))
                  else (\<lambda>b. (Inr (), b))) (\<lambda>_.
         andthen (reading (\<lambda>s. ms_get_run s (r_id r))) (\<lambda>r'.
         andthen (writing (emit_kept env (r_id r) [])) (\<lambda>_ b.
           (Inr (reconcile_view i (Some p') r' True), b))))))"

definition reconcile_run :: "app_env \<Rightarrow> task \<Rightarrow> run \<Rightarrow> dict action" where
  "reconcile_run env t r a =
     (case ms_find_operation_for_run (ap_store a) (r_id r) of
        None \<Rightarrow>
          if terminal (r_status r) then (Inr (closed_view (t_id t) (Some r)), a)
          else andthen (release_untracked_run env r)
                 (\<lambda>r' b. (Inr (reconcile_view (t_id t) None r' True), b)) a
      | Some p \<Rightarrow>
          if run_val (r_id r) \<in> set (ap_workers a) then
            (Inr [(''task_id'', JStr (task_val (t_id t))), (''run_id'', JStr (run_val (r_id r))),
                  (''run_status'', JStr (str_run_status (r_status r))), (''re_dispatched'', JBool False),
                  (''terminal'', JBool (terminal (r_status r))), (''unknown'', JBool False),
                  (''observing'', JBool True)], a)
          else
            let unknown = (\<not> terminal (r_status r)
                  \<and> (o_status p = Op_DISPATCHED \<or> o_status p = Op_UNKNOWN \<or> r_status r = Rs_PENDING_RECONCILE))
            in if unknown \<and> o_status p = Op_DISPATCHED then demote_unknown env (t_id t) r p a
               else (Inr (reconcile_view (t_id t) (Some p) r unknown), a))"

definition reconcile_one :: "app_env \<Rightarrow> unit action \<Rightarrow> task_id \<Rightarrow> dict action" where
  "reconcile_one env drain i =
     andthen (reading (\<lambda>s. ms_get_task s i)) (\<lambda>t.
       case t_current_run_id t of
         None \<Rightarrow> (\<lambda>a. (Inr (closed_view (t_id t) None), a))
       | Some ri \<Rightarrow>
           andthen (reading (\<lambda>s. ms_get_run s ri)) (\<lambda>r.
           andthen (apply_retained_result_if_any env drain r) (\<lambda>_.
           andthen (reading (\<lambda>s. ms_get_run s (r_id r))) (\<lambda>r'.
             reconcile_run env t r'))))"

definition restore_dispatched :: "app_env \<Rightarrow> task \<Rightarrow> run \<Rightarrow> unit action" where
  "restore_dispatched env t r =
     (case env_lost env r of
        Some lost \<Rightarrow>
          andthen (record_result_with env no_drain (r_id r) lost True None) (\<lambda>_. project_run env (r_id r))
      | None \<Rightarrow>
          andthen (project_slot env r) (\<lambda>_.
          andthen (reconcile_one env no_drain (t_id t)) (\<lambda>_ b. (Inr (), b))))"

definition restore_open :: "app_env \<Rightarrow> task \<Rightarrow> run \<Rightarrow> unit action" where
  "restore_open env t r a =
     (if terminal (r_status r) then project_slot env r a
      else
        case ms_find_operation_for_run (ap_store a) (r_id r) of
          None \<Rightarrow> andthen (reconcile_one env no_drain (t_id t)) (\<lambda>_ b. (Inr (), b)) a
        | Some p \<Rightarrow>
            if o_status p = Op_INTENDED then
              (Inr (), on_sched (\<lambda>s. enqueue (finish s (backend_val (r_backend r)) (Some (run_val (r_id r))))
                  (backend_val (r_backend r)) (task_val (t_id t)) (run_val (r_id r))
                  (Some (env_workspace_key env t))) a)
            else restore_dispatched env t r a)"

definition restore_task :: "app_env \<Rightarrow> task_id \<Rightarrow> unit action" where
  "restore_task env i =
     andthen (reading (\<lambda>s. ms_get_task s i)) (\<lambda>t.
       case t_current_run_id t of
         None \<Rightarrow> (\<lambda>a. (Inr (), a))
       | Some ri \<Rightarrow>
           andthen (reading (\<lambda>s. ms_get_run s ri)) (\<lambda>r.
             if terminal (r_status r) then (\<lambda>a. (Inr (), a))
             else
               andthen (apply_retained_result_if_any env no_drain r) (\<lambda>_.
               andthen (reading (\<lambda>s. ms_get_run s (r_id r))) (\<lambda>r'. restore_open env t r'))))"

definition restore_scheduler :: "app_env \<Rightarrow> unit action" where
  "restore_scheduler env a =
     andthen (each (restore_task env) (ms_list_task_ids (ap_store a)))
       (\<lambda>_. if env_executor env then drain_queue env else no_drain) a"

text \<open>
  A new process on the same store: \<^verbatim>\<open>Application.__init__\<close> starts with an empty scheduler, no
  retained results and no workers.
\<close>

definition new_application :: "sched_config \<Rightarrow> mem_store \<Rightarrow> run_id list \<Rightarrow> exn option list \<Rightarrow> app" where
  "new_application config s calls faults =
     \<lparr>ap_store = s, ap_sched = new_scheduler config, ap_retained = [], ap_poll_epoch = 0,
      ap_workers = [], ap_calls = calls, ap_faults = faults\<rparr>"

definition restart :: "app_env \<Rightarrow> sched_config \<Rightarrow> int \<Rightarrow> unit action" where
  "restart env config revision a =
     (case ms_bootstrap_applied_revision revision (ap_store a) of
        (_, s) \<Rightarrow> restore_scheduler env (new_application config s (ap_calls a) (ap_faults a)))"

text \<open>\<^verbatim>\<open>quality.pause\<close> with a phase, as a cancellation uses it.\<close>

definition pause_quality :: "string \<Rightarrow> string \<Rightarrow> string \<Rightarrow> task \<Rightarrow> task" where
  "pause_quality code message phase t =
     t\<lparr>t_paused := True, t_orchestration_owner := ''human'', t_acceptance := Acc_PENDING,
       t_quality := dset (dset (t_quality t) ''blocked_reason''
         (JObj [(''code'', JStr code), (''message'', JStr message)])) ''phase'' (JStr phase)\<rparr>"

definition quality_in_progress :: "task \<Rightarrow> bool res" where
  "quality_in_progress t =
     (if t_quality t = [] then Inr False
      else bind_res (getitem (t_quality t) ''phase'') (\<lambda>phase.
        Inr (phase \<notin> {JStr ''completed'', JStr ''blocked'', JStr ''stale''})))"

definition cancel_open :: "app_env \<Rightarrow> task \<Rightarrow> run \<Rightarrow> run action" where
  "cancel_open env t r =
     (case env_cancel_guard env t r of
        Some e \<Rightarrow> (\<lambda>a. (Inl e, a))
      | None \<Rightarrow>
          andthen (writing (\<lambda>s. emit env (r_id r) Ev_CANCEL_REQUESTED ''core''
              [(''accepted'', JBool True), (''terminated'', JBool False)]
              (ms_save_run (r\<lparr>r_cancel_requested := True\<rparr>) s))) (\<lambda>_.
          andthen (\<lambda>a.
            case ms_find_operation_for_run (ap_store a) (r_id r) of
              Some p \<Rightarrow>
                if o_status p = Op_INTENDED then
                  (Inr [(''status'', JStr ''cancelled''), (''terminated'', JBool True),
                        (''summary'', JStr SUMMARY_QUEUE_CANCELLED)],
                   on_sched (\<lambda>s. remove s (run_val (r_id r))) a)
                else (Inr (env_cancel env r), a)
            | None \<Rightarrow> (Inr (env_cancel env r), a)) (\<lambda>result.
          andthen (if truthy (dget result ''terminated'') \<or> truthy (dget result ''raced_completion'')
                   then record_result env (r_id r) (JObj result) True None else no_drain) (\<lambda>_.
          reading (\<lambda>s. ms_get_run s (r_id r))))))"

definition task_cancel :: "app_env \<Rightarrow> task_id \<Rightarrow> run action" where
  "task_cancel env i =
     andthen (reading (\<lambda>s. ms_get_task s i)) (\<lambda>t.
     andthen (reading (\<lambda>_. case env_authorize env t of Some e \<Rightarrow> Inl e | None \<Rightarrow> Inr ())) (\<lambda>_.
       case t_current_run_id t of
         None \<Rightarrow> (\<lambda>a. (raise ''NOT_FOUND'', a))
       | Some ri \<Rightarrow>
           andthen (reading (\<lambda>s. ms_get_run s ri)) (\<lambda>r.
           andthen (reading (\<lambda>_. quality_in_progress t)) (\<lambda>pausing.
           andthen (if pausing
                    then writing (ms_save_task (pause_quality ''INVALID_REQUEST'' QUALITY_CANCELLED ''blocked'' t))
                    else no_drain) (\<lambda>_.
             if terminal (r_status r) then
               (\<lambda>a. if pausing then (Inr r, a)
                     else (Inl (AsterunError ''RUN_ALREADY_TERMINAL''
                       [(''status'', JStr (str_run_status (r_status r))),
                        (''cancel_requested'', JBool (r_cancel_requested r))]), a))
             else cancel_open env t r)))))"

end
