(* ===== verification/Segments.thy ===== *)
theory Segments
  imports Capsule_Assembly Budget_Ledger Run_Lifecycle
begin

text \<open>
  A long task runs in segments, \<^verbatim>\<open>src/asterun/context_budget/segment.py\<close>: a dispatch is planned
  as a segment, and when the run ends at its turn limit or with the marker line, a successor
  run with a fresh prompt made from the capsule is committed and queued. The state is the
  application's, with the table of capsules and the control store of the token budgets.

  The configuration, the adapters in use, the quality control of an operation and the
  random identifiers are the record \<open>seg_env\<close>. \<open>None\<close> of \<open>sg_quality\<close> is an application without
  capabilities. An attribute a value lacks is \<open>TypeError\<close> here too.
\<close>

section \<open>Constants and state\<close>

definition SEGMENT_KINDS :: "string list" where
  "SEGMENT_KINDS = [''grok'', ''fake'', ''codex'', ''antigravity'']"

definition MARKER :: string where "MARKER = ''ASTERUN-SEGMENT: CONTINUE''"

definition MARKER_KINDS :: "string list" where
  "MARKER_KINDS = [''codex'', ''antigravity'']"

definition KIND_ALIASES :: "(string \<times> string) list" where
  "KIND_ALIASES = [(''google.antigravity-cli'', ''antigravity'')]"

definition alias_kind :: "string \<Rightarrow> string" where
  "alias_kind kind = (case map_of KIND_ALIASES kind of None \<Rightarrow> kind | Some k \<Rightarrow> k)"

definition CODE_PROFILE :: string where "CODE_PROFILE = ''workspace-code-v1''"
definition DEFAULT_CODE_MAX_TURNS :: int where "DEFAULT_CODE_MAX_TURNS = 40"
definition MAX_PROMPT_BYTES :: nat where "MAX_PROMPT_BYTES = 96 * 1024"

definition SESSION_KEYS :: "string list" where
  "SESSION_KEYS = [''backend_session_id'', ''session_id'', ''thread_id'', ''provider_session_id'']"

definition CONTINUE_NOTE :: string where
  "CONTINUE_NOTE = utf8_bytes
    [10, 231, 187, 173, 230, 174, 181, 232, 175, 180, 230, 152, 142, 239, 188, 136, 228, 189, 142, 228, 191, 161,
     228, 187, 187, 230, 149, 176, 230, 141, 174, 239, 188, 140, 228, 184, 141, 230, 137, 169, 229, 164, 167, 230,
     157, 131, 233, 153, 144, 230, 136, 150, 233, 162, 132, 231, 174, 151, 239, 188, 137, 239, 188, 154, 229, 183,
     165, 228, 189, 156, 230, 160, 145, 229, 183, 178, 229, 144, 171, 229, 137, 141, 230, 174, 181, 230, 148, 185,
     229, 138, 168, 239, 188, 140, 229, 133, 136, 32, 103, 105, 116, 32, 115, 116, 97, 116, 117, 115, 32, 47, 32,
     103, 105, 116, 32, 100, 105, 102, 102, 32, 230, 160, 184, 229, 175, 185, 239, 188, 155, 228, 184, 141, 232,
     166, 129, 233, 135, 141, 229, 129, 154, 229, 183, 178, 229, 174, 140, 230, 136, 144, 230, 173, 165, 233, 170,
     164, 239, 188, 155, 228, 184, 141, 232, 166, 129, 233, 135, 141, 229, 164, 141, 32, 117, 110, 99, 111, 110,
     102, 105, 114, 109, 101, 100, 95, 97, 99, 116, 105, 111, 110, 115, 32, 228, 184, 173, 231, 154, 132, 229, 138,
     168, 228, 189, 156, 227, 128, 130]"

record backend_config =
  bc_kind :: string
  bc_max_turns :: int
  bc_profile :: "string option"

record seg_env =
  sg_app :: app_env
  sg_budget :: budget_env
  sg_capsule :: capsule_env
  sg_backend :: "string \<Rightarrow> backend_config res"
  sg_live :: "string \<Rightarrow> string option option"
  sg_max_runs :: int
  sg_quality :: "(operation \<Rightarrow> bool res) option"
  sg_root :: "string \<Rightarrow> string res"
  sg_operation :: operation_id
  sg_run :: run_id

record seg_state =
  ss_app :: app
  ss_rows :: "capsule_row list"
  ss_ledger :: control_db

type_synonym 'a seg_action = "seg_state \<Rightarrow> 'a res \<times> seg_state"

definition seg_then :: "'a seg_action \<Rightarrow> ('a \<Rightarrow> 'b seg_action) \<Rightarrow> 'b seg_action" where
  "seg_then m f st = (case m st of (Inl e, st') \<Rightarrow> (Inl e, st') | (Inr x, st') \<Rightarrow> f x st')"

definition at_seg :: "'a action \<Rightarrow> 'a seg_action" where
  "at_seg m st = (case m (ss_app st) of (v, a) \<Rightarrow> (v, st\<lparr>ss_app := a\<rparr>))"

definition seg_read :: "(seg_state \<Rightarrow> 'a res) \<Rightarrow> 'a seg_action" where
  "seg_read f st = (f st, st)"

text \<open>\<^verbatim>\<open>try: ... except Exception: pass\<close>\<close>

definition seg_attempt :: "'a seg_action \<Rightarrow> 'a option seg_action" where
  "seg_attempt m st = (case m st of (Inl e, st') \<Rightarrow> (Inr None, st') | (Inr x, st') \<Rightarrow> (Inr (Some x), st'))"

abbreviation seg_store :: "seg_state \<Rightarrow> mem_store" where
  "seg_store st \<equiv> ap_store (ss_app st)"

section \<open>Who owns a task\<close>

definition segmentation_blocked :: "task \<Rightarrow> run \<Rightarrow> bool" where
  "segmentation_blocked t r \<longleftrightarrow> t_quality t \<noteq> [] \<or> r_target_hash r \<noteq> []
     \<or> truthy (dget (r_native r) ''external_repair_target'') \<or> t_read_scope t \<noteq> None
     \<or> truthy (t_capability t) \<or> t_dependencies t \<noteq> []"

text \<open>An exception on the way counts as owned.\<close>

definition control_owned :: "seg_env \<Rightarrow> mem_store \<Rightarrow> task \<Rightarrow> run \<Rightarrow> bool" where
  "control_owned env s t r =
     (let runs = ms_list_runs s (t_id t); all = (if r_id r \<in> r_id ` set runs then runs else runs @ [r])
      in list_ex (\<lambda>x. case ms_find_operation_for_run s (r_id x) of
             None \<Rightarrow> False
           | Some p \<Rightarrow> starts_with ''rcp_'' (o_idempotency_key p)
               \<or> (case sg_quality env of None \<Rightarrow> False | Some q \<Rightarrow> q p \<noteq> Inr False)) all)"

section \<open>The plan of a dispatch\<close>

definition grok_execution_profile :: "seg_env \<Rightarrow> run \<Rightarrow> backend_config \<Rightarrow> string option" where
  "grok_execution_profile env r configured =
     (case sg_live env (backend_val (r_backend r)) of Some p \<Rightarrow> p | None \<Rightarrow> bc_profile configured)"

definition seg_positive :: "json \<Rightarrow> bool" where
  "seg_positive v = (case v of JInt n \<Rightarrow> 0 < n | _ \<Rightarrow> False)"

definition seg_roles :: "dict \<Rightarrow> json" where
  "seg_roles segmentation = dget_or segmentation ''roles'' (JArr [JStr ''implementation'', JStr ''repair''])"

definition listed :: "string \<Rightarrow> json \<Rightarrow> bool" where
  "listed x v = (case v of JArr xs \<Rightarrow> JStr x \<in> set xs | _ \<Rightarrow> False)"

text \<open>The profile of a run that may be segmented, with its key and the kind and settings of its backend.\<close>

definition segment_profile ::
  "seg_env \<Rightarrow> task \<Rightarrow> run \<Rightarrow> (string \<times> backend_config \<times> string \<times> dict) option res" where
  "segment_profile env t r =
     (if segmentation_blocked t r then Inr None
      else bind_res (context_budget_settings (sg_budget env)) (\<lambda>settings.
        let segmentation = dict_or_empty (dget settings ''segmentation''); backends = dget segmentation ''backends'';
            role = run_role r; name = backend_val (r_backend r) in
        if dget settings ''mode'' \<noteq> JStr ''enforce'' \<or> \<not> is_list backends \<or> backends = JArr [] \<or> role = ''review''
           \<or> \<not> listed role (seg_roles segmentation) \<or> \<not> listed name backends then Inr None
        else bind_res (sg_backend env name) (\<lambda>backend.
          let kind = alias_kind (bc_kind backend) in
          if kind \<notin> set SEGMENT_KINDS
             \<or> kind = ''grok'' \<and> grok_execution_profile env r backend \<noteq> Some CODE_PROFILE
             \<or> kind = ''codex'' \<and> role \<noteq> ''implementation'' \<or> t_external_require_review t then Inr None
          else
            let profiles = dict_or_empty (dget settings ''profiles'');
                (key, _) = matched_profile (sg_budget env) name role profiles in
            (case dget profiles key of
               JObj profile \<Rightarrow> Inr (Some (kind, backend, key, profile))
             | _ \<Rightarrow> Inr None))))"

definition profile_allows :: "string \<Rightarrow> dict \<Rightarrow> bool" where
  "profile_allows kind profile \<longleftrightarrow>
     (if kind = ''antigravity'' then dget profile ''segment'' = JBool True
      else dget profile ''segment'' \<noteq> JBool False)
     \<and> (if kind \<in> set MARKER_KINDS then seg_positive (dget profile ''segment_soft'')
        else dhas profile ''segment_turns'')"

text \<open>\<^verbatim>\<open>min(segment_turns, backend.max_turns or DEFAULT_CODE_MAX_TURNS)\<close>; the configuration holds an integer.\<close>

definition turn_cap :: "string \<Rightarrow> backend_config \<Rightarrow> json \<Rightarrow> json res" where
  "turn_cap kind backend turns =
     (if kind = ''fake'' then Inr turns
      else (case turns of
              JInt n \<Rightarrow> Inr (JInt (min n (if bc_max_turns backend = 0 then DEFAULT_CODE_MAX_TURNS else bc_max_turns backend)))
            | _ \<Rightarrow> Inl TypeError))"

definition first_plan :: "string \<Rightarrow> backend_config \<Rightarrow> string \<Rightarrow> dict \<Rightarrow> json res" where
  "first_plan kind backend key profile =
     (let plan = (\<lambda>max_turns trigger. [(''index'', JInt 0), (''max_turns'', max_turns), (''profile_key'', JStr key),
            (''max_segments'', dget profile ''max_segments''), (''trigger'', JStr trigger)])
      in if kind \<in> set MARKER_KINDS
         then Inr (JObj (plan JNull ''marker'' @ [(''segment_soft'', dget profile ''segment_soft'')]))
         else bind_res (turn_cap kind backend (dget profile ''segment_turns'')) (\<lambda>turns.
                Inr (JObj (plan turns ''turn_limit''))))"

text \<open>\<open>JNull\<close> is \<^verbatim>\<open>None\<close>: the dispatch is not a segment.\<close>

definition plan_segment :: "seg_env \<Rightarrow> mem_store \<Rightarrow> task \<Rightarrow> run \<Rightarrow> json res" where
  "plan_segment env s t r =
     bind_res (segment_profile env t r) (\<lambda>found.
       case found of
         None \<Rightarrow> Inr JNull
       | Some (kind, backend, key, profile) \<Rightarrow>
           if \<not> profile_allows kind profile then Inr JNull
           else if control_owned env s t r then Inr JNull
           else if dget (r_native r) ''segment'' \<noteq> JNull then Inr (dget (r_native r) ''segment'')
           else first_plan kind backend key profile)"

section \<open>The end of a segment\<close>

definition is_antigravity_native :: "dict \<Rightarrow> bool res" where
  "is_antigravity_native native =
     (let plugin_id = dget native ''plugin_id'' in
      if \<not> hashable plugin_id then Inl TypeError
      else Inr ((case plugin_id of JStr i \<Rightarrow> map_of KIND_ALIASES i = Some ''antigravity'' | _ \<Rightarrow> False)
                \<or> dhas native DISPATCH_KEY))"

definition summary_lines :: "run \<Rightarrow> string list" where
  "summary_lines r = filter (\<lambda>l. l \<noteq> []) (map strip (splitlines (r_summary r)))"

definition marker_end :: "run \<Rightarrow> dict \<Rightarrow> bool res" where
  "marker_end r seg =
     (let lines = summary_lines r; native = r_native r in
      if r_status r \<noteq> Rs_SUCCEEDED \<or> lines = [] \<or> last lines \<noteq> MARKER then Inr False
      else bind_res (is_antigravity_native native) (\<lambda>agy.
        if agy \<and> \<not> dhas native ''subagent_count'' then Inr False
        else if truthy (dget native ''subagent_count'') then Inr False
        else bind_res (run_processed native) (\<lambda>processed.
          Inr (case (processed, dget seg ''segment_soft'') of
                 (Some n, JInt soft) \<Rightarrow> soft \<le> n | _ \<Rightarrow> False))))"

definition segment_end :: "run \<Rightarrow> bool res" where
  "segment_end r =
     (case dget (r_native r) ''segment'' of
        JObj seg \<Rightarrow>
          if dget_or seg ''trigger'' (JStr ''turn_limit'') = JStr ''turn_limit'' then
            Inr (r_status r = Rs_FAILED
                 \<and> dget (dict_or_empty (dget (r_native r) ''provider_failure'')) ''kind'' = JStr ''turn_limit'')
          else marker_end r seg
      | _ \<Rightarrow> Inr False)"

section \<open>Marking the source\<close>

definition end_mark :: "string \<Rightarrow> json \<Rightarrow> run \<Rightarrow> run" where
  "end_mark reason continued_by r =
     r\<lparr>r_native := dset (r_native r) ''segment_end''
         (JObj [(''reason'', JStr reason), (''continued_by'', continued_by)])\<rparr>"

text \<open>The caller's run is marked too; it is the result.\<close>

definition mark_segment_end :: "run \<Rightarrow> string \<Rightarrow> json \<Rightarrow> run seg_action" where
  "mark_segment_end r reason continued_by =
     seg_then (at_seg (reading (\<lambda>s. ms_get_run s (r_id r)))) (\<lambda>src.
     seg_then (at_seg (writing (ms_save_run (end_mark reason continued_by src)))) (\<lambda>_ st.
       (Inr (end_mark reason continued_by r), st)))"

definition kept_reason :: "dict \<Rightarrow> string" where
  "kept_reason marker =
     (case dget marker ''reason'' of JStr s \<Rightarrow> if s = [] then ''turn_budget'' else s | _ \<Rightarrow> ''turn_budget'')"

definition segment_key :: "pylib \<Rightarrow> task \<Rightarrow> run_id \<Rightarrow> json \<Rightarrow> string" where
  "segment_key L t source index =
     ''seg:'' @ task_val (t_id t) @ '':'' @ run_val source @ '':'' @ fstr L index"

definition restore_continued_by :: "seg_env \<Rightarrow> task \<Rightarrow> run \<Rightarrow> run \<Rightarrow> dict \<Rightarrow> bool seg_action" where
  "restore_continued_by env t source r marker st =
     (case dget (r_native r) ''segment'' of
        JObj segment \<Rightarrow>
          if truthy (dget marker ''continued_by'')
             \<or> dget (r_native r) ''segment_source_run_id'' \<noteq> JStr (run_val (r_id source))
             \<or> \<not> dhas segment ''index'' then (Inr False, st)
          else (case ms_find_operation_for_run (seg_store st) (r_id r) of
                  None \<Rightarrow> (Inr False, st)
                | Some p \<Rightarrow>
                    if o_idempotency_key p
                       \<noteq> segment_key (env_lib (sg_app env)) t (r_id source) (dget segment ''index'')
                    then (Inr False, st)
                    else seg_then (at_seg (writing (ms_save_run
                           (end_mark (kept_reason marker) (JStr (run_val (r_id r))) source))))
                           (\<lambda>_ st'. (Inr True, st')) st)
      | _ \<Rightarrow> (Inr False, st))"

definition backfill_continued_by :: "task \<Rightarrow> run \<Rightarrow> unit seg_action" where
  "backfill_continued_by t r =
     seg_then (at_seg (reading (\<lambda>s. ms_get_run s (r_id r)))) (\<lambda>src.
       let marker = dict_or_empty (dget (r_native src) ''segment_end'') in
       if truthy (dget marker ''continued_by'') then (\<lambda>st. (Inr (), st))
       else
         seg_then (at_seg (reading (\<lambda>s. ms_get_task s (t_id t)))) (\<lambda>current.
         case t_current_run_id current of
           None \<Rightarrow> (\<lambda>st. (Inr (), st))
         | Some successor_id \<Rightarrow>
             if successor_id = r_id r then (\<lambda>st. (Inr (), st))
             else
               seg_then (at_seg (reading (\<lambda>s. ms_get_run s successor_id))) (\<lambda>successor.
                 if dget (r_native successor) ''segment_source_run_id'' \<noteq> JStr (run_val (r_id r))
                 then (\<lambda>st. (Inr (), st))
                 else at_seg (writing (ms_save_run
                        (end_mark (kept_reason marker) (JStr (run_val successor_id)) src))))))"

section \<open>Before a continuation is dispatched\<close>

definition capsule_matches :: "seg_env \<Rightarrow> task \<Rightarrow> string \<Rightarrow> json \<Rightarrow> seg_state \<Rightarrow> bool res" where
  "capsule_matches env t source_id capsule_id st =
     (case find (\<lambda>x. cr_run_id x = source_id \<and> cr_trigger x = ''segment_end'') (ss_rows st) of
        None \<Rightarrow> Inr False
      | Some row \<Rightarrow>
          (case cr_blob_sha256 row of
             None \<Rightarrow> Inr False
           | Some d \<Rightarrow>
               if cr_ready row \<noteq> 1 \<or> d = [] then Inr False
               else (case load_capsule (sg_capsule env) (seg_store st) d of
                       Inr (JObj c) \<Rightarrow>
                         if dget c ''capsule_id'' \<noteq> capsule_id then Inr False
                         else bind_res (verify_capsule (sg_capsule env) t (JObj c)) (\<lambda>problems. Inr (problems = []))
                     | _ \<Rightarrow> Inr False)))"

text \<open>Whether the source names this run as its successor, its mark restored where it is missing.\<close>

definition follow_mark :: "seg_env \<Rightarrow> task \<Rightarrow> run \<Rightarrow> run \<Rightarrow> bool seg_action" where
  "follow_mark env t source r =
     (let marker = dict_or_empty (dget (r_native source) ''segment_end'')
      in if dget marker ''continued_by'' = JStr (run_val (r_id r)) then (\<lambda>st. (Inr True, st))
         else restore_continued_by env t source r marker)"

definition follow_capsule :: "seg_env \<Rightarrow> task \<Rightarrow> run \<Rightarrow> bool \<Rightarrow> seg_state \<Rightarrow> unit res" where
  "follow_capsule env t r followed st =
     (if \<not> followed \<or> t_current_run_id t \<noteq> Some (r_id r) then raise ''REVISION_CONFLICT''
      else bind_res (capsule_matches env t (str_of (dget (r_native r) ''segment_source_run_id''))
             (dget (r_native r) ''restored_from_capsule_id'') st) (\<lambda>matched.
           if matched then Inr () else raise ''REVISION_CONFLICT''))"

text \<open>\<^verbatim>\<open>guard_continuation\<close>: a run without a source passes; any failed check refuses the dispatch.\<close>

definition guard_continuation :: "seg_env \<Rightarrow> task \<Rightarrow> run \<Rightarrow> unit seg_action" where
  "guard_continuation env t r st =
     (let source_id = dget (r_native r) ''segment_source_run_id''; s = seg_store st in
      if \<not> truthy source_id then (Inr (), st)
      else if control_owned env s t r \<or> t_external_require_review t
      then (raise ''CAPABILITY_UNSUPPORTED'', st)
      else case plan_segment env s t r of
          Inl e \<Rightarrow> (Inl e, st)
        | Inr planned \<Rightarrow>
            if planned = JNull then (raise ''CAPABILITY_UNSUPPORTED'', st)
            else if sg_max_runs env < t_run_count t then (raise ''BUDGET_EXHAUSTED'', st)
            else case bind_res (typed_id RunId source_id) (ms_get_run s) of
                Inl e \<Rightarrow> (Inl e, st)
              | Inr source \<Rightarrow>
                  if \<not> terminal (r_status source) then (raise ''REVISION_CONFLICT'', st)
                  else seg_then (follow_mark env t source r) (\<lambda>followed. seg_read (follow_capsule env t r followed)) st)"

section \<open>Resuming the native session\<close>

definition below :: "int option \<Rightarrow> json \<Rightarrow> bool" where
  "below v limit =
     (case (v, limit) of (Some n, JInt m) \<Rightarrow> 0 \<le> n \<and> n < m | _ \<Rightarrow> False)"

definition has_native_session :: "dict \<Rightarrow> bool" where
  "has_native_session native \<longleftrightarrow>
     (\<exists>k \<in> set SESSION_KEYS. case dget native k of JStr s \<Rightarrow> \<not> is_blank s | _ \<Rightarrow> False)"

definition curve_event :: "event \<Rightarrow> json" where
  "curve_event e =
     JObj (if dhas (e_payload e) ''type'' then e_payload e
           else e_payload e @ [(''type'', JStr (str_event_type (e_type e)))])"

definition resume_allowed :: "seg_env \<Rightarrow> mem_store \<Rightarrow> run \<Rightarrow> bool res" where
  "resume_allowed env s r =
     bind_res (sg_backend env (backend_val (r_backend r))) (\<lambda>backend.
       if bc_kind backend \<noteq> ''grok'' then Inr False
       else bind_res (context_budget_settings (sg_budget env)) (\<lambda>settings.
            bind_res (normalize_breakdown (JObj (r_native r))) (\<lambda>p.
              let segmentation = dict_or_empty (dget settings ''segmentation'');
                  curve = grok_residency_curve (map curve_event (events_from s (r_id r) 0))
              in Inr (below (pic_processed p) (dget_or segmentation ''min_long_task_processed'' (JInt 600000))
                      \<and> rc_count curve \<noteq> 0 \<and> \<not> rc_partial curve
                      \<and> below (rc_peak curve) (dget_or segmentation ''resume_max_residency'' (JInt 100000))
                      \<and> has_native_session (r_native r)))))"

definition resume_decision :: "seg_env \<Rightarrow> mem_store \<Rightarrow> run \<Rightarrow> string" where
  "resume_decision env s r = (if resume_allowed env s r = Inr True then ''resume'' else ''new_session'')"

text \<open>\<^verbatim>\<open>_segment_session_native\<close> of \<^verbatim>\<open>application.py\<close>: the session a resuming segment continues.\<close>

definition session_text :: "dict \<Rightarrow> json" where
  "session_text native =
     (case List.map_filter (\<lambda>k. case dget native k of JStr s \<Rightarrow> if is_blank s then None else Some s | _ \<Rightarrow> None)
             [''backend_session_id'', ''session_id''] of
        [] \<Rightarrow> JNull | x # _ \<Rightarrow> JStr x)"

definition segment_session_native :: "mem_store \<Rightarrow> run \<Rightarrow> dict" where
  "segment_session_native s r =
     [(''backend_session_id'',
       case dget (r_native r) ''segment_source_run_id'' of
         JStr i \<Rightarrow>
           if is_blank i then JNull
           else (case ms_get_run s (RunId i) of Inl _ \<Rightarrow> JNull | Inr source \<Rightarrow> session_text (r_native source))
       | _ \<Rightarrow> JNull),
      (''turn_id'', JNull)]"

section \<open>Continuing\<close>

text \<open>Writing a capsule is one transaction on the store and the table.\<close>

definition seg_capsule :: "seg_env \<Rightarrow> task \<Rightarrow> run \<Rightarrow> string \<Rightarrow> capsule_row seg_action" where
  "seg_capsule env t r trigger st =
     (case record_capsule (sg_capsule env) t r trigger (seg_store st, ss_rows st) of
        Inl e \<Rightarrow> (Inl e, st)
      | Inr (row, s, rows) \<Rightarrow>
          (case transaction (\<lambda>_. Inr ((), s)) (ss_app st) of
             (Inl e, a) \<Rightarrow> (Inl e, st\<lparr>ss_app := a\<rparr>)
           | (Inr _, a) \<Rightarrow> (Inr row, st\<lparr>ss_app := a, ss_rows := rows\<rparr>)))"

datatype segment_outcome = NoSegment | Stopped string | Reused | Continued run_id int

definition seg_stop :: "seg_env \<Rightarrow> task \<Rightarrow> run \<Rightarrow> string \<Rightarrow> segment_outcome seg_action" where
  "seg_stop env t r reason =
     seg_then (mark_segment_end r reason JNull) (\<lambda>marked.
       if reason \<in> {''max_segments'', ''budget''}
       then seg_then (seg_attempt (seg_capsule env t marked ''budget_soft'')) (\<lambda>_ st. (Inr (Stopped reason), st))
       else (\<lambda>st. (Inr (Stopped reason), st)))"

definition segmentation_disabled :: "run \<Rightarrow> bool" where
  "segmentation_disabled r \<longleftrightarrow>
     dget (dict_or_empty (dget (r_native r) ''segment_end'')) ''reason'' = JStr ''segmentation_disabled''"

definition profile_for :: "dict \<Rightarrow> dict \<Rightarrow> dict res" where
  "profile_for settings seg =
     (case dget settings ''profiles'' of
        JObj profiles \<Rightarrow>
          (case dget seg ''profile_key'' of
             JStr key \<Rightarrow> Inr (dict_or_empty (dget profiles key))
           | v \<Rightarrow> if hashable v then Inr [] else Inl TypeError)
      | _ \<Rightarrow> Inr [])"

definition segment_index :: "dict \<Rightarrow> int res" where
  "segment_index seg = int_item seg ''index''"

text \<open>\<^verbatim>\<open>settled + held + soft > task_hard\<close>, where all four are known\<close>

definition over_budget :: "seg_env \<Rightarrow> task \<Rightarrow> dict \<Rightarrow> control_db \<Rightarrow> bool" where
  "over_budget env t profile db =
     (case (budget_view (sg_budget env) (task_val (t_id t)) db, dget profile ''segment_soft'') of
        (Some view, JInt soft) \<Rightarrow>
          0 < soft \<and> (case lv_task_hard view of JInt hard \<Rightarrow> hard < lv_settled view + lv_held view + soft | _ \<Rightarrow> False)
      | _ \<Rightarrow> False)"

text \<open>Why the chain of segments ends here, if it does.\<close>

definition chain_limit :: "seg_env \<Rightarrow> task \<Rightarrow> dict \<Rightarrow> int \<Rightarrow> control_db \<Rightarrow> string option res" where
  "chain_limit env t seg next_index db =
     (if (case dget seg ''max_segments'' of JInt m \<Rightarrow> 0 < m \<and> m \<le> next_index | _ \<Rightarrow> False)
      then Inr (Some ''max_segments'')
      else if sg_max_runs env \<le> t_run_count t then Inr (Some ''max_runs'')
      else bind_res (context_budget_settings (sg_budget env)) (\<lambda>settings.
           bind_res (profile_for settings seg) (\<lambda>profile.
             Inr (if over_budget env t profile db then Some ''budget'' else None))))"

text \<open>The capsule of this end, written, found again as the latest and read back; \<open>None\<close> where it is not ready.\<close>

definition ready_capsule :: "seg_env \<Rightarrow> task \<Rightarrow> run \<Rightarrow> (capsule_row \<times> json) option seg_action" where
  "ready_capsule env t r =
     seg_then (seg_attempt (seg_capsule env t r ''segment_end'')) (\<lambda>written st.
       (Inr (case written of
          None \<Rightarrow> None
        | Some row \<Rightarrow>
            if cr_ready row \<noteq> 1 then None
            else (case latest_with_blob (task_val (t_id t)) (ss_rows st) of
                    None \<Rightarrow> None
                  | Some latest \<Rightarrow>
                      if cr_run_id latest \<noteq> run_val (r_id r) \<or> cr_trigger latest \<noteq> ''segment_end'' then None
                      else (case cr_blob_sha256 latest of
                              None \<Rightarrow> None
                            | Some d \<Rightarrow>
                                if d = [] then None
                                else (case load_capsule (sg_capsule env) (seg_store st) d of
                                        Inl _ \<Rightarrow> None | Inr capsule \<Rightarrow> Some (row, capsule))))), st))"

definition bounded_prompt :: "string \<Rightarrow> string res" where
  "bounded_prompt prompt = (if MAX_PROMPT_BYTES < length prompt then raise ''INVALID_REQUEST'' else Inr prompt)"

definition segment_operation :: "seg_env \<Rightarrow> task \<Rightarrow> run \<Rightarrow> int \<Rightarrow> json \<Rightarrow> operation" where
  "segment_operation env t r next_index capsule_id =
     \<lparr>o_id = sg_operation env,
       o_idempotency_key = segment_key (env_lib (sg_app env)) t (r_id r) (JInt next_index),
       o_principal = env_principal (sg_app env), o_action = ''segment.continue'', o_target = task_val (t_id t),
       o_input_hash = digest (env_hash (sg_app env))
         (JObj [(''version'', JInt 1), (''source_run'', JStr (run_val (r_id r))), (''index'', JInt next_index),
                (''capsule_id'', capsule_id)]),
       o_status = Op_INTENDED, o_created_at = env_now (sg_app env), o_task_id = None, o_run_id = None\<rparr>"

definition segment_run :: "seg_env \<Rightarrow> mem_store \<Rightarrow> task \<Rightarrow> run \<Rightarrow> dict \<Rightarrow> int \<Rightarrow> json \<Rightarrow> string \<Rightarrow> run" where
  "segment_run env s t r seg next_index capsule_id prompt =
     \<lparr>r_id = sg_run env, r_task_id = t_id t, r_backend = t_backend t, r_status = Rs_QUEUED,
       r_created_at = env_now (sg_app env), r_cancel_requested = False, r_terminated = False, r_error_code = JNull,
       r_summary = [],
       r_native = [(''segment'', JObj (dset seg ''index'' (JInt next_index))),
                   (''restored_from_capsule_id'', capsule_id),
                   (''segment_source_run_id'', JStr (run_val (r_id r))),
                   (''segment_resume'', JStr (resume_decision env s r))],
       r_role = r_role r, r_prompt = prompt, r_conversation_id = None, r_target_hash = [], r_approval_attempts = [],
       r_output = JNull, r_plugin_reason = None\<rparr>"

text \<open>The intent and the mark of the source are one transaction; the result tells whether the intent was there.\<close>

definition commit_segment :: "seg_env \<Rightarrow> operation \<Rightarrow> task \<Rightarrow> run \<Rightarrow> run \<Rightarrow> mem_store \<Rightarrow> (bool \<times> mem_store) res" where
  "commit_segment env p t new r s =
     (case ms_commit_intent (env_hash (sg_app env)) p t new None s of
        (Inl e, _) \<Rightarrow> Inl e
      | (Inr (_, _, new', reused), s1) \<Rightarrow>
          if reused then Inr (True, s1)
          else bind_res (ms_get_run s1 (r_id r)) (\<lambda>src.
                 Inr (False, ms_save_run (end_mark ''turn_budget'' (JStr (run_val (r_id new'))) src) s1)))"

definition queue_segment :: "seg_env \<Rightarrow> task \<Rightarrow> int \<Rightarrow> segment_outcome seg_action" where
  "queue_segment env t next_index =
     seg_then (seg_read (\<lambda>_. sg_root env (t_workspace t))) (\<lambda>root.
     seg_then (\<lambda>st. (Inr (), st\<lparr>ss_app := on_sched (\<lambda>s. enqueue s (backend_val (t_backend t)) (task_val (t_id t))
         (run_val (sg_run env)) (Some root)) (ss_app st)\<rparr>)) (\<lambda>_.
     seg_then (at_seg (writing (emit (sg_app env) (sg_run env) Ev_RUN_QUEUED ''core''
         [(''segment_continue'', JBool True), (''segment_index'', JInt next_index)]))) (\<lambda>_ st.
       (Inr (Continued (sg_run env) next_index), st))))"

definition submit_segment :: "seg_env \<Rightarrow> task \<Rightarrow> run \<Rightarrow> dict \<Rightarrow> int \<Rightarrow> json \<Rightarrow> string \<Rightarrow> segment_outcome seg_action" where
  "submit_segment env t r seg next_index capsule_id prompt st =
     (let p = segment_operation env t r next_index capsule_id in
      if ms_find_idempotent_operation (seg_store st) p \<noteq> None
      then seg_then (backfill_continued_by t r) (\<lambda>_ st'. (Inr Reused, st')) st
      else if \<not> can_enqueue (ap_sched (ss_app st)) then seg_stop env t r ''queue_full'' st
      else
        let new = segment_run env (seg_store st) t r seg next_index capsule_id prompt;
            t' = t\<lparr>t_run_count := t_run_count t + 1, t_current_run_id := Some (sg_run env)\<rparr>
        in seg_then (at_seg (transaction (commit_segment env p t' new r))) (\<lambda>reused.
             if reused then seg_then (backfill_continued_by t' r) (\<lambda>_ st'. (Inr Reused, st'))
             else queue_segment env t' next_index) st)"

definition extend_chain :: "seg_env \<Rightarrow> task \<Rightarrow> run \<Rightarrow> dict \<Rightarrow> int \<Rightarrow> segment_outcome seg_action" where
  "extend_chain env t r seg next_index =
     seg_then (ready_capsule env t r) (\<lambda>found.
       case found of
         None \<Rightarrow> seg_stop env t r ''capsule_not_ready''
       | Some (row, capsule) \<Rightarrow>
           seg_then (seg_read (\<lambda>_. bind_res (sg_backend env (backend_val (r_backend r))) (\<lambda>backend.
               render_prompt (env_lib (sg_app env)) capsule (alias_kind (bc_kind backend))))) (\<lambda>prompt.
             case bounded_prompt (prompt @ CONTINUE_NOTE) of
               Inl _ \<Rightarrow> seg_stop env t r ''capsule_too_large''
             | Inr text \<Rightarrow> submit_segment env t r seg next_index (cr_capsule_id row) text))"

definition continue_segment_inner :: "seg_env \<Rightarrow> task \<Rightarrow> run \<Rightarrow> segment_outcome seg_action" where
  "continue_segment_inner env t r =
     seg_then (seg_read (\<lambda>_. segment_end r)) (\<lambda>ended.
       if \<not> ended then (\<lambda>st. (Inr NoSegment, st))
       else
         seg_then (seg_read (\<lambda>st. if segmentation_disabled r then Inr True
             else bind_res (ms_get_run (seg_store st) (r_id r)) (\<lambda>src. Inr (segmentation_disabled src)))) (\<lambda>disabled st.
         if disabled then (Inr (Stopped ''segmentation_disabled''), st)
         else if t_paused t \<or> t_orchestration_owner t = ''human'' \<or> t_current_run_id t \<noteq> Some (r_id r)
         then (Inr NoSegment, st)
         else if control_owned env (seg_store st) t r then seg_stop env t r ''control_owned'' st
         else
           seg_then (seg_read (\<lambda>st. plan_segment env (seg_store st) t r)) (\<lambda>planned.
             if planned = JNull then seg_stop env t r ''segmentation_disabled''
             else
               let seg = dict_or_empty (dget (r_native r) ''segment'') in
               seg_then (seg_read (\<lambda>_. segment_index seg)) (\<lambda>index.
               seg_then (seg_read (\<lambda>st. chain_limit env t seg (index + 1) (ss_ledger st))) (\<lambda>limit.
                 case limit of
                   Some reason \<Rightarrow> seg_stop env t r reason
                 | None \<Rightarrow> extend_chain env t r seg (index + 1)))) st))"

definition exn_name :: "exn \<Rightarrow> string" where
  "exn_name e =
     (case e of
        AsterunError _ _ \<Rightarrow> ''AsterunError'' | ValueError \<Rightarrow> ''ValueError'' | TypeError \<Rightarrow> ''TypeError''
      | KeyError \<Rightarrow> ''KeyError'' | IntegrityError \<Rightarrow> ''IntegrityError'' | RuntimeError \<Rightarrow> ''RuntimeError''
      | IndexError \<Rightarrow> ''IndexError'' | CapsuleTooLarge _ \<Rightarrow> ''CapsuleTooLarge'')"

text \<open>\<^verbatim>\<open>continue_segment\<close>: nothing is raised; an exception is noted in the events of the run.\<close>

definition continue_segment :: "seg_env \<Rightarrow> task \<Rightarrow> run \<Rightarrow> seg_state \<Rightarrow> segment_outcome \<times> seg_state" where
  "continue_segment env t r st =
     (case continue_segment_inner env t r st of
        (Inr v, st') \<Rightarrow> (v, st')
      | (Inl e, st') \<Rightarrow>
          (NoSegment, snd (at_seg (writing (emit (sg_app env) (r_id r) Ev_MESSAGE ''core''
             [(''segment_continue_error'', JStr (exn_name e))])) st')))"

end
