(* ===== verification/Lifecycle_Safety.thy ===== *)
theory Lifecycle_Safety
  imports Run_Lifecycle
begin

text \<open>
  What the run lifecycle keeps, whatever the order of results, failures, cancellations,
  polls and restarts: a finished run is never rewritten, a backend is called at most once
  for an operation, an unsaved result is kept, and slots follow the saved state.
\<close>

section \<open>What every write keeps\<close>

text \<open>
  Tables are keyed by the identifier of the row, and an operation id occurs once. \<open>keeps s s'\<close>
  is what the lifecycle promises about a step from \<open>s\<close> to \<open>s'\<close>: a finished run keeps everything
  but its optional desktop report and the mark of its segment, an operation that has left \<^verbatim>\<open>intended\<close> never returns to
  it, no run loses a note of an approval it has forwarded, and an intent stays under its key. \<open>no_loss s r\<close>: to save \<open>r\<close> loses none.
\<close>

definition store_ok :: "mem_store \<Rightarrow> bool" where
  "store_ok s \<longleftrightarrow> (\<forall>k r. map_of (ms_runs s) k = Some r \<longrightarrow> run_val (r_id r) = k)
     \<and> distinct (map fst (ms_operations s))
     \<and> (\<forall>(k, p) \<in> set (ms_operations s). operation_val (o_id p) = k)"

definition later_note :: "string \<Rightarrow> bool" where
  "later_note k \<longleftrightarrow> k = ''desktop_project'' \<or> k = ''segment_end''"

definition same_outcome :: "run \<Rightarrow> run \<Rightarrow> bool" where
  "same_outcome r r' \<longleftrightarrow> (\<exists>n. r' = r\<lparr>r_native := n\<rparr>
     \<and> (\<forall>k. \<not> later_note k \<longrightarrow> dget n k = dget (r_native r) k))"

definition past_intent :: "mem_store \<Rightarrow> run_id \<Rightarrow> bool" where
  "past_intent s i \<longleftrightarrow> (case ms_find_operation_for_run s i of None \<Rightarrow> False | Some p \<Rightarrow> o_status p \<noteq> Op_INTENDED)"

definition attempts :: "run \<Rightarrow> json set" where
  "attempts r = set (r_approval_attempts r)"

definition no_loss :: "mem_store \<Rightarrow> run \<Rightarrow> bool" where
  "no_loss s r \<longleftrightarrow> (\<forall>r0. map_of (ms_runs s) (run_val (r_id r)) = Some r0 \<longrightarrow> attempts r0 \<subseteq> attempts r)"

definition attempted :: "mem_store \<Rightarrow> string \<Rightarrow> json \<Rightarrow> bool" where
  "attempted s k h \<longleftrightarrow> (\<exists>r. map_of (ms_runs s) k = Some r \<and> h \<in> attempts r)"

definition intent_keys :: "mem_store \<Rightarrow> op_key set" where
  "intent_keys s = dom (map_of (ms_ops_by_key s))"

definition keeps :: "mem_store \<Rightarrow> mem_store \<Rightarrow> bool" where
  "keeps s s' \<longleftrightarrow> store_ok s \<longrightarrow> store_ok s'
     \<and> (\<forall>k r. map_of (ms_runs s) k = Some r \<and> terminal (r_status r)
          \<longrightarrow> (\<exists>r'. map_of (ms_runs s') k = Some r' \<and> same_outcome r r'))
     \<and> (\<forall>i. past_intent s i \<longrightarrow> past_intent s' i)
     \<and> (\<forall>k h. attempted s k h \<longrightarrow> attempted s' k h)
     \<and> intent_keys s \<subseteq> intent_keys s'"

lemma no_loss_get: "ms_get_run s i = Inr r \<Longrightarrow> r_id r = i \<Longrightarrow> no_loss s r"
  by (auto simp: no_loss_def ms_get_run_def lookup_or_def not_found_def split: option.splits)

lemma no_loss_same:
  "no_loss s r \<Longrightarrow> ms_runs t = ms_runs s \<Longrightarrow> r_id r' = r_id r \<Longrightarrow> r_approval_attempts r' = r_approval_attempts r
   \<Longrightarrow> no_loss t r'"
  by (simp add: no_loss_def attempts_def)

lemma same_outcome_attempts: "same_outcome r r' \<Longrightarrow> attempts r' = attempts r"
  by (auto simp: same_outcome_def attempts_def)

lemma same_outcome_refl [simp]: "same_outcome r r"
  unfolding same_outcome_def by (rule exI [of _ "r_native r"]) simp

lemma same_outcome_trans: "same_outcome r r' \<Longrightarrow> same_outcome r' r'' \<Longrightarrow> same_outcome r r''"
  by (auto simp: same_outcome_def)

lemma same_outcome_sym: "same_outcome r r' \<Longrightarrow> same_outcome r' r"
  unfolding same_outcome_def by (elim exE conjE, rule exI [of _ "r_native r"]) simp

lemma same_outcome_status: "same_outcome r r' \<Longrightarrow> r_status r' = r_status r \<and> r_id r' = r_id r"
  by (auto simp: same_outcome_def)

lemma keeps_refl [simp]: "keeps s s"
  by (auto simp: keeps_def)

lemma keepsD:
  assumes "keeps s t" "store_ok s"
  shows "store_ok t"
    and "map_of (ms_runs s) k = Some r \<Longrightarrow> terminal (r_status r)
      \<Longrightarrow> \<exists>r'. map_of (ms_runs t) k = Some r' \<and> same_outcome r r'"
    and "past_intent s i \<Longrightarrow> past_intent t i"
    and "attempted s k h \<Longrightarrow> attempted t k h"
    and "intent_keys s \<subseteq> intent_keys t"
  using assms by (simp_all add: keeps_def)

lemma keeps_trans:
  assumes st: "keeps s t" and tu: "keeps t u"
  shows "keeps s u"
proof (unfold keeps_def, intro impI conjI allI; (elim conjE)?)
  assume ok: "store_ok s"
  note ok' = keepsD(1) [OF st ok]
  show "store_ok u" by (rule keepsD(1) [OF tu ok'])
  show "past_intent u i" if "past_intent s i" for i
    using keepsD(3) [OF tu ok' keepsD(3) [OF st ok that]] .
  show "attempted u k h" if "attempted s k h" for k h
    using keepsD(4) [OF tu ok' keepsD(4) [OF st ok that]] .
  show "intent_keys s \<subseteq> intent_keys u"
    using keepsD(5) [OF st ok] keepsD(5) [OF tu ok'] by (rule subset_trans)
  fix k r assume r: "map_of (ms_runs s) k = Some r" "terminal (r_status r)"
  from keepsD(2) [OF st ok r] obtain r' where r': "map_of (ms_runs t) k = Some r'" "same_outcome r r'" by blast
  then have "terminal (r_status r')" using r(2) same_outcome_status by simp
  from keepsD(2) [OF tu ok' r'(1) this] r'(2)
  show "\<exists>r''. map_of (ms_runs u) k = Some r'' \<and> same_outcome r r''" using same_outcome_trans by blast
qed

lemma keeps_ok: "keeps s t \<Longrightarrow> store_ok s \<Longrightarrow> store_ok t"
  by (simp add: keeps_def)

text \<open>Writes that touch neither runs nor operations.\<close>

definition same_core :: "mem_store \<Rightarrow> mem_store \<Rightarrow> bool" where
  "same_core s t \<longleftrightarrow> ms_runs t = ms_runs s \<and> ms_operations t = ms_operations s
     \<and> ms_ops_by_key t = ms_ops_by_key s"

lemma same_core_keeps: "same_core s t \<Longrightarrow> keeps s t"
  by (auto simp: same_core_def keeps_def store_ok_def past_intent_def ms_find_operation_for_run_def attempted_def
      intent_keys_def)

lemma same_core_refl [simp]: "same_core s s"
  by (simp add: same_core_def)

lemma same_core_trans: "same_core s t \<Longrightarrow> same_core t u \<Longrightarrow> same_core s u"
  by (simp add: same_core_def)

lemma same_core_get_run: "same_core s t \<Longrightarrow> ms_get_run t i = ms_get_run s i"
  by (simp add: same_core_def ms_get_run_def)

lemma same_core_operation: "same_core s t \<Longrightarrow> ms_find_operation_for_run t i = ms_find_operation_for_run s i"
  by (simp add: same_core_def ms_find_operation_for_run_def)

lemma same_core_emit [simp]: "same_core s (emit env i ty source payload s)"
  by (simp add: same_core_def emit_def ms_append_event_def Let_def)

lemma same_core_emit_trans: "same_core s t \<Longrightarrow> same_core s (emit env i ty source payload t)"
  by (rule same_core_trans [OF _ same_core_emit])

lemma same_core_writes [simp]:
  "same_core s (ms_save_approval ap s)" "same_core s (ms_save_session b s)" "same_core s (ms_save_task t s)"
  "same_core s (snd (ms_put_blob sha c s))"
  by (simp_all add: same_core_def ms_save_approval_def ms_save_session_def ms_save_task_def ms_put_blob_def Let_def)

lemma same_core_emits:
  "same_core s (fold (emit env i ty source) payloads s)"
  by (induction payloads arbitrary: s) (auto intro: same_core_trans [OF same_core_emit])

text \<open>Writes of a run and of an operation.\<close>

definition open_at :: "mem_store \<Rightarrow> run_id \<Rightarrow> bool" where
  "open_at s i \<longleftrightarrow> (\<forall>r. map_of (ms_runs s) (run_val i) = Some r \<longrightarrow> \<not> terminal (r_status r))"

lemma get_run_save [simp]:
  "ms_get_run (ms_save_run r s) i = (if i = r_id r then Inr r else ms_get_run s i)"
  by (simp add: ms_get_run_def ms_save_run_def lookup_or_def update_conv')

lemma find_operation_save_run [simp]:
  "ms_find_operation_for_run (ms_save_run r s) i = ms_find_operation_for_run s i"
  by (simp add: ms_find_operation_for_run_def ms_save_run_def)

lemma get_run_save_operation [simp]: "ms_get_run (ms_save_operation p s) i = ms_get_run s i"
  by (simp add: ms_get_run_def ms_save_operation_def)

lemma get_run_iff: "ms_get_run s i = Inr r \<longleftrightarrow> map_of (ms_runs s) (run_val i) = Some r"
  by (auto simp: ms_get_run_def lookup_or_def not_found_def split: option.splits)

lemma get_run_id: "store_ok s \<Longrightarrow> ms_get_run s i = Inr r \<Longrightarrow> r_id r = i"
  by (metis get_run_iff store_ok_def run_val_inject)

lemma store_ok_save_run: "store_ok s \<Longrightarrow> store_ok (ms_save_run r s)"
  by (auto simp: store_ok_def ms_save_run_def update_conv')

lemma attempted_save: "no_loss s r \<Longrightarrow> attempted s k h \<Longrightarrow> attempted (ms_save_run r s) k h"
  by (auto simp: attempted_def no_loss_def ms_save_run_def update_conv')

lemma keeps_save_open: "open_at s (r_id r) \<Longrightarrow> no_loss s r \<Longrightarrow> keeps s (ms_save_run r s)"
  unfolding keeps_def using store_ok_save_run [of s r] attempted_save [of s r]
  by (auto simp: open_at_def past_intent_def ms_save_run_def update_conv' ms_find_operation_for_run_def intent_keys_def)

lemma keeps_save_same:
  assumes "store_ok s" "map_of (ms_runs s) (run_val (r_id r)) = Some r0" "same_outcome r0 r"
  shows "keeps s (ms_save_run r s)"
  unfolding keeps_def
  using assms store_ok_save_run [of s r] attempted_save [of s r] same_outcome_attempts [OF assms(3)]
  by (auto simp: no_loss_def past_intent_def ms_save_run_def update_conv' ms_find_operation_for_run_def intent_keys_def)

lemma open_at_get: "ms_get_run s i = Inr r \<Longrightarrow> open_at s i \<longleftrightarrow> \<not> terminal (r_status r)"
  by (simp add: open_at_def get_run_iff)

lemma find_update:
  assumes "distinct (map fst xs)" "\<forall>(k, p) \<in> set xs. operation_val (o_id p) = k"
    "map_of xs (operation_val (o_id p)) = Some q" "o_run_id q = o_run_id p"
  shows "find (operation_for i) (map snd (AList.update (operation_val (o_id p)) p xs))
    = (case find (operation_for i) (map snd xs) of
         None \<Rightarrow> None | Some x \<Rightarrow> Some (if o_id x = o_id p then p else x))"
  using assms
proof (induction xs)
  case Nil
  then show ?case by simp
next
  case (Cons kv xs)
  obtain k x where kv: "kv = (k, x)" by (cases kv)
  show ?case
  proof (cases "k = operation_val (o_id p)")
    case True
    then have "q = x" using Cons.prems kv by simp
    have "operation_val (o_id x) = operation_val (o_id p)" using Cons.prems kv True by simp
    then have ids: "o_id x = o_id p" by simp
    have "operation_for i p = operation_for i x"
      using Cons.prems \<open>q = x\<close> by (simp add: operation_for_def)
    moreover have "o_id y \<noteq> o_id p" if "find (operation_for i) (map snd xs) = Some y" for y
    proof -
      have "y \<in> snd ` set xs" using that by (auto simp: find_Some_iff in_set_conv_nth) (metis image_eqI nth_mem nth_map)
      then obtain k' where "(k', y) \<in> set xs" by force
      then have "operation_val (o_id y) = k'" "k' \<noteq> k" using Cons.prems kv by (auto, force)
      then show ?thesis using True by auto
    qed
    ultimately show ?thesis using True kv ids by (auto split: option.splits)
  next
    case False
    have "operation_val (o_id x) = k" using Cons.prems kv by simp
    then have "o_id x \<noteq> o_id p" using False by auto
    with False kv Cons show ?thesis by auto
  qed
qed

lemma find_operation_row:
  assumes "store_ok s" "ms_find_operation_for_run s i = Some p"
  shows "map_of (ms_operations s) (operation_val (o_id p)) = Some p"
proof -
  have "p \<in> set (map snd (ms_operations s))"
    using assms(2) unfolding ms_find_operation_for_run_def by (metis find_Some_iff nth_mem)
  then obtain k where "(k, p) \<in> set (ms_operations s)" by auto
  moreover from this have "operation_val (o_id p) = k" using assms(1) by (auto simp: store_ok_def)
  ultimately show ?thesis using assms(1) by (simp add: store_ok_def)
qed

lemma find_operation_run: "ms_find_operation_for_run s i = Some p \<Longrightarrow> o_run_id p = Some i"
  unfolding ms_find_operation_for_run_def find_Some_iff
  by (auto simp: operation_for_def split: option.splits)

lemma find_save_operation:
  assumes "store_ok s" "map_of (ms_operations s) (operation_val (o_id p)) = Some q" "o_run_id q = o_run_id p"
  shows "ms_find_operation_for_run (ms_save_operation p s) i
    = (case ms_find_operation_for_run s i of
         None \<Rightarrow> None | Some x \<Rightarrow> Some (if o_id x = o_id p then p else x))"
  using assms find_update [of "ms_operations s" p q i]
  by (simp add: store_ok_def ms_find_operation_for_run_def ms_save_operation_def)

lemma set_update_fst: "(k', v') \<in> set (AList.update k v xs) \<Longrightarrow> (k', v') = (k, v) \<or> (k', v') \<in> set xs"
  by (induction xs) (auto split: if_splits)

lemma store_ok_save_operation: "store_ok s \<Longrightarrow> store_ok (ms_save_operation p s)"
  unfolding store_ok_def ms_save_operation_def
  by (auto simp: distinct_update dest!: set_update_fst)

text \<open>Steps that write one run, and operations only forward.\<close>

definition touches :: "run_id \<Rightarrow> mem_store \<Rightarrow> mem_store \<Rightarrow> bool" where
  "touches i s t \<longleftrightarrow> (store_ok s \<longrightarrow> store_ok t
     \<and> (\<forall>k. k \<noteq> run_val i \<longrightarrow> map_of (ms_runs t) k = map_of (ms_runs s) k)
     \<and> (\<forall>j. past_intent s j \<longrightarrow> past_intent t j)
     \<and> (\<forall>k h. attempted s k h \<longrightarrow> attempted t k h)
     \<and> intent_keys s \<subseteq> intent_keys t)"

lemma touches_refl [simp]: "touches i s s"
  by (simp add: touches_def)

lemma touches_trans: "touches i s t \<Longrightarrow> touches i t u \<Longrightarrow> touches i s u"
  by (simp add: touches_def) blast

lemma touches_keeps: "touches i s t \<Longrightarrow> open_at s i \<Longrightarrow> keeps s t"
  unfolding touches_def keeps_def open_at_def by (metis same_outcome_refl)

lemma no_loss_saved: "no_loss (ms_save_run r s) r"
  by (simp add: no_loss_def ms_save_run_def update_conv')

lemma touches_save_run: "r_id r = i \<Longrightarrow> no_loss s r \<Longrightarrow> touches i s (ms_save_run r s)"
  unfolding touches_def using store_ok_save_run [of s r] attempted_save [of s r]
  by (auto simp: past_intent_def ms_save_run_def update_conv' ms_find_operation_for_run_def intent_keys_def)

lemma same_core_touches: "same_core s t \<Longrightarrow> touches i s t"
  by (auto simp: same_core_def touches_def store_ok_def past_intent_def ms_find_operation_for_run_def attempted_def
      intent_keys_def)

lemma touches_save_operation:
  assumes "map_of (ms_operations s) (operation_val (o_id p)) = Some q" "o_run_id q = o_run_id p"
    "o_status q \<noteq> Op_INTENDED \<longrightarrow> o_status p \<noteq> Op_INTENDED"
  shows "touches i s (ms_save_operation p s)"
proof -
  have "past_intent (ms_save_operation p s) j" if ok: "store_ok s" and sp: "past_intent s j" for j
  proof -
    from sp obtain x where x: "ms_find_operation_for_run s j = Some x" "o_status x \<noteq> Op_INTENDED"
      by (auto simp: past_intent_def split: option.splits)
    have "x = q" if "o_id x = o_id p"
      using find_operation_row [OF ok x(1)] assms(1) that by simp
    with x show ?thesis using assms(3) by (auto simp: past_intent_def find_save_operation [OF ok assms(1,2)])
  qed
  then show ?thesis by (simp add: touches_def store_ok_save_operation) 
      (auto simp: ms_save_operation_def attempted_def intent_keys_def update_conv')
qed

lemma touches_save_operation_status:
  assumes "st \<noteq> Op_INTENDED" shows "touches j s (save_operation_status i st s)"
proof (cases "ms_find_operation_for_run s i")
  case None
  then show ?thesis by (simp add: save_operation_status_def)
next
  case (Some p)
  have "store_ok s \<Longrightarrow> touches j s (ms_save_operation (p\<lparr>o_status := st\<rparr>) s)"
    using touches_save_operation [of s "p\<lparr>o_status := st\<rparr>" p] find_operation_row [OF _ Some] assms by simp
  then show ?thesis by (auto simp: save_operation_status_def Some touches_def)
qed

lemma touches_mark_unknown: "touches j s (snd (mark_unknown i s))"
  using touches_save_operation_status [of Op_UNKNOWN j s i]
  by (auto simp: mark_unknown_def save_operation_status_def split: option.splits)

section \<open>The bodies of the transactions\<close>

lemma emit_raw_events_core: "emit_raw_events env i source rows s = Inr t \<Longrightarrow> same_core s t"
  by (induction env i source rows s rule: emit_raw_events.induct)
    (auto simp: bind_res_Inr_iff intro: same_core_trans [OF same_core_emit])

lemma emit_dict_events_core: "emit_dict_events env i source rows s = Inr t \<Longrightarrow> same_core s t"
  by (induction env i source rows s rule: emit_dict_events.induct)
    (auto simp: bind_res_Inr_iff intro: same_core_trans [OF same_core_emit])

lemma apply_ingested_core: "apply_ingested env r d s = Inr (r', t)
   \<Longrightarrow> r_id r' = r_id r \<and> r_approval_attempts r' = r_approval_attempts r \<and> same_core s t"
  by (auto simp: apply_ingested_def bind_res_Inr_iff same_core_emits)

lemma apply_native_id: "apply_native r d = Inr r'
   \<Longrightarrow> r_id r' = r_id r \<and> r_approval_attempts r' = r_approval_attempts r"
  by (auto simp: apply_native_def split: if_splits option.splits)

lemma after_result_core: "after_result env r st s = Inr (r', t)
   \<Longrightarrow> r_id r' = r_id r \<and> r_approval_attempts r' = r_approval_attempts r \<and> same_core s t"
  by (auto simp: after_result_def bind_res_Inr_iff ms_put_blob_def same_core_def Let_def split: if_splits)

lemma settle_run_fields_simps [simp]:
  "r_id (settle_run_fields env r d st) = r_id r" "r_status (settle_run_fields env r d st) = st"
  "r_approval_attempts (settle_run_fields env r d st) = r_approval_attempts r"
  by (auto simp: settle_run_fields_def attach_provider_failure_def split: option.splits)

lemma apply_inner_touches:
  assumes "apply_backend_result_inner env r d source s = Inr (r', t)" "no_loss s r"
  shows "r_id r' = r_id r \<and> r_approval_attempts r' = r_approval_attempts r \<and> no_loss t r'
    \<and> touches (r_id r) s t"
proof -
  from assms(1) obtain r1 s1 r2 rows s2 st r3 s3 where
    1: "apply_ingested env r d s = Inr (r1, s1)" and 2: "apply_native r1 d = Inr r2"
    and 3: "emit_raw_events env (r_id r) source rows s1 = Inr s2"
    and 4: "after_result env r2 (str_run_status st) s2 = Inr (r3, s3)"
    and f: "set_run st (\<lambda>x. x\<lparr>r_terminated := truthy (dget d ''terminated'')\<rparr>) (settle_run_fields env r3 d st)
        (if truthy (dget d ''terminated'') \<and> st = Rs_CANCELLED
         then emit env (r_id r) Ev_RUN_TERMINATED source [(''status'', JStr (str_run_status st))] s3 else s3) = (r', t)"
    by (simp only: apply_backend_result_inner_def bind_res_Inr_iff Let_def split_paired_Ex prod.case sum.inject) blast
  define s4 where "s4 = (if truthy (dget d ''terminated'') \<and> st = Rs_CANCELLED
         then emit env (r_id r) Ev_RUN_TERMINATED source [(''status'', JStr (str_run_status st))] s3 else s3)"
  have ids: "r_id r3 = r_id r" "r_approval_attempts r3 = r_approval_attempts r"
    using apply_ingested_core [OF 1] apply_native_id [OF 2] after_result_core [OF 4] by simp_all
  have "same_core s s3"
    using apply_ingested_core [OF 1] emit_raw_events_core [OF 3] after_result_core [OF 4]
    by (blast intro: same_core_trans)
  then have "same_core s s4" by (simp add: s4_def same_core_emit_trans)
  moreover have r': "r_id r' = r_id r" "r_approval_attempts r' = r_approval_attempts r" "t = ms_save_run r' s4"
    using f ids by (auto simp: set_run_def Let_def s4_def)
  moreover from calculation have "no_loss s4 r'"
    using no_loss_same [OF assms(2)] by (simp add: same_core_def)
  ultimately show ?thesis
    using touches_trans [OF same_core_touches touches_save_run] by (auto simp: no_loss_saved)
qed

lemma apply_result_touches:
  assumes "apply_backend_result env r d source s = Inr (r', t)" "no_loss s r"
  shows "r_id r' = r_id r \<and> r_approval_attempts r' = r_approval_attempts r \<and> no_loss t r'
    \<and> touches (r_id r) s t"
proof (cases "apply_backend_result_inner env r d source s")
  case (Inr x)
  then show ?thesis using assms apply_inner_touches by (simp add: apply_backend_result_def)
next
  case (Inl e)
  then have "apply_unverified env r d s = Inr (r', t)"
    using assms by (simp add: apply_backend_result_def split: if_splits)
  then have "r_id r' = r_id r" "r_approval_attempts r' = r_approval_attempts r" "t = ms_save_run r' s"
    by (auto simp: apply_unverified_def bind_res_Inr_iff set_run_def Let_def)
  then show ?thesis using assms(2) no_loss_same [OF assms(2), of s r'] by (simp add: touches_save_run no_loss_saved)
qed

lemma write_approval_outcome_core:
  "write_approval_outcome env r payload s = Inr t \<Longrightarrow> same_core s t"
  by (auto simp: write_approval_outcome_def bind_res_Inr_iff Let_def same_core_emit_trans)

lemma apply_approval_payload_core:
  "apply_approval_payload env r approval stashed s = Inr t \<Longrightarrow> same_core s t"
  by (auto simp: apply_approval_payload_def write_approval_outcome_core split: option.splits if_splits)

lemma record_session_core: "record_session_after_dispatch env b tk n s = Inr t \<Longrightarrow> same_core s t"
  by (auto simp: record_session_after_dispatch_def bind_res_Inr_iff Let_def)

lemma record_native_session_core: "record_native_session env r tk d s = Inr t \<Longrightarrow> same_core s t"
  by (auto simp: record_native_session_def bind_res_Inr_iff record_session_core split: option.splits if_splits)

lemma record_progress_session_core: "record_progress_session env r tk n s = Inr t \<Longrightarrow> same_core s t"
  by (auto simp: record_progress_session_def bind_res_Inr_iff record_session_core split: option.splits if_splits)

lemma invalidate_pending_core: "same_core s (invalidate_pending r d requests s)"
  by (simp add: invalidate_pending_def split: option.splits)

lemma ask_approval_core: "ask_approval env tk r requests s = Inr t \<Longrightarrow> same_core s t"
  by (auto simp: ask_approval_def bind_res_Inr_iff Let_def same_core_emit_trans
      split: list.splits json.splits if_splits)

lemma open_run_Some:
  "open_run s i = Inr (Some (r, t)) \<longleftrightarrow> ms_get_run s i = Inr r \<and> ms_get_task s (r_task_id r) = Inr t
     \<and> \<not> terminal (r_status r) \<and> t_current_run_id t = Some (r_id r)"
  by (auto simp: open_run_def bind_res_Inr_iff split: if_splits)

lemma operation_status_for_forward [simp]: "operation_status_for st \<noteq> Op_INTENDED"
  by (simp add: operation_status_for_def)

lemma strip_marks_simps [simp]:
  "r_id (strip_marks r) = r_id r" "r_status (strip_marks r) = r_status r"
  "r_approval_attempts (strip_marks r) = r_approval_attempts r"
  by (simp_all add: strip_marks_def)

lemma assign_slot_simps [simp]:
  "r_id (assign_slot h r) = r_id r" "r_status (assign_slot h r) = r_status r"
  "r_backend (assign_slot h r) = r_backend r" "r_task_id (assign_slot h r) = r_task_id r"
  "r_approval_attempts (assign_slot h r) = r_approval_attempts r"
  by (simp_all add: assign_slot_def)

text \<open>What a recorded result is made of.\<close>

lemma record_body_Some:
  assumes "record_body env i d approval kind s = Inr (Some r', t)"
  obtains r0 tk s1 r2 s2 r3 s3 s4 requests s5 where
    "open_run s i = Inr (Some (r0, tk))"
    "apply_approval_payload env (strip_marks r0) approval (dget (r_native r0) UNAPPLIED_APPROVAL) s = Inr s1"
    "apply_backend_result env (strip_marks r0) d (''backend.'' @ kind) s1 = Inr (r2, s2)"
    "(r3, s3) = (if truthy (dget d ''raced_completion'') \<and> r_status r2 = Rs_SUCCEEDED
       then (r2\<lparr>r_cancel_requested := True\<rparr>, ms_save_run (r2\<lparr>r_cancel_requested := True\<rparr>) s2) else (r2, s2))"
    "record_native_session env r3 tk d s3 = Inr s4"
    "reported_requests env tk r3 d = Inr requests"
    "ask_approval env tk r3 requests (invalidate_pending r3 d requests s4) = Inr s5"
    "r' = assign_slot (\<not> terminal (r_status r3)) r3"
    "t = ms_save_run r' (save_operation_status i (operation_status_for (r_status r3)) s5)"
proof -
  from assms obtain r0 tk where o: "open_run s i = Inr (Some (r0, tk))"
    by (auto simp: record_body_def bind_res_Inr_iff split: option.splits)
  from assms [unfolded record_body_def o bind_res_simps option.case prod.case Let_def]
  obtain s1 r2 s2 where
    1: "apply_approval_payload env (strip_marks r0) approval (dget (r_native r0) UNAPPLIED_APPROVAL) s = Inr s1"
    and 2: "apply_backend_result env (strip_marks r0) d (''backend.'' @ kind) s1 = Inr (r2, s2)"
    and rest: "(case if truthy (dget d ''raced_completion'') \<and> r_status r2 = Rs_SUCCEEDED
       then (r2\<lparr>r_cancel_requested := True\<rparr>, ms_save_run (r2\<lparr>r_cancel_requested := True\<rparr>) s2) else (r2, s2) of
       (r3, s3) \<Rightarrow> bind_res (record_native_session env r3 tk d s3) (\<lambda>s4.
               bind_res (reported_requests env tk r3 d) (\<lambda>requests.
               bind_res (ask_approval env tk r3 requests (invalidate_pending r3 d requests s4)) (\<lambda>s5.
               Inr (Some (assign_slot (\<not> terminal (r_status r3)) r3),
                 ms_save_run (assign_slot (\<not> terminal (r_status r3)) r3)
                   (save_operation_status i (operation_status_for (r_status r3)) s5)))))) = Inr (Some r', t)"
    by (simp only: bind_res_Inr_iff split_paired_Ex prod.case) blast
  obtain r3 s3 where 3: "(r3, s3) = (if truthy (dget d ''raced_completion'') \<and> r_status r2 = Rs_SUCCEEDED
       then (r2\<lparr>r_cancel_requested := True\<rparr>, ms_save_run (r2\<lparr>r_cancel_requested := True\<rparr>) s2) else (r2, s2))"
    by (metis surj_pair)
  from rest [folded 3] show thesis
    by (simp only: prod.case bind_res_Inr_iff sum.inject Pair_inject option.inject)
      (elim exE conjE, rule that [OF o 1 2 3], assumption+, auto)
qed

lemma record_body_touches:
  assumes "store_ok s" "record_body env i d approval kind s = Inr (Some r', t)"
  shows "touches i s t" "r_id r' = i" "open_at s i" "ms_get_run t i = Inr r'"
    "\<exists>r3 s5. r' = assign_slot (\<not> terminal (r_status r3)) r3 \<and> store_ok s5
      \<and> t = ms_save_run r' (save_operation_status i (operation_status_for (r_status r3)) s5)"
proof -
  from assms(2) obtain r0 tk s1 r2 s2 r3 s3 s4 requests s5 where
    o: "open_run s i = Inr (Some (r0, tk))"
    and 1: "apply_approval_payload env (strip_marks r0) approval (dget (r_native r0) UNAPPLIED_APPROVAL) s = Inr s1"
    and 2: "apply_backend_result env (strip_marks r0) d (''backend.'' @ kind) s1 = Inr (r2, s2)"
    and 3: "(r3, s3) = (if truthy (dget d ''raced_completion'') \<and> r_status r2 = Rs_SUCCEEDED
       then (r2\<lparr>r_cancel_requested := True\<rparr>, ms_save_run (r2\<lparr>r_cancel_requested := True\<rparr>) s2) else (r2, s2))"
    and 4: "record_native_session env r3 tk d s3 = Inr s4"
    and 5: "ask_approval env tk r3 requests (invalidate_pending r3 d requests s4) = Inr s5"
    and r': "r' = assign_slot (\<not> terminal (r_status r3)) r3"
    and t: "t = ms_save_run r' (save_operation_status i (operation_status_for (r_status r3)) s5)"
    by (rule record_body_Some)
  have r0: "ms_get_run s i = Inr r0" "r_id r0 = i"
    using o get_run_id [OF assms(1)] by (simp_all add: open_run_Some)
  show "open_at s i" using o r0 by (simp add: open_at_get open_run_Some)
  have "no_loss s1 (strip_marks r0)"
    using no_loss_get [OF r0] apply_approval_payload_core [OF 1] by (auto intro: no_loss_same simp: same_core_def)
  then have r2: "r_id r2 = i" "no_loss s2 r2" "touches i s1 s2" using apply_result_touches [OF 2] r0 by simp_all
  have "no_loss s2 (r2\<lparr>r_cancel_requested := True\<rparr>)" by (rule no_loss_same [OF r2(2)]) simp_all
  then have r3: "r_id r3 = i" "no_loss s3 r3" "touches i s2 s3"
    using 3 r2 touches_save_run [of "r2\<lparr>r_cancel_requested := True\<rparr>" i s2]
    by (auto simp: no_loss_saved split: if_splits)
  have s5: "touches i s s5"
    using same_core_touches [OF apply_approval_payload_core [OF 1]] r2(3) r3(3)
      same_core_touches [OF record_native_session_core [OF 4]]
      same_core_touches [OF same_core_trans [OF invalidate_pending_core ask_approval_core [OF 5]]]
    by (blast intro: touches_trans)
  then have "store_ok s5" using assms(1) by (simp add: touches_def)
  with r' t show "\<exists>r3 s5. r' = assign_slot (\<not> terminal (r_status r3)) r3 \<and> store_ok s5
      \<and> t = ms_save_run r' (save_operation_status i (operation_status_for (r_status r3)) s5)" by blast
  from s5 have "touches i s (save_operation_status i (operation_status_for (r_status r3)) s5)"
    by (rule touches_trans) (simp add: touches_save_operation_status)
  moreover have runs: "ms_runs (save_operation_status i (operation_status_for (r_status r3)) s5) = ms_runs s3"
    using record_native_session_core [OF 4] same_core_trans [OF invalidate_pending_core ask_approval_core [OF 5]]
    by (simp add: same_core_def save_operation_status_def ms_save_operation_def split: option.split)
  from runs have "no_loss (save_operation_status i (operation_status_for (r_status r3)) s5) r'"
    by (intro no_loss_same [OF r3(2)]) (simp_all add: r')
  ultimately show "touches i s t" unfolding t by (intro touches_trans [OF _ touches_save_run]) (simp_all add: r' r3)
  show "r_id r' = i" by (simp add: r' r3)
  then show "ms_get_run t i = Inr r'" by (simp add: t)
qed

lemmas record_body_s5 = record_body_touches(5)

lemma record_body_keeps:
  assumes "store_ok s" "record_body env i d approval kind s = Inr (x, t)"
  shows "keeps s t"
proof (cases x)
  case None
  then have "t = s"
    using assms(2) by (auto simp: record_body_def bind_res_Inr_iff Let_def split: option.splits prod.splits)
  then show ?thesis by simp
next
  case (Some r')
  with assms(2) have b: "record_body env i d approval kind s = Inr (Some r', t)" by simp
  show ?thesis
    by (rule touches_keeps [OF record_body_touches(1) [OF assms(1) b] record_body_touches(3) [OF assms(1) b]])
qed

lemma stash_native_simps [simp]:
  "r_id (stash_native result approval r) = r_id r" "r_status (stash_native result approval r) = r_status r"
  "r_approval_attempts (stash_native result approval r) = r_approval_attempts r"
  by (simp_all add: stash_native_def Let_def split: option.splits)

lemma keep_for_reconcile_simps [simp]:
  "r_id (keep_for_reconcile m r) = r_id r" "r_status (keep_for_reconcile m r) = r_status r"
  "r_native (keep_for_reconcile m r) = r_native r"
  "r_approval_attempts (keep_for_reconcile m r) = r_approval_attempts r"
  by (simp_all add: keep_for_reconcile_def)

lemma set_run_touches:
  assumes "r_id (f (r\<lparr>r_status := st\<rparr>)) = i" "no_loss s (f (r\<lparr>r_status := st\<rparr>))"
  shows "touches i s (snd (set_run st f r s))"
  using assms by (simp add: set_run_def Let_def touches_save_run)

text \<open>The common end of the bodies that leave a run for reconciliation.\<close>

lemma emit_kept_core: "same_core s (emit_kept env i extra s)"
  by (simp add: emit_kept_def)

lemma touches_kept:
  assumes "touches i s s1" "mark_unknown i s1 = (changed, s2)"
  shows "touches i s (if c then emit_kept env j extra s2 else s2)"
proof -
  have "touches i s s2" using assms touches_mark_unknown [of i s1 i] by (auto intro: touches_trans)
  then show ?thesis
    using same_core_touches [OF emit_kept_core] by (auto intro: touches_trans)
qed

lemma preserve_body_keeps:
  assumes ok: "store_ok s" and b: "preserve_body env i result approval s = Inr (u, t)"
  shows "keeps s t"
proof -
  obtain r where r: "ms_get_run s i = Inr r" using b by (auto simp: preserve_body_def bind_res_Inr_iff)
  have id: "r_id r = i" by (rule get_run_id [OF ok r])
  show ?thesis
  proof (cases "terminal (r_status r)")
    case True
    then show ?thesis using b r by (simp add: preserve_body_def)
  next
    case False
    define s1 where "s1 = (if r_status r = Rs_PENDING_RECONCILE then ms_save_run (stash_native result approval r) s
        else snd (set_run Rs_PENDING_RECONCILE (keep_for_reconcile SUMMARY_UNSAVED) (stash_native result approval r) s))"
    obtain changed s2 where m: "mark_unknown i s1 = (changed, s2)" by (cases "mark_unknown i s1")
    note no_loss = no_loss_get [OF r id]
    have k: "touches i s s1"
      by (auto simp: s1_def id intro!: touches_save_run set_run_touches no_loss_same [OF no_loss])
    have "t = (if r_status r = Rs_PENDING_RECONCILE \<longrightarrow> changed then emit_kept env (r_id r) [] s2 else s2)"
      using b r False m by (simp add: preserve_body_def s1_def [symmetric] id)
    then have "touches i s t" by (simp only: touches_kept [OF k m])
    then show ?thesis using False r by (simp add: touches_keeps open_at_get)
  qed
qed

lemma release_body_keeps:
  assumes ok: "store_ok s" and b: "release_body env i s = Inr (x, t)"
  shows "keeps s t"
proof -
  obtain r where r: "ms_get_run s i = Inr r" using b by (auto simp: release_body_def bind_res_Inr_iff)
  have id: "r_id r = i" by (rule get_run_id [OF ok r])
  show ?thesis
  proof (cases "terminal (r_status r) \<or> ms_find_operation_for_run s i \<noteq> None")
    case True
    then show ?thesis using b r id by (auto simp: release_body_def)
  next
    case False
    note no_loss = no_loss_get [OF r id]
    have "touches i s (ms_save_run (assign_slot False r) s)"
      by (auto simp: id intro!: touches_save_run no_loss_same [OF no_loss])
    moreover have "touches i s (emit_kept env i extra (snd (set_run Rs_PENDING_RECONCILE
        (keep_for_reconcile SUMMARY_UNTRACKED) (assign_slot False r) s)))" for extra
      by (rule touches_trans [OF set_run_touches same_core_touches [OF emit_kept_core]])
        (auto simp: id intro!: no_loss_same [OF no_loss])
    ultimately have "touches i s t"
      using b r False by (auto simp: release_body_def bind_res_Inr_iff id Let_def split: if_splits)
    then show ?thesis using False r by (simp add: touches_keeps open_at_get)
  qed
qed

lemma commit_progress_body_keeps:
  assumes ok: "store_ok s" and b: "commit_progress_body env i d approval source s = Inr (x, t)"
  shows "keeps s t"
proof -
  obtain found where o: "open_run s i = Inr found"
    using b by (auto simp: commit_progress_body_def bind_res_Inr_iff)
  show ?thesis
  proof (cases found)
    case None
    then show ?thesis using b o by (simp add: commit_progress_body_def)
  next
    case (Some rt)
    obtain r0 tk where rt: "rt = (r0, tk)" by (cases rt)
    have r0: "ms_get_run s i = Inr r0" "\<not> terminal (r_status r0)" using o Some rt by (simp_all add: open_run_Some)
    have id: "r_id r0 = i" by (rule get_run_id [OF ok r0(1)])
    define n where "n = dict_or_empty (dget d ''native'')"
    define r1 where "r1 = r0\<lparr>r_native := dpop (dpop (r_native r0) UNAPPLIED_RESULT) UNAPPLIED_APPROVAL\<rparr>"
    define r2 where "r2 = r1\<lparr>r_native := merge_native PROGRESS_NATIVE_KEYS (r_native r1) n\<rparr>"
    define r3 where "r3 = assign_slot False r2"
    from b obtain s1 rows s2 s3 where
      1: "apply_approval_payload env r1 approval (dget (r_native r0) UNAPPLIED_APPROVAL) s = Inr s1"
      and 2: "emit_dict_events env (r_id r0) source rows s1 = Inr s2"
      and 3: "record_progress_session env r2 tk n s2 = Inr s3"
      and fin: "(let s4 = (if r_status r2 = Rs_PENDING_RECONCILE
                         then ms_save_run (r3\<lparr>r_error_code := por (r_error_code r3) (JStr REMOTE_STATE_UNKNOWN),
                                              r_terminated := False\<rparr>) s3
                         else snd (set_run Rs_PENDING_RECONCILE (keep_for_reconcile SUMMARY_UNSAVED) r3 s3));
                   (changed, s5) = mark_unknown (r_id r0) s4
               in Inr (True, if \<not> r_status r2 = Rs_PENDING_RECONCILE \<or> changed
                  then emit_kept env (r_id r0) [] s5 else s5)) = (Inr (x, t) :: (bool \<times> mem_store) res)"
      unfolding commit_progress_body_def o Some rt bind_res_simps option.case prod.case
      by (simp only: bind_res_Inr_iff Let_def n_def [symmetric] r1_def [symmetric] r2_def [symmetric] r3_def [symmetric]) blast
    have r3: "r_id r3 = i" "r_approval_attempts r3 = r_approval_attempts r0"
      by (simp_all add: r3_def r2_def r1_def id)
    define s4 where "s4 = (if r_status r2 = Rs_PENDING_RECONCILE
                         then ms_save_run (r3\<lparr>r_error_code := por (r_error_code r3) (JStr REMOTE_STATE_UNKNOWN),
                                              r_terminated := False\<rparr>) s3
                         else snd (set_run Rs_PENDING_RECONCILE (keep_for_reconcile SUMMARY_UNSAVED) r3 s3))"
    obtain changed s5 where m: "mark_unknown i s4 = (changed, s5)" by (cases "mark_unknown i s4")
    have core: "same_core s s3"
      using apply_approval_payload_core [OF 1] emit_dict_events_core [OF 2] record_progress_session_core [OF 3]
      by (blast intro: same_core_trans)
    have no_loss: "no_loss s3 x" if "r_id x = i" "r_approval_attempts x = r_approval_attempts r0" for x
      using no_loss_same [OF no_loss_get [OF r0(1) id]] that core id by (simp add: same_core_def)
    have "touches i s3 s4"
      by (auto simp: s4_def r3 intro!: touches_save_run set_run_touches no_loss)
    with core have k: "touches i s s4" by (rule touches_trans [OF same_core_touches])
    have "t = (if \<not> r_status r2 = Rs_PENDING_RECONCILE \<or> changed then emit_kept env (r_id r0) [] s5 else s5)"
      using fin m by (simp add: s4_def [symmetric] id Let_def)
    then have "touches i s t" by (simp only: touches_kept [OF k m])
    then show ?thesis using r0 by (simp add: touches_keeps open_at_get)
  qed
qed

section \<open>Actions that keep the promise\<close>

text \<open>
  \<open>lawful a b\<close>: the step from \<open>a\<close> to \<open>b\<close> keeps the promise of the store, and the log of calls
  stays free of repetitions, each logged run being past_intent. An action is \<open>safe\<close> from a
  condition when each of its steps from there is lawful.
\<close>

definition sound :: "app \<Rightarrow> bool" where
  "sound a \<longleftrightarrow> store_ok (ap_store a) \<and> distinct (ap_calls a)
     \<and> (\<forall>i \<in> set (ap_calls a). past_intent (ap_store a) i)"

definition lawful :: "app \<Rightarrow> app \<Rightarrow> bool" where
  "lawful a b \<longleftrightarrow> (sound a \<longrightarrow> sound b \<and> keeps (ap_store a) (ap_store b))"

lemma lawful_refl [simp]: "lawful a a"
  by (simp add: lawful_def)

lemma lawful_sound: "lawful a b \<Longrightarrow> sound a \<Longrightarrow> sound b"
  by (simp add: lawful_def)

lemma lawful_trans: "lawful a b \<Longrightarrow> lawful b c \<Longrightarrow> lawful a c"
  unfolding lawful_def using keeps_trans by blast

lemma sound_ok: "sound a \<Longrightarrow> store_ok (ap_store a)"
  by (simp add: sound_def)

lemma lawful_store:
  assumes "ap_calls b = ap_calls a" "store_ok (ap_store a) \<Longrightarrow> keeps (ap_store a) (ap_store b)"
  shows "lawful a b"
  unfolding lawful_def
proof
  assume a: "sound a"
  have k: "keeps (ap_store a) (ap_store b)" by (rule assms(2) [OF sound_ok [OF a]])
  from a assms(1) keepsD(1,3) [OF k sound_ok [OF a]] show "sound b \<and> keeps (ap_store a) (ap_store b)"
    by (simp add: sound_def k)
qed

definition safe :: "(app \<Rightarrow> bool) \<Rightarrow> 'a action \<Rightarrow> bool" where
  "safe P m \<longleftrightarrow> (\<forall>a. sound a \<and> P a \<longrightarrow> lawful a (snd (m a)))"

abbreviation always :: "app \<Rightarrow> bool" where
  "always \<equiv> \<lambda>_. True"

lemma safeI: "(\<And>a. sound a \<Longrightarrow> P a \<Longrightarrow> lawful a (snd (m a))) \<Longrightarrow> safe P m"
  by (simp add: safe_def)

lemma safeD: "safe P m \<Longrightarrow> sound a \<Longrightarrow> P a \<Longrightarrow> lawful a (snd (m a))"
  by (simp add: safe_def)

lemma safe_weaken: "safe P m \<Longrightarrow> (\<And>a. sound a \<Longrightarrow> Q a \<Longrightarrow> P a) \<Longrightarrow> safe Q m"
  by (simp add: safe_def)

lemma safe_always: "safe always m \<Longrightarrow> safe P m"
  by (simp add: safe_def)

lemma safe_andthen:
  assumes m: "safe P m" and f: "\<And>x. safe (Q x) (f x)"
    and post: "\<And>a x b. sound a \<Longrightarrow> P a \<Longrightarrow> m a = (Inr x, b) \<Longrightarrow> Q x b"
  shows "safe P (andthen m f)"
proof (rule safeI)
  fix a assume ok: "sound a" and p: "P a"
  obtain v b where mb: "m a = (v, b)" by (cases "m a")
  have l: "lawful a b" using safeD [OF m ok p] mb by simp
  show "lawful a (snd (andthen m f a))"
  proof (cases v)
    case (Inl e)
    then show ?thesis using l mb by (simp add: andthen_def)
  next
    case (Inr x)
    have "lawful b (snd (f x b))"
      by (rule safeD [OF f lawful_sound [OF l ok]]) (use post ok p mb Inr in simp)
    then show ?thesis using l mb Inr by (simp add: andthen_def lawful_trans)
  qed
qed

lemma safe_seq: "safe P m \<Longrightarrow> (\<And>x. safe always (f x)) \<Longrightarrow> safe P (andthen m f)"
  by (rule safe_andthen [of _ _ "\<lambda>_ _. True"]) auto

lemma safe_return [simp]: "safe P (\<lambda>a. (v, a))"
  by (simp add: safe_def)

lemma safe_no_drain [simp]: "safe P no_drain"
  by (simp add: safe_def no_drain_def)

lemma safe_if: "(c \<Longrightarrow> safe P m) \<Longrightarrow> (\<not> c \<Longrightarrow> safe P n) \<Longrightarrow> safe P (if c then m else n)"
  by simp

lemma safe_each: "(\<And>x. safe always (f x)) \<Longrightarrow> safe P (each f xs)"
proof (induction xs arbitrary: P)
  case Nil
  then show ?case by (simp add: safe_def)
next
  case (Cons x xs)
  have "each f (x # xs) = andthen (f x) (\<lambda>_. each f xs)" by (rule ext) simp
  then show ?case using Cons safe_seq [OF safe_always] by metis
qed

lemma safe_reading:
  assumes "\<And>x. safe (\<lambda>a. P a \<and> g (ap_store a) = Inr x) (f x)"
  shows "safe P (andthen (reading g) f)"
  by (rule safe_andthen [OF _ assms]) (auto simp: safe_def reading_def)

lemma transaction_cases:
  assumes "transaction body a = (v, b)"
  obtains (saved) x s where "v = Inr x" "body (ap_store a) = Inr (x, s)"
      "b = a\<lparr>ap_faults := tl (ap_faults a), ap_store := s\<rparr>"
  | (failed) e where "v = Inl e" "b = a\<lparr>ap_faults := tl (ap_faults a)\<rparr>"
  using assms by (auto simp: transaction_def Let_def split: sum.splits prod.splits list.splits option.splits)

lemma safe_transaction:
  assumes "\<And>a x t. sound a \<Longrightarrow> P a \<Longrightarrow> body (ap_store a) = Inr (x, t) \<Longrightarrow> keeps (ap_store a) t"
  shows "safe P (transaction body)"
proof (rule safeI)
  fix a :: app assume "sound a" "P a"
  obtain v b where t: "transaction body a = (v, b)" by (cases "transaction body a")
  from t show "lawful a (snd (transaction body a))"
    by (cases rule: transaction_cases) (use assms \<open>sound a\<close> \<open>P a\<close> t in \<open>auto intro!: lawful_store\<close>)
qed

lemma safe_writing:
  "(\<And>a. sound a \<Longrightarrow> P a \<Longrightarrow> keeps (ap_store a) (f (ap_store a))) \<Longrightarrow> safe P (writing f)"
  unfolding writing_def by (rule safe_transaction) auto

lemma writing_Inr: "writing f a = (Inr x, b) \<Longrightarrow> ap_store b = f (ap_store a) \<and> ap_calls b = ap_calls a"
  by (auto simp: writing_def elim!: transaction_cases)

lemma store_of_bookkeeping [simp]:
  "ap_store (on_sched f a) = ap_store a" "ap_store (remember_result i v fl ap a) = ap_store a"
  "ap_store (forget_result i a) = ap_store a" "ap_calls (on_sched f a) = ap_calls a"
  "ap_calls (remember_result i v fl ap a) = ap_calls a" "ap_calls (forget_result i a) = ap_calls a"
  by (auto simp: on_sched_def remember_result_def forget_result_def Let_def)

lemma lawful_bookkeeping [simp]:
  "lawful a (on_sched f a)" "lawful a (remember_result i v fl ap a)" "lawful a (forget_result i a)"
  by (auto intro!: lawful_store)

section \<open>Recording is safe\<close>

lemma project_slot_store:
  "ap_store (snd (project_slot env r a)) = ap_store a" "ap_calls (snd (project_slot env r a)) = ap_calls a"
  by (simp_all add: project_slot_def split: sum.splits)

lemma project_run_store:
  "ap_store (snd (project_run env i a)) = ap_store a" "ap_calls (snd (project_run env i a)) = ap_calls a"
  by (simp_all add: project_run_def project_slot_store split: sum.splits)

lemma safe_project [simp]: "safe P (project_slot env r)" "safe P (project_run env i)"
  by (auto simp: safe_def project_slot_store project_run_store intro!: lawful_store)

text \<open>The object of a run may be saved again when it says of a finished run what is stored.\<close>

definition fits :: "app \<Rightarrow> run \<Rightarrow> bool" where
  "fits a r \<longleftrightarrow> (\<forall>r0. map_of (ms_runs (ap_store a)) (run_val (r_id r)) = Some r0
     \<and> terminal (r_status r0) \<longrightarrow> same_outcome r0 r) \<and> no_loss (ap_store a) r"

lemma fits_get: "ms_get_run (ap_store a) (r_id r) = Inr r \<Longrightarrow> fits a r"
  by (simp add: fits_def no_loss_get) (simp add: get_run_iff)

lemma keeps_save_fits:
  assumes "store_ok (ap_store a)" "fits a r" "r_id r' = r_id r" "same_outcome r r'"
  shows "keeps (ap_store a) (ms_save_run r' (ap_store a))"
proof (cases "open_at (ap_store a) (r_id r')")
  case True
  have "no_loss (ap_store a) r'"
    using assms(2,3) same_outcome_attempts [OF assms(4)] by (simp add: fits_def no_loss_def)
  with True show ?thesis by (rule keeps_save_open)
next
  case False
  then obtain r0 where r0: "map_of (ms_runs (ap_store a)) (run_val (r_id r')) = Some r0" "terminal (r_status r0)"
    by (auto simp: open_at_def)
  then have "same_outcome r0 r'" using assms(2-4) same_outcome_trans by (fastforce simp: fits_def)
  then show ?thesis by (rule keeps_save_same [OF assms(1) r0(1)])
qed

lemma same_outcome_note:
  "later_note k \<Longrightarrow> same_outcome r (r\<lparr>r_native := dset (r_native r) k v\<rparr>)"
  unfolding same_outcome_def by (rule exI [of _ "dset (r_native r) k v"]) auto

lemmas same_outcome_desktop = same_outcome_note [of "''desktop_project''", simplified later_note_def, simplified]

lemma persist_lawful:
  assumes "sound a" "fits a r"
  shows "lawful a (persist_native_presentation env r report a)"
proof -
  let ?save = "\<lambda>s. Inr ((), ms_save_run (r\<lparr>r_native := dset (r_native r) ''desktop_project'' report\<rparr>) s)"
  have s: "safe (\<lambda>a. fits a r) (transaction ?save :: unit action)"
    by (rule safe_transaction) (auto intro!: keeps_save_fits same_outcome_desktop sound_ok)
  have e: "safe always (transaction (\<lambda>s. Inr ((), emit env i ty src p s)) :: unit action)" for i ty src p
    by (rule safe_transaction) (auto intro!: same_core_keeps)
  obtain v b where t: "transaction ?save a = (v, b)" by (cases "transaction ?save a")
  have l: "lawful a b" using safeD [OF s assms] t by simp
  then have "lawful b (snd (transaction (\<lambda>s. Inr ((), emit env i ty src p s)) b))" for i ty src p
    using safeD [OF e] lawful_sound assms(1) by blast
  with l t show ?thesis
    by (auto simp: persist_native_presentation_def split: sum.splits intro: lawful_trans)
qed

lemma safe_commit_progress: "safe P (commit_retained_progress env i result approval)"
proof (rule safeI)
  fix a :: app assume a: "sound a"
  have s: "safe always (transaction (commit_progress_body env i d approval source))" for d source
    by (rule safe_transaction) (auto intro!: commit_progress_body_keeps sound_ok)
  show "lawful a (snd (commit_retained_progress env i result approval a))"
  proof (cases "\<exists>r kind d. ms_get_run (ap_store a) i = Inr r \<and> env_kind env (backend_val (r_backend r)) = Inr kind
      \<and> result = JObj d")
    case False
    then show ?thesis by (auto simp: commit_retained_progress_def split: sum.splits json.splits)
  next
    case True
    then obtain r kind d where r: "ms_get_run (ap_store a) i = Inr r"
      "env_kind env (backend_val (r_backend r)) = Inr kind" "result = JObj d" by blast
    obtain v b where t: "transaction (commit_progress_body env i d approval (''backend.'' @ kind)) a = (v, b)"
      by (cases "transaction (commit_progress_body env i d approval (''backend.'' @ kind)) a")
    have l: "lawful a b" using safeD [OF s a] t by (metis snd_conv)
    have "lawful b (persist_native_presentation env r' report b)" if "ms_get_run (ap_store b) i = Inr r'" for r' report
    proof -
      have b: "sound b" by (rule lawful_sound [OF l a])
      show ?thesis using that get_run_id [OF sound_ok [OF b] that] by (simp add: persist_lawful [OF b] fits_get)
    qed
    then show ?thesis using l r t
      by (auto simp: commit_retained_progress_def Let_def split: sum.splits intro: lawful_trans)
  qed
qed

lemma preserve_lawful:
  assumes "sound a" shows "lawful a (preserve_failed_result env i result name approval a)"
proof -
  have s: "safe always (transaction (preserve_body env i result approval))"
    by (rule safe_transaction) (auto intro!: preserve_body_keeps sound_ok)
  let ?a = "remember_result i result True approval a"
  have l: "lawful a ?a" by simp
  have "lawful ?a (snd (transaction (preserve_body env i result approval) ?a))"
    by (rule safeD [OF s lawful_sound [OF l assms]]) simp
  then show ?thesis
    by (auto simp: preserve_failed_result_def Let_def split: option.splits intro: lawful_trans [OF l] lawful_trans)
qed

lemma safe_record_body: "safe P (transaction (record_body env i d approval kind))"
  by (rule safe_transaction) (auto intro!: record_body_keeps sound_ok)

lemma safe_record_once: "safe P (record_result_once env i result approval)"
proof (rule safeI)
  fix a :: app assume a: "sound a"
  have s: "lawful a (snd (andthen (transaction (record_body env i d approval kind)) (\<lambda>saved b. (f saved, b)) a))"
    for d kind and f :: "run option \<Rightarrow> outcome res"
    by (rule safeD [OF safe_seq [OF safe_record_body safe_return] a TrueI])
  show "lawful a (snd (record_result_once env i result approval a))"
    unfolding record_result_once_def
    by (simp split: sum.splits option.splits prod.splits json.splits if_splits) (intro allI impI, rule s)
qed

lemma record_once_Recorded:
  assumes "sound a" "record_result_once env i result approval a = (Inr (Recorded r has p), b)"
  shows "ms_get_run (ap_store b) (r_id r) = Inr r" "r_id r = i"
    and "\<exists>d kind. record_body env i d approval kind (ap_store a) = Inr (Some r, ap_store b)"
proof -
  obtain d kind where t: "transaction (record_body env i d approval kind) a = (Inr (Some r), b)"
    using assms(2) by (auto simp: record_result_once_def andthen_def
        split: sum.splits option.splits prod.splits json.splits if_splits)
  then have b: "record_body env i d approval kind (ap_store a) = Inr (Some r, ap_store b)"
    by (auto elim!: transaction_cases)
  from record_body_touches(2,4) [OF sound_ok [OF assms(1)] b]
  show "ms_get_run (ap_store b) (r_id r) = Inr r" "r_id r = i" by simp_all
  from b show "\<exists>d kind. record_body env i d approval kind (ap_store a) = Inr (Some r, ap_store b)" by blast
qed

lemma attempt_progress:
  assumes "\<not> remember" "is_progress_snapshot result"
  shows "record_attempt env i result remember approval a =
    (case commit_retained_progress env i result approval a of
       (Inl e, b) \<Rightarrow> (Inr Closed, preserve_failed_result env i result (backend_of a i) approval b)
     | (Inr _, b) \<Rightarrow> andthen (project_run env i) (\<lambda>_ c. (Inr Closed, c)) (forget_result i b))"
  using assms by (simp add: record_attempt_def)

lemma safe_attempt: "safe P (record_attempt env i result remember approval)"
proof (rule safeI)
  fix a :: app assume a: "sound a"
  have pr: "lawful b (snd (andthen m (\<lambda>_ c. (v, c)) (forget_result i b)))"
    if "sound b" "safe always m" for b and m :: "unit action" and v :: "outcome res"
    using safeD [OF safe_seq [OF that(2) safe_return] lawful_sound [OF lawful_bookkeeping(3) that(1)] TrueI]
    by (rule lawful_trans [OF lawful_bookkeeping(3)])
  show "lawful a (snd (record_attempt env i result remember approval a))"
  proof (cases "\<not> remember \<and> is_progress_snapshot result")
    case True
    obtain v b where c: "commit_retained_progress env i result approval a = (v, b)"
      by (cases "commit_retained_progress env i result approval a")
    have l: "lawful a b" using safeD [OF safe_commit_progress a TrueI, of env i result approval] c by simp
    note b = lawful_sound [OF l a]
    show ?thesis
      using True c lawful_trans [OF l preserve_lawful [OF b]] lawful_trans [OF l pr [OF b safe_project(2)]]
      by (simp add: attempt_progress split: sum.splits)
  next
    case False
    obtain v b where c: "record_result_once env i result approval a = (v, b)"
      by (cases "record_result_once env i result approval a")
    have l: "lawful a b" using safeD [OF safe_record_once a TrueI, of env i result approval] c by simp
    note b = lawful_sound [OF l a]
    show ?thesis
      using False c l lawful_trans [OF l preserve_lawful [OF b]] lawful_trans [OF l pr [OF b safe_project(1)]]
        lawful_trans [OF l lawful_bookkeeping(3)]
      by (auto simp: record_attempt_def split: sum.splits outcome.splits)
  qed
qed

lemma attempt_Recorded:
  assumes "record_attempt env i result remember approval a = (Inr (Recorded r has p), b)"
  obtains c where "record_result_once env i result approval a = (Inr (Recorded r has p), c)"
    "ap_store b = ap_store c" "project_slot env r (forget_result i c) = (Inr (), b)"
proof (cases "\<not> remember \<and> is_progress_snapshot result")
  case True
  then show thesis using assms
    by (auto simp: attempt_progress andthen_def split: sum.splits prod.splits)
next
  case False
  with assms obtain c where c: "record_result_once env i result approval a = (Inr (Recorded r has p), c)"
    and q: "project_slot env r (forget_result i c) = (Inr (), b)"
    by (auto simp: record_attempt_def andthen_def split: sum.splits prod.splits outcome.splits if_splits)
  have st: "ap_store b = ap_store c" using project_slot_store(1) [of env r "forget_result i c"] q by simp
  show thesis by (rule that [OF c st q])
qed

definition outcome_stored :: "outcome \<Rightarrow> app \<Rightarrow> bool" where
  "outcome_stored v a \<longleftrightarrow>
     (case v of Recorded r has p \<Rightarrow> ms_get_run (ap_store a) (r_id r) = Inr r | _ \<Rightarrow> True)"

lemma safe_follow_up:
  assumes "safe always drain"
  shows "safe (outcome_stored v) (follow_up env drain v)"
proof (cases v)
  case (Recorded r has p)
  let ?first = "if terminal (r_status r) then drain else (\<lambda>b. (Inr (), b))"
  have fits: "fits b r" if a: "sound a" and st: "outcome_stored v a" and m: "?first a = (Inr x, b)" for a x b
  proof (cases "terminal (r_status r)")
    case True
    then have "lawful a b" using safeD [OF assms a TrueI] m by simp
    then have k: "keeps (ap_store a) (ap_store b)" using a by (simp add: lawful_def)
    from st Recorded have r: "map_of (ms_runs (ap_store a)) (run_val (r_id r)) = Some r"
      by (simp add: outcome_stored_def get_run_iff)
    from keepsD(2) [OF k sound_ok [OF a] r True] obtain r' where
      "map_of (ms_runs (ap_store b)) (run_val (r_id r)) = Some r'" "same_outcome r r'" by blast
    then show ?thesis
      using same_outcome_attempts by (auto simp: fits_def no_loss_def intro: same_outcome_sym)
  next
    case False
    then show ?thesis using m st Recorded by (simp add: fits_get outcome_stored_def)
  qed
  have "safe (\<lambda>b. fits b r) (\<lambda>b. (Inr (), if has then persist_native_presentation env r p b else b))"
    by (rule safeI) (simp add: persist_lawful)
  moreover have "safe (outcome_stored v) ?first" using assms by (auto intro: safe_always)
  ultimately have "safe (outcome_stored v) (andthen ?first
      (\<lambda>_ b. (Inr (), if has then persist_native_presentation env r p b else b)))"
    by (intro safe_andthen [of _ _ "\<lambda>_ b. fits b r"]) (use fits in auto)
  then show ?thesis by (simp add: safe_def follow_up_def Recorded)
qed (auto simp: safe_def follow_up_def)

lemma safe_record_with:
  assumes "safe always drain" shows "safe P (record_result_with env drain i result remember approval)"
  unfolding record_result_with_def
proof (rule safe_andthen [OF safe_attempt safe_follow_up [OF assms]])
  fix a v b assume a: "sound a" and m: "record_attempt env i result remember approval a = (Inr v, b)"
  show "outcome_stored v b"
  proof (cases v)
    case (Recorded r has p)
    with m obtain c where c: "record_result_once env i result approval a = (Inr (Recorded r has p), c)"
      and "ap_store b = ap_store c" by (auto elim: attempt_Recorded)
    with record_once_Recorded(1) [OF a c] show ?thesis by (simp add: outcome_stored_def Recorded)
  qed (simp_all add: outcome_stored_def)
qed

section \<open>Dispatching is safe\<close>

lemma keeps_save_operation:
  assumes "store_ok s" "ms_find_operation_for_run s i = Some q" "o_id p = o_id q" "o_run_id p = o_run_id q"
    "o_status q \<noteq> Op_INTENDED \<longrightarrow> o_status p \<noteq> Op_INTENDED"
  shows "keeps s (ms_save_operation p s)"
proof -
  have "touches i s (ms_save_operation p s)"
    using find_operation_row [OF assms(1,2)] assms(3-5) by (intro touches_save_operation [where q = q]) simp_all
  then show ?thesis by (auto simp: touches_def keeps_def) (simp add: ms_save_operation_def)
qed

lemma find_after_save:
  assumes "store_ok s" "ms_find_operation_for_run s i = Some p"
  shows "ms_find_operation_for_run (ms_save_operation (p\<lparr>o_status := st\<rparr>) s) i = Some (p\<lparr>o_status := st\<rparr>)"
  using find_save_operation [of s "p\<lparr>o_status := st\<rparr>" p i] find_operation_row [OF assms] assms by simp

lemma open_at_save_operation [simp]: "open_at (ms_save_operation p s) i = open_at s i"
  by (simp add: open_at_def ms_save_operation_def)

lemma open_at_same_core: "same_core s t \<Longrightarrow> open_at t i = open_at s i"
  by (simp add: open_at_def same_core_def)

lemma open_at_save_run: "open_at (ms_save_run r s) i = (if i = r_id r then \<not> terminal (r_status r) else open_at s i)"
  by (auto simp: open_at_def ms_save_run_def update_conv')

lemma safe_finish_operation: "safe P (finish_operation r)"
proof (rule safeI)
  fix a :: app assume a: "sound a"
  show "lawful a (snd (finish_operation r a))"
  proof (cases "ms_find_operation_for_run (ap_store a) (r_id r)")
    case None
    then show ?thesis by (simp add: finish_operation_def)
  next
    case (Some p)
    have "safe (\<lambda>b. b = a) (writing (ms_save_operation
      (if r_status r = Rs_FAILED then p\<lparr>o_status := Op_FAILED\<rparr>
       else if terminal (r_status r) then p\<lparr>o_status := Op_COMPLETED\<rparr> else p)))"
      by (rule safe_writing) (use Some in \<open>auto intro!: keeps_save_operation sound_ok\<close>)
    from safeD [OF this a refl] show ?thesis by (simp add: finish_operation_def Some)
  qed
qed

definition held_open :: "run \<Rightarrow> app \<Rightarrow> bool" where
  "held_open r a \<longleftrightarrow> open_at (ap_store a) (r_id r) \<and> no_loss (ap_store a) r"

lemma keeps_save_held:
  "held_open r a \<Longrightarrow> r_id r' = r_id r \<Longrightarrow> r_approval_attempts r' = r_approval_attempts r
   \<Longrightarrow> keeps (ap_store a) (ms_save_run r' (ap_store a))"
  by (auto simp: held_open_def intro: keeps_save_open no_loss_same)

lemma safe_dispatch_failed: "safe (held_open r) (dispatch_failed r e)"
  by (cases e) (auto simp: dispatch_failed_def Let_def
      intro!: safe_seq safe_writing safe_finish_operation keeps_save_held)

definition in_dispatch :: "run \<Rightarrow> operation \<Rightarrow> app \<Rightarrow> bool" where
  "in_dispatch r p a \<longleftrightarrow> held_open r a \<and> ms_find_operation_for_run (ap_store a) (r_id r) = Some p"

lemma call_unknown_keeps:
  assumes ok: "store_ok s" and o: "open_at s (r_id r)" "no_loss s r" and p: "ms_find_operation_for_run s (r_id r) = Some p"
  shows "keeps s (emit env (r_id r) ty src payload (ms_save_operation (p\<lparr>o_status := Op_UNKNOWN\<rparr>)
    (snd (set_run Rs_PENDING_RECONCILE
      (\<lambda>x. x\<lparr>r_error_code := JStr REMOTE_STATE_UNKNOWN, r_summary := SUMMARY_CALL_UNKNOWN\<rparr>) r s))))"
proof -
  let ?s1 = "snd (set_run Rs_PENDING_RECONCILE
      (\<lambda>x. x\<lparr>r_error_code := JStr REMOTE_STATE_UNKNOWN, r_summary := SUMMARY_CALL_UNKNOWN\<rparr>) r s)"
  have 1: "keeps s ?s1"
    using o by (auto simp: set_run_def Let_def intro!: keeps_save_open no_loss_same [OF o(2)])
  have "ms_find_operation_for_run ?s1 (r_id r) = Some p" by (simp add: set_run_def Let_def p)
  then have "keeps ?s1 (ms_save_operation (p\<lparr>o_status := Op_UNKNOWN\<rparr>) ?s1)"
    by (rule keeps_save_operation [OF keeps_ok [OF 1 ok]]) simp_all
  from keeps_trans [OF 1 keeps_trans [OF this same_core_keeps [OF same_core_emit]]] show ?thesis .
qed

lemma safe_call_unknown: "safe (in_dispatch r p) (call_unknown env r p)"
proof (rule safeI)
  fix a :: app assume a: "sound a" "in_dispatch r p a"
  let ?w = "writing (\<lambda>s. emit env (r_id r) Ev_RECONCILED ''core'' [(''error_code'', JStr REMOTE_STATE_UNKNOWN)]
           (ms_save_operation (p\<lparr>o_status := Op_UNKNOWN\<rparr>)
             (snd (set_run Rs_PENDING_RECONCILE
               (\<lambda>x. x\<lparr>r_error_code := JStr REMOTE_STATE_UNKNOWN, r_summary := SUMMARY_CALL_UNKNOWN\<rparr>) r s))))"
  have "safe (in_dispatch r p) ?w"
    by (rule safe_writing) (auto simp: in_dispatch_def held_open_def intro!: call_unknown_keeps sound_ok)
  from safeD [OF this a] show "lawful a (snd (call_unknown env r p a))"
    by (auto simp: call_unknown_def split: sum.splits prod.splits)
qed

lemma log_call_lawful:
  assumes "i \<notin> set (ap_calls a)" "past_intent (ap_store a) i"
  shows "lawful a (log_call i (a\<lparr>ap_workers := ws\<rparr>))"
  using assms by (simp add: lawful_def log_call_def sound_def)

lemma log_call_workers: "log_call i a = log_call i (a\<lparr>ap_workers := ap_workers a\<rparr>)"
  by simp

lemma safe_call_backend:
  assumes "safe always drain"
  shows "safe (\<lambda>a. in_dispatch r (p\<lparr>o_status := Op_DISPATCHED\<rparr>) a \<and> r_id r \<notin> set (ap_calls a))
     (call_backend env drain t r p name)"
proof (rule safeI, elim conjE)
  fix a :: app assume a: "sound a" "in_dispatch r (p\<lparr>o_status := Op_DISPATCHED\<rparr>) a" "r_id r \<notin> set (ap_calls a)"
  then have sp: "past_intent (ap_store a) (r_id r)" by (simp add: in_dispatch_def past_intent_def)
  let ?b = "log_call (r_id r) a"
  have l: "lawful a (log_call (r_id r) (a\<lparr>ap_workers := ws\<rparr>))" for ws
    by (rule log_call_lawful [OF a(3) sp])
  have lb: "lawful a ?b" using l [of "ap_workers a"] by simp
  note b = lawful_sound [OF lb a(1)]
  have u: "lawful ?b (snd (call_unknown env r (p\<lparr>o_status := Op_DISPATCHED\<rparr>) ?b))"
    by (rule safeD [OF safe_call_unknown b]) (use a(2) in \<open>simp add: in_dispatch_def held_open_def log_call_def\<close>)
  have v: "lawful ?b (snd (record_result_with env drain (r_id r) result True None ?b))" for result
    by (rule safeD [OF safe_record_with [OF assms] b TrueI])
  show "lawful a (snd (call_backend env drain t r p name a))"
    using l lawful_trans [OF lb u] lawful_trans [OF lb v]
    by (auto simp: call_backend_def start_worker_def Let_def split: sum.splits)
qed

lemma safe_swallow: "safe P m \<Longrightarrow> safe P (swallow_asterun m)"
  by (auto simp: safe_def swallow_asterun_def split: prod.splits sum.splits)

lemma dispatching_simps [simp]:
  "r_id (dispatching r) = r_id r" "r_status (dispatching r) = Rs_DISPATCHING"
  "r_approval_attempts (dispatching r) = r_approval_attempts r"
  by (simp_all add: dispatching_def)

lemma safe_mark_dispatching: "safe (held_open r) (mark_dispatching env name r)"
  unfolding mark_dispatching_def
  by (intro safe_seq safe_writing keeps_save_held same_core_keeps same_core_emit) simp_all

lemma held_dispatching: "held_open r a \<Longrightarrow> held_open (dispatching r) a"
  by (auto simp: held_open_def intro: no_loss_same)

lemma held_saved: "ap_store b = ms_save_run r s \<Longrightarrow> \<not> terminal (r_status r) \<Longrightarrow> held_open r b"
  by (simp add: held_open_def no_loss_saved open_at_save_run)

lemma held_save_operation: "ap_store b = ms_save_operation p (ap_store a) \<Longrightarrow> held_open r b = held_open r a"
  by (simp add: held_open_def no_loss_def) (simp add: ms_save_operation_def)

lemma held_store: "ap_store b = ap_store a \<Longrightarrow> held_open r b = held_open r a"
  by (simp add: held_open_def)

lemma writing_state:
  assumes "writing f a = (v, b)"
  shows "ap_calls b = ap_calls a" "ap_store b = ap_store a \<or> ap_store b = f (ap_store a)"
  using assms by (auto simp: writing_def elim!: transaction_cases)

lemma held_core: "same_core (ap_store a) (ap_store b) \<Longrightarrow> held_open r b = held_open r a"
  by (simp add: held_open_def same_core_def open_at_def no_loss_def)

lemma held_emit: "ap_store b = emit env i ty src w (ap_store a) \<Longrightarrow> held_open r b = held_open r a"
  by (rule held_core) simp

lemma mark_dispatching_state:
  assumes "mark_dispatching env name r a = (v, b)" "in_dispatch r p a"
  shows "in_dispatch (dispatching r) p b" "ap_calls b = ap_calls a"
proof -
  obtain v1 c where 1: "writing (ms_save_run (dispatching r)) a = (v1, c)"
    by (cases "writing (ms_save_run (dispatching r)) a")
  note w = writing_state [OF 1]
  have "held_open (dispatching r) c"
    using w(2)
  proof
    assume "ap_store c = ap_store a"
    from held_store [OF this] show ?thesis using assms(2) held_dispatching [of r a] by (simp add: in_dispatch_def)
  next
    assume "ap_store c = ms_save_run (dispatching r) (ap_store a)"
    then show ?thesis by (rule held_saved) (simp add: TERMINAL_RUN_STATUSES_def)
  qed
  moreover have "ms_find_operation_for_run (ap_store c) (r_id r) = Some p"
    using w(2) assms(2) by (auto simp: in_dispatch_def)
  ultimately have c: "in_dispatch (dispatching r) p c" "ap_calls c = ap_calls a"
    using w(1) by (simp_all add: in_dispatch_def)
  have e: "in_dispatch (dispatching r) p b' \<and> ap_calls b' = ap_calls c"
    if "writing (emit env (r_id r) Ev_RUN_DISPATCHING ''core'' payload) c = (v', b')" for v' b' payload
    using writing_state(2) [OF that]
  proof
    assume b': "ap_store b' = ap_store c"
    from held_store [OF this, of "dispatching r"] show ?thesis
      using c(1) writing_state(1) [OF that] by (simp add: in_dispatch_def b')
  next
    assume b': "ap_store b' = emit env (r_id r) Ev_RUN_DISPATCHING ''core'' payload (ap_store c)"
    show ?thesis
      using c(1) writing_state(1) [OF that] held_emit [OF b', of "dispatching r"]
      by (simp add: in_dispatch_def b' same_core_operation [OF same_core_emit])
  qed
  show "in_dispatch (dispatching r) p b" "ap_calls b = ap_calls a"
    using assms(1) 1 c e by (auto simp: mark_dispatching_def andthen_def split: sum.splits)
qed

lemma safe_mark_dispatched:
  "safe (\<lambda>a. ms_find_operation_for_run (ap_store a) (r_id r) = Some p) (mark_dispatched env r p)"
  unfolding mark_dispatched_def
  by (intro safe_seq safe_writing safe_project) (auto intro!: keeps_save_operation sound_ok)

lemma mark_dispatched_state:
  assumes "sound a" "mark_dispatched env r p a = (Inr x, b)" "in_dispatch r p a"
  shows "in_dispatch r (p\<lparr>o_status := Op_DISPATCHED\<rparr>) b" "ap_calls b = ap_calls a"
proof -
  obtain y c where 1: "writing (ms_save_operation (p\<lparr>o_status := Op_DISPATCHED\<rparr>)) a = (Inr y, c)"
    and 2: "project_slot env r c = (Inr x, b)"
    using assms(2) by (auto simp: mark_dispatched_def andthen_def split: sum.splits prod.splits)
  have c: "ap_store b = ap_store c" "ap_calls b = ap_calls c"
    using project_slot_store [of env r c] 2 by simp_all
  note w = writing_Inr [OF 1]
  have "held_open r c = held_open r a" by (rule held_save_operation) (use w in simp)
  moreover have "held_open r b = held_open r c" by (rule held_store) (fact c(1))
  ultimately show "in_dispatch r (p\<lparr>o_status := Op_DISPATCHED\<rparr>) b" "ap_calls b = ap_calls a"
    using w c assms(3) find_after_save [OF sound_ok [OF assms(1)]] by (simp_all add: in_dispatch_def)
qed

lemma prepare_dispatch_id: "prepare_dispatch env t r p = (r1, e)
    \<Longrightarrow> r_id r1 = r_id r \<and> r_approval_attempts r1 = r_approval_attempts r"
  by (auto simp: prepare_dispatch_def Let_def split: prod.splits if_splits)

lemma in_dispatch_prepared:
  "prepare_dispatch env t r p = (r1, e) \<Longrightarrow> in_dispatch r q a \<Longrightarrow> in_dispatch r1 q a"
  using prepare_dispatch_id by (fastforce simp: in_dispatch_def held_open_def no_loss_def attempts_def)

lemma safe_dispatch_queued:
  "safe (\<lambda>a. in_dispatch r p a \<and> o_status p = Op_INTENDED) (dispatch_queued env t r p name)"
proof (rule safeI, elim conjE)
  fix a :: app assume a: "sound a" and d: "in_dispatch r p a" and p: "o_status p = Op_INTENDED"
  have "\<not> past_intent (ap_store a) (r_id r)" using d p by (simp add: in_dispatch_def past_intent_def)
  then have new: "r_id r \<notin> set (ap_calls a)" using a by (auto simp: sound_def)
  obtain r1 e where pr: "prepare_dispatch env t r p = (r1, e)" by (cases "prepare_dispatch env t r p")
  note id = prepare_dispatch_id [OF pr]
  note d1 = in_dispatch_prepared [OF pr d]
  then have o: "held_open r1 a" by (simp add: in_dispatch_def)
  show "lawful a (snd (dispatch_queued env t r p name a))"
  proof (cases e)
    case (Some x)
    then show ?thesis using pr safeD [OF safe_dispatch_failed a o] by (simp add: dispatch_queued_def)
  next
    case None
    obtain v b where m: "mark_dispatching env name r1 a = (v, b)" by (cases "mark_dispatching env name r1 a")
    have l: "lawful a b" using safeD [OF safe_mark_dispatching a o, of env name] m by simp
    note b = lawful_sound [OF l a]
    have db: "in_dispatch (dispatching r1) p b" "r_id r1 \<notin> set (ap_calls b)"
      using mark_dispatching_state [OF m d1] new id by simp_all
    let ?rest = "andthen (mark_dispatched env (dispatching r1) p)
        (\<lambda>_. call_backend env no_drain t (dispatching r1) p name)"
    have s: "safe (\<lambda>b. in_dispatch (dispatching r1) p b \<and> r_id r1 \<notin> set (ap_calls b)) ?rest"
    proof (rule safe_andthen [OF _ safe_call_backend [OF safe_no_drain]])
      show "safe (\<lambda>b. in_dispatch (dispatching r1) p b \<and> r_id r1 \<notin> set (ap_calls b))
          (mark_dispatched env (dispatching r1) p)"
        by (rule safe_weaken [OF safe_mark_dispatched]) (simp add: in_dispatch_def)
    qed (use mark_dispatched_state in auto)
    have "lawful b (snd (swallow_asterun ?rest b))" using safeD [OF safe_swallow [OF s] b] db by simp
    moreover have "lawful b (snd (dispatch_failed (dispatching r1) x b))" for x
      by (rule safeD [OF safe_dispatch_failed b]) (use db in \<open>simp add: in_dispatch_def\<close>)
    ultimately show ?thesis using None pr m l
      by (auto simp: dispatch_queued_def split: sum.splits intro: lawful_trans)
  qed
qed

lemma safe_drain_item: "safe always (drain_item env item)"
proof (rule safeI)
  fix a :: app assume a: "sound a"
  have d: "lawful a (snd (dispatch_queued env t r p name (on_sched f a)))"
    if "ms_get_run (ap_store a) i = Inr r" "\<not> terminal (r_status r)"
      "ms_find_operation_for_run (ap_store a) (r_id r) = Some p" "o_status p = Op_INTENDED" for t r p name f i
  proof -
    have "r_id r = i" using get_run_id [OF sound_ok [OF a]] that(1) .
    then have "in_dispatch r p (on_sched f a)"
      using that by (auto simp: in_dispatch_def held_open_def open_at_get intro: no_loss_get)
    then show ?thesis
      using lawful_trans [OF lawful_bookkeeping(1) safeD [OF safe_dispatch_queued lawful_sound [OF lawful_bookkeeping(1) a]]]
        that(4) by blast
  qed
  show "lawful a (snd (drain_item env item a))"
    by (simp add: drain_item_def Let_def d split: sum.splits option.splits)
qed

lemma safe_drain: "safe P (drain_queue env)"
proof (rule safe_always, rule safeI)
  fix a :: app assume a: "sound a"
  show "lawful a (snd (drain_queue env a))"
    using safeD [OF safe_each [of "drain_item env", OF safe_drain_item] a TrueI] by (simp add: drain_queue_def)
qed

lemma safe_record_result: "safe P (record_result env i result remember approval)"
  unfolding record_result_def by (rule safe_record_with [OF safe_drain])

section \<open>Polling, cancelling, reconciling and restarting are safe\<close>

lemma safe_set_epoch:
  assumes "safe always m" "\<And>a. ap_store (f a) = ap_store a \<and> ap_calls (f a) = ap_calls a"
  shows "safe P (\<lambda>a. m (f a))"
proof (rule safeI)
  fix a :: app assume a: "sound a"
  have l: "lawful a (f a)" using assms(2) by (intro lawful_store) simp_all
  show "lawful a (snd (m (f a)))"
    by (rule lawful_trans [OF l safeD [OF assms(1) lawful_sound [OF l a] TrueI]])
qed

lemma safe_retry: "safe P (retry_retained_results env)"
proof (rule safe_always, rule safeI)
  fix a :: app assume a: "sound a"
  have "safe always (each (\<lambda>(k, c). record_result env (RunId k) (rr_result c) False (rr_approval c)) xs)" for xs
    by (rule safe_each) (simp add: safe_record_result split: prod.splits)
  from safeD [OF this a TrueI] show "lawful a (snd (retry_retained_results env a))"
    by (simp add: retry_retained_results_def)
qed

lemma safe_poll: "safe P (poll env updates alive)"
proof -
  have u: "safe always (each (\<lambda>(i, result). record_result env i result True None) updates)"
    by (rule safe_each) (simp add: safe_record_result split: prod.splits)
  have "safe always (andthen (retry_retained_results env) (\<lambda>_.
     andthen (each (\<lambda>(i, result). record_result env i result True None) updates) (\<lambda>_ b.
       drain_queue env (b\<lparr>ap_workers := filter alive (ap_workers b)\<rparr>))))"
    by (intro safe_seq safe_retry u safe_set_epoch [OF safe_drain]) simp
  from safe_set_epoch [OF this, of "\<lambda>a. a\<lparr>ap_poll_epoch := ap_poll_epoch a + 1\<rparr>"] show ?thesis
    by (simp add: poll_def [abs_def])
qed

lemma safe_apply_retained:
  assumes "safe always drain" shows "safe P (apply_retained_result_if_any env drain r)"
proof (rule safe_always, rule safeI)
  fix a :: app assume a: "sound a"
  show "lawful a (snd (apply_retained_result_if_any env drain r a))"
    by (simp add: apply_retained_result_if_any_def safeD [OF safe_record_with [OF assms] a TrueI] split: json.split)
qed

lemma safe_release: "safe P (release_untracked_run env r)"
proof -
  have "safe always (transaction (release_body env (r_id r)))"
    by (rule safe_transaction) (auto intro!: release_body_keeps sound_ok)
  then have t: "safe P (transaction (release_body env (r_id r)))" for P by (rule safe_always)
  have f: "safe always ((\<lambda>(released, current) b.
      if released then andthen (project_slot env current) (\<lambda>_ c. (Inr current, c)) b else (Inr current, b)) x)" for x
  proof -
    have "safe always (andthen (project_slot env current) (\<lambda>_ c. (Inr current, c)))" for current
      by (intro safe_seq safe_project safe_return)
    then show ?thesis by (cases x) (simp add: safe_def)
  qed
  show ?thesis
    unfolding release_untracked_run_def by (intro safe_if safe_seq safe_project safe_return t f)
qed

lemma safe_demote:
  "safe (\<lambda>a. in_dispatch r p a) (demote_unknown env i r p)"
  unfolding demote_unknown_def Let_def
proof (rule safe_andthen [where Q = "\<lambda>_. held_open r"])
  show "safe (in_dispatch r p) (writing (ms_save_operation (p\<lparr>o_status := Op_UNKNOWN\<rparr>)))"
    by (rule safe_writing) (auto simp: in_dispatch_def intro!: keeps_save_operation sound_ok)
  have w: "safe (held_open r) (if r_status r \<noteq> Rs_PENDING_RECONCILE
       then writing (\<lambda>s. snd (set_run Rs_PENDING_RECONCILE (\<lambda>x. x\<lparr>r_error_code := JStr REMOTE_STATE_UNKNOWN\<rparr>) r s))
       else (\<lambda>b. (Inr (), b)))"
    by (auto intro!: safe_writing keeps_save_held simp: set_run_def Let_def)
  show "safe (held_open r) (andthen (if r_status r \<noteq> Rs_PENDING_RECONCILE
       then writing (\<lambda>s. snd (set_run Rs_PENDING_RECONCILE (\<lambda>x. x\<lparr>r_error_code := JStr REMOTE_STATE_UNKNOWN\<rparr>) r s))
       else (\<lambda>b. (Inr (), b)))
       (\<lambda>_. andthen (reading (\<lambda>s. ms_get_run s (r_id r))) (\<lambda>r'. andthen (writing (emit_kept env (r_id r) []))
          (\<lambda>_ b. (Inr (reconcile_view i (Some (p\<lparr>o_status := Op_UNKNOWN\<rparr>)) r' True), b)))))" for x :: unit
    by (rule safe_seq [OF w], rule safe_reading)
      (intro safe_seq safe_writing safe_return same_core_keeps emit_kept_core)
qed (auto simp: in_dispatch_def held_save_operation dest!: writing_Inr)

lemma safe_reconcile_run:
  "safe (\<lambda>a. ms_get_run (ap_store a) (r_id r) = Inr r) (reconcile_run env t r)"
proof (rule safeI)
  fix a :: app assume a: "sound a" and r: "ms_get_run (ap_store a) (r_id r) = Inr r"
  have d: "lawful a (snd (demote_unknown env i r p a))"
    if "\<not> terminal (r_status r)" "ms_find_operation_for_run (ap_store a) (r_id r) = Some p" for i p
    by (rule safeD [OF safe_demote a]) (use that r no_loss_get [OF r] in \<open>simp add: in_dispatch_def held_open_def open_at_get\<close>)
  have l: "lawful a (snd (andthen (release_untracked_run env r) (\<lambda>r' b. (f r', b)) a))" for f :: "run \<Rightarrow> dict res"
    by (rule safeD [OF safe_seq [OF safe_release safe_return] a TrueI])
  show "lawful a (snd (reconcile_run env t r a))"
    by (auto simp: reconcile_run_def Let_def l d split: option.splits)
qed

lemma safe_get_run:
  assumes "\<And>r. safe (\<lambda>a. P a \<and> ms_get_run (ap_store a) (r_id r) = Inr r) (f r)"
  shows "safe P (andthen (reading (\<lambda>s. ms_get_run s i)) f)"
proof (rule safe_reading, rule safe_weaken [OF assms])
  fix r a assume "sound a" "P a \<and> ms_get_run (ap_store a) i = Inr r"
  then show "P a \<and> ms_get_run (ap_store a) (r_id r) = Inr r"
    using get_run_id [OF sound_ok] by metis
qed

lemma safe_reconcile_one: "safe always drain \<Longrightarrow> safe P (reconcile_one env drain i)"
  unfolding reconcile_one_def
  by (intro safe_reading) (auto intro!: safe_get_run safe_seq safe_apply_retained
      intro: safe_weaken [OF safe_reconcile_run] split: option.split)

lemma safe_drop_result: "safe P m \<Longrightarrow> safe P (andthen m (\<lambda>_ b. (Inr (), b)))"
  by (rule safe_seq) auto

lemma safe_restore_dispatched: "safe P (restore_dispatched env t r)"
  unfolding restore_dispatched_def
  by (auto intro!: safe_seq safe_record_with safe_drop_result safe_reconcile_one split: option.split)

lemma safe_restore_open: "safe P (restore_open env t r)"
proof (rule safe_always, rule safeI)
  fix a :: app assume a: "sound a"
  show "lawful a (snd (restore_open env t r a))"
    using safeD [OF safe_restore_dispatched a TrueI] safeD [OF safe_project(1) a TrueI]
      safeD [OF safe_drop_result [OF safe_reconcile_one [OF safe_no_drain]] a TrueI]
    by (auto simp: restore_open_def split: option.splits)
qed

lemma safe_restore_task: "safe P (restore_task env i)"
  unfolding restore_task_def
  by (intro safe_reading) (auto intro!: safe_get_run safe_seq safe_apply_retained safe_restore_open
      split: option.split)

lemma safe_restore: "safe P (restore_scheduler env)"
proof (rule safe_always, rule safeI)
  fix a :: app assume a: "sound a"
  have "safe always (andthen (each (restore_task env) xs) (\<lambda>_. if env_executor env then drain_queue env else no_drain))" for xs
    by (intro safe_seq safe_each safe_restore_task safe_if safe_drain safe_no_drain)
  from safeD [OF this a TrueI] show "lawful a (snd (restore_scheduler env a))"
    by (simp add: restore_scheduler_def)
qed

lemma safe_cancel_open:
  "safe (\<lambda>a. ms_get_run (ap_store a) (r_id r) = Inr r \<and> \<not> terminal (r_status r)) (cancel_open env t r)"
proof (cases "env_cancel_guard env t r")
  case (Some e)
  then show ?thesis by (simp add: cancel_open_def)
next
  case None
  have k: "keeps s (emit env (r_id r) ty src payload (ms_save_run (r\<lparr>r_cancel_requested := True\<rparr>) s))"
    if "ms_get_run s (r_id r) = Inr r" "\<not> terminal (r_status r)" for s ty src payload
    by (rule keeps_trans [OF keeps_save_open same_core_keeps [OF same_core_emit]])
      (use that no_loss_get [OF that(1)] in \<open>auto simp: open_at_get intro: no_loss_same\<close>)
  have c: "safe always (\<lambda>a. case ms_find_operation_for_run (ap_store a) (r_id r) of
              Some p \<Rightarrow> if o_status p = Op_INTENDED then (v, on_sched f a) else (w, a)
            | None \<Rightarrow> (w, a))" for v w :: "dict res" and f
    by (rule safeI) (simp split: option.split)
  show ?thesis
    unfolding cancel_open_def None option.case
    by (intro safe_seq safe_writing k c safe_if safe_record_result safe_no_drain safe_reading safe_return)
      (auto simp: safe_def reading_def)
qed

lemma safe_cancel: "safe P (task_cancel env i)"
proof -
  have c: "safe (\<lambda>a. ms_get_run (ap_store a) (r_id r) = Inr r) (if terminal (r_status r) then (\<lambda>a. (v, a)) else cancel_open env t r)"
    for r t and v :: "run res"
    by (auto intro: safe_weaken [OF safe_cancel_open])
  have w: "safe (\<lambda>a. ms_get_run (ap_store a) (r_id r) = Inr r) (andthen
       (if pausing then writing (ms_save_task tk) else no_drain)
       (\<lambda>_. if terminal (r_status r) then (\<lambda>a. if pausing then (Inr r, a) else (v, a)) else cancel_open env t r))"
    for r t tk pausing and v :: "run res"
  proof (rule safe_andthen [where Q = "\<lambda>_ a. ms_get_run (ap_store a) (r_id r) = Inr r"])
    show "safe (\<lambda>a. ms_get_run (ap_store a) (r_id r) = Inr r) (if pausing then writing (ms_save_task tk) else no_drain)"
      by (auto intro!: safe_writing same_core_keeps)
    show "safe (\<lambda>a. ms_get_run (ap_store a) (r_id r) = Inr r)
        (if terminal (r_status r) then (\<lambda>a. if pausing then (Inr r, a) else (v, a)) else cancel_open env t r)" for x :: unit
      using c [of r v t] c [of r "Inr r" t] by (cases pausing; cases "terminal (r_status r)") simp_all
  qed (auto simp: no_drain_def dest!: writing_Inr split: if_splits simp: ms_get_run_def ms_save_task_def)
  show ?thesis
    unfolding task_cancel_def
  proof (rule safe_reading, rule safe_reading)
    fix t u
    let ?P = "\<lambda>a. (P a \<and> ms_get_task (ap_store a) i = Inr t)
      \<and> (case env_authorize env t of Some e \<Rightarrow> Inl e | None \<Rightarrow> Inr ()) = Inr u"
    let ?close = "\<lambda>r pausing. andthen (if pausing
          then writing (ms_save_task (pause_quality ''INVALID_REQUEST'' QUALITY_CANCELLED ''blocked'' t)) else no_drain)
        (\<lambda>_. if terminal (r_status r) then
            (\<lambda>a. if pausing then (Inr r, a)
                 else (Inl (AsterunError ''RUN_ALREADY_TERMINAL''
                   [(''status'', JStr (str_run_status (r_status r))),
                    (''cancel_requested'', JBool (r_cancel_requested r))]), a))
          else cancel_open env t r)"
    have "safe ?P (andthen (reading (\<lambda>s. ms_get_run s ri))
        (\<lambda>r. andthen (reading (\<lambda>_. quality_in_progress t)) (?close r)))" for ri
      by (rule safe_get_run, rule safe_reading, rule safe_weaken [OF w]) simp
    then show "safe ?P (case t_current_run_id t of None \<Rightarrow> (\<lambda>a. (raise ''NOT_FOUND'', a))
        | Some ri \<Rightarrow> andthen (reading (\<lambda>s. ms_get_run s ri))
            (\<lambda>r. andthen (reading (\<lambda>_. quality_in_progress t)) (?close r)))"
      by (cases "t_current_run_id t") simp_all
  qed
qed

section \<open>Submitting is safe\<close>

text \<open>Identifiers are new: \<^verbatim>\<open>new_run_id\<close> and \<^verbatim>\<open>new_operation_id\<close> draw them at random.\<close>

definition fresh_intent :: "operation \<Rightarrow> run \<Rightarrow> app \<Rightarrow> bool" where
  "fresh_intent p r a \<longleftrightarrow> map_of (ms_runs (ap_store a)) (run_val (r_id r)) = None
     \<and> operation_val (o_id p) \<notin> fst ` set (ms_operations (ap_store a))
     \<and> ms_find_operation_for_run (ap_store a) (r_id r) = None \<and> r_status r = Rs_QUEUED"

lemma commit_new_keeps:
  assumes ok: "store_ok (ap_store a)" and f: "fresh_intent p r a"
    and c: "ms_commit_intent H p t r b (ap_store a) = (Inr (p', t', r', False), s)"
  shows "keeps (ap_store a) s" "p' = intended p t r" "r' = r" "t' = t"
    "open_at s (r_id r)" "no_loss s r" "ms_find_operation_for_run s (r_id r) = Some p'"
proof -
  let ?s = "ap_store a"
  have n: "map_of (ms_ops_by_key ?s) (idempotency_key p) = None"
    and p': "p' = intended p t r" "r' = r" "t' = t"
    and s: "s = (let s1 = ?s\<lparr>ms_operations := AList.update (operation_val (o_id p')) p' (ms_operations ?s),
                            ms_ops_by_key := AList.update (idempotency_key p) p' (ms_ops_by_key ?s),
                            ms_tasks := AList.update (task_val (t_id t)) t (ms_tasks ?s),
                            ms_runs := AList.update (run_val (r_id r)) r (ms_runs ?s)\<rparr>
                  in case b of None \<Rightarrow> s1 | Some x \<Rightarrow> ms_save_session x s1)"
    using c by (auto simp: ms_commit_intent_def idempotency_conflict_def bind_res_Inr_iff Let_def
        split: if_splits option.splits sum.splits)
  show "p' = intended p t r" "r' = r" "t' = t" by (fact p')+
  have id: "o_id p' = o_id p" "o_run_id p' = Some (r_id r)" by (simp_all add: p' intended_def)
  have ops: "ms_operations s = ms_operations ?s @ [(operation_val (o_id p), p')]"
    using f by (simp add: s ms_save_session_def id update_fresh map_of_eq_None_iff fresh_intent_def Let_def split: option.split)
  have runs: "ms_runs s = AList.update (run_val (r_id r)) r (ms_runs ?s)"
    by (simp add: s ms_save_session_def Let_def split: option.split)
  have keys: "ms_ops_by_key s = AList.update (idempotency_key p) p' (ms_ops_by_key ?s)"
    by (simp add: s ms_save_session_def Let_def split: option.split)
  have fnd: "ms_find_operation_for_run s i
      = (case ms_find_operation_for_run ?s i of None \<Rightarrow> if i = r_id r then Some p' else None | Some x \<Rightarrow> Some x)" for i
    by (auto simp: ms_find_operation_for_run_def ops find_append operation_for_def id split: option.split)
  show "ms_find_operation_for_run s (r_id r) = Some p'" using f by (simp add: fnd fresh_intent_def)
  show "open_at s (r_id r)"
    using f by (simp add: open_at_def runs update_conv' fresh_intent_def TERMINAL_RUN_STATUSES_def)
  show "no_loss s r" by (simp add: no_loss_def runs update_conv')
  have "store_ok s" using ok f id by (auto simp: store_ok_def ops runs update_conv' fresh_intent_def)
  moreover have "past_intent s i" if "past_intent ?s i" for i using that by (auto simp: past_intent_def fnd split: option.splits)
  moreover have "map_of (ms_runs s) k = Some x" if "map_of (ms_runs ?s) k = Some x" for k x
    using that f by (auto simp: runs update_conv' fresh_intent_def)
  ultimately show "keeps ?s s" by (auto simp: keeps_def attempted_def intent_keys_def keys update_conv')
qed

lemma commit_other_store:
  assumes "ms_commit_intent H p t r b s0 = (v, s)" "\<forall>p' t' r'. v \<noteq> Inr (p', t', r', False)"
  shows "same_core s0 s"
  using assms by (auto simp: ms_commit_intent_def idempotency_conflict_def bind_res_def Let_def same_core_def
      split: if_splits option.splits sum.splits)

definition committed :: "operation \<Rightarrow> task \<Rightarrow> run \<Rightarrow> intent \<Rightarrow> app \<Rightarrow> bool" where
  "committed p t r v a \<longleftrightarrow>
     (case v of (p', t', r', reused) \<Rightarrow> \<not> reused \<longrightarrow> p' = intended p t r \<and> t' = t \<and> r' = r \<and> in_dispatch r p' a)"

lemma safe_commit:
  "safe (fresh_intent p r) (commit_action env p t r b)"
proof (rule safeI)
  fix a :: app assume a: "sound a" and f: "fresh_intent p r a"
  obtain v s where c: "ms_commit_intent (env_hash env) p t r (Some b) (ap_store a) = (v, s)"
    by (cases "ms_commit_intent (env_hash env) p t r (Some b) (ap_store a)")
  have k: "keeps (ap_store a) s"
  proof (cases "\<exists>p' t' r'. v = Inr (p', t', r', False)")
    case True
    then show ?thesis using commit_new_keeps(1) [OF sound_ok [OF a] f] c by blast
  next
    case False
    then show ?thesis using commit_other_store [OF c] by (blast intro: same_core_keeps)
  qed
  have "lawful a (a\<lparr>ap_store := s\<rparr>)" by (rule lawful_store) (simp_all add: k)
  moreover have "lawful a (snd (transaction (\<lambda>_. Inr (x, s)) a))" for x :: intent
    by (rule safeD [of "\<lambda>b. b = a", OF safe_transaction a]) (auto simp: k)
  ultimately show "lawful a (snd (commit_action env p t r b a))"
    by (simp add: commit_action_def c split: sum.split)
qed

lemma commit_state:
  assumes "sound a" "fresh_intent p r a" "commit_action env p t r b a = (Inr v, c)"
  shows "committed p t r v c"
proof -
  obtain p' t' r' reused where v: "v = (p', t', r', reused)" by (cases v)
  obtain s where c: "ms_commit_intent (env_hash env) p t r (Some b) (ap_store a) = (Inr v, s)"
    and s: "ap_store c = s"
    using assms(3) by (auto simp: commit_action_def split: prod.splits sum.splits elim!: transaction_cases)
  show ?thesis
    using commit_new_keeps [OF sound_ok [OF assms(1)] assms(2)] c s
    by (auto simp: committed_def v in_dispatch_def held_open_def)
qed

lemma safe_dispatch_now:
  "safe (\<lambda>a. in_dispatch r p a \<and> o_status p = Op_INTENDED) (dispatch_now env t r p name)"
proof (rule safeI, elim conjE)
  fix a :: app assume a: "sound a" and d: "in_dispatch r p a" and p: "o_status p = Op_INTENDED"
  have "\<not> past_intent (ap_store a) (r_id r)" using d p by (simp add: in_dispatch_def past_intent_def)
  then have new: "r_id r \<notin> set (ap_calls a)" using a by (auto simp: sound_def)
  obtain r1 e where pr: "prepare_dispatch env t r p = (r1, e)" by (cases "prepare_dispatch env t r p")
  note id = prepare_dispatch_id [OF pr]
  let ?P = "\<lambda>b. in_dispatch r1 p b \<and> r_id r1 \<notin> set (ap_calls b)"
  have "safe ?P (andthen (mark_dispatching env name r1) (\<lambda>_.
          andthen (mark_dispatched env (dispatching r1) p) (\<lambda>_.
            call_backend env (drain_queue env) t (dispatching r1) p name)))"
  proof (rule safe_andthen [OF _ safe_andthen [OF _ safe_call_backend [OF safe_drain]]])
    show "safe ?P (mark_dispatching env name r1)"
      by (rule safe_weaken [OF safe_mark_dispatching]) (simp add: in_dispatch_def)
    show "safe (\<lambda>b. in_dispatch (dispatching r1) p b \<and> r_id r1 \<notin> set (ap_calls b))
        (mark_dispatched env (dispatching r1) p)"
      by (rule safe_weaken [OF safe_mark_dispatched]) (simp add: in_dispatch_def)
    show "in_dispatch (dispatching r1) p c \<and> r_id r1 \<notin> set (ap_calls c)"
      if "?P b" "mark_dispatching env name r1 b = (Inr x, c)" for b x c
      using mark_dispatching_state [OF that(2), of p] that(1) by simp
  qed (use mark_dispatched_state in auto)
  from safeD [OF this a] in_dispatch_prepared [OF pr d] new show "lawful a (snd (dispatch_now env t r p name a))"
    by (simp add: dispatch_now_def pr id split: option.split)
qed

lemma in_dispatch_emit:
  "in_dispatch r p a \<Longrightarrow> writing (emit env i ty src payload) a = (Inr x, b) \<Longrightarrow> in_dispatch r p b"
  by (auto simp: in_dispatch_def held_emit same_core_operation [OF same_core_emit] dest!: writing_Inr)

lemma safe_emit: "safe P (writing (emit env i ty src payload))"
  by (rule safe_writing) (simp add: same_core_keeps)

lemma safe_submit: "safe (fresh_intent p r) (submit_tail env p t r b ready name workspace)"
proof (rule safeI)
  fix a :: app assume a: "sound a" and f: "fresh_intent p r a"
  let ?b = "b\<lparr>s_task_id := Some (t_id t), s_updated_at := env_now env\<rparr>"
  define start where "start = (\<lambda>decision (p', t', r', reused).
              if reused then no_drain
              else
                andthen (writing (emit env (r_id r') Ev_TASK_CREATED ''core''
                    [(''workspace'', JStr (t_workspace t'))])) (\<lambda>_.
                andthen (writing (emit env (r_id r') Ev_RUN_QUEUED ''core'' [])) (\<lambda>_.
                case decision of
                  AdmitQueue \<Rightarrow>
                    (\<lambda>b. writing (emit env (r_id r') Ev_QUEUE_ACCEPTED ''core'' [(''backend'', JStr name)])
                      (on_sched (\<lambda>s. enqueue s name (task_val (t_id t')) (run_val (r_id r')) (Some workspace)) b))
                | AdmitStart \<Rightarrow> dispatch_now env t' r' p' name)))"
  have "safe (committed p t r v) (start decision v)" for decision v
  proof -
    obtain p' t' r' reused where v: "v = (p', t', r', reused)" by (cases v)
    have q: "safe P (\<lambda>b. writing (emit env (r_id r') Ev_QUEUE_ACCEPTED ''core'' [(''backend'', JStr name)])
                      (on_sched g b))" for P g
      by (rule safe_set_epoch [OF safe_emit]) simp
    let ?P = "in_dispatch r (intended p t r)"
    have st: "safe ?P (dispatch_now env t r (intended p t r) name)"
      by (rule safe_weaken [OF safe_dispatch_now]) (simp add: intended_def)
    have e: "safe ?P (andthen (writing (emit env i ty src w)) (\<lambda>_. m))" if "safe ?P m" for i ty src w and m :: "unit action"
      by (rule safe_andthen [where Q = "\<lambda>_. ?P", OF safe_emit that in_dispatch_emit])
    have "safe ?P (case decision of
                  AdmitQueue \<Rightarrow>
                    (\<lambda>b. writing (emit env (r_id r') Ev_QUEUE_ACCEPTED ''core'' [(''backend'', JStr name)]) (on_sched g b))
                | AdmitStart \<Rightarrow> dispatch_now env t r (intended p t r) name)" for g
      by (cases decision) (simp_all add: q st)
    note e [OF e [OF this]]
    then show ?thesis
      by (cases reused) (auto simp: start_def v safe_def committed_def no_drain_def)
  qed
  then have "safe (fresh_intent p r) (andthen (commit_action env p t r ?b) (start decision))" for decision
    by (rule safe_andthen [OF safe_commit]) (rule commit_state)
  from safeD [OF this a f] show "lawful a (snd (submit_tail env p t r b ready name workspace a))"
    by (simp add: submit_tail_def start_def split: sum.split)
qed

end
