(* ===== verification/Segment_Safety.thy ===== *)
theory Segment_Safety
  imports Segments Lifecycle_Safety
begin

text \<open>
  A continuation keeps the promise of the lifecycle: it marks the run it continues, adds an
  intent under new identifiers, and loses nothing else of the store.
\<close>

section \<open>Safe segment actions\<close>

definition seg_safe :: "(seg_state \<Rightarrow> bool) \<Rightarrow> 'a seg_action \<Rightarrow> bool" where
  "seg_safe P m \<longleftrightarrow> (\<forall>st. sound (ss_app st) \<and> P st \<longrightarrow> lawful (ss_app st) (ss_app (snd (m st))))"

abbreviation any_state :: "seg_state \<Rightarrow> bool" where
  "any_state \<equiv> \<lambda>_. True"

lemma seg_safeI:
  "(\<And>st. sound (ss_app st) \<Longrightarrow> P st \<Longrightarrow> lawful (ss_app st) (ss_app (snd (m st)))) \<Longrightarrow> seg_safe P m"
  by (simp add: seg_safe_def)

lemma seg_safeD: "seg_safe P m \<Longrightarrow> sound (ss_app st) \<Longrightarrow> P st \<Longrightarrow> lawful (ss_app st) (ss_app (snd (m st)))"
  by (simp add: seg_safe_def)

lemma seg_safe_weaken: "seg_safe P m \<Longrightarrow> (\<And>st. Q st \<Longrightarrow> P st) \<Longrightarrow> seg_safe Q m"
  by (simp add: seg_safe_def)

lemma seg_safe_any: "seg_safe any_state m \<Longrightarrow> seg_safe P m"
  by (simp add: seg_safe_def)

lemma seg_safe_same: "(\<And>st. ss_app (snd (m st)) = ss_app st) \<Longrightarrow> seg_safe P m"
  by (simp add: seg_safe_def)

lemma seg_safe_return [simp]: "seg_safe P (\<lambda>st. (v, st))"
  by (simp add: seg_safe_def)

lemma seg_safe_if: "(c \<Longrightarrow> seg_safe P m) \<Longrightarrow> (\<not> c \<Longrightarrow> seg_safe P n) \<Longrightarrow> seg_safe P (if c then m else n)"
  by simp

lemma at_seg_app: "ss_app (snd (at_seg m st)) = snd (m (ss_app st))"
  by (simp add: at_seg_def split: prod.split)

lemma seg_safe_app: "safe Q m \<Longrightarrow> (\<And>st. P st \<Longrightarrow> Q (ss_app st)) \<Longrightarrow> seg_safe P (at_seg m)"
  by (auto simp: seg_safe_def at_seg_app intro: safeD)

lemma seg_safe_then:
  assumes m: "seg_safe P m" and f: "\<And>x. seg_safe (Q x) (f x)"
    and post: "\<And>st x st'. sound (ss_app st) \<Longrightarrow> P st \<Longrightarrow> m st = (Inr x, st') \<Longrightarrow> Q x st'"
  shows "seg_safe P (seg_then m f)"
proof (rule seg_safeI)
  fix st assume ok: "sound (ss_app st)" and p: "P st"
  obtain v st' where ms: "m st = (v, st')" by (cases "m st")
  have l: "lawful (ss_app st) (ss_app st')" using seg_safeD [OF m ok p] ms by simp
  show "lawful (ss_app st) (ss_app (snd (seg_then m f st)))"
  proof (cases v)
    case (Inl e)
    then show ?thesis using l ms by (simp add: seg_then_def)
  next
    case (Inr x)
    have "lawful (ss_app st') (ss_app (snd (f x st')))"
      by (rule seg_safeD [OF f lawful_sound [OF l ok]]) (use post ok p ms Inr in simp)
    then show ?thesis using l ms Inr by (simp add: seg_then_def lawful_trans)
  qed
qed

lemma seg_safe_seq: "seg_safe P m \<Longrightarrow> (\<And>x. seg_safe any_state (f x)) \<Longrightarrow> seg_safe P (seg_then m f)"
  by (rule seg_safe_then [of _ _ "\<lambda>_ _. True"]) auto

lemma seg_safe_reading:
  assumes "\<And>x. seg_safe (\<lambda>st. P st \<and> g (seg_store st) = Inr x) (f x)"
  shows "seg_safe P (seg_then (at_seg (reading g)) f)"
  by (rule seg_safe_then [OF _ assms]) (auto simp: seg_safe_def at_seg_def reading_def)

lemma seg_safe_read:
  assumes "\<And>x. seg_safe (\<lambda>st. P st \<and> g st = Inr x) (f x)"
  shows "seg_safe P (seg_then (seg_read g) f)"
  by (rule seg_safe_then [OF _ assms]) (auto simp: seg_safe_def seg_read_def)

lemma seg_safe_attempt: "seg_safe P m \<Longrightarrow> seg_safe P (seg_attempt m)"
  by (auto simp: seg_safe_def seg_attempt_def split: prod.split sum.split)

section \<open>Marking is safe\<close>

lemma end_mark_outcome: "same_outcome r (end_mark reason who r)"
  unfolding end_mark_def by (rule same_outcome_note) (simp add: later_note_def)

lemma end_mark_simps [simp]:
  "r_id (end_mark reason who r) = r_id r" "r_status (end_mark reason who r) = r_status r"
  by (simp_all add: end_mark_def)

lemma keeps_end_mark:
  assumes "store_ok s" "ms_get_run s i = Inr src"
  shows "keeps s (ms_save_run (end_mark reason who src) s)"
proof (rule keeps_save_same [OF assms(1)])
  show "map_of (ms_runs s) (run_val (r_id (end_mark reason who src))) = Some src"
    using assms get_run_id [OF assms] by (simp add: get_run_iff)
qed (rule end_mark_outcome)

lemma seg_safe_save_mark:
  "seg_safe (\<lambda>st. P st \<and> ms_get_run (seg_store st) i = Inr src)
     (at_seg (writing (ms_save_run (end_mark reason who src))))"
  by (rule seg_safe_app [of "\<lambda>a. ms_get_run (ap_store a) i = Inr src"])
    (auto intro!: safe_writing keeps_end_mark sound_ok)

lemma seg_safe_mark: "seg_safe P (mark_segment_end r reason who)"
  unfolding mark_segment_end_def
  by (rule seg_safe_reading) (intro seg_safe_seq seg_safe_save_mark seg_safe_return)

lemma record_capsule_core:
  "record_capsule env t r trigger (s, rows) = Inr (row, s', rows') \<Longrightarrow> same_core s s'"
  by (auto simp: record_capsule_def write_row_def Let_def ms_put_blob_def same_core_def bind_res_Inr_iff
      split: sum.splits exn.splits option.splits prod.splits)

lemma seg_capsule_core: "same_core (seg_store st) (seg_store (snd (seg_capsule env t r trigger st)))
    \<and> ap_calls (ss_app (snd (seg_capsule env t r trigger st))) = ap_calls (ss_app st)"
proof -
  have tr: "snd (transaction (\<lambda>_. Inr ((), s')) a) = a\<lparr>ap_faults := tl (ap_faults a)\<rparr>
      \<or> snd (transaction (\<lambda>_. Inr ((), s')) a) = a\<lparr>ap_faults := tl (ap_faults a), ap_store := s'\<rparr>" for s' a
    by (auto simp: transaction_def Let_def split: list.split option.split)
  show ?thesis
  proof (cases "record_capsule (sg_capsule env) t r trigger (seg_store st, ss_rows st)")
    case (Inl e)
    then show ?thesis by (simp add: seg_capsule_def)
  next
    case (Inr x)
    obtain row s' rows' where x: "x = (row, s', rows')" by (cases x)
    have c: "same_core (seg_store st) s'" by (rule record_capsule_core) (use Inr x in simp)
    show ?thesis
      using tr [of s' "ss_app st"] c
      by (cases "transaction (\<lambda>_. Inr ((), s')) (ss_app st)")
        (auto simp: seg_capsule_def Inr x split: sum.split)
  qed
qed

lemma seg_safe_capsule: "seg_safe P (seg_capsule env t r trigger)"
  by (rule seg_safeI) (auto intro!: lawful_store same_core_keeps simp: seg_capsule_core)

lemma seg_safe_stop: "seg_safe P (seg_stop env t r reason)"
  unfolding seg_stop_def
  by (intro seg_safe_seq seg_safe_mark seg_safe_if seg_safe_attempt seg_safe_capsule seg_safe_return)

lemma seg_safe_backfill: "seg_safe P (backfill_continued_by t r)"
  unfolding backfill_continued_by_def Let_def
proof (rule seg_safe_reading, rule seg_safe_if)
  fix src
  have w: "seg_safe (\<lambda>st. P st \<and> ms_get_run (seg_store st) (r_id r) = Inr src
        \<and> ms_get_task (seg_store st) (t_id t) = Inr current
        \<and> ms_get_run (seg_store st) successor_id = Inr successor)
     (at_seg (writing (ms_save_run (end_mark reason who src))))" for current successor_id successor reason who
    by (rule seg_safe_app [of "\<lambda>a. ms_get_run (ap_store a) (r_id r) = Inr src"])
      (auto intro!: safe_writing keeps_end_mark sound_ok)
  show "seg_safe (\<lambda>st. P st \<and> ms_get_run (seg_store st) (r_id r) = Inr src)
     (seg_then (at_seg (reading (\<lambda>s. ms_get_task s (t_id t)))) (\<lambda>current.
         case t_current_run_id current of
           None \<Rightarrow> (\<lambda>st. (Inr (), st))
         | Some successor_id \<Rightarrow>
             if successor_id = r_id r then (\<lambda>st. (Inr (), st))
             else
               seg_then (at_seg (reading (\<lambda>s. ms_get_run s successor_id))) (\<lambda>successor.
                 if dget (r_native successor) ''segment_source_run_id'' \<noteq> JStr (run_val (r_id r))
                 then (\<lambda>st. (Inr (), st))
                 else at_seg (writing (ms_save_run
                        (end_mark (kept_reason (dict_or_empty (dget (r_native src) ''segment_end'')))
                          (JStr (run_val successor_id)) src))))))"
    by (rule seg_safe_reading) (auto intro!: seg_safe_reading seg_safe_if w split: option.split)
qed simp

section \<open>Committing is safe\<close>

definition fresh_ids :: "seg_env \<Rightarrow> seg_state \<Rightarrow> bool" where
  "fresh_ids env st \<longleftrightarrow> map_of (ms_runs (seg_store st)) (run_val (sg_run env)) = None
     \<and> operation_val (sg_operation env) \<notin> fst ` set (ms_operations (seg_store st))
     \<and> ms_find_operation_for_run (seg_store st) (sg_run env) = None"

lemma fresh_ids_core: "same_core (seg_store st) (seg_store st') \<Longrightarrow> fresh_ids env st' = fresh_ids env st"
  by (simp add: fresh_ids_def same_core_def ms_find_operation_for_run_def)

lemma segment_fields [simp]:
  "o_id (segment_operation env t r n c) = sg_operation env"
  "r_id (segment_run env s t r seg n c prompt) = sg_run env"
  "r_status (segment_run env s t r seg n c prompt) = Rs_QUEUED"
  by (simp_all add: segment_operation_def segment_run_def)

lemma fresh_segment_intent:
  "fresh_ids env st \<Longrightarrow>
   fresh_intent (segment_operation env t r n c) (segment_run env s t r seg n c prompt) (ss_app st)"
  by (simp add: fresh_ids_def fresh_intent_def)

lemma commit_segment_keeps:
  assumes ok: "store_ok (ap_store a)" and f: "fresh_intent p new a"
    and c: "commit_segment env p t new r (ap_store a) = Inr (reused, s)"
  shows "keeps (ap_store a) s"
proof -
  obtain v s1 where m: "ms_commit_intent (env_hash (sg_app env)) p t new None (ap_store a) = (v, s1)"
    by (cases "ms_commit_intent (env_hash (sg_app env)) p t new None (ap_store a)")
  obtain p' t' new' u where v: "v = Inr (p', t', new', u)"
    using c by (auto simp: commit_segment_def m split: sum.splits prod.splits)
  show ?thesis
  proof (cases u)
    case True
    then have "same_core (ap_store a) s1" by (intro commit_other_store [OF m]) (simp add: v)
    then show ?thesis using c True by (auto simp: commit_segment_def m v intro: same_core_keeps)
  next
    case False
    note k = commit_new_keeps(1) [OF ok f, of "env_hash (sg_app env)" t None]
    have k: "keeps (ap_store a) s1" by (rule k) (use m v False in simp)
    from c False obtain src where src: "ms_get_run s1 (r_id r) = Inr src"
        "s = ms_save_run (end_mark ''turn_budget'' (JStr (run_val (r_id new'))) src) s1"
      by (auto simp: commit_segment_def m v bind_res_Inr_iff)
    show ?thesis
      unfolding src(2) by (rule keeps_trans [OF k keeps_end_mark [OF keeps_ok [OF k ok] src(1)]])
  qed
qed

lemma seg_safe_queue: "seg_safe P (queue_segment env t n)"
  unfolding queue_segment_def
proof (rule seg_safe_read, rule seg_safe_seq)
  show "seg_safe Q (\<lambda>st. (Inr (), st\<lparr>ss_app := on_sched f (ss_app st)\<rparr>))" for Q f
    by (rule seg_safeI) simp
  have "safe always (writing (emit (sg_app env) (sg_run env) Ev_RUN_QUEUED ''core''
         [(''segment_continue'', JBool True), (''segment_index'', JInt n)]))"
    by (intro safe_writing same_core_keeps) simp
  then show "seg_safe any_state (seg_then (at_seg (writing (emit (sg_app env) (sg_run env) Ev_RUN_QUEUED ''core''
         [(''segment_continue'', JBool True), (''segment_index'', JInt n)]))) (\<lambda>_ st.
       (Inr (Continued (sg_run env) n), st)))" for x :: unit
    by (intro seg_safe_seq seg_safe_return seg_safe_app)
qed

lemma seg_safe_submit: "seg_safe (fresh_ids env) (submit_segment env t r seg n c prompt)"
proof (rule seg_safeI)
  fix st assume a: "sound (ss_app st)" and f: "fresh_ids env st"
  let ?p = "segment_operation env t r n c" and ?t = "t\<lparr>t_run_count := t_run_count t + 1, t_current_run_id := Some (sg_run env)\<rparr>"
  let ?new = "segment_run env (seg_store st) t r seg n c prompt"
  have tr: "seg_safe (\<lambda>s. s = st) (at_seg (transaction (commit_segment env ?p ?t ?new r)))"
    by (rule seg_safe_app [of "\<lambda>a. a = ss_app st"], rule safe_transaction)
      (auto intro: commit_segment_keeps [OF sound_ok fresh_segment_intent [OF f]])
  have b: "seg_safe P (seg_then (backfill_continued_by t' r) (\<lambda>_ st'. (Inr Reused, st')))" for P t'
    by (intro seg_safe_seq seg_safe_backfill seg_safe_return)
  have "seg_safe (\<lambda>s. s = st) (seg_then (at_seg (transaction (commit_segment env ?p ?t ?new r))) (\<lambda>reused.
             if reused then seg_then (backfill_continued_by ?t r) (\<lambda>_ st'. (Inr Reused, st'))
             else queue_segment env ?t n))"
    by (intro seg_safe_seq tr seg_safe_if b seg_safe_queue)
  from seg_safeD [OF this a] seg_safeD [OF b a] seg_safeD [OF seg_safe_stop a]
  show "lawful (ss_app st) (ss_app (snd (submit_segment env t r seg n c prompt st)))"
    by (simp add: submit_segment_def Let_def)
qed

lemma ready_capsule_core: "ready_capsule env t r st = (v, st') \<Longrightarrow> same_core (seg_store st) (seg_store st')"
  using seg_capsule_core [of st env t r "''segment_end''"]
  by (auto simp: ready_capsule_def seg_then_def seg_attempt_def split: prod.splits sum.splits)

lemma seg_safe_extend: "seg_safe (fresh_ids env) (extend_chain env t r seg n)"
  unfolding extend_chain_def
proof (rule seg_safe_then [where Q = "\<lambda>_. fresh_ids env"])
  show "seg_safe (fresh_ids env) (ready_capsule env t r)"
    unfolding ready_capsule_def
    by (rule seg_safe_seq, rule seg_safe_attempt, rule seg_safe_capsule, rule seg_safe_same) simp
  show "fresh_ids env st'" if "fresh_ids env st" "ready_capsule env t r st = (Inr x, st')" for st x st'
    using that fresh_ids_core [OF ready_capsule_core [OF that(2)]] by simp
  show "seg_safe (fresh_ids env) (case found of
         None \<Rightarrow> seg_stop env t r ''capsule_not_ready''
       | Some (row, capsule) \<Rightarrow>
           seg_then (seg_read (\<lambda>_. bind_res (sg_backend env (backend_val (r_backend r))) (\<lambda>backend.
               render_prompt (env_lib (sg_app env)) capsule (alias_kind (bc_kind backend))))) (\<lambda>prompt.
             case bounded_prompt (prompt @ CONTINUE_NOTE) of
               Inl _ \<Rightarrow> seg_stop env t r ''capsule_too_large''
             | Inr text \<Rightarrow> submit_segment env t r seg n (cr_capsule_id row) text))" for found
  proof (cases found)
    case None
    then show ?thesis by (simp add: seg_safe_stop)
  next
    case (Some x)
    show ?thesis
      unfolding Some option.case prod.case_eq_if
      by (rule seg_safe_read) (auto intro: seg_safe_stop seg_safe_weaken [OF seg_safe_submit] split: sum.split)
  qed
qed

lemma seg_safe_inner: "seg_safe (fresh_ids env) (continue_segment_inner env t r)"
proof -
  have e: "seg_safe (\<lambda>st. fresh_ids env st \<and> Q st) (extend_chain env t r seg n)" for seg n Q
    using seg_safe_extend by (auto simp: seg_safe_def)
  have limits: "seg_safe (fresh_ids env) (seg_then (seg_read (\<lambda>st. plan_segment env (seg_store st) t r)) (\<lambda>planned.
             if planned = JNull then seg_stop env t r ''segmentation_disabled''
             else
               let seg = dict_or_empty (dget (r_native r) ''segment'') in
               seg_then (seg_read (\<lambda>_. segment_index seg)) (\<lambda>index.
               seg_then (seg_read (\<lambda>st. chain_limit env t seg (index + 1) (ss_ledger st))) (\<lambda>limit.
                 case limit of
                   Some reason \<Rightarrow> seg_stop env t r reason
                 | None \<Rightarrow> extend_chain env t r seg (index + 1)))))"
    unfolding Let_def
    by (rule seg_safe_read, rule seg_safe_if, rule seg_safe_stop, rule seg_safe_read, rule seg_safe_read)
      (auto simp: e [unfolded conj_assoc] conj_assoc seg_safe_stop split: option.split)
  show ?thesis
    unfolding continue_segment_inner_def
  proof (rule seg_safe_read, rule seg_safe_if, rule seg_safe_return, rule seg_safe_read, rule seg_safeI)
    fix ended disabled st
    assume a: "sound (ss_app st)" and "(fresh_ids env st \<and> segment_end r = Inr ended)
      \<and> (if segmentation_disabled r then Inr True
             else bind_res (ms_get_run (seg_store st) (r_id r)) (\<lambda>src. Inr (segmentation_disabled src))) = Inr disabled"
    then have f: "fresh_ids env st" by simp
    from seg_safeD [OF limits a f] seg_safeD [OF seg_safe_stop a]
    show "lawful (ss_app st) (ss_app (snd (if disabled then (Inr (Stopped ''segmentation_disabled''), st)
         else if t_paused t \<or> t_orchestration_owner t = ''human'' \<or> t_current_run_id t \<noteq> Some (r_id r)
         then (Inr NoSegment, st)
         else if control_owned env (seg_store st) t r then seg_stop env t r ''control_owned'' st
         else
           seg_then (seg_read (\<lambda>st. plan_segment env (seg_store st) t r)) (\<lambda>planned.
             if planned = JNull then seg_stop env t r ''segmentation_disabled''
             else
               let seg = dict_or_empty (dget (r_native r) ''segment'') in
               seg_then (seg_read (\<lambda>_. segment_index seg)) (\<lambda>index.
               seg_then (seg_read (\<lambda>st. chain_limit env t seg (index + 1) (ss_ledger st))) (\<lambda>limit.
                 case limit of
                   Some reason \<Rightarrow> seg_stop env t r reason
                 | None \<Rightarrow> extend_chain env t r seg (index + 1)))) st)))"
      by simp
  qed
qed

theorem continue_segment_lawful:
  assumes "sound (ss_app st)" "fresh_ids env st"
  shows "lawful (ss_app st) (ss_app (snd (continue_segment env t r st)))"
proof -
  obtain v st' where c: "continue_segment_inner env t r st = (v, st')" by (cases "continue_segment_inner env t r st")
  have l: "lawful (ss_app st) (ss_app st')" using seg_safeD [OF seg_safe_inner [of env t r] assms] c by simp
  have "safe always (writing (emit (sg_app env) i ty src payload))" for i ty src payload
    by (intro safe_writing same_core_keeps) simp
  then have "seg_safe any_state (at_seg (writing (emit (sg_app env) i ty src payload)))" for i ty src payload
    by (intro seg_safe_app)
  from lawful_trans [OF l seg_safeD [OF this lawful_sound [OF l assms(1)] TrueI]]
  show ?thesis using l by (simp add: continue_segment_def c split: sum.split)
qed

section \<open>The guard before a continuation\<close>

lemma seg_safe_restore:
  "seg_safe (\<lambda>st. ms_get_run (seg_store st) i = Inr source) (restore_continued_by env t source r marker)"
proof (rule seg_safeI)
  fix st :: seg_state
  assume a: "sound (ss_app st)" and source: "ms_get_run (seg_store st) i = Inr source"
  have w: "seg_safe (\<lambda>s. s = st) (at_seg (writing (ms_save_run (end_mark reason who source))))" for reason who
    by (rule seg_safe_weaken [OF seg_safe_save_mark [of any_state i source]]) (simp add: source)
  have "seg_safe (\<lambda>s. s = st) (seg_then (at_seg (writing (ms_save_run (end_mark reason who source)))) (\<lambda>_ st'. (Inr True, st')))"
    for reason who by (intro seg_safe_seq w seg_safe_return)
  from seg_safeD [OF this a refl]
  show "lawful (ss_app st) (ss_app (snd (restore_continued_by env t source r marker st)))"
    by (auto simp: restore_continued_by_def split: json.split option.split)
qed

lemma seg_safe_follow:
  "seg_safe (\<lambda>st. ms_get_run (seg_store st) i = Inr source)
     (seg_then (follow_mark env t source r) (\<lambda>followed. seg_read (follow_capsule env t r followed)))"
proof (rule seg_safe_seq)
  show "seg_safe (\<lambda>st. ms_get_run (seg_store st) i = Inr source) (follow_mark env t source r)"
    unfolding follow_mark_def Let_def by (intro seg_safe_if seg_safe_return seg_safe_restore)
  show "seg_safe any_state (seg_read (follow_capsule env t r followed))" for followed
    by (rule seg_safe_same) (simp add: seg_read_def)
qed

lemma seg_safe_guard: "seg_safe any_state (guard_continuation env t r)"
proof (rule seg_safeI)
  fix st :: seg_state assume a: "sound (ss_app st)"
  show "lawful (ss_app st) (ss_app (snd (guard_continuation env t r st)))"
    using seg_safeD [OF seg_safe_follow a]
    by (auto simp: guard_continuation_def Let_def bind_res_def split: sum.split)
qed

end
