(* ===== verification/Lifecycle_Steps.thy ===== *)
theory Lifecycle_Steps
  imports Segment_Safety
begin

text \<open>
  The lives of an application: everything that can happen to it, one step after another, and
  that no step breaks the promise of the lifecycle.
\<close>

section \<open>The life of an application\<close>

text \<open>
  Everything that can happen to an application: a submission, a result of a backend, a
  poll, a cancellation, a reconciliation, the continuation of a segmented run and the guard
  before it is dispatched, a restart of the process, and a change of which writes will fail.
\<close>

inductive lifecycle_step :: "app \<Rightarrow> app \<Rightarrow> bool" where
  step_submit: "fresh_intent p r a \<Longrightarrow>
     lifecycle_step a (snd (submit_tail env p t r session ready backend_name workspace a))"
| step_result: "lifecycle_step a (snd (record_result env i result True None a))"
| step_poll: "lifecycle_step a (snd (poll env updates alive a))"
| step_cancel: "lifecycle_step a (snd (task_cancel env i a))"
| step_reconcile: "lifecycle_step a (snd (reconcile_one env (drain_queue env) i a))"
| step_continue: "fresh_ids sg st \<Longrightarrow>
     lifecycle_step (ss_app st) (ss_app (snd (continue_segment sg t r st)))"
| step_guard: "lifecycle_step (ss_app st) (ss_app (snd (guard_continuation sg t r st)))"
| step_restart: "lifecycle_step a (snd (restart env config revision a))"
| step_faults: "lifecycle_step a (a\<lparr>ap_faults := faults\<rparr>)"

inductive lifecycle_run :: "app \<Rightarrow> app \<Rightarrow> bool" where
  run_none: "lifecycle_run a a"
| run_step: "lifecycle_run a b \<Longrightarrow> lifecycle_step b c \<Longrightarrow> lifecycle_run a c"

inductive_cases lifecycle_stepE: "lifecycle_step a b"

lemma lifecycle_run_trans: "lifecycle_run b c \<Longrightarrow> lifecycle_run a b \<Longrightarrow> lifecycle_run a c"
  by (induction rule: lifecycle_run.induct) (auto intro: run_step)

lemma bootstrap_core: "ms_bootstrap_applied_revision n s = (m, t) \<Longrightarrow> same_core s t"
  by (auto simp: ms_bootstrap_applied_revision_def same_core_def split: option.splits)

lemma restart_lawful:
  assumes a: "sound a" shows "lawful a (snd (restart env config revision a))"
proof -
  obtain m s where b: "ms_bootstrap_applied_revision revision (ap_store a) = (m, s)"
    by (cases "ms_bootstrap_applied_revision revision (ap_store a)")
  let ?n = "new_application config s (ap_calls a) (ap_faults a)"
  have l: "lawful a ?n"
    by (rule lawful_store) (simp_all add: new_application_def same_core_keeps bootstrap_core [OF b])
  show ?thesis
    using lawful_trans [OF l safeD [OF safe_restore lawful_sound [OF l a] TrueI]] by (simp add: restart_def b)
qed

lemma lifecycle_step_lawful: "lifecycle_step a b \<Longrightarrow> sound a \<Longrightarrow> lawful a b"
  by (erule lifecycle_stepE)
    (simp_all add: continue_segment_lawful seg_safeD [OF seg_safe_guard _ TrueI]
      safeD [OF safe_submit] safeD [OF safe_record_result _ TrueI] safeD [OF safe_poll _ TrueI]
      safeD [OF safe_cancel _ TrueI] safeD [OF safe_reconcile_one [OF safe_drain] _ TrueI] restart_lawful lawful_store)

lemma lifecycle_run_lawful: "lifecycle_run a b \<Longrightarrow> sound a \<Longrightarrow> lawful a b"
  by (induction rule: lifecycle_run.induct)
    (auto intro: lawful_trans lifecycle_step_lawful lawful_sound)

lemma new_application_sound: "sound (new_application config new_mem_store [] faults)"
  by (simp add: sound_def store_ok_def new_application_def new_mem_store_def)

end
