(* ===== verification/Lifecycle_Claims.thy ===== *)
theory Lifecycle_Claims
  imports Lifecycle_Steps
begin

text \<open>
  The properties of the run lifecycle, over the step relation of \<open>Lifecycle_Safety\<close>, and an
  example life they are evaluated on.
\<close>

section \<open>An example\<close>

definition example_env :: app_env where
  "example_env = \<lparr>env_lib = plain_lib, env_now = ''2026-01-01T00:00:01Z'', env_hash = (\<lambda>_. ''h''),
     env_sha = (\<lambda>c. ''s'' @ c), env_approval_id = ApprovalId ''apr_1'', env_kind = (\<lambda>_. Inr ''fake''),
     env_external = (\<lambda>_. False), env_ingest = (\<lambda>r _. Inr (r_output r, [])),
     env_capture = (\<lambda>_ _ _. Inl KeyError), env_classify = (\<lambda>_. None), env_workspace_key = t_workspace_root,
     env_background = (\<lambda>_. False), env_admit = (\<lambda>_ r _. (r_native r, None)),
     env_bind = (\<lambda>_ r. (r_native r, None)), env_principal = ''me'',
     env_call = (\<lambda>_ _. Inr (JObj [(''status'', JStr ''succeeded''), (''terminated'', JBool True),
                                  (''summary'', JStr ''done'')])),
     env_may_advance = (\<lambda>_ _. True), env_stopping = False, env_executor = True, env_authorize = (\<lambda>_. None),
     env_cancel_guard = (\<lambda>_ _. None), env_cancel = (\<lambda>_. []), env_lost = (\<lambda>_. None)\<rparr>"

definition example_intent :: operation where
  "example_intent = \<lparr>o_id = OperationId ''op_1'', o_idempotency_key = ''k'', o_principal = ''me'',
     o_action = ''task.submit'', o_target = ''demo'', o_input_hash = ''ab'', o_status = Op_INTENDED,
     o_created_at = ''2026-01-01T00:00:00Z'', o_task_id = None, o_run_id = None\<rparr>"

definition example_session :: session_binding where
  "example_session = \<lparr>s_conversation_id = ConversationId ''cnv_1'', s_backend = BackendId ''codex'',
     s_workspace = ''demo'', s_account_ref = AccountRef ''acct'', s_runtime_ref = RuntimeRef ''host'',
     s_created_at = ''2026-01-01T00:00:00Z'', s_updated_at = ''2026-01-01T00:00:00Z'',
     s_backend_session_id = None, s_latest_turn_id = JNull, s_task_id = None, s_config_revision = 3\<rparr>"

definition example_start :: app where
  "example_start = new_application example_config new_mem_store [] []"

definition example_done :: app where
  "example_done = snd (submit_tail example_env example_intent example_task example_run example_session True
     ''codex'' ''/w'' example_start)"

lemma example_fresh: "fresh_intent example_intent example_run example_start"
  by (simp add: fresh_intent_def example_start_def new_application_def new_mem_store_def example_run_def
      ms_find_operation_for_run_def)

lemma example_life: "lifecycle_run example_start example_done"
  unfolding example_done_def by (rule run_step [OF run_none step_submit [OF example_fresh]])

section \<open>Finished runs and calls\<close>


lemma example_succeeded:
  "map_option r_status (map_of (ms_runs (ap_store example_done)) ''run_1'') = Some Rs_SUCCEEDED"
  by code_simp



lemma example_called: "ap_calls example_done = [RunId ''run_1'']"
  by code_simp


section \<open>A recorded result\<close>

lemma record_once_failed:
  assumes "record_result_once env i result approval a = (Inl e, b)" shows "ap_store b = ap_store a"
  using assms by (auto simp: record_result_once_def andthen_def elim!: transaction_cases
      split: sum.splits option.splits prod.splits json.splits if_splits)

lemma preserve_body_run:
  assumes ok: "store_ok s" and r: "ms_get_run s i = Inr r" and b: "preserve_body env i result approval s = Inr (u, t)"
  shows "\<exists>r'. ms_get_run t i = Inr r' \<and> (r' = r \<or> r_status r' = Rs_PENDING_RECONCILE)"
proof -
  have id: "r_id r = i" by (rule get_run_id [OF ok r])
  have m: "ms_get_run (snd (mark_unknown j s1)) i = ms_get_run s1 i" for j s1
    by (auto simp: mark_unknown_def split: option.splits)
  have e: "ms_get_run (emit_kept env j x s1) i = ms_get_run s1 i" for j x s1
    by (rule same_core_get_run [OF emit_kept_core])
  show ?thesis
    using b r m [of i] by (auto simp: preserve_body_def bind_res_Inr_iff id Let_def set_run_def e case_prod_beta
        split: if_splits)
qed

lemma remember_result_kept:
  "\<exists>k. map_of (ap_retained (remember_result i result fl approval a)) (run_val i) = Some k
     \<and> (rr_result k = result \<or> is_worker_fallback result \<and> \<not> is_worker_fallback (rr_result k))"
  by (auto simp: remember_result_def Let_def update_conv' split: option.splits)

lemma backoff_bounds: "0 < backoff_gap n \<and> backoff_gap n \<le> 8"
  by (simp add: backoff_gap_def RETRY_BACKOFF_CAP_def)

lemma fallback_no_progress: "is_worker_fallback result \<Longrightarrow> \<not> is_progress_snapshot result"
  by (auto simp: is_worker_fallback_def is_progress_snapshot_def split: json.splits)

lemma save_operation_status_find:
  assumes "store_ok s"
  shows "ms_find_operation_for_run (save_operation_status i st s) i
    = map_option (\<lambda>p. p\<lparr>o_status := st\<rparr>) (ms_find_operation_for_run s i)"
  using find_after_save [OF assms] by (simp add: save_operation_status_def split: option.split)

lemma native_marks_differ: "SLOT_HELD \<noteq> SLOT_RELEASED" "UNAPPLIED_RESULT \<noteq> SLOT_HELD" "UNAPPLIED_RESULT \<noteq> SLOT_RELEASED"
  "UNAPPLIED_APPROVAL \<noteq> UNAPPLIED_RESULT" "UNAPPLIED_APPROVAL \<noteq> SLOT_HELD" "UNAPPLIED_APPROVAL \<noteq> SLOT_RELEASED"
  by (simp_all add: native_key_defs)

lemma assign_slot_held: "persisted_slot_held (assign_slot h r) p \<longleftrightarrow> h \<and> \<not> terminal (r_status r)"
  using native_marks_differ by (auto simp: persisted_slot_held_def assign_slot_def)

lemma project_slot_holds:
  assumes "project_slot env r a = (Inr (), b)"
  shows "run_val (r_id r) \<in> inflight_runs (ap_sched b)
    \<longleftrightarrow> persisted_slot_held r (ms_find_operation_for_run (ap_store a) (r_id r))"
proof -
  have g: "inflight_runs (start s bk (Some i) w) = insert i (inflight_runs s)"
    and d: "inflight_runs (finish s bk (Some i)) = inflight_runs s - {i}" for s bk i w
    using slots.holders_grab [of s "\<lambda>_. bk" i "\<lambda>_. w"] slots.holders_drop [of s "\<lambda>_. bk" i] by simp_all
  show ?thesis using assms
    by (auto simp: project_slot_def on_sched_def g d split: if_splits sum.splits)
qed

text \<open>
  C12. A recorded result leaves a consistent picture: the stored run is the recorded one,
  its operation has the status that belongs to it (failed, completed, unknown or
  dispatched), the run holds a concurrency slot exactly if it is not finished, and nothing
  is left to retry.
\<close>

theorem recorded_result_consistent:
  assumes "lifecycle_run (new_application config new_mem_store [] faults) a"
    and "record_attempt env i result remember approval a = (Inr (Recorded r has report), b)"
  shows "ms_get_run (ap_store b) i = Inr r
    \<and> pred_option (\<lambda>p. o_status p = operation_status_for (r_status r)) (ms_find_operation_for_run (ap_store b) i)
    \<and> (run_val i \<in> inflight_runs (ap_sched b)) = (\<not> terminal (r_status r))
    \<and> map_of (ap_retained b) (run_val i) = None"
proof -
  have a: "sound a" by (rule lawful_sound [OF lifecycle_run_lawful [OF assms(1)]]) (rule new_application_sound)+
  obtain c where c: "record_result_once env i result approval a = (Inr (Recorded r has report), c)"
    and st: "ap_store b = ap_store c" and pr: "project_slot env r (forget_result i c) = (Inr (), b)"
    by (rule attempt_Recorded [OF assms(2)])
  note once = record_once_Recorded [OF a c]
  obtain d kind where body: "record_body env i d approval kind (ap_store a) = Inr (Some r, ap_store c)"
    using once(3) by blast
  obtain r3 s5 where r: "r = assign_slot (\<not> terminal (r_status r3)) r3"
    and s: "ap_store c = ms_save_run r (save_operation_status i (operation_status_for (r_status r3)) s5)"
    and ok: "store_ok s5"
    using record_body_s5 [OF sound_ok [OF a] body] by blast
  have op: "pred_option (\<lambda>p. o_status p = operation_status_for (r_status r)) (ms_find_operation_for_run (ap_store b) i)"
    using save_operation_status_find [OF ok, of i "operation_status_for (r_status r3)"] r
    by (auto simp: st s option.pred_set)
  have held: "persisted_slot_held r p = (\<not> terminal (r_status r))" for p
    using r assign_slot_held [of "\<not> terminal (r_status r3)" r3 p] by simp
  have "ap_retained b = ap_retained (forget_result i c)"
    using pr by (auto simp: project_slot_def on_sched_def split: if_splits sum.splits)
  then have "map_of (ap_retained b) (run_val i) = None" by (simp add: forget_result_def delete_conv')
  then show ?thesis using op held once(1,2) project_slot_holds [OF pr] st by simp
qed

definition example_running :: app where
  "example_running = snd (submit_tail (example_env\<lparr>env_background := (\<lambda>_. True)\<rparr>) example_intent example_task
     example_run example_session True ''codex'' ''/w'' example_start)"

lemma example_running_life: "lifecycle_run example_start example_running"
  unfolding example_running_def by (rule run_step [OF run_none step_submit [OF example_fresh]])

definition example_result :: json where
  "example_result = JObj [(''status'', JStr ''failed''), (''error_code'', JStr ''X''), (''terminated'', JBool True)]"

lemma example_recorded:
  "case record_attempt example_env (RunId ''run_1'') example_result True None example_running of
     (Inr (Recorded r has report), b) \<Rightarrow> r_status r = Rs_FAILED | _ \<Rightarrow> False"
  by code_simp

theorem recorded_result_consistent_witness:
  "\<exists>r has report b. record_attempt example_env (RunId ''run_1'') example_result True None example_running
       = (Inr (Recorded r has report), b)
     \<and> r_status r = Rs_FAILED \<and> ''run_1'' \<notin> inflight_runs (ap_sched b)"
proof -
  obtain r has report b where
    c: "record_attempt example_env (RunId ''run_1'') example_result True None example_running
       = (Inr (Recorded r has report), b)" and f: "r_status r = Rs_FAILED"
    using example_recorded by (auto split: prod.splits sum.splits outcome.splits)
  from recorded_result_consistent [OF example_running_life [unfolded example_start_def] c] f c
  show ?thesis by (simp add: terminal_iff)
qed

section \<open>A result that could not be saved\<close>

text \<open>
  C13. A result that could not be saved is not lost, and not acted on: it stays in memory
  for another try (unless a richer one is already there), its run gives up the
  concurrency slot, and the stored run is either unchanged or waits for reconciliation,
  never terminal because of it.
\<close>

theorem unsaved_result_is_kept:
  assumes "lifecycle_run (new_application config new_mem_store [] faults) a"
    and "record_result_once env i result approval a = (Inl e, c)"
    and "ms_get_run (ap_store a) i = Inr r"
    and "record_attempt env i result True approval a = (v, b)"
  shows "v = Inl e
    \<and> (\<exists>k. map_of (ap_retained b) (run_val i) = Some k
        \<and> (rr_result k = result \<or> is_worker_fallback result \<and> \<not> is_worker_fallback (rr_result k)))
    \<and> run_val i \<notin> inflight_runs (ap_sched b)
    \<and> (\<exists>r'. ms_get_run (ap_store b) i = Inr r' \<and> (r' = r \<or> r_status r' = Rs_PENDING_RECONCILE))"
proof -
  have a: "sound a" by (rule lawful_sound [OF lifecycle_run_lawful [OF assms(1)]]) (rule new_application_sound)+
  have c: "ap_store c = ap_store a" by (rule record_once_failed [OF assms(2)])
  let ?m = "remember_result i result True approval c"
  have b: "b = preserve_failed_result env i result (backend_of a i) approval c" and v: "v = Inl e"
    using assms(4) by (simp_all add: record_attempt_def assms(2))
  define bk where "bk = backend_val (r_backend r)"
  obtain w d where t: "transaction (preserve_body env i result approval) ?m = (w, d)"
    by (cases "transaction (preserve_body env i result approval) ?m")
  have bd: "b = on_sched (\<lambda>s. finish s bk (Some (run_val i))) d"
    using assms(3) by (simp add: b preserve_failed_result_def t c bk_def)
  have ret: "ap_retained b = ap_retained ?m"
    using t by (cases rule: transaction_cases) (simp_all add: bd on_sched_def)
  have fin: "run_val i \<notin> inflight_runs (ap_sched b)"
    using slots.holders_drop [of "ap_sched d" "\<lambda>_. bk" "run_val i"] by (simp add: bd on_sched_def)
  have "\<exists>r'. ms_get_run (ap_store d) i = Inr r' \<and> (r' = r \<or> r_status r' = Rs_PENDING_RECONCILE)"
    using t
  proof (cases rule: transaction_cases)
    case (saved x s)
    then show ?thesis
      using preserve_body_run [OF sound_ok [OF a] assms(3), of env result approval x s] by (simp add: c)
  next
    case (failed e')
    then show ?thesis using assms(3) by (simp add: c)
  qed
  then have "\<exists>r'. ms_get_run (ap_store b) i = Inr r' \<and> (r' = r \<or> r_status r' = Rs_PENDING_RECONCILE)"
    by (simp add: bd)
  then show ?thesis using v fin remember_result_kept [of i result True approval c] by (simp add: ret)
qed

lemma example_unsaved:
  "case record_result_once example_env (RunId ''run_1'') example_result None
      (example_running\<lparr>ap_faults := [Some IntegrityError]\<rparr>) of (Inl e, b) \<Rightarrow> True | _ \<Rightarrow> False"
  by code_simp

lemma example_running_stored:
  "case ms_get_run (ap_store (example_running\<lparr>ap_faults := [Some IntegrityError]\<rparr>)) (RunId ''run_1'') of
     Inr r \<Rightarrow> True | _ \<Rightarrow> False"
  by code_simp

theorem unsaved_result_is_kept_witness:
  "\<exists>v b. record_attempt example_env (RunId ''run_1'') example_result True None
      (example_running\<lparr>ap_faults := [Some IntegrityError]\<rparr>) = (v, b)
     \<and> (\<exists>k. map_of (ap_retained b) ''run_1'' = Some k) \<and> ''run_1'' \<notin> inflight_runs (ap_sched b)"
proof -
  let ?a = "example_running\<lparr>ap_faults := [Some IntegrityError]\<rparr>"
  obtain v b where vb: "record_attempt example_env (RunId ''run_1'') example_result True None ?a = (v, b)"
    by fastforce
  obtain e c where c: "record_result_once example_env (RunId ''run_1'') example_result None ?a = (Inl e, c)"
    using example_unsaved by (auto split: prod.splits sum.splits)
  obtain r where r: "ms_get_run (ap_store ?a) (RunId ''run_1'') = Inr r"
    using example_running_stored by (auto split: sum.splits)
  have l: "lifecycle_run example_start ?a" by (rule run_step [OF example_running_life step_faults])
  from unsaved_result_is_kept [OF l [unfolded example_start_def] c r vb] vb show ?thesis by auto
qed


text \<open>
  C21. The generic report a worker sends when a backend raised never replaces what is
  known better: while a real result of the run is kept, in memory or in the store, the
  report changes nothing at all.
\<close>

theorem fallback_never_overwrites:
  assumes "is_worker_fallback result" "open_run (ap_store a) i = Inr (Some (r, t))"
    and "(\<exists>k. map_of (ap_retained a) (run_val i) = Some k \<and> \<not> is_worker_fallback (rr_result k))
      \<or> is_dict (dget (r_native r) UNAPPLIED_RESULT) \<and> \<not> is_worker_fallback (dget (r_native r) UNAPPLIED_RESULT)"
  shows "record_attempt env i result remember approval a = (Inr IgnoredFallback, a)"
proof -
  have "richer_retained a i r"
    using assms(3) by (auto simp: richer_retained_def Let_def split: option.splits)
  then have "record_result_once env i result approval a = (Inr IgnoredFallback, a)"
    using assms(1,2) by (simp add: record_result_once_def)
  moreover have "\<not> is_progress_snapshot result" by (rule fallback_no_progress [OF assms(1)])
  ultimately show ?thesis by (simp add: record_attempt_def)
qed

definition example_fallback :: json where
  "example_fallback = JObj [(''status'', JStr ''pending_reconcile''), (''terminated'', JBool False),
     (''error_code'', JStr ''REMOTE_STATE_UNKNOWN'')]"

definition example_kept :: app where
  "example_kept = remember_result (RunId ''run_1'') example_result True None example_running"

lemma example_kept_open:
  "case open_run (ap_store example_kept) (RunId ''run_1'') of Inr (Some _) \<Rightarrow> True | _ \<Rightarrow> False"
  by code_simp

lemma example_kept_richer:
  "case map_of (ap_retained example_kept) ''run_1'' of None \<Rightarrow> False | Some k \<Rightarrow> \<not> is_worker_fallback (rr_result k)"
  by code_simp

lemma example_fallback_is: "is_worker_fallback example_fallback"
  by (simp add: is_worker_fallback_def example_fallback_def REMOTE_STATE_UNKNOWN_def)

theorem fallback_never_overwrites_witness:
  "record_attempt example_env (RunId ''run_1'') example_fallback True None example_kept
    = (Inr IgnoredFallback, example_kept)"
proof -
  obtain r t where o: "open_run (ap_store example_kept) (RunId ''run_1'') = Inr (Some (r, t))"
    using example_kept_open by (auto split: sum.splits option.splits)
  have k: "\<exists>k. map_of (ap_retained example_kept) (run_val (RunId ''run_1'')) = Some k \<and> \<not> is_worker_fallback (rr_result k)"
    using example_kept_richer by (auto split: option.splits)
  show ?thesis by (rule fallback_never_overwrites [OF example_fallback_is o disjI1 [OF k]])
qed

end
