(* ===== verification/Capsule_Claims.thy ===== *)
theory Capsule_Claims
  imports Capsule_Render "HOL-Library.Sublist"
begin

text \<open>
  What a continuation capsule promises: it is within its budgets, carries the mandatory part
  verbatim, validates against it, and no other body or mandatory part validates under its
  digests.
\<close>

section \<open>Findings\<close>

definition finding_id :: "json \<Rightarrow> json" where
  "finding_id f = dget (dict_or_empty f) ''id''"

definition finding_text :: "json \<Rightarrow> json" where
  "finding_text f = dget (dict_or_empty f) ''text''"

text \<open>Findings whose identifiers Python can hash, one text per identifier.\<close>

definition consistent_findings :: "(string \<Rightarrow> int option) \<Rightarrow> json list \<Rightarrow> bool" where
  "consistent_findings fi fs \<longleftrightarrow>
     list_all (\<lambda>f. good_finding f \<and> hashable (finding_id f)) fs
     \<and> list_all (\<lambda>f. list_all (\<lambda>g. jeq fi (finding_id f) (finding_id g) \<longrightarrow> finding_text f = finding_text g) fs) fs"

lemma consistent_findingsD:
  "consistent_findings fi fs \<Longrightarrow> f \<in> set fs \<Longrightarrow> g \<in> set fs \<Longrightarrow> jeq fi (finding_id f) (finding_id g)
     \<Longrightarrow> finding_text f = finding_text g"
  unfolding consistent_findings_def list_all_iff by blast

definition indexed :: "(string \<Rightarrow> int option) \<Rightarrow> json list \<Rightarrow> (json \<times> dict) list \<Rightarrow> bool" where
  "indexed fi fs by_id \<longleftrightarrow>
     (\<forall>(i, d) \<in> set by_id. JObj d \<in> set fs \<and> i = finding_id (JObj d))"

lemma index_findings_ok:
  assumes "list_all (\<lambda>f. good_finding f \<and> hashable (finding_id f)) fs" "set fs \<subseteq> set all" "indexed fi all by_id"
  shows "\<exists>by_id'. index_findings fi fs by_id = Inr by_id' \<and> indexed fi all by_id'
     \<and> (\<forall>f \<in> set fs. \<exists>(i, d) \<in> set by_id'. jeq fi i (finding_id f)) \<and> set by_id \<subseteq> set by_id'"
  using assms
proof (induction fs arbitrary: by_id)
  case (Cons f fs)
  then obtain d where f: "f = JObj d" "dhas d ''id''" "hashable (dget d ''id'')"
    by (auto elim!: good_finding_cases simp: finding_id_def)
  have id: "finding_id f = dget d ''id''" by (simp add: f finding_id_def)
  show ?case
  proof (cases "list_ex (\<lambda>(i, _). jeq fi i (dget d ''id'')) by_id")
    case True
    from Cons.prems obtain by_id' where *: "index_findings fi fs by_id = Inr by_id'" "indexed fi all by_id'"
        "\<forall>f \<in> set fs. \<exists>(i, d) \<in> set by_id'. jeq fi i (finding_id f)" "set by_id \<subseteq> set by_id'"
      using Cons.IH [of by_id] by auto
    from True *(4) have "\<exists>(i, d') \<in> set by_id'. jeq fi i (finding_id f)"
      by (auto simp: list_ex_iff id)
    with * True f show ?thesis by auto
  next
    case False
    let ?by = "by_id @ [(dget d ''id'', d)]"
    from Cons.prems f have "indexed fi all ?by" by (auto simp: indexed_def finding_id_def)
    with Cons.prems obtain by_id' where *: "index_findings fi fs ?by = Inr by_id'" "indexed fi all by_id'"
        "\<forall>f \<in> set fs. \<exists>(i, d) \<in> set by_id'. jeq fi i (finding_id f)" "set ?by \<subseteq> set by_id'"
      using Cons.IH [of ?by] by auto
    from *(4) have "\<exists>(i, d') \<in> set by_id'. jeq fi i (finding_id f)"
      by (auto simp: id intro!: bexI [of _ "(dget d ''id'', d)"])
    with * False f show ?thesis by auto
  qed
qed simp

lemma check_findings_ok:
  assumes "consistent_findings fi all" "indexed fi all by_id" "set fs \<subseteq> set all"
    and "\<forall>f \<in> set fs. \<exists>(i, d) \<in> set by_id. jeq fi i (finding_id f)"
  shows "check_findings fi L by_id fs = Inr []"
  using assms(3,4)
proof (induction fs)
  case (Cons f fs)
  from assms(1) Cons.prems have "good_finding f" "hashable (finding_id f)"
    by (auto simp: consistent_findings_def list_all_iff)
  then obtain d t where f: "f = JObj d" "dhas d ''id''" "hashable (dget d ''id'')" "dget d ''text'' = JStr t"
    by (auto elim!: good_finding_cases simp: finding_id_def)
  let ?P = "\<lambda>(i, _ :: dict). jeq fi i (dget d ''id'')"
  have id: "finding_id f = dget d ''id''" by (simp add: f finding_id_def)
  from Cons.prems(2) obtain p where p: "find ?P by_id = Some p"
    by (cases "find ?P by_id") (auto simp: find_None_iff id)
  then have "p \<in> set by_id" "?P p" by (metis find_Some_iff nth_mem)+
  then obtain i a where ia: "p = (i, a)" "(i, a) \<in> set by_id" "jeq fi i (dget d ''id'')"
    by (cases p) auto
  from ia(2) assms(2) have a: "JObj a \<in> set all" "i = finding_id (JObj a)" by (auto simp: indexed_def)
  from Cons.prems(1) have "f \<in> set all" by simp
  from a(1) this have "finding_text (JObj a) = finding_text f"
    by (rule consistent_findingsD [OF assms(1)]) (use a(2) ia(3) id in simp)
  then have "dget a ''text'' = JStr t" by (simp add: finding_text_def f)
  with Cons p ia(1) f show ?case by (simp add: same_text_def Let_def)
qed simp

lemma finding_problems_none:
  assumes "consistent_findings fi fs" "dget m ''findings'' = JArr fs"
  shows "finding_problems fi L m (JObj m) = Inr []"
proof -
  have "indexed fi fs []" by (simp add: indexed_def)
  with assms(1) obtain by_id where "index_findings fi fs [] = Inr by_id" "indexed fi fs by_id"
      "\<forall>f \<in> set fs. \<exists>(i, d) \<in> set by_id. jeq fi i (finding_id f)"
    using index_findings_ok [of fs fs fi "[]"] by (auto simp: consistent_findings_def)
  with check_findings_ok [OF assms(1)] assms(2) show ?thesis
    by (simp add: finding_problems_def)
qed

section \<open>An example\<close>

definition example_parts :: capsule_parts where
  "example_parts =
    \<lparr>cp_task_id = JStr ''t'', cp_source_run_id = JStr ''r'', cp_segment_index = JInt 0, cp_role = JNull,
     cp_backend_kind = JStr ''codex'', cp_trigger = JStr ''manual'', cp_created_at = JStr ''now'',
     cp_authority = JObj [],
     cp_mandatory = JObj [(''objective'', JStr ''fix''), (''constraints'', JArr []), (''acceptance'', JArr []),
        (''review_requirements'', JObj []),
        (''findings'', JArr [JObj [(''id'', JStr ''f1''), (''text'', JStr ''x'')]]), (''limits'', JObj [])],
     cp_workspace = JObj [], cp_progress = JObj [(''commands'', JArr [JStr ''ls''])], cp_open_items = JObj [],
     cp_notes_text = JStr ''done'', cp_budget_ref = JObj [], cp_limits = JNull, cp_dropped_lines = JInt 0\<rparr>"

definition example_capsule :: dict where
  "example_capsule = (case build_capsule (take 8) example_parts of Inr c \<Rightarrow> c | Inl _ \<Rightarrow> [])"

lemma example_built: "build_capsule (take 8) example_parts = Inr example_capsule"
proof -
  have "case build_capsule (take 8) example_parts of Inl _ \<Rightarrow> False | Inr _ \<Rightarrow> True" by code_simp
  then show ?thesis by (auto simp: example_capsule_def split: sum.splits)
qed

section \<open>The record of what was trimmed\<close>

text \<open>
  Replaying the recorded steps of some operations on a list of \<open>n\<close> items: each step has to
  start from the length the one before has left. \<open>None\<close> where the record does not fit.
\<close>

fun replay_steps :: "string list \<Rightarrow> json list \<Rightarrow> nat \<Rightarrow> nat option" where
  "replay_steps ops [] n = Some n"
| "replay_steps ops (s # ss) n =
     (let d = dict_or_empty s in
      if dget d ''op'' \<notin> JStr ` set ops then replay_steps ops ss n
      else if dget d ''before'' \<noteq> JInt (int n) then None
      else (case dget d ''after'' of JInt m \<Rightarrow> replay_steps ops ss (nat m) | _ \<Rightarrow> None))"

lemma replay_append:
  "replay_steps ops (xs @ ys) n = (case replay_steps ops xs n of None \<Rightarrow> None | Some m \<Rightarrow> replay_steps ops ys m)"
  by (induction ops xs n rule: replay_steps.induct) (auto simp: Let_def split: json.splits)

lemma replay_others:
  "list_all (\<lambda>s. dget (dict_or_empty s) ''op'' \<notin> JStr ` set ops) ss \<Longrightarrow> replay_steps ops ss n = Some n"
  by (induction ss) (simp_all add: Let_def)

lemma list_step_fields [simp]:
  "dget (dict_or_empty (list_step op xs ys)) ''op'' = JStr op"
  "dget (dict_or_empty (list_step op xs ys)) ''before'' = JInt (int (length xs))"
  "dget (dict_or_empty (list_step op xs ys)) ''after'' = JInt (int (length ys))"
  by (simp_all add: list_step_def)

definition COMMAND_STEPS :: "string list" where "COMMAND_STEPS = [''cap_commands'', ''halve_commands'']"
definition FILE_STEPS :: "string list" where "FILE_STEPS = [''cap_files_touched'', ''halve_files_touched'']"

definition list_recorded :: "string list \<Rightarrow> json list \<Rightarrow> json list \<Rightarrow> json list \<Rightarrow> json list \<Rightarrow> bool" where
  "list_recorded ops steps given source kept \<longleftrightarrow>
     replay_steps ops steps (length given) = Some (length kept) \<and> suffix kept source"

definition notes_recorded :: "json list \<Rightarrow> json \<Rightarrow> json \<Rightarrow> bool" where
  "notes_recorded steps given kept \<longleftrightarrow>
     (let s = (case given of JStr s \<Rightarrow> s | _ \<Rightarrow> [])
      in kept = JStr s
         \<or> (\<exists>t. kept = JStr t \<and> t = fst (truncate_utf8 s 4096)
              \<and> JObj [(''op'', JStr ''truncate_notes''), (''max_bytes'', JInt 4096),
                  (''before_bytes'', JInt (int (length s))), (''after_bytes'', JInt (int (length t)))] \<in> set steps)
         \<or> kept = JStr [] \<and> JObj [(''op'', JStr ''clear_notes_text'')] \<in> set steps)"

definition segments_recorded :: "json list \<Rightarrow> json \<Rightarrow> json \<Rightarrow> bool" where
  "segments_recorded steps given kept \<longleftrightarrow>
     kept = given
     \<or> (\<exists>xs early late. given = JArr xs \<and> xs = early @ late \<and> length late = 3
          \<and> (let counts = [(''folded_segments'', JInt (int (length early))),
                            (''folded_num_turns'', JInt (sum_list (map num_turns early)))]
             in kept = JArr (JObj counts # late) \<and> JObj ((''op'', JStr ''fold_segments'') # counts) \<in> set steps))"

text \<open>Everything a capsule lost of its notes, segments, files and commands is in the record.\<close>

definition losses_recorded :: "capsule_parts \<Rightarrow> trimming \<Rightarrow> bool" where
  "losses_recorded p st \<longleftrightarrow>
     (case st of (nts, progress, steps) \<Rightarrow>
        let given = dict_or_empty (cp_progress p);
            commands = items_of (dget given ''commands''); files = items_of (dget given ''files_touched'')
        in list_recorded COMMAND_STEPS steps commands commands (items_of (dget progress ''commands''))
           \<and> list_recorded FILE_STEPS steps files (dedupe_keep_last files) (items_of (dget progress ''files_touched''))
           \<and> notes_recorded steps (cp_notes_text p) (dget nts ''text'')
           \<and> segments_recorded steps (dget given ''segments'') (dget progress ''segments''))"

lemma recorded_more:
  "notes_recorded steps given kept \<Longrightarrow> notes_recorded (steps @ extra) given kept"
  "segments_recorded steps g k \<Longrightarrow> segments_recorded (steps @ extra) g k"
  by (auto simp: notes_recorded_def segments_recorded_def Let_def)

lemma suffix_halve: "suffix (halve_tail xs) xs"
  by (auto simp: halve_tail_def suffix_drop)

lemma list_recorded_halve:
  assumes "list_recorded ops steps given source kept" "op \<in> set ops"
  shows "list_recorded ops (steps @ [list_step op kept (halve_tail kept)]) given source (halve_tail kept)"
  using assms suffix_order.trans [OF suffix_halve [of kept], of source]
  by (auto simp: list_recorded_def replay_append Let_def)

lemma list_recorded_other:
  "list_recorded ops steps given source kept \<Longrightarrow> dget (dict_or_empty x) ''op'' \<notin> JStr ` set ops
   \<Longrightarrow> list_recorded ops (steps @ [x]) given source kept"
  by (auto simp: list_recorded_def replay_append Let_def)

lemma trim_step_recorded:
  assumes "losses_recorded p st" "trim_step H st = Some st'"
  shows "losses_recorded p st'"
proof -
  obtain nts progress steps where st: "st = (nts, progress, steps)" by (cases st)
  have op: "dget (dict_or_empty (JObj [(''op'', JStr o')])) ''op'' = JStr o'" for o' by simp
  note old = assms(1) [unfolded st losses_recorded_def Let_def prod.case]
  from assms(2) [unfolded st] show ?thesis
  proof (cases rule: trim_step_cases)
    case clearing
    then show ?thesis using old
      by (auto simp: losses_recorded_def Let_def recorded_more COMMAND_STEPS_def FILE_STEPS_def notes_recorded_def
          intro!: list_recorded_other)
  next
    case (halve_commands xs)
    have "list_recorded COMMAND_STEPS (steps @ [list_step ''halve_commands'' xs (halve_tail xs)])
        (items_of (dget (dict_or_empty (cp_progress p)) ''commands''))
        (items_of (dget (dict_or_empty (cp_progress p)) ''commands'')) (halve_tail xs)"
      using old halve_commands(2) by (intro list_recorded_halve) (auto simp: COMMAND_STEPS_def)
    then show ?thesis using old halve_commands
      by (auto simp: losses_recorded_def Let_def recorded_more FILE_STEPS_def intro!: list_recorded_other)
  next
    case (halve_files xs)
    have "list_recorded FILE_STEPS (steps @ [list_step ''halve_files_touched'' xs (halve_tail xs)])
        (items_of (dget (dict_or_empty (cp_progress p)) ''files_touched''))
        (dedupe_keep_last (items_of (dget (dict_or_empty (cp_progress p)) ''files_touched''))) (halve_tail xs)"
      using old halve_files(3) by (intro list_recorded_halve) (auto simp: FILE_STEPS_def)
    then show ?thesis using old halve_files
      by (auto simp: losses_recorded_def Let_def recorded_more COMMAND_STEPS_def intro!: list_recorded_other)
  qed
qed

lemma cap_files_recorded:
  assumes "cap_files_touched v limit = (v', steps)"
  shows "list_recorded FILE_STEPS steps (items_of v) (dedupe_keep_last (items_of v)) (items_of v')"
    and "list_all (\<lambda>s. dget (dict_or_empty s) ''op'' = JStr ''cap_files_touched'') steps"
proof -
  have "suffix (last_n n xs) xs" for n and xs :: "json list" by (simp add: last_n_def suffix_drop)
  then show "list_recorded FILE_STEPS steps (items_of v) (dedupe_keep_last (items_of v)) (items_of v')"
    using assms by (cases v) (auto simp: cap_files_touched_def list_recorded_def FILE_STEPS_def Let_def
        items_of_def split: if_splits, metis)
  show "list_all (\<lambda>s. dget (dict_or_empty s) ''op'' = JStr ''cap_files_touched'') steps"
    using assms by (auto simp: cap_files_touched_def Let_def split: json.splits if_splits)
qed

lemma cap_commands_recorded:
  assumes "cap_commands v = (v', steps)"
  shows "list_recorded COMMAND_STEPS steps (items_of v) (items_of v) (items_of v')"
    and "list_all (\<lambda>s. dget (dict_or_empty s) ''op'' = JStr ''cap_commands'') steps"
  using assms
  by (auto simp: cap_commands_def list_recorded_def COMMAND_STEPS_def Let_def items_of_def last_n_def suffix_drop
      split: json.splits if_splits)

lemma list_recorded_around:
  assumes "list_recorded ops steps given source kept"
    and "list_all (\<lambda>s. dget (dict_or_empty s) ''op'' \<notin> JStr ` set ops) (xs @ ys)"
  shows "list_recorded ops (xs @ steps @ ys) given source kept"
  using assms by (simp add: list_recorded_def replay_append replay_others)

lemma cap_progress_recorded:
  assumes "cap_progress_lists progress = (progress', steps)"
  shows "list_recorded COMMAND_STEPS steps (items_of (dget progress ''commands'')) (items_of (dget progress ''commands''))
      (items_of (dget progress' ''commands''))"
    and "list_recorded FILE_STEPS steps (items_of (dget progress ''files_touched''))
      (dedupe_keep_last (items_of (dget progress ''files_touched''))) (items_of (dget progress' ''files_touched''))"
proof -
  let ?files = "dget progress ''files_touched''" and ?commands = "dget progress ''commands''"
  have none: "list_recorded ops [] [] xs []" for ops xs by (simp add: list_recorded_def)
  obtain p1 s1 where 1: "(if dhas progress ''files_touched'' then
      (let (updated, step) = cap_files_touched ?files MAX_FILES
       in (dset progress ''files_touched'' updated, step)) else (progress, [])) = (p1, s1)"
    by (metis surj_pair)
  have f: "list_recorded FILE_STEPS s1 (items_of ?files) (dedupe_keep_last (items_of ?files))
      (items_of (dget p1 ''files_touched''))"
    and f': "list_all (\<lambda>s. dget (dict_or_empty s) ''op'' = JStr ''cap_files_touched'') s1"
    and c1: "dget p1 ''commands'' = ?commands"
    using 1 cap_files_recorded [of ?files MAX_FILES]
    by (auto simp: not_dhas_dget none split: if_splits prod.splits)
  obtain p2 s2 where 2: "(if dhas p1 ''commands'' then
      (let (updated, step) = cap_commands (dget p1 ''commands'')
       in (dset p1 ''commands'' updated, step)) else (p1, [])) = (p2, s2)"
    by (metis surj_pair)
  have c: "list_recorded COMMAND_STEPS s2 (items_of ?commands) (items_of ?commands) (items_of (dget p2 ''commands''))"
    and c': "list_all (\<lambda>s. dget (dict_or_empty s) ''op'' = JStr ''cap_commands'') s2"
    and f2: "dget p2 ''files_touched'' = dget p1 ''files_touched''"
    using 2 cap_commands_recorded [of ?commands] c1
    by (auto simp: not_dhas_dget none split: if_splits prod.splits)
  have eq: "progress' = p2" "steps = s1 @ s2" using assms by (simp_all add: cap_progress_lists_def 1 2)
  show "list_recorded COMMAND_STEPS steps (items_of ?commands) (items_of ?commands) (items_of (dget progress' ''commands''))"
    using list_recorded_around [OF c, of s1 "[]"] f' by (simp add: eq COMMAND_STEPS_def list_all_iff)
  show "list_recorded FILE_STEPS steps (items_of ?files) (dedupe_keep_last (items_of ?files))
      (items_of (dget progress' ''files_touched''))"
    using list_recorded_around [OF f, of "[]" s2] c' by (simp add: eq f2 FILE_STEPS_def list_all_iff)
qed

lemma notes_built:
  assumes "build_notes H v n = (nts, steps)"
  shows "notes_recorded steps v (dget nts ''text'')"
    and "list_all (\<lambda>s. dget (dict_or_empty s) ''op'' = JStr ''truncate_notes'') steps"
  using assms
  by (auto simp: build_notes_def notes_recorded_def NOTES_MAX_def truncate_utf8_def case_prod_beta Let_def split: json.splits if_splits)

lemma segments_folded:
  assumes "fold_segments progress = (progress', steps)"
  shows "segments_recorded steps (dget progress ''segments'') (dget progress' ''segments'')"
    and "list_all (\<lambda>s. dget (dict_or_empty s) ''op'' = JStr ''fold_segments'') steps"
proof -
  show "segments_recorded steps (dget progress ''segments'') (dget progress' ''segments'')"
  proof (cases "dget progress ''segments''")
    case (JArr xs)
    show ?thesis
    proof (cases "length xs \<le> 3")
      case False
      have "xs = take (length xs - 3) xs @ drop (length xs - 3) xs" "length (drop (length xs - 3) xs) = 3"
        using False by simp_all
      with assms JArr False show ?thesis
        unfolding segments_recorded_def fold_segments_def MAX_SEGMENT_DETAIL_def Let_def
        by (intro disjI2 exI [of _ xs] exI [of _ "take (length xs - 3) xs"] exI [of _ "drop (length xs - 3) xs"]) auto
    qed (use assms JArr in \<open>auto simp: fold_segments_def segments_recorded_def MAX_SEGMENT_DETAIL_def\<close>)
  qed (use assms in \<open>auto simp: fold_segments_def segments_recorded_def\<close>)
  show "list_all (\<lambda>s. dget (dict_or_empty s) ''op'' = JStr ''fold_segments'') steps"
    using assms by (auto simp: fold_segments_def Let_def split: json.splits if_splits)
qed

lemma start_recorded: "losses_recorded p (start_trimming H p)"
proof -
  obtain nts s1 where 1: "build_notes H (cp_notes_text p) (cp_dropped_lines p) = (nts, s1)" by (metis surj_pair)
  obtain folded s2 where 2: "fold_segments (dict_or_empty (cp_progress p)) = (folded, s2)" by (metis surj_pair)
  obtain capped s3 where 3: "cap_progress_lists folded = (capped, s3)" by (metis surj_pair)
  have st: "start_trimming H p = (nts, capped, s1 @ s2 @ s3)" by (simp add: start_trimming_def 1 2 3)
  have before: "list_all (\<lambda>s. dget (dict_or_empty s) ''op'' \<notin> JStr ` set COMMAND_STEPS) (s1 @ s2)"
      "list_all (\<lambda>s. dget (dict_or_empty s) ''op'' \<notin> JStr ` set FILE_STEPS) (s1 @ s2)"
    using notes_built(2) [OF 1] segments_folded(2) [OF 2]
    by (auto simp: COMMAND_STEPS_def FILE_STEPS_def list_all_iff)
  have "segments_recorded (s1 @ s2 @ s3) (dget (dict_or_empty (cp_progress p)) ''segments'') (dget capped ''segments'')"
    using segments_folded(1) [OF 2] cap_progress_segments [OF 3]
    by (auto simp: segments_recorded_def Let_def)
  then show ?thesis
    using cap_progress_recorded [OF 3] fold_segments_keeps(1,2) [OF 2] recorded_more(1) [OF notes_built(1) [OF 1]]
      list_recorded_around [of COMMAND_STEPS s3 _ _ _ "s1 @ s2" "[]"]
      list_recorded_around [of FILE_STEPS s3 _ _ _ "s1 @ s2" "[]"] before
    by (simp add: losses_recorded_def st Let_def)
qed

lemma trimmed_recorded: "losses_recorded p (trim H p (start_trimming H p))"
  by (rule trim_keeps [where P = "losses_recorded p"]) (auto intro: start_recorded trim_step_recorded)

text \<open>The caps on the lists stay met.\<close>

definition lists_capped :: "trimming \<Rightarrow> bool" where
  "lists_capped st \<longleftrightarrow> (case st of (_, progress, _) \<Rightarrow>
     length (items_of (dget progress ''commands'')) \<le> 30 \<and> length (items_of (dget progress ''files_touched'')) \<le> 200)"

lemma trimmed_capped: "lists_capped (trim H p (start_trimming H p))"
proof (rule trim_keeps [where P = lists_capped])
  show "lists_capped (start_trimming H p)"
    using cap_progress_bounds by (simp add: start_trimming_def lists_capped_def split: prod.splits)
next
  fix st st' assume old: "lists_capped st" and step: "trim_step H st = Some st'"
  obtain nts progress steps where st: "st = (nts, progress, steps)" by (cases st)
  from step [unfolded st] show "lists_capped st'"
    by (cases rule: trim_step_cases; use old halve_tail_shorter in \<open>fastforce simp: st lists_capped_def\<close>)
qed

section \<open>Properties\<close>



text \<open>
  C30. A capsule just built validates against its own mandatory part without a problem, if the findings
  have hashable identifiers and one text per identifier.
\<close>

theorem built_capsule_validates:
  assumes "build_capsule H p = Inr c"
    and "consistent_findings fi (items_of (dget (dict_or_empty (cp_mandatory p)) ''findings''))"
  shows "validate_capsule fi L H (JObj c) (cp_mandatory p) = Inr []"
proof -
  from assms(1) obtain nts progress steps where ok: "check_parts p = Inr ()"
    and c: "\<exists>z. c = with_integrity (assemble_body p (cp_mandatory p) progress nts)
        (sha H (JObj (assemble_body p (cp_mandatory p) progress nts)))
        (integrity_of H (cp_mandatory p) (nonmandatory_bytes p progress nts) steps
           (sha H (JObj (assemble_body p (cp_mandatory p) progress nts))) z)"
    by (rule build_capsule_Inr) blast
  from ok obtain m fs where m: "cp_mandatory p = JObj m" "dget m ''findings'' = JArr fs"
    by (auto simp: check_parts_def bind_res_Inr_iff validate_mandatory_def split: if_splits json.splits)
  from finding_problems_none [of fi fs m L] assms(2) m c show ?thesis
    by (auto simp: validate_capsule_def Let_def)
qed

theorem built_capsule_validates_witness:
  "validate_capsule (\<lambda>_. None) plain_lib (take 8) (JObj example_capsule) (cp_mandatory example_parts) = Inr []"
proof (rule built_capsule_validates [OF example_built])
  show "consistent_findings (\<lambda>_. None) (items_of (dget (dict_or_empty (cp_mandatory example_parts)) ''findings''))"
    by code_simp
qed

text \<open>
  C31. No tampering: whatever validates under the integrity record of a built capsule has the body that was
  built and the mandatory part that was given, up to the order of keys, as long as the digest has no
  collision between the texts compared.
\<close>

theorem capsule_is_tamper_evident:
  assumes "build_capsule H p = Inr c" "dget c' ''integrity'' = dget c ''integrity''"
    and "validate_capsule fi L H (JObj c') expected = Inr []"
    and "inj_on H {dumps (JObj (body_of c)), dumps (JObj (body_of c')), dumps (cp_mandatory p), dumps expected}"
    and "list_all plain_floats [JObj (body_of c), JObj (body_of c'), cp_mandatory p, expected]"
  shows "canon (JObj (body_of c')) = canon (JObj (body_of c)) \<and> canon expected = canon (cp_mandatory p)"
proof -
  from assms(1) have i: "dget (dict_or_empty (dget c ''integrity'')) ''body_sha256'' = JStr (sha H (JObj (body_of c)))"
      "dget (dict_or_empty (dget c ''integrity'')) ''mandatory_sha256'' = JStr (sha H (cp_mandatory p))"
    by (auto elim!: build_capsule_Inr)
  from assms(3) obtain e where e: "expected = JObj e"
    by (cases expected) (simp_all add: validate_capsule_def)
  from assms(3) have "sha H (JObj (body_of c')) = sha H (JObj (body_of c)) \<and> sha H expected = sha H (cp_mandatory p)"
    by (auto simp: validate_capsule_def e i assms(2) Let_def bind_res_Inr_iff split: if_splits)
  then have "H (dumps (JObj (body_of c'))) = H (dumps (JObj (body_of c)))"
      "H (dumps expected) = H (dumps (cp_mandatory p))"
    by (simp_all only: sha_def)
  then have "dumps (JObj (body_of c')) = dumps (JObj (body_of c))" "dumps expected = dumps (cp_mandatory p)"
    by (blast intro: inj_onD [OF assms(4)])+
  with assms(5) show ?thesis by (simp del: canon.simps add: dumps_eq_iff)
qed

theorem capsule_is_tamper_evident_witness:
  "canon (JObj (body_of example_capsule)) = canon (JObj (body_of example_capsule))
   \<and> canon (cp_mandatory example_parts) = canon (cp_mandatory example_parts)"
proof (rule capsule_is_tamper_evident [OF example_built refl])
  show "validate_capsule (\<lambda>_. None) plain_lib (take 8) (JObj example_capsule) (cp_mandatory example_parts) = Inr []"
    by code_simp
  show "list_all plain_floats [JObj (body_of example_capsule), JObj (body_of example_capsule),
      cp_mandatory example_parts, cp_mandatory example_parts]"
    by code_simp
  show "inj_on (take 8) {dumps (JObj (body_of example_capsule)), dumps (JObj (body_of example_capsule)),
      dumps (cp_mandatory example_parts), dumps (cp_mandatory example_parts)}"
  proof -
    have "take 8 (dumps (JObj (body_of example_capsule))) \<noteq> take 8 (dumps (cp_mandatory example_parts))"
      by code_simp
    then show ?thesis by (simp add: inj_on_def)
  qed
qed

text \<open>
  C32. The trimming loop ends on every input with valid arguments, and either the capsule is built, or
  \<^verbatim>\<open>CapsuleTooLarge\<close> reports a size above the hard limit and nothing that may be trimmed is left. Whatever
  was trimmed, either the soft limit is met or nothing is left to trim.
\<close>

theorem trimming_is_exhaustive:
  assumes "check_parts p = Inr ()" "trim H p (start_trimming H p) = (nts, progress, steps)"
  shows "(nonmandatory_bytes p progress nts \<le> 16384
           \<or> dget nts ''text'' = JStr [] \<and> items_of (dget progress ''commands'') = []
             \<and> items_of (dget progress ''files_touched'') = [])
    \<and> (case build_capsule H p of
         Inr c \<Rightarrow> dget c ''notes'' = JObj nts \<and> dget c ''progress'' = JObj progress
       | Inl e \<Rightarrow> e = CapsuleTooLarge (nonmandatory_bytes p progress nts)
           \<and> 24576 < nonmandatory_bytes p progress nts \<and> trim_left (nts, progress, steps) = 0)"
proof -
  have t: "nonmandatory_bytes p progress nts \<le> 16384 \<or> trim_left (nts, progress, steps) = 0"
    using trimmed_ok(3) [OF assms(2)] by (simp add: NONMANDATORY_SOFT_def)
  from trimmed_ok(1) [OF assms(2)] obtain t where "dget nts ''text'' = JStr t" by (auto simp: trim_ok_def)
  with t have 1: "nonmandatory_bytes p progress nts \<le> 16384
      \<or> dget nts ''text'' = JStr [] \<and> items_of (dget progress ''commands'') = []
        \<and> items_of (dget progress ''files_touched'') = []"
    by (cases t) (auto simp: trim_left_def)
  show ?thesis
  proof (cases "24576 < nonmandatory_bytes p progress nts")
    case True
    with 1 t assms show ?thesis
      by (simp add: build_capsule_def Let_def bytes_without_mandatory NONMANDATORY_HARD_def)
  next
    case False
    with 1 assms show ?thesis
      by (simp add: build_capsule_def Let_def bytes_without_mandatory NONMANDATORY_HARD_def)
  qed
qed

definition example_trimming :: trimming where
  "example_trimming = trim (take 8) example_parts (start_trimming (take 8) example_parts)"

theorem trimming_is_exhaustive_witness:
  "case build_capsule (take 8) example_parts of
     Inr c \<Rightarrow> dget c ''notes'' = JObj (fst example_trimming)
   | Inl e \<Rightarrow> e = CapsuleTooLarge (nonmandatory_bytes example_parts (fst (snd example_trimming)) (fst example_trimming))"
proof -
  have "check_parts example_parts = Inr ()"
  proof -
    have "case check_parts example_parts of Inl _ \<Rightarrow> False | Inr _ \<Rightarrow> True" by code_simp
    then show ?thesis by (cases "check_parts example_parts") simp_all
  qed
  from trimming_is_exhaustive [OF this, of "take 8" "fst example_trimming" "fst (snd example_trimming)"
      "snd (snd example_trimming)"] show ?thesis
    by (auto simp: example_trimming_def split: sum.splits)
qed

text \<open>
  C35. The prompt rendered from a built capsule contains the objective, every textual constraint and the text of
  every finding word for word.
\<close>

theorem prompt_carries_mandatory:
  assumes "build_capsule H p = Inr c" "cp_mandatory p = JObj m"
  shows "\<exists>prompt objective.
    render_prompt L (JObj c) backend_kind = Inr prompt
    \<and> dget m ''objective'' = JStr objective \<and> occurs_in objective prompt
    \<and> (\<forall>s. JStr s \<in> set (items_of (dget m ''constraints'')) \<longrightarrow> occurs_in s prompt)
    \<and> (\<forall>f \<in> set (items_of (dget m ''findings'')).
         \<exists>t. dget (dict_or_empty f) ''text'' = JStr t \<and> occurs_in t prompt)"
proof -
  from assms(1) have ok: "check_parts p = Inr ()" and m: "dget c ''mandatory'' = JObj m"
    by (auto elim!: build_capsule_Inr simp: assms(2))
  from ok obtain ob cs fs where o: "dget m ''objective'' = JStr ob" and c: "dget m ''constraints'' = JArr cs"
    and f: "dget m ''findings'' = JArr fs" "list_all good_finding fs"
    by (auto simp: check_parts_def bind_res_Inr_iff validate_mandatory_def assms(2) is_str_def is_list_def
        split: if_splits json.splits)
  obtain prompt where p: "render_prompt L (JObj c) backend_kind = Inr prompt"
    by (simp add: render_prompt_def)
  have in_prompt: "occurs_in l prompt" if "l \<in> set (mandatory_lines m)" for l
    using p that by (auto simp: render_prompt_def m intro!: occurs_in_join)
  have "dget_or m ''objective'' (JStr []) = JStr ob"
    using o by (auto simp: dget_def dget_or_def split: option.splits)
  then have "occurs_in ob prompt" by (intro in_prompt) (simp add: mandatory_lines_def as_text_def)
  moreover have "occurs_in s prompt" if "JStr s \<in> set cs" for s
    by (rule occurs_in_trans [OF item_in_list [OF that]], rule in_prompt) (simp add: mandatory_lines_def c)
  moreover have "\<exists>t. dget (dict_or_empty g) ''text'' = JStr t \<and> occurs_in t prompt" if g: "g \<in> set fs" for g
  proof -
    from f(2) g have "good_finding g" by (simp add: list_all_iff)
    then obtain d t where d: "g = JObj d" "dget d ''text'' = JStr t" by (rule good_finding_cases)
    have "occurs_in t prompt"
      by (rule in_prompt) (use finding_text_shown [OF g d] in \<open>simp add: mandatory_lines_def f\<close>)
    with d show ?thesis by simp
  qed
  ultimately show ?thesis using p o by (auto simp: c f)
qed

theorem prompt_carries_mandatory_witness:
  "\<exists>prompt. render_prompt plain_lib (JObj example_capsule) ''codex'' = Inr prompt \<and> occurs_in ''fix'' prompt"
proof -
  let ?m = "[(''objective'', JStr ''fix''), (''constraints'', JArr []), (''acceptance'', JArr []),
    (''review_requirements'', JObj []),
    (''findings'', JArr [JObj [(''id'', JStr ''f1''), (''text'', JStr ''x'')]]), (''limits'', JObj [])]"
  have "cp_mandatory example_parts = JObj ?m" by (simp add: example_parts_def)
  from prompt_carries_mandatory [OF example_built this, of plain_lib "''codex''"] show ?thesis by auto
qed

definition same_shown :: "json \<Rightarrow> json \<Rightarrow> bool" where
  "same_shown a b \<longleftrightarrow>
     command_record a \<and> command_record b
     \<and> dget (dict_or_empty a) ''program'' = dget (dict_or_empty b) ''program''
     \<and> (\<exists>x y. dget (dict_or_empty a) ''sha256'' = JStr x \<and> dget (dict_or_empty b) ''sha256'' = JStr y
          \<and> take_chars 12 x = take_chars 12 y)"

lemma render_command_same: "same_shown a b \<Longrightarrow> render_command a = render_command b"
  by (auto simp: same_shown_def render_command_def shown_command_def)

text \<open>
  C34. Nothing of a command record but the program name and twelve characters of its digest reaches the prompt: two
  lists of records that agree there, whatever arguments, lengths or summaries they hold, give the same prompt.
\<close>

theorem prompt_hides_commands:
  assumes "list_all2 same_shown cs ds"
  shows "render_prompt L (JObj (dset c ''progress'' (JObj (dset progress ''commands'' (JArr cs))))) backend_kind
       = render_prompt L (JObj (dset c ''progress'' (JObj (dset progress ''commands'' (JArr ds))))) backend_kind"
proof -
  from assms have "map render_command cs = map render_command ds" "cs = [] \<longleftrightarrow> ds = []"
    by (induction rule: list_all2_induct) (auto simp: render_command_same)
  then have "render_commands (JArr cs) = render_commands (JArr ds)" by (simp add: render_commands_def)
  then show ?thesis by (simp add: render_prompt_def progress_lines_def)
qed

theorem prompt_hides_commands_witness:
  "render_prompt plain_lib (JObj (dset example_capsule ''progress'' (JObj (dset [] ''commands''
       (JArr [JObj [(''program'', JStr ''curl''), (''sha256'', JStr ''0123456789abcdef''), (''length'', JInt 9)]])))))
     ''codex''
   = render_prompt plain_lib (JObj (dset example_capsule ''progress'' (JObj (dset [] ''commands''
       (JArr [JObj [(''program'', JStr ''curl''), (''sha256'', JStr ''0123456789abffff''), (''length'', JInt 70)]])))))
     ''codex''"
proof (rule prompt_hides_commands)
  have "take_chars 12 ''0123456789abcdef'' = take_chars 12 ''0123456789abffff''" by code_simp
  then show "list_all2 same_shown
      [JObj [(''program'', JStr ''curl''), (''sha256'', JStr ''0123456789abcdef''), (''length'', JInt 9)]]
      [JObj [(''program'', JStr ''curl''), (''sha256'', JStr ''0123456789abffff''), (''length'', JInt 70)]]"
    by (simp add: same_shown_def command_record_def del: take_chars.simps)
qed

end
