(* ===== verification/Control_Runtime.thy ===== *)
theory Control_Runtime
  imports Policy_Gate Run_Lifecycle Text_Tools
begin

text \<open>
  The local profile of runner-control, \<^verbatim>\<open>ControlRuntime\<close> of \<^verbatim>\<open>src/asterun/control.py\<close>, with
  the checks and digests of \<^verbatim>\<open>src/asterun/control_protocol.py\<close> it uses: commands are accepted
  once and change entities along the packaged state machines, an admitted Action is handed
  to the application and its end is observed, verified and settled.

  An entity in memory is a mutable dictionary that several callers change, so the state has
  a heap: a reference is an index into \<open>rt_heap\<close>. A transaction that raises puts the database
  back and leaves the heap as it is, as in the code. The database is the one of
  \<open>Control_Store\<close>, the application the one of \<open>Run_Lifecycle\<close>. \<open>rt_sent\<close> is a log of what
  was handed to the application: the Action and the parameters.

  What other code decides is in the record \<open>ctl_env\<close>: the digest function, the canonical
  JSON of \<^verbatim>\<open>rfc8785\<close>, the verdict of \<^verbatim>\<open>jsonschema\<close>, the JSON parser, \<^verbatim>\<open>uuid4\<close>, the clock and
  the ISO 8601 texts, the configuration, and the calls into the application, into the
  plugin admission and into the quality runtime.
\<close>

section \<open>State and environment\<close>

record control_state =
  rt_db :: control_db
  rt_heap :: "dict list"
  rt_ids :: nat
  rt_ticks :: nat
  rt_busy :: bool
  rt_app :: app
  rt_ext :: json
  rt_sent :: "(string \<times> dict) list"

type_synonym 'a rt = "control_state \<Rightarrow> 'a res \<times> control_state"

record backend_info =
  bi_kind :: string
  bi_enabled :: bool
  bi_builtin :: bool
  bi_can_dispatch :: bool

record admission_hooks =
  ad_guard :: "string \<Rightarrow> json \<Rightarrow> unit res \<times> json"
  ad_admit :: "dict \<Rightarrow> dict \<Rightarrow> json \<Rightarrow> string \<Rightarrow> json \<Rightarrow> dict res \<times> json"
  ad_uncertain :: "string \<Rightarrow> json \<Rightarrow> unit res \<times> json"
  ad_settle :: "string \<Rightarrow> bool \<Rightarrow> json \<Rightarrow> unit res \<times> json"
  ad_plan :: "json \<Rightarrow> string \<Rightarrow> json \<Rightarrow> json res"

record ctl_env =
  c_sha :: "string \<Rightarrow> string"
  c_jcs :: "json \<Rightarrow> string option"
  c_schema :: "string \<Rightarrow> json \<Rightarrow> string option"
  c_dumps :: "json \<Rightarrow> string"
  c_parse :: "string \<Rightarrow> json option"
  c_uuid :: "nat \<Rightarrow> string"
  c_time :: "nat \<Rightarrow> int"
  c_isoformat :: "string \<Rightarrow> int \<Rightarrow> string"
  c_iso :: iso_parser
  c_principal :: principal_subject
  c_authorize :: "principal_subject \<Rightarrow> string \<Rightarrow> string \<Rightarrow> decision"
  c_grant :: "grant option"
  c_workspaces :: "(string \<times> string) list"
  c_backends :: "(string \<times> backend_info) list"
  c_default_backend :: json
  c_pick_backend :: "string option \<Rightarrow> string res"
  c_revision :: int
  c_config_sha :: string
  c_account :: string
  c_runtime :: string
  c_worker :: string
  c_locked :: bool
  c_admission :: "admission_hooks option"
  c_assert_plan :: "json \<Rightarrow> unit res"
  c_task_submit :: "dict \<Rightarrow> unit action"
  c_capability_invoke :: "dict \<Rightarrow> unit action"
  c_task_cancel :: "string \<Rightarrow> unit action"
  c_task_reconcile :: "string \<Rightarrow> unit action"
  c_quality_progress :: "nat \<Rightarrow> nat \<Rightarrow> task \<Rightarrow> run \<Rightarrow> bool rt"
  c_quality_evidence :: "dict \<Rightarrow> dict \<Rightarrow> dict \<Rightarrow> dict rt"
  c_guard_quality :: "task \<Rightarrow> operation \<Rightarrow> bool rt"
  c_quality_control :: "operation \<Rightarrow> dict option res"

definition bind_rt :: "'a rt \<Rightarrow> ('a \<Rightarrow> 'b rt) \<Rightarrow> 'b rt" where
  "bind_rt m f s = (case m s of (Inl e, s') \<Rightarrow> (Inl e, s') | (Inr x, s') \<Rightarrow> f x s')"

definition ret :: "'a \<Rightarrow> 'a rt" where
  "ret x s = (Inr x, s)"

definition from_res :: "'a res \<Rightarrow> 'a rt" where
  "from_res r s = (r, s)"

abbreviation reject :: "string \<Rightarrow> 'a rt" where
  "reject code \<equiv> from_res (raise code)"

abbreviation require :: "bool \<Rightarrow> string \<Rightarrow> unit rt" where
  "require b code \<equiv> (if b then ret () else reject code)"

definition on_db :: "'a tx \<Rightarrow> 'a rt" where
  "on_db f s = (case f (rt_db s) of Inl e \<Rightarrow> (Inl e, s) | Inr (x, db) \<Rightarrow> (Inr x, s\<lparr>rt_db := db\<rparr>))"

definition read_db :: "(control_db \<Rightarrow> 'a res) \<Rightarrow> 'a rt" where
  "read_db f s = (f (rt_db s), s)"

definition read_app :: "(mem_store \<Rightarrow> 'a res) \<Rightarrow> 'a rt" where
  "read_app f s = (f (ap_store (rt_app s)), s)"

definition on_app :: "'a action \<Rightarrow> 'a rt" where
  "on_app f s = (let (r, a) = f (rt_app s) in (r, s\<lparr>rt_app := a\<rparr>))"

definition on_ext :: "(json \<Rightarrow> 'a res \<times> json) \<Rightarrow> 'a rt" where
  "on_ext f s = (let (r, x) = f (rt_ext s) in (r, s\<lparr>rt_ext := x\<rparr>))"

text \<open>
  \<^verbatim>\<open>with self.store.transaction()\<close>: the plugin admission writes in the same transaction.
\<close>

definition atomic :: "'a rt \<Rightarrow> 'a rt" where
  "atomic m s =
     (case m s of
        (Inl e, s') \<Rightarrow> (Inl e, s'\<lparr>rt_db := rt_db s, rt_ext := rt_ext s\<rparr>)
      | (Inr x, s') \<Rightarrow> (Inr x, s'))"

text \<open>\<^verbatim>\<open>except AsterunError as error\<close>: the handler gets the code.\<close>

definition catch_asterun :: "'a rt \<Rightarrow> (string \<Rightarrow> exn \<Rightarrow> 'a rt) \<Rightarrow> 'a rt" where
  "catch_asterun m h s =
     (case m s of
        (Inl (AsterunError code details), s') \<Rightarrow> h code (AsterunError code details) s'
      | other \<Rightarrow> other)"

fun each_rt :: "('a \<Rightarrow> unit rt) \<Rightarrow> 'a list \<Rightarrow> unit rt" where
  "each_rt f [] = ret ()"
| "each_rt f (x # xs) = bind_rt (f x) (\<lambda>_. each_rt f xs)"

section \<open>Entities in memory\<close>

definition new_obj :: "dict \<Rightarrow> nat rt" where
  "new_obj d s = (Inr (length (rt_heap s)), s\<lparr>rt_heap := rt_heap s @ [d]\<rparr>)"

definition obj :: "nat \<Rightarrow> dict rt" where
  "obj r s = (if r < length (rt_heap s) then Inr (rt_heap s ! r) else Inl IndexError, s)"

definition modify :: "nat \<Rightarrow> (dict \<Rightarrow> dict) \<Rightarrow> unit rt" where
  "modify r f s =
     (if r < length (rt_heap s) then (Inr (), s\<lparr>rt_heap := (rt_heap s)[r := f (rt_heap s ! r)]\<rparr>)
      else (Inl IndexError, s))"

abbreviation set_item :: "nat \<Rightarrow> string \<Rightarrow> json \<Rightarrow> unit rt" where
  "set_item r k v \<equiv> modify r (\<lambda>d. dset d k v)"

definition item :: "nat \<Rightarrow> string \<Rightarrow> json rt" where
  "item r k = bind_rt (obj r) (\<lambda>d. from_res (getitem d k))"

definition sitem :: "nat \<Rightarrow> string \<Rightarrow> string rt" where
  "sitem r k = bind_rt (obj r) (\<lambda>d. from_res (str_item d k))"

definition dict_res :: "json \<Rightarrow> dict res" where
  "dict_res v = (case v of JObj d \<Rightarrow> Inr d | _ \<Rightarrow> Inl TypeError)"

definition list_res :: "json \<Rightarrow> json list res" where
  "list_res v = (case v of JArr xs \<Rightarrow> Inr xs | _ \<Rightarrow> Inl TypeError)"

definition dict_item :: "dict \<Rightarrow> string \<Rightarrow> dict res" where
  "dict_item d k = bind_res (getitem d k) dict_res"

definition list_item :: "dict \<Rightarrow> string \<Rightarrow> json list res" where
  "list_item d k = bind_res (getitem d k) list_res"

text \<open>\<^verbatim>\<open>entity["extensions"].get(k)\<close> and \<^verbatim>\<open>entity["extensions"][k] = v\<close>\<close>

definition extension :: "nat \<Rightarrow> string \<Rightarrow> json rt" where
  "extension r k = bind_rt (obj r) (\<lambda>d. from_res (bind_res (dict_item d ''extensions'') (\<lambda>x. Inr (dget x k))))"

definition set_extension :: "nat \<Rightarrow> string \<Rightarrow> json \<Rightarrow> unit rt" where
  "set_extension r k v =
     bind_rt (obj r) (\<lambda>d.
     bind_rt (from_res (dict_item d ''extensions'')) (\<lambda>x.
       set_item r ''extensions'' (JObj (dset x k v))))"

definition append_item :: "nat \<Rightarrow> string \<Rightarrow> json \<Rightarrow> unit rt" where
  "append_item r k v =
     bind_rt (obj r) (\<lambda>d.
     bind_rt (from_res (list_item d k)) (\<lambda>xs. set_item r k (JArr (xs @ [v]))))"

section \<open>The wire protocol\<close>

definition MAX_COMMAND_BYTES :: nat where
  "MAX_COMMAND_BYTES = 1024 * 1024"

text \<open>
  \<^verbatim>\<open>_check_json\<close>: safe integers and finite floats; strings are valid UTF-8 and values are
  trees here by their type.
\<close>

fun json_ok :: "json \<Rightarrow> bool"
and json_ok_list :: "json list \<Rightarrow> bool"
and json_ok_fields :: "dict \<Rightarrow> bool" where
  "json_ok JNull = True"
| "json_ok (JBool b) = True"
| "json_ok (JStr s) = True"
| "json_ok (JInt n) = (- MAX_INT \<le> n \<and> n \<le> MAX_INT)"
| "json_ok (JFloat r) = (r \<notin> set [''inf'', ''-inf'', ''nan''])"
| "json_ok (JArr xs) = json_ok_list xs"
| "json_ok (JObj d) = json_ok_fields d"
| "json_ok_list [] = True"
| "json_ok_list (x # xs) = (json_ok x \<and> json_ok_list xs)"
| "json_ok_fields [] = True"
| "json_ok_fields ((k, v) # d) = (json_ok v \<and> json_ok_fields d)"

definition check_json :: "json \<Rightarrow> unit res" where
  "check_json v = (if json_ok v then Inr () else raise ''INVALID_REQUEST'')"

text \<open>\<^verbatim>\<open>object_pairs_hook=_object\<close>: no object of the text repeats a key.\<close>

fun distinct_keys :: "json \<Rightarrow> bool"
and distinct_keys_list :: "json list \<Rightarrow> bool"
and distinct_keys_fields :: "dict \<Rightarrow> bool" where
  "distinct_keys (JArr xs) = distinct_keys_list xs"
| "distinct_keys (JObj d) = (distinct (map fst d) \<and> distinct_keys_fields d)"
| "distinct_keys JNull = True"
| "distinct_keys (JBool b) = True"
| "distinct_keys (JInt n) = True"
| "distinct_keys (JFloat r) = True"
| "distinct_keys (JStr s) = True"
| "distinct_keys_list [] = True"
| "distinct_keys_list (x # xs) = (distinct_keys x \<and> distinct_keys_list xs)"
| "distinct_keys_fields [] = True"
| "distinct_keys_fields ((k, v) # d) = (distinct_keys v \<and> distinct_keys_fields d)"

definition loads :: "ctl_env \<Rightarrow> string \<Rightarrow> json res" where
  "loads env raw =
     (if MAX_COMMAND_BYTES < length raw
      then Inl (AsterunError ''INVALID_REQUEST'' [(''max_command_bytes'', JInt (int MAX_COMMAND_BYTES))])
      else case c_parse env raw of
             None \<Rightarrow> raise ''INVALID_REQUEST''
           | Some v \<Rightarrow>
               if \<not> distinct_keys v then raise ''INVALID_REQUEST''
               else bind_res (check_json v) (\<lambda>_. Inr v))"

definition jcs_dumps :: "ctl_env \<Rightarrow> json \<Rightarrow> string res" where
  "jcs_dumps env v = (case c_jcs env v of None \<Rightarrow> raise ''INVALID_REQUEST'' | Some s \<Rightarrow> Inr s)"

definition validate :: "ctl_env \<Rightarrow> json \<Rightarrow> string \<Rightarrow> unit res" where
  "validate env v name =
     bind_res (check_json v) (\<lambda>_.
       case c_schema env name v of
         Some keyword \<Rightarrow>
           Inl (AsterunError ''INVALID_REQUEST'' [(''definition'', JStr name), (''keyword'', JStr keyword)])
       | None \<Rightarrow>
           if name \<noteq> ''Command'' then Inr ()
           else bind_res (jcs_dumps env v) (\<lambda>s.
             if MAX_COMMAND_BYTES < length s
             then Inl (AsterunError ''INVALID_REQUEST'' [(''max_command_bytes'', JInt (int MAX_COMMAND_BYTES))])
             else Inr ()))"

definition jdigest :: "ctl_env \<Rightarrow> json \<Rightarrow> string res" where
  "jdigest env v =
     bind_res (check_json v) (\<lambda>_. bind_res (jcs_dumps env v) (\<lambda>s. Inr (c_sha env s)))"

definition COMMAND_DIGEST_FIELDS :: "string list" where
  "COMMAND_DIGEST_FIELDS = [''schema_version'', ''method'', ''params'', ''expected_revision'', ''expires_at'']"

definition command_digest :: "ctl_env \<Rightarrow> dict \<Rightarrow> string res" where
  "command_digest env command =
     bind_res (validate env (JObj command) ''Command'') (\<lambda>_.
     bind_res (map_res (\<lambda>k. bind_res (getitem command k) (\<lambda>v. Inr (k, v))) COMMAND_DIGEST_FIELDS) (\<lambda>fs.
       jdigest env (JObj fs)))"

section \<open>The state machines\<close>

text \<open>\<^verbatim>\<open>schemas/state-machines.json\<close>\<close>

definition task_edges :: "(string \<times> string list) list" where
  "task_edges =
    [(''DRAFT'', [''READY'', ''CANCELED'']), (''READY'', [''ACTIVE'', ''CANCELED'']),
     (''ACTIVE'', [''SUCCEEDED'', ''FAILED'', ''CANCELED'']), (''FAILED'', [''ACTIVE'']),
     (''SUCCEEDED'', []), (''CANCELED'', [])]"

definition run_edges :: "(string \<times> string list) list" where
  "run_edges =
    [(''QUEUED'', [''PREPARING'', ''PAUSING'', ''CANCELING'', ''WAITING'']),
     (''PREPARING'', [''RUNNING'', ''WAITING'', ''PAUSING'', ''RECONCILING'', ''CANCELING'', ''FAILED'']),
     (''RUNNING'', [''WAITING'', ''PAUSING'', ''RECONCILING'', ''CANCELING'', ''SUCCEEDED'', ''FAILED'']),
     (''WAITING'', [''PREPARING'', ''RUNNING'', ''PAUSING'', ''RECONCILING'', ''CANCELING'', ''FAILED'']),
     (''PAUSING'', [''PAUSED'', ''RECONCILING'', ''CANCELING'']),
     (''PAUSED'', [''RECONCILING'', ''CANCELING'']),
     (''RECONCILING'', [''PREPARING'', ''RUNNING'', ''WAITING'', ''PAUSING'', ''PAUSED'', ''CANCELING'',
        ''SUCCEEDED'', ''FAILED'']),
     (''CANCELING'', [''CANCELED'', ''RECONCILING'']),
     (''SUCCEEDED'', []), (''FAILED'', []), (''CANCELED'', [])]"

definition assignment_edges :: "(string \<times> string list) list" where
  "assignment_edges =
    [(''PENDING'', [''READY'', ''CANCELED'']), (''READY'', [''RUNNING'', ''WAITING'', ''CANCELED'']),
     (''RUNNING'', [''WAITING'', ''VERIFYING'', ''FAILED'', ''CANCELED'']),
     (''WAITING'', [''RUNNING'', ''VERIFYING'', ''FAILED'', ''CANCELED'']),
     (''VERIFYING'', [''SUCCEEDED'', ''FAILED'', ''WAITING'']),
     (''SUCCEEDED'', []), (''FAILED'', []), (''CANCELED'', [])]"

definition session_edges :: "(string \<times> string list) list" where
  "session_edges =
    [(''CREATING'', [''IDLE'', ''BUSY'', ''DISCONNECTED'', ''LOST'']),
     (''IDLE'', [''BUSY'', ''DISCONNECTED'', ''CLOSED'']),
     (''BUSY'', [''IDLE'', ''INTERRUPTING'', ''DISCONNECTED'']),
     (''INTERRUPTING'', [''IDLE'', ''DISCONNECTED'']),
     (''DISCONNECTED'', [''IDLE'', ''BUSY'', ''LOST'']), (''LOST'', []), (''CLOSED'', [])]"

definition action_edges :: "(string \<times> string list) list" where
  "action_edges =
    [(''PLANNED'', [''WAITING_APPROVAL'', ''ADMITTED'', ''DENIED'', ''CANCELED'']),
     (''WAITING_APPROVAL'', [''ADMITTED'', ''DENIED'', ''CANCELED'']),
     (''ADMITTED'', [''EXECUTING'', ''DENIED'', ''CANCELED'', ''UNKNOWN_REMOTE'']),
     (''EXECUTING'', [''VERIFYING'', ''FAILED'', ''UNKNOWN_REMOTE'']),
     (''VERIFYING'', [''SUCCEEDED'', ''FAILED'', ''UNKNOWN_REMOTE'']),
     (''UNKNOWN_REMOTE'', [''EXECUTING'', ''VERIFYING'', ''FAILED'', ''CANCELED'']),
     (''SUCCEEDED'', []), (''FAILED'', []), (''DENIED'', []), (''CANCELED'', [])]"

definition TRANSITIONS :: "(string \<times> (string \<times> string list) list) list" where
  "TRANSITIONS =
    [(''Task'', task_edges), (''Run'', run_edges), (''Assignment'', assignment_edges),
     (''Session'', session_edges), (''Action'', action_edges)]"

text \<open>\<^verbatim>\<open>transitions()[kind][previous]\<close>\<close>

definition next_states :: "string \<Rightarrow> string \<Rightarrow> string list res" where
  "next_states kind previous =
     (case map_of TRANSITIONS kind of
        None \<Rightarrow> Inl KeyError
      | Some m \<Rightarrow> (case map_of m previous of None \<Rightarrow> Inl KeyError | Some xs \<Rightarrow> Inr xs))"

section \<open>Identifiers and time\<close>

definition identifier_for :: "ctl_env \<Rightarrow> string \<Rightarrow> string \<Rightarrow> string" where
  "identifier_for env prefix v = prefix @ ''_'' @ take 32 (c_sha env v)"

definition fresh_identifier :: "ctl_env \<Rightarrow> string \<Rightarrow> string rt" where
  "fresh_identifier env prefix s =
     (Inr (prefix @ ''_'' @ c_uuid env (rt_ids s)), s\<lparr>rt_ids := Suc (rt_ids s)\<rparr>)"

text \<open>\<^verbatim>\<open>s.replace("+00:00", "Z")\<close>\<close>

fun plus_to_zulu :: "string \<Rightarrow> string" where
  "plus_to_zulu [] = []"
| "plus_to_zulu (c # s) =
     (if take 6 (c # s) = ''+00:00'' then CHR ''Z'' # plus_to_zulu (drop 5 s) else c # plus_to_zulu s)"

definition clock :: "ctl_env \<Rightarrow> int rt" where
  "clock env s = (Inr (c_time env (rt_ticks s)), s\<lparr>rt_ticks := Suc (rt_ticks s)\<rparr>)"

definition stamp :: "ctl_env \<Rightarrow> string \<Rightarrow> int \<Rightarrow> string" where
  "stamp env spec t = plus_to_zulu (c_isoformat env spec t)"

definition time_now :: "ctl_env \<Rightarrow> string rt" where
  "time_now env = bind_rt (clock env) (\<lambda>t. ret (stamp env ''milliseconds'' t))"

definition lease_deadline :: "ctl_env \<Rightarrow> string rt" where
  "lease_deadline env = bind_rt (clock env) (\<lambda>t. ret (stamp env ''auto'' (t + 60 * 1000000)))"

text \<open>\<^verbatim>\<open>instant(v)\<close>, and the order of two instants: one with and one without a zone do not compare.\<close>

definition instant :: "ctl_env \<Rightarrow> json \<Rightarrow> (int \<times> bool) res" where
  "instant env v =
     (case v of
        JStr s \<Rightarrow> (case c_iso env (zulu s) of None \<Rightarrow> Inl ValueError | Some t \<Rightarrow> Inr t)
      | _ \<Rightarrow> Inl TypeError)"

definition instant_le :: "int \<times> bool \<Rightarrow> int \<times> bool \<Rightarrow> bool res" where
  "instant_le a b = (if snd a \<noteq> snd b then Inl TypeError else Inr (fst a \<le> fst b))"

definition expired :: "ctl_env \<Rightarrow> json \<Rightarrow> bool rt" where
  "expired env v =
     bind_rt (from_res (instant env v)) (\<lambda>a.
     bind_rt (time_now env) (\<lambda>now.
     bind_rt (from_res (instant env (JStr now))) (\<lambda>b. from_res (instant_le a b))))"

definition iso_of_store :: "ctl_env \<Rightarrow> string \<Rightarrow> int option" where
  "iso_of_store env s = map_option fst (c_iso env s)"

section \<open>Entities and events\<close>

definition NAMESPACE :: string where
  "NAMESPACE = ''ns_local''"

definition principal_id :: "ctl_env \<Rightarrow> string" where
  "principal_id env =
     identifier_for env ''prn'' (subject_source (c_principal env) @ '':'' @ subject_id (c_principal env))"

definition make_entity :: "ctl_env \<Rightarrow> string \<Rightarrow> string \<Rightarrow> dict \<Rightarrow> dict rt" where
  "make_entity env kind prefix given =
     bind_rt (time_now env) (\<lambda>t.
     bind_rt (fresh_identifier env prefix) (\<lambda>i.
       ret ([(''schema_version'', JStr ''runner-control/v1''), (''kind'', JStr kind), (''id'', JStr i),
             (''namespace_id'', JStr NAMESPACE), (''revision'', JInt 1), (''created_at'', JStr t),
             (''updated_at'', JStr t), (''extensions'', JObj [])] @ given)))"

definition entity :: "ctl_env \<Rightarrow> string \<Rightarrow> string \<Rightarrow> dict \<Rightarrow> nat rt" where
  "entity env kind prefix given = bind_rt (make_entity env kind prefix given) new_obj"

definition save :: "ctl_env \<Rightarrow> bool \<Rightarrow> nat \<Rightarrow> unit rt" where
  "save env update r =
     bind_rt (if update then
         bind_rt (obj r) (\<lambda>d.
         bind_rt (from_res (int_item d ''revision'')) (\<lambda>n.
         bind_rt (set_item r ''revision'' (JInt (n + 1))) (\<lambda>_.
         bind_rt (time_now env) (\<lambda>t. set_item r ''updated_at'' (JStr t)))))
       else ret ()) (\<lambda>_.
     bind_rt (obj r) (\<lambda>d.
     bind_rt (from_res (str_item d ''kind'')) (\<lambda>kind.
     bind_rt (from_res (validate env (JObj d) kind)) (\<lambda>_.
     bind_rt (on_db (cs_put d)) (\<lambda>_. ret ())))))"

record event_args =
  ea_run :: json
  ea_operation :: json
  ea_before :: json
  ea_reason :: json
  ea_details :: dict
  ea_evidence :: "json list"
  ea_artifacts :: "json list"

definition no_args :: event_args where
  "no_args = \<lparr>ea_run = JNull, ea_operation = JNull, ea_before = JNull, ea_reason = JNull,
     ea_details = [], ea_evidence = [], ea_artifacts = []\<rparr>"

definition emit_event :: "ctl_env \<Rightarrow> string \<Rightarrow> nat \<Rightarrow> string \<Rightarrow> event_args \<Rightarrow> unit rt" where
  "emit_event env task_id r event_type x =
     bind_rt (time_now env) (\<lambda>observed.
     bind_rt (time_now env) (\<lambda>committed.
     bind_rt (obj r) (\<lambda>subject.
     bind_rt (from_res (getitem subject ''kind'')) (\<lambda>kind.
     bind_rt (from_res (getitem subject ''id'')) (\<lambda>i.
     bind_rt (make_entity env ''Event'' ''evt''
        [(''task_id'', JStr task_id), (''run_id'', ea_run x), (''sequence'', JInt 1),
         (''event_type'', JStr event_type), (''actor_id'', JStr (principal_id env)),
         (''operation_id'', ea_operation x), (''causation_id'', ea_operation x),
         (''correlation_id'', por (ea_run x) (JStr task_id)), (''observed_at'', JStr observed),
         (''committed_at'', JStr committed), (''source_event_ref'', JNull),
         (''data'', JObj [(''subject_kind'', kind), (''subject_id'', i), (''from_state'', ea_before x),
            (''to_state'', dget subject ''status''), (''reason_code'', ea_reason x),
            (''evidence_ids'', JArr (ea_evidence x)), (''artifact_ids'', JArr (ea_artifacts x)),
            (''details'', JObj (ea_details x))])]) (\<lambda>event.
     bind_rt (from_res (validate env (JObj event) ''Event'')) (\<lambda>_.
     bind_rt (on_db (cs_append_event event)) (\<lambda>_. ret ()))))))))"

definition STATE_EVENTS :: "(string \<times> string) list" where
  "STATE_EVENTS =
    [(''Task'', ''task.state_changed''), (''Run'', ''run.state_changed''),
     (''Assignment'', ''assignment.state_changed''), (''Action'', ''action.result_recorded''),
     (''Session'', ''session.state_changed'')]"

definition change_state :: "ctl_env \<Rightarrow> nat \<Rightarrow> string \<Rightarrow> string \<Rightarrow> string \<Rightarrow> json \<Rightarrow> json \<Rightarrow> unit rt" where
  "change_state env r kind previous status reason operation_id =
     bind_rt (set_item r ''status'' (JStr status)) (\<lambda>_.
     bind_rt (if kind = ''Run''
              then set_item r ''blocked_reason'' (if status = ''WAITING'' then reason else JNull)
              else ret ()) (\<lambda>_.
     bind_rt (save env True r) (\<lambda>_.
     bind_rt (sitem r (if kind = ''Task'' then ''id'' else ''task_id'')) (\<lambda>task_id.
     bind_rt (if kind = ''Run'' then item r ''id''
              else bind_rt (obj r) (\<lambda>d. ret (dget d ''run_id''))) (\<lambda>run_id.
     bind_rt (from_res (case map_of STATE_EVENTS kind of None \<Rightarrow> Inl KeyError | Some e \<Rightarrow> Inr e)) (\<lambda>event_type.
       emit_event env task_id r event_type (no_args\<lparr>ea_run := run_id, ea_operation := operation_id,
         ea_before := JStr previous, ea_reason := reason\<rparr>)))))))"

definition transition :: "ctl_env \<Rightarrow> nat \<Rightarrow> string \<Rightarrow> json \<Rightarrow> json \<Rightarrow> unit rt" where
  "transition env r status reason operation_id =
     bind_rt (sitem r ''status'') (\<lambda>previous.
       if previous = status then ret ()
       else
         bind_rt (sitem r ''kind'') (\<lambda>kind.
         bind_rt (from_res (next_states kind previous)) (\<lambda>allowed_states.
           if status \<notin> set allowed_states then reject ''INVALID_ARGUMENT''
           else change_state env r kind previous status reason operation_id)))"

abbreviation move :: "ctl_env \<Rightarrow> nat \<Rightarrow> string \<Rightarrow> unit rt" where
  "move env r status \<equiv> transition env r status JNull JNull"

section \<open>Authorization and reading\<close>

definition scope_of :: "ctl_env \<Rightarrow> dict \<Rightarrow> string res" where
  "scope_of env task =
     bind_res (list_item task ''resource_scopes'') (\<lambda>scopes.
       case scopes of
         [v] \<Rightarrow>
           bind_res (dict_res v) (\<lambda>scope.
           bind_res (getitem scope ''selector'') (\<lambda>selector.
           if selector \<noteq> JNull then raise ''CAPABILITY_UNSUPPORTED'' else
           bind_res (getitem scope ''operations'') (\<lambda>operations.
           if operations \<noteq> JArr [JStr ''agent.execute''] then raise ''CAPABILITY_UNSUPPORTED'' else
           bind_res (if c_workspaces env = [] then Inr JNull else getitem scope ''resource_id'') (\<lambda>i.
             case find (\<lambda>(name, _). i = JStr (identifier_for env ''rsc'' name)) (c_workspaces env) of
               Some (name, _) \<Rightarrow> Inr name
             | None \<Rightarrow> raise ''FORBIDDEN''))))
       | _ \<Rightarrow> raise ''CAPABILITY_UNSUPPORTED'')"

text \<open>\<^verbatim>\<open>app._require_grant\<close>, \<^verbatim>\<open>app._require_applied_config\<close> and \<^verbatim>\<open>app._backend(None)\<close>\<close>

definition require_grant :: "ctl_env \<Rightarrow> string \<Rightarrow> unit rt" where
  "require_grant env resource =
     bind_rt (clock env) (\<lambda>t.
       from_res (enforce_grant (c_iso env) (c_grant env) resource (stamp env ''seconds'' t)))"

definition require_applied_config :: "ctl_env \<Rightarrow> unit rt" where
  "require_applied_config env =
     read_app (\<lambda>s.
       if ms_applied s \<noteq> Some (c_revision env)
       then Inl (AsterunError ''REVISION_CONFLICT''
              [(''file'', JInt (c_revision env)),
               (''applied'', case ms_applied s of None \<Rightarrow> JNull | Some n \<Rightarrow> JInt n)])
       else Inr ())"

definition authorize :: "ctl_env \<Rightarrow> dict \<Rightarrow> string \<Rightarrow> string rt" where
  "authorize env task act =
     bind_rt (from_res (getitem task ''owner_id'')) (\<lambda>owner.
       if owner \<noteq> JStr (principal_id env) then reject ''FORBIDDEN''
       else
         bind_rt (from_res (scope_of env task)) (\<lambda>workspace.
         bind_rt (from_res (enforce (c_authorize env (c_principal env) act workspace))) (\<lambda>_.
         bind_rt (require_grant env workspace) (\<lambda>_. ret workspace))))"

definition get_entity :: "string \<Rightarrow> string \<Rightarrow> dict rt" where
  "get_entity kind i = read_db (cs_get kind i NAMESPACE)"

definition fetch :: "string \<Rightarrow> string \<Rightarrow> nat rt" where
  "fetch kind i = bind_rt (get_entity kind i) new_obj"

definition control_task :: "ctl_env \<Rightarrow> string \<Rightarrow> string \<Rightarrow> nat rt" where
  "control_task env task_id act =
     bind_rt (fetch ''Task'' task_id) (\<lambda>r.
     bind_rt (obj r) (\<lambda>d.
     bind_rt (authorize env d act) (\<lambda>_. ret r)))"

section \<open>What a backend can do\<close>

text \<open>\<^verbatim>\<open>plugins/builtin_capabilities.py\<close>: rows of a name, the declared and the adapter support.\<close>

definition cap_row :: "verification_status \<Rightarrow> string option \<Rightarrow> string \<times> support_level \<times> support_level \<Rightarrow> capability" where
  "cap_row verified where_verified r =
     \<lparr>cap_name = fst r, cap_declared_support = fst (snd r), cap_adapter_support = snd (snd r),
      cap_verification_status = verified, cap_verification_environment = where_verified,
      cap_verified_at = None\<rparr>"

definition fake_rows :: "capability list" where
  "fake_rows =
     (let yes = (\<lambda>n. cap_row Ver_OFFLINE_VERIFIED (Some ''offline-fake'') (n, Sup_SUPPORTED, Sup_SUPPORTED));
          no = (\<lambda>n. cap_row Ver_NOT_TESTED None (n, Sup_UNSUPPORTED, Sup_UNSUPPORTED))
      in [yes ''discover'', yes ''create_session'', no ''resume_session'', yes ''submit'',
          yes ''snapshot_review'', yes ''observe'', yes ''interrupt'', yes ''approval'',
          no ''native_reference'', no ''usage''])"

definition codex_rows :: "capability list" where
  "codex_rows = map (cap_row Ver_NOT_TESTED None)
     [(''discover'', Sup_SUPPORTED, Sup_SUPPORTED), (''create_session'', Sup_SUPPORTED, Sup_SUPPORTED),
      (''resume_session'', Sup_SUPPORTED, Sup_SUPPORTED), (''submit'', Sup_SUPPORTED, Sup_SUPPORTED),
      (''snapshot_review'', Sup_UNKNOWN, Sup_UNSUPPORTED), (''observe'', Sup_SUPPORTED, Sup_SUPPORTED),
      (''interrupt'', Sup_SUPPORTED, Sup_SUPPORTED), (''approval'', Sup_SUPPORTED, Sup_SUPPORTED),
      (''native_reference'', Sup_SUPPORTED, Sup_SUPPORTED), (''usage'', Sup_UNKNOWN, Sup_UNKNOWN)]"

definition grok_rows :: "capability list" where
  "grok_rows = map (cap_row Ver_NOT_TESTED None)
     [(''discover'', Sup_SUPPORTED, Sup_SUPPORTED), (''create_session'', Sup_SUPPORTED, Sup_SUPPORTED),
      (''resume_session'', Sup_UNKNOWN, Sup_UNSUPPORTED), (''submit'', Sup_SUPPORTED, Sup_SUPPORTED),
      (''snapshot_review'', Sup_UNKNOWN, Sup_UNSUPPORTED), (''observe'', Sup_SUPPORTED, Sup_SUPPORTED),
      (''interrupt'', Sup_UNKNOWN, Sup_UNKNOWN), (''approval'', Sup_UNKNOWN, Sup_UNKNOWN),
      (''native_reference'', Sup_SUPPORTED, Sup_SUPPORTED), (''usage'', Sup_UNKNOWN, Sup_UNKNOWN)]"

definition antigravity_rows :: "capability list" where
  "antigravity_rows = map (cap_row Ver_NOT_TESTED None)
     [(''discover'', Sup_SUPPORTED, Sup_SUPPORTED), (''create_session'', Sup_SUPPORTED, Sup_SUPPORTED),
      (''resume_session'', Sup_SUPPORTED, Sup_UNSUPPORTED), (''submit'', Sup_SUPPORTED, Sup_SUPPORTED),
      (''snapshot_review'', Sup_UNKNOWN, Sup_UNSUPPORTED), (''observe'', Sup_SUPPORTED, Sup_SUPPORTED),
      (''interrupt'', Sup_SUPPORTED, Sup_SUPPORTED), (''approval'', Sup_UNSUPPORTED, Sup_UNSUPPORTED),
      (''native_reference'', Sup_SUPPORTED, Sup_SUPPORTED), (''usage'', Sup_SUPPORTED, Sup_SUPPORTED)]"

definition claude_rows :: "capability list" where
  "claude_rows = map (cap_row Ver_NOT_TESTED None)
     [(''discover'', Sup_SUPPORTED, Sup_SUPPORTED), (''create_session'', Sup_UNSUPPORTED, Sup_UNSUPPORTED),
      (''resume_session'', Sup_UNSUPPORTED, Sup_UNSUPPORTED), (''submit'', Sup_SUPPORTED, Sup_SUPPORTED),
      (''snapshot_review'', Sup_SUPPORTED, Sup_SUPPORTED), (''observe'', Sup_SUPPORTED, Sup_SUPPORTED),
      (''interrupt'', Sup_UNKNOWN, Sup_UNKNOWN), (''approval'', Sup_UNSUPPORTED, Sup_UNSUPPORTED),
      (''native_reference'', Sup_UNKNOWN, Sup_UNKNOWN), (''usage'', Sup_UNKNOWN, Sup_UNKNOWN)]"

definition unknown_rows :: "capability list" where
  "unknown_rows = map (\<lambda>n. cap_row Ver_NOT_TESTED None (n, Sup_UNKNOWN, Sup_UNKNOWN))
     [''discover'', ''create_session'', ''resume_session'', ''submit'', ''observe'', ''interrupt'',
      ''approval'', ''native_reference'', ''usage'']"

definition builtin_capability_rows :: "string \<Rightarrow> capability list" where
  "builtin_capability_rows kind =
     (if kind = ''fake'' then fake_rows
      else if kind = ''codex'' then codex_rows
      else if kind = ''grok'' then grok_rows
      else if kind = ''antigravity'' then antigravity_rows
      else if kind = ''claude'' then claude_rows
      else unknown_rows)"

definition VERSION :: string where
  "VERSION = ''0.1.0a31''"

definition verification_row :: "capability \<Rightarrow> json" where
  "verification_row c =
     JObj [(''name'', JStr (cap_name c)),
       (''status'', JStr (if cap_adapter_support c = Sup_UNSUPPORTED then ''unsupported''
          else if cap_declared_support c = Sup_SUPPORTED then ''documented'' else ''unknown'')),
       (''version_ref'', JStr VERSION), (''verified_at'', JNull), (''evidence_ids'', JArr [])]"

definition backend_features :: "string \<Rightarrow> dict" where
  "backend_features kind =
     [(''resume'', JStr (if kind = ''codex'' then ''native'' else ''none'')),
      (''interrupt'', JStr (if kind \<in> {''codex'', ''claude'', ''fake'', ''antigravity''} then ''best_effort'' else ''unknown'')),
      (''approval_bridge'', JStr (if kind = ''codex'' then ''native'' else ''none'')),
      (''effect_control'', JStr ''opaque''),
      (''event_replay'', JStr (if kind = ''codex'' then ''history_reconcile'' else ''unknown'')),
      (''usage'', JStr (if kind = ''antigravity'' then ''provider_reported'' else ''unknown'')),
      (''requires_desktop'', JBool False), (''external_activity_detection'', JStr ''unknown'')]"

definition named :: "(string \<times> string) list \<Rightarrow> string \<Rightarrow> string \<Rightarrow> string" where
  "named table k other = (case map_of table k of None \<Rightarrow> other | Some v \<Rightarrow> v)"

definition backend_descriptor :: "ctl_env \<Rightarrow> string \<Rightarrow> dict rt" where
  "backend_descriptor env backend_id =
     (case find (\<lambda>(name, _). identifier_for env ''bkd'' name = backend_id) (c_backends env) of
        None \<Rightarrow> reject ''FORBIDDEN''
      | Some (_, info) \<Rightarrow>
          let kind = bi_kind info in
          bind_rt (time_now env) (\<lambda>observed.
          bind_rt (make_entity env ''BackendDescriptor'' ''bkd''
            [(''backend_type'', JStr (named [(''codex'', ''codex_app_server''), (''grok'', ''grok_build_acp'')] kind ''other'')),
             (''adapter_version'', JStr VERSION), (''native_version'', JStr ''unknown''),
             (''wire_protocol'', JStr (named [(''codex'', ''app-server''), (''grok'', ''ACP''),
                (''antigravity'', ''agy-stream-json'')] kind kind)),
             (''account_ref'', JStr (identifier_for env ''acc'' (c_account env))),
             (''environment_ref'', JStr (identifier_for env ''env'' (c_runtime env))),
             (''features'', JObj (backend_features kind)),
             (''verification'', JArr (map verification_row (builtin_capability_rows kind))),
             (''allowed_model_ids'', JArr []),
             (''health'', JStr (if bi_enabled info then ''UNKNOWN'' else ''UNAVAILABLE'')),
             (''observed_at'', JStr observed)]) (\<lambda>made.
          let result = dset (dset made ''id'' (JStr backend_id)) ''extensions''
                (JObj [(''asterun.simulated'', JBool (kind = ''fake'')),
                       (''asterun.native_verification'', JStr ''not_tested''),
                       (''asterun.submit_control'', JStr ''runner_mediated'')])
          in bind_rt (from_res (validate env (JObj result) ''BackendDescriptor'')) (\<lambda>_. ret result))))"

section \<open>Reading an entity\<close>

definition READABLE_KINDS :: "string list" where
  "READABLE_KINDS =
    [''Task'', ''Run'', ''Operation'', ''State'', ''Action'', ''Budget'', ''Reservation'', ''Artifact'',
     ''Assignment'', ''Session'', ''Evidence'', ''ExecutionContext'', ''Grant'']"

definition control_get :: "ctl_env \<Rightarrow> string \<Rightarrow> string \<Rightarrow> dict rt" where
  "control_get env kind i =
     (if kind = ''BackendDescriptor'' then
        bind_rt (from_res (enforce (c_authorize env (c_principal env) ''backend.inspect'' ''*''))) (\<lambda>_.
          backend_descriptor env i)
      else if kind \<notin> set READABLE_KINDS then reject ''INVALID_ARGUMENT''
      else
        bind_rt (get_entity kind i) (\<lambda>e.
          let task_id = (if kind = ''Task'' then JStr i else dget e ''task_id'') in
          bind_rt
            (if truthy task_id then
               (case task_id of
                  JStr t \<Rightarrow> bind_rt (control_task env t ''control.read'') (\<lambda>_. ret ())
                | _ \<Rightarrow> from_res (Inl TypeError))
             else if kind = ''Operation'' then
               bind_rt (from_res (getitem e ''principal_id'')) (\<lambda>who.
                 require (who = JStr (principal_id env)) ''FORBIDDEN'')
             else if kind = ''ExecutionContext'' then
               bind_rt (from_res (dict_item e ''extensions'')) (\<lambda>x.
                 require (dget x ''asterun.owner_id'' = JStr (principal_id env)) ''FORBIDDEN'')
             else ret ())
            (\<lambda>_. ret e)))"

definition control_events :: "ctl_env \<Rightarrow> string \<Rightarrow> json \<Rightarrow> json \<Rightarrow> dict rt" where
  "control_events env task_id after limit =
     bind_rt (control_task env task_id ''control.read'') (\<lambda>_.
     bind_rt (read_db (cs_events NAMESPACE task_id after limit)) (\<lambda>records.
     bind_rt (if records = [] then ret after else from_res (getitem (last records) ''sequence'')) (\<lambda>n.
       ret [(''events'', JArr (map JObj records)), (''next_sequence'', n)])))"

section \<open>Accepting a command\<close>

definition COMMANDS :: "string list" where
  "COMMANDS =
    [''task.create'', ''task.amend'', ''run.start'', ''run.retry'', ''run.pause'', ''run.resume'',
     ''run.cancel'', ''run.takeover'', ''run.return_control'', ''state.put'', ''artifact.register'',
     ''grant.revoke'']"

definition cas :: "dict option \<Rightarrow> dict \<Rightarrow> unit res" where
  "cas target command =
     bind_res (getitem command ''expected_revision'') (\<lambda>expected.
     bind_res (case target of
         None \<Rightarrow> Inr (JInt 0)
       | Some d \<Rightarrow> if d = [] then Inr (JInt 0) else getitem d ''revision'') (\<lambda>revision.
       if expected \<noteq> revision then raise ''REVISION_CONFLICT'' else Inr ()))"

definition cas_obj :: "nat \<Rightarrow> dict \<Rightarrow> unit rt" where
  "cas_obj r command = bind_rt (obj r) (\<lambda>d. from_res (cas (Some d) command))"

definition response :: "ctl_env \<Rightarrow> dict \<Rightarrow> json \<Rightarrow> dict res" where
  "response env operation request_id =
     bind_res (getitem operation ''id'') (\<lambda>i.
     bind_res (getitem operation ''status'') (\<lambda>status.
     bind_res (getitem operation ''result_ref'') (\<lambda>result.
       let d = [(''schema_version'', JStr ''runner-control/v1''), (''request_id'', request_id),
                (''operation_id'', i),
                (''status'', JStr (if status = JStr ''SUCCEEDED'' then ''SUCCEEDED'' else ''ACCEPTED'')),
                (''result_ref'', result)]
       in bind_res (validate env (JObj d) ''CommandResponse'') (\<lambda>_. Inr d))))"

definition VALIDATORS :: "(string \<times> string) list" where
  "VALIDATORS =
    [(''val_execution'', utf8_bytes [229, 144, 142, 231, 171, 175, 230, 137, 167, 232, 161, 140, 230, 173,
        163, 229, 184, 184, 231, 187, 147, 230, 157, 159, 239, 188, 140, 228, 187, 133, 233, 170, 140,
        232, 175, 129, 230, 137, 167, 232, 161, 140, 229, 177, 130]),
     (''val_output'', utf8_bytes [229, 144, 142, 231, 171, 175, 230, 137, 167, 232, 161, 140, 230, 173, 163,
        229, 184, 184, 231, 187, 147, 230, 157, 159, 228, 184, 148, 229, 133, 172, 229, 188, 128, 232,
        190, 147, 229, 135, 186, 233, 157, 158, 231, 169, 186])]"

definition criterion_ok :: "json \<Rightarrow> unit res" where
  "criterion_ok v =
     bind_res (dict_res v) (\<lambda>d.
     bind_res (getitem d ''validator_id'') (\<lambda>validator.
     if \<not> hashable validator then Inl TypeError
     else if validator \<notin> JStr ` fst ` set VALIDATORS then raise ''CAPABILITY_UNSUPPORTED'' else
     bind_res (getitem d ''input_artifact_ids'') (\<lambda>inputs.
     if truthy inputs then raise ''CAPABILITY_UNSUPPORTED'' else
     bind_res (getitem d ''subject_revision_sha256'') (\<lambda>subject.
       if truthy subject then raise ''CAPABILITY_UNSUPPORTED'' else Inr ()))))"

text \<open>\<^verbatim>\<open>any(item["required"] for item in acceptance)\<close> stops at the first required criterion.\<close>

fun some_required :: "json list \<Rightarrow> bool res" where
  "some_required [] = Inr False"
| "some_required (v # vs) =
     bind_res (dict_res v) (\<lambda>d. bind_res (getitem d ''required'') (\<lambda>b.
       if truthy b then Inr True else some_required vs))"

definition criteria :: "json \<Rightarrow> unit res" where
  "criteria acceptance =
     bind_res (list_res acceptance) (\<lambda>vs.
     bind_res (some_required vs) (\<lambda>found.
     if \<not> found then raise ''INVALID_ARGUMENT'' else
     bind_res (map_res (\<lambda>v. bind_res (dict_res v) (\<lambda>d. bind_res (getitem d ''id'') (\<lambda>i.
         if hashable i then Inr i else Inl TypeError))) vs) (\<lambda>ids.
     if \<not> distinct ids then raise ''INVALID_ARGUMENT''
     else bind_res (map_res criterion_ok vs) (\<lambda>_. Inr ()))))"

section \<open>Answers to a client\<close>

definition DRAFT_REVISION :: string where
  "DRAFT_REVISION = ''2026-09-10.draft1''"

definition SCHEMA_SHA256 :: string where
  "SCHEMA_SHA256 = ''462f0956ca7f7997cc472ffb73e619111c66f25318cb383b677213880f23fe76''"

definition protocol_discovery :: "ctl_env \<Rightarrow> dict res" where
  "protocol_discovery env =
     (let d = [(''schema_version'', JStr ''runner-control/v1''), (''draft_revision'', JStr DRAFT_REVISION),
         (''supported_commands'', JArr [JStr ''task.create'']),
         (''feature_profiles'', JArr [JStr ''asterun-local-v1'', JStr (''schema-sha256:'' @ SCHEMA_SHA256)]),
         (''max_command_bytes'', JInt (int MAX_COMMAND_BYTES)), (''event_retention_seconds'', JInt 86400),
         (''backend_ids'', JArr [])]
      in bind_res (validate env (JObj d) ''DiscoveryResponse'') (\<lambda>_. Inr d))"

definition control_discovery :: "ctl_env \<Rightarrow> dict res" where
  "control_discovery env =
     bind_res (protocol_discovery env) (\<lambda>base.
       let d = dset (dset base ''supported_commands'' (JArr (map JStr COMMANDS))) ''backend_ids''
             (JArr (map (\<lambda>(name, _). JStr (identifier_for env ''bkd'' name)) (c_backends env)))
       in bind_res (validate env (JObj d) ''DiscoveryResponse'') (\<lambda>_. Inr d))"

text \<open>The code a client sees, and when it may try again.\<close>

definition PUBLIC_NAMES :: "(string \<times> string) list" where
  "PUBLIC_NAMES =
    [(''INVALID_REQUEST'', ''INVALID_ARGUMENT''), (''NOT_FOUND'', ''FORBIDDEN''),
     (''SCOPE_DENIED'', ''FORBIDDEN''), (''CONFIG_REQUIRED'', ''SETUP_REQUIRED''),
     (''BINDING_MISMATCH'', ''FORBIDDEN''), (''REMOTE_STATE_UNKNOWN'', ''UNKNOWN_REMOTE''),
     (''LEASE_CONFLICT'', ''LEASE_LOST'')]"

definition KNOWN_CODES :: "string list" where
  "KNOWN_CODES =
    [''INVALID_ARGUMENT'', ''VERSION_UNSUPPORTED'', ''CAPABILITY_UNSUPPORTED'', ''BACKEND_UNAVAILABLE'',
     ''SETUP_REQUIRED'', ''AUTH_REQUIRED'', ''FORBIDDEN'', ''APPROVAL_REQUIRED'', ''REVISION_CONFLICT'',
     ''IDEMPOTENCY_CONFLICT'', ''LEASE_LOST'', ''BUDGET_EXHAUSTED'', ''BUDGET_UNKNOWN'', ''UNKNOWN_REMOTE'',
     ''CURSOR_EXPIRED'', ''EVENT_GAP'', ''EVIDENCE_STALE'', ''INTERNAL_ERROR'']"

definition RETRY_CLASSES :: "(string \<times> string) list" where
  "RETRY_CLASSES =
    [(''UNKNOWN_REMOTE'', ''after_reconcile''), (''LEASE_LOST'', ''after_reconcile''),
     (''AUTH_REQUIRED'', ''after_auth''), (''SETUP_REQUIRED'', ''after_auth''),
     (''REVISION_CONFLICT'', ''after_refresh''), (''CURSOR_EXPIRED'', ''after_refresh''),
     (''BACKEND_UNAVAILABLE'', ''after_backoff'')]"

definition public_code :: "string \<Rightarrow> string" where
  "public_code code =
     (let c = named PUBLIC_NAMES code code
      in if c \<in> set KNOWN_CODES then c else ''INTERNAL_ERROR'')"

definition api_error :: "ctl_env \<Rightarrow> string \<Rightarrow> string \<Rightarrow> json \<Rightarrow> dict rt" where
  "api_error env code message request_id =
     bind_rt (catch_asterun (bind_rt (from_res (validate env request_id ''Id'')) (\<lambda>_. ret request_id))
         (\<lambda>_ _. bind_rt (fresh_identifier env ''req'') (\<lambda>i. ret (JStr i)))) (\<lambda>i.
       let c = public_code code;
           d = [(''code'', JStr c), (''message'', JStr (take_chars 4000 message)), (''request_id'', i),
                (''retry_class'', JStr (named RETRY_CLASSES c ''never'')), (''retry_after_ms'', JNull),
                (''operation_id'', JNull)]
       in bind_rt (from_res (validate env (JObj d) ''ApiError'')) (\<lambda>_. ret d))"

end
