(* ===== verification/Control_Commands.thy ===== *)
theory Control_Commands
  imports Control_Runtime
begin

text \<open>
  The commands of \<^verbatim>\<open>ControlRuntime\<close> (\<^verbatim>\<open>src/asterun/control.py\<close>): one definition per handler,
  with the admission of an Action (\<^verbatim>\<open>_admit\<close>) that a started Run goes through, and
  \<^verbatim>\<open>command\<close>, which accepts a command once inside one transaction.
\<close>

section \<open>Artifacts, evidence, leases\<close>

definition put_blob :: "ctl_env \<Rightarrow> string \<Rightarrow> string rt" where
  "put_blob env content = on_db (cs_put_blob (c_sha env) NAMESPACE content)"

record artifact_args =
  aa_run :: json
  aa_assignment :: json
  aa_type :: json
  aa_media :: json
  aa_sensitivity :: json

definition artifact_defaults :: artifact_args where
  "artifact_defaults = \<lparr>aa_run = JNull, aa_assignment = JNull, aa_type = JStr ''other'',
     aa_media = JStr ''application/json'', aa_sensitivity = JStr ''internal''\<rparr>"

definition make_artifact :: "ctl_env \<Rightarrow> string \<Rightarrow> string \<Rightarrow> artifact_args \<Rightarrow> nat rt" where
  "make_artifact env task_id content x =
     bind_rt (put_blob env content) (\<lambda>sha.
     bind_rt (entity env ''Artifact'' ''art''
       [(''task_id'', JStr task_id), (''run_id'', aa_run x), (''assignment_id'', aa_assignment x),
        (''artifact_type'', aa_type x), (''media_type'', aa_media x),
        (''storage_ref'', JStr (''sqlite:sha256:'' @ sha)), (''sha256'', JStr sha),
        (''size_bytes'', JInt (int (length content))), (''producer_id'', JStr (principal_id env)),
        (''verification'', JStr ''unverified''), (''evidence_ids'', JArr []),
        (''sensitivity'', aa_sensitivity x), (''allowed_recipient_refs'', JArr [])]) (\<lambda>r.
     bind_rt (save env False r) (\<lambda>_.
     bind_rt (sitem r ''id'') (\<lambda>i.
     bind_rt (emit_event env task_id r ''artifact.registered''
       (no_args\<lparr>ea_run := aa_run x, ea_artifacts := [JStr i]\<rparr>)) (\<lambda>_. ret r)))))"

record evidence_args =
  ev_run :: json
  ev_action :: json
  ev_validator :: string
  ev_verdict :: string
  ev_artifacts :: "json list"

definition evidence_defaults :: evidence_args where
  "evidence_defaults = \<lparr>ev_run = JNull, ev_action = JNull, ev_validator = ''val_execution'',
     ev_verdict = ''PASS'', ev_artifacts = []\<rparr>"

definition make_evidence :: "ctl_env \<Rightarrow> string \<Rightarrow> string \<Rightarrow> string \<Rightarrow> evidence_args \<Rightarrow> nat rt" where
  "make_evidence env task_id subject_hash summary x =
     bind_rt (time_now env) (\<lambda>observed.
     bind_rt (entity env ''Evidence'' ''evd''
       [(''task_id'', JStr task_id), (''run_id'', ev_run x), (''action_id'', ev_action x),
        (''validator_id'', JStr (ev_validator x)), (''validator_revision'', JInt 1),
        (''subject_sha256'', JStr subject_hash), (''verdict'', JStr (ev_verdict x)),
        (''observed_at'', JStr observed), (''valid_until'', JNull), (''source_class'', JStr ''runner''),
        (''artifact_ids'', JArr (ev_artifacts x)), (''summary'', JStr summary)]) (\<lambda>r.
     bind_rt (save env False r) (\<lambda>_. ret r)))"

definition lease_json :: "lease_row \<Rightarrow> dict" where
  "lease_json l =
     [(''holder_id'', case ls_holder l of None \<Rightarrow> JNull | Some h \<Rightarrow> JStr h),
      (''expires_at'', JStr (ls_expires l)), (''fencing_token'', JInt (ls_token l))]"

definition store_clock :: "ctl_env \<Rightarrow> string rt" where
  "store_clock env = bind_rt (clock env) (\<lambda>t. ret (stamp env ''microseconds'' t))"

definition claim_lease :: "ctl_env \<Rightarrow> string \<Rightarrow> dict rt" where
  "claim_lease env run_id =
     bind_rt (lease_deadline env) (\<lambda>deadline.
     bind_rt (store_clock env) (\<lambda>now.
     bind_rt (on_db (cs_claim_lease (iso_of_store env) now NAMESPACE run_id (c_worker env) deadline None)) (\<lambda>l.
       ret (lease_json l))))"

definition check_lease :: "ctl_env \<Rightarrow> string \<Rightarrow> string \<Rightarrow> json \<Rightarrow> unit rt" where
  "check_lease env run_id holder token =
     bind_rt (store_clock env) (\<lambda>now.
     bind_rt (read_db (cs_check_lease (iso_of_store env) now NAMESPACE run_id holder token None)) (\<lambda>_. ret ()))"

definition workspace_root :: "ctl_env \<Rightarrow> string \<Rightarrow> string res" where
  "workspace_root env workspace =
     (case map_of (c_workspaces env) workspace of
        None \<Rightarrow> Inl (AsterunError ''UNKNOWN_PROJECT''
                  [(''workspace'', JStr workspace), (''known'', JArr (map JStr (sort (map fst (c_workspaces env)))))])
      | Some root \<Rightarrow> Inr root)"

section \<open>Admission of an Action\<close>

definition CONSTRAINTS :: string where
  "CONSTRAINTS = utf8_bytes [231, 186, 166, 230, 157, 159, 239, 188, 154]"

definition POLICY_CONFIRMED :: string where
  "POLICY_CONFIRMED = utf8_bytes
      [230, 156, 172, 230, 156, 186, 232, 191, 155, 231, 168, 139, 232, 186, 171, 228, 187, 189, 233,
       128, 154, 232, 191, 135, 229, 183, 178, 233, 133, 141, 231, 189, 174, 229, 183, 165, 228, 189,
       156, 229, 140, 186, 231, 173, 150, 231, 149, 165, 239, 188, 155, 228, 184, 141, 232, 161, 168,
       231, 164, 186, 229, 142, 159, 231, 148, 159, 229, 183, 165, 229, 133, 183, 233, 154, 148, 231,
       166, 187]"

definition string_list :: "json list \<Rightarrow> string list res" where
  "string_list vs = map_res (\<lambda>v. case v of JStr s \<Rightarrow> Inr s | _ \<Rightarrow> Inl TypeError) vs"

definition task_text :: "dict \<Rightarrow> string res" where
  "task_text task =
     bind_res (str_item task ''objective'') (\<lambda>objective.
     bind_res (bind_res (list_item task ''constraints'') string_list) (\<lambda>constraints.
       Inr (objective @ (if constraints = [] then []
             else CHR 0x0A # CONSTRAINTS @ CHR 0x0A # join [CHR 0x0A] constraints))))"

definition plain_payload :: "ctl_env \<Rightarrow> dict \<Rightarrow> dict \<Rightarrow> string \<Rightarrow> dict res" where
  "plain_payload env task run workspace =
     bind_res (dict_item run ''extensions'') (\<lambda>x.
     bind_res (getitem x ''asterun.backend'') (\<lambda>backend.
     bind_res (task_text task) (\<lambda>text.
     bind_res (str_item run ''id'') (\<lambda>i.
       Inr [(''workspace'', JStr workspace), (''text'', JStr text), (''backend'', backend),
            (''expected_revision'', JInt (c_revision env)), (''idempotency_key'', JStr (''rcp_'' @ i))]))))"

text \<open>\<^verbatim>\<open>profile_plan and payload_override is None\<close>: the text and the typed input of the plan.\<close>

definition planned_payload :: "dict \<Rightarrow> dict \<Rightarrow> dict res" where
  "planned_payload plan payload =
     bind_res (dict_item plan ''input'') (\<lambda>given.
     bind_res (getitem plan ''typed'') (\<lambda>typed.
     bind_res (if truthy typed then getitem plan ''capability'' else Inr JNull) (\<lambda>capability.
       let p = dset payload ''text'' (dget_or given ''text'' (JStr []))
       in Inr (if truthy typed then dupdate p [(''capability'', capability), (''input'', JObj given)] else p))))"

definition admission_plan :: "ctl_env \<Rightarrow> dict \<Rightarrow> json rt" where
  "admission_plan env plan =
     bind_rt (from_res (getitem plan ''admission_plan_id'')) (\<lambda>i. \<lambda>s.
       (case c_admission env of
          None \<Rightarrow> Inl TypeError
        | Some hooks \<Rightarrow> ad_plan hooks i (subject_id (c_principal env)) (rt_ext s), s))"

definition admit_payload ::
  "ctl_env \<Rightarrow> dict \<Rightarrow> dict \<Rightarrow> string \<Rightarrow> dict option \<Rightarrow> json \<Rightarrow> (dict \<times> json) rt" where
  "admit_payload env task run workspace override prepared =
     bind_rt (from_res (plain_payload env task run workspace)) (\<lambda>plain.
     bind_rt (from_res (dict_item run ''extensions'')) (\<lambda>x.
       case override of
         Some payload \<Rightarrow> ret (payload, prepared)
       | None \<Rightarrow>
           if \<not> truthy (dget x ''asterun.capability_plan'') then ret (plain, prepared)
           else
             bind_rt (from_res (dict_res (dget x ''asterun.capability_plan''))) (\<lambda>plan.
             bind_rt (from_res (planned_payload plan plain)) (\<lambda>payload.
             bind_rt (admission_plan env plan) (\<lambda>found. ret (payload, found))))))"

definition capability_id :: "ctl_env \<Rightarrow> dict \<Rightarrow> string res" where
  "capability_id env payload =
     (if dhas payload ''capability''
      then bind_res (str_item payload ''capability'') (\<lambda>c. Inr (identifier_for env ''cap'' c))
      else Inr ''cap_submit_turn'')"

definition first_scope :: "dict \<Rightarrow> json res" where
  "first_scope task =
     bind_res (list_item task ''resource_scopes'') (\<lambda>xs. case xs of [] \<Rightarrow> Inl IndexError | v # _ \<Rightarrow> Inr v)"

text \<open>\<^verbatim>\<open>action_hash\<close>: what the grant of an Action is bound to.\<close>

definition action_digest :: "ctl_env \<Rightarrow> string \<Rightarrow> json \<Rightarrow> dict \<Rightarrow> dict \<Rightarrow> string res" where
  "action_digest env capability parameters task run =
     bind_res (first_scope task) (\<lambda>target.
     bind_res (getitem run ''configuration_sha256'') (\<lambda>configuration.
     bind_res (getitem task ''contract_revision'') (\<lambda>contract.
       jdigest env (JObj [(''capability'', JStr capability), (''parameters'', parameters), (''target'', target),
         (''configuration'', configuration), (''contract_revision'', contract),
         (''principal_id'', JStr (principal_id env))]))))"

text \<open>The context and the assignment an Action runs in.\<close>

definition execution_context :: "ctl_env \<Rightarrow> json \<Rightarrow> string \<Rightarrow> nat rt" where
  "execution_context env scope root =
     bind_rt (from_res (bind_res (dict_res scope) (\<lambda>d. getitem d ''resource_id''))) (\<lambda>resource.
     bind_rt (entity env ''ExecutionContext'' ''ctx''
       [(''environment_ref'', JStr (identifier_for env ''env'' (c_runtime env))), (''resource_id'', resource),
        (''context_type'', JStr ''directory''), (''location_ref'', JStr root),
        (''isolation_profile_ref'', JNull), (''enforcement'', JStr ''advisory''),
        (''baseline_sha256'', JNull), (''lease'', JNull), (''cleanup_policy'', JStr ''retain'')]) (\<lambda>r.
     bind_rt (set_extension r ''asterun.owner_id'' (JStr (principal_id env))) (\<lambda>_.
     bind_rt (save env False r) (\<lambda>_. ret r))))"

definition make_assignment ::
  "ctl_env \<Rightarrow> string \<Rightarrow> string \<Rightarrow> string \<Rightarrow> string \<Rightarrow> json \<Rightarrow> json \<Rightarrow> json \<Rightarrow> nat rt" where
  "make_assignment env task_id run_id role backend context parameters acceptance =
     bind_rt (entity env ''Assignment'' ''asg''
       [(''task_id'', JStr task_id), (''run_id'', JStr run_id), (''role'', JStr role), (''attempt'', JInt 1),
        (''retry_of_assignment_id'', JNull), (''status'', JStr ''PENDING''), (''executor_mode'', JStr ''agent''),
        (''backend_instance_id'', JStr (identifier_for env ''bkd'' backend)), (''handler_id'', JNull),
        (''execution_context_id'', context), (''session_ids'', JArr []), (''depends_on'', JArr []),
        (''input_artifact_ids'', JArr [parameters]), (''acceptance'', acceptance),
        (''result_artifact_ids'', JArr []), (''evidence_ids'', JArr [])]) (\<lambda>r.
     bind_rt (save env False r) (\<lambda>_.
     bind_rt (emit_event env task_id r ''assignment.created'' (no_args\<lparr>ea_run := JStr run_id\<rparr>)) (\<lambda>_.
     bind_rt (move env r ''READY'') (\<lambda>_. ret r))))"

definition make_grant ::
  "ctl_env \<Rightarrow> string \<Rightarrow> string \<Rightarrow> string \<Rightarrow> json \<Rightarrow> string \<Rightarrow> json \<Rightarrow> string \<Rightarrow> json \<Rightarrow> nat rt" where
  "make_grant env task_id run_id capability scopes backend expires hash confirmation =
     bind_rt (entity env ''Grant'' ''grt''
       [(''subject_id'', JStr (principal_id env)), (''bot_instance_id'', JNull),
        (''template_manifest_sha256'', JNull), (''task_id'', JStr task_id),
        (''capability_ids'', JArr [JStr capability]), (''resource_scopes'', scopes),
        (''recipient_refs'', JArr [JStr (identifier_for env ''bkd'' backend)]), (''expires_at'', expires),
        (''max_uses'', JInt 1), (''used_count'', JInt 0), (''bound_action_sha256'', JStr hash),
        (''issued_by'', JStr (principal_id env)), (''status'', JStr ''ACTIVE''),
        (''confirmation_evidence_ids'', JArr [confirmation])]) (\<lambda>r.
     bind_rt (save env False r) (\<lambda>_.
     bind_rt (emit_event env task_id r ''grant.issued'' (no_args\<lparr>ea_run := JStr run_id\<rparr>)) (\<lambda>_. ret r)))"

definition turns :: "int \<Rightarrow> json" where
  "turns n = JArr [JObj [(''meter'', JStr ''turns''), (''amount'', JInt n), (''billing_pool_ref'', JNull)]]"

definition make_reservation :: "ctl_env \<Rightarrow> string \<Rightarrow> string \<Rightarrow> json \<Rightarrow> json \<Rightarrow> nat rt" where
  "make_reservation env task_id run_id budget action_id =
     bind_rt (make_entity env ''Reservation'' ''res''
       [(''task_id'', JStr task_id), (''budget_id'', budget), (''action_id'', action_id), (''status'', JStr ''HELD''),
        (''reserved'', turns 1), (''actual'', JNull), (''receipt_evidence_ids'', JArr [])]) (\<lambda>d.
     bind_rt (new_obj d) (\<lambda>r.
     bind_rt (on_db (cs_reserve d)) (\<lambda>_.
     bind_rt (emit_event env task_id r ''budget.reserved'' (no_args\<lparr>ea_run := JStr run_id\<rparr>)) (\<lambda>_. ret r))))"

definition make_action ::
  "ctl_env \<Rightarrow> string \<Rightarrow> string \<Rightarrow> string \<Rightarrow> json \<Rightarrow> json \<Rightarrow> string \<Rightarrow> json \<Rightarrow> json \<Rightarrow> string \<Rightarrow>
   string \<Rightarrow> json \<Rightarrow> json \<Rightarrow> json \<Rightarrow> json \<Rightarrow> nat rt" where
  "make_action env task_id run_id assignment_id operation_id target capability parameters_id key
     parameters_sha hash effect_class grant_id fencing role_ext =
     bind_rt (from_res (jdigest env (JObj [(''grant_id'', grant_id), (''action_sha256'', JStr hash)]))) (\<lambda>authorization.
     bind_rt (entity env ''Action'' ''act''
       [(''task_id'', JStr task_id), (''run_id'', JStr run_id), (''assignment_id'', JStr assignment_id),
        (''operation_id'', operation_id), (''capability_id'', JStr capability), (''target'', target),
        (''parameters_artifact_id'', parameters_id), (''parameters_sha256'', JStr parameters_sha),
        (''action_sha256'', JStr hash), (''idempotency_key'', key), (''effect_class'', effect_class),
        (''status'', JStr ''PLANNED''), (''attempt'', JInt 1), (''grant_ids'', JArr [grant_id]),
        (''policy_revision'', JInt (c_revision env)), (''authorization_digest'', JStr authorization),
        (''fencing_token'', fencing), (''dispatched_at'', JNull), (''receipt_evidence_ids'', JArr []),
        (''effect_control'', JStr ''runner_mediated'')]) (\<lambda>r.
     bind_rt (if role_ext = JNull then ret () else set_extension r ''asterun.quality_step'' role_ext) (\<lambda>_.
     bind_rt (save env False r) (\<lambda>_.
     bind_rt (emit_event env task_id r ''action.planned'' (no_args\<lparr>ea_run := JStr run_id\<rparr>)) (\<lambda>_. ret r)))))"

definition run_lease :: "ctl_env \<Rightarrow> string \<Rightarrow> string \<Rightarrow> nat \<Rightarrow> dict rt" where
  "run_lease env role run_id r =
     (if role \<noteq> ''execution'' then bind_rt (obj r) (\<lambda>d. from_res (dict_item d ''lease''))
      else claim_lease env run_id)"

definition effect_class_of :: "dict \<Rightarrow> string \<Rightarrow> json res" where
  "effect_class_of run role =
     bind_res (dict_item run ''extensions'') (\<lambda>x.
       if truthy (dget x ''asterun.capability_plan'') \<and> role = ''execution''
       then bind_res (dict_res (dget x ''asterun.capability_plan'')) (\<lambda>plan. getitem plan ''effect_class'')
       else Inr (JStr ''non_idempotent_write''))"

text \<open>With plugin admission configured, it binds the Action to a plan of its own.\<close>

definition admit_plugin :: "ctl_env \<Rightarrow> nat \<Rightarrow> dict \<Rightarrow> json \<Rightarrow> string \<Rightarrow> unit rt" where
  "admit_plugin env action payload prepared role =
     (case c_admission env of
        None \<Rightarrow> ret ()
      | Some hooks \<Rightarrow>
          bind_rt (obj action) (\<lambda>d.
          bind_rt (on_ext (ad_admit hooks d payload prepared
              (if role = ''execution'' then ''implementation'' else role))) (\<lambda>binding.
          bind_rt (from_res (getitem binding ''plan_id'')) (\<lambda>plan.
          bind_rt (set_extension action ''asterun.plugin_plan_id'' plan) (\<lambda>_.
            save env True action)))))"

definition admit_action ::
  "ctl_env \<Rightarrow> nat \<Rightarrow> nat \<Rightarrow> dict \<Rightarrow> dict \<Rightarrow> dict option \<Rightarrow> string \<Rightarrow> json \<Rightarrow> nat rt" where
  "admit_action env task run operation command override role prepared_plan =
     bind_rt (obj task) (\<lambda>td.
     bind_rt (obj run) (\<lambda>rd.
     bind_rt (from_res (str_item td ''id'')) (\<lambda>task_id.
     bind_rt (from_res (str_item rd ''id'')) (\<lambda>run_id.
     bind_rt (from_res (scope_of env td)) (\<lambda>workspace.
     bind_rt (admit_payload env td rd workspace override prepared_plan) (\<lambda>(payload, prepared).
     bind_rt (from_res (str_item payload ''backend'')) (\<lambda>backend.
     bind_rt (from_res (capability_id env payload)) (\<lambda>capability.
     bind_rt (make_artifact env task_id (c_dumps env (JObj payload))
       (artifact_defaults\<lparr>aa_run := JStr run_id, aa_type := JStr ''input''\<rparr>)) (\<lambda>parameters.
     bind_rt (item parameters ''id'') (\<lambda>parameters_id.
     bind_rt (from_res (first_scope td)) (\<lambda>scope.
     bind_rt (from_res (workspace_root env workspace)) (\<lambda>root.
     bind_rt (execution_context env scope root) (\<lambda>context.
     bind_rt (item context ''id'') (\<lambda>context_id.
     bind_rt (from_res (getitem td ''acceptance'')) (\<lambda>acceptance.
     bind_rt (make_assignment env task_id run_id role backend context_id parameters_id acceptance) (\<lambda>assignment.
     bind_rt (sitem assignment ''id'') (\<lambda>assignment_id.
     bind_rt (append_item run ''assignment_ids'' (JStr assignment_id)) (\<lambda>_.
     bind_rt (from_res (action_digest env capability (JObj payload) td rd)) (\<lambda>hash.
     bind_rt (make_evidence env task_id hash POLICY_CONFIRMED
       (evidence_defaults\<lparr>ev_run := JStr run_id, ev_validator := ''val_policy''\<rparr>)) (\<lambda>confirmation.
     bind_rt (item confirmation ''id'') (\<lambda>confirmation_id.
     bind_rt (from_res (getitem command ''expires_at'')) (\<lambda>expires.
     bind_rt (from_res (getitem td ''resource_scopes'')) (\<lambda>scopes.
     bind_rt (make_grant env task_id run_id capability scopes backend expires hash confirmation_id) (\<lambda>grant.
     bind_rt (item grant ''id'') (\<lambda>grant_id.
     bind_rt (run_lease env role run_id run) (\<lambda>lease.
     bind_rt (set_item run ''lease'' (JObj lease)) (\<lambda>_.
     bind_rt (save env True run) (\<lambda>_.
     bind_rt (emit_event env task_id run ''run.lease_acquired'' (no_args\<lparr>ea_run := JStr run_id\<rparr>)) (\<lambda>_.
     bind_rt (from_res (getitem operation ''id'')) (\<lambda>operation_id.
     bind_rt (from_res (jdigest env (JObj payload))) (\<lambda>parameters_sha.
     bind_rt (from_res (getitem payload ''idempotency_key'')) (\<lambda>key.
     bind_rt (from_res (effect_class_of rd role)) (\<lambda>effect_class.
     bind_rt (from_res (getitem lease ''fencing_token'')) (\<lambda>token.
     bind_rt (make_action env task_id run_id assignment_id operation_id scope capability parameters_id key
       parameters_sha hash effect_class grant_id token
       (if role \<noteq> ''execution'' then JStr role else JNull)) (\<lambda>act.
     bind_rt (sitem act ''id'') (\<lambda>action_id.
     bind_rt (from_res (getitem td ''budget_id'')) (\<lambda>budget.
     bind_rt (make_reservation env task_id run_id budget (JStr action_id)) (\<lambda>reservation.
     bind_rt (item reservation ''id'') (\<lambda>reservation_id.
     bind_rt (set_extension act ''asterun.reservation_id'' reservation_id) (\<lambda>_.
     bind_rt (move env act ''ADMITTED'') (\<lambda>_.
     bind_rt (emit_event env task_id act ''action.admitted'' (no_args\<lparr>ea_run := JStr run_id\<rparr>)) (\<lambda>_.
     bind_rt (admit_plugin env act payload prepared role) (\<lambda>_.
     bind_rt (on_db (cs_enqueue action_id NAMESPACE payload)) (\<lambda>_.
       ret act))))))))))))))))))))))))))))))))))))))))))))"

section \<open>Tasks\<close>

definition limits_supported :: "json \<Rightarrow> unit res" where
  "limits_supported v =
     bind_res (list_res v) (\<lambda>limits.
       case limits of
         [l] \<Rightarrow>
           bind_res (dict_res l) (\<lambda>d.
           bind_res (getitem d ''meter'') (\<lambda>meter.
           if meter \<noteq> JStr ''turns'' then raise ''CAPABILITY_UNSUPPORTED'' else
           bind_res (getitem d ''enforcement'') (\<lambda>enforcement.
           if enforcement \<noteq> JStr ''hard'' then raise ''CAPABILITY_UNSUPPORTED'' else
           bind_res (getitem d ''billing_pool_ref'') (\<lambda>pool.
           if pool \<noteq> JNull then raise ''CAPABILITY_UNSUPPORTED'' else Inr ()))))
       | _ \<Rightarrow> raise ''CAPABILITY_UNSUPPORTED'')"

definition task_create :: "ctl_env \<Rightarrow> dict \<Rightarrow> dict \<Rightarrow> nat rt" where
  "task_create env command operation =
     bind_rt (from_res (cas None command)) (\<lambda>_.
     bind_rt (from_res (dict_item command ''params'')) (\<lambda>p.
     bind_rt (from_res (getitem p ''bot_instance_id'')) (\<lambda>bot.
     if bot \<noteq> JNull then reject ''CAPABILITY_UNSUPPORTED'' else
     bind_rt (from_res (getitem p ''acceptance'')) (\<lambda>acceptance.
     bind_rt (from_res (criteria acceptance)) (\<lambda>_.
     bind_rt (from_res (getitem p ''budget_limits'')) (\<lambda>limits.
     bind_rt (from_res (limits_supported limits)) (\<lambda>_.
     bind_rt (from_res (getitem p ''title'')) (\<lambda>title.
     bind_rt (from_res (getitem p ''objective'')) (\<lambda>objective.
     bind_rt (from_res (getitem p ''resource_scopes'')) (\<lambda>scopes.
     bind_rt (from_res (getitem p ''constraints'')) (\<lambda>constraints.
     bind_rt (fresh_identifier env ''bud'') (\<lambda>budget_id.
     bind_rt (entity env ''Task'' ''tsk''
       [(''owner_id'', JStr (principal_id env)), (''bot_instance_id'', JNull), (''title'', title),
        (''objective'', objective), (''status'', JStr ''DRAFT''), (''contract_revision'', JInt 1),
        (''resource_scopes'', scopes), (''constraints'', constraints), (''acceptance'', acceptance),
        (''budget_id'', JStr budget_id), (''active_run_id'', JNull), (''result_artifact_ids'', JArr [])]) (\<lambda>task.
     bind_rt (set_extension task ''asterun.configuration_sha256'' (JStr (c_config_sha env))) (\<lambda>_.
     bind_rt (sitem task ''id'') (\<lambda>task_id.
     bind_rt (entity env ''Budget'' ''bud''
       [(''task_id'', JStr task_id), (''limits'', limits),
        (''unknown_usage_policy'', JStr ''admit_bounded_turns''), (''paid_overage_allowed'', JBool False),
        (''observations'', JArr [])]) (\<lambda>budget.
     bind_rt (set_item budget ''id'' (JStr budget_id)) (\<lambda>_.
     bind_rt (save env False budget) (\<lambda>_.
     bind_rt (save env False task) (\<lambda>_.
     bind_rt (from_res (getitem operation ''id'')) (\<lambda>operation_id.
     bind_rt (emit_event env task_id task ''task.created'' (no_args\<lparr>ea_operation := operation_id\<rparr>)) (\<lambda>_.
     bind_rt (transition env task ''READY'' JNull operation_id) (\<lambda>_. ret task))))))))))))))))))))))"

definition task_amend :: "ctl_env \<Rightarrow> dict \<Rightarrow> dict \<Rightarrow> nat rt" where
  "task_amend env command operation =
     bind_rt (from_res (dict_item command ''params'')) (\<lambda>p.
     bind_rt (from_res (str_item p ''task_id'')) (\<lambda>i.
     bind_rt (control_task env i ''control.read'') (\<lambda>task.
     bind_rt (cas_obj task command) (\<lambda>_.
     bind_rt (item task ''status'') (\<lambda>status.
     if status \<noteq> JStr ''READY'' then reject ''CAPABILITY_UNSUPPORTED'' else
     bind_rt (from_res (getitem p ''acceptance'')) (\<lambda>acceptance.
     bind_rt (from_res (criteria acceptance)) (\<lambda>_.
     bind_rt (from_res (getitem p ''objective'')) (\<lambda>objective.
     bind_rt (from_res (getitem p ''constraints'')) (\<lambda>constraints.
     bind_rt (modify task (\<lambda>d. dupdate d [(''objective'', objective), (''constraints'', constraints),
       (''acceptance'', acceptance)])) (\<lambda>_.
     bind_rt (obj task) (\<lambda>d.
     bind_rt (from_res (int_item d ''contract_revision'')) (\<lambda>n.
     bind_rt (set_item task ''contract_revision'' (JInt (n + 1))) (\<lambda>_.
     bind_rt (save env True task) (\<lambda>_.
     bind_rt (sitem task ''id'') (\<lambda>task_id.
     bind_rt (from_res (getitem operation ''id'')) (\<lambda>operation_id.
     bind_rt (emit_event env task_id task ''task.contract_updated'' (no_args\<lparr>ea_operation := operation_id\<rparr>))
       (\<lambda>_. ret task)))))))))))))))))"

section \<open>Starting and retrying a Run\<close>

definition pick_backend :: "ctl_env \<Rightarrow> string option \<Rightarrow> (string \<times> backend_info) res" where
  "pick_backend env name =
     bind_res (c_pick_backend env name) (\<lambda>chosen.
       case map_of (c_backends env) chosen of
         None \<Rightarrow> raise ''CONFIG_REQUIRED'' | Some info \<Rightarrow> Inr (chosen, info))"

definition start_allowed :: "ctl_env \<Rightarrow> nat \<Rightarrow> dict \<Rightarrow> dict \<Rightarrow> bool \<Rightarrow> dict option \<Rightarrow> unit rt" where
  "start_allowed env task p command retry profile_plan =
     bind_rt (cas_obj task command) (\<lambda>_.
     bind_rt (obj task) (\<lambda>td.
     bind_rt (from_res (getitem td ''status'')) (\<lambda>status.
     if status \<noteq> JStr (if retry then ''FAILED'' else ''READY'') then reject ''INVALID_ARGUMENT'' else
     bind_rt (from_res (getitem p ''workflow_id'')) (\<lambda>workflow.
     bind_rt (from_res (getitem p ''workflow_revision'')) (\<lambda>revision.
     if (workflow \<noteq> JStr ''wf_execute'' \<or> revision \<noteq> JInt 1) \<and> profile_plan = None
     then reject ''CAPABILITY_UNSUPPORTED'' else
     bind_rt (require_applied_config env) (\<lambda>_.
     bind_rt (from_res (getitem p ''configuration_sha256'')) (\<lambda>sha.
     if sha \<noteq> JStr (c_config_sha env) then reject ''REVISION_CONFLICT'' else
     bind_rt (from_res (bind_res (dict_item td ''extensions'') (\<lambda>x. getitem x ''asterun.configuration_sha256''))) (\<lambda>made.
     if made \<noteq> JStr (c_config_sha env) then reject ''REVISION_CONFLICT'' else ret ()))))))))"

text \<open>The failed Run a retry refers to: the next attempt and the reference to it.\<close>

definition retried_run :: "dict \<Rightarrow> dict \<Rightarrow> bool \<Rightarrow> (int \<times> json) rt" where
  "retried_run td p retry =
     (if \<not> retry then ret (1, JNull)
      else
        bind_rt (from_res (str_item p ''previous_run_id'')) (\<lambda>i.
        bind_rt (get_entity ''Run'' i) (\<lambda>previous.
        bind_rt (from_res (getitem previous ''task_id'')) (\<lambda>owner.
        bind_rt (from_res (getitem previous ''status'')) (\<lambda>status.
        bind_rt (from_res (getitem previous ''id'')) (\<lambda>previous_id.
        bind_rt (from_res (getitem td ''id'')) (\<lambda>task_id.
        bind_rt (from_res (getitem td ''active_run_id'')) (\<lambda>active.
        if owner \<noteq> task_id \<or> status \<noteq> JStr ''FAILED'' \<or> previous_id \<noteq> active
        then reject ''INVALID_ARGUMENT'' else
        bind_rt (from_res (int_item previous ''attempt'')) (\<lambda>n. ret (n + 1, previous_id))))))))))"

definition make_run ::
  "ctl_env \<Rightarrow> dict \<Rightarrow> dict \<Rightarrow> dict \<Rightarrow> string \<Rightarrow> int \<Rightarrow> json \<Rightarrow> dict option \<Rightarrow> nat rt" where
  "make_run env td p command backend attempt previous profile_plan =
     bind_rt (from_res (getitem td ''id'')) (\<lambda>task_id.
     bind_rt (from_res (getitem p ''workflow_id'')) (\<lambda>workflow.
     bind_rt (from_res (getitem p ''workflow_revision'')) (\<lambda>revision.
     bind_rt (from_res (getitem td ''contract_revision'')) (\<lambda>contract.
     bind_rt (from_res (getitem p ''configuration_sha256'')) (\<lambda>sha.
     bind_rt (from_res (getitem td ''budget_id'')) (\<lambda>budget.
     bind_rt (entity env ''Run'' ''run''
       [(''task_id'', task_id), (''attempt'', JInt attempt), (''retry_of_run_id'', previous),
        (''status'', JStr ''QUEUED''), (''desired_state'', JStr ''RUNNING''), (''blocked_reason'', JNull),
        (''control_owner'', JObj [(''kind'', JStr ''runner''), (''principal_id'', JStr (principal_id env)),
           (''epoch'', JInt 1)]),
        (''lease'', JNull), (''workflow_id'', workflow), (''workflow_revision'', revision),
        (''contract_revision'', contract), (''configuration_sha256'', sha), (''budget_id'', budget),
        (''checkpoint_capsule_id'', JNull), (''assignment_ids'', JArr []),
        (''completion_evidence_ids'', JArr [])]) (\<lambda>run.
     bind_rt (from_res (getitem command ''expires_at'')) (\<lambda>expires.
     bind_rt (set_item run ''extensions''
        (JObj ([(''asterun.backend'', JStr backend), (''asterun.expires_at'', expires)]
          @ (case profile_plan of None \<Rightarrow> [] | Some plan \<Rightarrow> [(''asterun.capability_plan'', JObj plan)])))) (\<lambda>_.
     bind_rt (save env False run) (\<lambda>_. ret run))))))))))"

definition start_run :: "ctl_env \<Rightarrow> dict \<Rightarrow> dict \<Rightarrow> bool \<Rightarrow> dict option \<Rightarrow> nat rt" where
  "start_run env command operation retry profile_plan =
     bind_rt (from_res (dict_item command ''params'')) (\<lambda>p.
     bind_rt (from_res (str_item p ''task_id'')) (\<lambda>i.
     bind_rt (from_res (str_item command ''method'')) (\<lambda>meth.
     bind_rt (control_task env i meth) (\<lambda>task.
     bind_rt (start_allowed env task p command retry profile_plan) (\<lambda>_.
     bind_rt (from_res (case profile_plan of
         None \<Rightarrow> pick_backend env None
       | Some plan \<Rightarrow> bind_res (str_item plan ''backend'') (\<lambda>b. pick_backend env (Some b)))) (\<lambda>(backend, info).
     if \<not> bi_can_dispatch info then reject ''SETUP_REQUIRED'' else
     bind_rt (obj task) (\<lambda>td.
     bind_rt (retried_run td p retry) (\<lambda>(attempt, previous).
     bind_rt (make_run env td p command backend attempt previous profile_plan) (\<lambda>run.
     bind_rt (sitem run ''id'') (\<lambda>run_id.
     bind_rt (from_res (getitem operation ''id'')) (\<lambda>operation_id.
     bind_rt (sitem task ''id'') (\<lambda>task_id.
     bind_rt (emit_event env task_id run ''run.created''
       (no_args\<lparr>ea_run := JStr run_id, ea_operation := operation_id\<rparr>)) (\<lambda>_.
     bind_rt (set_item task ''active_run_id'' (JStr run_id)) (\<lambda>_.
     bind_rt (transition env task ''ACTIVE'' JNull operation_id) (\<lambda>_.
     bind_rt (admit_action env task run operation command None ''execution'' JNull) (\<lambda>_.
       fetch ''Run'' run_id))))))))))))))))"

section \<open>Controlling a Run\<close>

definition CONTROL_TERMINAL :: "string list" where
  "CONTROL_TERMINAL = [''SUCCEEDED'', ''FAILED'', ''CANCELED'']"

definition controlled_run :: "dict \<Rightarrow> nat rt" where
  "controlled_run command =
     bind_rt (from_res (dict_item command ''params'')) (\<lambda>p.
     bind_rt (from_res (str_item p ''run_id'')) (\<lambda>i.
     bind_rt (fetch ''Run'' i) (\<lambda>run.
     bind_rt (cas_obj run command) (\<lambda>_.
     bind_rt (sitem run ''status'') (\<lambda>status.
       if status \<in> set CONTROL_TERMINAL then reject ''INVALID_ARGUMENT'' else ret run)))))"

definition run_pause :: "ctl_env \<Rightarrow> dict \<Rightarrow> dict \<Rightarrow> nat rt" where
  "run_pause env command operation =
     bind_rt (controlled_run command) (\<lambda>run.
     bind_rt (item run ''desired_state'') (\<lambda>desired.
     if desired = JStr ''CANCELED'' then reject ''INVALID_ARGUMENT'' else
     bind_rt (set_item run ''desired_state'' (JStr ''PAUSED'')) (\<lambda>_.
     bind_rt (save env True run) (\<lambda>_.
     bind_rt (sitem run ''status'') (\<lambda>status.
     bind_rt (if status \<in> {''PAUSING'', ''PAUSED''} then ret ()
              else bind_rt (from_res (getitem operation ''id'')) (\<lambda>o_id.
                     transition env run ''PAUSING'' JNull o_id)) (\<lambda>_.
       ret run))))))"

definition run_cancel :: "ctl_env \<Rightarrow> dict \<Rightarrow> dict \<Rightarrow> nat rt" where
  "run_cancel env command operation =
     bind_rt (controlled_run command) (\<lambda>run.
     bind_rt (set_item run ''desired_state'' (JStr ''CANCELED'')) (\<lambda>_.
     bind_rt (save env True run) (\<lambda>_.
     bind_rt (from_res (getitem operation ''id'')) (\<lambda>operation_id.
     bind_rt (transition env run ''CANCELING'' JNull operation_id) (\<lambda>_. ret run)))))"

definition resume_control :: "ctl_env \<Rightarrow> nat \<Rightarrow> dict \<Rightarrow> unit rt" where
  "resume_control env run operation =
     bind_rt (item run ''configuration_sha256'') (\<lambda>sha.
     if sha \<noteq> JStr (c_config_sha env) then reject ''REVISION_CONFLICT'' else
     bind_rt (set_item run ''desired_state'' (JStr ''RUNNING'')) (\<lambda>_.
     bind_rt (save env True run) (\<lambda>_.
     bind_rt (from_res (getitem operation ''id'')) (\<lambda>operation_id.
       transition env run ''RECONCILING'' JNull operation_id))))"

definition control_owner :: "nat \<Rightarrow> dict rt" where
  "control_owner run = bind_rt (obj run) (\<lambda>d. from_res (dict_item d ''control_owner''))"

definition run_resume :: "ctl_env \<Rightarrow> dict \<Rightarrow> dict \<Rightarrow> nat rt" where
  "run_resume env command operation =
     bind_rt (from_res (dict_item command ''params'')) (\<lambda>p.
     if dget p ''capsule_id'' \<noteq> JNull then reject ''CAPABILITY_UNSUPPORTED'' else
     bind_rt (controlled_run command) (\<lambda>run.
     bind_rt (item run ''desired_state'') (\<lambda>desired.
     bind_rt (item run ''status'') (\<lambda>status.
     bind_rt (control_owner run) (\<lambda>owner.
     bind_rt (from_res (getitem owner ''kind'')) (\<lambda>kind.
     if desired \<noteq> JStr ''PAUSED'' \<or> status \<noteq> JStr ''PAUSED'' \<or> kind \<noteq> JStr ''runner''
     then reject ''INVALID_ARGUMENT'' else
     bind_rt (resume_control env run operation) (\<lambda>_. ret run)))))))"

definition run_takeover :: "ctl_env \<Rightarrow> dict \<Rightarrow> dict \<Rightarrow> nat rt" where
  "run_takeover env command operation =
     bind_rt (from_res (dict_item command ''params'')) (\<lambda>p.
     bind_rt (from_res (getitem p ''requested_owner'')) (\<lambda>who.
     if who \<noteq> JStr ''human'' then reject ''CAPABILITY_UNSUPPORTED'' else
     bind_rt (run_pause env command operation) (\<lambda>run.
     bind_rt (set_extension run ''asterun.takeover_requested'' (JStr ''human'')) (\<lambda>_.
     bind_rt (save env True run) (\<lambda>_. ret run)))))"

text \<open>The owner of a Run, one epoch later.\<close>

definition give_to :: "ctl_env \<Rightarrow> string \<Rightarrow> nat \<Rightarrow> unit rt" where
  "give_to env kind run =
     bind_rt (control_owner run) (\<lambda>owner.
     bind_rt (from_res (int_item owner ''epoch'')) (\<lambda>n.
       set_item run ''control_owner'' (JObj [(''kind'', JStr kind),
         (''principal_id'', JStr (principal_id env)), (''epoch'', JInt (n + 1))])))"

definition drop_extension :: "nat \<Rightarrow> string \<Rightarrow> unit rt" where
  "drop_extension r k =
     bind_rt (obj r) (\<lambda>d.
     bind_rt (from_res (dict_item d ''extensions'')) (\<lambda>x.
       set_item r ''extensions'' (JObj (dpop x k))))"

definition run_return_control :: "ctl_env \<Rightarrow> dict \<Rightarrow> dict \<Rightarrow> nat rt" where
  "run_return_control env command operation =
     bind_rt (controlled_run command) (\<lambda>run.
     bind_rt (control_owner run) (\<lambda>owner.
     bind_rt (from_res (getitem owner ''kind'')) (\<lambda>kind.
     bind_rt (item run ''status'') (\<lambda>status.
     if kind \<noteq> JStr ''human'' \<or> status \<noteq> JStr ''PAUSED'' then reject ''INVALID_ARGUMENT'' else
     bind_rt (give_to env ''runner'' run) (\<lambda>_.
     bind_rt (drop_extension run ''asterun.takeover_requested'') (\<lambda>_.
     bind_rt (resume_control env run operation) (\<lambda>_.
     bind_rt (sitem run ''task_id'') (\<lambda>task_id.
     bind_rt (item run ''id'') (\<lambda>run_id.
     bind_rt (from_res (getitem operation ''id'')) (\<lambda>operation_id.
     bind_rt (emit_event env task_id run ''ownership.changed''
       (no_args\<lparr>ea_run := run_id, ea_operation := operation_id\<rparr>)) (\<lambda>_. ret run)))))))))))"

section \<open>States, grants and uploads\<close>

definition or_missing :: "'a rt \<Rightarrow> 'a option rt" where
  "or_missing m = catch_asterun (bind_rt m (\<lambda>x. ret (Some x)))
     (\<lambda>code e. if code \<noteq> ''NOT_FOUND'' then from_res (Inl e) else ret None)"

fun evidence_belongs :: "string \<Rightarrow> string list \<Rightarrow> unit rt" where
  "evidence_belongs task_id [] = ret ()"
| "evidence_belongs task_id (i # is) =
     bind_rt (get_entity ''Evidence'' i) (\<lambda>evidence.
     bind_rt (from_res (getitem evidence ''task_id'')) (\<lambda>t.
       if t \<noteq> JStr task_id then reject ''FORBIDDEN'' else evidence_belongs task_id is))"

definition state_put :: "ctl_env \<Rightarrow> dict \<Rightarrow> dict \<Rightarrow> nat rt" where
  "state_put env command operation =
     bind_rt (from_res (dict_item command ''params'')) (\<lambda>p.
     bind_rt (from_res (str_item p ''task_id'')) (\<lambda>task_id.
     bind_rt (from_res (bind_res (list_item p ''evidence_ids'') string_list)) (\<lambda>evidence.
     bind_rt (evidence_belongs task_id evidence) (\<lambda>_.
     bind_rt (from_res (str_item p ''key'')) (\<lambda>key.
     let state_id = identifier_for env ''stt'' (task_id @ '':'' @ key) in
     bind_rt (or_missing (get_entity ''State'' state_id)) (\<lambda>state.
     bind_rt (from_res (cas state command)) (\<lambda>_.
     bind_rt (case state of
         None \<Rightarrow> ret ()
       | Some d \<Rightarrow> bind_rt (from_res (getitem d ''owner_id'')) (\<lambda>who.
           require (who = JStr (principal_id env)) ''FORBIDDEN'')) (\<lambda>_.
     bind_rt (from_res (getitem p ''value'')) (\<lambda>v.
     bind_rt (from_res (getitem p ''assertion_class'')) (\<lambda>cls.
     bind_rt (from_res (jdigest env JNull)) (\<lambda>null_sha.
     bind_rt (case state of
         Some d \<Rightarrow> new_obj d
       | None \<Rightarrow> entity env ''State'' ''stt''
           [(''task_id'', JStr task_id), (''key'', JStr key), (''owner_id'', JStr (principal_id env)),
            (''value'', JNull), (''value_sha256'', JStr null_sha), (''assertion_class'', cls),
            (''evidence_ids'', JArr []), (''valid_until'', JNull)]) (\<lambda>new.
     bind_rt (from_res (jdigest env v)) (\<lambda>sha.
     bind_rt (modify new (\<lambda>d. dupdate d [(''id'', JStr state_id), (''value'', v), (''value_sha256'', JStr sha),
        (''assertion_class'', cls), (''evidence_ids'', JArr (map JStr evidence))])) (\<lambda>_.
     bind_rt (save env (state \<noteq> None) new) (\<lambda>_.
     bind_rt (item new ''revision'') (\<lambda>revision.
     bind_rt (from_res (getitem operation ''id'')) (\<lambda>operation_id.
     bind_rt (emit_event env task_id new ''state.updated''
       (no_args\<lparr>ea_operation := operation_id, ea_details := [(''asterun.revision'', revision)]\<rparr>)) (\<lambda>_.
       ret new))))))))))))))))))"

definition grant_revoke :: "ctl_env \<Rightarrow> dict \<Rightarrow> dict \<Rightarrow> nat rt" where
  "grant_revoke env command operation =
     bind_rt (from_res (dict_item command ''params'')) (\<lambda>p.
     bind_rt (from_res (str_item p ''grant_id'')) (\<lambda>i.
     bind_rt (fetch ''Grant'' i) (\<lambda>grant.
     bind_rt (cas_obj grant command) (\<lambda>_.
     bind_rt (set_item grant ''status'' (JStr ''REVOKED'')) (\<lambda>_.
     bind_rt (save env True grant) (\<lambda>_.
     bind_rt (sitem grant ''task_id'') (\<lambda>task_id.
     bind_rt (from_res (getitem operation ''id'')) (\<lambda>operation_id.
     bind_rt (emit_event env task_id grant ''grant.revoked'' (no_args\<lparr>ea_operation := operation_id\<rparr>)) (\<lambda>_.
       ret grant)))))))))"

definition upload :: "ctl_env \<Rightarrow> string \<Rightarrow> string \<Rightarrow> dict rt" where
  "upload env task_id content =
     bind_rt (control_task env task_id ''artifact.upload'') (\<lambda>_.
     if MAX_COMMAND_BYTES div 2 < length content then reject ''INVALID_ARGUMENT'' else
     atomic
       (bind_rt (put_blob env content) (\<lambda>sha.
        bind_rt (fresh_identifier env ''upl'') (\<lambda>i.
        bind_rt (on_db (cs_put [(''kind'', JStr ''Upload''), (''id'', JStr i),
           (''namespace_id'', JStr NAMESPACE), (''task_id'', JStr task_id),
           (''owner_id'', JStr (principal_id env)), (''sha256'', JStr sha),
           (''size_bytes'', JInt (int (length content)))])) (\<lambda>_.
          ret [(''id'', JStr i), (''sha256'', JStr sha), (''size_bytes'', JInt (int (length content)))])))))"

definition upload_matches :: "ctl_env \<Rightarrow> dict \<Rightarrow> dict \<Rightarrow> unit res" where
  "upload_matches env up p =
     bind_res (getitem up ''task_id'') (\<lambda>t.
     bind_res (getitem p ''task_id'') (\<lambda>task_id.
     bind_res (getitem up ''owner_id'') (\<lambda>who.
     if t \<noteq> task_id \<or> who \<noteq> JStr (principal_id env) then raise ''FORBIDDEN'' else
     bind_res (getitem up ''sha256'') (\<lambda>a.
     bind_res (getitem p ''sha256'') (\<lambda>b.
     bind_res (getitem up ''size_bytes'') (\<lambda>m.
     bind_res (getitem p ''size_bytes'') (\<lambda>n.
       if a \<noteq> b \<or> m \<noteq> n then raise ''INVALID_ARGUMENT'' else Inr ())))))))"

definition bound_to :: "string \<Rightarrow> dict \<Rightarrow> string list \<Rightarrow> string \<Rightarrow> unit rt" where
  "bound_to kind p keys i =
     bind_rt (get_entity kind i) (\<lambda>e.
     bind_rt (from_res (map_res (\<lambda>k. bind_res (getitem e k) (\<lambda>a. bind_res (getitem p k) (\<lambda>b. Inr (a = b)))) keys)) (\<lambda>same.
       require (list_all id same) ''FORBIDDEN''))"

definition optional_ref :: "dict \<Rightarrow> string \<Rightarrow> (string \<Rightarrow> unit rt) \<Rightarrow> unit rt" where
  "optional_ref p k check =
     bind_rt (from_res (getitem p k)) (\<lambda>v.
       if \<not> truthy v then ret ()
       else (case v of JStr i \<Rightarrow> check i | _ \<Rightarrow> from_res (Inl TypeError)))"

definition artifact_register :: "ctl_env \<Rightarrow> dict \<Rightarrow> dict \<Rightarrow> nat rt" where
  "artifact_register env command operation =
     bind_rt (from_res (cas None command)) (\<lambda>_.
     bind_rt (from_res (dict_item command ''params'')) (\<lambda>p.
     bind_rt (from_res (str_item p ''upload_ref'')) (\<lambda>ref.
     bind_rt (get_entity ''Upload'' ref) (\<lambda>up.
     bind_rt (from_res (upload_matches env up p)) (\<lambda>_.
     bind_rt (optional_ref p ''run_id'' (bound_to ''Run'' p [''task_id''])) (\<lambda>_.
     bind_rt (optional_ref p ''assignment_id'' (bound_to ''Assignment'' p [''task_id'', ''run_id''])) (\<lambda>_.
     bind_rt (from_res (str_item p ''task_id'')) (\<lambda>task_id.
     bind_rt (from_res (str_item p ''sha256'')) (\<lambda>sha.
     bind_rt (read_db (cs_get_blob (c_sha env) NAMESPACE sha)) (\<lambda>content.
     bind_rt (from_res (map_res (getitem p) [''run_id'', ''assignment_id'', ''artifact_type'', ''media_type'',
        ''sensitivity''])) (\<lambda>given.
       make_artifact env task_id content
         \<lparr>aa_run = given ! 0, aa_assignment = given ! 1, aa_type = given ! 2, aa_media = given ! 3,
          aa_sensitivity = given ! 4\<rparr>)))))))))))"

definition artifact_content :: "ctl_env \<Rightarrow> string \<Rightarrow> dict rt" where
  "artifact_content env i =
     bind_rt (control_get env ''Artifact'' i) (\<lambda>artifact.
     bind_rt (from_res (str_item artifact ''sha256'')) (\<lambda>sha.
     bind_rt (read_db (cs_get_blob (c_sha env) NAMESPACE sha)) (\<lambda>content.
     if MAX_COMMAND_BYTES div 2 < length content then reject ''INVALID_ARGUMENT'' else
     ret [(''artifact_id'', JStr i), (''text'', JStr content), (''sha256'', JStr sha)])))"

section \<open>Accepting a command\<close>

text \<open>\<^verbatim>\<open>getattr(self, "_" + method.replace(".", "_"))\<close>\<close>

definition handle_command :: "ctl_env \<Rightarrow> string \<Rightarrow> dict \<Rightarrow> dict \<Rightarrow> nat rt" where
  "handle_command env meth command operation =
     (if meth = ''task.create'' then task_create env command operation
      else if meth = ''task.amend'' then task_amend env command operation
      else if meth = ''run.start'' then start_run env command operation False None
      else if meth = ''run.retry'' then start_run env command operation True None
      else if meth = ''run.pause'' then run_pause env command operation
      else if meth = ''run.resume'' then run_resume env command operation
      else if meth = ''run.cancel'' then run_cancel env command operation
      else if meth = ''run.takeover'' then run_takeover env command operation
      else if meth = ''run.return_control'' then run_return_control env command operation
      else if meth = ''state.put'' then state_put env command operation
      else if meth = ''artifact.register'' then artifact_register env command operation
      else if meth = ''grant.revoke'' then grant_revoke env command operation
      else from_res (Inl TypeError))"

text \<open>The task a command is about, authorized before the idempotent answer is read back.\<close>

definition command_scope :: "ctl_env \<Rightarrow> string \<Rightarrow> dict \<Rightarrow> nat option rt" where
  "command_scope env meth p =
     (if meth = ''task.create'' then
        bind_rt (from_res (getitem p ''resource_scopes'')) (\<lambda>scopes.
        bind_rt (authorize env [(''owner_id'', JStr (principal_id env)), (''resource_scopes'', scopes)] meth) (\<lambda>_.
          ret None))
      else if dhas p ''task_id'' then
        bind_rt (from_res (str_item p ''task_id'')) (\<lambda>i.
        bind_rt (control_task env i meth) (\<lambda>r. ret (Some r)))
      else if dhas p ''run_id'' then
        bind_rt (from_res (str_item p ''run_id'')) (\<lambda>i.
        bind_rt (get_entity ''Run'' i) (\<lambda>run.
        bind_rt (from_res (str_item run ''task_id'')) (\<lambda>t.
        bind_rt (control_task env t meth) (\<lambda>r. ret (Some r)))))
      else if meth = ''grant.revoke'' then
        bind_rt (from_res (str_item p ''grant_id'')) (\<lambda>i.
        bind_rt (get_entity ''Grant'' i) (\<lambda>grant.
        bind_rt (from_res (str_item grant ''task_id'')) (\<lambda>t.
        bind_rt (control_task env t meth) (\<lambda>r. ret (Some r)))))
      else reject ''CAPABILITY_UNSUPPORTED'')"

text \<open>An operation that is already there answers again, if the command is the same.\<close>

definition replay :: "ctl_env \<Rightarrow> string \<Rightarrow> string \<Rightarrow> json \<Rightarrow> dict \<Rightarrow> dict rt" where
  "replay env meth payload_sha request_id old =
     bind_rt (from_res (getitem old ''payload_sha256'')) (\<lambda>sha.
     if sha \<noteq> JStr payload_sha then reject ''IDEMPOTENCY_CONFLICT'' else
     bind_rt (if truthy (dget old ''task_id'')
              then bind_rt (from_res (str_item old ''task_id'')) (\<lambda>t.
                     bind_rt (control_task env t meth) (\<lambda>_. ret ()))
              else ret ()) (\<lambda>_.
       from_res (response env old request_id)))"

definition accept_new ::
  "ctl_env \<Rightarrow> string \<Rightarrow> string \<Rightarrow> string \<Rightarrow> json \<Rightarrow> nat option \<Rightarrow> dict \<Rightarrow> dict rt" where
  "accept_new env meth payload_sha key request_id task command =
     bind_rt (from_res (getitem command ''expires_at'')) (\<lambda>expires.
     bind_rt (expired env expires) (\<lambda>late.
     if late then reject ''INVALID_ARGUMENT''
     else if meth \<notin> set COMMANDS then reject ''CAPABILITY_UNSUPPORTED'' else
     bind_rt (case task of None \<Rightarrow> ret JNull | Some r \<Rightarrow> item r ''id'') (\<lambda>task_id.
     bind_rt (make_entity env ''Operation'' ''opr''
       [(''task_id'', task_id), (''request_id'', request_id), (''method'', JStr meth),
        (''principal_id'', JStr (principal_id env)), (''idempotency_key'', JStr key),
        (''payload_sha256'', JStr payload_sha), (''status'', JStr ''SUCCEEDED''), (''result_ref'', JNull),
        (''error_code'', JNull)]) (\<lambda>operation.
     bind_rt (handle_command env meth command operation) (\<lambda>r.
     bind_rt (obj r) (\<lambda>result.
     bind_rt (from_res (getitem result ''id'')) (\<lambda>i.
     bind_rt (from_res (getitem result ''kind'')) (\<lambda>kind.
     let done_op = dupdate operation [(''result_ref'', i),
           (''task_id'', if kind = JStr ''Task'' then i else dget result ''task_id'')] in
     bind_rt (from_res (validate env (JObj done_op) ''Operation'')) (\<lambda>_.
     bind_rt (on_db (cs_save_operation done_op (principal_id env) key payload_sha)) (\<lambda>_.
       ret done_op))))))))))"

text \<open>The transaction of \<^verbatim>\<open>command\<close>: answer again (\<^verbatim>\<open>Inl\<close>), or accept the command (\<^verbatim>\<open>Inr\<close> its operation).\<close>

definition accept_or_replay ::
  "ctl_env \<Rightarrow> string \<Rightarrow> string \<Rightarrow> string \<Rightarrow> json \<Rightarrow> nat option \<Rightarrow> dict \<Rightarrow> (dict + dict) rt" where
  "accept_or_replay env meth payload_sha key request_id task command =
     atomic
       (bind_rt (read_db (cs_find_operation NAMESPACE (principal_id env) meth key)) (\<lambda>old.
          case old of
            Some op \<Rightarrow> bind_rt (replay env meth payload_sha request_id op) (\<lambda>answer. ret (Inl answer))
          | None \<Rightarrow> bind_rt (accept_new env meth payload_sha key request_id task command) (\<lambda>op. ret (Inr op))))"

definition run_command :: "ctl_env \<Rightarrow> dict \<Rightarrow> dict rt" where
  "run_command env command =
     bind_rt (from_res (validate env (JObj command) ''Command'')) (\<lambda>_.
     bind_rt (from_res (str_item command ''method'')) (\<lambda>meth.
     bind_rt (from_res (dict_item command ''params'')) (\<lambda>p.
     bind_rt (command_scope env meth p) (\<lambda>task.
     bind_rt (from_res (command_digest env command)) (\<lambda>payload_sha.
     bind_rt (from_res (str_item command ''idempotency_key'')) (\<lambda>key.
     bind_rt (from_res (getitem command ''request_id'')) (\<lambda>request_id.
     bind_rt (accept_or_replay env meth payload_sha key request_id task command) (\<lambda>outcome.
       case outcome of
         Inl answer \<Rightarrow> ret answer
       | Inr operation \<Rightarrow> from_res (response env operation request_id)))))))))"

end
