(* ===== verification/Control_Advance.thy ===== *)
theory Control_Advance
  imports Control_Commands
begin

text \<open>
  The progress loop of \<^verbatim>\<open>ControlRuntime\<close> (\<^verbatim>\<open>src/asterun/control.py\<close>): \<^verbatim>\<open>advance\<close> takes every
  open Action, renews the lease it runs under, hands an Action that was never delivered to
  the application, and follows one that was delivered to its end: what was not applied,
  denied, cancelled, unknown or completed is recorded, verified and settled.
\<close>

section \<open>The application's task of an Action\<close>

definition same_intent :: "ctl_env \<Rightarrow> dict \<Rightarrow> mem_store \<Rightarrow> task \<Rightarrow> bool res" where
  "same_intent env act s t =
     (case t_current_run_id t of
        None \<Rightarrow> Inr False
      | Some i \<Rightarrow>
          (case ms_find_operation_for_run s i of
             None \<Rightarrow> Inr False
           | Some p \<Rightarrow>
               bind_res (getitem act ''idempotency_key'') (\<lambda>key.
                 Inr (JStr (o_idempotency_key p) = key \<and> o_principal p = subject_id (c_principal env)))))"

fun first_task :: "(task \<Rightarrow> bool res) \<Rightarrow> mem_store \<Rightarrow> task_id list \<Rightarrow> task option res" where
  "first_task f s [] = Inr None"
| "first_task f s (i # is) =
     bind_res (ms_get_task s i) (\<lambda>t. bind_res (f t) (\<lambda>b.
       if b then Inr (Some t) else first_task f s is))"

definition find_legacy :: "ctl_env \<Rightarrow> dict \<Rightarrow> mem_store \<Rightarrow> task option res" where
  "find_legacy env act s =
     bind_res (dict_item act ''extensions'') (\<lambda>x.
       let legacy_id = dget x ''asterun.legacy_task_id'' in
       if truthy legacy_id then
         bind_res (typed_id TaskId legacy_id) (\<lambda>i. bind_res (ms_get_task s i) (\<lambda>t. Inr (Some t)))
       else first_task (same_intent env act s) s (ms_list_task_ids s))"

definition find_legacy_obj :: "ctl_env \<Rightarrow> nat \<Rightarrow> task option rt" where
  "find_legacy_obj env r = bind_rt (obj r) (\<lambda>d. read_app (find_legacy env d))"

fun find_managed :: "ctl_env \<Rightarrow> string \<Rightarrow> mem_store \<Rightarrow> dict list \<Rightarrow> dict option res" where
  "find_managed env legacy_id s [] = Inr None"
| "find_managed env legacy_id s (a # as) =
     bind_res (dict_item a ''extensions'') (\<lambda>x.
       if dget x ''asterun.legacy_task_id'' = JStr legacy_id then Inr (Some a)
       else bind_res (find_legacy env a s) (\<lambda>found.
         case found of
           Some t \<Rightarrow> if task_val (t_id t) = legacy_id then Inr (Some a) else find_managed env legacy_id s as
         | None \<Rightarrow> find_managed env legacy_id s as))"

definition legacy_action :: "ctl_env \<Rightarrow> string \<Rightarrow> dict option rt" where
  "legacy_action env legacy_id =
     bind_rt (read_db (\<lambda>db. Inr (cs_list ''Action'' NAMESPACE db))) (\<lambda>actions.
       read_app (\<lambda>s. find_managed env legacy_id s actions))"

section \<open>Owning the Run\<close>

definition release_lease :: "string \<Rightarrow> json \<Rightarrow> json \<Rightarrow> unit rt" where
  "release_lease run_id holder token =
     (case holder of
        JStr h \<Rightarrow> on_db (cs_release_lease NAMESPACE run_id h token)
      | _ \<Rightarrow> reject ''LEASE_LOST'')"

text \<open>\<^verbatim>\<open>instant(expires_at) > datetime.now(utc) + 30s\<close>\<close>

definition lease_fresh :: "ctl_env \<Rightarrow> json \<Rightarrow> bool rt" where
  "lease_fresh env expires =
     bind_rt (from_res (instant env expires)) (\<lambda>(t, aware).
     bind_rt (clock env) (\<lambda>now.
       if \<not> aware then from_res (Inl TypeError) else ret (now + 30 * 1000000 < t)))"

definition renew_lease :: "ctl_env \<Rightarrow> nat \<Rightarrow> nat \<Rightarrow> string \<Rightarrow> unit rt" where
  "renew_lease env act run run_id =
     bind_rt (claim_lease env run_id) (\<lambda>lease.
     bind_rt (set_item run ''lease'' (JObj lease)) (\<lambda>_.
     bind_rt (from_res (getitem lease ''fencing_token'')) (\<lambda>token.
     bind_rt (set_item act ''fencing_token'' token) (\<lambda>_.
     bind_rt (save env True run) (\<lambda>_.
       save env True act)))))"

definition own :: "ctl_env \<Rightarrow> nat \<Rightarrow> nat \<Rightarrow> unit rt" where
  "own env act run =
     bind_rt (obj run) (\<lambda>rd.
     bind_rt (from_res (dict_item rd ''lease'')) (\<lambda>lease.
     bind_rt (from_res (str_item rd ''id'')) (\<lambda>run_id.
     bind_rt (from_res (getitem lease ''holder_id'')) (\<lambda>holder.
     bind_rt (from_res (getitem lease ''fencing_token'')) (\<lambda>token.
     if holder \<noteq> JStr (c_worker env) then
       if \<not> c_locked env then reject ''LEASE_LOST''
       else bind_rt (release_lease run_id holder token) (\<lambda>_. renew_lease env act run run_id)
     else
       bind_rt (from_res (getitem lease ''expires_at'')) (\<lambda>expires.
       bind_rt (lease_fresh env expires) (\<lambda>fresh.
       if fresh then
         bind_rt (check_lease env run_id (c_worker env) token) (\<lambda>_.
         bind_rt (item act ''fencing_token'') (\<lambda>mine.
           if mine = token then ret ()
           else bind_rt (set_item act ''fencing_token'' token) (\<lambda>_. save env True act)))
       else bind_rt (release_lease run_id holder token) (\<lambda>_. renew_lease env act run run_id))))))))"

section \<open>The guard of a dispatch\<close>

definition plan_asserted :: "ctl_env \<Rightarrow> dict \<Rightarrow> dict \<Rightarrow> unit res" where
  "plan_asserted env act run =
     bind_res (dict_item run ''extensions'') (\<lambda>x.
     bind_res (getitem act ''dispatched_at'') (\<lambda>dispatched.
     bind_res (dict_item act ''extensions'') (\<lambda>y.
       if truthy (dget x ''asterun.capability_plan'') \<and> \<not> truthy dispatched
          \<and> \<not> truthy (dget y ''asterun.quality_step'')
       then c_assert_plan env (dget x ''asterun.capability_plan'') else Inr ())))"

definition run_guard :: "ctl_env \<Rightarrow> dict \<Rightarrow> dict \<Rightarrow> dict \<Rightarrow> unit res" where
  "run_guard env task act run =
     bind_res (getitem run ''desired_state'') (\<lambda>desired.
     if desired \<noteq> JStr ''RUNNING'' then raise ''FORBIDDEN'' else
     bind_res (bind_res (dict_item run ''control_owner'') (\<lambda>o'. getitem o' ''kind'')) (\<lambda>owner.
     if owner \<noteq> JStr ''runner'' then raise ''FORBIDDEN'' else
     bind_res (getitem run ''configuration_sha256'') (\<lambda>configuration.
     if configuration \<noteq> JStr (c_config_sha env) then raise ''REVISION_CONFLICT'' else
     bind_res (getitem task ''contract_revision'') (\<lambda>agreed.
     bind_res (getitem run ''contract_revision'') (\<lambda>contract.
     if agreed \<noteq> contract then raise ''REVISION_CONFLICT'' else
     bind_res (dict_item run ''lease'') (\<lambda>lease.
     bind_res (getitem lease ''holder_id'') (\<lambda>holder.
     if holder \<noteq> JStr (c_worker env) then raise ''LEASE_LOST'' else
     bind_res (getitem act ''fencing_token'') (\<lambda>mine.
     bind_res (getitem lease ''fencing_token'') (\<lambda>token.
     if mine \<noteq> token then raise ''LEASE_LOST'' else Inr ())))))))))"

definition first_grant :: "dict \<Rightarrow> string res" where
  "first_grant act =
     bind_res (list_item act ''grant_ids'') (\<lambda>xs.
       case xs of [] \<Rightarrow> Inl IndexError | JStr i # _ \<Rightarrow> Inr i | _ \<Rightarrow> Inl TypeError)"

definition grant_guard :: "ctl_env \<Rightarrow> dict \<Rightarrow> dict \<Rightarrow> bool \<Rightarrow> unit rt" where
  "grant_guard env act grant already_admitted =
     bind_rt (from_res (getitem grant ''status'')) (\<lambda>status.
     if status \<noteq> JStr ''ACTIVE'' then reject ''AUTH_REQUIRED'' else
     bind_rt (from_res (getitem grant ''expires_at'')) (\<lambda>expires.
     bind_rt (expired env expires) (\<lambda>late.
     if late then reject ''AUTH_REQUIRED'' else
     bind_rt (from_res (getitem grant ''subject_id'')) (\<lambda>subject.
     if subject \<noteq> JStr (principal_id env) then reject ''FORBIDDEN'' else
     bind_rt (from_res (getitem grant ''bound_action_sha256'')) (\<lambda>bound.
     bind_rt (from_res (getitem act ''action_sha256'')) (\<lambda>hash.
     if bound \<noteq> hash then reject ''FORBIDDEN'' else
     bind_rt (from_res (int_item grant ''used_count'')) (\<lambda>used.
     bind_rt (from_res (int_item grant ''max_uses'')) (\<lambda>uses.
     if uses \<le> used \<and> \<not> already_admitted then reject ''AUTH_REQUIRED'' else ret ()))))))))"

definition payload_guard :: "ctl_env \<Rightarrow> dict \<Rightarrow> dict \<Rightarrow> dict \<Rightarrow> dict rt" where
  "payload_guard env task act run =
     bind_rt (from_res (str_item act ''parameters_artifact_id'')) (\<lambda>i.
     bind_rt (get_entity ''Artifact'' i) (\<lambda>parameters.
     bind_rt (from_res (str_item parameters ''sha256'')) (\<lambda>sha.
     bind_rt (read_db (cs_get_blob (c_sha env) NAMESPACE sha)) (\<lambda>content.
     bind_rt (from_res (loads env content)) (\<lambda>payload.
     bind_rt (from_res (jdigest env payload)) (\<lambda>computed.
     bind_rt (from_res (getitem act ''parameters_sha256'')) (\<lambda>stored.
     if JStr computed \<noteq> stored then reject ''FORBIDDEN'' else
     bind_rt (from_res (str_item act ''capability_id'')) (\<lambda>capability.
     bind_rt (from_res (action_digest env capability payload task run)) (\<lambda>expected.
     bind_rt (from_res (getitem act ''action_sha256'')) (\<lambda>hash.
     if JStr expected \<noteq> hash then reject ''FORBIDDEN'' else from_res (dict_res payload)))))))))))"

definition admission_guard :: "ctl_env \<Rightarrow> dict \<Rightarrow> unit rt" where
  "admission_guard env act =
     (case c_admission env of
        None \<Rightarrow> ret ()
      | Some hooks \<Rightarrow>
          bind_rt (from_res (str_item act ''id'')) (\<lambda>i. on_ext (ad_guard hooks i)))"

definition dispatch_guard :: "ctl_env \<Rightarrow> nat \<Rightarrow> nat \<Rightarrow> bool \<Rightarrow> dict rt" where
  "dispatch_guard env act run already_admitted =
     bind_rt (sitem run ''task_id'') (\<lambda>task_id.
     bind_rt (control_task env task_id ''run.start'') (\<lambda>task.
     bind_rt (obj task) (\<lambda>td.
     bind_rt (obj act) (\<lambda>ad.
     bind_rt (admission_guard env ad) (\<lambda>_.
     bind_rt (require_applied_config env) (\<lambda>_.
     bind_rt (obj run) (\<lambda>rd.
     bind_rt (from_res (plan_asserted env ad rd)) (\<lambda>_.
     bind_rt (from_res (run_guard env td ad rd)) (\<lambda>_.
     bind_rt (from_res (str_item rd ''id'')) (\<lambda>run_id.
     bind_rt (from_res (bind_res (dict_item rd ''lease'') (\<lambda>l. getitem l ''fencing_token''))) (\<lambda>token.
     bind_rt (check_lease env run_id (c_worker env) token) (\<lambda>_.
     bind_rt (from_res (first_grant ad)) (\<lambda>grant_id.
     bind_rt (get_entity ''Grant'' grant_id) (\<lambda>grant.
     bind_rt (grant_guard env ad grant already_admitted) (\<lambda>_.
       payload_guard env td ad rd)))))))))))))))"

section \<open>Ends of an Action\<close>

definition settle_reservation :: "ctl_env \<Rightarrow> nat \<Rightarrow> int \<Rightarrow> string list \<Rightarrow> unit rt" where
  "settle_reservation env act amount evidence =
     bind_rt (obj act) (\<lambda>ad.
     bind_rt (case c_admission env of
         None \<Rightarrow> ret ()
       | Some hooks \<Rightarrow>
           bind_rt (from_res (str_item ad ''id'')) (\<lambda>i. on_ext (ad_settle hooks i (amount = 0)))) (\<lambda>_.
     bind_rt (from_res (bind_res (dict_item ad ''extensions'') (\<lambda>x. str_item x ''asterun.reservation_id''))) (\<lambda>i.
     bind_rt (store_clock env) (\<lambda>now.
     bind_rt (on_db (cs_settle now NAMESPACE i
        [JObj [(''meter'', JStr ''turns''), (''amount'', JInt amount), (''billing_pool_ref'', JNull)]] evidence)) (\<lambda>d.
     bind_rt (new_obj d) (\<lambda>reservation.
     bind_rt (from_res (str_item ad ''task_id'')) (\<lambda>task_id.
     bind_rt (from_res (getitem ad ''run_id'')) (\<lambda>run_id.
       emit_event env task_id reservation ''budget.settled''
         (no_args\<lparr>ea_run := run_id, ea_evidence := map JStr evidence\<rparr>)))))))))"

definition finish_delivery :: "nat \<Rightarrow> unit rt" where
  "finish_delivery act =
     bind_rt (sitem act ''id'') (\<lambda>i.
     bind_rt (on_db (cs_finish_delivery i (Some NAMESPACE))) (\<lambda>_. ret ()))"

definition fetch_assignment :: "nat \<Rightarrow> nat rt" where
  "fetch_assignment act = bind_rt (sitem act ''assignment_id'') (fetch ''Assignment'')"

definition fetch_task :: "nat \<Rightarrow> nat rt" where
  "fetch_task run = bind_rt (sitem run ''task_id'') (fetch ''Task'')"

definition receipt :: "ctl_env \<Rightarrow> nat \<Rightarrow> nat \<Rightarrow> string \<Rightarrow> string rt" where
  "receipt env act run summary =
     bind_rt (sitem run ''task_id'') (\<lambda>task_id.
     bind_rt (sitem act ''action_sha256'') (\<lambda>hash.
     bind_rt (item run ''id'') (\<lambda>run_id.
     bind_rt (item act ''id'') (\<lambda>action_id.
     bind_rt (make_evidence env task_id hash summary
       (evidence_defaults\<lparr>ev_run := run_id, ev_action := action_id, ev_validator := ''val_dispatch'',
          ev_verdict := ''FAIL''\<rparr>)) (\<lambda>e.
     bind_rt (sitem e ''id'') (\<lambda>i.
     bind_rt (set_item act ''receipt_evidence_ids'' (JArr [JStr i])) (\<lambda>_. ret i)))))))"

definition NOT_DISPATCHED :: string where
  "NOT_DISPATCHED = utf8_bytes
      [230, 156, 172, 230, 156, 186, 230, 137, 167, 232, 161, 140, 229, 153, 168, 230, 156, 170, 229,
       187, 186, 231, 171, 139, 230, 180, 190, 229, 143, 145, 230, 132, 143, 229, 155, 190, 239, 188,
       140, 230, 156, 170, 232, 176, 131, 231, 148, 168, 228, 190, 155, 229, 186, 148, 229, 149, 134]"

definition QUEUE_CANCELED :: string where
  "QUEUE_CANCELED = utf8_bytes
      [230, 156, 172, 230, 156, 186, 230, 156, 170, 230, 180, 190, 229, 143, 145, 233, 152, 159, 229,
       136, 151, 229, 183, 178, 229, 143, 150, 230, 182, 136, 239, 188, 140, 230, 151, 160, 228, 190,
       155, 229, 186, 148, 229, 149, 134, 232, 176, 131, 231, 148, 168]"

definition PROMPT_NOT_SENT :: string where
  "PROMPT_NOT_SENT = utf8_bytes
      [230, 156, 172, 230, 156, 186, 233, 128, 130, 233, 133, 141, 229, 153, 168, 229, 183, 178, 231,
       161, 174, 232, 174, 164, 229, 156, 168, 230, 143, 144, 228, 186, 164, 32, 112, 114, 111, 109,
       112, 116, 32, 229, 137, 141, 229, 164, 177, 232, 180, 165, 239, 188, 140, 230, 156, 170, 230,
       143, 144, 228, 186, 164, 230, 168, 161, 229, 158, 139, 232, 189, 174, 230, 172, 161]"

definition CANCELED_BEFORE_SPAWN :: string where
  "CANCELED_BEFORE_SPAWN = utf8_bytes
      [230, 156, 172, 230, 156, 186, 32, 65, 110, 116, 105, 103, 114, 97, 118, 105, 116, 121, 32, 233,
       128, 130, 233, 133, 141, 229, 153, 168, 231, 161, 174, 232, 174, 164, 229, 143, 150, 230, 182,
       136, 229, 143, 145, 231, 148, 159, 229, 156, 168, 229, 136, 155, 229, 187, 186, 229, 142, 159,
       231, 148, 159, 232, 191, 155, 231, 168, 139, 229, 137, 141, 239, 188, 140, 230, 156, 170, 230,
       143, 144, 228, 186, 164, 230, 168, 161, 229, 158, 139, 232, 189, 174, 230, 172, 161]"

definition EXECUTION_RECEIPT :: string where
  "EXECUTION_RECEIPT = utf8_bytes
      [229, 144, 142, 231, 171, 175, 230, 137, 167, 232, 161, 140, 231, 187, 136, 230, 128, 129, 229,
       155, 158, 230, 137, 167, 239, 188, 155, 228, 184, 141, 228, 187, 163, 232, 161, 168, 228, 184,
       154, 229, 138, 161, 233, 170, 140, 230, 148, 182]"

definition not_applied :: "ctl_env \<Rightarrow> nat \<Rightarrow> nat \<Rightarrow> json \<Rightarrow> string \<Rightarrow> unit rt" where
  "not_applied env act run reason summary =
     bind_rt (own env act run) (\<lambda>_.
     bind_rt (receipt env act run summary) (\<lambda>i.
     bind_rt (transition env act ''FAILED'' reason JNull) (\<lambda>_.
     bind_rt (settle_reservation env act 0 [i]) (\<lambda>_.
     bind_rt (finish_delivery act) (\<lambda>_.
     bind_rt (fetch_assignment act) (\<lambda>assignment.
     bind_rt (move env assignment ''FAILED'') (\<lambda>_.
     bind_rt (item run ''desired_state'') (\<lambda>desired.
     bind_rt (sitem run ''status'') (\<lambda>status.
     bind_rt (if desired = JStr ''CANCELED'' then
         bind_rt (if status \<noteq> ''CANCELING'' then move env run ''CANCELING'' else ret ()) (\<lambda>_.
           move env run ''CANCELED'')
       else
         bind_rt (if status = ''PAUSING'' then move env run ''RECONCILING'' else ret ()) (\<lambda>_.
           transition env run ''FAILED'' reason JNull)) (\<lambda>_.
     bind_rt (fetch_task run) (\<lambda>task.
     bind_rt (sitem run ''status'') (\<lambda>final. move env task final))))))))))))"

definition deny :: "ctl_env \<Rightarrow> nat \<Rightarrow> nat \<Rightarrow> json \<Rightarrow> unit rt" where
  "deny env act run reason =
     bind_rt (transition env act ''DENIED'' reason JNull) (\<lambda>_.
     bind_rt (settle_reservation env act 0 []) (\<lambda>_.
     bind_rt (finish_delivery act) (\<lambda>_.
     bind_rt (fetch_assignment act) (\<lambda>assignment.
     bind_rt (move env assignment ''CANCELED'') (\<lambda>_.
     bind_rt (sitem run ''status'') (\<lambda>status.
     bind_rt (if status = ''QUEUED'' then move env run ''PREPARING'' else ret ()) (\<lambda>_.
     bind_rt (transition env run ''FAILED'' reason JNull) (\<lambda>_.
     bind_rt (fetch_task run) (\<lambda>task. transition env task ''FAILED'' reason JNull)))))))))"

definition transfer_if_requested :: "ctl_env \<Rightarrow> nat \<Rightarrow> unit rt" where
  "transfer_if_requested env run =
     bind_rt (extension run ''asterun.takeover_requested'') (\<lambda>asked.
     bind_rt (control_owner run) (\<lambda>owner.
     bind_rt (from_res (getitem owner ''kind'')) (\<lambda>kind.
     if truthy asked \<and> kind \<noteq> JStr ''human'' then
       bind_rt (give_to env ''human'' run) (\<lambda>_.
       bind_rt (save env True run) (\<lambda>_.
       bind_rt (sitem run ''task_id'') (\<lambda>task_id.
       bind_rt (item run ''id'') (\<lambda>run_id.
         emit_event env task_id run ''ownership.changed'' (no_args\<lparr>ea_run := run_id\<rparr>)))))
     else ret ())))"

definition pause_if_needed :: "ctl_env \<Rightarrow> nat \<Rightarrow> unit rt" where
  "pause_if_needed env run =
     bind_rt (sitem run ''status'') (\<lambda>status.
     bind_rt (if status \<noteq> ''PAUSED'' then move env run ''PAUSED'' else ret ()) (\<lambda>_.
       transfer_if_requested env run))"

definition undelivered_control :: "ctl_env \<Rightarrow> nat \<Rightarrow> nat \<Rightarrow> unit rt" where
  "undelivered_control env act run =
     bind_rt (item run ''desired_state'') (\<lambda>desired.
     if desired = JStr ''PAUSED'' then pause_if_needed env run
     else
       bind_rt (move env act ''CANCELED'') (\<lambda>_.
       bind_rt (settle_reservation env act 0 []) (\<lambda>_.
       bind_rt (finish_delivery act) (\<lambda>_.
       bind_rt (fetch_assignment act) (\<lambda>assignment.
       bind_rt (move env assignment ''CANCELED'') (\<lambda>_.
       bind_rt (move env run ''CANCELED'') (\<lambda>_.
       bind_rt (fetch_task run) (\<lambda>task. move env task ''CANCELED''))))))))"

definition cancel_not_applied :: "ctl_env \<Rightarrow> nat \<Rightarrow> nat \<Rightarrow> string \<Rightarrow> unit rt" where
  "cancel_not_applied env act run summary =
     bind_rt (receipt env act run summary) (\<lambda>i.
     bind_rt (sitem act ''status'') (\<lambda>status.
     bind_rt (if status = ''EXECUTING'' then move env act ''UNKNOWN_REMOTE'' else ret ()) (\<lambda>_.
     bind_rt (move env act ''CANCELED'') (\<lambda>_.
     bind_rt (settle_reservation env act 0 [i]) (\<lambda>_.
     bind_rt (finish_delivery act) (\<lambda>_.
     bind_rt (fetch_assignment act) (\<lambda>assignment.
     bind_rt (move env assignment ''CANCELED'') (\<lambda>_.
     bind_rt (move env run ''CANCELED'') (\<lambda>_.
     bind_rt (fetch_task run) (\<lambda>task. move env task ''CANCELED''))))))))))"

definition remote_unknown :: "ctl_env \<Rightarrow> nat \<Rightarrow> nat \<Rightarrow> unit rt" where
  "remote_unknown env act run =
     bind_rt (case c_admission env of
         None \<Rightarrow> ret ()
       | Some hooks \<Rightarrow> bind_rt (sitem act ''id'') (\<lambda>i. on_ext (ad_uncertain hooks i))) (\<lambda>_.
     bind_rt (sitem act ''status'') (\<lambda>status.
     bind_rt (if status = ''UNKNOWN_REMOTE'' then ret () else
       bind_rt (move env act ''UNKNOWN_REMOTE'') (\<lambda>_.
       bind_rt (obj act) (\<lambda>ad.
       bind_rt (from_res (bind_res (dict_item ad ''extensions'') (\<lambda>x. str_item x ''asterun.reservation_id''))) (\<lambda>i.
       bind_rt (store_clock env) (\<lambda>now.
       bind_rt (on_db (cs_mark_uncertain now NAMESPACE i)) (\<lambda>_.
       bind_rt (sitem run ''task_id'') (\<lambda>task_id.
       bind_rt (item run ''id'') (\<lambda>run_id.
         emit_event env task_id act ''observation.gap''
           (no_args\<lparr>ea_run := run_id, ea_reason := JStr ''UNKNOWN_REMOTE''\<rparr>))))))))) (\<lambda>_.
     bind_rt (sitem run ''status'') (\<lambda>st.
       if st \<noteq> ''RECONCILING'' then move env run ''RECONCILING'' else ret ()))))"

section \<open>Receipts of the adapters\<close>

definition GROK_STAGES :: "string list" where
  "GROK_STAGES = [''preflight'', ''spawn'', ''initialize'', ''session/new'']"

definition ANTIGRAVITY_STAGES :: "string list" where
  "ANTIGRAVITY_STAGES = [''preflight'', ''spawn'']"

text \<open>The receipt's key and the stages before the prompt, for an adapter of this package.\<close>

definition receipt_rules :: "backend_info \<Rightarrow> (string \<times> string list) option" where
  "receipt_rules info =
     (if \<not> bi_builtin info then None
      else if bi_kind info = ''grok'' then Some (''asterun.grok_dispatch_v1'', GROK_STAGES)
      else if bi_kind info = ''antigravity'' then Some (''asterun.antigravity_dispatch_v1'', ANTIGRAVITY_STAGES)
      else if bi_kind info = ''codex'' then Some (''asterun.codex_dispatch_v1'', [''preflight''])
      else None)"

definition bound_receipt :: "run \<Rightarrow> dict \<Rightarrow> bool" where
  "bound_receipt r d \<longleftrightarrow>
     dget d ''task_id'' = JStr (task_val (r_task_id r)) \<and> dget d ''run_id'' = JStr (run_val (r_id r))
     \<and> dget d ''prompt_attempted'' = JBool False \<and> dget d ''delivery'' = JStr ''not_sent''"

definition confirmed_prompt_not_sent :: "ctl_env \<Rightarrow> run \<Rightarrow> bool" where
  "confirmed_prompt_not_sent env r \<longleftrightarrow>
     (case map_of (c_backends env) (backend_val (r_backend r)) of
        None \<Rightarrow> False
      | Some info \<Rightarrow>
          (case receipt_rules info of
             None \<Rightarrow> False
           | Some (key, stages) \<Rightarrow>
               r_status r = Rs_FAILED \<and> r_terminated r
               \<and> (case dget (r_native r) key of
                    JObj d \<Rightarrow>
                      bound_receipt r d \<and> dget d ''stage'' \<in> JStr ` set stages
                      \<and> (case dget d ''failure_type'' of JStr f \<Rightarrow> f \<noteq> [] | _ \<Rightarrow> False)
                  | _ \<Rightarrow> False)))"

definition confirmed_cancel_before_spawn :: "ctl_env \<Rightarrow> run \<Rightarrow> bool" where
  "confirmed_cancel_before_spawn env r \<longleftrightarrow>
     (case map_of (c_backends env) (backend_val (r_backend r)) of
        None \<Rightarrow> False
      | Some info \<Rightarrow>
          bi_kind info = ''antigravity'' \<and> bi_builtin info
          \<and> r_status r = Rs_CANCELLED \<and> r_terminated r \<and> r_cancel_requested r
          \<and> \<not> dhas (r_native r) ''backend_session_id''
          \<and> (case dget (r_native r) ''asterun.antigravity_dispatch_v1'' of
               JObj d \<Rightarrow>
                 bound_receipt r d \<and> dget d ''stage'' = JStr ''preflight''
                 \<and> dget d ''process_started'' = JBool False \<and> dget d ''process_exit_code'' = JNull
                 \<and> dget d ''failure_type'' = JStr ''cancelled_before_spawn''
             | _ \<Rightarrow> False))"

section \<open>Sessions\<close>

definition saved_session :: "task \<Rightarrow> run \<Rightarrow> mem_store \<Rightarrow> dict option res" where
  "saved_session t r s =
     (case r_conversation_id r of
        Some c \<Rightarrow> bind_res (ms_get_session s c) (\<lambda>b. Inr (Some (session_to_dict b)))
      | None \<Rightarrow>
          Inr (case t_conversation_id t of
                 None \<Rightarrow> None
               | Some c \<Rightarrow> (case ms_get_session s c of Inl _ \<Rightarrow> None | Inr b \<Rightarrow> Some (session_to_dict b))))"

definition native_binding :: "ctl_env \<Rightarrow> dict \<Rightarrow> task \<Rightarrow> dict option \<Rightarrow> json res" where
  "native_binding env assignment t saved =
     (case saved of
        None \<Rightarrow> Inr JNull
      | Some d \<Rightarrow>
          if \<not> truthy (dget d ''backend_session_id'') then Inr JNull
          else
            bind_res (getitem assignment ''backend_instance_id'') (\<lambda>backend.
            bind_res (str_item d ''account_ref'') (\<lambda>account.
            bind_res (str_item d ''runtime_ref'') (\<lambda>runtime.
              Inr (JObj [(''backend_instance_id'', backend),
                (''provider_session_id'', dget d ''backend_session_id''),
                (''provider_turn_id'', dget d ''latest_turn_id''),
                (''native_project_ref'', if t_workspace_root t = [] then JNull else JStr (t_workspace_root t)),
                (''native_uri'', JNull), (''account_ref'', JStr (identifier_for env ''acc'' account)),
                (''environment_ref'', JStr (identifier_for env ''env'' runtime)),
                (''provider_state_ref'', JNull), (''desktop_visibility'', JStr ''unverified''),
                (''verified_at'', JNull)])))))"

definition session_status :: "run \<Rightarrow> string" where
  "session_status r =
     (if r_status r = Rs_QUEUED then ''CREATING''
      else if r_status r = Rs_PENDING_RECONCILE then ''DISCONNECTED''
      else if r_terminated r then ''IDLE'' else ''BUSY'')"

definition update_session :: "ctl_env \<Rightarrow> string \<Rightarrow> json \<Rightarrow> string \<Rightarrow> unit rt" where
  "update_session env i native status =
     bind_rt (fetch ''Session'' i) (\<lambda>session.
     bind_rt (item session ''native_binding'') (\<lambda>old.
     bind_rt (item session ''status'') (\<lambda>st.
     if old = canon native \<and> st = JStr status then ret ()
     else
       bind_rt (set_item session ''native_binding'' native) (\<lambda>_.
       bind_rt (time_now env) (\<lambda>now.
       bind_rt (set_item session ''last_observed_at'' (JStr now)) (\<lambda>_.
       bind_rt (save env True session) (\<lambda>_.
         if st \<noteq> JStr status then move env session status else ret ())))))))"

definition new_session :: "ctl_env \<Rightarrow> nat \<Rightarrow> nat \<Rightarrow> run \<Rightarrow> dict option \<Rightarrow> json \<Rightarrow> string \<Rightarrow> unit rt" where
  "new_session env assignment run r saved native status =
     bind_rt (sitem run ''task_id'') (\<lambda>task_id.
     bind_rt (item run ''id'') (\<lambda>run_id.
     bind_rt (item assignment ''id'') (\<lambda>assignment_id.
     bind_rt (item assignment ''backend_instance_id'') (\<lambda>backend.
     bind_rt (item assignment ''execution_context_id'') (\<lambda>context.
     bind_rt (time_now env) (\<lambda>now.
     bind_rt (item run ''configuration_sha256'') (\<lambda>configuration.
     bind_rt (from_res (jdigest env (JObj [(''backend'', JStr (backend_val (r_backend r))),
        (''configuration'', configuration)]))) (\<lambda>snapshot.
     bind_rt (entity env ''Session'' ''ses''
       [(''task_id'', JStr task_id), (''assignment_id'', assignment_id), (''status'', JStr ''CREATING''),
        (''backend_instance_id'', backend), (''execution_context_id'', context),
        (''model_provider'', JStr ''unknown''), (''model_id'', JNull), (''billing_pool_ref'', JNull),
        (''native_binding'', native), (''restored_from_capsule_id'', JNull), (''last_observed_at'', JStr now),
        (''capability_snapshot_sha256'', JStr snapshot)]) (\<lambda>session.
     bind_rt (from_res (case map_of (c_backends env) (backend_val (r_backend r)) of
         None \<Rightarrow> Inl KeyError | Some info \<Rightarrow> Inr (bi_kind info))) (\<lambda>kind.
     bind_rt (set_item session ''extensions''
        (JObj [(''asterun.legacy_conversation_id'', case saved of None \<Rightarrow> JNull | Some d \<Rightarrow> dget d ''conversation_id''),
               (''asterun.simulated'', JBool (kind = ''fake''))])) (\<lambda>_.
     bind_rt (save env False session) (\<lambda>_.
     bind_rt (emit_event env task_id session ''session.bound'' (no_args\<lparr>ea_run := run_id\<rparr>)) (\<lambda>_.
     bind_rt (move env session status) (\<lambda>_.
     bind_rt (item session ''id'') (\<lambda>session_id.
     bind_rt (set_item assignment ''session_ids'' (JArr [session_id])) (\<lambda>_.
       save env True assignment))))))))))))))))"

definition bind_session :: "ctl_env \<Rightarrow> nat \<Rightarrow> nat \<Rightarrow> task \<Rightarrow> run \<Rightarrow> unit rt" where
  "bind_session env act run t r =
     bind_rt (fetch_assignment act) (\<lambda>assignment.
     bind_rt (read_app (saved_session t r)) (\<lambda>saved.
     bind_rt (obj assignment) (\<lambda>ad.
     bind_rt (from_res (native_binding env ad t saved)) (\<lambda>native.
     bind_rt (from_res (list_item ad ''session_ids'')) (\<lambda>ids.
       case ids of
         [] \<Rightarrow> new_session env assignment run r saved native (session_status r)
       | JStr i # _ \<Rightarrow> update_session env i native (session_status r)
       | _ \<Rightarrow> from_res (Inl TypeError))))))"

section \<open>Completion\<close>

definition completion_content :: "ctl_env \<Rightarrow> dict \<Rightarrow> run \<Rightarrow> string res" where
  "completion_content env rd r =
     bind_res (getitem rd ''workflow_id'') (\<lambda>workflow.
       if workflow \<noteq> JStr ''wf_capability_call'' then Inr (r_summary r)
       else
         bind_res (dict_item rd ''extensions'') (\<lambda>x.
         bind_res (dict_item x ''asterun.capability_plan'') (\<lambda>plan.
         bind_res (getitem plan ''typed'') (\<lambda>typed.
           Inr (c_dumps env (if truthy typed then r_output r else JObj [(''text'', JStr (r_summary r))]))))))"

definition criterion_result :: "ctl_env \<Rightarrow> dict \<Rightarrow> dict \<Rightarrow> run \<Rightarrow> string \<Rightarrow> bool res" where
  "criterion_result env td rd r validator =
     bind_res (getitem rd ''configuration_sha256'') (\<lambda>configuration.
     bind_res (getitem rd ''contract_revision'') (\<lambda>contract.
     bind_res (getitem td ''contract_revision'') (\<lambda>agreed.
       Inr (r_status r = Rs_SUCCEEDED \<and> configuration = JStr (c_config_sha env) \<and> contract = agreed
            \<and> (validator = ''val_output'' \<longrightarrow> \<not> is_blank (r_summary r))))))"

text \<open>One piece of evidence per criterion; the required ones decide.\<close>

fun verify_criteria ::
  "ctl_env \<Rightarrow> dict \<Rightarrow> dict \<Rightarrow> run \<Rightarrow> string \<Rightarrow> json \<Rightarrow> json list \<Rightarrow> bool \<Rightarrow> json list \<Rightarrow> (bool \<times> json list) rt" where
  "verify_criteria env td rd r subject output [] passed ids = ret (passed, ids)"
| "verify_criteria env td rd r subject output (v # vs) passed ids =
     bind_rt (from_res (dict_res v)) (\<lambda>d.
     bind_rt (from_res (str_item d ''validator_id'')) (\<lambda>validator.
     bind_rt (from_res (criterion_result env td rd r validator)) (\<lambda>result.
     bind_rt (from_res (str_item td ''id'')) (\<lambda>task_id.
     bind_rt (from_res (getitem rd ''id'')) (\<lambda>run_id.
     bind_rt (from_res (case map_of VALIDATORS validator of None \<Rightarrow> Inl KeyError | Some s \<Rightarrow> Inr s)) (\<lambda>summary.
     bind_rt (make_evidence env task_id subject summary
       (evidence_defaults\<lparr>ev_run := run_id, ev_validator := validator,
          ev_verdict := (if result then ''PASS'' else ''FAIL''), ev_artifacts := [output]\<rparr>)) (\<lambda>e.
     bind_rt (item e ''id'') (\<lambda>i.
     bind_rt (from_res (getitem d ''required'')) (\<lambda>required.
       verify_criteria env td rd r subject output vs
         (if truthy required then passed \<and> result else passed) (ids @ [i]))))))))))"

definition completion_receipt :: "ctl_env \<Rightarrow> nat \<Rightarrow> string \<Rightarrow> string \<Rightarrow> json \<Rightarrow> string rt" where
  "completion_receipt env act task_id run_id output_id =
     bind_rt (sitem act ''action_sha256'') (\<lambda>hash.
     bind_rt (item act ''id'') (\<lambda>action_id.
     bind_rt (make_evidence env task_id hash EXECUTION_RECEIPT
       (evidence_defaults\<lparr>ev_run := JStr run_id, ev_action := action_id, ev_validator := ''val_receipt'',
          ev_artifacts := [output_id]\<rparr>)) (\<lambda>e.
     bind_rt (sitem e ''id'') (\<lambda>i.
     bind_rt (set_item act ''receipt_evidence_ids'' (JArr [JStr i])) (\<lambda>_. ret i)))))"

definition settle_success :: "ctl_env \<Rightarrow> nat \<Rightarrow> string \<Rightarrow> unit rt" where
  "settle_success env act receipt_id =
     bind_rt (sitem act ''status'') (\<lambda>status.
     bind_rt (if status \<in> {''UNKNOWN_REMOTE'', ''EXECUTING''} then move env act ''VERIFYING'' else ret ()) (\<lambda>_.
     bind_rt (move env act ''SUCCEEDED'') (\<lambda>_.
     bind_rt (extension act ''asterun.not_delivered'') (\<lambda>undelivered.
     bind_rt (settle_reservation env act (if truthy undelivered then 0 else 1) [receipt_id]) (\<lambda>_.
       finish_delivery act)))))"

definition complete_canceled :: "ctl_env \<Rightarrow> nat \<Rightarrow> nat \<Rightarrow> nat \<Rightarrow> json \<Rightarrow> unit rt" where
  "complete_canceled env task run assignment output_id =
     bind_rt (sitem run ''status'') (\<lambda>status.
     bind_rt (if status \<noteq> ''CANCELING'' then move env run ''CANCELING'' else ret ()) (\<lambda>_.
     bind_rt (move env assignment ''CANCELED'') (\<lambda>_.
     bind_rt (move env run ''CANCELED'') (\<lambda>_.
     bind_rt (append_item task ''result_artifact_ids'' output_id) (\<lambda>_.
       move env task ''CANCELED'')))))"

definition with_quality :: "ctl_env \<Rightarrow> nat \<Rightarrow> nat \<Rightarrow> nat \<Rightarrow> nat \<Rightarrow> bool \<Rightarrow> json list \<Rightarrow> json list rt" where
  "with_quality env task run act assignment passed ids =
     bind_rt (obj run) (\<lambda>rd.
     bind_rt (from_res (getitem rd ''workflow_id'')) (\<lambda>workflow.
     if workflow = JStr ''wf_code_change'' \<and> passed then
       bind_rt (obj task) (\<lambda>td.
       bind_rt (obj act) (\<lambda>ad.
       bind_rt (c_quality_evidence env td rd ad) (\<lambda>evidence.
       bind_rt (from_res (getitem evidence ''id'')) (\<lambda>i.
       bind_rt (set_item assignment ''evidence_ids'' (JArr (ids @ [i]))) (\<lambda>_.
       bind_rt (save env True assignment) (\<lambda>_. ret (ids @ [i])))))))
     else ret ids))"

definition complete_verified :: "ctl_env \<Rightarrow> nat \<Rightarrow> nat \<Rightarrow> nat \<Rightarrow> nat \<Rightarrow> run \<Rightarrow> json \<Rightarrow> json \<Rightarrow> unit rt" where
  "complete_verified env task run act assignment r output_id output_sha =
     bind_rt (sitem run ''status'') (\<lambda>status.
     bind_rt (if status \<noteq> ''RUNNING'' then move env run ''RUNNING'' else ret ()) (\<lambda>_.
     bind_rt (move env assignment ''VERIFYING'') (\<lambda>_.
     bind_rt (obj task) (\<lambda>td.
     bind_rt (obj run) (\<lambda>rd.
     bind_rt (from_res (getitem td ''contract_revision'')) (\<lambda>contract.
     bind_rt (from_res (getitem rd ''configuration_sha256'')) (\<lambda>configuration.
     bind_rt (from_res (jdigest env (JObj [(''contract_revision'', contract),
        (''configuration_sha256'', configuration), (''output_sha256'', output_sha),
        (''legacy_status'', JStr (str_run_status (r_status r)))]))) (\<lambda>subject.
     bind_rt (from_res (list_item td ''acceptance'')) (\<lambda>criteria.
     bind_rt (verify_criteria env td rd r subject output_id criteria True []) (\<lambda>(passed, ids).
     bind_rt (modify assignment (\<lambda>d. dupdate d [(''result_artifact_ids'', JArr [output_id]),
        (''evidence_ids'', JArr ids)])) (\<lambda>_.
     bind_rt (move env assignment (if passed then ''SUCCEEDED'' else ''FAILED'')) (\<lambda>_.
     bind_rt (sitem task ''id'') (\<lambda>task_id.
     bind_rt (item run ''id'') (\<lambda>run_id.
     bind_rt (if passed then emit_event env task_id assignment ''assignment.accepted''
                (no_args\<lparr>ea_run := run_id, ea_evidence := ids\<rparr>) else ret ()) (\<lambda>_.
     bind_rt (with_quality env task run act assignment passed ids) (\<lambda>all_ids.
     bind_rt (set_item run ''completion_evidence_ids'' (JArr all_ids)) (\<lambda>_.
     bind_rt (move env run (if passed then ''SUCCEEDED'' else ''FAILED'')) (\<lambda>_.
     bind_rt (append_item task ''result_artifact_ids'' output_id) (\<lambda>_.
       move env task (if passed then ''SUCCEEDED'' else ''FAILED''))))))))))))))))))))"

definition complete :: "ctl_env \<Rightarrow> nat \<Rightarrow> nat \<Rightarrow> run \<Rightarrow> unit rt" where
  "complete env act run r =
     bind_rt (fetch_task run) (\<lambda>task.
     bind_rt (fetch_assignment act) (\<lambda>assignment.
     bind_rt (obj run) (\<lambda>rd.
     bind_rt (from_res (completion_content env rd r)) (\<lambda>content.
     bind_rt (sitem task ''id'') (\<lambda>task_id.
     bind_rt (from_res (str_item rd ''id'')) (\<lambda>run_id.
     bind_rt (item assignment ''id'') (\<lambda>assignment_id.
     bind_rt (from_res (getitem rd ''workflow_id'')) (\<lambda>workflow.
     bind_rt (make_artifact env task_id content
       \<lparr>aa_run = JStr run_id, aa_assignment = assignment_id, aa_type = JStr ''document'',
        aa_media = JStr (if workflow = JStr ''wf_capability_call'' then ''application/json'' else ''text/plain''),
        aa_sensitivity = JStr ''internal''\<rparr>) (\<lambda>output.
     bind_rt (item output ''id'') (\<lambda>output_id.
     bind_rt (item output ''sha256'') (\<lambda>output_sha.
     bind_rt (completion_receipt env act task_id run_id output_id) (\<lambda>i.
     bind_rt (settle_success env act i) (\<lambda>_.
     bind_rt (item run ''desired_state'') (\<lambda>desired.
     if desired = JStr ''CANCELED'' then complete_canceled env task run assignment output_id
     else complete_verified env task run act assignment r output_id output_sha))))))))))))))"

section \<open>Observation\<close>

definition app_run :: "task \<Rightarrow> run rt" where
  "app_run t = read_app (\<lambda>s. case t_current_run_id t of None \<Rightarrow> Inl TypeError | Some i \<Rightarrow> ms_get_run s i)"

definition observed_run :: "nat \<Rightarrow> task \<Rightarrow> run rt" where
  "observed_run act t =
     bind_rt (extension act ''asterun.legacy_run_id'') (\<lambda>pinned.
       if truthy pinned then
         bind_rt (from_res (typed_id RunId pinned)) (\<lambda>i. read_app (\<lambda>s. ms_get_run s i))
       else app_run t)"

definition pin_legacy :: "ctl_env \<Rightarrow> nat \<Rightarrow> task \<Rightarrow> run \<Rightarrow> unit rt" where
  "pin_legacy env act t r =
     bind_rt (extension act ''asterun.legacy_task_id'') (\<lambda>known.
       if truthy known then ret ()
       else atomic
         (bind_rt (set_extension act ''asterun.legacy_task_id'' (JStr (task_val (t_id t)))) (\<lambda>_.
          bind_rt (set_extension act ''asterun.legacy_run_id'' (JStr (run_val (r_id r)))) (\<lambda>_.
            save env True act))))"

definition undelivered :: "run \<Rightarrow> mem_store \<Rightarrow> bool res" where
  "undelivered r s =
     Inr (case ms_find_operation_for_run s (r_id r) of
            None \<Rightarrow> False | Some p \<Rightarrow> o_status p = Op_INTENDED \<and> r_status r = Rs_QUEUED)"

definition ignore_asterun :: "unit rt \<Rightarrow> unit rt" where
  "ignore_asterun m = catch_asterun m (\<lambda>_ _. ret ())"

text \<open>A cancellation that did not reach the application yet, and a reconciliation, are tried again.\<close>

definition push_cancel :: "ctl_env \<Rightarrow> nat \<Rightarrow> task \<Rightarrow> run \<Rightarrow> run rt" where
  "push_cancel env run t r =
     bind_rt (item run ''desired_state'') (\<lambda>desired.
       if desired = JStr ''CANCELED'' \<and> \<not> terminal (r_status r) \<and> \<not> r_cancel_requested r then
         bind_rt (ignore_asterun (on_app (c_task_cancel env (task_val (t_id t))))) (\<lambda>_. app_run t)
       else ret r)"

definition push_reconcile :: "ctl_env \<Rightarrow> task \<Rightarrow> run \<Rightarrow> run rt" where
  "push_reconcile env t r =
     (if r_status r = Rs_PENDING_RECONCILE then
        bind_rt (ignore_asterun (on_app (c_task_reconcile env (task_val (t_id t))))) (\<lambda>_. app_run t)
      else ret r)"

definition paused_at_end :: "ctl_env \<Rightarrow> nat \<Rightarrow> unit rt" where
  "paused_at_end env run =
     bind_rt (sitem run ''status'') (\<lambda>status.
     bind_rt (if status = ''RECONCILING'' then move env run ''PAUSING'' else ret ()) (\<lambda>_.
       pause_if_needed env run))"

definition record_end :: "ctl_env \<Rightarrow> nat \<Rightarrow> nat \<Rightarrow> run \<Rightarrow> unit rt" where
  "record_end env act run r =
     (if confirmed_cancel_before_spawn env r then cancel_not_applied env act run CANCELED_BEFORE_SPAWN
      else if confirmed_prompt_not_sent env r then
        not_applied env act run (por (r_error_code r) (JStr ''BACKEND_UNAVAILABLE'')) PROMPT_NOT_SENT
      else
        bind_rt (extension act ''asterun.not_delivered'') (\<lambda>undelivered.
        if truthy undelivered then cancel_not_applied env act run QUEUE_CANCELED else
        bind_rt (item run ''desired_state'') (\<lambda>desired.
        if desired = JStr ''PAUSED'' then paused_at_end env run else complete env act run r)))"

definition record_progress :: "ctl_env \<Rightarrow> nat \<Rightarrow> nat \<Rightarrow> run \<Rightarrow> unit rt" where
  "record_progress env act run r =
     bind_rt (sitem act ''status'') (\<lambda>st.
     bind_rt (if st = ''UNKNOWN_REMOTE'' then move env act ''EXECUTING'' else ret ()) (\<lambda>_.
     if r_status r = Rs_WAITING_INPUT then transition env run ''WAITING'' (JStr ''APPROVAL_REQUIRED'') JNull
     else if r_status r = Rs_WAITING_AUTH then transition env run ''WAITING'' (JStr ''AUTH_REQUIRED'') JNull
     else bind_rt (sitem run ''status'') (\<lambda>status.
            if status \<noteq> ''RUNNING'' then move env run ''RUNNING'' else ret ())))"

definition record_observation :: "ctl_env \<Rightarrow> nat \<Rightarrow> nat \<Rightarrow> run \<Rightarrow> unit rt" where
  "record_observation env act run r =
     bind_rt (own env act run) (\<lambda>_.
     if terminal (r_status r) \<and> r_terminated r then record_end env act run r
     else if r_status r = Rs_PENDING_RECONCILE then remote_unknown env act run
     else
       bind_rt (item run ''desired_state'') (\<lambda>desired.
       if desired = JStr ''RUNNING'' then record_progress env act run r else ret ()))"

text \<open>Past the quality workflow: a Run the application did not deliver yet, and the rest.\<close>

definition observe_run :: "ctl_env \<Rightarrow> nat \<Rightarrow> nat \<Rightarrow> task \<Rightarrow> run \<Rightarrow> unit rt" where
  "observe_run env act run t r =
     bind_rt (read_app (undelivered r)) (\<lambda>waiting.
     bind_rt (item run ''desired_state'') (\<lambda>desired.
     if waiting \<and> desired = JStr ''PAUSED'' then
       atomic (bind_rt (own env act run) (\<lambda>_. pause_if_needed env run))
     else
       bind_rt (if waiting \<and> desired = JStr ''CANCELED'' then
           atomic (bind_rt (set_extension act ''asterun.not_delivered'' (JBool True)) (\<lambda>_. save env True act))
         else ret ()) (\<lambda>_.
       bind_rt (pin_legacy env act t r) (\<lambda>_.
       bind_rt (push_cancel env run t r) (\<lambda>r1.
       bind_rt (push_reconcile env t r1) (\<lambda>r2.
         atomic (record_observation env act run r2)))))))"

definition observe :: "ctl_env \<Rightarrow> nat \<Rightarrow> nat \<Rightarrow> task \<Rightarrow> unit rt" where
  "observe env act run t =
     bind_rt (observed_run act t) (\<lambda>r.
     bind_rt (atomic (bind_rt (own env act run) (\<lambda>_. bind_session env act run t r))) (\<lambda>_.
     bind_rt (item run ''workflow_id'') (\<lambda>workflow.
     if workflow = JStr ''wf_code_change'' then
       bind_rt (pin_legacy env act t r) (\<lambda>_.
       bind_rt (c_quality_progress env act run t r) (\<lambda>handled.
         if handled then ret () else observe_run env act run t r))
     else observe_run env act run t r)))"

section \<open>Dispatch\<close>

text \<open>What is written before the application is called: the grant is used, the delivery marked.\<close>

definition use_grant :: "ctl_env \<Rightarrow> nat \<Rightarrow> unit rt" where
  "use_grant env act =
     bind_rt (obj act) (\<lambda>ad.
     bind_rt (from_res (first_grant ad)) (\<lambda>grant_id.
     bind_rt (fetch ''Grant'' grant_id) (\<lambda>grant.
     bind_rt (obj grant) (\<lambda>gd.
     bind_rt (from_res (int_item gd ''used_count'')) (\<lambda>used.
     bind_rt (set_item grant ''used_count'' (JInt (used + 1))) (\<lambda>_.
       save env True grant))))))"

definition begin_execution :: "ctl_env \<Rightarrow> nat \<Rightarrow> nat \<Rightarrow> string rt" where
  "begin_execution env act run =
     bind_rt (sitem run ''status'') (\<lambda>status.
     bind_rt (if status \<in> {''QUEUED'', ''RECONCILING'', ''WAITING''} then move env run ''PREPARING'' else ret ()) (\<lambda>_.
     bind_rt (time_now env) (\<lambda>now.
     bind_rt (set_item act ''dispatched_at'' (JStr now)) (\<lambda>_.
     bind_rt (move env act ''EXECUTING'') (\<lambda>_. sitem act ''id'')))))"

definition announce_start :: "ctl_env \<Rightarrow> nat \<Rightarrow> nat \<Rightarrow> string \<Rightarrow> unit rt" where
  "announce_start env act run task_id =
     bind_rt (fetch_assignment act) (\<lambda>assignment.
     bind_rt (move env assignment ''RUNNING'') (\<lambda>_.
     bind_rt (item run ''id'') (\<lambda>run_id.
       emit_event env task_id act ''action.started'' (no_args\<lparr>ea_run := run_id\<rparr>))))"

definition mark_dispatch :: "ctl_env \<Rightarrow> nat \<Rightarrow> nat \<Rightarrow> string \<Rightarrow> (string \<times> dict) rt" where
  "mark_dispatch env act run task_id =
     bind_rt (dispatch_guard env act run False) (\<lambda>payload.
     bind_rt (use_grant env act) (\<lambda>_.
     bind_rt (begin_execution env act run) (\<lambda>action_id.
     bind_rt (on_db (cs_mark_delivery action_id (Some NAMESPACE))) (\<lambda>_.
     bind_rt (announce_start env act run task_id) (\<lambda>_. ret (action_id, payload))))))"

text \<open>The call into the application, written to the log before it is made.\<close>

definition log_sent :: "string \<Rightarrow> dict \<Rightarrow> unit rt" where
  "log_sent action_id payload s = (Inr (), s\<lparr>rt_sent := rt_sent s @ [(action_id, payload)]\<rparr>)"

definition hand_over :: "ctl_env \<Rightarrow> string \<Rightarrow> dict \<Rightarrow> unit rt" where
  "hand_over env action_id payload =
     bind_rt (log_sent action_id payload) (\<lambda>_.
       on_app (if dhas payload ''capability'' then c_capability_invoke env payload
               else c_task_submit env payload))"

definition failed_dispatch :: "ctl_env \<Rightarrow> nat \<Rightarrow> nat \<Rightarrow> string \<Rightarrow> unit rt" where
  "failed_dispatch env act run code =
     bind_rt (find_legacy_obj env act) (\<lambda>found.
       case found of
         Some t \<Rightarrow> observe env act run t
       | None \<Rightarrow>
           bind_rt (item act ''dispatched_at'') (\<lambda>dispatched.
             if truthy dispatched then atomic (not_applied env act run (JStr code) NOT_DISPATCHED)
             else atomic (deny env act run (JStr code))))"

definition dispatch_action :: "ctl_env \<Rightarrow> nat \<Rightarrow> nat \<Rightarrow> unit rt" where
  "dispatch_action env act run =
     bind_rt (obj run) (\<lambda>rd.
     bind_rt (from_res (bind_res (dict_item rd ''extensions'') (\<lambda>x. str_item x ''asterun.backend''))) (\<lambda>backend.
     bind_rt (fetch_task run) (\<lambda>task.
     bind_rt (obj task) (\<lambda>td.
     bind_rt (from_res (scope_of env td)) (\<lambda>workspace.
     bind_rt (from_res (workspace_root env workspace)) (\<lambda>root.
     bind_rt (\<lambda>s. (Inr (can_start (ap_sched (rt_app s)) backend (Some root)), s)) (\<lambda>free.
     if \<not> free then ret () else
     bind_rt (from_res (str_item td ''id'')) (\<lambda>task_id.
     bind_rt (catch_asterun
        (bind_rt (atomic (mark_dispatch env act run task_id)) (\<lambda>(action_id, payload).
         bind_rt (hand_over env action_id payload) (\<lambda>_. ret True)))
        (\<lambda>code _. bind_rt (failed_dispatch env act run code) (\<lambda>_. ret False))) (\<lambda>sent.
     if \<not> sent then ret () else
     bind_rt (find_legacy_obj env act) (\<lambda>found.
       case found of None \<Rightarrow> ret () | Some t \<Rightarrow> observe env act run t))))))))))"

section \<open>The loop\<close>

definition ACTION_TERMINAL :: "string list" where
  "ACTION_TERMINAL = [''SUCCEEDED'', ''FAILED'', ''DENIED'', ''CANCELED'']"

text \<open>\<^verbatim>\<open>with transaction(): self._own(action, run)\<close>; a lease held by another executor skips the Action.\<close>

definition try_own :: "ctl_env \<Rightarrow> nat \<Rightarrow> nat \<Rightarrow> bool rt" where
  "try_own env act run =
     catch_asterun (bind_rt (atomic (own env act run)) (\<lambda>_. ret True))
       (\<lambda>code e. if code \<in> {''LEASE_LOST'', ''LEASE_CONFLICT''} then ret False else from_res (Inl e))"

definition advance_owned :: "ctl_env \<Rightarrow> nat \<Rightarrow> nat \<Rightarrow> unit rt" where
  "advance_owned env act run =
     bind_rt (find_legacy_obj env act) (\<lambda>found.
       case found of
         Some t \<Rightarrow> observe env act run t
       | None \<Rightarrow>
           bind_rt (item act ''dispatched_at'') (\<lambda>dispatched.
           if truthy dispatched then
             atomic (not_applied env act run (JStr ''LOCAL_INTENT_ABSENT'') NOT_DISPATCHED)
           else
             bind_rt (item run ''desired_state'') (\<lambda>desired.
             if desired \<noteq> JStr ''RUNNING'' then atomic (undelivered_control env act run)
             else dispatch_action env act run)))"

definition advance_action :: "ctl_env \<Rightarrow> dict \<Rightarrow> unit rt" where
  "advance_action env ad =
     bind_rt (from_res (dict_item ad ''extensions'')) (\<lambda>x.
     if truthy (dget x ''asterun.quality_step'') then ret () else
     bind_rt (from_res (str_item ad ''status'')) (\<lambda>status.
     if status \<in> set ACTION_TERMINAL then ret () else
     bind_rt (from_res (str_item ad ''task_id'')) (\<lambda>task_id.
     bind_rt (get_entity ''Task'' task_id) (\<lambda>td.
     bind_rt (from_res (getitem td ''owner_id'')) (\<lambda>owner.
     if owner \<noteq> JStr (principal_id env) then ret () else
     bind_rt (from_res (str_item ad ''run_id'')) (\<lambda>run_id.
     bind_rt (fetch ''Run'' run_id) (\<lambda>run.
     bind_rt (sitem run ''status'') (\<lambda>run_status.
     if run_status \<in> set CONTROL_TERMINAL then ret () else
     bind_rt (new_obj ad) (\<lambda>act.
     bind_rt (try_own env act run) (\<lambda>mine.
       if mine then advance_owned env act run else ret ()))))))))))"

definition advance :: "ctl_env \<Rightarrow> unit rt" where
  "advance env s =
     (if rt_busy s then (Inr (), s)
      else
        let actions = cs_list ''Action'' NAMESPACE (rt_db s);
            (r, s') = each_rt (advance_action env) actions (s\<lparr>rt_busy := True\<rparr>)
        in (r, s'\<lparr>rt_busy := False\<rparr>))"

section \<open>What the application asks\<close>

text \<open>\<^verbatim>\<open>op.idempotency_key\<close> of an intent made by this runtime: \<^verbatim>\<open>rcp_\<close> and the Run.\<close>

definition control_run_of :: "operation \<Rightarrow> string option" where
  "control_run_of p =
     (if take 4 (o_idempotency_key p) = ''rcp_'' then Some (drop 4 (o_idempotency_key p)) else None)"

definition guard_legacy_dispatch :: "ctl_env \<Rightarrow> task \<Rightarrow> operation \<Rightarrow> unit rt" where
  "guard_legacy_dispatch env t p =
     bind_rt (c_guard_quality env t p) (\<lambda>handled.
     if handled then ret () else
     case control_run_of p of
       None \<Rightarrow> ret ()
     | Some run_id \<Rightarrow>
         bind_rt (fetch ''Run'' run_id) (\<lambda>run.
         bind_rt (read_db (\<lambda>db. Inr (cs_list ''Action'' NAMESPACE db))) (\<lambda>actions.
         bind_rt (from_res (case find (\<lambda>a. dget a ''run_id'' = JStr run_id) actions of
             None \<Rightarrow> Inl RuntimeError | Some a \<Rightarrow> Inr a)) (\<lambda>ad.
         bind_rt (new_obj ad) (\<lambda>act.
         bind_rt (dispatch_guard env act run True) (\<lambda>_.
         bind_rt (obj run) (\<lambda>rd.
         bind_rt (from_res (getitem rd ''workflow_id'')) (\<lambda>workflow.
         if workflow = JStr ''wf_code_change'' then
           from_res (bind_res (dict_item rd ''extensions'') (\<lambda>x.
             bind_res (getitem x ''asterun.capability_plan'') (c_assert_plan env)))
         else ret ()))))))))"

definition may_run :: "dict \<Rightarrow> bool res" where
  "may_run rd =
     bind_res (getitem rd ''desired_state'') (\<lambda>desired.
     bind_res (bind_res (dict_item rd ''control_owner'') (\<lambda>o'. getitem o' ''kind'')) (\<lambda>kind.
       Inr (desired = JStr ''RUNNING'' \<and> kind = JStr ''runner'')))"

definition legacy_may_advance :: "ctl_env \<Rightarrow> operation option \<Rightarrow> bool rt" where
  "legacy_may_advance env op =
     (case op of
        None \<Rightarrow> ret True
      | Some p \<Rightarrow>
          bind_rt (from_res (c_quality_control env p)) (\<lambda>controlled.
            case controlled of
              Some d \<Rightarrow> from_res (may_run d)
            | None \<Rightarrow>
                (case control_run_of p of
                   None \<Rightarrow> ret True
                 | Some run_id \<Rightarrow> bind_rt (get_entity ''Run'' run_id) (\<lambda>rd. from_res (may_run rd)))))"

end
