(* ===== verification/Control_Safety.thy ===== *)
theory Control_Safety
  imports Control_Advance
begin

text \<open>
  What every operation of \<^verbatim>\<open>ControlRuntime\<close> keeps, whatever its environment answers. A
  relation between the state before and after is kept by a composed operation when it is a
  preorder that its parts keep; the locales state what the parts are: silent changes, steps
  of the control store and, for a whole transaction, its rollback. They are interpreted on
  three relations: nothing changes but what is in memory; the database is reached by steps of
  the store and nothing is sent; and what is sent is an Action that was not handed out before
  and is from then on.
\<close>

section \<open>Relations kept by operations\<close>

definition stays :: "(control_state \<Rightarrow> control_state \<Rightarrow> bool) \<Rightarrow> 'a rt \<Rightarrow> bool" where
  "stays R m \<longleftrightarrow> (\<forall>s r s'. m s = (r, s') \<longrightarrow> R s s')"

named_theorems stays_intros \<open>an operation keeps a relation when its parts do\<close>

lemma staysD: "stays R m \<Longrightarrow> m s = (r, s') \<Longrightarrow> R s s'"
  by (auto simp: stays_def)

lemma stays_mono: "stays R m \<Longrightarrow> (\<And>s s'. R s s' \<Longrightarrow> R' s s') \<Longrightarrow> stays R' m"
  by (auto simp: stays_def)

lemma stays_if [stays_intros]: "stays R m \<Longrightarrow> stays R n \<Longrightarrow> stays R (if b then m else n)"
  by simp

lemma stays_option [stays_intros]:
  "stays R m \<Longrightarrow> (\<And>x. stays R (f x)) \<Longrightarrow> stays R (case o' of None \<Rightarrow> m | Some x \<Rightarrow> f x)"
  by (cases o') auto

lemma stays_sum [stays_intros]:
  "(\<And>x. stays R (f x)) \<Longrightarrow> (\<And>x. stays R (g x)) \<Longrightarrow> stays R (case v of Inl x \<Rightarrow> f x | Inr x \<Rightarrow> g x)"
  by (cases v) auto

lemma stays_prod [stays_intros]: "(\<And>a b. stays R (f a b)) \<Longrightarrow> stays R (case p of (a, b) \<Rightarrow> f a b)"
  by (cases p) auto

lemma stays_list [stays_intros]:
  "stays R m \<Longrightarrow> (\<And>x xs. stays R (f x xs)) \<Longrightarrow> stays R (case l of [] \<Rightarrow> m | x # xs \<Rightarrow> f x xs)"
  by (cases l) auto

lemma stays_json [stays_intros]:
  "stays R n \<Longrightarrow> (\<And>b. stays R (f1 b)) \<Longrightarrow> (\<And>i. stays R (f2 i)) \<Longrightarrow> (\<And>t. stays R (f3 t)) \<Longrightarrow>
   (\<And>t. stays R (f4 t)) \<Longrightarrow> (\<And>xs. stays R (f5 xs)) \<Longrightarrow> (\<And>d. stays R (f6 d)) \<Longrightarrow>
   stays R (case v of JNull \<Rightarrow> n | JBool b \<Rightarrow> f1 b | JInt i \<Rightarrow> f2 i | JFloat t \<Rightarrow> f3 t | JStr t \<Rightarrow> f4 t
     | JArr xs \<Rightarrow> f5 xs | JObj d \<Rightarrow> f6 d)"
  by (cases v) auto

text \<open>Operations that only read the database and change what is in memory.\<close>

locale rt_reading =
  fixes R :: "control_state \<Rightarrow> control_state \<Rightarrow> bool"
  assumes silent: "rt_db s' = rt_db s \<Longrightarrow> rt_sent s' = rt_sent s \<Longrightarrow> R s s'"
    and chain: "R s t \<Longrightarrow> R t u \<Longrightarrow> R s u"
begin

lemma stays_bind [stays_intros]: "stays R m \<Longrightarrow> (\<And>x. stays R (f x)) \<Longrightarrow> stays R (bind_rt m f)"
  by (fastforce simp: stays_def bind_rt_def split: prod.splits sum.splits intro: chain)

lemma stays_ret [stays_intros]: "stays R (ret x)"
  by (auto simp: stays_def ret_def intro: silent)

lemma stays_from_res [stays_intros]: "stays R (from_res r)"
  by (auto simp: stays_def from_res_def intro: silent)

lemma stays_read_db [stays_intros]: "stays R (read_db f)"
  by (auto simp: stays_def read_db_def intro: silent)

lemma stays_read_app [stays_intros]: "stays R (read_app f)"
  by (auto simp: stays_def read_app_def intro: silent)

lemma stays_on_app [stays_intros]: "stays R (on_app f)"
  by (auto simp: stays_def on_app_def Let_def split: prod.splits intro: silent)

lemma stays_on_ext [stays_intros]: "stays R (on_ext f)"
  by (auto simp: stays_def on_ext_def Let_def split: prod.splits intro: silent)

lemma stays_new_obj [stays_intros]: "stays R (new_obj d)"
  by (auto simp: stays_def new_obj_def intro: silent)

lemma stays_obj [stays_intros]: "stays R (obj r)"
  by (auto simp: stays_def obj_def intro: silent)

lemma stays_modify [stays_intros]: "stays R (modify r f)"
  by (auto simp: stays_def modify_def split: if_splits intro: silent)

lemma stays_fresh_identifier [stays_intros]: "stays R (fresh_identifier env p)"
  by (auto simp: stays_def fresh_identifier_def intro: silent)

lemma stays_clock [stays_intros]: "stays R (clock env)"
  by (auto simp: stays_def clock_def intro: silent)

lemma stays_catch [stays_intros]:
  "stays R m \<Longrightarrow> (\<And>c e. stays R (h c e)) \<Longrightarrow> stays R (catch_asterun m h)"
  by (fastforce simp: stays_def catch_asterun_def split: prod.splits sum.splits exn.splits intro: chain)

lemma stays_each [stays_intros]: "(\<And>x. stays R (f x)) \<Longrightarrow> stays R (each_rt f xs)"
  by (induction xs) (auto intro: stays_intros)

lemma stays_look [stays_intros]: "stays R (\<lambda>s. (f s, s))"
  by (auto simp: stays_def intro: silent)

lemmas object_defs = item_def sitem_def extension_def set_extension_def append_item_def time_now_def
  lease_deadline_def expired_def make_entity_def entity_def control_owner_def cas_obj_def
  store_clock_def drop_extension_def

lemma stays_object [stays_intros]:
  "stays R (item r k)" "stays R (sitem r k)" "stays R (extension r k)" "stays R (set_extension r k v)"
  "stays R (append_item r k v)" "stays R (time_now env)" "stays R (lease_deadline env)"
  "stays R (expired env v)" "stays R (make_entity env kind p d)" "stays R (entity env kind p d)"
  "stays R (control_owner r)" "stays R (cas_obj r c)" "stays R (store_clock env)"
  "stays R (drop_extension r k)"
  by (unfold object_defs Let_def; intro stays_intros)+

lemmas reading_defs = require_grant_def require_applied_config_def authorize_def get_entity_def fetch_def
  control_task_def control_get_def control_events_def backend_descriptor_def

lemma stays_reading [stays_intros]:
  "stays R (require_grant env i)" "stays R (require_applied_config env)" "stays R (authorize env d a)"
  "stays R (get_entity kind i)" "stays R (fetch kind i)" "stays R (control_task env i a)"
  "stays R (backend_descriptor env i)" "stays R (control_get env kind i)"
  "stays R (control_events env i u v)"
  by (unfold reading_defs Let_def; intro stays_intros)+

lemma stays_command_scope [stays_intros]:
  "stays R (command_scope env m p)" "stays R (replay env m d q old)"
  by (unfold command_scope_def replay_def; intro stays_intros)+

end

text \<open>Operations that also take steps of the control store.\<close>

locale rt_preorder = rt_reading +
  assumes db_step: "control_step sha (rt_db s) db \<Longrightarrow> R s (s\<lparr>rt_db := db\<rparr>)"
begin

lemma stays_on_db:
  "(\<And>db r db'. f db = Inr (r, db') \<Longrightarrow> control_step sha db db') \<Longrightarrow> stays R (on_db f)"
  by (fastforce simp: stays_def on_db_def split: sum.splits prod.splits intro: silent db_step)

lemma stays_store [stays_intros]:
  "stays R (on_db (cs_put d))"
  "stays R (on_db (cs_put_blob h ns c))"
  "stays R (on_db (cs_save_operation d who key t))"
  "stays R (on_db (cs_append_event d))"
  "stays R (on_db (cs_enqueue a ns d))"
  "stays R (on_db (cs_mark_delivery a nso))"
  "stays R (on_db (cs_finish_delivery a nso))"
  "stays R (on_db (cs_claim_lease parse t ns i w e n))"
  "stays R (on_db (cs_release_lease ns i w token))"
  "stays R (on_db (cs_reserve d))"
  "stays R (on_db (cs_settle t ns i am rs))"
  "stays R (on_db (cs_mark_uncertain t ns i))"
  by (rule stays_on_db, erule control_step.intros)+

lemma stays_save [stays_intros]:
  "stays R (save env u r)" "stays R (emit_event env t r ty x)"
  by (unfold save_def emit_event_def; intro stays_intros)+

lemma stays_transition [stays_intros]: "stays R (transition env r st why i)"
  by (unfold transition_def change_state_def; intro stays_intros)

end

text \<open>Operations that end inside one transaction, or with none, are kept as a whole.\<close>

locale rt_atomic = rt_preorder +
  assumes rollback: "R s s' \<Longrightarrow> R s (s'\<lparr>rt_db := rt_db s, rt_ext := x\<rparr>)"
begin

lemma stays_atomic [stays_intros]: "stays R m \<Longrightarrow> stays R (atomic m)"
  by (fastforce simp: stays_def atomic_def split: prod.splits sum.splits intro: rollback)

lemmas part_defs = put_blob_def make_artifact_def make_evidence_def claim_lease_def check_lease_def
  admission_plan_def admit_payload_def execution_context_def make_assignment_def make_grant_def
  make_reservation_def make_action_def run_lease_def admit_plugin_def

lemma stays_part [stays_intros]:
  "stays R (put_blob env t)" "stays R (make_artifact env t u x)" "stays R (make_evidence env t u w y)"
  "stays R (claim_lease env t)" "stays R (check_lease env t u j)" "stays R (admission_plan env d)"
  "stays R (admit_payload env d d' t over j)" "stays R (execution_context env j t)"
  "stays R (make_assignment env t u w z j j' j2)" "stays R (make_grant env t u w j z j' z' j2)"
  "stays R (make_reservation env t u j j')"
  "stays R (make_action env t u w j j' z j2 j3 z' z2 j4 j5 j6 j7)"
  "stays R (run_lease env t u n)" "stays R (admit_plugin env n d j t)"
  by (unfold part_defs Let_def; intro stays_intros)+

lemma stays_admit [stays_intros]: "stays R (admit_action env t r op c ov rl pp)"
  by (unfold admit_action_def; intro stays_intros)

lemmas command_defs = task_create_def task_amend_def start_allowed_def retried_run_def make_run_def
  start_run_def controlled_run_def run_pause_def run_cancel_def resume_control_def run_resume_def
  run_takeover_def give_to_def run_return_control_def or_missing_def state_put_def grant_revoke_def
  upload_def bound_to_def optional_ref_def artifact_register_def artifact_content_def

lemma stays_evidence_belongs [stays_intros]: "stays R (evidence_belongs t is)"
  by (induction "is") (auto intro!: stays_intros)

lemma stays_command [stays_intros]:
  "stays R (task_create env c op)" "stays R (task_amend env c op)" "stays R (start_run env c op b pl)"
  "stays R (run_pause env c op)" "stays R (run_cancel env c op)" "stays R (run_resume env c op)"
  "stays R (run_takeover env c op)" "stays R (run_return_control env c op)"
  "stays R (state_put env c op)" "stays R (grant_revoke env c op)" "stays R (artifact_register env c op)"
  "stays R (upload env t ct)" "stays R (artifact_content env i)" "stays R (give_to env k r)"
  by (unfold command_defs Let_def; intro stays_intros)+

lemma stays_handle [stays_intros]: "stays R (handle_command env m c op)"
  by (unfold handle_command_def; intro stays_intros)

lemma stays_accept [stays_intros]:
  "stays R (accept_new env m d k q t c)"
  by (unfold accept_new_def Let_def; intro stays_intros)

lemma stays_run_command [stays_intros]: "stays R (run_command env c)"
  by (unfold run_command_def accept_or_replay_def; intro stays_intros)

lemmas own_defs = find_legacy_obj_def legacy_action_def release_lease_def lease_fresh_def renew_lease_def
  own_def try_own_def

lemma stays_own [stays_intros]:
  "stays R (find_legacy_obj env n)" "stays R (legacy_action env t)" "stays R (own env n m)"
  "stays R (try_own env n m)"
  by (unfold own_defs Let_def; intro stays_intros)+

lemmas guard_defs = grant_guard_def payload_guard_def admission_guard_def

lemma stays_guard [stays_intros]: "stays R (dispatch_guard env n m b)"
  by (unfold dispatch_guard_def guard_defs; intro stays_intros)

lemmas end_defs = settle_reservation_def finish_delivery_def fetch_assignment_def fetch_task_def receipt_def

lemma stays_end [stays_intros]:
  "stays R (settle_reservation env n i is)" "stays R (finish_delivery n)" "stays R (fetch_assignment n)"
  "stays R (fetch_task n)" "stays R (receipt env n m t)"
  by (unfold end_defs; intro stays_intros)+

lemmas outcome_defs = not_applied_def deny_def transfer_if_requested_def pause_if_needed_def
  undelivered_control_def cancel_not_applied_def remote_unknown_def paused_at_end_def

lemma stays_outcome [stays_intros]:
  "stays R (not_applied env n m j t)" "stays R (deny env n m j)" "stays R (pause_if_needed env n)"
  "stays R (undelivered_control env n m)" "stays R (cancel_not_applied env n m t)"
  "stays R (remote_unknown env n m)" "stays R (paused_at_end env n)"
  by (unfold outcome_defs; intro stays_intros)+

lemma stays_bind_session [stays_intros]: "stays R (bind_session env n m t r)"
  by (unfold bind_session_def update_session_def new_session_def; intro stays_intros)

lemma stays_verify [stays_intros]: "stays R (verify_criteria env td rd r t j vs b is)"
  by (induction vs arbitrary: b "is") (auto intro!: stays_intros)

lemma stays_start [stays_intros]:
  "stays R (use_grant env n)" "stays R (begin_execution env n m)" "stays R (announce_start env n m t)"
  by (unfold use_grant_def begin_execution_def announce_start_def; intro stays_intros)+

lemma stays_mark [stays_intros]: "stays R (mark_dispatch env n m t)"
  by (unfold mark_dispatch_def; intro stays_intros)

lemmas complete_defs = completion_receipt_def settle_success_def complete_canceled_def with_quality_def
  complete_verified_def complete_def

lemmas observe_defs = observe_run_def observe_def app_run_def observed_run_def pin_legacy_def ignore_asterun_def
  push_cancel_def push_reconcile_def record_end_def record_progress_def record_observation_def

lemma stays_complete:
  assumes "\<And>td rd ad. stays R (c_quality_evidence env td rd ad)"
  shows "stays R (complete env n m r)"
  by (unfold complete_defs; intro stays_intros assms)

lemma stays_observe:
  assumes "\<And>td rd ad. stays R (c_quality_evidence env td rd ad)"
    and "\<And>a b t r. stays R (c_quality_progress env a b t r)"
  shows "stays R (observe env n m t)"
  by (unfold observe_defs; intro stays_intros stays_complete assms)

end

section \<open>The relations\<close>

text \<open>No change; some steps of the control store, and nothing handed to the application.\<close>

definition store_step :: "control_db \<Rightarrow> control_db \<Rightarrow> bool" where
  "store_step db db' \<longleftrightarrow> (\<exists>sha. control_step sha db db')"

definition quiet :: "control_state \<Rightarrow> control_state \<Rightarrow> bool" where
  "quiet s s' \<longleftrightarrow> store_step\<^sup>*\<^sup>* (rt_db s) (rt_db s') \<and> rt_sent s' = rt_sent s"

lemma one_store_step: "control_step sha db db' \<Longrightarrow> store_step\<^sup>*\<^sup>* db db'"
  by (rule r_into_rtranclp) (auto simp: store_step_def)

lemma quietI: "control_step sha (rt_db s) db \<Longrightarrow> quiet s (s\<lparr>rt_db := db\<rparr>)"
  by (simp add: quiet_def one_store_step)

definition unchanged :: "control_state \<Rightarrow> control_state \<Rightarrow> bool" where
  "unchanged s s' \<longleftrightarrow> rt_db s' = rt_db s \<and> rt_sent s' = rt_sent s"

interpretation reading: rt_reading unchanged
  by unfold_locales (auto simp: unchanged_def)

interpretation quietly: rt_atomic quiet
proof
  fix s t u :: control_state
  assume "quiet s t" "quiet t u"
  then show "quiet s u" by (auto simp: quiet_def)
qed (auto simp: quiet_def intro: one_store_step)

lemma store_steps_handed_out:
  "store_step\<^sup>*\<^sup>* db db' \<Longrightarrow> handed_out db ns a \<Longrightarrow> handed_out db' ns a"
  by (induction rule: rtranclp_induct) (auto simp: store_step_def intro: control_step_handed_out)

lemma store_steps_op_known:
  "store_step\<^sup>*\<^sup>* db db' \<Longrightarrow> op_known ns who mth key i t db \<Longrightarrow> op_known ns who mth key i t db'"
  by (induction rule: rtranclp_induct) (auto simp: store_step_def intro: control_step_op_known)

text \<open>What is sent is new, and known to have been handed out from then on.\<close>

definition fresh_sends :: "control_state \<Rightarrow> control_state \<Rightarrow> string list \<Rightarrow> bool" where
  "fresh_sends s s' as \<longleftrightarrow>
     map fst (rt_sent s') = map fst (rt_sent s) @ as \<and> distinct as
     \<and> (\<forall>a \<in> set as. \<not> handed_out (rt_db s) NAMESPACE a \<and> handed_out (rt_db s') NAMESPACE a)"

definition sends_once :: "control_state \<Rightarrow> control_state \<Rightarrow> bool" where
  "sends_once s s' \<longleftrightarrow> store_step\<^sup>*\<^sup>* (rt_db s) (rt_db s') \<and> (\<exists>as. fresh_sends s s' as)"

lemma quiet_sends_once: "quiet s s' \<Longrightarrow> sends_once s s'"
  by (auto simp: quiet_def sends_once_def fresh_sends_def)

lemma fresh_sends_trans:
  assumes "fresh_sends s t as" "fresh_sends t u bs"
    and "store_step\<^sup>*\<^sup>* (rt_db s) (rt_db t)" "store_step\<^sup>*\<^sup>* (rt_db t) (rt_db u)"
  shows "fresh_sends s u (as @ bs)"
  using assms store_steps_handed_out by (fastforce simp: fresh_sends_def)

lemma sends_once_trans: "sends_once s t \<Longrightarrow> sends_once t u \<Longrightarrow> sends_once s u"
  unfolding sends_once_def using fresh_sends_trans by (meson rtranclp_trans)

interpretation sending: rt_preorder sends_once
proof
  fix s t u :: control_state
  assume "sends_once s t" "sends_once t u"
  then show "sends_once s u" by (rule sends_once_trans)
next
  fix s :: control_state and db sha
  assume "control_step sha (rt_db s) db"
  then show "sends_once s (s\<lparr>rt_db := db\<rparr>)" by (intro quiet_sends_once quietI)
qed (auto simp: sends_once_def fresh_sends_def)


section \<open>Histories of the runtime\<close>

text \<open>
  The quality runtime, a parameter, writes to the control store through its operations and
  hands no Action to the application through this runtime.
\<close>

definition quality_quiet :: "ctl_env \<Rightarrow> bool" where
  "quality_quiet env \<longleftrightarrow>
     (\<forall>a b t r. stays quiet (c_quality_progress env a b t r))
     \<and> (\<forall>td rd ad. stays quiet (c_quality_evidence env td rd ad))"

lemma stays_quiet_sends: "stays quiet m \<Longrightarrow> stays sends_once m"
  by (erule stays_mono) (rule quiet_sends_once)

lemma bind_rt_Inr_iff:
  "bind_rt m f s = (Inr y, s') \<longleftrightarrow> (\<exists>x s1. m s = (Inr x, s1) \<and> f x s1 = (Inr y, s'))"
  by (auto simp: bind_rt_def split: prod.splits sum.splits)

lemma ret_iff [simp]: "ret x s = (r, s') \<longleftrightarrow> r = Inr x \<and> s' = s"
  by (auto simp: ret_def)

lemma from_res_iff [simp]: "from_res q s = (r, s') \<longleftrightarrow> q = r \<and> s' = s"
  by (auto simp: from_res_def)

lemma read_db_iff [simp]: "read_db f s = (r, s') \<longleftrightarrow> f (rt_db s) = r \<and> s' = s"
  by (auto simp: read_db_def)

lemma on_db_Inr_iff:
  "on_db f s = (Inr x, s') \<longleftrightarrow> (\<exists>db. f (rt_db s) = Inr (x, db) \<and> s' = s\<lparr>rt_db := db\<rparr>)"
  by (auto simp: on_db_def split: sum.splits prod.splits)

lemma mark_delivery_Inr:
  assumes "cs_mark_delivery a (Some ns) db = Inr (d, db')"
  shows "\<not> handed_out db ns a" "handed_out db' ns a"
  using assms
  by (auto simp: cs_mark_delivery_def cs_delivery_def bind_res_Inr_iff handed_out_def set_delivery_def
      outbox_row_def update_conv' split: if_splits option.splits prod.splits)

lemma mark_dispatch_marks:
  assumes "mark_dispatch env act run task_id s = (Inr (i, payload), s')"
  shows "quiet s s'" "\<not> handed_out (rt_db s) NAMESPACE i" "handed_out (rt_db s') NAMESPACE i"
proof -
  from assms obtain x s1 s2 s3 d db where
    guard: "dispatch_guard env act run False s = (Inr payload, s1)" and
    grant: "use_grant env act s1 = (Inr x, s2)" and
    enter: "begin_execution env act run s2 = (Inr i, s3)" and
    mark: "cs_mark_delivery i (Some NAMESPACE) (rt_db s3) = Inr (d, db)" and
    announce: "announce_start env act run task_id (s3\<lparr>rt_db := db\<rparr>) = (Inr (), s')"
    by (auto simp: mark_dispatch_def bind_rt_Inr_iff on_db_Inr_iff)
  have before: "quiet s s3"
    using quietly.stays_guard quietly.stays_start staysD guard grant enter by (meson quietly.chain)
  have step: "quiet s3 (s3\<lparr>rt_db := db\<rparr>)"
    by (rule quietI) (rule step_mark_delivery [OF mark])
  have after: "quiet (s3\<lparr>rt_db := db\<rparr>) s'"
    using quietly.stays_start(3) announce by (rule staysD)
  show "quiet s s'" using before step after quietly.chain by blast
  show "\<not> handed_out (rt_db s) NAMESPACE i"
    using before mark_delivery_Inr(1) [OF mark] store_steps_handed_out by (auto simp: quiet_def)
  show "handed_out (rt_db s') NAMESPACE i"
    using after mark_delivery_Inr(2) [OF mark] store_steps_handed_out by (auto simp: quiet_def)
qed

lemma hand_over_sends:
  "hand_over env i payload s = (r, s') \<Longrightarrow> rt_db s' = rt_db s \<and> rt_sent s' = rt_sent s @ [(i, payload)]"
  by (auto simp: hand_over_def bind_rt_def log_sent_def on_app_def Let_def split: prod.splits)

lemma stays_send:
  "stays sends_once (bind_rt (atomic (mark_dispatch env act run task_id))
     (\<lambda>(i, payload). bind_rt (hand_over env i payload) (\<lambda>_. ret True)))"
  unfolding stays_def
proof (intro allI impI)
  fix s r s'
  assume run: "bind_rt (atomic (mark_dispatch env act run task_id))
     (\<lambda>(i, payload). bind_rt (hand_over env i payload) (\<lambda>_. ret True)) s = (r, s')"
  obtain q s1 where q: "mark_dispatch env act run task_id s = (q, s1)" by fastforce
  show "sends_once s s'"
  proof (cases q)
    case (Inl e)
    with run q have "atomic (mark_dispatch env act run task_id) s = (Inl e, s')"
      by (auto simp: bind_rt_def atomic_def)
    then show ?thesis
      by (intro quiet_sends_once staysD [OF quietly.stays_atomic [OF quietly.stays_mark]])
  next
    case (Inr ip)
    obtain i payload where ip: "ip = (i, payload)" by (cases ip)
    note marks = mark_dispatch_marks [OF q [unfolded Inr ip]]
    obtain r2 s2 where h: "hand_over env i payload s1 = (r2, s2)" by fastforce
    from run q Inr ip h have "s' = s2"
      by (auto simp: bind_rt_def atomic_def split: sum.splits)
    with hand_over_sends [OF h] marks show ?thesis
      by (auto simp: sends_once_def fresh_sends_def quiet_def intro!: exI [of _ "[i]"])
  qed
qed

lemma stays_failed_dispatch:
  "quality_quiet env \<Longrightarrow> stays quiet (failed_dispatch env act run code)"
  unfolding failed_dispatch_def
  by (intro stays_intros quietly.stays_observe; simp add: quality_quiet_def)

lemma stays_dispatch:
  assumes "quality_quiet env"
  shows "stays sends_once (dispatch_action env act run)"
  unfolding dispatch_action_def using assms
  by (intro stays_intros stays_send stays_quiet_sends [OF stays_failed_dispatch]
      stays_quiet_sends [OF quietly.stays_observe] stays_quiet_sends [OF quietly.stays_end(4)]
      stays_quiet_sends [OF quietly.stays_own(1)] stays_quiet_sends [OF quietly.stays_look];
      simp add: quality_quiet_def)

lemma stays_advance_owned:
  assumes "quality_quiet env"
  shows "stays sends_once (advance_owned env act run)"
proof -
  have "stays quiet (observe env act run t)" for t
    using assms by (intro quietly.stays_observe; simp add: quality_quiet_def)
  then show ?thesis
    unfolding advance_owned_def
    by (intro stays_intros stays_dispatch [OF assms] stays_quiet_sends [OF quietly.stays_own(1)]
        stays_quiet_sends [OF quietly.stays_object(1)] stays_quiet_sends [OF quietly.stays_atomic];
        intro stays_intros stays_quiet_sends)
qed

lemma stays_advance_action:
  assumes "quality_quiet env"
  shows "stays sends_once (advance_action env ad)"
  unfolding advance_action_def
  by (intro stays_intros stays_advance_owned [OF assms] stays_quiet_sends [OF quietly.stays_own(4)]
      stays_quiet_sends [OF quietly.stays_object(2)] stays_quiet_sends [OF quietly.stays_reading(4)]
      stays_quiet_sends [OF quietly.stays_reading(5)])

lemma stays_advance:
  assumes "quality_quiet env"
  shows "stays sends_once (advance env)"
  unfolding stays_def
proof (intro allI impI)
  fix s r s'
  assume run: "advance env s = (r, s')"
  obtain q t where loop: "each_rt (advance_action env) (cs_list ''Action'' NAMESPACE (rt_db s)) (s\<lparr>rt_busy := True\<rparr>) = (q, t)"
    by fastforce
  have "stays sends_once (each_rt (advance_action env) (cs_list ''Action'' NAMESPACE (rt_db s)))"
    by (intro stays_intros stays_advance_action [OF assms])
  then have "sends_once (s\<lparr>rt_busy := True\<rparr>) t" using loop by (rule staysD)
  then have t: "sends_once s t" by (simp add: sends_once_def fresh_sends_def)
  with run loop show "sends_once s s'"
    by (auto simp: advance_def Let_def sends_once_def fresh_sends_def split: if_splits)
qed

text \<open>
  Everything that can happen to the runtime, in any order and with any answers of its
  environment: it starts with nothing sent on any database, it accepts a command, it advances,
  and anything else that works on the control store through its operations (uploads, other
  writers, a restart that empties the memory, the application's own progress).
\<close>

inductive control_history :: "control_state \<Rightarrow> bool" where
  begin_history: "rt_sent s = [] \<Longrightarrow> control_history s"
| history_command: "control_history s \<Longrightarrow> run_command env c s = (r1, s') \<Longrightarrow> control_history s'"
| history_advance: "control_history s \<Longrightarrow> quality_quiet env \<Longrightarrow> advance env s = (r2, s') \<Longrightarrow> control_history s'"
| history_other: "control_history s \<Longrightarrow> quiet s s' \<Longrightarrow> control_history s'"

definition sent_once :: "control_state \<Rightarrow> bool" where
  "sent_once s \<longleftrightarrow> distinct (map fst (rt_sent s))
     \<and> (\<forall>a \<in> fst ` set (rt_sent s). handed_out (rt_db s) NAMESPACE a)"

lemma sent_once_step:
  assumes "sent_once s" "sends_once s s'"
  shows "sent_once s'"
proof -
  obtain as where as: "fresh_sends s s' as" and db: "store_step\<^sup>*\<^sup>* (rt_db s) (rt_db s')"
    using assms(2) by (auto simp: sends_once_def)
  have "set (map fst (rt_sent s')) = set (map fst (rt_sent s)) \<union> set as"
    using as by (simp add: fresh_sends_def)
  then show ?thesis
    using assms(1) as store_steps_handed_out [OF db] by (auto simp: sent_once_def fresh_sends_def)
qed

lemma history_sent_once: "control_history s \<Longrightarrow> sent_once s"
proof (induction rule: control_history.induct)
  case (begin_history s)
  then show ?case by (simp add: sent_once_def)
next
  case (history_command s env c r1 s')
  then show ?case
    using staysD [OF quietly.stays_run_command] quiet_sends_once sent_once_step by blast
next
  case (history_advance s env r2 s')
  then show ?case using staysD [OF stays_advance] sent_once_step by blast
next
  case (history_other s s')
  then show ?case using quiet_sends_once sent_once_step by blast
qed

end
