(* ===== verification/Control_Claims.thy ===== *)
theory Control_Claims
  imports Control_Safety
begin

text \<open>
  What \<^verbatim>\<open>ControlRuntime\<close> promises, with a small configuration on which the whole of it runs:
  a task is created, a Run started, and its Action handed to the application.
\<close>

section \<open>A configuration to run\<close>

definition example_payload :: dict where
  "example_payload = [(''workspace'', JStr ''ws''), (''text'', JStr ''do''), (''backend'', JStr ''fake''),
     (''expected_revision'', JInt 1), (''idempotency_key'', JStr ''rcp_run'')]"

definition example_env :: ctl_env where
  "example_env = \<lparr>c_sha = (\<lambda>_. ''h''), c_jcs = (\<lambda>_. Some ''j''), c_schema = (\<lambda>_ _. None),
     c_dumps = (\<lambda>_. ''p''), c_parse = (\<lambda>_. Some (JObj example_payload)),
     c_uuid = (\<lambda>n. replicate n CHR ''u''), c_time = (\<lambda>_. 0),
     c_isoformat = (\<lambda>spec _. if spec = ''auto'' then ''Z'' else ''nowZ''),
     c_iso = (\<lambda>s. Some (if take 3 s = ''now'' then 0 else 60000000, True)),
     c_principal = process_principal ''u'', c_authorize = allow_configured_workspaces [''ws''],
     c_grant = None, c_workspaces = [(''ws'', ''/r'')],
     c_backends = [(''fake'', \<lparr>bi_kind = ''fake'', bi_enabled = True, bi_builtin = True, bi_can_dispatch = True\<rparr>)],
     c_default_backend = JStr ''fake'', c_pick_backend = (\<lambda>_. Inr ''fake''), c_revision = 1,
     c_config_sha = ''cfg'', c_account = ''a'', c_runtime = ''r'', c_worker = ''wrk'', c_locked = True,
     c_admission = None, c_assert_plan = (\<lambda>_. Inr ()), c_task_submit = (\<lambda>_ a. (Inr (), a)),
     c_capability_invoke = (\<lambda>_ a. (Inr (), a)), c_task_cancel = (\<lambda>_ a. (Inr (), a)),
     c_task_reconcile = (\<lambda>_ a. (Inr (), a)), c_quality_progress = (\<lambda>_ _ _ _. ret False),
     c_quality_evidence = (\<lambda>_ _ _. from_res (Inl TypeError)), c_guard_quality = (\<lambda>_ _. ret False),
     c_quality_control = (\<lambda>_. Inr None)\<rparr>"

definition example_command :: "string \<Rightarrow> string \<Rightarrow> int \<Rightarrow> dict \<Rightarrow> dict" where
  "example_command meth key revision params =
     [(''schema_version'', JStr ''runner-control/v1''), (''method'', JStr meth), (''params'', JObj params),
      (''expected_revision'', JInt revision), (''expires_at'', JStr ''later''),
      (''idempotency_key'', JStr key), (''request_id'', JStr ''q'')]"

definition create_command :: dict where
  "create_command = example_command ''task.create'' ''k1'' 0
     [(''bot_instance_id'', JNull), (''title'', JStr ''t''), (''objective'', JStr ''do''),
      (''resource_scopes'', JArr [JObj [(''resource_id'', JStr ''rsc_h''), (''selector'', JNull),
         (''operations'', JArr [JStr ''agent.execute''])]]),
      (''constraints'', JArr []),
      (''acceptance'', JArr [JObj [(''id'', JStr ''c1''), (''required'', JBool True),
         (''validator_id'', JStr ''val_execution''), (''input_artifact_ids'', JArr []),
         (''subject_revision_sha256'', JNull)]]),
      (''budget_limits'', JArr [JObj [(''meter'', JStr ''turns''), (''limit'', JInt 2),
         (''enforcement'', JStr ''hard''), (''billing_pool_ref'', JNull)]])]"

definition start_command :: dict where
  "start_command = example_command ''run.start'' ''k2'' 2
     [(''task_id'', JStr ''tsk_uu''), (''workflow_id'', JStr ''wf_execute''),
      (''workflow_revision'', JInt 1), (''configuration_sha256'', JStr ''cfg'')]"

definition example_app :: app where
  "example_app = \<lparr>ap_store = new_mem_store\<lparr>ms_applied := Some 1\<rparr>,
     ap_sched = new_scheduler \<lparr>max_queue = 1, per_backend_concurrency = 1, max_runs_per_task = 1,
       max_concurrency = None, local_check_concurrency = 1\<rparr>,
     ap_retained = [], ap_poll_epoch = 0, ap_workers = [], ap_calls = [], ap_faults = []\<rparr>"

definition example_start :: control_state where
  "example_start = \<lparr>rt_db = new_control_db, rt_heap = [], rt_ids = 0, rt_ticks = 0, rt_busy = False,
     rt_app = example_app, rt_ext = JNull, rt_sent = []\<rparr>"

section \<open>Evaluating the runtime\<close>

text \<open>The continuation of a step is looked at when the step has its result.\<close>

lemma bind_rt_weak [cong]: "m = m' \<Longrightarrow> bind_rt m f = bind_rt m' f" by simp
lemma catch_asterun_weak [cong]: "m = m' \<Longrightarrow> catch_asterun m f = catch_asterun m' f" by simp
lemma bind_res_weak [cong]: "m = m' \<Longrightarrow> bind_res m f = bind_res m' f" by simp

lemma example_env_simps [simp]:
  "c_sha example_env = (\<lambda>_. ''h'')"
  "c_jcs example_env = (\<lambda>_. Some ''j'')"
  "c_schema example_env = (\<lambda>_ _. None)"
  "c_dumps example_env = (\<lambda>_. ''p'')"
  "c_parse example_env = (\<lambda>_. Some (JObj example_payload))"
  "c_uuid example_env = (\<lambda>n. replicate n CHR ''u'')"
  "c_time example_env = (\<lambda>_. 0)"
  "c_isoformat example_env = (\<lambda>spec _. if spec = ''auto'' then ''Z'' else ''nowZ'')"
  "c_iso example_env = (\<lambda>s. Some (if take 3 s = ''now'' then 0 else 60000000, True))"
  "c_principal example_env = process_principal ''u''"
  "c_authorize example_env = allow_configured_workspaces [''ws'']"
  "c_grant example_env = None"
  "c_workspaces example_env = [(''ws'', ''/r'')]"
  "c_backends example_env = [(''fake'', \<lparr>bi_kind = ''fake'', bi_enabled = True, bi_builtin = True, bi_can_dispatch = True\<rparr>)]"
  "c_default_backend example_env = JStr ''fake''"
  "c_pick_backend example_env = (\<lambda>_. Inr ''fake'')"
  "c_revision example_env = 1"
  "c_config_sha example_env = ''cfg''"
  "c_account example_env = ''a''"
  "c_runtime example_env = ''r''"
  "c_worker example_env = ''wrk''"
  "c_locked example_env = True"
  "c_admission example_env = None"
  "c_assert_plan example_env = (\<lambda>_. Inr ())"
  "c_task_submit example_env = (\<lambda>_ a. (Inr (), a))"
  "c_capability_invoke example_env = (\<lambda>_ a. (Inr (), a))"
  "c_task_cancel example_env = (\<lambda>_ a. (Inr (), a))"
  "c_task_reconcile example_env = (\<lambda>_ a. (Inr (), a))"
  "c_quality_progress example_env = (\<lambda>_ _ _ _. ret False)"
  "c_quality_evidence example_env = (\<lambda>_ _ _. from_res (Inl TypeError))"
  "c_guard_quality example_env = (\<lambda>_ _. ret False)"
  "c_quality_control example_env = (\<lambda>_. Inr None)"
  by (simp_all add: example_env_def)

lemmas eval_rt = atomic_def Let_def bind_rt_def ret_def from_res_def on_db_def read_db_def read_app_def
  on_app_def catch_asterun_def new_obj_def obj_def modify_def item_def sitem_def dict_res_def list_res_def
  dict_item_def list_item_def extension_def set_extension_def MAX_COMMAND_BYTES_def check_json_def
  loads_def jcs_dumps_def validate_def jdigest_def TRANSITIONS_def next_states_def identifier_for_def
  fresh_identifier_def clock_def stamp_def time_now_def instant_def instant_le_def expired_def
  iso_of_store_def NAMESPACE_def principal_id_def make_entity_def save_def no_args_def emit_event_def
  transition_def scope_of_def require_grant_def require_applied_config_def authorize_def get_entity_def
  fetch_def control_task_def store_clock_def check_lease_def workspace_root_def first_scope_def
  action_digest_def lease_fresh_def own_def try_own_def plan_asserted_def run_guard_def first_grant_def
  grant_guard_def payload_guard_def admission_guard_def dispatch_guard_def fetch_assignment_def fetch_task_def
  use_grant_def begin_execution_def announce_start_def

lemmas eval_store = str_item_def int_item_def cs_get_def cs_put_def cs_put_raw_def cs_list_def cs_get_blob_def
  stream_of_def cs_append_event_def cs_delivery_def outbox_row_def set_delivery_def cs_mark_delivery_def
  or_now_def lease_time_def cs_check_lease_def canon_dict_def zulu_def enforce_def enforce_grant_def
  allow_configured_workspaces_def process_principal_def new_control_db_def Control_Store.MAX_INT_def
  new_mem_store_def new_scheduler_def can_start_def inflight_for_def inflight_total_def ms_list_task_ids_def
  find_legacy_obj_def find_legacy_def example_start_def example_app_def example_payload_def

text \<open>An Action that is ready to be handed over, and the states on the way.\<close>

definition ready_task :: dict where
  "ready_task = [(''kind'', JStr ''Task''), (''id'', JStr ''t''), (''owner_id'', JStr ''prn_h''),
     (''contract_revision'', JInt 1), (''resource_scopes'', JArr [JObj [(''operations'', JArr [JStr ''agent.execute'']),
        (''resource_id'', JStr ''rsc_h''), (''selector'', JNull)]])]"

definition ready_run :: dict where
  "ready_run = [(''kind'', JStr ''Run''), (''id'', JStr ''r''), (''task_id'', JStr ''t''), (''status'', JStr ''PREPARING''),
     (''desired_state'', JStr ''RUNNING''), (''control_owner'', JObj [(''kind'', JStr ''runner'')]),
     (''configuration_sha256'', JStr ''cfg''), (''contract_revision'', JInt 1), (''workflow_id'', JStr ''wf_execute''),
     (''lease'', JObj [(''holder_id'', JStr ''wrk''), (''expires_at'', JStr ''Z''), (''fencing_token'', JInt 1)]),
     (''extensions'', JObj [(''asterun.backend'', JStr ''fake'')])]"

definition ready_action :: dict where
  "ready_action = [(''kind'', JStr ''Action''), (''id'', JStr ''a''), (''task_id'', JStr ''t''), (''run_id'', JStr ''r''),
     (''status'', JStr ''EXECUTING''), (''assignment_id'', JStr ''g''), (''dispatched_at'', JNull),
     (''grant_ids'', JArr [JStr ''q'']), (''parameters_artifact_id'', JStr ''p''), (''parameters_sha256'', JStr ''h''),
     (''action_sha256'', JStr ''h''), (''capability_id'', JStr ''cap_submit_turn''), (''fencing_token'', JInt 1),
     (''extensions'', JObj [])]"

definition ready_grant :: "int \<Rightarrow> int \<Rightarrow> json \<Rightarrow> dict" where
  "ready_grant used n t = [(''kind'', JStr ''Grant''), (''id'', JStr ''q''), (''namespace_id'', JStr NAMESPACE),
     (''status'', JStr ''ACTIVE''),
     (''expires_at'', JStr ''later''), (''subject_id'', JStr ''prn_h''), (''bound_action_sha256'', JStr ''h''),
     (''used_count'', JInt used), (''max_uses'', JInt 1), (''revision'', JInt n), (''updated_at'', t)]"

definition ready_assignment :: dict where
  "ready_assignment = [(''kind'', JStr ''Assignment''), (''id'', JStr ''g''), (''status'', JStr ''RUNNING'')]"

definition ready_db :: "dict \<Rightarrow> string \<Rightarrow> control_db" where
  "ready_db grant st = new_control_db\<lparr>ct_entities :=
       [((NAMESPACE, ''Task'', ''t''), ready_task), ((NAMESPACE, ''Run'', ''r''), ready_run),
        ((NAMESPACE, ''Action'', ''a''), ready_action), ((NAMESPACE, ''Grant'', ''q''), grant),
        ((NAMESPACE, ''Assignment'', ''g''), ready_assignment),
        ((NAMESPACE, ''Artifact'', ''p''), [(''sha256'', JStr ''h'')])],
     ct_leases := [((NAMESPACE, ''r''), \<lparr>ls_holder = Some ''wrk'', ls_expires = ''Z'', ls_token = 1\<rparr>)],
     ct_blobs := [((NAMESPACE, ''h''), ''p'')],
     ct_outbox := [((NAMESPACE, ''a''), (JObj [], st))]\<rparr>"

definition ready :: control_state where
  "ready = example_start\<lparr>rt_db := ready_db (ready_grant 0 1 JNull) ''PENDING''\<rparr>"

definition ready1 :: control_state where
  "ready1 = ready\<lparr>rt_busy := True, rt_heap := [ready_run, ready_action], rt_ticks := 2\<rparr>"

definition ready2 :: control_state where
  "ready2 = ready1\<lparr>rt_heap := [ready_run, ready_action, ready_task]\<rparr>"

definition ready3 :: control_state where
  "ready3 = ready2\<lparr>rt_heap := [ready_run, ready_action, ready_task, ready_task], rt_ticks := 5\<rparr>"

definition used_grant :: dict where
  "used_grant = dupdate (ready_grant 0 1 JNull) 
     [(''used_count'', JInt 1), (''revision'', JInt 2), (''updated_at'', JStr ''nowZ'')]"

definition ready4 :: control_state where
  "ready4 = ready3\<lparr>rt_heap := rt_heap ready3 @ [used_grant], rt_db := ready_db (canon_dict used_grant) ''PENDING'', rt_ticks := 6\<rparr>"

definition ready5 :: control_state where
  "ready5 = ready4\<lparr>rt_heap := (rt_heap ready4)[1 := dset ready_action ''dispatched_at'' (JStr ''nowZ'')], rt_ticks := 7\<rparr>"

definition ready6 :: control_state where
  "ready6 = ready5\<lparr>rt_db := ready_db (canon_dict used_grant) ''DELIVERING''\<rparr>"

lemmas ready_defs = ready_def ready1_def ready2_def ready3_def ready4_def ready5_def ready6_def
  ready_action_def ready_run_def ready_db_def ready_grant_def ready_task_def ready_assignment_def used_grant_def

lemma ready_own:
  "try_own example_env 1 0 (ready\<lparr>rt_busy := True, rt_heap := [ready_run, ready_action]\<rparr>) = (Inr True, ready1)"
  by (simp add: eval_rt eval_store ready_defs)

lemma ready_guard: "dispatch_guard example_env 1 0 False ready2 = (Inr example_payload, ready3)"
  by (simp add: eval_rt eval_store ready_defs)

lemma ready_use: "use_grant example_env 1 ready3 = (Inr (), ready4)"
  by (simp add: eval_rt eval_store ready_defs)

lemma ready_begin: "begin_execution example_env 1 0 ready4 = (Inr ''a'', ready5)"
  by (simp add: eval_rt eval_store ready_defs)

lemma ready_mark: "\<exists>d. on_db (cs_mark_delivery ''a'' (Some NAMESPACE)) ready5 = (Inr d, ready6)"
  by (simp add: eval_rt eval_store ready_defs)

lemma ready_announce: "fst (announce_start example_env 1 0 ''t'' ready6) = Inr ()"
  by (simp add: eval_rt eval_store ready_defs)

lemma ready_dispatch: "\<exists>s'. mark_dispatch example_env 1 0 ''t'' ready2 = (Inr (''a'', example_payload), s')"
proof -
  obtain s' where "announce_start example_env 1 0 ''t'' ready6 = (Inr (), s')"
    using ready_announce by (metis prod.collapse)
  with ready_guard ready_use ready_begin ready_mark show ?thesis
    unfolding mark_dispatch_def bind_rt_Inr_iff by (metis ret_iff)
qed

section \<open>At most one delivery\<close>

text \<open>A dispatch whose marks are written is in the log, whatever follows.\<close>

lemma sent_by_dispatch:
  assumes "mark_dispatch env act run t s = (Inr (i, payload), s1)"
    and "\<And>c e. stays quiet (h c e)" and "\<And>b. stays quiet (k b)"
  shows "rt_sent (snd (bind_rt (catch_asterun
      (bind_rt (atomic (mark_dispatch env act run t))
        (\<lambda>(i, payload). bind_rt (hand_over env i payload) (\<lambda>_. ret True))) h) k s))
    = rt_sent s @ [(i, payload)]"
proof -
  have same: "rt_sent t' = rt_sent t" if "stays quiet m" "m t = (r, t')" for m :: "'x rt" and t r t'
    using staysD [OF that] by (simp add: quiet_def)
  obtain r2 s2 where h: "hand_over env i payload s1 = (r2, s2)" by fastforce
  have sent: "rt_sent s2 = rt_sent s @ [(i, payload)]"
    using hand_over_sends [OF h] mark_dispatch_marks(1) [OF assms(1)] by (simp add: quiet_def)
  have tail: "rt_sent (snd (k b u)) = rt_sent u" for b u
    using same [OF assms(3), of b u] by (metis prod.collapse)
  have caught: "rt_sent (snd (h c e u)) = rt_sent u" for c e u
    using same [OF assms(2), of c e u] by (metis prod.collapse)
  show ?thesis
  proof (cases r2)
    case (Inr x)
    with assms(1) h sent tail show ?thesis
      by (simp add: bind_rt_def catch_asterun_def atomic_def ret_def)
  next
    case (Inl e)
    show ?thesis
    proof (cases "\<exists>c d. e = AsterunError c d")
      case True
      then obtain c d q u where e: "e = AsterunError c d" and q: "h c e s2 = (q, u)" by (metis surj_pair)
      with caught [of c e s2] have "rt_sent u = rt_sent s2" by simp
      with assms(1) h sent tail Inl e q show ?thesis
        by (cases q) (simp_all add: bind_rt_def catch_asterun_def atomic_def)
    next
      case False
      then have "catch_asterun (\<lambda>_. (Inl e, s2)) h s = (Inl e, s2)"
        by (cases e) (auto simp: catch_asterun_def)
      with assms(1) h sent Inl show ?thesis
        by (simp add: bind_rt_def catch_asterun_def atomic_def)
    qed
  qed
qed

lemma example_quality: "quality_quiet example_env"
  by (simp add: quality_quiet_def quietly.stays_ret quietly.stays_from_res)

lemma bind_rt_ok: "m s = (Inr x, s1) \<Longrightarrow> bind_rt m f s = f x s1"
  by (simp add: bind_rt_def)

lemma ready_steps:
  "obj 0 ready1 = (Inr ready_run, ready1)"
  "from_res (bind_res (dict_item ready_run ''extensions'') (\<lambda>x. str_item x ''asterun.backend'')) ready1
     = (Inr ''fake'', ready1)"
  "fetch_task 0 ready1 = (Inr 2, ready2)" "obj 2 ready2 = (Inr ready_task, ready2)"
  "from_res (scope_of example_env ready_task) ready2 = (Inr ''ws'', ready2)"
  "from_res (workspace_root example_env ''ws'') ready2 = (Inr ''/r'', ready2)"
  "can_start (ap_sched (rt_app ready2)) ''fake'' (Some ''/r'')"
  "from_res (str_item ready_task ''id'') ready2 = (Inr ''t'', ready2)"
  by (simp_all add: eval_rt eval_store ready_defs del: from_res_iff)

lemma ready_hand_over: "rt_sent (snd (dispatch_action example_env 1 0 ready1)) = [(''a'', example_payload)]"
proof -
  obtain s' where m: "mark_dispatch example_env 1 0 ''t'' ready2 = (Inr (''a'', example_payload), s')"
    using ready_dispatch by blast
  have quiet_rest: "stays quiet (if \<not> b then ret () else bind_rt (find_legacy_obj example_env 1)
      (\<lambda>found. case found of None \<Rightarrow> ret () | Some t \<Rightarrow> observe example_env 1 0 t))" for b
    using example_quality
    by (intro stays_intros quietly.stays_observe; simp add: quality_quiet_def)
  have quiet_catch: "stays quiet (bind_rt (failed_dispatch example_env 1 0 c) (\<lambda>_. ret False))" for c
    by (intro stays_intros stays_failed_dispatch example_quality)
  have "rt_sent ready2 = []" by (simp add: ready_defs example_start_def)
  then show ?thesis
    using sent_by_dispatch [OF m, where h = "\<lambda>c _. bind_rt (failed_dispatch example_env 1 0 c) (\<lambda>_. ret False)",
        OF quiet_catch quiet_rest]
    unfolding dispatch_action_def by (simp add: bind_rt_ok ready_steps)
qed

lemma ready_found:
  "find_legacy_obj example_env 1 ready1 = (Inr None, ready1)"
  "item 1 ''dispatched_at'' ready1 = (Inr JNull, ready1)"
  "item 0 ''desired_state'' ready1 = (Inr (JStr ''RUNNING''), ready1)"
  by (simp_all add: eval_rt eval_store ready_defs)

lemma ready_owned: "advance_owned example_env 1 0 ready1 = dispatch_action example_env 1 0 ready1"
  unfolding advance_owned_def by (simp only: bind_rt_ok ready_found option.case truthy.simps if_False simp_thms)

definition ready0 :: control_state where
  "ready0 = ready\<lparr>rt_busy := True\<rparr>"

lemma ready_taken:
  "from_res (dict_item ready_action ''extensions'') ready0 = (Inr [], ready0)"
  "from_res (str_item ready_action ''status'') ready0 = (Inr ''EXECUTING'', ready0)"
  "from_res (str_item ready_action ''task_id'') ready0 = (Inr ''t'', ready0)"
  "get_entity ''Task'' ''t'' ready0 = (Inr ready_task, ready0)"
  "from_res (getitem ready_task ''owner_id'') ready0 = (Inr (JStr (principal_id example_env)), ready0)"
  "from_res (str_item ready_action ''run_id'') ready0 = (Inr ''r'', ready0)"
  "fetch ''Run'' ''r'' ready0 = (Inr 0, ready0\<lparr>rt_heap := [ready_run]\<rparr>)"
  "sitem 0 ''status'' (ready0\<lparr>rt_heap := [ready_run]\<rparr>) = (Inr ''PREPARING'', ready0\<lparr>rt_heap := [ready_run]\<rparr>)"
  "new_obj ready_action (ready0\<lparr>rt_heap := [ready_run]\<rparr>)
     = (Inr 1, ready\<lparr>rt_busy := True, rt_heap := [ready_run, ready_action]\<rparr>)"
  by (simp_all add: eval_rt eval_store ready_defs ready0_def del: from_res_iff)

lemma ready_action_advances:
  "advance_action example_env ready_action ready0 = dispatch_action example_env 1 0 ready1"
  unfolding advance_action_def
  by (simp add: bind_rt_ok ready_taken ready_own ready_owned ACTION_TERMINAL_def CONTROL_TERMINAL_def
      del: One_nat_def)

lemma ready_advance: "map fst (rt_sent (snd (advance example_env ready))) = [''a'']"
proof -
  have one: "cs_list ''Action'' NAMESPACE (rt_db ready) = [ready_action]"
    by (simp add: eval_rt eval_store ready_defs)
  have "rt_busy ready = False" by (simp add: ready_defs example_start_def)
  with one ready_action_advances ready_hand_over show ?thesis
    by (auto simp: advance_def Let_def bind_rt_def ret_def ready0_def split: prod.splits sum.splits)
qed

text \<open>
  C3. An Action is handed to the application at most once: in every history of the runtime
  (commands, progress loops, restarts and other writers in any order, with any answers of
  the environment, with failures in the middle of any operation), the Actions in the log are
  distinct, and the delivery mark of each of them is in the database, so that no later
  progress loop can hand it over again.
\<close>

theorem control_dispatch_once:
  assumes "control_history s"
  shows "distinct (map fst (rt_sent s)) \<and> (\<forall>a \<in> fst ` set (rt_sent s). handed_out (rt_db s) NAMESPACE a)"
  using history_sent_once [OF assms] by (simp add: sent_once_def)

theorem control_dispatch_once_witness:
  "\<exists>s. control_history s \<and> map fst (rt_sent s) = [''a''] \<and> handed_out (rt_db s) NAMESPACE ''a''"
proof -
  obtain r s where s: "advance example_env ready = (r, s)" by fastforce
  have "control_history ready" by (rule begin_history) (simp add: ready_def example_start_def)
  then have hist: "control_history s" using example_quality s by (rule history_advance)
  have sent: "map fst (rt_sent s) = [''a'']" using ready_advance s by simp
  then have "''a'' \<in> fst ` set (rt_sent s)" by (metis list.set_intros(1) set_map)
  with control_dispatch_once [OF hist] have "handed_out (rt_db s) NAMESPACE ''a''" by blast
  with hist sent show ?thesis by (intro exI [of _ s]) simp
qed

section \<open>A dispatch is authorized\<close>

lemma control_task_Inr:
  assumes "control_task env i act s = (Inr r, s')"
  shows "\<exists>d. cs_get ''Task'' i NAMESPACE (rt_db s) = Inr d \<and> rt_heap s' = rt_heap s @ [d] \<and> r = length (rt_heap s)
    \<and> rt_db s' = rt_db s \<and> rt_app s' = rt_app s \<and> rt_ext s' = rt_ext s \<and> rt_ticks s' = rt_ticks s + 1
    \<and> getitem d ''owner_id'' = Inr (JStr (principal_id env))"
  using assms
  by (auto simp: control_task_def fetch_def get_entity_def authorize_def require_grant_def clock_def new_obj_def
      obj_def bind_rt_Inr_iff split: if_splits)

lemma obj_iff: "obj r s = (Inr d, s') \<longleftrightarrow> r < length (rt_heap s) \<and> d = rt_heap s ! r \<and> s' = s"
  by (auto simp: obj_def)

lemma sitem_Inr: "sitem r k s = (Inr x, s') \<Longrightarrow> s' = s \<and> r < length (rt_heap s) \<and> str_item (rt_heap s ! r) k = Inr x"
  by (auto simp: sitem_def bind_rt_Inr_iff obj_iff)

text \<open>Reading the clock and the plugin's guard leave the memory and the database alone.\<close>

definition same_core :: "control_state \<Rightarrow> control_state \<Rightarrow> bool" where
  "same_core s s' \<longleftrightarrow> rt_db s' = rt_db s \<and> rt_heap s' = rt_heap s \<and> rt_app s' = rt_app s"

lemma on_ext_iff: "on_ext f s = (r, s') \<longleftrightarrow> (\<exists>x. f (rt_ext s) = (r, x) \<and> s' = s\<lparr>rt_ext := x\<rparr>)"
  by (cases "f (rt_ext s)") (auto simp: on_ext_def Let_def)

lemma admission_guard_core:
  "admission_guard env d s = (Inr x, s') \<Longrightarrow> same_core s s' \<and> rt_ticks s' = rt_ticks s"
  by (auto simp: admission_guard_def same_core_def on_ext_iff bind_rt_Inr_iff split: option.splits)

lemma expired_core: "expired env v s = (Inr b, s') \<Longrightarrow> same_core s s'"
  by (auto simp: expired_def same_core_def time_now_def clock_def bind_rt_Inr_iff)

text \<open>
  The lease of the Run, held by this worker under the token and not yet over at the reading
  of the clock with number \<open>tick\<close>.
\<close>

definition holds_lease :: "ctl_env \<Rightarrow> nat \<Rightarrow> string \<Rightarrow> json \<Rightarrow> control_db \<Rightarrow> bool" where
  "holds_lease env tick run_id token db \<longleftrightarrow>
     (\<exists>row until now. map_of (ct_leases db) (NAMESPACE, run_id) = Some row
        \<and> ls_holder row = Some (c_worker env) \<and> as_int token = Some (ls_token row)
        \<and> lease_time (iso_of_store env) (ls_expires row) = Inr until
        \<and> lease_time (iso_of_store env) (stamp env ''microseconds'' (c_time env tick)) = Inr now \<and> now < until)"

lemma check_lease_Inr:
  assumes "check_lease env i (c_worker env) token s = (Inr x, s')"
  shows "same_core s s' \<and> rt_ticks s' = rt_ticks s + 1 \<and> holds_lease env (rt_ticks s) i token (rt_db s)"
proof -
  from assms obtain row where
    row: "cs_check_lease (iso_of_store env) (stamp env ''microseconds'' (c_time env (rt_ticks s))) NAMESPACE i
        (c_worker env) token None (rt_db s) = Inr row" and s': "s' = s\<lparr>rt_ticks := Suc (rt_ticks s)\<rparr>"
    by (auto simp: check_lease_def store_clock_def clock_def bind_rt_Inr_iff)
  have "holds_lease env (rt_ticks s) i token (rt_db s)"
    using row by (auto simp: cs_check_lease_def holds_lease_def or_now_def bind_res_Inr_iff not_le
        split: option.splits if_splits)
  then show ?thesis by (simp add: s' same_core_def)
qed

text \<open>
  A grant for this Action: active, of this principal, bound to the digest, unused, and not
  yet over at the reading of the clock with number \<open>tick\<close>.
\<close>

definition grant_allows :: "ctl_env \<Rightarrow> nat \<Rightarrow> dict \<Rightarrow> dict \<Rightarrow> bool" where
  "grant_allows env tick act grant \<longleftrightarrow>
     getitem grant ''status'' = Inr (JStr ''ACTIVE'')
     \<and> getitem grant ''subject_id'' = Inr (JStr (principal_id env))
     \<and> getitem grant ''bound_action_sha256'' = getitem act ''action_sha256''
     \<and> (\<exists>used uses. int_item grant ''used_count'' = Inr used \<and> int_item grant ''max_uses'' = Inr uses \<and> used < uses)
     \<and> (\<exists>expires t u. getitem grant ''expires_at'' = Inr expires \<and> instant env expires = Inr t
          \<and> instant env (JStr (stamp env ''milliseconds'' (c_time env tick))) = Inr u
          \<and> snd u = snd t \<and> fst u < fst t)"

lemma expired_False:
  "expired env v s = (Inr False, s') \<Longrightarrow>
   \<exists>t u. instant env v = Inr t \<and> instant env (JStr (stamp env ''milliseconds'' (c_time env (rt_ticks s)))) = Inr u
     \<and> snd u = snd t \<and> fst u < fst t"
  by (fastforce simp: expired_def time_now_def clock_def bind_rt_Inr_iff instant_le_def split: if_splits)

lemma grant_guard_allows:
  assumes "grant_guard env act grant False s = (Inr x, s')"
  shows "grant_allows env (rt_ticks s) act grant \<and> same_core s s'"
proof -
  from assms obtain expires used uses where g:
    "getitem grant ''status'' = Inr (JStr ''ACTIVE'')"
    "getitem grant ''subject_id'' = Inr (JStr (principal_id env))"
    "getitem grant ''bound_action_sha256'' = getitem act ''action_sha256''"
    "int_item grant ''used_count'' = Inr used" "int_item grant ''max_uses'' = Inr uses" "used < uses"
    "getitem grant ''expires_at'' = Inr expires" and e: "expired env expires s = (Inr False, s')"
    by (auto simp: grant_guard_def bind_rt_Inr_iff split: if_splits)
  with expired_False [OF e] expired_core [OF e] show ?thesis by (auto simp: grant_allows_def)
qed

definition payload_matches :: "ctl_env \<Rightarrow> dict \<Rightarrow> dict \<Rightarrow> dict \<Rightarrow> dict \<Rightarrow> bool" where
  "payload_matches env task act run payload \<longleftrightarrow>
     (\<exists>d. jdigest env (JObj payload) = Inr d \<and> getitem act ''parameters_sha256'' = Inr (JStr d))
     \<and> (\<exists>capability h. str_item act ''capability_id'' = Inr capability
          \<and> action_digest env capability (JObj payload) task run = Inr h
          \<and> getitem act ''action_sha256'' = Inr (JStr h))"

lemma payload_guard_matches:
  assumes "payload_guard env task act run s = (Inr payload, s')"
  shows "payload_matches env task act run payload"
  using assms
  by (auto simp: payload_guard_def payload_matches_def get_entity_def bind_rt_Inr_iff dict_res_def
      split: if_splits json.splits)

lemma run_guard_Inr:
  assumes "run_guard env task act run = Inr x"
  shows "getitem run ''desired_state'' = Inr (JStr ''RUNNING'')"
    and "getitem run ''configuration_sha256'' = Inr (JStr (c_config_sha env))"
    and "\<exists>n. getitem task ''contract_revision'' = Inr n \<and> getitem run ''contract_revision'' = Inr n"
    and "\<exists>lease token. dict_item run ''lease'' = Inr lease \<and> getitem lease ''holder_id'' = Inr (JStr (c_worker env))
      \<and> getitem lease ''fencing_token'' = Inr token \<and> getitem act ''fencing_token'' = Inr token"
    and "\<exists>owner. dict_item run ''control_owner'' = Inr owner \<and> getitem owner ''kind'' = Inr (JStr ''runner'')"
  using assms by (auto simp: run_guard_def bind_res_Inr_iff split: if_splits)

lemma dispatch_guard_Inr:
  assumes "dispatch_guard env act run False s = (Inr payload, s')" and "act < length (rt_heap s)"
  defines "rd \<equiv> rt_heap s ! run" and "ad \<equiv> rt_heap s ! act"
  shows "\<exists>task_id task run_id lease token grant_id grant.
      str_item rd ''task_id'' = Inr task_id \<and> cs_get ''Task'' task_id NAMESPACE (rt_db s) = Inr task
      \<and> getitem task ''owner_id'' = Inr (JStr (principal_id env))
      \<and> ms_applied (ap_store (rt_app s)) = Some (c_revision env)
      \<and> run_guard env task ad rd = Inr ()
      \<and> str_item rd ''id'' = Inr run_id \<and> dict_item rd ''lease'' = Inr lease
      \<and> getitem lease ''fencing_token'' = Inr token \<and> holds_lease env (rt_ticks s + 1) run_id token (rt_db s)
      \<and> first_grant ad = Inr grant_id \<and> cs_get ''Grant'' grant_id NAMESPACE (rt_db s) = Inr grant
      \<and> grant_allows env (rt_ticks s + 2) ad grant \<and> payload_matches env task ad rd payload"
proof -
  from assms(1) obtain task_id s1 task s2 td ad' s3 x4 s4 s5 rd' run_id lease token s6 grant_id grant s7 where
    t: "sitem run ''task_id'' s = (Inr task_id, s1)" and
    c: "control_task env task_id ''run.start'' s1 = (Inr task, s2)" and
    td: "obj task s2 = (Inr td, s2)" and
    ad: "obj act s2 = (Inr ad', s2)" and
    g: "admission_guard env ad' s2 = (Inr x4, s3)" and
    rc: "require_applied_config env s3 = (Inr (), s4)" and
    rd: "obj run s4 = (Inr rd', s4)" and
    rg: "run_guard env td ad' rd' = Inr ()" and
    i: "str_item rd' ''id'' = Inr run_id" and
    l: "dict_item rd' ''lease'' = Inr lease" "getitem lease ''fencing_token'' = Inr token" and
    cl: "check_lease env run_id (c_worker env) token s4 = (Inr (), s5)" and
    fg: "first_grant ad' = Inr grant_id" and
    gr: "cs_get ''Grant'' grant_id NAMESPACE (rt_db s5) = Inr grant" and
    gg: "grant_guard env ad' grant False s5 = (Inr (), s6)" and
    p: "payload_guard env td ad' rd' s6 = (Inr payload, s')"
    by (auto simp: dispatch_guard_def bind_rt_Inr_iff bind_res_Inr_iff get_entity_def obj_iff)
  have s1: "s1 = s" and run: "run < length (rt_heap s)" "str_item rd ''task_id'' = Inr task_id"
    using sitem_Inr [OF t] by (auto simp: rd_def)
  from control_task_Inr [OF c] obtain d where d: "cs_get ''Task'' task_id NAMESPACE (rt_db s) = Inr d"
    "rt_heap s2 = rt_heap s @ [d]" "task = length (rt_heap s)" "rt_db s2 = rt_db s" "rt_app s2 = rt_app s"
    "getitem d ''owner_id'' = Inr (JStr (principal_id env))"
    unfolding s1 by blast
  have s4: "s4 = s3" "ms_applied (ap_store (rt_app s3)) = Some (c_revision env)"
    using rc by (auto simp: require_applied_config_def read_app_def split: if_splits)
  have ticks: "rt_ticks s2 = rt_ticks s + 1" using control_task_Inr [OF c] s1 by auto
  have core: "same_core s2 s3" "same_core s3 s5" "holds_lease env (rt_ticks s + 1) run_id token (rt_db s3)"
    and last: "rt_ticks s5 = rt_ticks s + 2"
    using admission_guard_core [OF g] check_lease_Inr [OF cl] s4 ticks by auto
  have "td = d" "ad' = ad" "rd' = rd"
    using td ad rd d run assms(2) core s4 by (auto simp: obj_iff same_core_def nth_append ad_def rd_def)
  with d run s4 core rg i l fg gr grant_guard_allows [OF gg, unfolded last] payload_guard_matches [OF p]
  show ?thesis by (auto simp: same_core_def intro!: exI [of _ task_id])
qed

text \<open>
  C4. Nothing is handed to the application without authority: when the marks of a dispatch
  are written, the task belongs to this principal and the applied configuration is the
  loaded one; the Run is wanted running, owned by the runner, of the same configuration and
  contract; this worker holds its lease with the Action's fencing token, and at the second
  reading of the clock in this dispatch the lease is not over; the first grant of the Action is
  active, unused and bound to its digest, and at the third reading it is not over; and the
  parameters handed over have the digests that were granted. The delivery was not marked before
  and is now.
\<close>

theorem dispatch_is_authorized:
  assumes "mark_dispatch env act run task_id s = (Inr (i, payload), s')"
    and "act < length (rt_heap s)" and "rt_heap s ! run = rd" and "rt_heap s ! act = ad"
  shows "(\<exists>task_id task run_id token grant_id grant lease owner.
      str_item rd ''task_id'' = Inr task_id \<and> cs_get ''Task'' task_id NAMESPACE (rt_db s) = Inr task
      \<and> getitem task ''owner_id'' = Inr (JStr (principal_id env))
      \<and> ms_applied (ap_store (rt_app s)) = Some (c_revision env)
      \<and> getitem rd ''desired_state'' = Inr (JStr ''RUNNING'')
      \<and> dict_item rd ''control_owner'' = Inr owner \<and> getitem owner ''kind'' = Inr (JStr ''runner'')
      \<and> getitem rd ''configuration_sha256'' = Inr (JStr (c_config_sha env))
      \<and> getitem task ''contract_revision'' = getitem rd ''contract_revision''
      \<and> str_item rd ''id'' = Inr run_id \<and> dict_item rd ''lease'' = Inr lease
      \<and> getitem lease ''fencing_token'' = Inr token \<and> getitem ad ''fencing_token'' = Inr token
      \<and> holds_lease env (rt_ticks s + 1) run_id token (rt_db s)
      \<and> first_grant ad = Inr grant_id \<and> cs_get ''Grant'' grant_id NAMESPACE (rt_db s) = Inr grant
      \<and> grant_allows env (rt_ticks s + 2) ad grant \<and> payload_matches env task ad rd payload)
    \<and> \<not> handed_out (rt_db s) NAMESPACE i \<and> handed_out (rt_db s') NAMESPACE i"
proof -
  from assms(1) obtain s1 where "dispatch_guard env act run False s = (Inr payload, s1)"
    by (auto simp: mark_dispatch_def bind_rt_Inr_iff)
  from dispatch_guard_Inr [OF this assms(2)] obtain t task run_id lease token grant_id grant where
    g: "str_item rd ''task_id'' = Inr t" "cs_get ''Task'' t NAMESPACE (rt_db s) = Inr task"
      "getitem task ''owner_id'' = Inr (JStr (principal_id env))"
      "ms_applied (ap_store (rt_app s)) = Some (c_revision env)" "run_guard env task ad rd = Inr ()"
      "str_item rd ''id'' = Inr run_id" "dict_item rd ''lease'' = Inr lease"
      "getitem lease ''fencing_token'' = Inr token" "holds_lease env (rt_ticks s + 1) run_id token (rt_db s)"
      "first_grant ad = Inr grant_id" "cs_get ''Grant'' grant_id NAMESPACE (rt_db s) = Inr grant"
      "grant_allows env (rt_ticks s + 2) ad grant" "payload_matches env task ad rd payload"
    unfolding assms(3,4) by blast
  from run_guard_Inr [OF g(5)] g(7,8) obtain owner where
    r: "getitem rd ''desired_state'' = Inr (JStr ''RUNNING'')"
      "getitem rd ''configuration_sha256'' = Inr (JStr (c_config_sha env))"
      "getitem task ''contract_revision'' = getitem rd ''contract_revision''"
      "getitem ad ''fencing_token'' = Inr token"
      "dict_item rd ''control_owner'' = Inr owner" "getitem owner ''kind'' = Inr (JStr ''runner'')"
    by auto
  show ?thesis using g r mark_dispatch_marks(2,3) [OF assms(1)] by blast
qed

theorem dispatch_is_authorized_witness:
  "\<exists>grant_id grant. first_grant ready_action = Inr grant_id
     \<and> cs_get ''Grant'' grant_id NAMESPACE (rt_db ready2) = Inr grant
     \<and> grant_allows example_env (rt_ticks ready2 + 2) ready_action grant"
proof -
  obtain s' where m: "mark_dispatch example_env 1 0 ''t'' ready2 = (Inr (''a'', example_payload), s')"
    using ready_dispatch by blast
  have h: "1 < length (rt_heap ready2)" "rt_heap ready2 ! 0 = ready_run" "rt_heap ready2 ! 1 = ready_action"
    by (simp_all add: ready2_def)
  from dispatch_is_authorized [OF m h] show ?thesis by blast
qed

section \<open>A command is accepted once\<close>

text \<open>A step that changes neither the database nor the log either fails and leaves them, or goes on.\<close>

lemma bind_reading:
  assumes "bind_rt m f s = (r, s')" "stays unchanged m"
  obtains e where "r = Inl e" "unchanged s s'"
  | x s1 where "m s = (Inr x, s1)" "unchanged s s1" "f x s1 = (r, s')"
  using assms by (cases "m s") (auto simp: bind_rt_def stays_def split: sum.splits)

lemma accept_new_known:
  assumes "accept_new env meth sha key q task c s = (Inr op, s')"
  shows "\<exists>i. op_known NAMESPACE (principal_id env) meth key i sha (rt_db s')"
proof -
  from assms obtain task_id given s1 s2 v w op' s3 where
    made: "make_entity env ''Operation'' ''opr''
        [(''task_id'', task_id), (''request_id'', q), (''method'', JStr meth),
         (''principal_id'', JStr (principal_id env)), (''idempotency_key'', JStr key),
         (''payload_sha256'', JStr sha), (''status'', JStr ''SUCCEEDED''), (''result_ref'', JNull),
         (''error_code'', JNull)] s1 = (Inr given, s2)" and
    op: "op = dupdate given [(''result_ref'', v), (''task_id'', w)]" and
    saved: "on_db (cs_save_operation op (principal_id env) key sha) s3 = (Inr op', s')"
    unfolding accept_new_def Let_def bind_rt_Inr_iff
    by (simp split: if_splits) (auto simp: bind_rt_Inr_iff)
  from made have "str_item op ''namespace_id'' = Inr NAMESPACE" "str_item op ''method'' = Inr meth"
      "str_item op ''kind'' = Inr ''Operation''"
    by (auto simp: op make_entity_def bind_rt_Inr_iff str_item_def)
  with saved show ?thesis
    using save_operation_makes_known by (fastforce simp: on_db_Inr_iff)
qed

text \<open>A command that changed something or was answered is in the table of operations.\<close>

definition accepted :: "ctl_env \<Rightarrow> string \<Rightarrow> string \<Rightarrow> control_db \<Rightarrow> bool" where
  "accepted env meth key db \<longleftrightarrow> (\<exists>i sha. op_known NAMESPACE (principal_id env) meth key i sha db)"

lemma accepted_find:
  assumes "accepted env meth key db"
  shows "\<exists>q. cs_find_operation NAMESPACE (principal_id env) meth key db = Inr (Some q)"
  using assms by (auto simp: accepted_def op_known_def cs_find_operation_def cs_get_def)


lemma run_command_step:
  assumes run: "run_command env c s = (r, s')"
    and m: "str_item c ''method'' = Inr m" and k: "str_item c ''idempotency_key'' = Inr k"
  obtains e where "r = Inl e" "unchanged s s'"
  | p task sha q s1 where "unchanged s s1" "command_digest env c = Inr sha" "getitem c ''request_id'' = Inr q"
      "bind_rt (accept_or_replay env m sha k q task c) (\<lambda>outcome. case outcome of Inl answer \<Rightarrow> ret answer
           | Inr operation \<Rightarrow> from_res (response env operation q)) s1 = (r, s')"
  using run unfolding run_command_def
  apply (elim bind_reading [OF _ reading.stays_from_res] bind_reading [OF _ reading.stays_command_scope(1)])
  using m k by (auto simp: unchanged_def)

lemma replay_Inr:
  assumes "replay env m sha q old s = (Inr a, s')"
  shows "getitem old ''payload_sha256'' = Inr (JStr sha) \<and> getitem a ''operation_id'' = getitem old ''id''
    \<and> getitem a ''result_ref'' = getitem old ''result_ref''"
  using assms
  by (auto simp: replay_def bind_rt_Inr_iff response_def bind_res_Inr_iff Let_def split: if_splits)

lemma run_command_accepts:
  assumes run: "run_command env c s = (r, s')"
    and c: "str_item c ''method'' = Inr m" "str_item c ''idempotency_key'' = Inr k"
    and new: "cs_find_operation NAMESPACE (principal_id env) m k (rt_db s) = Inr None"
    and change: "rt_db s' \<noteq> rt_db s \<or> (\<exists>a. r = Inr a)"
  shows "accepted env m k (rt_db s')"
  using run c
proof (rule run_command_step)
  fix e assume "r = Inl e" "unchanged s s'"
  with change show ?thesis by (simp add: unchanged_def)
next
  fix p task sha q s1
  assume s1: "unchanged s s1" and d: "command_digest env c = Inr sha" "getitem c ''request_id'' = Inr q"
    and rest: "bind_rt (accept_or_replay env m sha k q task c) (\<lambda>outcome. case outcome of Inl answer \<Rightarrow> ret answer
           | Inr operation \<Rightarrow> from_res (response env operation q)) s1 = (r, s')"
  obtain v s2 where a: "accept_new env m sha k q task c s1 = (v, s2)" by fastforce
  have read: "cs_find_operation NAMESPACE (principal_id env) m k (rt_db s1) = Inr None"
    using new s1 by (simp add: unchanged_def)
  show ?thesis
  proof (cases v)
    case (Inl e)
    with rest a read have "r = Inl e" "rt_db s' = rt_db s1"
      by (auto simp: accept_or_replay_def bind_rt_def atomic_def read_db_def)
    with change s1 show ?thesis by (simp add: unchanged_def)
  next
    case (Inr op)
    with rest a read have "s' = s2" by (auto simp: accept_or_replay_def bind_rt_def atomic_def read_db_def ret_def)
    with accept_new_known [OF a [unfolded Inr]] show ?thesis by (auto simp: accepted_def)
  qed
qed

lemma run_command_replays:
  assumes run: "run_command env c s = (r, s')"
    and c: "str_item c ''method'' = Inr m" "str_item c ''idempotency_key'' = Inr k"
    and old: "cs_find_operation NAMESPACE (principal_id env) m k (rt_db s) = Inr (Some old)"
  shows "unchanged s s' \<and> (\<forall>a. r = Inr a \<longrightarrow> (\<exists>sha. command_digest env c = Inr sha
    \<and> getitem old ''payload_sha256'' = Inr (JStr sha) \<and> getitem a ''operation_id'' = getitem old ''id''
    \<and> getitem a ''result_ref'' = getitem old ''result_ref''))"
  using run c
proof (rule run_command_step)
  fix e assume "r = Inl e" "unchanged s s'"
  then show ?thesis by simp
next
  fix p task sha q s1
  assume s1: "unchanged s s1" and d: "command_digest env c = Inr sha" "getitem c ''request_id'' = Inr q"
    and rest: "bind_rt (accept_or_replay env m sha k q task c) (\<lambda>outcome. case outcome of Inl answer \<Rightarrow> ret answer
           | Inr operation \<Rightarrow> from_res (response env operation q)) s1 = (r, s')"
  obtain v s2 where a: "replay env m sha q old s1 = (v, s2)" by fastforce
  then have "unchanged s1 s2" by (rule staysD [OF reading.stays_command_scope(2)])
  with s1 have s2: "unchanged s s2" by (simp add: unchanged_def)
  have read: "cs_find_operation NAMESPACE (principal_id env) m k (rt_db s1) = Inr (Some old)"
    using old s1 by (simp add: unchanged_def)
  show ?thesis
  proof (cases v)
    case (Inl e)
    with rest a read have "r = Inl e" "rt_db s' = rt_db s1" "rt_sent s' = rt_sent s2"
      by (auto simp: accept_or_replay_def bind_rt_def atomic_def read_db_def)
    with s1 s2 show ?thesis by (simp add: unchanged_def)
  next
    case (Inr x)
    with rest a read have "s' = s2" "r = Inr x" by (auto simp: accept_or_replay_def bind_rt_def atomic_def read_db_def ret_def)
    with s2 d replay_Inr [OF a [unfolded Inr]] show ?thesis by blast
  qed
qed

text \<open>
  C16. A command is accepted at most once: when a command is new under its idempotency key and
  it was answered or changed the database, then in every later state of the store a command of
  this principal with the same method and key changes nothing and hands nothing over; it is
  answered only when it has the digest of the recorded operation, and then with its identifier
  and its result.
\<close>

theorem commands_accepted_once:
  assumes "run_command env c s = (r, s1)"
    and "str_item c ''method'' = Inr m" "str_item c ''idempotency_key'' = Inr k"
    and "cs_find_operation NAMESPACE (principal_id env) m k (rt_db s) = Inr None"
    and "rt_db s1 \<noteq> rt_db s \<or> (\<exists>a. r = Inr a)"
    and "store_step\<^sup>*\<^sup>* (rt_db s1) (rt_db s2)"
    and "run_command env' c' s2 = (r', s3)" "principal_id env' = principal_id env"
    and "str_item c' ''method'' = Inr m" "str_item c' ''idempotency_key'' = Inr k"
  shows "rt_db s3 = rt_db s2 \<and> rt_sent s3 = rt_sent s2
    \<and> (\<exists>old. cs_find_operation NAMESPACE (principal_id env) m k (rt_db s2) = Inr (Some old)
      \<and> (\<forall>a. r' = Inr a \<longrightarrow> (\<exists>sha. command_digest env' c' = Inr sha
           \<and> getitem old ''payload_sha256'' = Inr (JStr sha)
           \<and> getitem a ''operation_id'' = getitem old ''id''
           \<and> getitem a ''result_ref'' = getitem old ''result_ref'')))"
proof -
  have "accepted env m k (rt_db s2)"
    using run_command_accepts [OF assms(1-5)] store_steps_op_known [OF assms(6)]
    unfolding accepted_def by blast
  then obtain old where "cs_find_operation NAMESPACE (principal_id env) m k (rt_db s2) = Inr (Some old)"
    using accepted_find by blast
  with run_command_replays [OF assms(7,9,10)] assms(8) show ?thesis by (auto simp: unchanged_def)
qed

definition revoke_command :: dict where
  "revoke_command = example_command ''grant.revoke'' ''k3'' 1 [(''grant_id'', JStr ''q'')]"

definition revoke_start :: control_state where
  "revoke_start = example_start\<lparr>rt_db :=
     ready_db (ready_grant 0 1 JNull @ [(''task_id'', JStr ''t'')]) ''PENDING''\<rparr>"

lemmas revoke_defs = revoke_command_def revoke_start_def example_command_def ready_defs

lemma revoke_runs: "\<exists>a s. run_command example_env revoke_command revoke_start = (Inr a, s)"
  by (simp add: eval_rt eval_store revoke_defs run_command_def command_scope_def command_digest_def
      COMMAND_DIGEST_FIELDS_def cs_find_operation_def accept_new_def handle_command_def COMMANDS_def
      grant_revoke_def cas_def cas_obj_def accept_or_replay_def cs_save_operation_def response_def
      change_state_def update_conv')

theorem commands_accepted_once_witness:
  "\<exists>a s1 r s3. run_command example_env revoke_command revoke_start = (Inr a, s1)
     \<and> run_command example_env revoke_command s1 = (r, s3) \<and> rt_db s3 = rt_db s1"
proof -
  obtain a s1 r s3 where first: "run_command example_env revoke_command revoke_start = (Inr a, s1)"
    and again: "run_command example_env revoke_command s1 = (r, s3)"
    using revoke_runs by (meson surj_pair)
  have c: "str_item revoke_command ''method'' = Inr ''grant.revoke''"
      "str_item revoke_command ''idempotency_key'' = Inr ''k3''"
    by (simp_all add: revoke_command_def example_command_def str_item_def)
  have new: "cs_find_operation NAMESPACE (principal_id example_env) ''grant.revoke'' ''k3'' (rt_db revoke_start) = Inr None"
    by (simp add: cs_find_operation_def revoke_start_def ready_db_def new_control_db_def)
  from commands_accepted_once [OF first c new _ rtranclp.rtrancl_refl again refl c] first again
  show ?thesis by blast
qed

end
