(* ===== verification/App_Guards.thy ===== *)
theory App_Guards
  imports Run_Lifecycle Usage_Models
begin

text \<open>
  The guards every entry of the application shares, \<^verbatim>\<open>src/asterun/application.py\<close>: who may
  call, whether the configuration is the applied one (\<^verbatim>\<open>config_equivalence.py\<close>), and whether a
  task or a session belongs to this account, host, workspace and backend. \<open>app_ctx\<close> is what
  an \<^verbatim>\<open>Application\<close> holds besides its state: the environment of the lifecycle, the policy, the
  configuration as \<^verbatim>\<open>to_dict\<close> gives it, the path of each workspace, how a path resolves, and the
  kind of each backend. What plugins and runner-control lock is given by \<open>cx_session_lock\<close>, \<open>cx_task_lock\<close>
  and \<open>cx_run_lock\<close>, each the exception they raise.
\<close>

record app_ctx =
  cx_env :: app_env
  cx_parse :: iso_parser
  cx_principal :: principal_subject
  cx_policy :: "principal_subject \<Rightarrow> string \<Rightarrow> string \<Rightarrow> decision"
  cx_grant :: "grant option"
  cx_account :: account_ref
  cx_runtime :: runtime_ref
  cx_config :: dict
  cx_revision :: int
  cx_default_backend :: string
  cx_workspaces :: "(string \<times> string) list"
  cx_resolve :: "string \<Rightarrow> string"
  cx_backends :: "(string \<times> string) list"
  cx_adapters :: "string list"
  cx_session_lock :: "session_binding \<Rightarrow> exn option"
  cx_task_lock :: "string \<Rightarrow> exn option"
  cx_run_lock :: "run_id \<Rightarrow> exn option"

definition unless :: "exn option \<Rightarrow> unit res" where
  "unless e = (case e of Some x \<Rightarrow> Inl x | None \<Rightarrow> Inr ())"

lemma unless_Inr [simp]: "unless e = Inr u \<longleftrightarrow> e = None"
  by (simp add: unless_def split: option.split)

text \<open>\<^verbatim>\<open>str(payload.get(k) or "")\<close>\<close>

definition text_field :: "app_ctx \<Rightarrow> dict \<Rightarrow> string \<Rightarrow> string" where
  "text_field cx d k = (if truthy (dget d k) then py_str (env_lib (cx_env cx)) (dget d k) else [])"

section \<open>Who may call\<close>

definition policy_check :: "app_ctx \<Rightarrow> string \<Rightarrow> string \<Rightarrow> unit res" where
  "policy_check cx action resource = enforce (cx_policy cx (cx_principal cx) action resource)"

definition grant_check :: "app_ctx \<Rightarrow> string \<Rightarrow> unit res" where
  "grant_check cx resource = enforce_grant (cx_parse cx) (cx_grant cx) resource (env_now (cx_env cx))"

section \<open>The configuration\<close>

definition NON_EXECUTION_SCHEDULER_KEYS :: "string list" where
  "NON_EXECUTION_SCHEDULER_KEYS =
    [''max_queue'', ''per_backend_concurrency'', ''max_concurrency'', ''local_check_concurrency'']"

definition execution_digest :: "(json \<Rightarrow> string) \<Rightarrow> dict \<Rightarrow> string" where
  "execution_digest H config =
     (let d = dpop (dpop config ''revision'') ''source_path''
      in digest H (JObj (case dget d ''scheduler'' of
           JObj sched \<Rightarrow>
             dset d ''scheduler'' (JObj (filter (\<lambda>(k, v). k \<notin> set NON_EXECUTION_SCHEDULER_KEYS) sched))
         | _ \<Rightarrow> d)))"

definition applied_guard :: "app_ctx \<Rightarrow> mem_store \<Rightarrow> unit res" where
  "applied_guard cx s =
     (if ms_applied s \<noteq> Some (cx_revision cx)
      then Inl (AsterunError ''REVISION_CONFLICT''
             [(''file'', JInt (cx_revision cx)),
              (''applied'', case ms_applied s of None \<Rightarrow> JNull | Some n \<Rightarrow> JInt n)])
      else Inr ())"

definition expect_revision :: "app_ctx \<Rightarrow> dict \<Rightarrow> unit res" where
  "expect_revision cx payload =
     (if dget payload ''expected_revision'' = JNull then Inr ()
      else bind_res (py_int (env_lib (cx_env cx)) (dget payload ''expected_revision'')) (\<lambda>n.
        if n \<noteq> cx_revision cx
        then Inl (AsterunError ''REVISION_CONFLICT''
               [(''expected'', dget payload ''expected_revision''), (''actual'', JInt (cx_revision cx))])
        else Inr ()))"

definition known_names :: "(string \<times> 'a) list \<Rightarrow> json" where
  "known_names xs = JArr (map JStr (sort (map fst xs)))"

definition resolved_root :: "app_ctx \<Rightarrow> string \<Rightarrow> string option" where
  "resolved_root cx alias = map_option (cx_resolve cx) (map_of (cx_workspaces cx) alias)"

definition get_workspace :: "app_ctx \<Rightarrow> string \<Rightarrow> string res" where
  "get_workspace cx alias =
     (case map_of (cx_workspaces cx) alias of
        Some root \<Rightarrow> Inr root
      | None \<Rightarrow> Inl (AsterunError ''UNKNOWN_PROJECT''
                  [(''workspace'', JStr alias), (''known'', known_names (cx_workspaces cx))]))"

definition get_backend :: "app_ctx \<Rightarrow> string \<Rightarrow> string res" where
  "get_backend cx name =
     (let chosen = (if name = [] then cx_default_backend cx else name) in
      if chosen = [] then raise ''CONFIG_REQUIRED''
      else if map_of (cx_backends cx) chosen = None
      then Inl (AsterunError ''INVALID_CONFIG''
             [(''backend'', JStr chosen), (''known'', known_names (cx_backends cx))])
      else Inr chosen)"

text \<open>\<^verbatim>\<open>_backend\<close> with a name: the configured backend must have an adapter.\<close>

definition backend_named :: "app_ctx \<Rightarrow> string \<Rightarrow> string res" where
  "backend_named cx name =
     bind_res (get_backend cx name) (\<lambda>chosen.
       if chosen \<notin> set (cx_adapters cx) then raise ''CONFIG_REQUIRED'' else Inr chosen)"

section \<open>Bindings\<close>

definition root_changed :: "app_ctx \<Rightarrow> mem_store \<Rightarrow> session_binding \<Rightarrow> bool res" where
  "root_changed cx s b =
     (case s_task_id b of
        None \<Rightarrow> Inr False
      | Some i \<Rightarrow> bind_res (ms_get_task s i) (\<lambda>previous.
          Inr (t_workspace_root previous \<noteq> []
               \<and> resolved_root cx (s_workspace b) \<noteq> Some (t_workspace_root previous))))"

definition mismatches :: "app_ctx \<Rightarrow> session_binding \<Rightarrow> string \<Rightarrow> string \<Rightarrow> bool \<Rightarrow> string list" where
  "mismatches cx b workspace backend moved =
     (if s_account_ref b \<noteq> cx_account cx then [''account_ref''] else [])
     @ (if s_runtime_ref b \<noteq> cx_runtime cx then [''runtime_ref''] else [])
     @ (if workspace \<noteq> [] \<and> s_workspace b \<noteq> workspace then [''workspace''] else [])
     @ (if backend \<noteq> [] \<and> backend_val (s_backend b) \<noteq> backend then [''backend''] else [])
     @ (if moved then [''workspace_root''] else [])"

definition assert_session_binding ::
  "app_ctx \<Rightarrow> mem_store \<Rightarrow> session_binding \<Rightarrow> string \<Rightarrow> string \<Rightarrow> unit res" where
  "assert_session_binding cx s b workspace backend =
     bind_res (unless (cx_session_lock cx b)) (\<lambda>_.
     bind_res (root_changed cx s b) (\<lambda>moved.
     let wrong = mismatches cx b workspace backend moved in
     if wrong = [] then Inr ()
     else Inl (AsterunError ''BINDING_MISMATCH''
            [(''conversation_id'', JStr (conv_val (s_conversation_id b))),
             (''mismatches'', JObj (map (\<lambda>k. (k, JStr ''mismatch'')) wrong))])))"

definition check_revision :: "app_ctx \<Rightarrow> task \<Rightarrow> bool \<Rightarrow> unit res" where
  "check_revision cx t terminate =
     (if t_config_revision t \<noteq> cx_revision cx \<and> \<not> terminate
         \<and> \<not> (t_execution_digest t \<noteq> []
              \<and> t_execution_digest t = execution_digest (env_hash (cx_env cx)) (cx_config cx))
      then Inl (AsterunError ''REVISION_CONFLICT''
             [(''task_revision'', JInt (t_config_revision t)), (''current_revision'', JInt (cx_revision cx)),
              (''equivalent'', JBool False)])
      else Inr ())"

definition check_root :: "app_ctx \<Rightarrow> task \<Rightarrow> bool \<Rightarrow> unit res" where
  "check_root cx t terminate =
     (if t_workspace_root t \<noteq> [] \<and> (map_of (cx_workspaces cx) (t_workspace t) \<noteq> None \<or> \<not> terminate)
      then bind_res (get_workspace cx (t_workspace t)) (\<lambda>root.
             if t_workspace_root t \<noteq> cx_resolve cx root then raise ''BINDING_MISMATCH'' else Inr ())
      else Inr ())"

definition assert_task_binding :: "app_ctx \<Rightarrow> mem_store \<Rightarrow> task \<Rightarrow> bool \<Rightarrow> unit res" where
  "assert_task_binding cx s t terminate =
     (if t_account_ref t \<noteq> Some (cx_account cx) \<or> t_runtime_ref t \<noteq> Some (cx_runtime cx)
      then raise ''BINDING_MISMATCH''
      else
        bind_res (check_revision cx t terminate) (\<lambda>_.
        bind_res (check_root cx t terminate) (\<lambda>_.
          case t_conversation_id t of
            None \<Rightarrow> Inr ()
          | Some c \<Rightarrow> bind_res (ms_get_session s c) (\<lambda>b.
              assert_session_binding cx s b (t_workspace t) (backend_val (t_backend t))))))"

definition require_task :: "app_ctx \<Rightarrow> mem_store \<Rightarrow> string \<Rightarrow> task res" where
  "require_task cx s i =
     (if i = [] then raise ''INVALID_REQUEST''
      else
        bind_res (unless (cx_task_lock cx i)) (\<lambda>_.
        bind_res (typed_id TaskId (JStr i)) (\<lambda>ti.
        bind_res (ms_get_task s ti) (\<lambda>t.
        bind_res (unless (case t_current_run_id t of None \<Rightarrow> None | Some r \<Rightarrow> cx_run_lock cx r)) (\<lambda>_.
          Inr t)))))"

section \<open>What callers see of a run\<close>

definition HIDDEN_NATIVE_KEYS :: "string list" where
  "HIDDEN_NATIVE_KEYS = [UNAPPLIED_RESULT, UNAPPLIED_APPROVAL, SLOT_RELEASED, SLOT_HELD]"

definition public_native :: "dict \<Rightarrow> dict" where
  "public_native native = filter (\<lambda>(k, v). k \<notin> set HIDDEN_NATIVE_KEYS) native"

definition public_run :: "run \<Rightarrow> dict" where
  "public_run r = run_to_dict (r\<lparr>r_native := public_native (r_native r)\<rparr>)"

text \<open>What an accepted binding says.\<close>

lemma assert_task_binding_Inr:
  assumes "assert_task_binding cx s t False = Inr u"
  shows "t_account_ref t = Some (cx_account cx)" "t_runtime_ref t = Some (cx_runtime cx)"
    and "t_config_revision t = cx_revision cx
      \<or> t_execution_digest t = execution_digest (env_hash (cx_env cx)) (cx_config cx)"
    and "t_workspace_root t = [] \<or> resolved_root cx (t_workspace t) = Some (t_workspace_root t)"
  using assms
  by (auto simp: assert_task_binding_def check_revision_def check_root_def get_workspace_def resolved_root_def bind_res_Inr_iff
      split: if_splits option.splits)

end
