(* ===== verification/Approvals.thy ===== *)
theory Approvals
  imports App_Guards Approval_Policy Lifecycle_Safety
begin

text \<open>
  Answering approvals, \<^verbatim>\<open>src/asterun/application.py\<close> (\<^verbatim>\<open>_approval_context\<close>, \<^verbatim>\<open>approval_assess\<close>,
  \<^verbatim>\<open>approval_apply_policy\<close>, \<^verbatim>\<open>approval_batch\<close>, \<^verbatim>\<open>approval_respond\<close>). A backend asks before it acts;
  the answer is forwarded to it at most once, because the note of the attempt is written
  first. \<open>dk_forwards\<close> logs the answers that were handed to a backend. What the backend makes
  of an answer (\<open>av_respond\<close>) and what runner-control refuses (\<open>av_control\<close>) are parameters.
\<close>

record approval_env =
  av_ctx :: app_ctx
  av_policy_env :: policy_env
  av_policy :: dict
  av_control :: "approval_request \<Rightarrow> task \<Rightarrow> run \<Rightarrow> string \<Rightarrow> bool \<Rightarrow> exn option"
  av_respond :: "run_id \<Rightarrow> json \<Rightarrow> dict option \<Rightarrow> json res"

record desk =
  dk_app :: app
  dk_forwards :: "(run_id \<times> json) list"

type_synonym 'a desk_action = "desk \<Rightarrow> 'a res \<times> desk"

definition at_app :: "'a action \<Rightarrow> 'a desk_action" where
  "at_app m d = (case m (dk_app d) of (v, a) \<Rightarrow> (v, d\<lparr>dk_app := a\<rparr>))"

definition and_then :: "'a desk_action \<Rightarrow> ('a \<Rightarrow> 'b desk_action) \<Rightarrow> 'b desk_action" where
  "and_then m f d = (case m d of (Inl e, c) \<Rightarrow> (Inl e, c) | (Inr x, c) \<Rightarrow> f x c)"

definition desk_read :: "(mem_store \<Rightarrow> 'a res) \<Rightarrow> 'a desk_action" where
  "desk_read f d = (f (ap_store (dk_app d)), d)"

abbreviation av_env :: "approval_env \<Rightarrow> app_env" where
  "av_env av \<equiv> cx_env (av_ctx av)"

section \<open>Whether an approval may be answered\<close>

text \<open>The request the approval stands for, \<^verbatim>\<open>task.input_hash\<close> without a native one.\<close>

definition approved_target :: "app_env \<Rightarrow> task \<Rightarrow> run \<Rightarrow> approval_request \<Rightarrow> string" where
  "approved_target env t r ap =
     (if ap_native_request ap \<noteq> []
      then request_hash env (t_input_hash t) (r_id r) (JObj (ap_native_request ap))
      else t_input_hash t)"

definition still_waiting :: "app_env \<Rightarrow> approval_request \<Rightarrow> task \<Rightarrow> run \<Rightarrow> bool" where
  "still_waiting env ap t r \<longleftrightarrow>
     t_current_run_id t = Some (ap_run_id ap) \<and> r_task_id r = t_id t \<and> r_status r = Rs_WAITING_INPUT
     \<and> \<not> r_cancel_requested r \<and> \<not> t_paused t \<and> t_orchestration_owner t = ''core''
     \<and> ap_target_hash ap = approved_target env t r ap"

definition approval_expired :: "approval_env \<Rightarrow> approval_request \<Rightarrow> bool" where
  "approval_expired av ap =
     is_expired (cx_parse (av_ctx av))
       \<lparr>g_expires_at = ap_expires_at ap, g_resources = None, g_revision = 1\<rparr> (env_now (av_env av))"

text \<open>The caller's expectation of a field; an empty text expects nothing.\<close>

definition expected :: "approval_env \<Rightarrow> dict \<Rightarrow> string \<Rightarrow> string \<Rightarrow> unit res" where
  "expected av payload k actual =
     (let v = text_field (av_ctx av) payload k in require_that (v = [] \<or> v = actual))"

definition approval_decision :: "approval_env \<Rightarrow> dict \<Rightarrow> string" where
  "approval_decision av payload =
     (if truthy (dget payload ''decision'') then text_field (av_ctx av) payload ''decision'' else ''approve'')"

definition open_approval :: "approval_env \<Rightarrow> dict \<Rightarrow> mem_store \<Rightarrow> (approval_request \<times> task) res" where
  "open_approval av payload s =
     (let cx = av_ctx av; i = text_field cx payload ''approval_id'' in
      bind_res (require_that (i \<noteq> [])) (\<lambda>_.
      bind_res (require_that (approval_decision av payload \<in> set [''approve'', ''deny''])) (\<lambda>_.
      bind_res (typed_id ApprovalId (JStr i)) (\<lambda>ai.
      bind_res (ms_get_approval s ai) (\<lambda>ap.
      bind_res (require_task cx s (task_val (ap_task_id ap))) (\<lambda>t.
      bind_res (policy_check cx ''approval.respond'' (t_workspace t)) (\<lambda>_.
      bind_res (grant_check cx (t_workspace t)) (\<lambda>_.
      bind_res (applied_guard cx s) (\<lambda>_.
      bind_res (assert_task_binding cx s t False) (\<lambda>_.
      bind_res (require_that (ap_state ap = Ap_PENDING)) (\<lambda>_.
        if approval_expired av ap
        then Inl (AsterunError ''INVALID_REQUEST''
               [(''approval_id'', JStr i), (''expires_at'', ap_expires_at ap)])
        else Inr (ap, t))))))))))))"

definition approval_context ::
  "approval_env \<Rightarrow> dict \<Rightarrow> bool \<Rightarrow> mem_store \<Rightarrow> (approval_request \<times> task \<times> run) res" where
  "approval_context av payload forwarding s =
     bind_res (open_approval av payload s) (\<lambda>(ap, t).
     bind_res (expected av payload ''expected_run_id'' (run_val (ap_run_id ap))) (\<lambda>_.
     bind_res (expected av payload ''expected_task_id'' (task_val (ap_task_id ap))) (\<lambda>_.
     bind_res (expected av payload ''expected_target_hash'' (ap_target_hash ap)) (\<lambda>_.
     bind_res (ms_get_run s (ap_run_id ap)) (\<lambda>r.
     bind_res (require_that (JStr (ap_target_hash ap) \<notin> set (r_approval_attempts r))) (\<lambda>_.
     bind_res (require_that (still_waiting (av_env av) ap t r)) (\<lambda>_.
       if r_role r = ''review'' then raise ''CAPABILITY_UNSUPPORTED''
       else bind_res (unless (av_control av ap t r (approval_decision av payload) forwarding)) (\<lambda>_.
              Inr (ap, t, r)))))))))"

section \<open>Assessing\<close>

definition assess_now :: "approval_env \<Rightarrow> approval_request \<Rightarrow> task \<Rightarrow> run \<Rightarrow> dict res" where
  "assess_now av ap t r =
     bind_res (get_workspace (av_ctx av) (t_workspace t)) (\<lambda>root.
       Inr (assess (av_policy_env av) (av_policy av) ap t r root (env_now (av_env av))))"

definition approval_assess :: "approval_env \<Rightarrow> dict \<Rightarrow> (dict \<times> dict) desk_action" where
  "approval_assess av payload =
     and_then (desk_read (approval_context av payload False)) (\<lambda>(ap, t, r).
     and_then (desk_read (\<lambda>_. assess_now av ap t r)) (\<lambda>assessment.
     and_then (at_app (writing (emit (av_env av) (r_id r) Ev_APPROVAL_ASSESSED ''core''
         (dupdate [(''approval_id'', JStr (approval_val (ap_id ap))),
                   (''target_hash'', JStr (ap_target_hash ap)),
                   (''config_revision'', JInt (cx_revision (av_ctx av)))] assessment)))) (\<lambda>_ d.
       (Inr (approval_to_dict ap, assessment), d))))"

section \<open>Forwarding an answer\<close>

text \<open>The policy must still approve, and for the same reasons.\<close>

definition confirm_policy ::
  "approval_env \<Rightarrow> dict option \<Rightarrow> approval_request \<Rightarrow> task \<Rightarrow> run \<Rightarrow> approval_request res" where
  "confirm_policy av assessment ap t r =
     (case assessment of
        None \<Rightarrow> Inr (ap\<lparr>ap_decision_source := JStr ''manual''\<rparr>)
      | Some first \<Rightarrow>
          bind_res (assess_now av ap t r) (\<lambda>latest.
            if dget latest ''decision'' \<noteq> JStr ''approve'' \<or> canon (JObj latest) \<noteq> canon (JObj first)
            then raise ''INVALID_REQUEST''
            else Inr (ap\<lparr>ap_assessment := latest, ap_decision_source := JStr ''policy''\<rparr>)))"

definition attempt_noted :: "approval_request \<Rightarrow> run \<Rightarrow> run" where
  "attempt_noted ap r = r\<lparr>r_approval_attempts := r_approval_attempts r @ [JStr (ap_target_hash ap)]\<rparr>"

definition note_attempt :: "app_env \<Rightarrow> json \<Rightarrow> approval_request \<Rightarrow> run \<Rightarrow> mem_store \<Rightarrow> mem_store" where
  "note_attempt env decision ap r s =
     emit env (r_id r) Ev_APPROVAL_FORWARDING ''core''
       [(''approval_id'', JStr (approval_val (ap_id ap))), (''target_hash'', JStr (ap_target_hash ap)),
        (''decision'', decision), (''decision_source'', ap_decision_source ap),
        (''assessment'', JObj (ap_assessment ap)), (''native_confirmed'', JBool False)]
       (ms_save_approval (ap\<lparr>ap_state := Ap_FORWARDING, ap_response_status := ''forwarding_unconfirmed''\<rparr>)
         (ms_save_run (attempt_noted ap r) s))"

definition note_unknown :: "app_env \<Rightarrow> json \<Rightarrow> approval_request \<Rightarrow> run \<Rightarrow> mem_store \<Rightarrow> mem_store" where
  "note_unknown env decision ap r s =
     emit env (r_id r) Ev_APPROVAL_RESPONDED ''core''
       [(''approval_id'', JStr (approval_val (ap_id ap))), (''decision'', decision),
        (''response_status'', JStr ''send_result_unknown''), (''native_confirmed'', JBool False)]
       (ms_save_approval (ap\<lparr>ap_state := Ap_FORWARDING, ap_response_status := ''send_result_unknown''\<rparr>) s)"

definition answer_outcome :: "json \<Rightarrow> approval_request \<Rightarrow> dict \<Rightarrow> dict" where
  "answer_outcome decision ap result =
     (let native = ap_native_request ap \<noteq> [];
          confirmed = (native \<and> dget result ''native_confirmed'' = JBool True)
      in [(''id'', JStr (approval_val (ap_id ap))),
          (''state'', JStr (str_approval_state (if decision = JStr ''approve'' then Ap_APPROVED else Ap_DENIED))),
          (''response_status'', JStr (if confirmed then ''native_confirmed''
             else if native then ''sent_unconfirmed'' else ''local_completed'')),
          (''native_confirmed'', JBool confirmed), (''decision'', decision),
          (''decision_source'', ap_decision_source ap), (''assessment'', JObj (ap_assessment ap))])"

text \<open>The one place where an answer reaches a backend; an answer that is not an object is an error.\<close>

definition ask_backend :: "approval_env \<Rightarrow> json \<Rightarrow> approval_request \<Rightarrow> run \<Rightarrow> dict res" where
  "ask_backend av decision ap r =
     bind_res (av_respond av (r_id r) decision
         (if ap_native_request ap \<noteq> [] then Some (ap_native_request ap) else None)) (\<lambda>v.
       case v of JObj result \<Rightarrow> Inr result | _ \<Rightarrow> Inl ValueError)"

definition log_forward :: "approval_request \<Rightarrow> run \<Rightarrow> unit desk_action" where
  "log_forward ap r d = (Inr (), d\<lparr>dk_forwards := (r_id r, JStr (ap_target_hash ap)) # dk_forwards d\<rparr>)"

definition answered :: "approval_request \<Rightarrow> run \<Rightarrow> dict desk_action" where
  "answered ap r =
     and_then (desk_read (\<lambda>s. ms_get_run s (r_id r))) (\<lambda>r'.
     and_then (desk_read (\<lambda>s. ms_get_approval s (ap_id ap))) (\<lambda>ap' d.
       (Inr [(''approval'', JObj (approval_to_dict ap')), (''run'', JObj (public_run r')),
             (''grant_unchanged'', JBool True), (''forwarded'', JBool True)], d)))"

definition forward_answer :: "approval_env \<Rightarrow> json \<Rightarrow> approval_request \<Rightarrow> run \<Rightarrow> dict desk_action" where
  "forward_answer av decision ap r =
     and_then (at_app (writing (note_attempt (av_env av) decision ap r))) (\<lambda>_.
     and_then (log_forward ap r) (\<lambda>_.
       case ask_backend av decision ap r of
         Inl _ \<Rightarrow>
           and_then (at_app (writing (note_unknown (av_env av) decision ap r)))
             (\<lambda>_ d. (raise ''REMOTE_STATE_UNKNOWN'', d))
       | Inr result \<Rightarrow>
           and_then (at_app (record_result (av_env av) (r_id r) (JObj result) True
               (Some (answer_outcome decision ap result)))) (\<lambda>_. answered ap r)))"

definition approval_respond :: "approval_env \<Rightarrow> dict \<Rightarrow> dict option \<Rightarrow> dict desk_action" where
  "approval_respond av payload assessment =
     and_then (desk_read (approval_context av payload True)) (\<lambda>(ap, t, r).
     and_then (desk_read (\<lambda>_. getitem payload ''decision'')) (\<lambda>decision.
     and_then (desk_read (\<lambda>_. confirm_policy av assessment ap t r)) (\<lambda>ap'.
     and_then (desk_read (\<lambda>_. backend_named (av_ctx av) (backend_val (r_backend r)))) (\<lambda>_.
       forward_answer av decision ap' r))))"

text \<open>An approval the policy grants is forwarded; any other is left to the user.\<close>

definition approval_apply_policy :: "approval_env \<Rightarrow> dict \<Rightarrow> dict desk_action" where
  "approval_apply_policy av payload =
     and_then (approval_assess av payload) (\<lambda>(_, assessment).
       if dget assessment ''decision'' \<noteq> JStr ''approve''
       then (\<lambda>d. (Inr [(''assessment'', JObj assessment), (''forwarded'', JBool False),
                       (''manual_required'', JBool True)], d))
       else approval_respond av (dset payload ''decision'' (JStr ''approve'')) (Some assessment))"

definition batch_one :: "approval_env \<Rightarrow> dict \<Rightarrow> dict desk_action" where
  "batch_one av item =
     and_then (desk_read (\<lambda>_. getitem item ''decision'')) (\<lambda>decision.
       if decision = JStr ''policy'' then approval_apply_policy av (without_key ''decision'' item)
       else approval_respond av item None)"

text \<open>A batch goes on after a refusal; any other exception ends it.\<close>

fun batch_items :: "approval_env \<Rightarrow> json list \<Rightarrow> dict list \<Rightarrow> (json \<times> dict res) list desk_action" where
  "batch_items av seen [] d = (Inr [], d)"
| "batch_items av seen (item # items) d =
     (case getitem item ''approval_id'' of
        Inl e \<Rightarrow> (Inl e, d)
      | Inr i \<Rightarrow>
          (case (if i \<in> set seen then (raise ''INVALID_REQUEST'', d) else batch_one av item d) of
             (Inl e, c) \<Rightarrow>
               if is_asterun_error e
               then and_then (batch_items av (i # seen) items) (\<lambda>rs b. (Inr ((i, Inl e) # rs), b)) c
               else (Inl e, c)
           | (Inr v, c) \<Rightarrow> and_then (batch_items av (i # seen) items) (\<lambda>rs b. (Inr ((i, Inr v) # rs), b)) c))"

definition approval_batch :: "approval_env \<Rightarrow> dict list \<Rightarrow> ((json \<times> dict res) list \<times> bool) desk_action" where
  "approval_batch av items =
     (if items = [] \<or> 100 < length items then (\<lambda>d. (raise ''INVALID_REQUEST'', d))
      else and_then (batch_items av [] items) (\<lambda>rs d.
        (Inr (rs, list_all (\<lambda>(i, v). case v of Inl _ \<Rightarrow> False
                                     | Inr data \<Rightarrow> \<not> truthy (dget data ''manual_required'')) rs), d)))"

end
