(* ===== verification/Approval_Claims.thy ===== *)
theory Approval_Claims
  imports Approvals Lifecycle_Claims
begin

text \<open>
  What answering approvals guarantees in every life of the application: each request of a run
  is answered at most once, and only while it may be.
\<close>

section \<open>What the desk keeps\<close>

definition desk_sound :: "desk \<Rightarrow> bool" where
  "desk_sound d \<longleftrightarrow> sound (dk_app d) \<and> distinct (dk_forwards d)
     \<and> (\<forall>(i, h) \<in> set (dk_forwards d). attempted (ap_store (dk_app d)) (run_val i) h)"

text \<open>A desk action is careful when it keeps this from a condition.\<close>

definition careful :: "(desk \<Rightarrow> bool) \<Rightarrow> 'a desk_action \<Rightarrow> bool" where
  "careful P m \<longleftrightarrow> (\<forall>d. desk_sound d \<and> P d \<longrightarrow> desk_sound (snd (m d)))"

lemma carefulI: "(\<And>d. desk_sound d \<Longrightarrow> P d \<Longrightarrow> desk_sound (snd (m d))) \<Longrightarrow> careful P m"
  by (simp add: careful_def)

lemma carefulD: "careful P m \<Longrightarrow> desk_sound d \<Longrightarrow> P d \<Longrightarrow> desk_sound (snd (m d))"
  by (simp add: careful_def)

lemma careful_weaken: "careful P m \<Longrightarrow> (\<And>d. desk_sound d \<Longrightarrow> Q d \<Longrightarrow> P d) \<Longrightarrow> careful Q m"
  by (simp add: careful_def)

lemma careful_return [simp]: "careful P (\<lambda>d. (v, d))"
  by (simp add: careful_def)

lemma careful_and_then:
  assumes m: "careful P m" and f: "\<And>x. careful (Q x) (f x)"
    and post: "\<And>d x c. desk_sound d \<Longrightarrow> P d \<Longrightarrow> m d = (Inr x, c) \<Longrightarrow> Q x c"
  shows "careful P (and_then m f)"
proof (rule carefulI)
  fix d assume d: "desk_sound d" "P d"
  obtain v c where mc: "m d = (v, c)" by (cases "m d")
  have c: "desk_sound c" using carefulD [OF m d] mc by simp
  show "desk_sound (snd (and_then m f d))"
    using mc c post [OF d] carefulD [OF f c] by (auto simp: and_then_def split: sum.split)
qed

lemma careful_seq: "careful P m \<Longrightarrow> (\<And>x. careful (\<lambda>_. True) (f x)) \<Longrightarrow> careful P (and_then m f)"
  by (rule careful_and_then [where Q = "\<lambda>_ _. True"]) auto

lemma careful_read:
  assumes "\<And>x. careful (\<lambda>d. P d \<and> g (ap_store (dk_app d)) = Inr x) (f x)"
  shows "careful P (and_then (desk_read g) f)"
  by (rule careful_and_then [OF _ assms]) (auto simp: careful_def desk_read_def)

text \<open>Whatever the lifecycle does is careful.\<close>

lemma desk_sound_lawful:
  assumes "desk_sound d" "lawful (dk_app d) a"
  shows "desk_sound (d\<lparr>dk_app := a\<rparr>)"
proof -
  from assms have s: "sound (dk_app d)" and k: "keeps (ap_store (dk_app d)) (ap_store a)" and "sound a"
    by (auto simp: desk_sound_def lawful_def)
  then show ?thesis using assms(1) keepsD(4) [OF k sound_ok [OF s]] by (auto simp: desk_sound_def)
qed

lemma careful_app: "safe P m \<Longrightarrow> careful (\<lambda>d. P (dk_app d)) (at_app m)"
  by (auto simp: careful_def at_app_def split: prod.split)
    (metis desk_sound_def desk_sound_lawful safeD snd_conv)

lemma careful_app_always: "safe always m \<Longrightarrow> careful P (at_app m)"
  using careful_app [of always m] by (simp add: careful_def)

lemma careful_writing:
  "(\<And>s. same_core s (f s)) \<Longrightarrow> careful P (at_app (writing f))"
  by (rule careful_app_always, rule safe_writing) (simp add: same_core_keeps)

section \<open>Forwarding\<close>

text \<open>A run that may be answered: stored, open, and this request not yet tried.\<close>

definition answerable :: "approval_request \<Rightarrow> run \<Rightarrow> desk \<Rightarrow> bool" where
  "answerable ap r d \<longleftrightarrow> ms_get_run (ap_store (dk_app d)) (r_id r) = Inr r \<and> \<not> terminal (r_status r)
     \<and> JStr (ap_target_hash ap) \<notin> attempts r"

definition noted :: "approval_request \<Rightarrow> run \<Rightarrow> desk \<Rightarrow> bool" where
  "noted ap r d \<longleftrightarrow> (r_id r, JStr (ap_target_hash ap)) \<notin> set (dk_forwards d)
     \<and> attempted (ap_store (dk_app d)) (run_val (r_id r)) (JStr (ap_target_hash ap))"

lemma note_attempt_core: "same_core (ms_save_run (attempt_noted ap r) s) (note_attempt env decision ap r s)"
  unfolding note_attempt_def by (intro same_core_emit_trans same_core_writes)

lemma note_unknown_core: "same_core s (note_unknown env decision ap r s)"
  unfolding note_unknown_def by (intro same_core_emit_trans same_core_writes)

lemma attempt_noted_simps [simp]:
  "r_id (attempt_noted ap r) = r_id r" "r_status (attempt_noted ap r) = r_status r"
  "attempts (attempt_noted ap r) = insert (JStr (ap_target_hash ap)) (attempts r)"
  by (auto simp: attempt_noted_def attempts_def)

lemma note_attempt_keeps:
  assumes "ms_get_run s (r_id r) = Inr r" "\<not> terminal (r_status r)"
  shows "keeps s (note_attempt env decision ap r s)"
proof -
  have "no_loss s (attempt_noted ap r)"
    using no_loss_get [OF assms(1)] by (auto simp: no_loss_def)
  then have "keeps s (ms_save_run (attempt_noted ap r) s)"
    by (intro keeps_save_open) (use assms in \<open>simp_all add: open_at_get\<close>)
  then show ?thesis by (rule keeps_trans [OF _ same_core_keeps [OF note_attempt_core]])
qed

lemma attempted_noted:
  "attempted (note_attempt env decision ap r s) (run_val (r_id r)) (JStr (ap_target_hash ap))"
  using note_attempt_core [of ap r s env decision]
  by (simp add: attempted_def same_core_def ms_save_run_def update_conv')

lemma safe_note_unknown: "safe P (writing (note_unknown env decision ap r))"
  by (rule safe_writing) (simp add: same_core_keeps note_unknown_core)

lemma careful_forward: "careful (answerable ap r) (forward_answer av decision ap r)"
  unfolding forward_answer_def
proof (rule careful_and_then [where Q = "\<lambda>_. noted ap r"])
  have "safe (\<lambda>a. ms_get_run (ap_store a) (r_id r) = Inr r \<and> \<not> terminal (r_status r))
      (writing (note_attempt (av_env av) decision ap r))"
    by (rule safe_writing) (simp add: note_attempt_keeps)
  then show "careful (answerable ap r) (at_app (writing (note_attempt (av_env av) decision ap r)))"
    by (rule careful_weaken [OF careful_app]) (simp add: answerable_def)
  show "noted ap r c" if d: "desk_sound d" "answerable ap r d"
    and w: "at_app (writing (note_attempt (av_env av) decision ap r)) d = (Inr x, c)" for d x c
  proof -
    have "(r_id r, JStr (ap_target_hash ap)) \<notin> set (dk_forwards d)"
      using d by (auto simp: desk_sound_def answerable_def attempted_def get_run_iff)
    moreover have "ap_store (dk_app c) = note_attempt (av_env av) decision ap r (ap_store (dk_app d))"
      and "dk_forwards c = dk_forwards d"
      using w by (auto simp: at_app_def dest!: writing_Inr split: prod.splits)
    ultimately show ?thesis by (simp add: noted_def attempted_noted)
  qed
  have "careful (noted ap r) (log_forward ap r)"
    by (auto simp: careful_def log_forward_def noted_def desk_sound_def)
  moreover have "careful P (case ask_backend av decision ap r of
      Inl _ \<Rightarrow> and_then (at_app (writing (note_unknown (av_env av) decision ap r)))
             (\<lambda>_ d. (raise ''REMOTE_STATE_UNKNOWN'', d))
    | Inr result \<Rightarrow> and_then (at_app (record_result (av_env av) (r_id r) (JObj result) True
               (Some (answer_outcome decision ap result)))) (\<lambda>_. answered ap r))" for P
    by (auto simp: answered_def intro!: careful_seq careful_app_always safe_note_unknown
        safe_record_result careful_read split: sum.split)
  ultimately show "careful (noted ap r) (and_then (log_forward ap r) (\<lambda>_.
      case ask_backend av decision ap r of
        Inl _ \<Rightarrow> and_then (at_app (writing (note_unknown (av_env av) decision ap r)))
             (\<lambda>_ d. (raise ''REMOTE_STATE_UNKNOWN'', d))
      | Inr result \<Rightarrow> and_then (at_app (record_result (av_env av) (r_id r) (JObj result) True
               (Some (answer_outcome decision ap result)))) (\<lambda>_. answered ap r)))" for x :: unit
    by (intro careful_seq)
qed

text \<open>What a context says.\<close>

lemma approval_context_Inr:
  assumes "approval_context av payload forwarding s = Inr (ap, t, r)"
  shows "ms_get_run s (ap_run_id ap) = Inr r" "still_waiting (av_env av) ap t r" "ap_state ap = Ap_PENDING"
    and "JStr (ap_target_hash ap) \<notin> set (r_approval_attempts r)" "r_role r \<noteq> ''review''"
    and "\<not> approval_expired av ap" "policy_check (av_ctx av) ''approval.respond'' (t_workspace t) = Inr ()"
    and "grant_check (av_ctx av) (t_workspace t) = Inr ()" "applied_guard (av_ctx av) s = Inr ()"
    and "assert_task_binding (av_ctx av) s t False = Inr ()"
    and "av_control av ap t r (approval_decision av payload) forwarding = None"
    and "ms_get_task s (ap_task_id ap) = Inr t"
    and "ms_get_approval s (ApprovalId (text_field (av_ctx av) payload ''approval_id'')) = Inr ap"
proof -
  from assms have o: "open_approval av payload s = Inr (ap, t)"
    and "ms_get_run s (ap_run_id ap) = Inr r \<and> still_waiting (av_env av) ap t r
      \<and> JStr (ap_target_hash ap) \<notin> set (r_approval_attempts r) \<and> r_role r \<noteq> ''review''
      \<and> av_control av ap t r (approval_decision av payload) forwarding = None"
    by (auto simp: approval_context_def bind_res_Inr_iff split: if_splits)
  then show "ms_get_run s (ap_run_id ap) = Inr r" "still_waiting (av_env av) ap t r"
    "JStr (ap_target_hash ap) \<notin> set (r_approval_attempts r)" "r_role r \<noteq> ''review''"
    "av_control av ap t r (approval_decision av payload) forwarding = None" by simp_all
  from o show "ap_state ap = Ap_PENDING" "\<not> approval_expired av ap"
    "policy_check (av_ctx av) ''approval.respond'' (t_workspace t) = Inr ()"
    "grant_check (av_ctx av) (t_workspace t) = Inr ()" "applied_guard (av_ctx av) s = Inr ()"
    "assert_task_binding (av_ctx av) s t False = Inr ()" "ms_get_task s (ap_task_id ap) = Inr t"
    "ms_get_approval s (ApprovalId (text_field (av_ctx av) payload ''approval_id'')) = Inr ap"
    by (auto simp: open_approval_def bind_res_Inr_iff Let_def require_task_def typed_id_def
        split: if_splits)
qed

lemma context_answerable:
  assumes "desk_sound d" "approval_context av payload forwarding (ap_store (dk_app d)) = Inr (ap, t, r)"
  shows "answerable ap r d"
proof -
  note c = approval_context_Inr [OF assms(2)]
  have "r_id r = ap_run_id ap"
    using get_run_id [OF sound_ok c(1)] assms(1) by (simp add: desk_sound_def)
  with c show ?thesis
    by (simp add: answerable_def attempts_def still_waiting_def TERMINAL_RUN_STATUSES_def)
qed

lemma confirm_policy_hash:
  "confirm_policy av assessment ap t r = Inr ap' \<Longrightarrow> ap_target_hash ap' = ap_target_hash ap"
  by (auto simp: confirm_policy_def bind_res_Inr_iff split: option.splits if_splits)

lemma careful_respond: "careful P (approval_respond av payload assessment)"
  unfolding approval_respond_def
proof (intro careful_read, clarify, intro careful_read)
  fix ap t r decision ap' name
  show "careful (\<lambda>d. (((P d \<and> approval_context av payload True (ap_store (dk_app d)) = Inr (ap, t, r))
        \<and> getitem payload ''decision'' = Inr decision) \<and> confirm_policy av assessment ap t r = Inr ap')
        \<and> backend_named (av_ctx av) (backend_val (r_backend r)) = Inr name) (forward_answer av decision ap' r)"
    by (rule careful_weaken [OF careful_forward])
      (use context_answerable confirm_policy_hash in \<open>auto simp: answerable_def\<close>)
qed

lemma careful_assess: "careful P (approval_assess av payload)"
  unfolding approval_assess_def
  by (intro careful_read, clarify, intro careful_read careful_seq careful_writing same_core_emit careful_return)

lemma careful_policy: "careful P (approval_apply_policy av payload)"
  unfolding approval_apply_policy_def
  by (rule careful_seq [OF careful_assess]) (auto simp: careful_respond split: prod.split)

lemma careful_one: "careful P (batch_one av item)"
  unfolding batch_one_def
  by (intro careful_read) (simp add: careful_policy careful_respond)

lemma careful_items: "careful P (batch_items av seen items)"
proof (induction items arbitrary: seen P)
  case Nil
  then show ?case by (simp add: careful_def)
next
  case (Cons item items)
  show ?case
  proof (rule carefulI)
    fix d assume d: "desk_sound d"
    have rest: "desk_sound (snd (and_then (batch_items av seen' items) (\<lambda>rs b. (Inr (f rs), b)) c))"
      if "desk_sound c" for seen' c and f :: "(json \<times> dict res) list \<Rightarrow> (json \<times> dict res) list"
      by (rule carefulD [OF careful_seq [OF Cons.IH careful_return] that TrueI])
    show "desk_sound (snd (batch_items av seen (item # items) d))"
    proof (cases "getitem item ''approval_id''")
      case (Inr i)
      obtain v c where c: "(if i \<in> set seen then (raise ''INVALID_REQUEST'', d) else batch_one av item d) = (v, c)"
        by (metis surj_pair)
      have "desk_sound c"
        using c d carefulD [OF careful_one d TrueI, of av item] by (auto split: if_splits)
      with rest c Inr show ?thesis by (auto split: sum.split)
    qed (simp add: d)
  qed
qed

lemma careful_batch: "careful P (approval_batch av items)"
  unfolding approval_batch_def by (auto intro: careful_seq [OF careful_items])

section \<open>The life of an application with approvals\<close>

inductive desk_step :: "desk \<Rightarrow> desk \<Rightarrow> bool" where
  desk_lifecycle: "lifecycle_step (dk_app d) a \<Longrightarrow> desk_step d (d\<lparr>dk_app := a\<rparr>)"
| desk_assess: "desk_step d (snd (approval_assess av payload d))"
| desk_respond: "desk_step d (snd (approval_respond av payload None d))"
| desk_policy: "desk_step d (snd (approval_apply_policy av payload d))"
| desk_batch: "desk_step d (snd (approval_batch av items d))"

inductive desk_run :: "desk \<Rightarrow> desk \<Rightarrow> bool" where
  desk_none: "desk_run d d"
| desk_more: "desk_run d e \<Longrightarrow> desk_step e f \<Longrightarrow> desk_run d f"

lemma desk_step_sound: "desk_step d e \<Longrightarrow> desk_sound d \<Longrightarrow> desk_sound e"
proof (induction rule: desk_step.induct)
  case (desk_lifecycle d a)
  then show ?case
    using lifecycle_step_lawful by (intro desk_sound_lawful) (auto simp: desk_sound_def)
qed (auto intro: carefulD [OF careful_assess] carefulD [OF careful_respond] carefulD [OF careful_policy]
    carefulD [OF careful_batch])

lemma desk_run_sound: "desk_run d e \<Longrightarrow> desk_sound d \<Longrightarrow> desk_sound e"
  by (induction rule: desk_run.induct) (auto intro: desk_step_sound)

definition new_desk :: "sched_config \<Rightarrow> exn option list \<Rightarrow> desk" where
  "new_desk config faults = \<lparr>dk_app = new_application config new_mem_store [] faults, dk_forwards = []\<rparr>"

lemma new_desk_sound: "desk_sound (new_desk config faults)"
  by (simp add: desk_sound_def new_desk_def new_application_sound)


definition asking_env :: app_env where
  "asking_env = example_env\<lparr>env_call := (\<lambda>_ _. Inr (JObj [(''status'', JStr ''waiting_input''),
     (''approvals'', JArr [JObj [(''method'', JStr ''m'')]])]))\<rparr>"

definition example_ctx :: app_ctx where
  "example_ctx = \<lparr>cx_env = asking_env, cx_parse = (\<lambda>_. None), cx_principal = \<lparr>subject_id = ''me'', subject_source = ''process''\<rparr>,
     cx_policy = allow_configured_workspaces [''demo''], cx_grant = None, cx_account = AccountRef ''acct'',
     cx_runtime = RuntimeRef ''host'', cx_config = [], cx_revision = 3, cx_default_backend = ''codex'',
     cx_workspaces = [(''demo'', ''/w'')], cx_resolve = (\<lambda>p. p), cx_backends = [(''codex'', ''codex'')],
     cx_adapters = [''codex''], cx_session_lock = (\<lambda>_. None), cx_task_lock = (\<lambda>_. None), cx_run_lock = (\<lambda>_. None)\<rparr>"

definition example_desk_env :: approval_env where
  "example_desk_env = \<lparr>av_ctx = example_ctx, av_policy_env = example_policy_env, av_policy = example_policy,
     av_control = (\<lambda>_ _ _ _ _. None),
     av_respond = (\<lambda>_ _ _. Inr (JObj [(''status'', JStr ''running''), (''native_confirmed'', JBool True)]))\<rparr>"

definition ready_app :: app where
  "ready_app = snd (restart asking_env example_config 3 (new_application example_config new_mem_store [] []))"

definition asked_desk :: desk where
  "asked_desk = \<lparr>dk_app = snd (submit_tail asking_env example_intent example_task example_run example_session True
     ''codex'' ''/w'' ready_app), dk_forwards = []\<rparr>"

definition example_answer :: dict where
  "example_answer = [(''approval_id'', JStr ''apr_1''), (''decision'', JStr ''approve'')]"

definition answered_desk :: desk where
  "answered_desk = snd (approval_respond example_desk_env example_answer None asked_desk)"

lemma answered_forwards: "dk_forwards answered_desk = [(RunId ''run_1'', JStr ''h'')]"
  by code_simp

lemma ready_fresh: "fresh_intent example_intent example_run ready_app"
  by (simp add: ready_app_def restart_def ms_bootstrap_applied_revision_def restore_scheduler_def andthen_def
      drain_queue_def asking_env_def example_env_def fresh_intent_def new_application_def new_mem_store_def
      ms_list_task_ids_def new_scheduler_def example_run_def ms_find_operation_for_run_def)

lemma asked_run: "desk_run (new_desk example_config []) asked_desk"
proof -
  let ?d = "new_desk example_config []"
  have "desk_step ?d (?d\<lparr>dk_app := ready_app\<rparr>)"
    using desk_lifecycle [OF step_restart [of "dk_app ?d" asking_env example_config 3]]
    by (simp add: ready_app_def new_desk_def)
  moreover have "lifecycle_step (dk_app (?d\<lparr>dk_app := ready_app\<rparr>)) (dk_app asked_desk)"
    using step_submit [OF ready_fresh] by (simp add: asked_desk_def)
  from desk_lifecycle [OF this] have "desk_step (?d\<lparr>dk_app := ready_app\<rparr>) asked_desk"
    by (simp add: asked_desk_def new_desk_def)
  ultimately show ?thesis by (blast intro: desk_none desk_more)
qed


section \<open>What may be forwarded\<close>

lemma at_app_forwards [simp]: "dk_forwards (snd (at_app m d)) = dk_forwards d"
  by (simp add: at_app_def split: prod.split)

lemma and_then_read: "and_then (desk_read f) g d = (case f (ap_store (dk_app d)) of Inl e \<Rightarrow> (Inl e, d) | Inr x \<Rightarrow> g x d)"
  by (simp add: and_then_def desk_read_def split: sum.split)

lemma forward_answer_log:
  "dk_forwards (snd (forward_answer av decision ap r d))
     \<in> {dk_forwards d, (r_id r, JStr (ap_target_hash ap)) # dk_forwards d}"
proof -
  have on: "dk_forwards c = dk_forwards d" if "at_app m d = (v, c)" for m :: "'b action" and v c d
    using at_app_forwards [of m d] that by simp
  show ?thesis
    by (auto simp: forward_answer_def and_then_def log_forward_def answered_def desk_read_def dest!: on
        split: prod.splits sum.splits)
qed

text \<open>
  C6. An answer reaches a backend only while it may: when an answer of the user or of the
  policy is forwarded, it is one answer for the stored approval the caller named, which is
  pending and has not expired; its run is the current one of its task, waits for input, is
  not being cancelled, is no review and has not tried this request before; the task is not
  paused, is run by the core and belongs to this account, host, workspace and an equivalent
  configuration; the request is still the one that was approved; the caller is authorized
  and granted; and an answer of the policy is what the policy approves at this moment.
\<close>

theorem forwarded_only_while_waiting:
  assumes "dk_forwards (snd (approval_respond av payload assessment d)) \<noteq> dk_forwards d"
  shows "\<exists>ap t r. dk_forwards (snd (approval_respond av payload assessment d))
        = (r_id r, JStr (ap_target_hash ap)) # dk_forwards d
    \<and> ms_get_approval (ap_store (dk_app d)) (ApprovalId (text_field (av_ctx av) payload ''approval_id'')) = Inr ap
    \<and> ap_state ap = Ap_PENDING \<and> \<not> approval_expired av ap
    \<and> ms_get_task (ap_store (dk_app d)) (ap_task_id ap) = Inr t
    \<and> ms_get_run (ap_store (dk_app d)) (ap_run_id ap) = Inr r
    \<and> t_current_run_id t = Some (ap_run_id ap) \<and> r_status r = Rs_WAITING_INPUT \<and> \<not> r_cancel_requested r
    \<and> r_role r \<noteq> ''review'' \<and> JStr (ap_target_hash ap) \<notin> set (r_approval_attempts r)
    \<and> \<not> t_paused t \<and> t_orchestration_owner t = ''core''
    \<and> t_account_ref t = Some (cx_account (av_ctx av)) \<and> t_runtime_ref t = Some (cx_runtime (av_ctx av))
    \<and> (t_workspace_root t = [] \<or> resolved_root (av_ctx av) (t_workspace t) = Some (t_workspace_root t))
    \<and> (t_config_revision t = cx_revision (av_ctx av)
       \<or> t_execution_digest t = execution_digest (env_hash (av_env av)) (cx_config (av_ctx av)))
    \<and> ap_target_hash ap = approved_target (av_env av) t r ap
    \<and> policy_check (av_ctx av) ''approval.respond'' (t_workspace t) = Inr ()
    \<and> grant_check (av_ctx av) (t_workspace t) = Inr ()
    \<and> (assessment \<noteq> None \<longrightarrow> (\<exists>latest. assess_now av ap t r = Inr latest \<and> dget latest ''decision'' = JStr ''approve''))"
proof -
  let ?s = "ap_store (dk_app d)"
  from assms obtain ap t r where c: "approval_context av payload True ?s = Inr (ap, t, r)"
    by (auto simp: approval_respond_def and_then_read split: sum.splits)
  with assms obtain decision ap' where p: "confirm_policy av assessment ap t r = Inr ap'"
    and e: "snd (approval_respond av payload assessment d) = snd (forward_answer av decision ap' r d)"
    by (auto simp: approval_respond_def and_then_read split: sum.splits)
  have "dk_forwards (snd (approval_respond av payload assessment d))
      = (r_id r, JStr (ap_target_hash ap)) # dk_forwards d"
    using forward_answer_log [of av decision ap' r d] assms e confirm_policy_hash [OF p] by auto
  moreover have "assessment \<noteq> None \<longrightarrow>
      (\<exists>latest. assess_now av ap t r = Inr latest \<and> dget latest ''decision'' = JStr ''approve'')"
    using p by (auto simp: confirm_policy_def bind_res_Inr_iff split: if_splits)
  moreover note approval_context_Inr [OF c]
  moreover from this have "t_current_run_id t = Some (ap_run_id ap)" "r_status r = Rs_WAITING_INPUT"
    "\<not> r_cancel_requested r" "\<not> t_paused t" "t_orchestration_owner t = ''core''"
    "ap_target_hash ap = approved_target (av_env av) t r ap"
    by (simp_all add: still_waiting_def)
  moreover note assert_task_binding_Inr [OF approval_context_Inr(10) [OF c]]
  ultimately show ?thesis
    by (intro exI [of _ ap] exI [of _ t] exI [of _ r] conjI) assumption+
qed

theorem forwarded_only_while_waiting_witness:
  "\<exists>ap :: approval_request. dk_forwards answered_desk = (RunId ''run_1'', JStr (ap_target_hash ap)) # dk_forwards asked_desk
     \<and> ap_state ap = Ap_PENDING"
proof -
  have "dk_forwards asked_desk = []" by (simp add: asked_desk_def)
  with answered_forwards have n: "dk_forwards (snd (approval_respond example_desk_env example_answer None asked_desk))
      \<noteq> dk_forwards asked_desk" by (simp add: answered_desk_def)
  from forwarded_only_while_waiting [OF n] obtain ap :: approval_request and r :: run where
    "dk_forwards (snd (approval_respond example_desk_env example_answer None asked_desk))
      = (r_id r, JStr (ap_target_hash ap)) # dk_forwards asked_desk" "ap_state ap = Ap_PENDING"
    by blast
  with answered_forwards show ?thesis by (intro exI [of _ ap]) (simp add: answered_desk_def)
qed

end
