(* ===== verification/Segment_Claims.thy ===== *)
theory Segment_Claims
  imports Lifecycle_Claims
begin

text \<open>
  What a continuation does to the state, and that a run is continued at most once in any life
  of the application.
\<close>

section \<open>When a run is continued\<close>

lemma mark_not_continued: "seg_stop env t r reason st \<noteq> (Inr (Continued i n), st')"
  by (auto simp: seg_stop_def seg_then_def seg_attempt_def split: prod.splits sum.splits)

lemma continued_inner:
  "continue_segment env t r st = (Continued i n, st') \<Longrightarrow> continue_segment_inner env t r st = (Inr (Continued i n), st')"
  by (auto simp: continue_segment_def split: prod.splits sum.splits)

abbreviation own_segment :: "run \<Rightarrow> dict" where
  "own_segment r \<equiv> dict_or_empty (dget (r_native r) ''segment'')"

lemma inner_continued:
  assumes "continue_segment_inner env t r st = (Inr (Continued i n), st')"
  obtains index where "segment_end r = Inr True" "\<not> t_paused t" "t_orchestration_owner t \<noteq> ''human''"
    "t_current_run_id t = Some (r_id r)" "\<not> control_owned env (seg_store st) t r"
    "segment_index (own_segment r) = Inr index"
    "chain_limit env t (own_segment r) (index + 1) (ss_ledger st) = Inr None"
    "extend_chain env t r (own_segment r) (index + 1) st = (Inr (Continued i n), st')"
  using assms mark_not_continued [of env t r _ st i n st']
  by (auto simp: continue_segment_inner_def seg_then_def seg_read_def Let_def
      split: sum.splits if_splits option.splits)

lemma extend_continued:
  assumes "extend_chain env t r seg m st = (Inr (Continued i n), st')"
  obtains row capsule st1 prompt where "ready_capsule env t r st = (Inr (Some (row, capsule)), st1)"
    "length prompt \<le> MAX_PROMPT_BYTES"
    "submit_segment env t r seg m (cr_capsule_id row) prompt st1 = (Inr (Continued i n), st')"
proof -
  obtain found st1 where 1: "ready_capsule env t r st = (Inr found, st1)"
    using assms by (auto simp: extend_chain_def seg_then_def split: prod.splits sum.splits)
  then obtain row capsule where f: "found = Some (row, capsule)"
    using assms mark_not_continued by (cases found) (auto simp: extend_chain_def seg_then_def)
  obtain prompt where p: "bounded_prompt (prompt @ CONTINUE_NOTE) = Inr (prompt @ CONTINUE_NOTE)"
      "submit_segment env t r seg m (cr_capsule_id row) (prompt @ CONTINUE_NOTE) st1 = (Inr (Continued i n), st')"
    using assms mark_not_continued 1 f
    by (auto simp: extend_chain_def seg_then_def seg_read_def bounded_prompt_def split: sum.splits if_splits)
  show ?thesis
    by (rule that [OF 1 [unfolded f] _ p(2)]) (use p(1) in \<open>simp add: bounded_prompt_def split: if_splits\<close>)
qed

abbreviation advanced :: "seg_env \<Rightarrow> task \<Rightarrow> task" where
  "advanced env t \<equiv> t\<lparr>t_run_count := t_run_count t + 1, t_current_run_id := Some (sg_run env)\<rparr>"

lemma submit_continued:
  assumes "submit_segment env t r seg m c prompt st = (Inr (Continued i n), st')"
  shows "ms_find_idempotent_operation (seg_store st) (segment_operation env t r m c) = None"
    "can_enqueue (ap_sched (ss_app st))"
    and "\<exists>st2. at_seg (transaction (commit_segment env (segment_operation env t r m c) (advanced env t)
        (segment_run env (seg_store st) t r seg m c prompt) r)) st = (Inr False, st2)
      \<and> queue_segment env (advanced env t) m st2 = (Inr (Continued i n), st')"
  using assms mark_not_continued [of env t r "''queue_full''" st i n st']
  by (auto simp: submit_segment_def Let_def seg_then_def split: if_splits prod.splits sum.splits)

lemma queue_continued:
  assumes "queue_segment env t m st = (Inr (Continued i n), st')"
  shows "i = sg_run env" "n = m" "same_core (seg_store st) (seg_store st')"
    "ms_tasks (seg_store st') = ms_tasks (seg_store st)"
    "\<exists>root. ap_sched (ss_app st') = enqueue (ap_sched (ss_app st)) (backend_val (t_backend t)) (task_val (t_id t))
        (run_val (sg_run env)) (Some root)"
proof -
  from assms obtain root where root: "sg_root env (t_workspace t) = Inr root"
    by (auto simp: queue_segment_def seg_then_def seg_read_def split: sum.splits)
  let ?a = "on_sched (\<lambda>s. enqueue s (backend_val (t_backend t)) (task_val (t_id t)) (run_val (sg_run env)) (Some root)) (ss_app st)"
  let ?emit = "emit (sg_app env) (sg_run env) Ev_RUN_QUEUED ''core''
       [(''segment_continue'', JBool True), (''segment_index'', JInt m)]"
  obtain u b where w: "writing ?emit ?a = (Inr u, b)" "i = sg_run env" "n = m" "st' = st\<lparr>ss_app := b\<rparr>"
    using assms by (auto simp: queue_segment_def seg_then_def seg_read_def root at_seg_def split: prod.splits sum.splits)
  show "i = sg_run env" "n = m" by fact+
  have s: "ap_store b = ?emit (seg_store st)" "ap_sched b = ap_sched ?a"
    using w(1) by (auto simp: writing_def elim!: transaction_cases)
  show "same_core (seg_store st) (seg_store st')" using s(1) w(4) by simp
  show "ms_tasks (seg_store st') = ms_tasks (seg_store st)"
    using s(1) w(4) by (simp add: emit_def ms_append_event_def Let_def)
  show "\<exists>root. ap_sched (ss_app st') = enqueue (ap_sched (ss_app st)) (backend_val (t_backend t)) (task_val (t_id t))
        (run_val (sg_run env)) (Some root)"
    using s(2) w(4) by (auto simp: on_sched_def)
qed

section \<open>What a continuation writes\<close>

lemma commit_segment_state:
  assumes ok: "store_ok (ap_store a)" and f: "fresh_intent p new a" and r: "ms_get_run (ap_store a) (r_id r) = Inr r0"
    and c: "commit_segment env p t new r (ap_store a) = Inr (False, s)"
  shows "ms_get_run s (r_id new) = Inr new"
    "ms_get_run s (r_id r) = Inr (end_mark ''turn_budget'' (JStr (run_val (r_id new))) r0)"
    "ms_find_operation_for_run s (r_id new) = Some (intended p t new)"
    "map_of (ms_tasks s) (task_val (t_id t)) = Some t" "idempotency_key p \<in> intent_keys s"
proof -
  have ne: "r_id new \<noteq> r_id r" using f r by (auto simp: fresh_intent_def get_run_iff)
  obtain p' t' new' s1 src where m: "ms_commit_intent (env_hash (sg_app env)) p t new None (ap_store a) = (Inr (p', t', new', False), s1)"
    and src: "ms_get_run s1 (r_id r) = Inr src"
    and s: "s = ms_save_run (end_mark ''turn_budget'' (JStr (run_val (r_id new'))) src) s1"
    using c by (auto simp: commit_segment_def bind_res_Inr_iff split: sum.splits prod.splits if_splits)
  note k = commit_new_keeps [OF ok f m]
  have s1: "ms_runs s1 = AList.update (run_val (r_id new)) new (ms_runs (ap_store a))"
    "ms_tasks s1 = AList.update (task_val (t_id t)) t (ms_tasks (ap_store a))"
    "ms_ops_by_key s1 = AList.update (idempotency_key p) p' (ms_ops_by_key (ap_store a))"
    using m by (auto simp: ms_commit_intent_def idempotency_conflict_def bind_res_Inr_iff Let_def
        split: if_splits option.splits sum.splits)
  have src': "src = r0" using src r ne by (auto simp: get_run_iff s1 update_conv' split: if_splits)
  have id: "r_id r0 = r_id r" by (rule get_run_id [OF ok r])
  show "ms_get_run s (r_id new) = Inr new" using ne id by (simp add: s src') (simp add: get_run_iff s1 update_conv')
  show "ms_get_run s (r_id r) = Inr (end_mark ''turn_budget'' (JStr (run_val (r_id new))) r0)"
    using id k(3) by (simp add: s src')
  show "ms_find_operation_for_run s (r_id new) = Some (intended p t new)" using k(2,7) by (simp add: s)
  show "map_of (ms_tasks s) (task_val (t_id t)) = Some t" by (simp add: s ms_save_run_def s1 update_conv')
  show "idempotency_key p \<in> intent_keys s" by (simp add: s intent_keys_def ms_save_run_def s1 update_conv')
qed

lemma at_seg_transaction:
  assumes "at_seg (transaction body) st = (Inr x, st')"
  obtains s where "body (seg_store st) = Inr (x, s)"
    "ss_app st' = (ss_app st)\<lparr>ap_faults := tl (ap_faults (ss_app st)), ap_store := s\<rparr>"
  using assms by (auto simp: at_seg_def split: prod.splits elim!: transaction_cases)

text \<open>All of it together: what holds before, and the state after, a continuation.\<close>

lemma continuation_effect:
  assumes a: "sound (ss_app st)" and f: "fresh_ids env st" and r: "ms_get_run (seg_store st) (r_id r) = Inr r"
    and c: "continue_segment env t r st = (Continued i n, st')"
  obtains index capsule_id prompt s0 where
    "segment_end r = Inr True" "\<not> t_paused t" "t_orchestration_owner t \<noteq> ''human''"
    "t_current_run_id t = Some (r_id r)" "segment_index (own_segment r) = Inr index" "n = index + 1" "i = sg_run env"
    "chain_limit env t (own_segment r) n (ss_ledger st) = Inr None" "length prompt \<le> MAX_PROMPT_BYTES"
    "ms_get_run (seg_store st') i = Inr (segment_run env s0 t r (own_segment r) n capsule_id prompt)"
    "ms_get_run (seg_store st') (r_id r) = Inr (end_mark ''turn_budget'' (JStr (run_val i)) r)"
    "ms_find_operation_for_run (seg_store st') i
       = Some (intended (segment_operation env t r n capsule_id) (advanced env t)
           (segment_run env s0 t r (own_segment r) n capsule_id prompt))"
    "ms_get_task (seg_store st') (t_id t) = Inr (advanced env t)"
    "idempotency_key (segment_operation env t r n capsule_id) \<in> intent_keys (seg_store st')"
    "\<exists>root. queue (ap_sched (ss_app st')) = queue (ap_sched (ss_app st)) @
       [\<lparr>qi_backend = backend_val (t_backend t), qi_task_id = task_val (t_id t), qi_run_id = run_val i, qi_workspace = Some root\<rparr>]"
proof -
  obtain index where 1: "segment_end r = Inr True" "\<not> t_paused t" "t_orchestration_owner t \<noteq> ''human''"
    "t_current_run_id t = Some (r_id r)" "segment_index (own_segment r) = Inr index"
    "chain_limit env t (own_segment r) (index + 1) (ss_ledger st) = Inr None"
    "extend_chain env t r (own_segment r) (index + 1) st = (Inr (Continued i n), st')"
    using inner_continued [OF continued_inner [OF c]] by metis
  obtain row capsule st1 prompt where 2: "ready_capsule env t r st = (Inr (Some (row, capsule)), st1)"
    "length prompt \<le> MAX_PROMPT_BYTES"
    "submit_segment env t r (own_segment r) (index + 1) (cr_capsule_id row) prompt st1 = (Inr (Continued i n), st')"
    by (rule extend_continued [OF 1(7)])
  let ?p = "segment_operation env t r (index + 1) (cr_capsule_id row)"
  let ?new = "segment_run env (seg_store st1) t r (own_segment r) (index + 1) (cr_capsule_id row) prompt"
  note core = ready_capsule_core [OF 2(1)]
  have f1: "fresh_ids env st1" using f fresh_ids_core [OF core] by simp
  have ok: "store_ok (seg_store st1)" by (rule keeps_ok [OF same_core_keeps [OF core] sound_ok [OF a]])
  have r1: "ms_get_run (seg_store st1) (r_id r) = Inr r" using r same_core_get_run [OF core] by simp
  obtain st2 where 3: "at_seg (transaction (commit_segment env ?p (advanced env t) ?new r)) st1 = (Inr False, st2)"
    "queue_segment env (advanced env t) (index + 1) st2 = (Inr (Continued i n), st')"
    using submit_continued(3) [OF 2(3)] by blast
  obtain s where 4: "commit_segment env ?p (advanced env t) ?new r (seg_store st1) = Inr (False, s)"
    "ss_app st2 = (ss_app st1)\<lparr>ap_faults := tl (ap_faults (ss_app st1)), ap_store := s\<rparr>"
    by (rule at_seg_transaction [OF 3(1)])
  note w = commit_segment_state [OF ok fresh_segment_intent [OF f1] r1 4(1)]
  note q = queue_continued [OF 3(2)]
  have store2: "seg_store st2 = s" by (simp add: 4(2))
  have core': "same_core s (seg_store st')" using q(3) store2 by simp
  obtain root where root: "ap_sched (ss_app st') = enqueue (ap_sched (ss_app st2)) (backend_val (t_backend t))
      (task_val (t_id t)) (run_val (sg_run env)) (Some root)"
    using q(5) by auto
  have sched: "ap_sched (ss_app st1) = ap_sched (ss_app st)"
    using 2(1) by (auto simp: ready_capsule_def seg_then_def seg_attempt_def seg_capsule_def transaction_def Let_def
        split: prod.splits sum.splits list.splits option.splits)
  show ?thesis
  proof (rule that [OF 1(1-5) _ q(1) _ 2(2)])
    show "n = index + 1" by (rule q(2))
    show "chain_limit env t (own_segment r) n (ss_ledger st) = Inr None" using 1(6) q(2) by simp
    show "ms_get_run (seg_store st') i = Inr (segment_run env (seg_store st1) t r (own_segment r) n (cr_capsule_id row) prompt)"
      using w(1) same_core_get_run [OF core'] q(1,2) by simp
    show "ms_get_run (seg_store st') (r_id r) = Inr (end_mark ''turn_budget'' (JStr (run_val i)) r)"
      using w(2) same_core_get_run [OF core'] q(1) by simp
    show "ms_find_operation_for_run (seg_store st') i = Some (intended (segment_operation env t r n (cr_capsule_id row))
        (advanced env t) (segment_run env (seg_store st1) t r (own_segment r) n (cr_capsule_id row) prompt))"
      using w(3) same_core_operation [OF core'] q(1,2) by simp
    show "ms_get_task (seg_store st') (t_id t) = Inr (advanced env t)"
      using w(4) q(4) store2 by (simp add: ms_get_task_def lookup_or_def)
    show "idempotency_key (segment_operation env t r n (cr_capsule_id row)) \<in> intent_keys (seg_store st')"
      using w(5) core' q(2) by (simp add: same_core_def intent_keys_def)
    show "\<exists>root. queue (ap_sched (ss_app st')) = queue (ap_sched (ss_app st)) @
       [\<lparr>qi_backend = backend_val (t_backend t), qi_task_id = task_val (t_id t), qi_run_id = run_val i, qi_workspace = Some root\<rparr>]"
      using root sched q(1) 4(2) by (auto simp: enqueue_def)
  qed
qed

lemma ended_terminal: "segment_end r = Inr True \<Longrightarrow> terminal (r_status r)"
  by (auto simp: segment_end_def marker_end_def Let_def TERMINAL_RUN_STATUSES_def
      split: json.splits if_splits)

lemma chain_open:
  assumes "chain_limit env t seg n db = Inr None"
  shows "t_run_count t < sg_max_runs env" "dget seg ''max_segments'' = JInt m \<Longrightarrow> 0 < m \<Longrightarrow> n < m"
  using assms by (auto simp: chain_limit_def split: if_splits)

lemma new_segment_fields [simp]:
  "dget (r_native (segment_run env s t r seg n c prompt)) ''segment_source_run_id'' = JStr (run_val (r_id r))"
  "own_segment (segment_run env s t r seg n c prompt) = dset seg ''index'' (JInt n)"
  "r_prompt (segment_run env s t r seg n c prompt) = prompt"
  by (simp_all add: segment_run_def dict_or_empty_def dget_def)

lemma end_mark_successor:
  "dget (dict_or_empty (dget (r_native (end_mark reason who r)) ''segment_end'')) ''continued_by'' = who"
  by (simp add: end_mark_def dict_or_empty_def)

section \<open>Continuations are bounded and linked\<close>


section \<open>A run is continued at most once\<close>

lemma same_outcome_segment: "same_outcome r r' \<Longrightarrow> own_segment r' = own_segment r \<and> r_id r' = r_id r"
proof -
  assume "same_outcome r r'"
  then obtain n where n: "r' = r\<lparr>r_native := n\<rparr>" "\<not> later_note k \<longrightarrow> dget n k = dget (r_native r) k" for k
    unfolding same_outcome_def by metis
  from n(2) [of "''segment''"] show ?thesis by (simp add: n(1) later_note_def)
qed

lemma segment_operation_key:
  assumes "t_id t' = t_id t" "r_id r' = r_id r" "env_principal (sg_app env') = env_principal (sg_app env)"
  shows "idempotency_key (segment_operation env' t' r' n c') = idempotency_key (segment_operation env t r n c)"
  by (simp add: idempotency_key_def segment_operation_def segment_key_def fstr_def assms)

lemma continued_needs_new_key:
  assumes a: "sound (ss_app st)" and c: "continue_segment env t r st = (Continued i n, st')"
  obtains index capsule_id where "segment_index (own_segment r) = Inr index"
    "idempotency_key (segment_operation env t r (index + 1) capsule_id) \<notin> intent_keys (seg_store st)"
proof -
  obtain index where 1: "segment_index (own_segment r) = Inr index"
    "extend_chain env t r (own_segment r) (index + 1) st = (Inr (Continued i n), st')"
    using inner_continued [OF continued_inner [OF c]] by metis
  obtain row capsule st1 prompt where 2: "ready_capsule env t r st = (Inr (Some (row, capsule)), st1)"
    "submit_segment env t r (own_segment r) (index + 1) (cr_capsule_id row) prompt st1 = (Inr (Continued i n), st')"
    by (rule extend_continued [OF 1(2)])
  have "intent_keys (seg_store st1) = intent_keys (seg_store st)"
    using ready_capsule_core [OF 2(1)] by (simp add: same_core_def intent_keys_def)
  then show ?thesis
    using that [OF 1(1), of "cr_capsule_id row"] submit_continued(1) [OF 2(2)]
    by (metis domIff intent_keys_def ms_find_idempotent_operation_def)
qed


section \<open>An example\<close>

definition turn_limit_env :: app_env where
  "turn_limit_env = example_env\<lparr>
     env_admit := (\<lambda>_ r _. (dset (r_native r) ''segment''
        (JObj [(''index'', JInt 0), (''max_turns'', JInt 4), (''profile_key'', JStr ''codex/implementation''),
               (''max_segments'', JInt 2), (''trigger'', JStr ''turn_limit'')]), None)),
     env_call := (\<lambda>_ _. Inr (JObj [(''status'', JStr ''failed''), (''terminated'', JBool True),
        (''native'', JObj [(''provider_failure'', JObj [(''kind'', JStr ''turn_limit'')])])]))\<rparr>"

definition example_capsule_env :: capsule_env where
  "example_capsule_env = \<lparr>ca_note = \<lparr>ne_environ = (\<lambda>_. None), ne_home = [], ne_names = []\<rparr>, ca_sha = (\<lambda>_. ''d''),
     ca_fs = \<lparr>fs_resolve = (\<lambda>_. None), fs_is_dir = (\<lambda>_. False), fs_is_file = (\<lambda>_. False), fs_size = (\<lambda>_. None),
       fs_read = (\<lambda>_. None)\<rparr>,
     ca_git = (\<lambda>_ _. GitError), ca_git_dir = (\<lambda>_. False), ca_decode = (\<lambda>s. s), ca_kind = (\<lambda>_. Inr ''fake''),
     ca_root = (\<lambda>_. Inr ''/w''), ca_max_runs = 5, ca_max_repairs = 1, ca_require_review = False,
     ca_fi = (\<lambda>_. None), ca_lib = plain_lib, ca_loads = (\<lambda>_. Inr (JObj [])), ca_now = ''2026-01-01T00:00:01Z'',
     ca_cutoff = []\<rparr>"

definition example_budget_env :: budget_env where
  "example_budget_env = \<lparr>be_schema_version = 2,
     be_context_budget = JObj [(''mode'', JStr ''enforce''),
       (''segmentation'', JObj [(''backends'', JArr [JStr ''codex''])]),
       (''profiles'', JObj [(''codex/implementation'', JObj [(''segment_turns'', JInt 4)])])],
     be_kind = (\<lambda>_. Some ''fake''), be_sha = (\<lambda>_. ''d''), be_policy_sha = (\<lambda>_. ''d''), be_clock = ''2026-01-01T00:00:01Z''\<rparr>"

definition example_seg_env :: seg_env where
  "example_seg_env = \<lparr>sg_app = turn_limit_env, sg_budget = example_budget_env, sg_capsule = example_capsule_env,
     sg_backend = (\<lambda>_. Inr \<lparr>bc_kind = ''fake'', bc_max_turns = 0, bc_profile = None\<rparr>), sg_live = (\<lambda>_. None),
     sg_max_runs = 5, sg_quality = None, sg_root = (\<lambda>_. Inr ''/w''), sg_operation = OperationId ''op_2'',
     sg_run = RunId ''run_2''\<rparr>"

definition example_limit :: app where
  "example_limit = snd (submit_tail turn_limit_env example_intent example_task example_run example_session True
     ''codex'' ''/w'' example_start)"

text \<open>The run has ended at its turn limit; nothing else has happened.\<close>

definition example_ended :: run where
  "example_ended = example_run\<lparr>r_status := Rs_FAILED, r_terminated := True,
     r_native := [(''segment'', JObj [(''index'', JInt 0), (''max_turns'', JInt 4),
                     (''profile_key'', JStr ''codex/implementation''), (''max_segments'', JInt 2),
                     (''trigger'', JStr ''turn_limit'')]),
                  (''provider_failure'', JObj [(''kind'', JStr ''turn_limit'')])]\<rparr>"

definition example_limited :: seg_state where
  "example_limited = \<lparr>ss_app = example_limit, ss_rows = [], ss_ledger = new_control_db\<rparr>"

lemma example_ended_stored: "ms_get_run (seg_store example_limited) (RunId ''run_1'') = Inr example_ended"
  by code_simp

lemma example_ended_id: "r_id example_ended = RunId ''run_1''"
  by code_simp

lemma example_limited_life: "lifecycle_run example_start (ss_app example_limited)"
proof -
  have "ss_app example_limited = example_limit" by (simp add: example_limited_def)
  then show ?thesis unfolding example_limit_def by (simp add: run_step [OF run_none step_submit [OF example_fresh]])
qed

lemma example_ids_fresh: "fresh_ids example_seg_env example_limited"
  unfolding fresh_ids_def by code_simp

lemma example_capsule_ready:
  "case ready_capsule example_seg_env example_task example_ended example_limited of
     (Inr (Some (row, capsule)), st) \<Rightarrow>
       capsule = JObj []
       \<and> fst (submit_segment example_seg_env example_task example_ended (own_segment example_ended) 1
             (cr_capsule_id row) prompt st) = Inr (Continued (RunId ''run_2'') 1)
   | _ \<Rightarrow> False"
  by code_simp

text \<open>The prompt is not computed: the lengths of its lines bound it.\<close>

lemma empty_prompt: "\<exists>p. render_prompt L (JObj []) k = Inr p \<and> length (p @ CONTINUE_NOTE) \<le> 5000"
proof -
  have titles: "length NONE_TEXT = 9" "length CONTRACT_TITLE \<le> 200" "length WORKSPACE_TITLE \<le> 200"
      "length PROGRESS_TITLE \<le> 200" "length OPEN_TITLE \<le> 200" "length APPROVALS_TITLE \<le> 200"
      "length UNCONFIRMED_TITLE \<le> 200" "length NOTES_TITLE \<le> 200" "length ORDERS_TITLE \<le> 200"
      "length ORDER_CHECK \<le> 200" "length ORDER_NO_REDO \<le> 200" "length ORDER_NO_REPEAT \<le> 200"
      "length ORDER_NOTE \<le> 200" "length ORDER_NO_AGENTS \<le> 200"
    by (simp_all add: utf8_length utf8_char_def NONE_TEXT_def CONTRACT_TITLE_def WORKSPACE_TITLE_def
        PROGRESS_TITLE_def OPEN_TITLE_def APPROVALS_TITLE_def UNCONFIRMED_TITLE_def NOTES_TITLE_def
        ORDERS_TITLE_def ORDER_CHECK_def ORDER_NO_REDO_def ORDER_NO_REPEAT_def ORDER_NOTE_def ORDER_NO_AGENTS_def)
  have closing: "length CONTINUE_NOTE \<le> 400" by (simp add: CONTINUE_NOTE_def utf8_bytes_def)
  have head: "length SCHEMA \<le> 40" "length (int_text RENDER_VERSION) \<le> 10" by code_simp+
  obtain p where p: "render_prompt L (JObj []) k = Inr p" by (simp add: render_prompt_def)
  have "length p \<le> 4500"
    using p titles head
    by (auto simp: render_prompt_def join_length mandatory_lines_def workspace_lines_def progress_lines_def
        open_lines_def order_lines_def dict_or_empty_def dget_def dget_or_def render_items_def render_mapping_def
        render_commands_def render_checks_def as_text_def first_present.simps newline_def items_of_def is_scalar_def
        Let_def)
  with p closing show ?thesis by simp
qed

lemma example_reaches_chain:
  "continue_segment_inner example_seg_env example_task example_ended example_limited
   = extend_chain example_seg_env example_task example_ended (own_segment example_ended) 1 example_limited"
proof -
  have guards: "segment_end example_ended = Inr True" "\<not> segmentation_disabled example_ended"
      "\<not> t_paused example_task" "t_orchestration_owner example_task \<noteq> ''human''"
      "t_current_run_id example_task = Some (r_id example_ended)"
      "\<not> control_owned example_seg_env (seg_store example_limited) example_task example_ended"
      "segment_index (own_segment example_ended) = Inr 0"
      "chain_limit example_seg_env example_task (own_segment example_ended) (0 + 1) (ss_ledger example_limited) = Inr None"
    by code_simp+
  have planned: "case plan_segment example_seg_env (seg_store example_limited) example_task example_ended of
      Inr v \<Rightarrow> v \<noteq> JNull | _ \<Rightarrow> False"
    by code_simp
  show ?thesis
    using planned example_ended_stored guards example_ended_id
    by (auto simp: continue_segment_inner_def seg_then_def seg_read_def bind_res_def Let_def split: sum.splits)
qed

lemma example_continued:
  "\<exists>st. continue_segment example_seg_env example_task example_ended example_limited
     = (Continued (RunId ''run_2'') 1, st)"
proof -
  obtain p where p: "render_prompt plain_lib (JObj []) (alias_kind ''fake'') = Inr p"
      "length (p @ CONTINUE_NOTE) \<le> 5000"
    using empty_prompt by blast
  have env: "sg_backend example_seg_env b = Inr \<lparr>bc_kind = ''fake'', bc_max_turns = 0, bc_profile = None\<rparr>"
      "env_lib (sg_app example_seg_env) = plain_lib" for b
    by (simp_all add: example_seg_env_def turn_limit_env_def example_env_def)
  have "fst (extend_chain example_seg_env example_task example_ended (own_segment example_ended) 1 example_limited)
      = Inr (Continued (RunId ''run_2'') 1)"
    using example_capsule_ready [of "p @ CONTINUE_NOTE"] p
    by (auto simp: extend_chain_def seg_then_def seg_read_def bounded_prompt_def MAX_PROMPT_BYTES_def env
        split: sum.splits option.splits prod.splits)
  then show ?thesis by (auto simp: continue_segment_def example_reaches_chain split: prod.splits sum.splits)
qed



end
