(* ===== verification/Spec2Isabelle.thy ===== *)
theory Spec2Isabelle
  imports Scheduler_Queue Contracts Control_Store Policy_Gate Store_Refinement Quota_Selection Lifecycle_Claims
    Capsule_Claims Budget_Ledger Control_Claims Quota_Observation Approval_Claims Segment_Claims
begin

text \<open>
  Asterun runs coding agents (Codex, Grok, Antigravity, Claude, external plugins) on the user's
  machine. A client submits a task; the application writes down the intent, queues a run, calls
  a backend, records what the backend answers and reconciles what it does not know. What makes
  such a program hard is that a call to a backend cannot be undone or repeated: it costs quota
  and changes files. So every part is built to write its intention first, to act at most once,
  and to keep what it does not know as unknown. This development models those parts and proves
  that they do.

  THE PARTS AND HOW THEY INTERACT. Paths are relative to \<^verbatim>\<open>src/asterun/\<close>.

  \<^item> \<open>Prelude\<close>, \<open>Json_Value\<close>, \<open>Json_Text\<close>, \<open>Text_Tools\<close>: JSON values and Python dictionaries,
    exceptions as values (\<open>exn\<close>, \<open>'a res = exn + 'a\<close>), canonical JSON and its text, and texts as
    UTF-8. Everything else is built on them.
  \<^item> \<open>Ids_Errors\<close> (\<^verbatim>\<open>ids.py\<close>, \<^verbatim>\<open>errors.py\<close>) and \<open>Contracts\<close> (\<^verbatim>\<open>contracts.py\<close>): identifiers,
    enumerations and records of tasks, runs, approvals, operations, events and sessions with
    their \<^verbatim>\<open>to_dict\<close> and \<^verbatim>\<open>from_dict\<close>.
  \<^item> \<open>Stores\<close> (\<^verbatim>\<open>store.py\<close>, \<^verbatim>\<open>sqlite_store.py\<close>): the state store of the application, once in
    memory (\<open>ms_\<dots>\<close>), once in a JSON file and once as SQLite tables (\<open>sq_\<dots>\<close>); \<open>Store_Refinement\<close>
    shows that the SQLite store answers as the memory store does.
  \<^item> \<open>Scheduler_Queue\<close> (\<^verbatim>\<open>scheduler.py\<close>): the bounded queue and the limits of concurrency.
  \<^item> \<open>Policy_Gate\<close> (\<^verbatim>\<open>policy.py\<close>): grants and the policies that admit a request.
  \<^item> \<open>Run_Lifecycle\<close>, \<open>Lifecycle_Safety\<close>, \<open>Lifecycle_Claims\<close> (\<^verbatim>\<open>application.py\<close>): from the queue to
    the backend and back. It composes the stores, the scheduler and the backends.
  \<^item> \<open>Control_Store\<close> (\<^verbatim>\<open>control_store.py\<close>): the transactional database of runner-control: entities
    with revisions, blobs, operations, event streams, the outbox, leases and reservations.
  \<^item> \<open>Control_Runtime\<close>, \<open>Control_Commands\<close>, \<open>Control_Advance\<close>, \<open>Control_Safety\<close>, \<open>Control_Claims\<close>
    (\<^verbatim>\<open>control.py\<close>, \<^verbatim>\<open>control_protocol.py\<close>): the runner-control service on that database. It
    hands an Action to the application and observes the run it became.
  \<^item> \<open>Quota_Selection\<close> (\<^verbatim>\<open>quota/selection.py\<close>): which backend a task is routed to.
  \<^item> \<open>Usage_Breakdown\<close> (\<^verbatim>\<open>usage/breakdown.py\<close>) and \<open>Budget_Ledger\<close> (\<^verbatim>\<open>context_budget/ledger.py\<close>):
    what a run used, and the token budget that admits the next run, on the control store.
  \<^item> \<open>Capsule_Model\<close>, \<open>Capsule_Render\<close>, \<open>Capsule_Claims\<close> (\<^verbatim>\<open>capsule/model.py\<close>): what one run
    hands to the run that continues it, and the prompt made of it.
\<close>

end
